(* ===== verification/Ratary_Prelude.thy ===== *)
theory Ratary_Prelude
  imports Complex_Main "HOL-Library.List_Lexorder" "HOL-Library.Char_ord" "HOL-Library.Multiset"
begin

section \<open>Shared vocabulary of the development\<close>

text \<open>
  What the components share: the parts of the JavaScript language and library the source uses
  on strings and arrays, the application errors of \<^verbatim>\<open>src/src/types/errors.ts\<close> as values, and the
  lemma collections and generic lemmas the component proofs rest on.

  A string is a list of characters; a character stands for a UTF-16 code unit below 256
  (Latin-1), which covers the identifiers, paths, header values, tags and timestamps the
  modelled code works on. Comparison of strings with \<open><\<close> is the lexicographic order on code
  units, as in JavaScript and in the binary collation of SQLite. Identifiers and times are
  ISO strings, kept as strings. A thrown error is an \<open>Inl\<close> of \<open>app_error\<close>, a returned value
  an \<open>Inr\<close>.
\<close>

named_theorems js_simps \<open>rewriting of the JavaScript string and array operations\<close>
named_theorems error_simps \<open>status, code and class of the application errors\<close>

subsection \<open>Strings\<close>

definition js_space :: "char \<Rightarrow> bool" where
  "js_space c \<longleftrightarrow> (of_char c :: nat) \<in> {9, 10, 11, 12, 13, 32, 160}"

definition js_trim_start :: "string \<Rightarrow> string" where
  "js_trim_start s = dropWhile js_space s"

definition js_trim_end :: "string \<Rightarrow> string" where
  "js_trim_end s = rev (dropWhile js_space (rev s))"

definition js_trim :: "string \<Rightarrow> string" where
  "js_trim s = js_trim_end (js_trim_start s)"

text \<open>
  The case mappings of Unicode restricted to Latin-1. The sharp s becomes two letters in upper
  case; the micro sign and the y with diaeresis, whose upper case lies outside Latin-1, stay.
\<close>

definition js_lower_char :: "char \<Rightarrow> char" where
  "js_lower_char c =
     (let n = (of_char c :: nat)
      in if (65 \<le> n \<and> n \<le> 90) \<or> (192 \<le> n \<and> n \<le> 222 \<and> n \<noteq> 215)
         then char_of (n + 32) else c)"

definition js_lower :: "string \<Rightarrow> string" where
  "js_lower s = map js_lower_char s"

definition js_upper_char :: "char \<Rightarrow> string" where
  "js_upper_char c =
     (let n = (of_char c :: nat)
      in if (97 \<le> n \<and> n \<le> 122) \<or> (224 \<le> n \<and> n \<le> 254 \<and> n \<noteq> 247)
         then [char_of (n - 32)] else if n = 223 then ''SS'' else [c])"

definition js_upper :: "string \<Rightarrow> string" where
  "js_upper s = concat (map js_upper_char s)"

definition js_starts_with :: "string \<Rightarrow> string \<Rightarrow> bool" where
  "js_starts_with s p \<longleftrightarrow> take (length p) s = p"

fun js_includes :: "string \<Rightarrow> string \<Rightarrow> bool" where
  "js_includes [] p = (p = [])"
| "js_includes (c # s) p = (js_starts_with (c # s) p \<or> js_includes s p)"

fun js_split :: "char \<Rightarrow> string \<Rightarrow> string list" where
  "js_split d [] = [[]]"
| "js_split d (c # s) =
     (if c = d then [] # js_split d s
      else (case js_split d s of [] \<Rightarrow> [[c]] | w # ws \<Rightarrow> (c # w) # ws))"

fun js_join :: "string \<Rightarrow> string list \<Rightarrow> string" where
  "js_join sep [] = []"
| "js_join sep [w] = w"
| "js_join sep (w # v # ws) = w @ sep @ js_join sep (v # ws)"

lemma js_lower_char_idem [simp]: "js_lower_char (js_lower_char c) = js_lower_char c"
proof -
  have "of_char c < (256 :: nat)" by simp
  then show ?thesis by (auto simp: js_lower_char_def Let_def)
qed

lemma js_lower_idem [simp, js_simps]: "js_lower (js_lower s) = js_lower s"
  by (simp add: js_lower_def)

lemma js_lower_Nil [simp, js_simps]: "js_lower s = [] \<longleftrightarrow> s = []"
  by (simp add: js_lower_def)

lemma js_lower_length [simp]: "length (js_lower s) = length s"
  by (simp add: js_lower_def)

lemma js_lower_append [js_simps]: "js_lower (s @ t) = js_lower s @ js_lower t"
  by (simp add: js_lower_def)

lemma js_space_lower: "js_space (js_lower_char c) \<longleftrightarrow> js_space c"
proof -
  have "of_char c < (256 :: nat)" by simp
  then show ?thesis by (auto simp: js_space_def js_lower_char_def Let_def)
qed

lemma js_trim_start_idem: "js_trim_start (js_trim_start s) = js_trim_start s"
  by (simp add: js_trim_start_def dropWhile_idem)

lemma js_trim_end_idem: "js_trim_end (js_trim_end s) = js_trim_end s"
  by (simp add: js_trim_end_def dropWhile_idem)

lemma dropWhile_hd: "dropWhile P xs = xs \<longleftrightarrow> (xs = [] \<or> \<not> P (hd xs))"
  by (cases xs) (auto dest: dropWhile_eq_Cons_conv [THEN iffD1])

lemma js_trim_end_prefix: "\<exists>t. s = js_trim_end s @ t \<and> list_all js_space t"
proof -
  have "rev s = takeWhile js_space (rev s) @ dropWhile js_space (rev s)" by simp
  then have "s = js_trim_end s @ rev (takeWhile js_space (rev s))"
    unfolding js_trim_end_def by (metis rev_append rev_rev_ident)
  moreover have "list_all js_space (rev (takeWhile js_space (rev s)))"
    by (auto simp: list_all_iff dest: set_takeWhileD)
  ultimately show ?thesis by blast
qed

lemma js_trim_idem [simp, js_simps]: "js_trim (js_trim s) = js_trim s"
proof -
  let ?u = "js_trim_start s"
  have start: "js_trim_start (js_trim_end ?u) = js_trim_end ?u"
  proof (cases "js_trim_end ?u")
    case Nil
    then show ?thesis by (simp add: js_trim_start_def)
  next
    case (Cons c v)
    obtain t where "?u = js_trim_end ?u @ t" using js_trim_end_prefix by blast
    with Cons have "hd ?u = c" "?u \<noteq> []" by (metis append_Cons list.sel(1), force)
    moreover have "js_trim_start ?u = ?u" by (rule js_trim_start_idem)
    ultimately have "\<not> js_space c"
      by (metis dropWhile_hd js_trim_start_def)
    then show ?thesis using Cons by (simp add: js_trim_start_def)
  qed
  show ?thesis by (simp add: js_trim_def start js_trim_end_idem)
qed

lemma js_trim_lower [js_simps]: "js_trim (js_lower s) = js_lower (js_trim s)"
  by (simp add: js_trim_def js_trim_end_def js_trim_start_def js_lower_def dropWhile_map rev_map
      comp_def js_space_lower)

lemma js_trim_Nil [simp]: "js_trim [] = []"
  by (simp add: js_trim_def js_trim_start_def js_trim_end_def)

lemma js_starts_with_Nil [simp]: "js_starts_with s []"
  by (simp add: js_starts_with_def)

lemma js_starts_with_append [simp]: "js_starts_with (p @ s) p"
  by (simp add: js_starts_with_def)

lemma js_starts_with_iff: "js_starts_with s p \<longleftrightarrow> (\<exists>t. s = p @ t)"
  unfolding js_starts_with_def by (metis append_eq_conv_conj append_take_drop_id)

lemma js_split_not_Nil [simp]: "js_split d s \<noteq> []"
  by (induction s) (auto split: list.splits)

lemma js_split_hd: "hd (js_split d s) = takeWhile (\<lambda>c. c \<noteq> d) s"
proof (induction s)
  case Nil
  then show ?case by simp
next
  case (Cons c s)
  then show ?case by (cases "js_split d s") auto
qed

lemma js_join_split: "js_join [d] (js_split d s) = s"
proof (induction s)
  case Nil
  then show ?case by simp
next
  case (Cons c s)
  obtain w ws where "js_split d s = w # ws" by (cases "js_split d s") auto
  with Cons show ?case by (cases ws) auto
qed

lemma js_split_no_sep: "w \<in> set (js_split d s) \<Longrightarrow> d \<notin> set w"
proof (induction s arbitrary: w)
  case Nil
  then show ?case by simp
next
  case (Cons c s)
  obtain v vs where "js_split d s = v # vs" by (cases "js_split d s") auto
  with Cons show ?case by (auto split: if_splits)
qed

subsection \<open>Absent values\<close>

text \<open>\<open>a ?? b\<close>, and \<open>a || b\<close> and \<open>a?.trim() || undefined\<close> on strings, where the empty string is false.\<close>

definition nullish :: "'a option \<Rightarrow> 'a \<Rightarrow> 'a" where
  "nullish a b = (case a of None \<Rightarrow> b | Some x \<Rightarrow> x)"

definition str_or :: "string \<Rightarrow> string \<Rightarrow> string" where
  "str_or a b = (if a = [] then b else a)"

definition truthy :: "string option \<Rightarrow> string option" where
  "truthy a = (case a of None \<Rightarrow> None | Some s \<Rightarrow> if s = [] then None else Some s)"

lemma nullish_simps [simp]: "nullish None b = b" "nullish (Some x) b = x"
  by (simp_all add: nullish_def)

lemma str_or_simps [simp]: "str_or [] b = b" "str_or (c # s) b = c # s"
  by (simp_all add: str_or_def)

lemma truthy_simps [simp]: "truthy None = None" "truthy (Some []) = None"
  "truthy (Some (c # s)) = Some (c # s)"
  by (simp_all add: truthy_def)

lemma truthy_eq_Some: "truthy a = Some s \<longleftrightarrow> a = Some s \<and> s \<noteq> []"
  by (auto simp: truthy_def split: option.splits)

lemma truthy_eq_None: "truthy a = None \<longleftrightarrow> a = None \<or> a = Some []"
  by (auto simp: truthy_def split: option.splits)

lemmas truthy_iffs = truthy_eq_Some truthy_eq_None

subsection \<open>Numbers in text\<close>

fun nat_digits :: "nat \<Rightarrow> nat list" where
  "nat_digits n = (if n < 10 then [n] else nat_digits (n div 10) @ [n mod 10])"

declare nat_digits.simps [simp del]

definition js_nat_string :: "nat \<Rightarrow> string" where
  "js_nat_string n = map (\<lambda>d. char_of (48 + d)) (nat_digits n)"

lemma nat_digits_small: "d \<in> set (nat_digits n) \<Longrightarrow> d < 10"
proof (induction n rule: nat_digits.induct)
  case (1 n)
  then show ?case
    by (cases "n < 10") (auto simp: nat_digits.simps [of n])
qed

lemma nat_digits_not_Nil [simp]: "nat_digits n \<noteq> []"
  by (subst nat_digits.simps) simp

lemma js_nat_string_not_Nil [simp]: "js_nat_string n \<noteq> []"
  by (simp add: js_nat_string_def)

definition js_int_string :: "int \<Rightarrow> string" where
  "js_int_string i = (if i < 0 then CHR ''-'' # js_nat_string (nat (- i)) else js_nat_string (nat i))"

definition js_pad_start :: "nat \<Rightarrow> char \<Rightarrow> string \<Rightarrow> string" where
  "js_pad_start n c s = replicate (n - length s) c @ s"

definition js_digit :: "char \<Rightarrow> bool" where
  "js_digit c \<longleftrightarrow> (let n = (of_char c :: nat) in 48 \<le> n \<and> n \<le> 57)"

definition digits_value :: "string \<Rightarrow> nat" where
  "digits_value ds = foldl (\<lambda>n c. 10 * n + (of_char c - 48)) 0 ds"

text \<open>\<open>parseInt(s, 10)\<close>: leading white space, a sign, the longest run of digits; \<open>None\<close> is \<open>NaN\<close>.\<close>

definition js_parse_int :: "string \<Rightarrow> int option" where
  "js_parse_int s =
     (let t = js_trim_start s;
          signed = (t \<noteq> [] \<and> (hd t = CHR ''-'' \<or> hd t = CHR ''+''));
          u = (if signed then tl t else t);
          ds = takeWhile js_digit u
      in if ds = [] then None
         else Some ((if signed \<and> hd t = CHR ''-'' then - 1 else 1) * int (digits_value ds)))"

lemma digit_char [simp]: "d < (10 :: nat) \<Longrightarrow> js_digit (char_of (48 + d))"
  by (simp add: js_digit_def Let_def)

lemma digit_char_value [simp]: "d < (10 :: nat) \<Longrightarrow> of_char (char_of (48 + d)) - (48 :: nat) = d"
  by simp

lemma js_nat_string_digits: "c \<in> set (js_nat_string n) \<Longrightarrow> js_digit c"
  unfolding js_nat_string_def using nat_digits_small by auto

lemma js_digit_not_space: "js_digit c \<Longrightarrow> \<not> js_space c \<and> c \<noteq> CHR ''-'' \<and> c \<noteq> CHR ''+''"
  by (auto simp: js_digit_def js_space_def Let_def)

lemma foldl_nat_digits: "foldl (\<lambda>n d. 10 * n + d) 0 (nat_digits n) = n"
proof (induction n rule: nat_digits.induct)
  case (1 n)
  then show ?case by (cases "n < 10") (auto simp: nat_digits.simps [of n])
qed

lemma foldl_digit_chars:
  "\<forall>d \<in> set ds. d < (10 :: nat) \<Longrightarrow>
   foldl (\<lambda>n c. 10 * n + (of_char c - 48)) a (map (\<lambda>d. char_of (48 + d)) ds) =
   foldl (\<lambda>n d. 10 * n + d) a ds"
  by (induction ds arbitrary: a) auto

lemma digits_value_js_nat_string [simp]: "digits_value (js_nat_string n) = n"
  unfolding digits_value_def js_nat_string_def
  by (simp add: foldl_digit_chars nat_digits_small foldl_nat_digits)

lemma digits_value_zeros: "digits_value (replicate k CHR ''0'' @ s) = digits_value s"
  by (induction k) (auto simp: digits_value_def)

lemma js_parse_int_digits:
  assumes "s \<noteq> []" and "\<forall>c \<in> set s. js_digit c"
  shows "js_parse_int s = Some (int (digits_value s))"
proof -
  obtain c t where s: "s = c # t" using assms(1) by (cases s) auto
  with assms(2) js_digit_not_space have "js_trim_start s = s" "c \<noteq> CHR ''-''" "c \<noteq> CHR ''+''"
    by (auto simp: js_trim_start_def)
  moreover have "takeWhile js_digit s = s" using assms(2) by (simp add: takeWhile_eq_all_conv)
  ultimately show ?thesis using s by (simp add: js_parse_int_def Let_def)
qed

lemma js_parse_int_padded: "js_parse_int (js_pad_start k CHR ''0'' (js_nat_string n)) = Some (int n)"
proof -
  have "js_digit CHR ''0''" by (simp add: js_digit_def Let_def)
  then have "\<forall>c \<in> set (js_pad_start k CHR ''0'' (js_nat_string n)). js_digit c"
    using js_nat_string_digits by (auto simp: js_pad_start_def)
  then show ?thesis
    by (subst js_parse_int_digits) (auto simp: js_pad_start_def digits_value_zeros)
qed

end
