(* ===== verification/App_Errors.thy ===== *)
theory App_Errors
  imports Ratary_Prelude
begin

section \<open>Application errors\<close>

text \<open>
  The error classes of \<^verbatim>\<open>src/src/types/errors.ts\<close>. Every class of the source is a constructor
  that carries the constructor arguments that decide the message; \<open>PlainError\<close> is an
  \<^verbatim>\<open>Error\<close> that is not an \<^verbatim>\<open>AppError\<close>. A function that can throw returns
  \<open>app_error + 'a\<close>.
\<close>

datatype app_error =
    ValidationError string
  | NotFoundError string "string option"
  | DatabaseError string
  | UnauthorizedError string
  | ForbiddenError string
  | ConflictError string
  | SyncConflictError string
  | QuotaExceededError string
  | PolicyDeniedError string
  | TenantContextRequiredError string
  | PlainError string

fun is_app_error :: "app_error \<Rightarrow> bool" where
  "is_app_error (PlainError _) = False"
| "is_app_error _ = True"

fun is_forbidden_error :: "app_error \<Rightarrow> bool" where
  "is_forbidden_error (ForbiddenError _) = True"
| "is_forbidden_error _ = False"

fun is_sync_conflict :: "app_error \<Rightarrow> bool" where
  "is_sync_conflict (SyncConflictError _) = True"
| "is_sync_conflict _ = False"

fun error_status :: "app_error \<Rightarrow> nat" where
  "error_status (ValidationError _) = 400"
| "error_status (NotFoundError _ _) = 404"
| "error_status (DatabaseError _) = 500"
| "error_status (UnauthorizedError _) = 401"
| "error_status (ForbiddenError _) = 403"
| "error_status (ConflictError _) = 409"
| "error_status (SyncConflictError _) = 409"
| "error_status (QuotaExceededError _) = 429"
| "error_status (PolicyDeniedError _) = 403"
| "error_status (TenantContextRequiredError _) = 400"
| "error_status (PlainError _) = 500"

fun error_code :: "app_error \<Rightarrow> string" where
  "error_code (ValidationError _) = ''VALIDATION_ERROR''"
| "error_code (NotFoundError _ _) = ''NOT_FOUND''"
| "error_code (DatabaseError _) = ''DATABASE_ERROR''"
| "error_code (UnauthorizedError _) = ''UNAUTHORIZED''"
| "error_code (ForbiddenError _) = ''FORBIDDEN''"
| "error_code (ConflictError _) = ''CONFLICT''"
| "error_code (SyncConflictError _) = ''SYNC_CONFLICT''"
| "error_code (QuotaExceededError _) = ''QUOTA_EXCEEDED''"
| "error_code (PolicyDeniedError _) = ''POLICY_DENIED''"
| "error_code (TenantContextRequiredError _) = ''TENANT_CONTEXT_REQUIRED''"
| "error_code (PlainError _) = ''INTERNAL_ERROR''"

fun error_message :: "app_error \<Rightarrow> string" where
  "error_message (ValidationError m) = m"
| "error_message (NotFoundError r i) =
     (case truthy i of Some x \<Rightarrow> r @ '' with id '' @ [CHR 0x27] @ x @ [CHR 0x27] @ '' not found'' | None \<Rightarrow> r @ '' not found'')"
| "error_message (DatabaseError m) = m"
| "error_message (UnauthorizedError m) = m"
| "error_message (ForbiddenError m) = m"
| "error_message (ConflictError m) = m"
| "error_message (SyncConflictError m) = m"
| "error_message (QuotaExceededError m) = m"
| "error_message (PolicyDeniedError m) = m"
| "error_message (TenantContextRequiredError m) = m"
| "error_message (PlainError m) = m"

text \<open>The default messages of the constructors that take one.\<close>

abbreviation Unauthorized :: app_error where "Unauthorized \<equiv> UnauthorizedError ''Unauthorized''"
abbreviation Forbidden :: app_error where "Forbidden \<equiv> ForbiddenError ''Forbidden''"

text \<open>Sequencing of fallible computations: a thrown error ends the block.\<close>

definition and_then :: "'e + 'a \<Rightarrow> ('a \<Rightarrow> 'e + 'b) \<Rightarrow> 'e + 'b" where
  "and_then r f = (case r of Inl e \<Rightarrow> Inl e | Inr x \<Rightarrow> f x)"

definition guard_or :: "bool \<Rightarrow> 'e \<Rightarrow> 'e + unit" where
  "guard_or b e = (if b then Inr () else Inl e)"

lemma and_then_simps [simp]: "and_then (Inl e) f = Inl e" "and_then (Inr x) f = f x"
  by (simp_all add: and_then_def)

lemma and_then_eq_Inr: "and_then r f = Inr y \<longleftrightarrow> (\<exists>x. r = Inr x \<and> f x = Inr y)"
  by (auto simp: and_then_def split: sum.splits)

lemma guard_or_simps [simp]: "guard_or True e = Inr ()" "guard_or False e = Inl e"
  "guard_or b e = Inr u \<longleftrightarrow> b"
  by (simp_all add: guard_or_def)

text \<open>The same for a computation that also changes a state: what was written before a throw stays.\<close>

definition then_st :: "('e + 'a) \<times> 'd \<Rightarrow> ('a \<Rightarrow> 'd \<Rightarrow> ('e + 'b) \<times> 'd) \<Rightarrow> ('e + 'b) \<times> 'd" where
  "then_st p f = (case p of (Inl e, d) \<Rightarrow> (Inl e, d) | (Inr x, d) \<Rightarrow> f x d)"

lemma then_st_simps [simp]: "then_st (Inl e, d) f = (Inl e, d)" "then_st (Inr x, d) f = f x d"
  by (simp_all add: then_st_def)

lemma then_st_Inr:
  "then_st p f = (Inr y, d') \<longleftrightarrow> (\<exists>x d. p = (Inr x, d) \<and> f x d = (Inr y, d'))"
  by (auto simp: then_st_def split: prod.splits sum.splits)

lemma then_st_cases:
  assumes "then_st p f = (r, d')"
  obtains (fails) e where "p = (Inl e, d')" "r = Inl e"
  | (runs) x d where "p = (Inr x, d)" "f x d = (r, d')"
  using assms by (auto simp: then_st_def split: prod.splits sum.splits)

text \<open>The outcome of a run that did not throw, for evaluating an operation on a concrete state.\<close>

lemma run_Inr: "\<not> isl (fst p) \<Longrightarrow> p = (Inr (projr (fst p)), snd p)"
  by (cases p) (auto simp: isl_def split: sum.splits intro: sum.exhaust [of "fst p"])

lemma error_code_app: "is_app_error e \<Longrightarrow> 400 \<le> error_status e \<and> error_status e \<le> 500"
  by (cases e) auto

end
