(* ===== verification/Sql_Table.thy ===== *)
theory Sql_Table
  imports App_Errors
begin

section \<open>Tables of the SQL store\<close>

text \<open>
  The source reaches its state through \<^verbatim>\<open>ISqlDatabase\<close> (\<^verbatim>\<open>src/src/ports/sql/isql-database.port.ts\<close>):
  a statement text and parameters. A table is modelled as the list of its rows in insertion
  order, and each statement by the operation its text denotes: \<open>SELECT\<close> is a filter, \<open>UPDATE\<close>
  a map on the matching rows, \<open>DELETE\<close> a filter, \<open>INSERT\<close> an append that a primary key or
  \<open>UNIQUE\<close> constraint can refuse. \<open>rows[0] ?? null\<close> is the first matching row. A query without
  \<open>ORDER BY\<close> is answered in insertion order; with one, by a stable sort of that order.
\<close>

definition sql_select :: "('r \<Rightarrow> bool) \<Rightarrow> 'r list \<Rightarrow> 'r list" where
  "sql_select p t = filter p t"

definition sql_first :: "('r \<Rightarrow> bool) \<Rightarrow> 'r list \<Rightarrow> 'r option" where
  "sql_first p t = find p t"

definition sql_count :: "('r \<Rightarrow> bool) \<Rightarrow> 'r list \<Rightarrow> nat" where
  "sql_count p t = length (filter p t)"

definition sql_update :: "('r \<Rightarrow> bool) \<Rightarrow> ('r \<Rightarrow> 'r) \<Rightarrow> 'r list \<Rightarrow> 'r list" where
  "sql_update p f t = map (\<lambda>r. if p r then f r else r) t"

definition sql_delete :: "('r \<Rightarrow> bool) \<Rightarrow> 'r list \<Rightarrow> 'r list" where
  "sql_delete p t = filter (\<lambda>r. \<not> p r) t"

text \<open>
  \<open>clash new old\<close> says that the old row makes the constraint refuse the new one; the driver
  then throws.
\<close>

definition sql_insert :: "('r \<Rightarrow> 'r \<Rightarrow> bool) \<Rightarrow> 'r \<Rightarrow> 'r list \<Rightarrow> app_error + 'r list" where
  "sql_insert clash r t =
     (if list_ex (clash r) t then Inl (PlainError ''UNIQUE constraint failed'') else Inr (t @ [r]))"

text \<open>\<open>ORDER BY k ASC\<close> and \<open>DESC\<close>, and \<open>LIMIT\<close>/\<open>OFFSET\<close>.\<close>

definition order_asc :: "('r \<Rightarrow> 'k::linorder) \<Rightarrow> 'r list \<Rightarrow> 'r list" where
  "order_asc k t = sort_key k t"

definition order_desc :: "('r \<Rightarrow> 'k::linorder) \<Rightarrow> 'r list \<Rightarrow> 'r list" where
  "order_desc k t = rev (sort_key k (rev t))"

definition page :: "nat \<Rightarrow> nat \<Rightarrow> 'r list \<Rightarrow> 'r list" where
  "page limit offset t = take limit (drop offset t)"

named_theorems sql_simps \<open>the table operations as list operations\<close>

declare sql_select_def [sql_simps] sql_count_def [sql_simps] order_asc_def [sql_simps]
  order_desc_def [sql_simps] page_def [sql_simps]

lemma sql_first_None [simp]: "sql_first p t = None \<longleftrightarrow> (\<forall>r \<in> set t. \<not> p r)"
  by (auto simp: sql_first_def find_None_iff)

lemma sql_first_Nil [simp]: "sql_first p [] = None"
  by simp

lemma sql_first_Cons: "sql_first p (r # t) = (if p r then Some r else sql_first p t)"
  by (simp add: sql_first_def)

lemma sql_first_SomeD: "sql_first p t = Some r \<Longrightarrow> p r \<and> r \<in> set t"
  by (auto simp: sql_first_def find_Some_iff)

lemma sql_first_append: "sql_first p (t @ u) =
    (case sql_first p t of Some r \<Rightarrow> Some r | None \<Rightarrow> sql_first p u)"
  by (induction t) (auto simp: sql_first_Cons)

lemma sql_first_cong: "(\<And>r. r \<in> set t \<Longrightarrow> p r = q r) \<Longrightarrow> sql_first p t = sql_first q t"
  by (induction t) (auto simp: sql_first_Cons)

lemma sql_first_update:
  assumes "\<And>r. p (f r) = p r"
  shows "sql_first p (sql_update q f t) =
    map_option (\<lambda>r. if q r then f r else r) (sql_first p t)"
  using assms by (induction t) (auto simp: sql_update_def sql_first_Cons)

lemma sql_first_delete_same [simp]: "sql_first p (sql_delete p t) = None"
  by (auto simp: sql_delete_def)

lemma sql_first_delete_other:
  assumes "\<And>r. p r \<Longrightarrow> \<not> q r"
  shows "sql_first p (sql_delete q t) = sql_first p t"
  using assms by (induction t) (auto simp: sql_delete_def sql_first_Cons)

lemma set_sql_update: "set (sql_update p f t) = (\<lambda>r. if p r then f r else r) ` set t"
  by (auto simp: sql_update_def)

lemma set_sql_delete [simp]: "set (sql_delete p t) = {r \<in> set t. \<not> p r}"
  by (auto simp: sql_delete_def)

lemma length_sql_update [simp]: "length (sql_update p f t) = length t"
  by (simp add: sql_update_def)

lemma map_sql_update: "(\<And>r. p r \<Longrightarrow> g (f r) = g r) \<Longrightarrow> map g (sql_update p f t) = map g t"
  by (simp add: sql_update_def)

lemma sql_insert_Inr [simp]:
  "sql_insert clash r t = Inr t' \<longleftrightarrow> (\<forall>s \<in> set t. \<not> clash r s) \<and> t' = t @ [r]"
  by (auto simp: sql_insert_def list_ex_iff)

lemma sql_insert_Inl:
  "sql_insert clash r t = Inl e \<longleftrightarrow>
     (\<exists>s \<in> set t. clash r s) \<and> e = PlainError ''UNIQUE constraint failed''"
  by (auto simp: sql_insert_def list_ex_iff)

lemma sql_count_0 [simp]: "sql_count p t = 0 \<longleftrightarrow> (\<forall>r \<in> set t. \<not> p r)"
  by (auto simp: sql_count_def filter_empty_conv)

lemma filter_sql_update:
  "(\<And>r. p r \<Longrightarrow> \<not> q r \<and> \<not> q (f r)) \<Longrightarrow> filter q (sql_update p f t) = filter q t"
  by (induction t) (auto simp: sql_update_def)

lemma filter_sql_delete: "(\<And>r. p r \<Longrightarrow> \<not> q r) \<Longrightarrow> filter q (sql_delete p t) = filter q t"
  by (induction t) (auto simp: sql_delete_def)

lemma sorted_wrt_sql_update:
  assumes "sorted_wrt R t" and "\<And>r s. R r s \<Longrightarrow> R (if p r then f r else r) (if p s then f s else s)"
  shows "sorted_wrt R (sql_update p f t)"
  unfolding sql_update_def sorted_wrt_map
  by (rule sorted_wrt_mono_rel [OF _ assms(1)]) (rule assms(2))

lemma sorted_wrt_sql_delete: "sorted_wrt R t \<Longrightarrow> sorted_wrt R (sql_delete p t)"
  by (simp add: sql_delete_def sorted_wrt_filter)

lemma set_page: "set (page l n t) \<subseteq> set t"
  unfolding page_def by (meson in_set_dropD in_set_takeD subsetI)

lemma length_page: "length (page l n t) \<le> l"
  by (simp add: page_def)

lemma set_order_asc [simp]: "set (order_asc k t) = set t"
  by (simp add: order_asc_def)

lemma set_order_desc [simp]: "set (order_desc k t) = set t"
  by (simp add: order_desc_def)

lemma sorted_order_asc: "sorted (map k (order_asc k t))"
  by (simp add: order_asc_def)

lemma sorted_order_desc: "sorted (rev (map k (order_desc k t)))"
  by (simp add: order_desc_def rev_map)

subsection \<open>Tables with a key\<close>

text \<open>
  The contract the stores share: a key that no two rows agree on, which inserting a row with a
  new key, deleting and updating without touching the key all keep. A store interprets it with
  its own key and gets the lookup laws.
\<close>

locale keyed_table =
  fixes key :: "'r \<Rightarrow> 'k" and clash :: "'r \<Rightarrow> 'r \<Rightarrow> bool"
  assumes clash_key: "key r = key s \<Longrightarrow> clash r s"
begin

definition unique :: "'r list \<Rightarrow> bool" where
  "unique t \<longleftrightarrow> distinct (map key t)"

lemma unique_Nil [simp]: "unique []"
  by (simp add: unique_def)

lemma unique_insert:
  assumes "unique t" and "sql_insert clash r t = Inr t'"
  shows "unique t'"
  using assms clash_key by (fastforce simp: unique_def)

lemma unique_update:
  assumes "unique t" and "\<And>r. p r \<Longrightarrow> key (f r) = key r"
  shows "unique (sql_update p f t)"
  using assms by (simp add: unique_def map_sql_update)

lemma unique_delete: "unique t \<Longrightarrow> unique (sql_delete p t)"
  by (simp add: unique_def sql_delete_def distinct_map_filter)

lemma lookup_unique:
  assumes "unique t" and "r \<in> set t"
  shows "sql_first (\<lambda>s. key s = key r) t = Some r"
  using assms
proof (induction t)
  case Nil
  then show ?case by simp
next
  case (Cons s t)
  then show ?case by (auto simp: unique_def sql_first_Cons)
qed

lemma lookup_insert_same:
  assumes "sql_insert clash r t = Inr t'"
  shows "sql_first (\<lambda>s. key s = key r) t' = Some r"
proof -
  from assms have "t' = t @ [r]" and new: "\<forall>s \<in> set t. \<not> clash r s" by simp_all
  moreover from new clash_key have "sql_first (\<lambda>s. key s = key r) t = None" by fastforce
  ultimately show ?thesis by (simp add: sql_first_append sql_first_Cons del: sql_first_None)
qed

lemma lookup_insert_other:
  assumes "sql_insert clash r t = Inr t'" and "k \<noteq> key r"
  shows "sql_first (\<lambda>s. key s = k) t' = sql_first (\<lambda>s. key s = k) t"
  using assms
  by (auto simp: sql_first_append sql_first_Cons simp del: sql_first_None split: option.splits)

lemma insert_again_refused:
  assumes "sql_insert clash r t = Inr t'" and "key r' = key r"
  shows "\<exists>e. sql_insert clash r' t' = Inl e"
  using assms clash_key by (auto simp: sql_insert_Inl)

lemma lookup_delete: "sql_first (\<lambda>s. key s = k) (sql_delete (\<lambda>s. key s = k) t) = None"
  by simp

lemma key_unique_eq:
  assumes "unique t" and "r \<in> set t" and "s \<in> set t" and "key r = key s"
  shows "r = s"
  using assms by (metis distinct_map inj_onD unique_def)

lemmas table_laws = unique_insert unique_update unique_delete lookup_insert_same
  lookup_insert_other lookup_unique

end

end
