(* ===== verification/Naming.thy ===== *)
theory Naming
  imports Sql_Table
begin

section \<open>Slugs and codenames\<close>

text \<open>
  \<^verbatim>\<open>src/src/knowledge/slug.generator.ts\<close> and \<^verbatim>\<open>src/src/knowledge/codename.generator.ts\<close>: the two
  generators of the human-readable identifiers of a memory, and the query of
  \<^verbatim>\<open>allocateCodename\<close> in \<^verbatim>\<open>src/src/repositories/memory-writer.sql.ts\<close> that picks the next one.
\<close>

subsection \<open>Slugs\<close>

definition MAX_SLUG_LENGTH :: nat where "MAX_SLUG_LENGTH = 80"

text \<open>
  \<open>normalize('NFKD')\<close> followed by the removal of the combining marks, on one lower-case Latin-1
  character: accented letters lose their accent, superscripts and fractions become digits.
  A character whose decomposition lies outside Latin-1 is left as it is; none of those is in
  \<open>[a-z0-9]\<close>, so the next step replaces it either way.
\<close>

definition nfkd_strip_char :: "char \<Rightarrow> string" where
  "nfkd_strip_char c =
     (let n = (of_char c :: nat)
      in if n = 170 \<or> (224 \<le> n \<and> n \<le> 229) then ''a''
         else if n = 231 then ''c''
         else if 232 \<le> n \<and> n \<le> 235 then ''e''
         else if 236 \<le> n \<and> n \<le> 239 then ''i''
         else if n = 241 then ''n''
         else if n = 186 \<or> (242 \<le> n \<and> n \<le> 246) then ''o''
         else if 249 \<le> n \<and> n \<le> 252 then ''u''
         else if n = 253 \<or> n = 255 then ''y''
         else if n = 178 then ''2'' else if n = 179 then ''3'' else if n = 185 then ''1''
         else if n = 188 then ''1/4'' else if n = 189 then ''1/2'' else if n = 190 then ''3/4''
         else [c])"

definition slug_char :: "char \<Rightarrow> bool" where
  "slug_char c \<longleftrightarrow>
     (let n = (of_char c :: nat) in (97 \<le> n \<and> n \<le> 122) \<or> (48 \<le> n \<and> n \<le> 57))"

text \<open>\<open>replace(/[^a-z0-9]+/g, '-')\<close>: every maximal run of other characters becomes one dash.\<close>

fun dash_runs :: "bool \<Rightarrow> string \<Rightarrow> string" where
  "dash_runs inrun [] = []"
| "dash_runs inrun (c # s) =
     (if slug_char c then c # dash_runs False s
      else if inrun then dash_runs True s else CHR ''-'' # dash_runs True s)"

text \<open>\<open>replace(/^-+|-+$/g, '')\<close>.\<close>

definition strip_dashes :: "string \<Rightarrow> string" where
  "strip_dashes s = rev (dropWhile ((=) CHR ''-'') (rev (dropWhile ((=) CHR ''-'') s)))"

definition slugify :: "string \<Rightarrow> string" where
  "slugify title =
     str_or (take MAX_SLUG_LENGTH
              (strip_dashes (dash_runs False (concat (map nfkd_strip_char (js_lower title))))))
            ''memory''"

definition withSlugSuffix :: "string \<Rightarrow> nat \<Rightarrow> string" where
  "withSlugSuffix slug suffix =
     (let suffixStr = CHR ''-'' # js_nat_string suffix;
          maxBase = int MAX_SLUG_LENGTH - int (length suffixStr);
          trimmed = rev (dropWhile ((=) CHR ''-'') (rev (take (nat (max 1 maxBase)) slug)))
      in trimmed @ suffixStr)"

definition slug_form :: "string \<Rightarrow> bool" where
  "slug_form s \<longleftrightarrow> s \<noteq> [] \<and> length s \<le> MAX_SLUG_LENGTH \<and>
     list_all (\<lambda>c. slug_char c \<or> c = CHR ''-'') s \<and> hd s \<noteq> CHR ''-''"

lemma dash_runs_chars: "c \<in> set (dash_runs b s) \<Longrightarrow> slug_char c \<or> c = CHR ''-''"
  by (induction b s rule: dash_runs.induct) (auto split: if_splits)

lemma set_strip_dashes: "set (strip_dashes s) \<subseteq> set s"
  unfolding strip_dashes_def by (auto dest!: set_dropWhileD)

lemma hd_rev_dropWhile_rev:
  "rev (dropWhile P (rev xs)) \<noteq> [] \<Longrightarrow> hd (rev (dropWhile P (rev xs))) = hd xs"
proof (induction xs)
  case Nil
  then show ?case by simp
next
  case (Cons x xs)
  show ?case
  proof (cases "\<forall>y \<in> set xs. P y")
    case True
    with Cons.prems show ?thesis by (auto simp: dropWhile_append)
  next
    case False
    then show ?thesis by (auto simp: dropWhile_append)
  qed
qed

lemma strip_dashes_hd:
  assumes "strip_dashes s \<noteq> []"
  shows "hd (strip_dashes s) \<noteq> CHR ''-''"
proof -
  define u where "u = dropWhile ((=) CHR ''-'') s"
  have eq: "strip_dashes s = rev (dropWhile ((=) CHR ''-'') (rev u))"
    by (simp add: strip_dashes_def u_def)
  with assms have "u \<noteq> []" by auto
  then have "hd u \<noteq> CHR ''-''" unfolding u_def by (metis (full_types) hd_dropWhile)
  then show ?thesis using assms eq hd_rev_dropWhile_rev by metis
qed

lemma slug_form_memory: "slug_form ''memory''"
  by (simp add: slug_form_def MAX_SLUG_LENGTH_def slug_char_def Let_def)

lemma slug_form_slugify: "slug_form (slugify title)"
proof -
  let ?s = "strip_dashes (dash_runs False (concat (map nfkd_strip_char (js_lower title))))"
  show ?thesis
  proof (cases "take MAX_SLUG_LENGTH ?s")
    case Nil
    show ?thesis unfolding slugify_def Nil by (simp add: slug_form_memory)
  next
    case (Cons c t)
    from Cons have hd_s: "hd ?s = c" by (metis hd_take list.sel(1) take_eq_Nil zero_less_iff_neq_zero list.distinct(1))
    have "set ?s \<subseteq> {c. slug_char c \<or> c = CHR ''-''}"
      using set_strip_dashes dash_runs_chars by blast
    then have "list_all (\<lambda>c. slug_char c \<or> c = CHR ''-'') (take MAX_SLUG_LENGTH ?s)"
      by (auto simp: list_all_iff dest: in_set_takeD)
    moreover from Cons have "?s \<noteq> []" by auto
    then have "c \<noteq> CHR ''-''" using strip_dashes_hd hd_s by metis
    moreover have "length (c # t) \<le> MAX_SLUG_LENGTH" using Cons by (metis length_take min.cobounded2)
    ultimately show ?thesis unfolding slugify_def Cons by (simp add: slug_form_def)
  qed
qed

lemma length_withSlugSuffix:
  assumes "length (js_nat_string n) < MAX_SLUG_LENGTH - 1"
  shows "length (withSlugSuffix s n) \<le> MAX_SLUG_LENGTH"
proof -
  let ?b = "rev (dropWhile ((=) CHR ''-'') (rev (take (nat (max 1 (int MAX_SLUG_LENGTH - int (length (CHR ''-'' # js_nat_string n))))) s)))"
  have "length ?b \<le> nat (max 1 (int MAX_SLUG_LENGTH - int (length (CHR ''-'' # js_nat_string n))))"
    using length_dropWhile_le by (metis length_rev length_take min.bounded_iff)
  with assms show ?thesis unfolding withSlugSuffix_def Let_def
    by (simp add: MAX_SLUG_LENGTH_def)
qed

subsection \<open>Codenames\<close>

datatype memory_type =
  Note | Prompt | CodeType | Architecture | Task | Meeting | Research | Documentation | Api | Config

fun MEMORY_TYPE_PREFIX :: "memory_type \<Rightarrow> string" where
  "MEMORY_TYPE_PREFIX Note = ''NOTE''"
| "MEMORY_TYPE_PREFIX Prompt = ''PROMPT''"
| "MEMORY_TYPE_PREFIX CodeType = ''CODE''"
| "MEMORY_TYPE_PREFIX Architecture = ''ARCH''"
| "MEMORY_TYPE_PREFIX Task = ''TASK''"
| "MEMORY_TYPE_PREFIX Meeting = ''MEET''"
| "MEMORY_TYPE_PREFIX Research = ''RES''"
| "MEMORY_TYPE_PREFIX Documentation = ''DOC''"
| "MEMORY_TYPE_PREFIX Api = ''API''"
| "MEMORY_TYPE_PREFIX Config = ''CFG''"

definition code_char :: "char \<Rightarrow> bool" where
  "code_char c \<longleftrightarrow>
     (let n = (of_char c :: nat) in (65 \<le> n \<and> n \<le> 90) \<or> (48 \<le> n \<and> n \<le> 57))"

text \<open>\<open>toUpperCase().replace(/[^A-Z0-9]/g, '').slice(0, 12)\<close>.\<close>

definition code_prefix :: "string \<Rightarrow> string" where
  "code_prefix s = take 12 (filter code_char (js_upper s))"

definition formatCodename :: "string \<Rightarrow> int \<Rightarrow> string" where
  "formatCodename prefix sequence =
     (let normalized = str_or (code_prefix prefix) ''MEM'';
          pad = (if 9999 < sequence then 5 else 4)
      in normalized @ CHR ''-'' # js_pad_start pad CHR ''0'' (js_int_string sequence))"

definition resolveCodenamePrefix ::
  "memory_type option \<Rightarrow> string option \<Rightarrow> string option \<Rightarrow> string" where
  "resolveCodenamePrefix memoryType category project =
     (case memoryType of Some t \<Rightarrow> MEMORY_TYPE_PREFIX t
      | None \<Rightarrow> (case truthy category of Some c \<Rightarrow> code_prefix c
      | None \<Rightarrow> (case truthy project of Some p \<Rightarrow> code_prefix p
      | None \<Rightarrow> ''MEM'')))"

definition parseCodenameSequence :: "string \<Rightarrow> string \<Rightarrow> int" where
  "parseCodenameSequence codename prefix =
     (let upper = js_upper codename;
          normalizedPrefix = js_upper prefix
      in if \<not> js_starts_with upper (normalizedPrefix @ ''-'') then 0
         else nullish (js_parse_int (drop (length normalizedPrefix + 1) upper)) 0)"

text \<open>
  A prefix in normal form: nonempty, at most twelve characters, capital letters and digits. Every
  prefix of a memory type is one.
\<close>

definition normal_prefix :: "string \<Rightarrow> bool" where
  "normal_prefix p \<longleftrightarrow> p \<noteq> [] \<and> length p \<le> 12 \<and> list_all code_char p"

lemma js_upper_append: "js_upper (s @ t) = js_upper s @ js_upper t"
  by (simp add: js_upper_def)

lemma js_upper_code_chars: "list_all code_char p \<Longrightarrow> js_upper p = p"
  by (induction p) (auto simp: js_upper_def js_upper_char_def code_char_def Let_def)

lemma code_char_digit: "js_digit c \<Longrightarrow> code_char c"
  by (auto simp: js_digit_def code_char_def Let_def)

lemma js_upper_dash: "js_upper (CHR ''-'' # s) = CHR ''-'' # js_upper s"
  by (simp add: js_upper_def js_upper_char_def Let_def)

lemma code_prefix_normal: "normal_prefix p \<Longrightarrow> code_prefix p = p"
  by (auto simp: normal_prefix_def code_prefix_def js_upper_code_chars list_all_iff filter_id_conv)

lemma normal_prefix_memory_type: "normal_prefix (MEMORY_TYPE_PREFIX t)"
  by (cases t) (simp_all add: normal_prefix_def code_char_def Let_def)

lemma formatCodename_normal:
  assumes "normal_prefix p"
  shows "formatCodename p (int n) =
    p @ CHR ''-'' # js_pad_start (if 9999 < n then 5 else 4) CHR ''0'' (js_nat_string n)"
proof -
  from assms have "str_or p ''MEM'' = p" by (cases p) (auto simp: normal_prefix_def)
  with assms show ?thesis
    by (simp add: formatCodename_def code_prefix_normal js_int_string_def Let_def)
qed

lemma padded_digits: "list_all js_digit (js_pad_start k CHR ''0'' (js_nat_string n))"
  using js_nat_string_digits
  by (auto simp: js_pad_start_def list_all_iff js_digit_def Let_def)

lemma parse_format_codename:
  assumes "normal_prefix p"
  shows "parseCodenameSequence (formatCodename p (int n)) p = int n"
proof -
  let ?d = "js_pad_start (if 9999 < n then 5 else 4) CHR ''0'' (js_nat_string n)"
  have digits: "js_upper ?d = ?d"
    using padded_digits by (intro js_upper_code_chars) (auto simp: list_all_iff code_char_digit)
  have p: "js_upper p = p" using assms by (simp add: normal_prefix_def js_upper_code_chars)
  have up: "js_upper (formatCodename p (int n)) = (p @ ''-'') @ ?d"
    by (simp add: formatCodename_normal assms js_upper_append js_upper_dash digits p
        del: of_nat_less_iff)
  show ?thesis
    unfolding parseCodenameSequence_def Let_def p up
    by (simp add: js_parse_int_padded del: append_assoc)
qed

end
