(* ===== verification/Tenant_Scope.thy ===== *)
theory Tenant_Scope
  imports Naming
begin

section \<open>Organizations and workspaces\<close>

text \<open>
  \<^verbatim>\<open>src/src/scope/organization-store.ts\<close> and \<^verbatim>\<open>src/src/scope/workspace-store.ts\<close> over the tables
  \<open>organizations\<close> and \<open>workspaces\<close> of \<^verbatim>\<open>schema.sql\<close>. Both tables have the primary key \<open>id\<close> and
  \<open>UNIQUE (owner_id, slug)\<close>. One call of \<^verbatim>\<open>randomUUID\<close> together with one reading of the clock is
  a \<open>mint\<close>, an argument of the operations that create rows.
\<close>

record mint =
  mint_id :: string
  mint_now :: string

record organization =
  org_id :: string
  org_owner :: string
  org_name :: string
  org_slug :: string
  org_created :: string

record workspace_row =
  row_id :: string
  row_owner :: string
  row_name :: string
  row_slug :: string
  row_created :: string
  row_org :: "string option"

record workspace =
  ws_id :: string
  ws_owner :: string
  ws_name :: string
  ws_slug :: string
  ws_created :: string
  ws_org :: string

record scope_db =
  organizations :: "organization list"
  workspaces :: "workspace_row list"

definition DEFAULT_ORGANIZATION_SLUG :: string where "DEFAULT_ORGANIZATION_SLUG = ''default''"
definition DEFAULT_ORGANIZATION_NAME :: string where
  "DEFAULT_ORGANIZATION_NAME = ''Default Organization''"
definition DEFAULT_WORKSPACE_SLUG :: string where "DEFAULT_WORKSPACE_SLUG = ''default''"
definition DEFAULT_WORKSPACE_NAME :: string where "DEFAULT_WORKSPACE_NAME = ''Default''"

definition quoted :: "string \<Rightarrow> string" where
  "quoted s = [CHR 0x27] @ s @ [CHR 0x27]"

definition org_clash :: "organization \<Rightarrow> organization \<Rightarrow> bool" where
  "org_clash o1 o2 \<longleftrightarrow>
     org_id o1 = org_id o2 \<or> (org_owner o1 = org_owner o2 \<and> org_slug o1 = org_slug o2)"

definition ws_clash :: "workspace_row \<Rightarrow> workspace_row \<Rightarrow> bool" where
  "ws_clash w1 w2 \<longleftrightarrow>
     row_id w1 = row_id w2 \<or> (row_owner w1 = row_owner w2 \<and> row_slug w1 = row_slug w2)"

subsection \<open>Organizations\<close>

definition findOrganizationById ::
  "'a scope_db_scheme \<Rightarrow> string \<Rightarrow> string \<Rightarrow> organization option" where
  "findOrganizationById db ownerId organizationId =
     sql_first (\<lambda>r. org_id r = organizationId \<and> org_owner r = ownerId) (organizations db)"

definition findOrganizationBySlug ::
  "'a scope_db_scheme \<Rightarrow> string \<Rightarrow> string \<Rightarrow> organization option" where
  "findOrganizationBySlug db ownerId slug =
     sql_first (\<lambda>r. org_owner r = ownerId \<and> org_slug r = slug) (organizations db)"

definition listOrganizationsByOwner :: "'a scope_db_scheme \<Rightarrow> string \<Rightarrow> organization list" where
  "listOrganizationsByOwner db ownerId =
     order_asc org_created (sql_select (\<lambda>r. org_owner r = ownerId) (organizations db))"

definition organizationExistsForOwner :: "'a scope_db_scheme \<Rightarrow> string \<Rightarrow> string \<Rightarrow> bool" where
  "organizationExistsForOwner db ownerId organizationId =
     (findOrganizationById db ownerId organizationId \<noteq> None)"

text \<open>\<open>(input.slug?.trim() || slugify(name)).toLowerCase()\<close>.\<close>

definition requested_slug :: "string option \<Rightarrow> string \<Rightarrow> string" where
  "requested_slug slug name =
     js_lower (case truthy (map_option js_trim slug) of Some s \<Rightarrow> s | None \<Rightarrow> slugify name)"

definition createOrganization ::
  "'a scope_db_scheme \<Rightarrow> string \<Rightarrow> string \<Rightarrow> string option \<Rightarrow> mint
     \<Rightarrow> (app_error + organization) \<times> 'a scope_db_scheme" where
  "createOrganization db ownerId inputName inputSlug m =
     (let name = js_trim inputName; slug = requested_slug inputSlug name in
      if name = [] then (Inl (ValidationError ''Organization name is required''), db)
      else if slug = [] then (Inl (ValidationError ''Organization slug is required''), db)
      else if findOrganizationBySlug db ownerId slug \<noteq> None
        then (Inl (ValidationError (''Organization slug '' @ quoted slug @ '' already exists'')), db)
      else
        let r = \<lparr>org_id = mint_id m, org_owner = ownerId, org_name = name, org_slug = slug,
                 org_created = mint_now m\<rparr>
        in (case sql_insert org_clash r (organizations db) of
              Inl e \<Rightarrow> (Inl e, db)
            | Inr t \<Rightarrow> (Inr r, db\<lparr>organizations := t\<rparr>)))"

definition ensureDefaultOrganization ::
  "'a scope_db_scheme \<Rightarrow> string \<Rightarrow> mint
     \<Rightarrow> (app_error + organization \<times> bool) \<times> 'a scope_db_scheme" where
  "ensureDefaultOrganization db ownerId m =
     (case findOrganizationBySlug db ownerId DEFAULT_ORGANIZATION_SLUG of
        Some existing \<Rightarrow> (Inr (existing, False), db)
      | None \<Rightarrow>
          (case createOrganization db ownerId DEFAULT_ORGANIZATION_NAME
                  (Some DEFAULT_ORGANIZATION_SLUG) m of
             (Inl e, db') \<Rightarrow> (Inl e, db')
           | (Inr r, db') \<Rightarrow> (Inr (r, True), db')))"

definition countWorkspacesInOrganization :: "'a scope_db_scheme \<Rightarrow> string \<Rightarrow> nat" where
  "countWorkspacesInOrganization db organizationId =
     sql_count (\<lambda>w. row_org w = Some organizationId) (workspaces db)"

definition deleteOrganization ::
  "'a scope_db_scheme \<Rightarrow> string \<Rightarrow> string \<Rightarrow> (app_error + unit) \<times> 'a scope_db_scheme" where
  "deleteOrganization db ownerId organizationId =
     (case findOrganizationById db ownerId organizationId of
        None \<Rightarrow> (Inl (NotFoundError ''Organization'' (Some organizationId)), db)
      | Some _ \<Rightarrow>
          let workspaceCount = countWorkspacesInOrganization db organizationId in
          if 0 < workspaceCount
          then (Inl (ValidationError (''Cannot delete organization with '' @
                  js_nat_string workspaceCount @ '' workspace(s). Remove workspaces first.'')), db)
          else (Inr (), db\<lparr>organizations :=
                  sql_delete (\<lambda>r. org_id r = organizationId \<and> org_owner r = ownerId)
                    (organizations db)\<rparr>))"

definition countOrphanWorkspaces :: "'a scope_db_scheme \<Rightarrow> nat" where
  "countOrphanWorkspaces db =
     sql_count (\<lambda>w. row_org w = None \<or> row_org w = Some []) (workspaces db)"

definition requireOrganizationForOwner ::
  "'a scope_db_scheme \<Rightarrow> string \<Rightarrow> string \<Rightarrow> app_error + unit" where
  "requireOrganizationForOwner db ownerId organizationId =
     (case findOrganizationById db ownerId organizationId of
        None \<Rightarrow> Inl (NotFoundError ''Organization'' (Some organizationId)) | Some _ \<Rightarrow> Inr ())"

subsection \<open>Workspaces\<close>

definition mapWorkspaceRowOrNull :: "workspace_row \<Rightarrow> workspace option" where
  "mapWorkspaceRowOrNull row =
     (case truthy (map_option js_trim (row_org row)) of
        None \<Rightarrow> None
      | Some organizationId \<Rightarrow>
          Some \<lparr>ws_id = row_id row, ws_owner = row_owner row, ws_name = row_name row,
                ws_slug = row_slug row, ws_created = row_created row,
                ws_org = organizationId\<rparr>)"

text \<open>The tail the two lookups share: map the first row, then apply the optional filter.\<close>

definition in_organization :: "string option \<Rightarrow> workspace_row option \<Rightarrow> workspace option" where
  "in_organization filterOrg row =
     (case Option.bind row mapWorkspaceRowOrNull of
        None \<Rightarrow> None
      | Some w \<Rightarrow>
          (case truthy filterOrg of
             Some organizationId \<Rightarrow> if ws_org w \<noteq> organizationId then None else Some w
           | None \<Rightarrow> Some w))"

definition findWorkspaceBySlug ::
  "'a scope_db_scheme \<Rightarrow> string \<Rightarrow> string \<Rightarrow> string option \<Rightarrow> workspace option" where
  "findWorkspaceBySlug db ownerId slug filterOrg =
     in_organization filterOrg
       (sql_first (\<lambda>w. row_owner w = ownerId \<and> row_slug w = slug) (workspaces db))"

definition findWorkspaceById ::
  "'a scope_db_scheme \<Rightarrow> string \<Rightarrow> string \<Rightarrow> string option \<Rightarrow> workspace option" where
  "findWorkspaceById db ownerId workspaceId filterOrg =
     in_organization filterOrg
       (sql_first (\<lambda>w. row_id w = workspaceId \<and> row_owner w = ownerId) (workspaces db))"

definition listWorkspacesByOwner ::
  "'a scope_db_scheme \<Rightarrow> string \<Rightarrow> string option \<Rightarrow> workspace list" where
  "listWorkspacesByOwner db ownerId filterOrg =
     List.map_filter mapWorkspaceRowOrNull
       (order_asc row_created
         (sql_select
           (\<lambda>w. row_owner w = ownerId \<and>
                (case truthy filterOrg of Some x \<Rightarrow> row_org w = Some x | None \<Rightarrow> True))
           (workspaces db)))"

definition findDefaultWorkspace :: "'a scope_db_scheme \<Rightarrow> string \<Rightarrow> workspace option" where
  "findDefaultWorkspace db ownerId = findWorkspaceBySlug db ownerId DEFAULT_WORKSPACE_SLUG None"

definition workspace_of_row :: "workspace \<Rightarrow> workspace_row" where
  "workspace_of_row w =
     \<lparr>row_id = ws_id w, row_owner = ws_owner w, row_name = ws_name w, row_slug = ws_slug w,
      row_created = ws_created w, row_org = Some (ws_org w)\<rparr>"

text \<open>The \<open>INSERT INTO workspaces\<close> both creators end with.\<close>

definition insertWorkspace ::
  "'a scope_db_scheme \<Rightarrow> workspace \<Rightarrow> (app_error + workspace) \<times> 'a scope_db_scheme" where
  "insertWorkspace db w =
     (case sql_insert ws_clash (workspace_of_row w) (workspaces db) of
        Inl e \<Rightarrow> (Inl e, db)
      | Inr t \<Rightarrow> (Inr w, db\<lparr>workspaces := t\<rparr>))"

definition createWorkspace ::
  "'a scope_db_scheme \<Rightarrow> string \<Rightarrow> string option \<Rightarrow> string \<Rightarrow> string option \<Rightarrow> mint
     \<Rightarrow> (app_error + workspace) \<times> 'a scope_db_scheme" where
  "createWorkspace db ownerId inputOrg inputName inputSlug m =
     (case truthy (map_option js_trim inputOrg) of
        None \<Rightarrow> (Inl (TenantContextRequiredError
                        ''organizationId is required to create a workspace''), db)
      | Some organizationId \<Rightarrow>
          if \<not> organizationExistsForOwner db ownerId organizationId
          then (Inl (NotFoundError ''Organization'' (Some organizationId)), db)
          else
          let name = js_trim inputName; slug = requested_slug inputSlug name in
          if name = [] then (Inl (ValidationError ''Workspace name is required''), db)
          else if slug = [] then (Inl (ValidationError ''Workspace slug is required''), db)
          else if slug = DEFAULT_WORKSPACE_SLUG
            then (Inl (ValidationError
                    (''Workspace slug '' @ quoted DEFAULT_WORKSPACE_SLUG @ '' is reserved'')), db)
          else if findWorkspaceBySlug db ownerId slug (Some organizationId) \<noteq> None
            then (Inl (ValidationError
                    (''Workspace slug '' @ quoted slug @ '' already exists'')), db)
          else insertWorkspace db
                 \<lparr>ws_id = mint_id m, ws_owner = ownerId, ws_name = name, ws_slug = slug,
                  ws_created = mint_now m, ws_org = organizationId\<rparr>)"

definition ensureDefaultWorkspace ::
  "'a scope_db_scheme \<Rightarrow> string \<Rightarrow> mint \<Rightarrow> mint
     \<Rightarrow> (app_error + workspace \<times> bool) \<times> 'a scope_db_scheme" where
  "ensureDefaultWorkspace db ownerId mo mw =
     (case ensureDefaultOrganization db ownerId mo of
        (Inl e, db1) \<Rightarrow> (Inl e, db1)
      | (Inr (organization, _), db1) \<Rightarrow>
          (case findDefaultWorkspace db1 ownerId of
             Some existing \<Rightarrow>
               if ws_org existing \<noteq> org_id organization
               then (Inr (existing\<lparr>ws_org := org_id organization\<rparr>, False),
                     db1\<lparr>workspaces :=
                       sql_update (\<lambda>w. row_id w = ws_id existing \<and> row_owner w = ownerId)
                         (\<lambda>w. w\<lparr>row_org := Some (org_id organization)\<rparr>) (workspaces db1)\<rparr>)
               else (Inr (existing, False), db1)
           | None \<Rightarrow>
               (case insertWorkspace db1
                       \<lparr>ws_id = mint_id mw, ws_owner = ownerId, ws_name = DEFAULT_WORKSPACE_NAME,
                        ws_slug = DEFAULT_WORKSPACE_SLUG, ws_created = mint_now mw,
                        ws_org = org_id organization\<rparr> of
                  (Inl e, db2) \<Rightarrow> (Inl e, db2)
                | (Inr w, db2) \<Rightarrow> (Inr (w, True), db2))))"

subsection \<open>Keys of the two tables\<close>

interpretation org_ids: keyed_table org_id org_clash
  by unfold_locales (simp add: org_clash_def)

interpretation org_slugs: keyed_table "\<lambda>r. (org_owner r, org_slug r)" org_clash
  by unfold_locales (simp add: org_clash_def)

interpretation ws_ids: keyed_table row_id ws_clash
  by unfold_locales (simp add: ws_clash_def)

interpretation ws_slugs: keyed_table "\<lambda>w. (row_owner w, row_slug w)" ws_clash
  by unfold_locales (simp add: ws_clash_def)

subsection \<open>The invariant of the two tables\<close>

text \<open>
  Keys are unique, organization ids are trimmed and not empty (they come from \<^verbatim>\<open>randomUUID\<close>), and
  the organization a workspace names exists and has the workspace's owner.
\<close>

definition id_form :: "string \<Rightarrow> bool" where
  "id_form s \<longleftrightarrow> s \<noteq> [] \<and> js_trim s = s"

definition owned_org :: "organization list \<Rightarrow> workspace_row \<Rightarrow> bool" where
  "owned_org orgs w \<longleftrightarrow>
     (case truthy (row_org w) of None \<Rightarrow> True
      | Some x \<Rightarrow> list_ex (\<lambda>r. org_id r = x \<and> org_owner r = row_owner w) orgs)"

definition scope_inv :: "'a scope_db_scheme \<Rightarrow> bool" where
  "scope_inv db \<longleftrightarrow>
     org_ids.unique (organizations db) \<and> org_slugs.unique (organizations db) \<and>
     ws_ids.unique (workspaces db) \<and> ws_slugs.unique (workspaces db) \<and>
     list_all (\<lambda>r. id_form (org_id r)) (organizations db) \<and>
     list_all (owned_org (organizations db)) (workspaces db)"

lemma owned_org_iff:
  "owned_org orgs w \<longleftrightarrow>
     (\<forall>x. row_org w = Some x \<longrightarrow> x \<noteq> [] \<longrightarrow> (\<exists>r \<in> set orgs. org_id r = x \<and> org_owner r = row_owner w))"
  by (cases "row_org w") (auto simp: owned_org_def list_ex_iff truthy_def)

lemma owned_org_mono: "set orgs \<subseteq> set orgs' \<Longrightarrow> owned_org orgs w \<Longrightarrow> owned_org orgs' w"
  unfolding owned_org_iff by blast

lemma findOrganizationById_Some:
  "findOrganizationById db ownerId i = Some r \<Longrightarrow>
     r \<in> set (organizations db) \<and> org_id r = i \<and> org_owner r = ownerId"
  by (auto simp: findOrganizationById_def dest: sql_first_SomeD)

lemma findOrganizationBySlug_Some:
  "findOrganizationBySlug db ownerId s = Some r \<Longrightarrow>
     r \<in> set (organizations db) \<and> org_slug r = s \<and> org_owner r = ownerId"
  by (auto simp: findOrganizationBySlug_def dest: sql_first_SomeD)

lemma mapWorkspaceRowOrNull_Some:
  "mapWorkspaceRowOrNull row = Some w \<longleftrightarrow>
     (\<exists>x. row_org row = Some x \<and> js_trim x \<noteq> [] \<and>
        w = \<lparr>ws_id = row_id row, ws_owner = row_owner row, ws_name = row_name row,
             ws_slug = row_slug row, ws_created = row_created row, ws_org = js_trim x\<rparr>)"
  by (cases "row_org row") (auto simp: mapWorkspaceRowOrNull_def truthy_def)

lemma in_organization_Some:
  "in_organization f row = Some w \<longleftrightarrow>
     (\<exists>r. row = Some r \<and> mapWorkspaceRowOrNull r = Some w \<and>
        (\<forall>x. truthy f = Some x \<longrightarrow> ws_org w = x))"
  unfolding in_organization_def
  by (cases row; cases "truthy f") (auto split: option.splits if_splits)

lemma findWorkspaceById_Some:
  assumes "findWorkspaceById db ownerId i f = Some w"
  shows "\<exists>r \<in> set (workspaces db). mapWorkspaceRowOrNull r = Some w \<and> row_id r = i \<and>
           row_owner r = ownerId \<and> (\<forall>x. truthy f = Some x \<longrightarrow> ws_org w = x)"
  using assms by (auto simp: findWorkspaceById_def in_organization_Some dest!: sql_first_SomeD)

lemma findWorkspaceBySlug_Some:
  assumes "findWorkspaceBySlug db ownerId s f = Some w"
  shows "\<exists>r \<in> set (workspaces db). mapWorkspaceRowOrNull r = Some w \<and> row_slug r = s \<and>
           row_owner r = ownerId \<and> (\<forall>x. truthy f = Some x \<longrightarrow> ws_org w = x)"
  using assms by (auto simp: findWorkspaceBySlug_def in_organization_Some dest!: sql_first_SomeD)

lemma createOrganization_cases:
  assumes "createOrganization db ownerId n s m = (res, db')"
  shows "(\<exists>e. res = Inl e \<and> db' = db) \<or>
    (\<exists>r t. res = Inr r \<and> sql_insert org_clash r (organizations db) = Inr t \<and>
       db' = db\<lparr>organizations := t\<rparr> \<and> org_id r = mint_id m \<and> org_owner r = ownerId \<and>
       org_slug r = requested_slug s (js_trim n) \<and> org_name r = js_trim n)"
  using assms unfolding createOrganization_def Let_def
  by (auto split: if_splits sum.splits simp del: sql_insert_Inr)

lemma insert_org_inv:
  assumes "scope_inv db" and "sql_insert org_clash r (organizations db) = Inr t"
    and "id_form (org_id r)"
  shows "scope_inv (db\<lparr>organizations := t\<rparr>)"
  using assms org_ids.unique_insert [OF _ assms(2)] org_slugs.unique_insert [OF _ assms(2)]
  by (auto simp: scope_inv_def list_all_iff intro: owned_org_mono [rotated])

lemma createOrganization_inv:
  assumes "scope_inv db" and "id_form (mint_id m)"
  shows "scope_inv (snd (createOrganization db ownerId n s m))"
proof -
  obtain res db' where eq: "createOrganization db ownerId n s m = (res, db')" by fastforce
  from createOrganization_cases [OF eq] show ?thesis
  proof (elim disjE exE conjE)
    fix e assume "db' = db"
    with assms eq show ?thesis by simp
  next
    fix r t
    assume "sql_insert org_clash r (organizations db) = Inr t"
      "db' = db\<lparr>organizations := t\<rparr>" "org_id r = mint_id m"
    with assms eq show ?thesis by (simp add: insert_org_inv del: sql_insert_Inr)
  qed
qed

lemma ensureDefaultOrganization_inv:
  assumes "scope_inv db" and "id_form (mint_id m)"
  shows "scope_inv (snd (ensureDefaultOrganization db ownerId m))"
  using createOrganization_inv [OF assms, of ownerId DEFAULT_ORGANIZATION_NAME
      "Some DEFAULT_ORGANIZATION_SLUG"] assms(1)
  by (auto simp: ensureDefaultOrganization_def split: option.splits prod.splits sum.splits)

lemma requested_slug_default [simp]: "requested_slug (Some ''default'') n = ''default''"
  by code_simp

lemma ensureDefaultOrganization_Inr:
  assumes "ensureDefaultOrganization db ownerId m = (Inr (r, c), db')"
  shows "r \<in> set (organizations db') \<and> org_owner r = ownerId \<and>
    org_slug r = DEFAULT_ORGANIZATION_SLUG \<and> workspaces db' = workspaces db"
proof (cases "findOrganizationBySlug db ownerId DEFAULT_ORGANIZATION_SLUG")
  case None
  with assms obtain x where x: "createOrganization db ownerId DEFAULT_ORGANIZATION_NAME
      (Some DEFAULT_ORGANIZATION_SLUG) m = (x, db')" "x = Inr r"
    by (auto simp: ensureDefaultOrganization_def split: prod.splits sum.splits)
  from createOrganization_cases [OF x(1)] x(2) show ?thesis
    by (auto simp: DEFAULT_ORGANIZATION_SLUG_def)
next
  case (Some a)
  with assms findOrganizationBySlug_Some [OF Some] show ?thesis
    by (auto simp: ensureDefaultOrganization_def)
qed

lemma insertWorkspace_cases:
  assumes "insertWorkspace db w = (res, db')"
  shows "(\<exists>e. res = Inl e \<and> db' = db) \<or>
    (\<exists>t. res = Inr w \<and> sql_insert ws_clash (workspace_of_row w) (workspaces db) = Inr t \<and>
       db' = db\<lparr>workspaces := t\<rparr>)"
  using assms unfolding insertWorkspace_def
  by (auto split: sum.splits simp del: sql_insert_Inr)

lemma insertWorkspace_inv:
  assumes "scope_inv db" and "\<exists>r \<in> set (organizations db). org_id r = ws_org w \<and> org_owner r = ws_owner w"
  shows "scope_inv (snd (insertWorkspace db w))"
proof -
  obtain res db' where eq: "insertWorkspace db w = (res, db')" by fastforce
  from insertWorkspace_cases [OF eq] show ?thesis
  proof (elim disjE exE conjE)
    fix e assume "db' = db"
    with assms eq show ?thesis by simp
  next
    fix t
    assume t: "sql_insert ws_clash (workspace_of_row w) (workspaces db) = Inr t"
      and db': "db' = db\<lparr>workspaces := t\<rparr>"
    from assms(2) have "owned_org (organizations db) (workspace_of_row w)"
      by (auto simp: owned_org_iff workspace_of_row_def)
    with assms(1) t show ?thesis
      using ws_ids.unique_insert [OF _ t] ws_slugs.unique_insert [OF _ t] eq db'
      by (auto simp: scope_inv_def list_all_iff)
  qed
qed

lemma createWorkspace_inv:
  assumes "scope_inv db"
  shows "scope_inv (snd (createWorkspace db ownerId i n s m))"
proof (cases "truthy (map_option js_trim i)")
  case None
  with assms show ?thesis by (simp add: createWorkspace_def)
next
  case (Some organizationId)
  show ?thesis
  proof (cases "organizationExistsForOwner db ownerId organizationId")
    case False
    with assms Some show ?thesis by (simp add: createWorkspace_def)
  next
    case True
    then obtain r where "findOrganizationById db ownerId organizationId = Some r"
      by (auto simp: organizationExistsForOwner_def)
    from findOrganizationById_Some [OF this]
    have "\<exists>r \<in> set (organizations db). org_id r = organizationId \<and> org_owner r = ownerId" by blast
    with assms Some True show ?thesis
      by (auto simp: createWorkspace_def Let_def intro!: insertWorkspace_inv)
  qed
qed

lemma deleteOrganization_inv:
  assumes "scope_inv db"
  shows "scope_inv (snd (deleteOrganization db ownerId i))"
proof (cases "findOrganizationById db ownerId i \<noteq> None \<and> countWorkspacesInOrganization db i = 0")
  case True
  then have none: "\<forall>w \<in> set (workspaces db). row_org w \<noteq> Some i"
    by (auto simp: countWorkspacesInOrganization_def)
  let ?t = "sql_delete (\<lambda>r. org_id r = i \<and> org_owner r = ownerId) (organizations db)"
  have "owned_org ?t w" if "w \<in> set (workspaces db)" for w
  proof -
    have "owned_org (organizations db) w" using assms that by (auto simp: scope_inv_def list_all_iff)
    moreover have "row_org w \<noteq> Some i" using none that by blast
    ultimately show ?thesis by (auto simp: owned_org_iff)
  qed
  with assms True show ?thesis
    by (auto simp: deleteOrganization_def scope_inv_def list_all_iff org_ids.unique_delete
        org_slugs.unique_delete)
next
  case False
  with assms show ?thesis by (auto simp: deleteOrganization_def Let_def split: option.splits)
qed

lemma relink_inv:
  assumes "scope_inv db" and "r \<in> set (organizations db)" and "org_owner r = ownerId"
  shows "scope_inv (db\<lparr>workspaces := sql_update (\<lambda>w. row_id w = i \<and> row_owner w = ownerId)
           (\<lambda>w. w\<lparr>row_org := Some (org_id r)\<rparr>) (workspaces db)\<rparr>)"
  using assms
  by (auto simp: scope_inv_def ws_ids.unique_update ws_slugs.unique_update list_all_iff
      set_sql_update owned_org_iff)

lemma ensureDefaultWorkspace_inv:
  assumes "scope_inv db" and "id_form (mint_id mo)"
  shows "scope_inv (snd (ensureDefaultWorkspace db ownerId mo mw))"
proof -
  obtain res db1 where e1: "ensureDefaultOrganization db ownerId mo = (res, db1)" by fastforce
  have inv1: "scope_inv db1"
    using ensureDefaultOrganization_inv [OF assms] e1 by (metis snd_conv)
  show ?thesis
  proof (cases res)
    case (Inl e)
    with e1 inv1 show ?thesis by (simp add: ensureDefaultWorkspace_def)
  next
    case (Inr rc)
    then obtain r c where res: "res = Inr (r, c)" by (cases rc) auto
    note org = ensureDefaultOrganization_Inr [OF e1 [unfolded res]]
    show ?thesis
    proof (cases "findDefaultWorkspace db1 ownerId")
      case None
      let ?w = "\<lparr>ws_id = mint_id mw, ws_owner = ownerId, ws_name = DEFAULT_WORKSPACE_NAME,
                 ws_slug = DEFAULT_WORKSPACE_SLUG, ws_created = mint_now mw, ws_org = org_id r\<rparr>"
      have "scope_inv (snd (insertWorkspace db1 ?w))"
        using inv1 org by (intro insertWorkspace_inv) auto
      with None e1 res show ?thesis
        by (auto simp: ensureDefaultWorkspace_def split: prod.splits sum.splits)
    next
      case (Some a)
      with e1 res inv1 org relink_inv [OF inv1, of r ownerId "ws_id a"] show ?thesis
        by (auto simp: ensureDefaultWorkspace_def)
    qed
  qed
qed

subsection \<open>The store as a state machine\<close>

text \<open>Every operation that writes, with the outcome it leaves in the tables, error or not.\<close>

inductive scope_step :: "scope_db \<Rightarrow> scope_db \<Rightarrow> bool" where
  create_organization:
    "id_form (mint_id m) \<Longrightarrow> scope_step db (snd (createOrganization db ownerId n s m))"
| ensure_organization:
    "id_form (mint_id m) \<Longrightarrow> scope_step db (snd (ensureDefaultOrganization db ownerId m))"
| delete_organization:
    "scope_step db (snd (deleteOrganization db ownerId i))"
| create_workspace:
    "scope_step db (snd (createWorkspace db ownerId i n s m))"
| ensure_workspace:
    "id_form (mint_id mo) \<Longrightarrow> scope_step db (snd (ensureDefaultWorkspace db ownerId mo mw))"

inductive scope_reachable :: "scope_db \<Rightarrow> bool" where
  initial: "scope_reachable \<lparr>organizations = [], workspaces = []\<rparr>"
| step: "scope_reachable db \<Longrightarrow> scope_step db db' \<Longrightarrow> scope_reachable db'"

lemma scope_step_inv: "scope_step db db' \<Longrightarrow> scope_inv db \<Longrightarrow> scope_inv db'"
  by (induction rule: scope_step.induct)
     (simp_all add: createOrganization_inv ensureDefaultOrganization_inv deleteOrganization_inv
       createWorkspace_inv ensureDefaultWorkspace_inv)

lemma scope_inv_initial: "scope_inv \<lparr>organizations = [], workspaces = []\<rparr>"
  by (simp add: scope_inv_def)

lemma scope_reachable_scope_inv: "scope_reachable db \<Longrightarrow> scope_inv db"
  by (induction rule: scope_reachable.induct) (auto intro: scope_inv_initial scope_step_inv)

subsection \<open>The default tenant\<close>

lemma scope_inv_id_form: "scope_inv db \<Longrightarrow> r \<in> set (organizations db) \<Longrightarrow> id_form (org_id r)"
  by (auto simp: scope_inv_def list_all_iff)

lemma findOrganizationBySlug_after:
  assumes "ensureDefaultOrganization db ownerId m = (Inr (r, c), db')"
  shows "findOrganizationBySlug db' ownerId DEFAULT_ORGANIZATION_SLUG = Some r"
proof (cases "findOrganizationBySlug db ownerId DEFAULT_ORGANIZATION_SLUG")
  case None
  with assms obtain x where x: "createOrganization db ownerId DEFAULT_ORGANIZATION_NAME
      (Some DEFAULT_ORGANIZATION_SLUG) m = (x, db')" "x = Inr r"
    by (auto simp: ensureDefaultOrganization_def split: prod.splits sum.splits)
  from createOrganization_cases [OF x(1)] x(2) obtain t where
    t: "sql_insert org_clash r (organizations db) = Inr t" "db' = db\<lparr>organizations := t\<rparr>"
    and r: "org_owner r = ownerId" "org_slug r = DEFAULT_ORGANIZATION_SLUG"
    by (auto simp: DEFAULT_ORGANIZATION_SLUG_def)
  from org_slugs.lookup_insert_same [OF t(1)] t(2) r show ?thesis
    by (simp add: findOrganizationBySlug_def)
next
  case (Some a)
  with assms show ?thesis by (auto simp: ensureDefaultOrganization_def)
qed

lemma ensureDefaultOrganization_again:
  assumes "ensureDefaultOrganization db ownerId m = (Inr (r, c), db')"
  shows "ensureDefaultOrganization db' ownerId m' = (Inr (r, False), db')"
  using findOrganizationBySlug_after [OF assms] by (simp add: ensureDefaultOrganization_def)

text \<open>The workspace the bootstrap returns is the one the lookup finds afterwards.\<close>

lemma findDefaultWorkspace_after:
  assumes inv: "scope_inv db" "id_form (mint_id mo)"
    and run: "ensureDefaultWorkspace db ownerId mo mw = (Inr (w, c), db')"
  shows "findDefaultWorkspace db' ownerId = Some w \<and>
    (\<exists>r. ensureDefaultOrganization db' ownerId mo' = (Inr (r, False), db') \<and> ws_org w = org_id r)"
proof -
  obtain r b db1 where e1: "ensureDefaultOrganization db ownerId mo = (Inr (r, b), db1)"
    using run by (auto simp: ensureDefaultWorkspace_def split: prod.splits sum.splits)
  have inv1: "scope_inv db1" using ensureDefaultOrganization_inv [OF inv] e1 by (metis snd_conv)
  from ensureDefaultOrganization_Inr [OF e1] inv1 have form: "id_form (org_id r)"
    using scope_inv_id_form by blast
  have again: "ensureDefaultOrganization db1 ownerId mo' = (Inr (r, False), db1)"
    by (rule ensureDefaultOrganization_again [OF e1])
  have same: "ensureDefaultOrganization (db1\<lparr>workspaces := t\<rparr>) ownerId mo' =
      (Inr (r, False), db1\<lparr>workspaces := t\<rparr>)" for t
    using findOrganizationBySlug_after [OF e1]
    by (simp add: ensureDefaultOrganization_def findOrganizationBySlug_def)
  show ?thesis
  proof (cases "findDefaultWorkspace db1 ownerId")
    case None
    let ?w = "\<lparr>ws_id = mint_id mw, ws_owner = ownerId, ws_name = DEFAULT_WORKSPACE_NAME,
               ws_slug = DEFAULT_WORKSPACE_SLUG, ws_created = mint_now mw, ws_org = org_id r\<rparr>"
    from run e1 None have "insertWorkspace db1 ?w = (Inr w, db')"
      by (auto simp: ensureDefaultWorkspace_def split: prod.splits sum.splits)
    from insertWorkspace_cases [OF this] obtain t where w: "w = ?w"
      and t: "sql_insert ws_clash (workspace_of_row ?w) (workspaces db1) = Inr t"
      and db': "db' = db1\<lparr>workspaces := t\<rparr>" by auto
    from ws_slugs.lookup_insert_same [OF t] form have "findDefaultWorkspace db' ownerId = Some w"
      by (simp add: findDefaultWorkspace_def findWorkspaceBySlug_def db' workspace_of_row_def
          in_organization_Some mapWorkspaceRowOrNull_Some id_form_def w)
    with same w db' show ?thesis by simp
  next
    case (Some a)
    show ?thesis
    proof (cases "ws_org a = org_id r")
      case True
      with run e1 Some again show ?thesis by (auto simp: ensureDefaultWorkspace_def)
    next
      case False
      let ?upd = "\<lambda>w. if row_id w = ws_id a \<and> row_owner w = ownerId
                     then w\<lparr>row_org := Some (org_id r)\<rparr> else w"
      let ?t = "sql_update (\<lambda>w. row_id w = ws_id a \<and> row_owner w = ownerId)
                  (\<lambda>w. w\<lparr>row_org := Some (org_id r)\<rparr>) (workspaces db1)"
      from run e1 Some False have w: "w = a\<lparr>ws_org := org_id r\<rparr>" and db': "db' = db1\<lparr>workspaces := ?t\<rparr>"
        by (auto simp: ensureDefaultWorkspace_def)
      let ?p = "\<lambda>w. row_owner w = ownerId \<and> row_slug w = DEFAULT_WORKSPACE_SLUG"
      from Some obtain x where x: "sql_first ?p (workspaces db1) = Some x"
        and a: "mapWorkspaceRowOrNull x = Some a"
        by (auto simp: findDefaultWorkspace_def findWorkspaceBySlug_def in_organization_Some)
      have "sql_first ?p ?t = Some (?upd x)"
        by (subst sql_first_update) (simp_all add: x)
      moreover have "row_owner x = ownerId" using sql_first_SomeD [OF x] by simp
      ultimately have "findDefaultWorkspace db' ownerId = Some w"
        using a form by (auto simp: findDefaultWorkspace_def findWorkspaceBySlug_def db'
            in_organization_Some mapWorkspaceRowOrNull_Some id_form_def w)
      with same w db' show ?thesis by simp
    qed
  qed
qed

lemma ensureDefaultWorkspace_again:
  assumes "scope_inv db" and "id_form (mint_id mo)"
    and "ensureDefaultWorkspace db ownerId mo mw = (Inr (w, c), db')"
  shows "ensureDefaultWorkspace db' ownerId mo' mw' = (Inr (w, False), db')"
  using findDefaultWorkspace_after [OF assms, of mo'] by (auto simp: ensureDefaultWorkspace_def)

text \<open>
  The bootstrap of the default tenant is idempotent. Once \<^verbatim>\<open>ensureDefaultWorkspace\<close> has returned
  a workspace, every later call for the same owner returns that same workspace, reports that
  nothing was created, and leaves both tables as they are; whether the first call created,
  relinked or found the row.
\<close>

theorem ensureDefaultWorkspace_idempotent:
  assumes "scope_inv db" and "id_form (mint_id mo)"
    and "ensureDefaultWorkspace db ownerId mo mw = (Inr (w, c), db')"
  shows "ensureDefaultWorkspace db' ownerId mo' mw' = (Inr (w, False), db')"
  using assms by (rule ensureDefaultWorkspace_again)

theorem ensureDefaultWorkspace_idempotent_witness:
  "\<exists>w db'. ensureDefaultWorkspace \<lparr>organizations = [], workspaces = []\<rparr> ''o''
        \<lparr>mint_id = ''a'', mint_now = ''t''\<rparr> \<lparr>mint_id = ''b'', mint_now = ''t''\<rparr> = (Inr (w, True), db') \<and>
      ensureDefaultWorkspace db' ''o'' \<lparr>mint_id = ''c'', mint_now = ''u''\<rparr>
        \<lparr>mint_id = ''d'', mint_now = ''u''\<rparr> = (Inr (w, False), db')"
proof -
  let ?db = "\<lparr>organizations = [], workspaces = []\<rparr> :: scope_db"
  let ?mo = "\<lparr>mint_id = ''a'', mint_now = ''t''\<rparr>" and ?mw = "\<lparr>mint_id = ''b'', mint_now = ''t''\<rparr>"
  have form: "id_form (mint_id ?mo)" by code_simp
  let ?w = "\<lparr>ws_id = ''b'', ws_owner = ''o'', ws_name = ''Default'', ws_slug = ''default'',
             ws_created = ''t'', ws_org = ''a''\<rparr>"
  let ?db' = "snd (ensureDefaultWorkspace ?db ''o'' ?mo ?mw)"
  have "fst (ensureDefaultWorkspace ?db ''o'' ?mo ?mw) = Inr (?w, True)" by code_simp
  then have run: "ensureDefaultWorkspace ?db ''o'' ?mo ?mw = (Inr (?w, True), ?db')"
    by (metis prod.collapse)
  from ensureDefaultWorkspace_idempotent [OF scope_inv_initial form run] run show ?thesis by blast
qed

text \<open>
  C6: in every state the store can reach, a workspace that a lookup returns belongs to the owner
  that asked for it, and the organization it names exists and has that same owner: no sequence
  of creations, bootstraps and deletions leaves a workspace pointing at a missing or foreign
  organization.
\<close>

theorem workspace_organization_exists:
  assumes "scope_reachable db" and "findWorkspaceById db ownerId i f = Some w"
  shows "ws_owner w = ownerId \<and> organizationExistsForOwner db ownerId (ws_org w)"
proof -
  from assms(1) have inv: "scope_inv db" by (rule scope_reachable_scope_inv)
  from findWorkspaceById_Some [OF assms(2)] obtain r x where
    r: "r \<in> set (workspaces db)" "row_owner r = ownerId" "row_org r = Some x"
    and w: "js_trim x \<noteq> []" "ws_owner w = ownerId" "ws_org w = js_trim x"
    by (auto simp: mapWorkspaceRowOrNull_Some)
  have ne: "x \<noteq> []" using w(1) by auto
  have "owned_org (organizations db) r" using inv r(1) by (auto simp: scope_inv_def list_all_iff)
  with r(2,3) ne obtain y where y: "y \<in> set (organizations db)" "org_id y = x" "org_owner y = ownerId"
    by (auto simp: owned_org_iff)
  moreover have "js_trim x = x" using scope_inv_id_form [OF inv y(1)] y(2) by (simp add: id_form_def)
  ultimately show ?thesis using w
    by (auto simp: organizationExistsForOwner_def findOrganizationById_def)
qed

theorem workspace_organization_exists_witness:
  "\<exists>db w. findWorkspaceById db ''o'' ''b'' None = Some w \<and> ws_owner w = ''o'' \<and>
      organizationExistsForOwner (db :: scope_db) ''o'' (ws_org w)"
proof -
  let ?db = "snd (ensureDefaultWorkspace \<lparr>organizations = [], workspaces = []\<rparr> ''o''
     \<lparr>mint_id = ''a'', mint_now = ''t''\<rparr> \<lparr>mint_id = ''b'', mint_now = ''t''\<rparr>) :: scope_db"
  let ?w = "\<lparr>ws_id = ''b'', ws_owner = ''o'', ws_name = ''Default'', ws_slug = ''default'',
             ws_created = ''t'', ws_org = ''a''\<rparr>"
  have "id_form (mint_id \<lparr>mint_id = ''a'', mint_now = ''t''\<rparr>)" by code_simp
  then have "scope_reachable ?db"
    by (intro scope_reachable.step [OF scope_reachable.initial] scope_step.ensure_workspace)
  moreover have "findWorkspaceById ?db ''o'' ''b'' None = Some ?w" by code_simp
  ultimately show ?thesis using workspace_organization_exists by blast
qed

text \<open>
  A workspace slug that the owner already uses in another organization is not caught by the
  check of \<^verbatim>\<open>createWorkspace\<close>, whose lookup is filtered by organization, while the table is unique per
  owner and slug: the call ends in the error of the database's constraint (no \<^verbatim>\<open>AppError\<close>, so a 500)
  and not in the validation error the check is there to give.
\<close>

theorem createWorkspace_slug_in_other_organization:
  assumes "organizationExistsForOwner db ownerId (js_trim organizationId)"
    and "js_trim organizationId \<noteq> []" and "js_trim name \<noteq> []"
    and "requested_slug slug (js_trim name) \<noteq> DEFAULT_WORKSPACE_SLUG"
    and "requested_slug slug (js_trim name) \<noteq> []"
    and "findWorkspaceBySlug db ownerId (requested_slug slug (js_trim name)) None = Some w"
    and "ws_org w \<noteq> js_trim organizationId"
  shows "createWorkspace db ownerId (Some organizationId) name slug m =
    (Inl (PlainError ''UNIQUE constraint failed''), db)"
proof -
  let ?s = "requested_slug slug (js_trim name)"
  from assms(6) obtain r where r: "sql_first (\<lambda>w. row_owner w = ownerId \<and> row_slug w = ?s) (workspaces db) = Some r"
    and rw: "mapWorkspaceRowOrNull r = Some w"
    by (auto simp: findWorkspaceBySlug_def in_organization_Some)
  have t: "truthy (Some (js_trim organizationId)) = Some (js_trim organizationId)"
    using assms(2) by (simp add: truthy_eq_Some)
  have "findWorkspaceBySlug db ownerId ?s (Some (js_trim organizationId)) = None"
    using assms(7) by (simp add: findWorkspaceBySlug_def r in_organization_def rw t)
  moreover from sql_first_SomeD [OF r]
  have "list_ex (ws_clash (workspace_of_row
      \<lparr>ws_id = mint_id m, ws_owner = ownerId, ws_name = js_trim name, ws_slug = ?s,
       ws_created = mint_now m, ws_org = js_trim organizationId\<rparr>)) (workspaces db)"
    by (auto simp: list_ex_iff ws_clash_def workspace_of_row_def intro!: bexI [of _ r])
  ultimately show ?thesis using assms t
    by (simp add: createWorkspace_def Let_def insertWorkspace_def sql_insert_def)
qed

definition two_org_db :: scope_db where
  "two_org_db =
     \<lparr>organizations =
        [\<lparr>org_id = ''a'', org_owner = ''o'', org_name = ''A'', org_slug = ''a'', org_created = ''t''\<rparr>,
         \<lparr>org_id = ''b'', org_owner = ''o'', org_name = ''B'', org_slug = ''b'', org_created = ''t''\<rparr>],
      workspaces =
        [\<lparr>row_id = ''w'', row_owner = ''o'', row_name = ''Lab'', row_slug = ''lab'',
          row_created = ''t'', row_org = Some ''a''\<rparr>]\<rparr>"

theorem createWorkspace_slug_in_other_organization_witness:
  "createWorkspace two_org_db ''o'' (Some ''b'') ''Lab'' None \<lparr>mint_id = ''x'', mint_now = ''u''\<rparr> =
    (Inl (PlainError ''UNIQUE constraint failed''), two_org_db)"
proof -
  have "findWorkspaceBySlug two_org_db ''o'' (requested_slug None (js_trim ''Lab'')) None =
      Some \<lparr>ws_id = ''w'', ws_owner = ''o'', ws_name = ''Lab'', ws_slug = ''lab'', ws_created = ''t'',
            ws_org = ''a''\<rparr>" by code_simp
  then show ?thesis
    by (rule createWorkspace_slug_in_other_organization [rotated 5]) code_simp+
qed

end
