(* ===== verification/Tenant_Context.thy ===== *)
theory Tenant_Context
  imports Tenant_Scope
begin

section \<open>Tenant context and memory scope\<close>

text \<open>
  \<^verbatim>\<open>src/src/auth/tenant-context.ts\<close> (headers to tenant), \<^verbatim>\<open>src/src/types/memory-scope.ts\<close> and
  \<^verbatim>\<open>src/src/scope/default-scope-resolver.ts\<close> (authenticated user and hints to the scope every
  memory operation is filtered by). A header bag is a function from lower-case names to the
  values Node gives: a string, or the list of a repeated header.
\<close>

datatype header = HStr string | HList "string list"

type_synonym headers = "string \<Rightarrow> header option"

datatype identity_type = ApiKey | Jwt | OAuth | ServiceAccount | McpToken

record auth_user =
  au_owner :: string
  au_identity :: string
  au_id :: string
  au_type :: identity_type
  au_client :: "string option"
  au_permissions :: "string list"
  au_org :: "string option"
  au_ws :: "string option"

record tenant =
  tn_org :: string
  tn_ws :: string

record scope_hints =
  hint_org :: "string option"
  hint_ws :: "string option"
  hint_agent :: "string option"
  hint_project :: "string option"

record mcp_scope_env =
  env_owner :: string
  env_ws :: "string option"
  env_agent :: "string option"

record memory_scope =
  ms_owner :: string
  ms_workspace :: "string option"
  ms_agent :: "string option"
  ms_project :: "string option"
  ms_org :: "string option"
  ms_department :: "string option"
  ms_tenant_project :: "string option"

definition hasWorkspaceScope :: "memory_scope \<Rightarrow> bool" where
  "hasWorkspaceScope scope \<longleftrightarrow> (case ms_workspace scope of Some w \<Rightarrow> 0 < length w | None \<Rightarrow> False)"

subsection \<open>Headers\<close>

definition headerValue :: "headers \<Rightarrow> string \<Rightarrow> string option" where
  "headerValue headers name =
     (case headers name of
        Some (HStr raw) \<Rightarrow> (let trimmed = js_trim raw in if 0 < length trimmed then Some trimmed else None)
      | Some (HList (raw # _)) \<Rightarrow>
          (let trimmed = js_trim raw in if 0 < length trimmed then Some trimmed else None)
      | _ \<Rightarrow> None)"

text \<open>\<^verbatim>\<open>headerPresent\<close> of the authorization boundary, which the session entry asks first.\<close>

definition headerPresent :: "headers \<Rightarrow> string \<Rightarrow> bool" where
  "headerPresent headers name =
     (case headers name of
        Some (HStr raw) \<Rightarrow> 0 < length (js_trim raw)
      | Some (HList (raw # _)) \<Rightarrow> raw \<noteq> [] \<and> 0 < length (js_trim raw)
      | _ \<Rightarrow> False)"

lemma headerPresent_headerValue: "headerPresent headers name \<longleftrightarrow> headerValue headers name \<noteq> None"
  by (auto simp: headerPresent_def headerValue_def Let_def split: option.splits header.splits list.splits)

lemma headerValue_Some: "headerValue headers name = Some v \<Longrightarrow> v \<noteq> [] \<and> js_trim v = v"
  by (auto simp: headerValue_def Let_def split: option.splits header.splits list.splits if_splits)

subsection \<open>Tenant resolution\<close>

definition resolveTenantContext ::
  "'a scope_db_scheme \<Rightarrow> auth_user \<Rightarrow> headers \<Rightarrow> app_error + tenant" where
  "resolveTenantContext db auth headers =
     (case headerValue headers ''x-organization-id'' of
        None \<Rightarrow> Inl (TenantContextRequiredError ''X-Organization-Id header is required'')
      | Some organizationId \<Rightarrow>
     (case headerValue headers ''x-workspace-id'' of
        None \<Rightarrow> Inl (TenantContextRequiredError ''X-Workspace-Id header is required'')
      | Some workspaceId \<Rightarrow>
     (case findOrganizationById db (au_owner auth) organizationId of
        None \<Rightarrow> Inl (NotFoundError ''Organization'' (Some organizationId))
      | Some _ \<Rightarrow>
     (case findWorkspaceById db (au_owner auth) workspaceId (Some organizationId) of
        None \<Rightarrow> Inl (NotFoundError ''Workspace'' (Some workspaceId))
      | Some _ \<Rightarrow> Inr \<lparr>tn_org = organizationId, tn_ws = workspaceId\<rparr>))))"

definition attachTenantContextToAuthUser :: "auth_user \<Rightarrow> tenant \<Rightarrow> auth_user" where
  "attachTenantContextToAuthUser auth t = auth\<lparr>au_org := Some (tn_org t), au_ws := Some (tn_ws t)\<rparr>"

definition hint_mismatch :: "string option \<Rightarrow> string option \<Rightarrow> bool" where
  "hint_mismatch hint own =
     (case truthy hint of None \<Rightarrow> False
      | Some h \<Rightarrow> (case truthy own of None \<Rightarrow> False | Some v \<Rightarrow> h \<noteq> v))"

definition assertScopeHintsMatchAuthTenant :: "auth_user \<Rightarrow> scope_hints option \<Rightarrow> app_error + unit" where
  "assertScopeHintsMatchAuthTenant auth hints =
     (if hint_mismatch (Option.bind hints hint_org) (au_org auth)
      then Inl (ForbiddenError ''Organization hint does not match authenticated tenant context'')
      else if hint_mismatch (Option.bind hints hint_ws) (au_ws auth)
      then Inl (ForbiddenError ''Workspace hint does not match authenticated tenant context'')
      else Inr ())"

text \<open>\<open>hints?.x?.trim() ?? own\<close>: a hint of white space alone gives the empty string, not \<open>own\<close>.\<close>

definition hint_or :: "string option \<Rightarrow> string option \<Rightarrow> string option" where
  "hint_or hint own = (case map_option js_trim hint of Some s \<Rightarrow> Some s | None \<Rightarrow> own)"

definition resolveFromRequest ::
  "'a scope_db_scheme \<Rightarrow> auth_user \<Rightarrow> scope_hints option \<Rightarrow> app_error + memory_scope" where
  "resolveFromRequest db auth hints =
     (case assertScopeHintsMatchAuthTenant auth hints of
        Inl e \<Rightarrow> Inl e
      | Inr _ \<Rightarrow>
     (case truthy (hint_or (Option.bind hints hint_org) (au_org auth)) of
        None \<Rightarrow> Inl (TenantContextRequiredError
                  ''Organization and workspace context are required for this request'')
      | Some organizationId \<Rightarrow>
     (case truthy (hint_or (Option.bind hints hint_ws) (au_ws auth)) of
        None \<Rightarrow> Inl (TenantContextRequiredError
                  ''Organization and workspace context are required for this request'')
      | Some workspaceId \<Rightarrow>
     (case findWorkspaceById db (au_owner auth) workspaceId (Some organizationId) of
        None \<Rightarrow> Inl (NotFoundError ''Workspace'' (Some workspaceId))
      | Some _ \<Rightarrow>
          Inr \<lparr>ms_owner = au_owner auth, ms_workspace = Some workspaceId,
               ms_agent = truthy (map_option js_trim (Option.bind hints hint_agent)),
               ms_project = truthy (map_option js_trim (Option.bind hints hint_project)),
               ms_org = Some organizationId, ms_department = None, ms_tenant_project = None\<rparr>))))"

definition mcp_scope :: "mcp_scope_env \<Rightarrow> workspace \<Rightarrow> memory_scope" where
  "mcp_scope env w =
     \<lparr>ms_owner = env_owner env, ms_workspace = Some (ws_id w),
      ms_agent = truthy (map_option js_trim (env_agent env)), ms_project = None,
      ms_org = Some (ws_org w), ms_department = None, ms_tenant_project = None\<rparr>"

definition resolveFromMcp ::
  "'a scope_db_scheme \<Rightarrow> mcp_scope_env \<Rightarrow> mint \<Rightarrow> mint
     \<Rightarrow> (app_error + memory_scope) \<times> 'a scope_db_scheme" where
  "resolveFromMcp db env mo mw =
     (case truthy (map_option js_trim (env_ws env)) of
        Some workspaceIdHint \<Rightarrow>
          (case findWorkspaceById db (env_owner env) workspaceIdHint None of
             None \<Rightarrow> (Inl (NotFoundError ''Workspace'' (Some workspaceIdHint)), db)
           | Some w \<Rightarrow> (Inr (mcp_scope env w), db))
      | None \<Rightarrow>
          (case ensureDefaultWorkspace db (env_owner env) mo mw of
             (Inl e, db') \<Rightarrow> (Inl e, db')
           | (Inr (w, _), db') \<Rightarrow> (Inr (mcp_scope env w), db')))"

subsection \<open>What a resolved scope guarantees\<close>

text \<open>The workspace belongs to the owner and lies in the organization.\<close>

definition tenant_owned :: "'a scope_db_scheme \<Rightarrow> string \<Rightarrow> string \<Rightarrow> string \<Rightarrow> bool" where
  "tenant_owned db ownerId organizationId workspaceId \<longleftrightarrow>
     (\<exists>r \<in> set (workspaces db). row_id r = workspaceId \<and> row_owner r = ownerId \<and>
        map_option js_trim (row_org r) = Some organizationId)"

lemma findWorkspaceById_tenant_owned:
  assumes "findWorkspaceById db ownerId i (Some x) = Some w" and "x \<noteq> []"
  shows "tenant_owned db ownerId x i"
  using assms findWorkspaceById_Some [OF assms(1)]
  by (fastforce simp: tenant_owned_def findWorkspaceById_def in_organization_Some
      mapWorkspaceRowOrNull_Some truthy_iffs dest: sql_first_SomeD)

lemma resolveTenantContext_Inr:
  assumes "resolveTenantContext db auth headers = Inr t"
  shows "headerValue headers ''x-organization-id'' = Some (tn_org t) \<and>
    headerValue headers ''x-workspace-id'' = Some (tn_ws t) \<and>
    organizationExistsForOwner db (au_owner auth) (tn_org t) \<and>
    tenant_owned db (au_owner auth) (tn_org t) (tn_ws t)"
proof -
  from assms obtain w where org: "headerValue headers ''x-organization-id'' = Some (tn_org t)"
    and ws: "headerValue headers ''x-workspace-id'' = Some (tn_ws t)"
    and found: "findOrganizationById db (au_owner auth) (tn_org t) \<noteq> None"
      "findWorkspaceById db (au_owner auth) (tn_ws t) (Some (tn_org t)) = Some w"
    by (auto simp: resolveTenantContext_def split: option.splits)
  from headerValue_Some [OF org] have "tn_org t \<noteq> []" by simp
  from findWorkspaceById_tenant_owned [OF found(2) this] org ws found(1) show ?thesis
    by (simp add: organizationExistsForOwner_def)
qed

lemma resolveFromRequest_Inr:
  assumes "resolveFromRequest db auth hints = Inr s"
  shows "\<exists>x w. ms_org s = Some x \<and> ms_workspace s = Some w \<and> ms_owner s = au_owner auth \<and>
    tenant_owned db (au_owner auth) x w \<and>
    assertScopeHintsMatchAuthTenant auth hints = Inr () \<and>
    truthy (hint_or (Option.bind hints hint_org) (au_org auth)) = Some x \<and>
    truthy (hint_or (Option.bind hints hint_ws) (au_ws auth)) = Some w"
proof -
  from assms obtain x w r where
    x: "truthy (hint_or (Option.bind hints hint_org) (au_org auth)) = Some x"
    and w: "truthy (hint_or (Option.bind hints hint_ws) (au_ws auth)) = Some w"
    and found: "findWorkspaceById db (au_owner auth) w (Some x) = Some r"
    and rest: "assertScopeHintsMatchAuthTenant auth hints = Inr ()"
      "ms_org s = Some x" "ms_workspace s = Some w" "ms_owner s = au_owner auth"
    by (auto simp: resolveFromRequest_def split: option.splits sum.splits)
  from x have "x \<noteq> []" by (simp add: truthy_iffs)
  from findWorkspaceById_tenant_owned [OF found this] x w rest show ?thesis by blast
qed

text \<open>With a hint the scope is the authenticated tenant itself: hints never widen it.\<close>

lemma hint_or_own:
  assumes "truthy own = Some v" and "\<not> hint_mismatch hint own" and "truthy (hint_or hint own) = Some s"
    and "js_trim v = v"
  shows "s = v"
  using assms by (cases hint) (auto simp: hint_or_def hint_mismatch_def truthy_iffs split: option.splits if_splits)

text \<open>
  The scope a REST request resolves to never leaves the authenticated tenant. The owner is the
  caller's, the workspace exists, belongs to that owner and lies in the organization of the
  scope; and when the authenticated user already carries a tenant, the scope is exactly that
  tenant, whatever organization and workspace the hints of the request name.
\<close>

theorem resolveFromRequest_tenant:
  assumes "resolveFromRequest db auth hints = Inr s"
    and "\<And>v. au_org auth = Some v \<Longrightarrow> js_trim v = v" and "\<And>v. au_ws auth = Some v \<Longrightarrow> js_trim v = v"
  shows "ms_owner s = au_owner auth \<and>
    (\<exists>x w. ms_org s = Some x \<and> ms_workspace s = Some w \<and> tenant_owned db (au_owner auth) x w \<and>
       (truthy (au_org auth) \<noteq> None \<longrightarrow> au_org auth = Some x) \<and>
       (truthy (au_ws auth) \<noteq> None \<longrightarrow> au_ws auth = Some w))"
proof -
  from resolveFromRequest_Inr [OF assms(1)] obtain x w where
    scope: "ms_org s = Some x" "ms_workspace s = Some w" "ms_owner s = au_owner auth"
      "tenant_owned db (au_owner auth) x w"
    and "assertScopeHintsMatchAuthTenant auth hints = Inr ()"
    and own: "truthy (hint_or (Option.bind hints hint_org) (au_org auth)) = Some x"
      "truthy (hint_or (Option.bind hints hint_ws) (au_ws auth)) = Some w" by blast
  then have hints: "\<not> hint_mismatch (Option.bind hints hint_org) (au_org auth)"
      "\<not> hint_mismatch (Option.bind hints hint_ws) (au_ws auth)"
    by (auto simp: assertScopeHintsMatchAuthTenant_def split: if_splits)
  have "au_org auth = Some x" if "truthy (au_org auth) \<noteq> None"
  proof -
    from that obtain v where v: "truthy (au_org auth) = Some v" by blast
    with hint_or_own [OF v hints(1) own(1)] assms(2) show ?thesis by (simp add: truthy_iffs)
  qed
  moreover have "au_ws auth = Some w" if "truthy (au_ws auth) \<noteq> None"
  proof -
    from that obtain v where v: "truthy (au_ws auth) = Some v" by blast
    with hint_or_own [OF v hints(2) own(2)] assms(3) show ?thesis by (simp add: truthy_iffs)
  qed
  ultimately show ?thesis using scope by blast
qed

definition sample_user :: auth_user where
  "sample_user = \<lparr>au_owner = ''o'', au_identity = ''i'', au_id = ''i'', au_type = Jwt, au_client = None,
     au_permissions = [''memory.read''], au_org = Some ''a'', au_ws = Some ''w''\<rparr>"

theorem resolveFromRequest_tenant_witness:
  "\<exists>s. resolveFromRequest two_org_db sample_user
        (Some \<lparr>hint_org = None, hint_ws = Some ''w'', hint_agent = None, hint_project = Some '' p ''\<rparr>) = Inr s \<and>
      ms_project s = Some ''p'' \<and> ms_owner s = ''o'' \<and> au_ws sample_user = ms_workspace s"
proof -
  let ?h = "Some \<lparr>hint_org = None, hint_ws = Some ''w'', hint_agent = None, hint_project = Some '' p ''\<rparr>"
  let ?s = "\<lparr>ms_owner = ''o'', ms_workspace = Some ''w'', ms_agent = None, ms_project = Some ''p'',
             ms_org = Some ''a'', ms_department = None, ms_tenant_project = None\<rparr>"
  have run: "resolveFromRequest two_org_db sample_user ?h = Inr ?s" by code_simp
  have trim: "js_trim ''a'' = ''a''" "js_trim ''w'' = ''w''" by code_simp+
  have "ms_owner ?s = au_owner sample_user \<and>
    (\<exists>x w. ms_org ?s = Some x \<and> ms_workspace ?s = Some w \<and> tenant_owned two_org_db (au_owner sample_user) x w \<and>
       (truthy (au_org sample_user) \<noteq> None \<longrightarrow> au_org sample_user = Some x) \<and>
       (truthy (au_ws sample_user) \<noteq> None \<longrightarrow> au_ws sample_user = Some w))"
    by (rule resolveFromRequest_tenant [OF run]) (auto simp: sample_user_def trim)
  then show ?thesis using run by (auto simp: sample_user_def)
qed

end
