(* ===== verification/Permissions.thy ===== *)
theory Permissions
  imports Tenant_Context
begin

section \<open>Permissions and the authorization boundary\<close>

text \<open>
  \<^verbatim>\<open>src/src/auth/tenant-context.middleware.ts\<close> (which paths need no tenant),
  \<^verbatim>\<open>src/src/auth/permission-context.ts\<close> (which permission a request needs) and
  \<^verbatim>\<open>src/src/auth/authorization-boundary.ts\<close> (both checks with their audit records). The part of the
  environment they read is the record \<open>mcp_env\<close>; the audit sink is the list of the records a call
  emits, in order. The long dash of an error message, which is outside Latin-1, is written as a
  hyphen.
\<close>

record mcp_env =
  REMOTE_MCP_ENABLED :: bool
  REMOTE_MCP_PATH :: string

definition MCP_SERVER_CARD_PATH :: string where
  "MCP_SERVER_CARD_PATH = ''/.well-known/mcp/server-card.json''"

definition pathOnly :: "string \<Rightarrow> string" where
  "pathOnly url = hd (js_split CHR ''?'' url)"

definition mcp_path :: "mcp_env \<Rightarrow> string" where
  "mcp_path env =
     (if js_starts_with (REMOTE_MCP_PATH env) ''/'' then REMOTE_MCP_PATH env
      else ''/'' @ REMOTE_MCP_PATH env)"

definition mcpPathFromEnv :: "mcp_env \<Rightarrow> string option" where
  "mcpPathFromEnv env = (if \<not> REMOTE_MCP_ENABLED env then None else Some (mcp_path env))"

definition isRemoteMcpPath :: "mcp_env \<Rightarrow> string \<Rightarrow> bool" where
  "isRemoteMcpPath env url =
     (case mcpPathFromEnv env of None \<Rightarrow> False | Some mcpPath \<Rightarrow> pathOnly url = mcpPath)"

definition PUBLIC_PATHS :: "string list" where
  "PUBLIC_PATHS = [''/health'', ''/docs'', ''/docs/json'', ''/docs/yaml'', ''/docs/static'']"

definition isPublicPath :: "string \<Rightarrow> bool" where
  "isPublicPath url =
     (let path = pathOnly url in
      path \<in> set PUBLIC_PATHS
      \<or> js_starts_with path ''/docs/''
      \<or> path = ''/api/v1/auth/bootstrap''
      \<or> path = ''/api/v1/auth/register''
      \<or> path = ''/api/v1/auth/login''
      \<or> path = ''/api/v1/auth/token/reissue''
      \<or> path = ''/api/v1/capabilities'' \<or> path = ''/api/v1/capabilities/negotiate''
      \<or> js_starts_with path ''/api/v1/ecosystem/''
      \<or> js_starts_with path ''/api/v1/infrastructure/marketplace''
      \<or> js_starts_with path ''/api/v1/auth/sso/''
      \<or> path = ''/metrics'' \<or> js_starts_with path ''/metrics?''
      \<or> path = ''/api/v1/health'' \<or> path = ''/health''
      \<or> js_starts_with path ''/.well-known/oauth-protected-resource''
      \<or> path = MCP_SERVER_CARD_PATH
      \<or> path = ''/'')"

definition isTenantContextExemptPath :: "mcp_env \<Rightarrow> string \<Rightarrow> string \<Rightarrow> bool" where
  "isTenantContextExemptPath env url method =
     (isPublicPath url \<or> isRemoteMcpPath env url \<or>
      (let path = pathOnly url in
       js_starts_with path ''/api/v1/auth/''
       \<or> js_starts_with path ''/api/v1/desktop-objects''
       \<or> (path = ''/api/v1/workspaces'' \<and> (method = ''GET'' \<or> method = ''POST''))))"

subsection \<open>The permission of a request\<close>

datatype permission = MEMORY_READ | MEMORY_WRITE | WORKSPACE_READ | WORKSPACE_MANAGE | ORGANIZATION_MANAGE

fun permission_string :: "permission \<Rightarrow> string" where
  "permission_string MEMORY_READ = ''memory.read''"
| "permission_string MEMORY_WRITE = ''memory.write''"
| "permission_string WORKSPACE_READ = ''workspace.read''"
| "permission_string WORKSPACE_MANAGE = ''workspace.manage''"
| "permission_string ORGANIZATION_MANAGE = ''organization.manage''"

definition ALL_PERMISSIONS :: "permission list" where
  "ALL_PERMISSIONS = [MEMORY_READ, MEMORY_WRITE, WORKSPACE_READ, WORKSPACE_MANAGE, ORGANIZATION_MANAGE]"

definition isPermission :: "string \<Rightarrow> bool" where
  "isPermission value = (value \<in> set (map permission_string ALL_PERMISSIONS))"

definition hasPermission :: "string list \<Rightarrow> permission \<Rightarrow> bool" where
  "hasPermission granted required \<longleftrightarrow> permission_string required \<in> set granted"

definition isPublicOrAuthPath :: "mcp_env \<Rightarrow> string \<Rightarrow> bool" where
  "isPublicOrAuthPath env path \<longleftrightarrow>
     path = ''/'' \<or> path = ''/health'' \<or> path = ''/api/v1/health''
     \<or> path = ''/api/v1/capabilities'' \<or> path = ''/api/v1/capabilities/negotiate''
     \<or> js_starts_with path ''/api/v1/ecosystem/''
     \<or> js_starts_with path ''/api/v1/infrastructure/marketplace''
     \<or> js_starts_with path ''/api/v1/auth/sso/''
     \<or> path = ''/metrics'' \<or> js_starts_with path ''/metrics?''
     \<or> js_starts_with path ''/.well-known/oauth-protected-resource''
     \<or> js_starts_with path ''/docs''
     \<or> js_starts_with path ''/api/v1/auth/''
     \<or> path = mcp_path env"

definition isMemoryReadPath :: "string \<Rightarrow> bool" where
  "isMemoryReadPath path \<longleftrightarrow>
     path = ''/api/v1/search'' \<or> js_starts_with path ''/api/v1/memory''
     \<or> path = ''/api/v1/projects'' \<or> path = ''/api/v1/tags''"

definition mutating :: "string \<Rightarrow> bool" where
  "mutating method \<longleftrightarrow> method = ''POST'' \<or> method = ''PUT'' \<or> method = ''PATCH'' \<or> method = ''DELETE''"

definition reading :: "string \<Rightarrow> bool" where
  "reading method \<longleftrightarrow> method = ''GET'' \<or> method = ''HEAD''"

definition isMemoryWritePath :: "string \<Rightarrow> string \<Rightarrow> bool" where
  "isMemoryWritePath path method =
     (if js_starts_with path ''/api/v1/knowledge-fabric/ingest/'' \<and> method = ''POST'' then True
      else if js_starts_with path ''/api/v1/signals'' \<and> method = ''POST'' then True
      else if \<not> js_starts_with path ''/api/v1/memory'' \<and> \<not> js_starts_with path ''/api/v1/backup''
        then False
      else mutating method)"

definition isDataPlanePath :: "mcp_env \<Rightarrow> string \<Rightarrow> string \<Rightarrow> bool" where
  "isDataPlanePath env url method =
     (let path = pathOnly url in
      if isPublicOrAuthPath env path then False
      else if isTenantContextExemptPath env url method then False
      else if path = ''/api/v1/context'' \<and> method = ''POST'' then True
      else if js_starts_with path ''/api/v1/context/packages/'' then True
      else if reading method then isMemoryReadPath path
      else isMemoryWritePath path method)"

definition resolveRequiredPermission :: "mcp_env \<Rightarrow> string \<Rightarrow> string \<Rightarrow> permission option" where
  "resolveRequiredPermission env method url =
     (let path = pathOnly url in
      if isPublicOrAuthPath env path then None
      else if path = ''/api/v1/workspaces'' \<and> method = ''GET'' then Some WORKSPACE_READ
      else if path = ''/api/v1/workspaces'' \<and> method = ''POST'' then Some WORKSPACE_MANAGE
      else if path = ''/api/v1/context'' \<and> method = ''POST'' then Some MEMORY_READ
      else if js_starts_with path ''/api/v1/context/packages/'' \<and> method = ''GET'' then Some MEMORY_READ
      else if js_starts_with path ''/api/v1/context/packages/'' \<and> method = ''POST'' then Some MEMORY_WRITE
      else if reading method \<and> isMemoryReadPath path then Some MEMORY_READ
      else if isMemoryWritePath path method then Some MEMORY_WRITE
      else if reading method then Some MEMORY_READ
      else if mutating method then Some MEMORY_WRITE
      else None)"

record permission_context =
  pc_identity :: string
  pc_owner :: string
  pc_org :: string
  pc_ws :: string
  pc_permissions :: "string list"

definition resolvePermissionContext :: "auth_user \<Rightarrow> app_error + permission_context" where
  "resolvePermissionContext auth =
     (case (truthy (au_org auth), truthy (au_ws auth)) of
        (Some x, Some w) \<Rightarrow>
          Inr \<lparr>pc_identity = au_identity auth, pc_owner = au_owner auth, pc_org = x, pc_ws = w,
               pc_permissions = au_permissions auth\<rparr>
      | _ \<Rightarrow> Inl (TenantContextRequiredError
                  ''Tenant context is required before permission evaluation''))"

definition missing_permission :: "permission \<Rightarrow> app_error" where
  "missing_permission required =
     ForbiddenError (''Missing required permission: '' @ permission_string required)"

definition assertPermission :: "permission_context \<Rightarrow> permission \<Rightarrow> app_error + unit" where
  "assertPermission ctx required =
     (if \<not> hasPermission (pc_permissions ctx) required then Inl (missing_permission required) else Inr ())"

definition evaluatePermissionForRequest ::
  "mcp_env \<Rightarrow> auth_user \<Rightarrow> string \<Rightarrow> string \<Rightarrow> app_error + permission_context option" where
  "evaluatePermissionForRequest env auth method url =
     (case resolveRequiredPermission env method url of
        None \<Rightarrow> Inr None
      | Some required \<Rightarrow>
          if \<not> isTenantContextExemptPath env url method
          then and_then (resolvePermissionContext auth)
                 (\<lambda>ctx. and_then (assertPermission ctx required) (\<lambda>_. Inr (Some ctx)))
          else if \<not> hasPermission (au_permissions auth) required
          then Inl (missing_permission required)
          else Inr None)"

subsection \<open>Audit records\<close>

datatype transport = REST | MCP
datatype decision = Allow | Deny

record audit_record =
  ar_transport :: transport
  ar_identity :: string
  ar_org :: string
  ar_ws :: string
  ar_permission :: "permission option"
  ar_decision :: decision
  ar_reason :: "string option"

definition audit_auth ::
  "transport \<Rightarrow> auth_user \<Rightarrow> permission option \<Rightarrow> decision \<Rightarrow> string \<Rightarrow> audit_record" where
  "audit_auth tr auth p d reason =
     \<lparr>ar_transport = tr, ar_identity = au_identity auth, ar_org = nullish (au_org auth) [],
      ar_ws = nullish (au_ws auth) [], ar_permission = p, ar_decision = d, ar_reason = Some reason\<rparr>"

definition audit_ctx :: "transport \<Rightarrow> permission_context \<Rightarrow> permission \<Rightarrow> audit_record" where
  "audit_ctx tr ctx p =
     \<lparr>ar_transport = tr, ar_identity = pc_identity ctx, ar_org = pc_org ctx, ar_ws = pc_ws ctx,
      ar_permission = Some p, ar_decision = Allow, ar_reason = None\<rparr>"

definition tenant_deny_reason :: "app_error \<Rightarrow> string" where
  "tenant_deny_reason e = (if is_app_error e then error_code e else ''tenant_denied'')"

definition permission_deny_reason :: "app_error \<Rightarrow> string" where
  "permission_deny_reason e = (if is_forbidden_error e then ''permission_denied'' else ''authorization_denied'')"

subsection \<open>The boundary operations\<close>

definition resolveAuthorizedTenantContext ::
  "'a scope_db_scheme \<Rightarrow> auth_user \<Rightarrow> headers \<Rightarrow> transport \<Rightarrow> (app_error + auth_user) \<times> audit_record list" where
  "resolveAuthorizedTenantContext db auth headers tr =
     (case resolveTenantContext db auth headers of
        Inr t \<Rightarrow> (let enriched = attachTenantContextToAuthUser auth t
                 in (Inr enriched, [audit_auth tr enriched None Allow ''tenant_resolved'']))
      | Inl e \<Rightarrow> (Inl e, [audit_auth tr auth None Deny (tenant_deny_reason e)]))"

definition authorizeMcpRemoteSession ::
  "'a scope_db_scheme \<Rightarrow> auth_user \<Rightarrow> headers \<Rightarrow> mint \<Rightarrow> mint
     \<Rightarrow> (app_error + auth_user) \<times> audit_record list \<times> 'a scope_db_scheme" where
  "authorizeMcpRemoteSession db auth headers mo mw =
     (if headerPresent headers ''x-organization-id'' \<or> headerPresent headers ''x-workspace-id''
      then (case resolveAuthorizedTenantContext db auth headers MCP of (r, recs) \<Rightarrow> (r, recs, db))
      else
        (case ensureDefaultWorkspace db (au_owner auth) mo mw of
           (Inl e, db') \<Rightarrow> (Inl e, [audit_auth MCP auth None Deny (tenant_deny_reason e)], db')
         | (Inr (w, _), db') \<Rightarrow>
             if ws_org w = []
             then (let e = TenantContextRequiredError
                     ''Default workspace is missing organization - set X-Organization-Id and X-Workspace-Id''
                   in (Inl e, [audit_auth MCP auth None Deny (tenant_deny_reason e)], db'))
             else (let enriched = attachTenantContextToAuthUser auth \<lparr>tn_org = ws_org w, tn_ws = ws_id w\<rparr>
                   in (Inr enriched,
                       [audit_auth MCP enriched None Allow ''tenant_default_fallback''], db'))))"

definition evaluateRestAuthorization ::
  "mcp_env \<Rightarrow> auth_user \<Rightarrow> string \<Rightarrow> string
     \<Rightarrow> (app_error + permission_context option) \<times> audit_record list" where
  "evaluateRestAuthorization env auth method url =
     (let required = resolveRequiredPermission env method url in
      case evaluatePermissionForRequest env auth method url of
        Inr ctx \<Rightarrow>
          (Inr ctx, (case (required, ctx) of
                       (Some p, Some c) \<Rightarrow> [audit_ctx REST c p] | _ \<Rightarrow> []))
      | Inl e \<Rightarrow> (Inl e, [audit_auth REST auth required Deny (permission_deny_reason e)]))"

definition assertMcpRemoteHandlerPermission ::
  "auth_user \<Rightarrow> permission \<Rightarrow> (app_error + permission_context) \<times> audit_record list" where
  "assertMcpRemoteHandlerPermission auth required =
     (case and_then (resolvePermissionContext auth)
             (\<lambda>ctx. and_then (assertPermission ctx required) (\<lambda>_. Inr ctx)) of
        Inr ctx \<Rightarrow> (Inr ctx, [audit_ctx MCP ctx required])
      | Inl e \<Rightarrow> (Inl e, [audit_auth MCP auth (Some required) Deny (permission_deny_reason e)]))"

definition formatMcpAuthorizationError :: "app_error \<Rightarrow> nat \<times> string \<times> string" where
  "formatMcpAuthorizationError e =
     (if is_forbidden_error e then (403, ''FORBIDDEN'', ''permission_denied'')
      else if is_app_error e then
        (if error_code e = ''TENANT_CONTEXT_REQUIRED''
         then (error_status e, error_code e, ''tenant_context_required'')
         else if error_code e = ''NOT_FOUND'' then (404, ''NOT_FOUND'', ''not_found'')
         else (error_status e, error_code e, ''authorization_denied''))
      else (500, ''INTERNAL_ERROR'', ''authorization_denied''))"

subsection \<open>What the checks guarantee\<close>

lemma resolvePermissionContext_Inr:
  "resolvePermissionContext auth = Inr ctx \<longleftrightarrow>
     (\<exists>x w. truthy (au_org auth) = Some x \<and> truthy (au_ws auth) = Some w \<and>
        ctx = \<lparr>pc_identity = au_identity auth, pc_owner = au_owner auth, pc_org = x, pc_ws = w,
               pc_permissions = au_permissions auth\<rparr>)"
  by (auto simp: resolvePermissionContext_def split: option.splits)

lemma assertPermission_Inr: "assertPermission ctx p = Inr u \<longleftrightarrow> hasPermission (pc_permissions ctx) p"
  by (simp add: assertPermission_def)

lemma evaluatePermission_granted:
  assumes "evaluatePermissionForRequest env auth method url = Inr r"
    and "resolveRequiredPermission env method url = Some p"
  shows "hasPermission (au_permissions auth) p"
  using assms
  by (auto simp: evaluatePermissionForRequest_def and_then_eq_Inr resolvePermissionContext_Inr
      assertPermission_Inr split: if_splits)

lemma evaluatePermission_tenant:
  assumes "evaluatePermissionForRequest env auth method url = Inr r"
    and "resolveRequiredPermission env method url = Some p"
    and "\<not> isTenantContextExemptPath env url method"
  shows "\<exists>ctx. r = Some ctx \<and> pc_owner ctx = au_owner auth \<and> pc_identity ctx = au_identity auth \<and> au_org auth = Some (pc_org ctx) \<and>
    au_ws auth = Some (pc_ws ctx) \<and> pc_org ctx \<noteq> [] \<and> pc_ws ctx \<noteq> []"
  using assms
  by (auto simp: evaluatePermissionForRequest_def and_then_eq_Inr resolvePermissionContext_Inr truthy_iffs)

lemma data_plane_not_exempt:
  assumes "isDataPlanePath env url method"
  shows "\<not> isTenantContextExemptPath env url method" and "\<not> isPublicPath url"
    and "\<not> isPublicOrAuthPath env (pathOnly url)" and "\<not> isRemoteMcpPath env url"
  using assms by (auto simp: isDataPlanePath_def isTenantContextExemptPath_def Let_def split: if_splits)

lemma resolveRequiredPermission_Some:
  assumes "\<not> isPublicOrAuthPath env (pathOnly url)" and "reading method \<or> mutating method"
  shows "resolveRequiredPermission env method url \<noteq> None"
  using assms by (auto simp: resolveRequiredPermission_def Let_def)

text \<open>
  The permission a request needs is decided by what it does to memories. On every path that is
  not public or authentication, a request with a standard method needs some permission; one that
  changes memories (or backups, signals and ingested documents) needs the write permission, and
  read permission alone never lets a mutating request on a memory path through.
\<close>

theorem memory_write_needs_permission:
  assumes "\<not> isPublicOrAuthPath env (pathOnly url)" and "mutating method"
    and "js_starts_with (pathOnly url) ''/api/v1/memory''"
    and "evaluatePermissionForRequest env auth method url = Inr r"
  shows "resolveRequiredPermission env method url = Some MEMORY_WRITE \<and>
    ''memory.write'' \<in> set (au_permissions auth)"
proof -
  have ne: "pathOnly url \<noteq> ''/api/v1/workspaces''" "pathOnly url \<noteq> ''/api/v1/context''"
    "\<not> js_starts_with (pathOnly url) ''/api/v1/context/packages/''"
    using assms(3) by (auto simp: js_starts_with_iff)
  have "\<not> reading method" using assms(2) by (auto simp: reading_def mutating_def)
  then have req: "resolveRequiredPermission env method url = Some MEMORY_WRITE"
    using assms(1,2,3) ne by (simp add: resolveRequiredPermission_def isMemoryWritePath_def Let_def)
  with evaluatePermission_granted [OF assms(4)] show ?thesis by (simp add: hasPermission_def)
qed

theorem memory_write_needs_permission_witness:
  "resolveRequiredPermission \<lparr>REMOTE_MCP_ENABLED = True, REMOTE_MCP_PATH = ''mcp''\<rparr> ''DELETE'' ''/api/v1/memory/1?x''
     = Some MEMORY_WRITE \<and>
   ''memory.write'' \<in> set (au_permissions (sample_user\<lparr>au_permissions := [''memory.read'', ''memory.write'']\<rparr>))"
proof -
  let ?env = "\<lparr>REMOTE_MCP_ENABLED = True, REMOTE_MCP_PATH = ''mcp''\<rparr>"
  let ?u = "sample_user\<lparr>au_permissions := [''memory.read'', ''memory.write'']\<rparr>"
  have "evaluatePermissionForRequest ?env ?u ''DELETE'' ''/api/v1/memory/1?x'' =
    Inr (Some \<lparr>pc_identity = ''i'', pc_owner = ''o'', pc_org = ''a'', pc_ws = ''w'',
               pc_permissions = [''memory.read'', ''memory.write'']\<rparr>)" by code_simp
  then show ?thesis
    by (rule memory_write_needs_permission [rotated 3]) code_simp+
qed

text \<open>
  The error a remote MCP client receives carries exactly the status and the code of the error
  that was raised, for every error class, and a reason from a fixed vocabulary of four: nothing
  else of the error (no message, no identifier) reaches the client.
\<close>

theorem formatMcpAuthorizationError_faithful:
  "formatMcpAuthorizationError e = (error_status e, error_code e, snd (snd (formatMcpAuthorizationError e))) \<and>
   snd (snd (formatMcpAuthorizationError e)) \<in>
     {''permission_denied'', ''tenant_context_required'', ''not_found'', ''authorization_denied''}"
  by (cases e) (simp_all add: formatMcpAuthorizationError_def)

text \<open>
  Every decision of the permission check is recorded faithfully: a refused request leaves
  exactly one record, a denial that names the permission it needed; a request allowed with a
  tenant leaves exactly one record, an approval that names the tenant and the permission.
  A request on a path that needs no tenant is the exception: it is allowed without a record.
\<close>

theorem evaluateRestAuthorization_audit:
  "case evaluateRestAuthorization env auth method url of
     (Inl e, recs) \<Rightarrow> (\<exists>a. recs = [a] \<and> ar_decision a = Deny \<and> ar_identity a = au_identity auth \<and>
        ar_permission a = resolveRequiredPermission env method url \<and> ar_permission a \<noteq> None)
   | (Inr (Some ctx), recs) \<Rightarrow> (\<exists>a. recs = [a] \<and> ar_decision a = Allow \<and> ar_identity a = au_identity auth \<and>
        ar_permission a = resolveRequiredPermission env method url \<and> ar_permission a \<noteq> None \<and>
        au_org auth = Some (ar_org a) \<and> au_ws auth = Some (ar_ws a))
   | (Inr None, recs) \<Rightarrow> recs = [] \<and>
        (resolveRequiredPermission env method url = None \<or> isTenantContextExemptPath env url method)"
proof (cases "resolveRequiredPermission env method url")
  case None
  then show ?thesis by (simp add: evaluateRestAuthorization_def evaluatePermissionForRequest_def)
next
  case (Some p)
  show ?thesis
  proof (cases "evaluatePermissionForRequest env auth method url")
    case (Inl e)
    with Some show ?thesis by (simp add: evaluateRestAuthorization_def audit_auth_def)
  next
    case (Inr r)
    show ?thesis
    proof (cases "isTenantContextExemptPath env url method")
      case True
      with Some Inr show ?thesis
        by (auto simp: evaluateRestAuthorization_def evaluatePermissionForRequest_def split: if_splits)
    next
      case False
      from evaluatePermission_tenant [OF Inr Some False] Some Inr show ?thesis
        by (auto simp: evaluateRestAuthorization_def audit_ctx_def)
    qed
  qed
qed

text \<open>
  The workspace list is served without any record of the decision: the management path needs a
  permission and is exempt from tenant context, and for such a path the "audit trail" of
  \<^verbatim>\<open>evaluateRestAuthorization\<close> records denials only.
\<close>

theorem workspace_list_allowed_unrecorded:
  assumes "pathOnly url = ''/api/v1/workspaces''" and "mcp_path env \<noteq> ''/api/v1/workspaces''"
    and "''workspace.read'' \<in> set (au_permissions auth)"
  shows "evaluateRestAuthorization env auth ''GET'' url = (Inr None, [])"
proof -
  have "\<not> isPublicOrAuthPath env ''/api/v1/workspaces''"
    using assms(2) by (simp add: isPublicOrAuthPath_def js_starts_with_def)
  then have "resolveRequiredPermission env ''GET'' url = Some WORKSPACE_READ"
    using assms(1) by (simp add: resolveRequiredPermission_def)
  moreover have "isTenantContextExemptPath env url ''GET''"
    using assms(1) by (simp add: isTenantContextExemptPath_def)
  ultimately show ?thesis using assms(3)
    by (simp add: evaluateRestAuthorization_def evaluatePermissionForRequest_def hasPermission_def)
qed

theorem workspace_list_allowed_unrecorded_witness:
  "evaluateRestAuthorization \<lparr>REMOTE_MCP_ENABLED = False, REMOTE_MCP_PATH = ''/mcp''\<rparr>
     (sample_user\<lparr>au_permissions := [''workspace.read'']\<rparr>) ''GET'' ''/api/v1/workspaces?limit=1'' = (Inr None, [])"
  by (rule workspace_list_allowed_unrecorded) code_simp+

lemma data_plane_permission:
  assumes "isDataPlanePath env url method" and "reading method \<or> mutating method"
    and "evaluatePermissionForRequest env auth method url = Inr r"
  shows "\<exists>p ctx. resolveRequiredPermission env method url = Some p \<and> r = Some ctx \<and>
    hasPermission (au_permissions auth) p \<and> au_org auth = Some (pc_org ctx) \<and>
    au_ws auth = Some (pc_ws ctx) \<and> pc_org ctx \<noteq> [] \<and> pc_ws ctx \<noteq> []"
proof -
  from resolveRequiredPermission_Some [OF data_plane_not_exempt(3) [OF assms(1)] assms(2)]
  obtain p where p: "resolveRequiredPermission env method url = Some p" by blast
  from evaluatePermission_granted [OF assms(3) p]
    evaluatePermission_tenant [OF assms(3) p data_plane_not_exempt(1) [OF assms(1)]] p
  show ?thesis by blast
qed

end
