(* ===== verification/Identities.thy ===== *)
theory Identities
  imports Permissions
begin

section \<open>Identities, clients and authentication\<close>

text \<open>
  \<^verbatim>\<open>src/src/auth/\<close>: the tables \<open>identities\<close>, \<open>clients\<close> and \<open>settings\<close> with their repositories, the
  identity and client services, the credential providers and the authentication loop of
  \<^verbatim>\<open>AuthService\<close>. Instants (\<^verbatim>\<open>toISOString\<close> texts that \<^verbatim>\<open>new Date\<close> reads back) are kept as their
  millisecond count. Generated identifiers, secrets and the clock are arguments. The keyed hash
  of \<^verbatim>\<open>crypto.ts\<close> is the parameter \<open>hash\<close>; the encoding of token segments (base64url of JSON) and
  the signature of \<^verbatim>\<open>jwt.service.ts\<close> are the parameters of a \<open>jwt_codec\<close>.
\<close>

record identity_metadata =
  im_permissions :: "string list"
  im_other :: "(string \<times> string) list"

record identity_row =
  ir_id :: string
  ir_type :: identity_type
  ir_name :: string
  ir_secret_hash :: "string option"
  ir_owner :: string
  ir_description :: string
  ir_metadata :: "identity_metadata option"
  ir_client :: "string option"
  ir_created_by :: "string option"
  ir_created :: int
  ir_last_used :: "int option"
  ir_expires :: "int option"
  ir_revoked :: "int option"
  ir_active :: bool

record identity =
  id_id :: string
  id_type :: identity_type
  id_name :: string
  id_owner :: string
  id_description :: string
  id_metadata :: identity_metadata
  id_client :: "string option"
  id_created_by :: "string option"
  id_created :: int
  id_last_used :: "int option"
  id_expires :: "int option"
  id_revoked :: "int option"
  id_active :: bool

record client =
  cl_id :: string
  cl_name :: string
  cl_type :: string
  cl_description :: string
  cl_metadata :: "(string \<times> string) list"
  cl_owner :: string
  cl_created :: int
  cl_active :: bool

record account_row =
  ac_id :: string
  ac_email :: string
  ac_password :: string
  ac_display :: string
  ac_owner :: string
  ac_identity :: string
  ac_created :: int
  ac_last_login :: "int option"
  ac_active :: bool

record attempt_row =
  at_email :: string
  at_failed :: nat
  at_locked_until :: "int option"
  at_last :: int
  at_ip :: "string option"

datatype auth_event_name =
  IdentityCreated | IdentityUsed | IdentityRevoked | IdentityRotated | AuthFailed
  | BootstrapCompleted | ClientCreated | ClientDeactivated

record auth_event =
  ev_event :: auth_event_name
  ev_identity :: "string option"
  ev_owner :: "string option"
  ev_client :: "string option"
  ev_reason :: "string option"

record auth_db = scope_db +
  identities :: "identity_row list"
  clients :: "client list"
  accounts :: "account_row list"
  login_attempts :: "attempt_row list"
  settings :: "(string \<times> string) list"
  auth_events :: "auth_event list"

definition emitAuthEvent :: "auth_event \<Rightarrow> 'a auth_db_scheme \<Rightarrow> 'a auth_db_scheme" where
  "emitAuthEvent ev db = db\<lparr>auth_events := auth_events db @ [ev]\<rparr>"

subsection \<open>The identity repository\<close>

definition default_metadata :: identity_metadata where
  "default_metadata = \<lparr>im_permissions = [''memory.read'', ''memory.write''], im_other = []\<rparr>"

text \<open>The stored metadata text is \<open>None\<close> when it does not parse; then the default is kept.\<close>

definition rowToIdentity :: "identity_row \<Rightarrow> identity" where
  "rowToIdentity row =
     \<lparr>id_id = ir_id row, id_type = ir_type row, id_name = ir_name row, id_owner = ir_owner row,
      id_description = ir_description row,
      id_metadata = nullish (ir_metadata row) default_metadata,
      id_client = ir_client row, id_created_by = ir_created_by row, id_created = ir_created row,
      id_last_used = ir_last_used row, id_expires = ir_expires row, id_revoked = ir_revoked row,
      id_active = ir_active row\<rparr>"

text \<open>Primary key, and the partial unique index on \<^verbatim>\<open>secret_hash\<close>.\<close>

definition identity_clash :: "identity_row \<Rightarrow> identity_row \<Rightarrow> bool" where
  "identity_clash r s \<longleftrightarrow>
     ir_id r = ir_id s \<or> (ir_secret_hash r \<noteq> None \<and> ir_secret_hash r = ir_secret_hash s)"

interpretation identity_ids: keyed_table ir_id identity_clash
  by unfold_locales (simp add: identity_clash_def)

definition findIdentityById :: "'a auth_db_scheme \<Rightarrow> string \<Rightarrow> identity option" where
  "findIdentityById db i = map_option rowToIdentity (sql_first (\<lambda>r. ir_id r = i) (identities db))"

definition findBySecretHash :: "'a auth_db_scheme \<Rightarrow> string \<Rightarrow> identity option" where
  "findBySecretHash db h =
     map_option rowToIdentity (sql_first (\<lambda>r. ir_secret_hash r = Some h) (identities db))"

definition findByName :: "'a auth_db_scheme \<Rightarrow> string \<Rightarrow> identity option" where
  "findByName db n =
     map_option rowToIdentity (sql_first (\<lambda>r. ir_name r = n \<and> ir_active r) (identities db))"

definition countAll :: "'a auth_db_scheme \<Rightarrow> nat" where
  "countAll db = sql_count (\<lambda>_. True) (identities db)"

definition listByOwner :: "'a auth_db_scheme \<Rightarrow> string option \<Rightarrow> identity list" where
  "listByOwner db owner =
     map rowToIdentity (order_desc ir_created
       (case truthy owner of
          Some x \<Rightarrow> sql_select (\<lambda>r. ir_owner r = x) (identities db) | None \<Rightarrow> identities db))"

definition insertIdentity ::
  "'a auth_db_scheme \<Rightarrow> identity_row \<Rightarrow> (app_error + identity) \<times> 'a auth_db_scheme" where
  "insertIdentity db row =
     (case sql_insert identity_clash row (identities db) of
        Inl e \<Rightarrow> (Inl e, db)
      | Inr t \<Rightarrow>
          let db' = db\<lparr>identities := t\<rparr>
          in (case findIdentityById db' (ir_id row) of
                None \<Rightarrow> (Inl (PlainError ''Failed to retrieve inserted identity''), db')
              | Some x \<Rightarrow> (Inr x, db')))"

definition updateIdentities ::
  "'a auth_db_scheme \<Rightarrow> string \<Rightarrow> (identity_row \<Rightarrow> identity_row) \<Rightarrow> 'a auth_db_scheme" where
  "updateIdentities db i f = db\<lparr>identities := sql_update (\<lambda>r. ir_id r = i) f (identities db)\<rparr>"

definition updateLastUsed :: "'a auth_db_scheme \<Rightarrow> string \<Rightarrow> int \<Rightarrow> 'a auth_db_scheme" where
  "updateLastUsed db i now = updateIdentities db i (\<lambda>r. r\<lparr>ir_last_used := Some now\<rparr>)"

definition revokeIdentity :: "'a auth_db_scheme \<Rightarrow> string \<Rightarrow> int \<Rightarrow> identity option \<times> 'a auth_db_scheme" where
  "revokeIdentity db i now =
     (let db' = updateIdentities db i (\<lambda>r. r\<lparr>ir_active := False, ir_revoked := Some now\<rparr>)
      in (findIdentityById db' i, db'))"

definition rotateSecret :: "'a auth_db_scheme \<Rightarrow> string \<Rightarrow> string \<Rightarrow> 'a auth_db_scheme" where
  "rotateSecret db i h =
     updateIdentities db i (\<lambda>r. r\<lparr>ir_secret_hash := Some h, ir_last_used := None\<rparr>)"

definition updateMetadata ::
  "'a auth_db_scheme \<Rightarrow> string \<Rightarrow> identity_metadata \<Rightarrow> 'a auth_db_scheme" where
  "updateMetadata db i m = updateIdentities db i (\<lambda>r. r\<lparr>ir_metadata := Some m\<rparr>)"

subsection \<open>Settings\<close>

definition BOOTSTRAP_COMPLETED :: string where "BOOTSTRAP_COMPLETED = ''bootstrap.completed''"

definition getSetting :: "'a auth_db_scheme \<Rightarrow> string \<Rightarrow> string option" where
  "getSetting db key = map_of (settings db) key"

definition setSetting :: "'a auth_db_scheme \<Rightarrow> string \<Rightarrow> string \<Rightarrow> 'a auth_db_scheme" where
  "setSetting db key v =
     db\<lparr>settings := (if list_ex (\<lambda>p. fst p = key) (settings db)
                    then map (\<lambda>p. if fst p = key then (key, v) else p) (settings db)
                    else settings db @ [(key, v)])\<rparr>"

definition isBootstrapCompleted :: "'a auth_db_scheme \<Rightarrow> bool" where
  "isBootstrapCompleted db \<longleftrightarrow> getSetting db BOOTSTRAP_COMPLETED = Some ''true''"

subsection \<open>Credentials\<close>

definition API_KEY_PREFIX :: string where "API_KEY_PREFIX = ''aic_''"
definition OAUTH_TOKEN_PREFIX :: string where "OAUTH_TOKEN_PREFIX = ''oac_''"

definition isApiKeyFormat :: "string \<Rightarrow> bool" where
  "isApiKeyFormat v \<longleftrightarrow> js_starts_with v API_KEY_PREFIX \<and> length API_KEY_PREFIX + 16 < length v"

definition isOAuthTokenFormat :: "string \<Rightarrow> bool" where
  "isOAuthTokenFormat v \<longleftrightarrow>
     js_starts_with v OAUTH_TOKEN_PREFIX \<and> length OAUTH_TOKEN_PREFIX + 16 < length v"

definition generateApiKeyPlaintext :: "string \<Rightarrow> string" where
  "generateApiKeyPlaintext random = API_KEY_PREFIX @ random"

definition generateOAuthTokenPlaintext :: "string \<Rightarrow> string" where
  "generateOAuthTokenPlaintext random = OAUTH_TOKEN_PREFIX @ random"

definition isJwtFormat :: "string \<Rightarrow> bool" where
  "isJwtFormat v \<longleftrightarrow>
     (let parts = js_split CHR ''.'' v in length parts = 3 \<and> list_all (\<lambda>p. 0 < length p) parts)"

definition extractBearerToken :: "headers \<Rightarrow> string option" where
  "extractBearerToken headers =
     (case headers ''x-api-key'' of
        Some (HStr k) \<Rightarrow>
          if 0 < length k then Some k
          else (case headers ''authorization'' of
                  Some (HStr a) \<Rightarrow>
                    if js_starts_with a ''Bearer '' then Some (js_trim (drop 7 a)) else None
                | _ \<Rightarrow> None)
      | _ \<Rightarrow> (case headers ''authorization'' of
                Some (HStr a) \<Rightarrow>
                  if js_starts_with a ''Bearer '' then Some (js_trim (drop 7 a)) else None
              | _ \<Rightarrow> None))"

record resolved_identity =
  rs_identity :: string
  rs_owner :: string
  rs_type :: identity_type
  rs_client :: "string option"
  rs_metadata :: identity_metadata

definition resolved_of :: "identity \<Rightarrow> resolved_identity" where
  "resolved_of i =
     \<lparr>rs_identity = id_id i, rs_owner = id_owner i, rs_type = id_type i, rs_client = id_client i,
      rs_metadata = id_metadata i\<rparr>"

definition expired :: "identity \<Rightarrow> int \<Rightarrow> bool" where
  "expired i now = (case id_expires i of None \<Rightarrow> False | Some t \<Rightarrow> t < now)"

definition resolveApiKey ::
  "(string \<Rightarrow> string) \<Rightarrow> 'a auth_db_scheme \<Rightarrow> int \<Rightarrow> string \<Rightarrow> app_error + resolved_identity" where
  "resolveApiKey hash db now plaintext =
     (if \<not> isApiKeyFormat plaintext then Inl (UnauthorizedError ''Invalid API key format'')
      else (case findBySecretHash db (hash plaintext) of
              None \<Rightarrow> Inl (UnauthorizedError ''Invalid API key'')
            | Some i \<Rightarrow>
                if \<not> id_active i then Inl (ForbiddenError ''API key has been revoked'')
                else if expired i now then Inl (ForbiddenError ''API key has expired'')
                else Inr (resolved_of i)))"

definition resolveOAuthToken ::
  "(string \<Rightarrow> string) \<Rightarrow> 'a auth_db_scheme \<Rightarrow> int \<Rightarrow> string \<Rightarrow> app_error + resolved_identity" where
  "resolveOAuthToken hash db now plaintext =
     (if \<not> isOAuthTokenFormat plaintext then Inl (UnauthorizedError ''Invalid OAuth token format'')
      else (case findBySecretHash db (hash plaintext) of
              None \<Rightarrow> Inl (UnauthorizedError ''Invalid OAuth token'')
            | Some i \<Rightarrow>
                if \<not> id_active i then Inl (ForbiddenError ''OAuth token has been revoked'')
                else if expired i now then Inl (ForbiddenError ''OAuth token has expired'')
                else Inr (resolved_of i)))"

type_synonym 'd provider = "headers \<Rightarrow> int \<Rightarrow> 'd \<Rightarrow> (app_error + resolved_identity option) \<times> 'd"

definition apiKeyProvider :: "(string \<Rightarrow> string) \<Rightarrow> 'a auth_db_scheme provider" where
  "apiKeyProvider hash headers now db =
     ((case truthy (extractBearerToken headers) of
         None \<Rightarrow> Inr None
       | Some token \<Rightarrow>
           if \<not> isApiKeyFormat token then Inr None
           else map_sum id Some (resolveApiKey hash db now token)), db)"

definition oauthProvider :: "(string \<Rightarrow> string) \<Rightarrow> 'a auth_db_scheme provider" where
  "oauthProvider hash headers now db =
     ((case truthy (extractBearerToken headers) of
         None \<Rightarrow> Inr None
       | Some token \<Rightarrow>
           if \<not> isOAuthTokenFormat token then Inr None
           else map_sum id Some (resolveOAuthToken hash db now token)), db)"

subsection \<open>Signed tokens\<close>

record jwt_claims =
  jc_sub :: string
  jc_owner :: string
  jc_client :: "string option"
  jc_permissions :: "string list"
  jc_type :: string
  jc_iat :: int
  jc_exp :: "int option"
  jc_jti :: "string option"
  jc_aud :: "string option"
  jc_iss :: "string option"
  jc_org :: "string option"
  jc_roles :: "(string \<times> string) list"

record sign_input =
  si_identity :: string
  si_owner :: string
  si_client :: "string option"
  si_permissions :: "string list"
  si_expires :: "int option"
  si_jti :: "string option"
  si_aud :: "string option"
  si_iss :: "string option"
  si_org :: "string option"
  si_roles :: "(string \<times> string) list"

text \<open>
  \<open>jwt_enc\<close> is base64url of the JSON text, \<open>jwt_dec\<close> the parse of a segment (\<open>None\<close> when it throws),
  \<open>jwt_mac\<close> the HMAC-SHA256 of the signing input under the server's secret, \<open>unseal\<close> the AES-GCM
  opening of the three segments of an encrypted studio token.
\<close>

record jwt_codec =
  jwt_head :: string
  jwt_enc :: "jwt_claims \<Rightarrow> string"
  jwt_dec :: "string \<Rightarrow> jwt_claims option"
  jwt_mac :: "string \<Rightarrow> string"
  unseal :: "string \<Rightarrow> string \<Rightarrow> string \<Rightarrow> string option"

definition DEFAULT_EXPIRES_IN_SEC :: int where "DEFAULT_EXPIRES_IN_SEC = 3600"

definition signSegment :: "jwt_codec \<Rightarrow> string \<Rightarrow> string \<Rightarrow> string" where
  "signSegment cd h p = jwt_mac cd (h @ ''.'' @ p)"

definition sign_claims :: "int \<Rightarrow> sign_input \<Rightarrow> jwt_claims" where
  "sign_claims now i =
     (let sec = now div 1000 in
      \<lparr>jc_sub = si_identity i, jc_owner = si_owner i, jc_client = si_client i,
       jc_permissions = si_permissions i, jc_type = ''jwt'', jc_iat = sec,
       jc_exp = Some (sec + nullish (si_expires i) DEFAULT_EXPIRES_IN_SEC),
       jc_jti = truthy (si_jti i), jc_aud = truthy (si_aud i), jc_iss = truthy (si_iss i),
       jc_org = truthy (si_org i), jc_roles = si_roles i\<rparr>)"

definition jwtSign :: "jwt_codec \<Rightarrow> int \<Rightarrow> sign_input \<Rightarrow> string" where
  "jwtSign cd now i =
     (let p = jwt_enc cd (sign_claims now i)
      in jwt_head cd @ ''.'' @ p @ ''.'' @ signSegment cd (jwt_head cd) p)"

definition jwtVerify :: "jwt_codec \<Rightarrow> int \<Rightarrow> string \<Rightarrow> app_error + jwt_claims" where
  "jwtVerify cd now token =
     (case js_split CHR ''.'' token of
        [h, p, sig] \<Rightarrow>
          if sig \<noteq> signSegment cd h p then Inl (UnauthorizedError ''Invalid JWT signature'')
          else (case jwt_dec cd p of
                  None \<Rightarrow> Inl (UnauthorizedError ''Invalid JWT payload'')
                | Some c \<Rightarrow>
                    if jc_type c \<noteq> ''jwt'' \<or> jc_sub c = [] \<or> jc_owner c = []
                    then Inl (UnauthorizedError ''Invalid JWT claims'')
                    else if truthy (jc_aud c) \<noteq> None \<and> jc_aud c \<noteq> Some ''studio''
                    then Inl (UnauthorizedError ''Invalid JWT audience'')
                    else if truthy (jc_iss c) \<noteq> None \<and> jc_iss c \<noteq> Some ''ratary''
                    then Inl (UnauthorizedError ''Invalid JWT issuer'')
                    else if (case jc_exp c of None \<Rightarrow> False | Some t \<Rightarrow> t < now div 1000)
                    then Inl (ForbiddenError ''JWT has expired'')
                    else Inr c)
      | _ \<Rightarrow> Inl (UnauthorizedError ''Invalid JWT format''))"

definition isEncryptedStudioToken :: "string \<Rightarrow> bool" where
  "isEncryptedStudioToken token = js_starts_with token ''rat1.''"

definition decryptStudioToken :: "jwt_codec \<Rightarrow> string \<Rightarrow> app_error + string" where
  "decryptStudioToken cd token =
     (case js_split CHR ''.'' token of
        [v, iv, body, tag] \<Rightarrow>
          if v \<noteq> ''rat1'' then Inl (UnauthorizedError ''Invalid encrypted token'')
          else (case unseal cd iv body tag of
                  None \<Rightarrow> Inl (UnauthorizedError ''Invalid encrypted token'') | Some j \<Rightarrow> Inr j)
      | _ \<Rightarrow> Inl (UnauthorizedError ''Invalid encrypted token''))"

definition resolveBearerJwt :: "jwt_codec \<Rightarrow> string \<Rightarrow> app_error + string option" where
  "resolveBearerJwt cd token =
     (if isEncryptedStudioToken token then map_sum id Some (decryptStudioToken cd token)
      else if isJwtFormat token then Inr (Some token) else Inr None)"

definition jwtProvider :: "jwt_codec \<Rightarrow> 'a auth_db_scheme provider" where
  "jwtProvider cd headers now db =
     ((case truthy (extractBearerToken headers) of
         None \<Rightarrow> Inr None
       | Some raw \<Rightarrow>
           if isApiKeyFormat raw \<or> isOAuthTokenFormat raw then Inr None
           else (case resolveBearerJwt cd raw of
              Inl _ \<Rightarrow> Inl (UnauthorizedError ''Invalid bearer token'')
            | Inr resolved \<Rightarrow>
           (case truthy resolved of
              None \<Rightarrow> Inr None
            | Some jwtToken \<Rightarrow>
           (case jwtVerify cd now jwtToken of
              Inl e \<Rightarrow> Inl e
            | Inr claims \<Rightarrow>
           (case findIdentityById db (jc_sub claims) of
              None \<Rightarrow> Inl (UnauthorizedError ''Invalid JWT'')
            | Some i \<Rightarrow>
                if \<not> id_active i then Inl (ForbiddenError ''Identity has been revoked'')
                else if expired i now then Inl (ForbiddenError ''Identity has expired'')
                else if id_owner i \<noteq> jc_owner claims then Inl (UnauthorizedError ''Invalid JWT'')
                else Inr (Some (resolved_of i))))))), db)"

subsection \<open>External identity providers\<close>

text \<open>
  \<^verbatim>\<open>oidc-token-utils.ts\<close>. A token's payload is what its second segment decodes to, unverified;
  \<open>decode\<close> stands for the base64url and JSON decoding of a segment, with the claims that are
  strings. \<open>oidc_fetch\<close> is the outcome of a request to a URL of the issuer with the token: the parsed
  body when the status is in the 200 range, a refusal, or an exception of the request or parse.
\<close>

record oidc_claims =
  oc_iss :: "string option"
  oc_sub :: "string option"
  oc_email :: "string option"
  oc_name :: "string option"

record oidc_user_info =
  ui_sub :: "string option"
  ui_email :: "string option"
  ui_name :: "string option"

datatype fetch_result = FetchOk oidc_user_info | FetchRefused | FetchThrows

record oidc_env =
  OIDC_ISSUER_URL :: "string option"
  STUDIO_OIDC_ENABLED :: bool
  REMOTE_MCP_OAUTH_ENABLED :: bool
  OIDC_MCP_OWNER_ID :: "string option"
  oidc_decode :: "string \<Rightarrow> oidc_claims option"
  oidc_fetch :: "string \<Rightarrow> string \<Rightarrow> fetch_result"

definition extractOidcAccessToken :: "headers \<Rightarrow> string option" where
  "extractOidcAccessToken headers =
     (case truthy (extractBearerToken headers) of
        None \<Rightarrow> None
      | Some t \<Rightarrow>
          if isApiKeyFormat t \<or> isOAuthTokenFormat t \<or> \<not> isJwtFormat t then None else Some t)"

definition no_claims :: oidc_claims where
  "no_claims = \<lparr>oc_iss = None, oc_sub = None, oc_email = None, oc_name = None\<rparr>"

definition decodeJwtPayload :: "oidc_env \<Rightarrow> string \<Rightarrow> oidc_claims" where
  "decodeJwtPayload env token =
     (case js_split CHR ''.'' token of
        _ # p # _ \<Rightarrow> nullish (oidc_decode env p) no_claims
      | _ \<Rightarrow> no_claims)"

text \<open>\<open>replace(/\/$/, '')\<close>.\<close>

definition strip_slash :: "string \<Rightarrow> string" where
  "strip_slash s = (if s \<noteq> [] \<and> last s = CHR ''/'' then butlast s else s)"

definition issuerMatches :: "oidc_env \<Rightarrow> string \<Rightarrow> string \<Rightarrow> bool" where
  "issuerMatches env token expectedIssuer =
     (let tokenIssuer = (case oc_iss (decodeJwtPayload env token) of Some i \<Rightarrow> strip_slash i | None \<Rightarrow> []);
          issuer = strip_slash expectedIssuer
      in tokenIssuer = [] \<or> tokenIssuer = issuer)"

definition fetchOidcUserInfo :: "oidc_env \<Rightarrow> string \<Rightarrow> string \<Rightarrow> app_error + oidc_user_info" where
  "fetchOidcUserInfo env issuer accessToken =
     (case oidc_fetch env (strip_slash issuer @ ''/oidc/v1/userinfo'') accessToken of
        FetchOk info \<Rightarrow> Inr info
      | FetchThrows \<Rightarrow> Inl (PlainError ''fetch failed'')
      | FetchRefused \<Rightarrow>
     (case oidc_fetch env (strip_slash issuer @ ''/userinfo'') accessToken of
        FetchOk info \<Rightarrow> Inr info
      | FetchThrows \<Rightarrow> Inl (PlainError ''fetch failed'')
      | FetchRefused \<Rightarrow>
          (let payload = decodeJwtPayload env accessToken in
           case truthy (oc_sub payload) of
             Some sub \<Rightarrow> Inr \<lparr>ui_sub = Some sub, ui_email = oc_email payload, ui_name = oc_name payload\<rparr>
           | None \<Rightarrow> Inl (PlainError ''OIDC userinfo failed''))))"

definition studioOidcIdentityName :: "string \<Rightarrow> string" where
  "studioOidcIdentityName subject = ''studio_oidc:'' @ subject"

definition other_claim :: "string \<Rightarrow> string option \<Rightarrow> (string \<times> string) list" where
  "other_claim k v = (case v of None \<Rightarrow> [] | Some x \<Rightarrow> [(k, x)])"

definition oidcAccessTokenProvider :: "oidc_env \<Rightarrow> 'a auth_db_scheme provider" where
  "oidcAccessTokenProvider env headers now db =
     ((case truthy (OIDC_ISSUER_URL env) of
         None \<Rightarrow> Inr None
       | Some url \<Rightarrow>
         if \<not> REMOTE_MCP_OAUTH_ENABLED env \<or> STUDIO_OIDC_ENABLED env then Inr None
         else (case extractOidcAccessToken headers of
            None \<Rightarrow> Inr None
          | Some token \<Rightarrow>
            if \<not> issuerMatches env token (strip_slash url) then Inr None
            else (case fetchOidcUserInfo env (strip_slash url) token of
               Inl _ \<Rightarrow> Inl (UnauthorizedError ''OIDC userinfo failed'')
             | Inr info \<Rightarrow>
               (case truthy (OIDC_MCP_OWNER_ID env) of
                  None \<Rightarrow> Inl (UnauthorizedError ''OIDC_MCP_OWNER_ID is required for MCP OAuth token mapping'')
                | Some ownerId \<Rightarrow>
               (case truthy (ui_sub info) of
                  None \<Rightarrow> Inl (UnauthorizedError ''OIDC token missing subject'')
                | Some subject \<Rightarrow>
                    Inr (Some \<lparr>rs_identity = ''oidc:'' @ subject, rs_owner = ownerId, rs_type = OAuth,
                               rs_client = None,
                               rs_metadata = \<lparr>im_permissions = [''memory.read'', ''memory.write''],
                                 im_other = (''externalSubject'', subject) #
                                   other_claim ''email'' (ui_email info) @
                                   other_claim ''displayName'' (ui_name info)\<rparr>\<rparr>)))))), db)"

definition studioOidcAccessTokenProvider ::
  "oidc_env \<Rightarrow> string \<Rightarrow> string \<Rightarrow> 'a auth_db_scheme provider" where
  "studioOidcAccessTokenProvider env newOwner newId headers now db =
     (case truthy (OIDC_ISSUER_URL env) of
        None \<Rightarrow> (Inr None, db)
      | Some url \<Rightarrow>
        if \<not> STUDIO_OIDC_ENABLED env then (Inr None, db)
        else (case extractOidcAccessToken headers of
           None \<Rightarrow> (Inr None, db)
         | Some token \<Rightarrow>
           if \<not> issuerMatches env token (strip_slash url) then (Inr None, db)
           else (case fetchOidcUserInfo env (strip_slash url) token of
              Inl _ \<Rightarrow> (Inl (UnauthorizedError ''OIDC userinfo failed''), db)
            | Inr info \<Rightarrow>
              (case truthy (ui_sub info) of
                 None \<Rightarrow> (Inl (UnauthorizedError ''OIDC token missing subject''), db)
               | Some subject \<Rightarrow>
                 (case findByName db (studioOidcIdentityName subject) of
                    Some existing \<Rightarrow> (Inr (Some ((resolved_of existing)\<lparr>rs_type := OAuth\<rparr>)), db)
                  | None \<Rightarrow>
                    (case insertIdentity db
                       \<lparr>ir_id = newId, ir_type = OAuth, ir_name = studioOidcIdentityName subject,
                        ir_secret_hash = None, ir_owner = newOwner,
                        ir_description = ''Studio OIDC auto-provisioned identity'',
                        ir_metadata = Some \<lparr>im_permissions = [''memory.read'', ''memory.write''],
                          im_other = (''externalSubject'', subject) #
                            other_claim ''email'' (ui_email info) @
                            other_claim ''displayName'' (ui_name info) @
                            [(''idp'', ''oidc''), (''issuer'', strip_slash url)]\<rparr>,
                        ir_client = None, ir_created_by = None, ir_created = now, ir_last_used = None,
                        ir_expires = None, ir_revoked = None, ir_active = True\<rparr> of
                       (Inl e, db') \<Rightarrow> (Inl e, db')
                     | (Inr created, db') \<Rightarrow> (Inr (Some ((resolved_of created)\<lparr>rs_type := OAuth\<rparr>)), db')))))))"

subsection \<open>The authentication loop\<close>

definition toAuthUser :: "resolved_identity \<Rightarrow> auth_user" where
  "toAuthUser r =
     \<lparr>au_owner = rs_owner r, au_identity = rs_identity r, au_id = rs_identity r, au_type = rs_type r,
      au_client = rs_client r, au_permissions = im_permissions (rs_metadata r), au_org = None, au_ws = None\<rparr>"

definition isForbidden :: "app_error \<Rightarrow> bool" where
  "isForbidden e \<longleftrightarrow> is_app_error e \<and> error_status e = 403"

fun is_unauthorized :: "app_error \<Rightarrow> bool" where
  "is_unauthorized (UnauthorizedError _) = True"
| "is_unauthorized _ = False"

definition auth_failed :: "string \<Rightarrow> auth_event" where
  "auth_failed reason =
     \<lparr>ev_event = AuthFailed, ev_identity = None, ev_owner = None, ev_client = None, ev_reason = Some reason\<rparr>"

fun authenticate ::
  "'a auth_db_scheme provider list \<Rightarrow> headers \<Rightarrow> int \<Rightarrow> 'a auth_db_scheme
     \<Rightarrow> (app_error + auth_user) \<times> 'a auth_db_scheme" where
  "authenticate [] headers now db =
     (Inl (UnauthorizedError ''Invalid or missing credentials''),
      emitAuthEvent (auth_failed ''no_valid_credentials'') db)"
| "authenticate (provider # providers) headers now db =
     (case provider headers now db of
        (Inr None, db') \<Rightarrow> authenticate providers headers now db'
      | (Inr (Some r), db') \<Rightarrow>
          (Inr (toAuthUser r),
           emitAuthEvent \<lparr>ev_event = IdentityUsed, ev_identity = Some (rs_identity r),
                ev_owner = Some (rs_owner r), ev_client = rs_client r, ev_reason = None\<rparr>
             (updateLastUsed db' (rs_identity r) now))
      | (Inl e, db') \<Rightarrow>
          if is_unauthorized e \<or> isForbidden e
          then (Inl e, emitAuthEvent (auth_failed (error_message e)) db')
          else authenticate providers headers now db')"

end
