(* ===== verification/Identity_Service.thy ===== *)
theory Identity_Service
  imports Identities
begin

section \<open>The identity and client services\<close>

text \<open>
  \<^verbatim>\<open>src/src/auth/identity.service.ts\<close>, \<^verbatim>\<open>client.repository.ts\<close> and \<^verbatim>\<open>client.service.ts\<close>, and what
  authentication guarantees about the identity it accepts. What the services generate (ids,
  random secret, clock) is the record \<open>fresh\<close>.
\<close>

record fresh =
  fr_id :: string
  fr_owner :: string
  fr_client :: string
  fr_random :: string
  fr_now :: int

record create_identity_body =
  cb_type :: identity_type
  cb_name :: string
  cb_description :: string
  cb_owner :: "string option"
  cb_client :: "string option"
  cb_expires :: "int option"
  cb_metadata :: "identity_metadata option"

record bootstrap_body =
  bb_name :: string
  bb_owner :: "string option"
  bb_description :: string
  bb_client :: "(string \<times> string \<times> string) option"

definition event_of :: "auth_event_name \<Rightarrow> string option \<Rightarrow> string \<Rightarrow> string option \<Rightarrow> auth_event" where
  "event_of n i owner c =
     \<lparr>ev_event = n, ev_identity = i, ev_owner = Some owner, ev_client = c, ev_reason = None\<rparr>"

definition isBootstrapAvailable :: "'a auth_db_scheme \<Rightarrow> bool" where
  "isBootstrapAvailable db = (if isBootstrapCompleted db then False else countAll db = 0)"

text \<open>
  The three statements run in one transaction: when one is refused, the tables are as before.
\<close>

definition bootstrap ::
  "(string \<Rightarrow> string) \<Rightarrow> 'a auth_db_scheme \<Rightarrow> bootstrap_body \<Rightarrow> fresh
     \<Rightarrow> (app_error + identity \<times> string \<times> string \<times> string option) \<times> 'a auth_db_scheme" where
  "bootstrap hash db input fr =
     (if \<not> isBootstrapAvailable db
      then (Inl (ForbiddenError ''Bootstrap is no longer available''), db)
      else
      let ownerId = nullish (bb_owner input) (fr_owner fr);
          plaintext = generateApiKeyPlaintext (fr_random fr);
          clientId = map_option (\<lambda>_. fr_client fr) (bb_client input);
          row = \<lparr>ir_id = fr_id fr, ir_type = ApiKey, ir_name = bb_name input,
                 ir_secret_hash = Some (hash plaintext), ir_owner = ownerId,
                 ir_description = bb_description input, ir_metadata = Some default_metadata,
                 ir_client = clientId, ir_created_by = Some (fr_id fr), ir_created = fr_now fr,
                 ir_last_used = None, ir_expires = None, ir_revoked = None, ir_active = True\<rparr>;
          inserted =
            and_then
              (case bb_client input of
                 None \<Rightarrow> Inr (clients db)
               | Some (n, t, d) \<Rightarrow>
                   sql_insert (\<lambda>c1 c2. cl_id c1 = cl_id c2)
                     \<lparr>cl_id = fr_client fr, cl_name = n, cl_type = t, cl_description = d,
                      cl_metadata = [], cl_owner = ownerId, cl_created = fr_now fr, cl_active = True\<rparr>
                     (clients db))
              (\<lambda>cs. and_then (sql_insert identity_clash row (identities db)) (\<lambda>ids. Inr (cs, ids)))
      in case inserted of
           Inl e \<Rightarrow> (Inl e, db)
         | Inr (cs, ids) \<Rightarrow>
             let db1 = setSetting (db\<lparr>clients := cs, identities := ids\<rparr>) BOOTSTRAP_COMPLETED ''true''
             in (case findIdentityById db1 (fr_id fr) of
                   None \<Rightarrow> (Inl (PlainError ''Bootstrap identity not found after insert''), db1)
                 | Some i \<Rightarrow>
                     (Inr (i, plaintext, ownerId, clientId),
                      emitAuthEvent (event_of IdentityCreated (Some (id_id i)) ownerId clientId)
                        ((case clientId of None \<Rightarrow> (\<lambda>d. d)
                          | Some c \<Rightarrow> emitAuthEvent (event_of ClientCreated None ownerId (Some c)))
                         (emitAuthEvent (event_of BootstrapCompleted (Some (id_id i)) ownerId clientId)
                           db1)))))"

definition createIdentity ::
  "(string \<Rightarrow> string) \<Rightarrow> 'a auth_db_scheme \<Rightarrow> create_identity_body \<Rightarrow> string \<Rightarrow> string \<Rightarrow> fresh
     \<Rightarrow> (app_error + identity \<times> string option) \<times> 'a auth_db_scheme" where
  "createIdentity hash db input actorIdentity actorOwner fr =
     (let ownerId = nullish (cb_owner input) actorOwner;
          plaintext = (if cb_type input = Jwt then None
                       else if cb_type input = OAuth then Some (generateOAuthTokenPlaintext (fr_random fr))
                       else Some (generateApiKeyPlaintext (fr_random fr)))
      in case insertIdentity db
           \<lparr>ir_id = fr_id fr, ir_type = cb_type input, ir_name = cb_name input,
            ir_secret_hash = map_option hash plaintext, ir_owner = ownerId,
            ir_description = cb_description input,
            ir_metadata = Some (nullish (cb_metadata input) default_metadata),
            ir_client = cb_client input, ir_created_by = Some actorIdentity, ir_created = fr_now fr,
            ir_last_used = None, ir_expires = cb_expires input, ir_revoked = None, ir_active = True\<rparr> of
           (Inl e, db') \<Rightarrow> (Inl e, db')
         | (Inr i, db') \<Rightarrow>
             (Inr (i, plaintext),
              emitAuthEvent (event_of IdentityCreated (Some (id_id i)) (id_owner i) (id_client i)) db'))"

definition revoke ::
  "'a auth_db_scheme \<Rightarrow> string \<Rightarrow> string \<Rightarrow> int \<Rightarrow> (app_error + identity) \<times> 'a auth_db_scheme" where
  "revoke db i actorOwnerId now =
     (case findIdentityById db i of
        None \<Rightarrow> (Inl (NotFoundError ''Identity'' (Some i)), db)
      | Some x \<Rightarrow>
          if id_owner x \<noteq> actorOwnerId
          then (Inl (ForbiddenError ''Cannot revoke identity owned by another user''), db)
          else (case revokeIdentity db i now of
                  (None, db') \<Rightarrow> (Inl (NotFoundError ''Identity'' (Some i)), db')
                | (Some revoked, db') \<Rightarrow>
                    (Inr revoked,
                     emitAuthEvent (event_of IdentityRevoked (Some i) (id_owner x) (id_client x)) db')))"

definition rotateIdentity ::
  "(string \<Rightarrow> string) \<Rightarrow> 'a auth_db_scheme \<Rightarrow> string \<Rightarrow> string \<Rightarrow> string
     \<Rightarrow> (app_error + identity \<times> string) \<times> 'a auth_db_scheme" where
  "rotateIdentity hash db i actorOwnerId random =
     (case findIdentityById db i of
        None \<Rightarrow> (Inl (NotFoundError ''Identity'' (Some i)), db)
      | Some x \<Rightarrow>
          if id_owner x \<noteq> actorOwnerId
          then (Inl (ForbiddenError ''Cannot rotate identity owned by another user''), db)
          else if \<not> id_active x then (Inl (ForbiddenError ''Cannot rotate revoked identity''), db)
          else if id_type x = Jwt
          then (Inl (ForbiddenError ''JWT identities do not support secret rotation''), db)
          else
            let plaintext = (if id_type x = OAuth then generateOAuthTokenPlaintext random
                             else generateApiKeyPlaintext random);
                h = hash plaintext
            in if list_ex (\<lambda>r. ir_id r \<noteq> i \<and> ir_secret_hash r = Some h) (identities db)
               then (Inl (PlainError ''UNIQUE constraint failed''), db)
               else let db' = rotateSecret db i h
                    in (case findIdentityById db' i of
                          None \<Rightarrow> (Inl (NotFoundError ''Identity'' (Some i)), db')
                        | Some updated \<Rightarrow>
                            (Inr (updated, plaintext),
                             emitAuthEvent (event_of IdentityRotated (Some i) (id_owner x) (id_client x)) db')))"

definition issueToken ::
  "jwt_codec \<Rightarrow> 'a auth_db_scheme \<Rightarrow> auth_user \<Rightarrow> int \<Rightarrow> int \<Rightarrow> app_error + string \<times> int" where
  "issueToken cd db actor expires_in now =
     (case findIdentityById db (au_identity actor) of
        None \<Rightarrow> Inl (NotFoundError ''Identity'' (Some (au_identity actor)))
      | Some i \<Rightarrow>
          if \<not> id_active i then Inl (ForbiddenError ''Cannot issue token for revoked identity'')
          else Inr (jwtSign cd now
                      \<lparr>si_identity = id_id i, si_owner = id_owner i, si_client = id_client i,
                       si_permissions = im_permissions (id_metadata i), si_expires = Some expires_in,
                       si_jti = None, si_aud = None, si_iss = None, si_org = None, si_roles = []\<rparr>,
                    expires_in))"

definition verifyByPlaintext :: "(string \<Rightarrow> string) \<Rightarrow> 'a auth_db_scheme \<Rightarrow> string \<Rightarrow> app_error + identity" where
  "verifyByPlaintext hash db plaintext =
     (case findBySecretHash db (hash plaintext) of
        None \<Rightarrow> Inl (NotFoundError ''Identity'' None) | Some i \<Rightarrow> Inr i)"

subsection \<open>Clients\<close>

record update_client =
  uc_name :: "string option"
  uc_type :: "string option"
  uc_description :: "string option"
  uc_metadata :: "(string \<times> string) list option"
  uc_active :: "bool option"

definition findClientById :: "'a auth_db_scheme \<Rightarrow> string \<Rightarrow> client option" where
  "findClientById db i = sql_first (\<lambda>c. cl_id c = i) (clients db)"

definition listClients :: "'a auth_db_scheme \<Rightarrow> string \<Rightarrow> client list" where
  "listClients db ownerId = order_desc cl_created (sql_select (\<lambda>c. cl_owner c = ownerId) (clients db))"

definition createClient ::
  "'a auth_db_scheme \<Rightarrow> string \<Rightarrow> string \<Rightarrow> string option \<Rightarrow> (string \<times> string) list option \<Rightarrow> string \<Rightarrow> fresh
     \<Rightarrow> (app_error + client) \<times> 'a auth_db_scheme" where
  "createClient db n t d m ownerId fr =
     (case sql_insert (\<lambda>c1 c2. cl_id c1 = cl_id c2)
        \<lparr>cl_id = fr_client fr, cl_name = n, cl_type = t, cl_description = nullish d [],
         cl_metadata = nullish m [], cl_owner = ownerId, cl_created = fr_now fr, cl_active = True\<rparr>
        (clients db) of
        Inl e \<Rightarrow> (Inl e, db)
      | Inr cs \<Rightarrow>
          let db' = db\<lparr>clients := cs\<rparr>
          in (case findClientById db' (fr_client fr) of
                None \<Rightarrow> (Inl (PlainError ''Failed to retrieve inserted client''), db')
              | Some c \<Rightarrow> (Inr c, emitAuthEvent (event_of ClientCreated None ownerId (Some (cl_id c))) db')))"

definition getClientById :: "'a auth_db_scheme \<Rightarrow> string \<Rightarrow> string \<Rightarrow> app_error + client" where
  "getClientById db i ownerId =
     (case findClientById db i of
        None \<Rightarrow> Inl (NotFoundError ''Client'' (Some i))
      | Some c \<Rightarrow>
          if cl_owner c \<noteq> ownerId
          then Inl (ForbiddenError ''Cannot access client owned by another user'') else Inr c)"

definition updateClient ::
  "'a auth_db_scheme \<Rightarrow> string \<Rightarrow> update_client \<Rightarrow> string \<Rightarrow> (app_error + client) \<times> 'a auth_db_scheme" where
  "updateClient db i input ownerId =
     (case getClientById db i ownerId of
        Inl e \<Rightarrow> (Inl e, db)
      | Inr existing \<Rightarrow>
          let hit = (\<lambda>c. cl_id c = i \<and> cl_owner c = ownerId);
              db' = db\<lparr>clients := sql_update hit
                (\<lambda>c. c\<lparr>cl_name := nullish (uc_name input) (cl_name existing),
                      cl_type := nullish (uc_type input) (cl_type existing),
                      cl_description := nullish (uc_description input) (cl_description existing),
                      cl_metadata := nullish (uc_metadata input) (cl_metadata existing),
                      cl_active := nullish (uc_active input) (cl_active existing)\<rparr>) (clients db)\<rparr>
          in case (if sql_count hit (clients db) = 0 then None else findClientById db' i) of
               None \<Rightarrow> (Inl (NotFoundError ''Client'' (Some i)), db')
             | Some updated \<Rightarrow>
                 (Inr updated,
                  if uc_active input = Some False \<and> cl_active existing
                  then emitAuthEvent (event_of ClientDeactivated None ownerId (Some i)) db'
                  else db'))"

subsection \<open>What the providers accept\<close>

lemma rowToIdentity_simps [simp]:
  "id_id (rowToIdentity r) = ir_id r" "id_active (rowToIdentity r) = ir_active r"
  "id_owner (rowToIdentity r) = ir_owner r" "id_type (rowToIdentity r) = ir_type r"
  "id_expires (rowToIdentity r) = ir_expires r" "id_client (rowToIdentity r) = ir_client r"
  by (simp_all add: rowToIdentity_def)

lemma findIdentityById_Some:
  "findIdentityById db i = Some x \<Longrightarrow> \<exists>r \<in> set (identities db). ir_id r = i \<and> x = rowToIdentity r"
  by (auto simp: findIdentityById_def dest: sql_first_SomeD)

lemma findBySecretHash_Some:
  "findBySecretHash db h = Some x \<Longrightarrow>
     \<exists>r \<in> set (identities db). ir_secret_hash r = Some h \<and> x = rowToIdentity r"
  by (auto simp: findBySecretHash_def dest: sql_first_SomeD)

text \<open>The credential is that of a stored identity that is active and not expired.\<close>

definition live_identity :: "'a auth_db_scheme \<Rightarrow> int \<Rightarrow> resolved_identity \<Rightarrow> bool" where
  "live_identity db now r \<longleftrightarrow>
     (\<exists>row \<in> set (identities db). r = resolved_of (rowToIdentity row) \<and> ir_active row \<and>
        \<not> expired (rowToIdentity row) now)"

lemma resolveApiKey_live: "resolveApiKey hash db now k = Inr r \<Longrightarrow> live_identity db now r"
  by (auto simp: resolveApiKey_def live_identity_def dest!: findBySecretHash_Some
      split: if_splits option.splits)

lemma resolveOAuthToken_live: "resolveOAuthToken hash db now k = Inr r \<Longrightarrow> live_identity db now r"
  by (auto simp: resolveOAuthToken_def live_identity_def dest!: findBySecretHash_Some
      split: if_splits option.splits)

lemma map_sum_Inr_Some: "map_sum id Some x = Inr (Some r) \<longleftrightarrow> x = Inr r"
  by (cases x) auto

lemma apiKeyProvider_live: "apiKeyProvider hash h now db = (Inr (Some r), db') \<Longrightarrow> live_identity db now r"
  by (auto simp: apiKeyProvider_def map_sum_Inr_Some split: option.splits if_splits
      intro: resolveApiKey_live)

lemma oauthProvider_live: "oauthProvider hash h now db = (Inr (Some r), db') \<Longrightarrow> live_identity db now r"
  by (auto simp: oauthProvider_def map_sum_Inr_Some split: option.splits if_splits
      intro: resolveOAuthToken_live)

lemma jwtProvider_live: "jwtProvider cd h now db = (Inr (Some r), db') \<Longrightarrow> live_identity db now r"
  by (auto simp: jwtProvider_def live_identity_def split: option.splits if_splits sum.splits
      dest!: findIdentityById_Some)

lemma stored_providers_state:
  "snd (apiKeyProvider hash h now db) = db" "snd (oauthProvider hash h now db) = db"
  "snd (jwtProvider cd h now db) = db"
  by (simp_all add: apiKeyProvider_def oauthProvider_def jwtProvider_def)

lemma identities_simps [simp]:
  "identities (emitAuthEvent e db) = identities db" "identities (setSetting db k v) = identities db"
  by (simp_all add: emitAuthEvent_def setSetting_def)

lemma settings_simps [simp]:
  "settings (emitAuthEvent e db) = settings db" "settings (updateIdentities db i f) = settings db"
  by (simp_all add: emitAuthEvent_def updateIdentities_def)

text \<open>The three providers over the identity table, in the order of \<^verbatim>\<open>createAuthLayer\<close>.\<close>

definition stored_providers :: "(string \<Rightarrow> string) \<Rightarrow> jwt_codec \<Rightarrow> 'a auth_db_scheme provider list" where
  "stored_providers hash cd = [apiKeyProvider hash, oauthProvider hash, jwtProvider cd]"

lemma authenticate_accepts:
  assumes "authenticate ps h now db = (Inr u, db')"
    and "\<And>p d. p \<in> set ps \<Longrightarrow> snd (p h now d) = d"
    and "\<And>p d r. p \<in> set ps \<Longrightarrow> p h now db = (Inr (Some r), d) \<Longrightarrow> live_identity db now r"
  shows "\<exists>r. live_identity db now r \<and> u = toAuthUser r \<and>
    identities db' = identities (updateLastUsed db (rs_identity r) now)"
  using assms
proof (induction ps)
  case Nil
  then show ?case by simp
next
  case (Cons p ps)
  obtain res d where p: "p h now db = (res, d)" by (cases "p h now db")
  with Cons.prems(2) [of p db] have d: "d = db" by simp
  have IH: ?case if "authenticate ps h now db = (Inr u, db')"
    by (rule Cons.IH [OF that]) (meson Cons.prems(2,3) list.set_intros(2))+
  from Cons.prems(1) p d
  consider "authenticate ps h now db = (Inr u, db')"
    | r where "res = Inr (Some r)" "u = toAuthUser r"
        "identities db' = identities (updateLastUsed db (rs_identity r) now)"
    by (auto split: if_splits sum.splits option.splits)
  then show ?case
  proof cases
    case 1
    then show ?thesis by (rule IH)
  next
    case 2
    with Cons.prems(3) [of p r d] p show ?thesis by auto
  qed
qed

lemma authenticate_stored:
  assumes "authenticate (stored_providers hash cd) h now db = (Inr u, db')"
  shows "\<exists>r. live_identity db now r \<and> u = toAuthUser r \<and>
    identities db' = identities (updateLastUsed db (rs_identity r) now)"
  using assms
  by (rule authenticate_accepts)
     (auto simp: stored_providers_def stored_providers_state
       intro: apiKeyProvider_live oauthProvider_live jwtProvider_live)

subsection \<open>Revocation is final\<close>

definition blocked :: "'a auth_db_scheme \<Rightarrow> string \<Rightarrow> bool" where
  "blocked db i \<longleftrightarrow>
     (\<exists>r \<in> set (identities db). ir_id r = i) \<and>
     (\<forall>r \<in> set (identities db). ir_id r = i \<longrightarrow> \<not> ir_active r)"

lemma blocked_cong: "identities db = identities db' \<Longrightarrow> blocked db i \<longleftrightarrow> blocked db' i"
  by (simp add: blocked_def)

lemma blocked_updateIdentities:
  assumes "blocked db i" and "\<And>r. ir_id (f r) = ir_id r" and "\<And>r. ir_active (f r) \<Longrightarrow> ir_active r"
  shows "blocked (updateIdentities db j f) i"
  using assms by (auto simp: blocked_def updateIdentities_def set_sql_update)

lemma blocked_live: "blocked db i \<Longrightarrow> live_identity db now r \<Longrightarrow> rs_identity r \<noteq> i"
  by (auto simp: blocked_def live_identity_def resolved_of_def)

lemma insertIdentity_cases:
  assumes "insertIdentity db row = (res, db')"
  shows "db' = db \<or> (db' = db\<lparr>identities := identities db @ [row]\<rparr> \<and>
    (\<forall>s \<in> set (identities db). \<not> identity_clash row s))"
  using assms by (auto simp: insertIdentity_def Let_def split: sum.splits option.splits)

lemma blocked_insertIdentity:
  assumes "insertIdentity db row = (res, db')" and "blocked db i"
  shows "blocked db' i"
  using insertIdentity_cases [OF assms(1)] assms(2)
  by (auto simp: blocked_def identity_clash_def)

text \<open>Every operation on the identity and client tables, error or not.\<close>

inductive auth_step :: "auth_db \<Rightarrow> auth_db \<Rightarrow> bool" where
  bootstrap: "auth_step db (snd (bootstrap hash db b fr))"
| create: "auth_step db (snd (createIdentity hash db body actor owner fr))"
| revoke: "auth_step db (snd (revoke db i owner now))"
| rotate: "auth_step db (snd (rotateIdentity hash db i owner random))"
| authenticate: "auth_step db (snd (authenticate (stored_providers hash cd) h now db))"
| metadata: "auth_step db (updateMetadata db i m)"
| create_client: "auth_step db (snd (createClient db n t d md owner fr))"
| update_client: "auth_step db (snd (updateClient db i u owner))"

lemmas update_defs = updateLastUsed_def updateMetadata_def rotateSecret_def revokeIdentity_def Let_def

lemma blocked_bootstrap: "blocked db i \<Longrightarrow> blocked (snd (bootstrap hash db b fr)) i"
  by (auto simp: bootstrap_def Let_def isBootstrapAvailable_def countAll_def blocked_def
      split: sum.splits option.splits)

lemma blocked_create: "blocked db i \<Longrightarrow> blocked (snd (createIdentity hash db body a owner fr)) i"
  by (auto simp: createIdentity_def Let_def split: prod.splits sum.splits
      intro: blocked_insertIdentity blocked_cong [THEN iffD1, rotated])

lemma blocked_revoke: "blocked db i \<Longrightarrow> blocked (snd (revoke db j owner now)) i"
  by (auto simp: revoke_def update_defs split: option.splits
      intro!: blocked_updateIdentities
      intro: blocked_cong [THEN iffD1, OF _ blocked_updateIdentities])

lemma blocked_rotate: "blocked db i \<Longrightarrow> blocked (snd (rotateIdentity hash db j owner rnd)) i"
  by (auto simp: rotateIdentity_def update_defs split: option.splits
      intro!: blocked_updateIdentities
      intro: blocked_cong [THEN iffD1, OF _ blocked_updateIdentities])

lemma blocked_authenticate:
  assumes "blocked db i"
  shows "blocked (snd (authenticate (stored_providers hash cd) h now db)) i"
proof -
  have all: "blocked (snd (authenticate ps h now db)) i"
    if "\<And>p d. p \<in> set ps \<Longrightarrow> snd (p h now d) = d" for ps :: "'a auth_db_scheme provider list"
    using that
  proof (induction ps)
    case Nil
    from assms show ?case by (simp add: blocked_def)
  next
    case (Cons p ps)
    from Cons.prems have IH: "blocked (snd (authenticate ps h now db)) i" by (intro Cons.IH) simp
    obtain res d where p: "p h now db = (res, d)" by (cases "p h now db")
    with Cons.prems [of p db] have "d = db" by simp
    moreover have "blocked (updateLastUsed db j now) i" for j
      using assms by (auto simp: updateLastUsed_def intro!: blocked_updateIdentities)
    ultimately show ?case using IH assms p
      by (auto simp: blocked_def split: sum.splits option.splits)
  qed
  show ?thesis by (rule all) (auto simp: stored_providers_def stored_providers_state)
qed

lemma blocked_client_steps:
  "blocked db i \<Longrightarrow> blocked (snd (createClient db n t d md owner fr)) i"
  "blocked db i \<Longrightarrow> blocked (snd (updateClient db j u owner)) i"
  by (auto simp: createClient_def updateClient_def blocked_def Let_def split: sum.splits option.splits)

lemma blocked_step: "auth_step db db' \<Longrightarrow> blocked db i \<Longrightarrow> blocked db' i"
  by (induction rule: auth_step.induct)
     (auto simp: update_defs intro: blocked_bootstrap blocked_create blocked_revoke blocked_rotate
       blocked_authenticate blocked_client_steps blocked_updateIdentities)

lemma blocked_steps: "auth_step\<^sup>*\<^sup>* db db' \<Longrightarrow> blocked db i \<Longrightarrow> blocked db' i"
  by (induction rule: rtranclp_induct) (auto intro: blocked_step)

lemma revoke_blocked:
  assumes "revoke db i owner now = (Inr x, db')"
  shows "blocked db' i"
proof -
  from assms obtain y where "findIdentityById db i = Some y"
    by (auto simp: revoke_def split: option.splits)
  then obtain r where r: "r \<in> set (identities db)" "ir_id r = i" by (auto dest: findIdentityById_Some)
  let ?f = "\<lambda>r. r\<lparr>ir_active := False, ir_revoked := Some now\<rparr>"
  from assms have db': "identities db' = identities (updateIdentities db i ?f)"
    by (auto simp: revoke_def update_defs split: option.splits if_splits)
  have "?f r \<in> set (identities db')" using r unfolding db' updateIdentities_def by (auto simp: set_sql_update)
  then have "\<exists>r \<in> set (identities db'). ir_id r = i" by (intro bexI [of _ "?f r"]) (simp_all add: r(2))
  moreover have "\<forall>r \<in> set (identities db'). ir_id r = i \<longrightarrow> \<not> ir_active r"
    unfolding db' updateIdentities_def by (simp add: set_sql_update ball_Un)
  ultimately show ?thesis by (simp add: blocked_def)
qed

text \<open>
  C29: revocation is final. Once an identity has been revoked, no later sequence of operations on the
  identity and client tables (creating, rotating, bootstrapping, editing metadata, authenticating
  others) makes any credential (API key, OAuth token or signed token) authenticate as it again.
\<close>

theorem revoked_identity_never_authenticates:
  assumes "revoke db i owner t = (Inr x, db1)" and "auth_step\<^sup>*\<^sup>* db1 db2"
    and "authenticate (stored_providers hash cd) headers now db2 = (Inr u, db3)"
  shows "au_identity u \<noteq> i"
proof -
  have "blocked db2 i" using revoke_blocked [OF assms(1)] assms(2) by (rule blocked_steps [rotated])
  then show ?thesis using authenticate_stored [OF assms(3)] blocked_live
    by (fastforce simp: toAuthUser_def)
qed

text \<open>
  Whoever authenticates is a stored identity, active and not expired, and acts for exactly the
  owner and with exactly the permissions of that identity; the tenant is not decided yet.
\<close>

theorem authenticate_sound:
  assumes "authenticate (stored_providers hash cd) headers now db = (Inr u, db')"
  shows "\<exists>r \<in> set (identities db). ir_active r \<and> (\<forall>t. ir_expires r = Some t \<longrightarrow> now \<le> t) \<and>
    au_identity u = ir_id r \<and> au_owner u = ir_owner r \<and>
    au_permissions u = im_permissions (nullish (ir_metadata r) default_metadata) \<and>
    au_org u = None \<and> au_ws u = None"
  using authenticate_stored [OF assms]
  by (fastforce simp: live_identity_def toAuthUser_def resolved_of_def expired_def rowToIdentity_def
      split: option.splits)

subsection \<open>A concrete table\<close>

definition empty_auth_db :: auth_db where
  "empty_auth_db =
     \<lparr>organizations = [], workspaces = [], identities = [], clients = [], accounts = [],
      login_attempts = [], settings = [], auth_events = []\<rparr>"

definition sample_body :: create_identity_body where
  "sample_body = \<lparr>cb_type = ApiKey, cb_name = ''n'', cb_description = [], cb_owner = None,
     cb_client = None, cb_expires = None, cb_metadata = None\<rparr>"

definition sample_fresh :: "string \<Rightarrow> string \<Rightarrow> fresh" where
  "sample_fresh i rnd = \<lparr>fr_id = i, fr_owner = i @ ''o'', fr_client = i @ ''c'', fr_random = rnd, fr_now = 1000\<rparr>"

definition sample_codec :: jwt_codec where
  "sample_codec = \<lparr>jwt_head = ''h'', jwt_enc = (\<lambda>c. ''p''), jwt_dec = (\<lambda>s. None), jwt_mac = (\<lambda>s. ''s''),
     unseal = (\<lambda>a b c. None)\<rparr>"

definition key_header :: "string \<Rightarrow> headers" where
  "key_header k = (\<lambda>n. if n = ''x-api-key'' then Some (HStr k) else None)"

text \<open>Two keys of the owner \<open>o\<close>, and the table after the first has been revoked.\<close>

definition two_keys_db :: auth_db where
  "two_keys_db = snd (createIdentity (\<lambda>s. s)
     (snd (createIdentity (\<lambda>s. s) empty_auth_db sample_body ''x'' ''o'' (sample_fresh ''i'' ''0123456789abcdef0'')))
     sample_body ''x'' ''o'' (sample_fresh ''j'' ''0123456789abcdef1''))"

definition revoked_db :: auth_db where
  "revoked_db = snd (revoke two_keys_db ''i'' ''o'' 2000)"

theorem revoked_identity_never_authenticates_witness:
  "fst (authenticate (stored_providers (\<lambda>s. s) sample_codec) (key_header ''aic_0123456789abcdef0'') 3000
          revoked_db) = Inl (ForbiddenError ''API key has been revoked'') \<and>
   (\<exists>u db. authenticate (stored_providers (\<lambda>s. s) sample_codec) (key_header ''aic_0123456789abcdef1'') 3000
          revoked_db = (Inr u, db) \<and> au_identity u \<noteq> ''i'')"
proof -
  let ?r = "authenticate (stored_providers (\<lambda>s. s) sample_codec) (key_header ''aic_0123456789abcdef1'') 3000 revoked_db"
  have "\<not> isl (fst (revoke two_keys_db ''i'' ''o'' 2000))" by code_simp
  from run_Inr [OF this] have rev: "revoke two_keys_db ''i'' ''o'' 2000 =
      (Inr (projr (fst (revoke two_keys_db ''i'' ''o'' 2000))), revoked_db)" by (simp add: revoked_db_def)
  have "\<not> isl (fst ?r)" by code_simp
  from run_Inr [OF this] have auth: "?r = (Inr (projr (fst ?r)), snd ?r)" .
  have "fst (authenticate (stored_providers (\<lambda>s. s) sample_codec) (key_header ''aic_0123456789abcdef0'') 3000
          revoked_db) = Inl (ForbiddenError ''API key has been revoked'')" by code_simp
  with revoked_identity_never_authenticates [OF rev rtranclp.rtrancl_refl auth] auth show ?thesis by blast
qed

theorem authenticate_sound_witness:
  "\<exists>u db. authenticate (stored_providers (\<lambda>s. s) sample_codec) (key_header ''aic_0123456789abcdef1'') 3000
          revoked_db = (Inr u, db) \<and>
      (\<exists>r \<in> set (identities revoked_db). ir_active r \<and> au_identity u = ir_id r \<and> au_owner u = ir_owner r)"
proof -
  let ?r = "authenticate (stored_providers (\<lambda>s. s) sample_codec) (key_header ''aic_0123456789abcdef1'') 3000 revoked_db"
  have "\<not> isl (fst ?r)" by code_simp
  from run_Inr [OF this] have auth: "?r = (Inr (projr (fst ?r)), snd ?r)" .
  from authenticate_sound [OF auth] auth show ?thesis by blast
qed

subsection \<open>Signed tokens\<close>

lemma js_split_append: "d \<notin> set s \<Longrightarrow> js_split d (s @ d # t) = s # js_split d t"
  by (induction s) auto

lemma js_split_none: "d \<notin> set s \<Longrightarrow> js_split d s = [s]"
  by (induction s) auto

text \<open>
  A token the service signs verifies to exactly the claims that were signed until the second it
  expires in, and is refused as expired from the next second on. The hypotheses say what the
  encoding does: no segment has a dot, and the payload decodes to what was encoded.
\<close>

theorem jwt_sign_verify:
  assumes "CHR ''.'' \<notin> set (jwt_head cd)" and "CHR ''.'' \<notin> set (jwt_enc cd c)"
    and "\<And>s. CHR ''.'' \<notin> set (jwt_mac cd s)" and "jwt_dec cd (jwt_enc cd c) = Some c"
    and c: "c = sign_claims t0 input"
    and "si_identity input \<noteq> []" and "si_owner input \<noteq> []"
    and "si_aud input = None \<or> si_aud input = Some ''studio''"
    and "si_iss input = None \<or> si_iss input = Some ''ratary''"
  shows "jwtVerify cd t1 (jwtSign cd t0 input) =
    (if t1 div 1000 \<le> t0 div 1000 + nullish (si_expires input) DEFAULT_EXPIRES_IN_SEC
     then Inr c else Inl (ForbiddenError ''JWT has expired''))"
proof -
  let ?sig = "signSegment cd (jwt_head cd) (jwt_enc cd c)"
  have "js_split CHR ''.'' (jwtSign cd t0 input) = [jwt_head cd, jwt_enc cd c, ?sig]"
    using assms(1-3) unfolding jwtSign_def Let_def c [symmetric]
    by (simp add: js_split_append js_split_none signSegment_def)
  moreover have "jc_type c = ''jwt''" "jc_sub c \<noteq> []" "jc_owner c \<noteq> []"
    "jc_exp c = Some (t0 div 1000 + nullish (si_expires input) DEFAULT_EXPIRES_IN_SEC)"
    "truthy (jc_aud c) = None \<or> jc_aud c = Some ''studio''"
    "truthy (jc_iss c) = None \<or> jc_iss c = Some ''ratary''"
    using assms by (auto simp: sign_claims_def Let_def)
  ultimately show ?thesis using assms(4) by (auto simp: jwtVerify_def)
qed

theorem jwt_sign_verify_witness:
  "\<exists>cd c. jwtVerify cd 5000 (jwtSign cd 1000 \<lparr>si_identity = ''i'', si_owner = ''o'', si_client = None,
     si_permissions = [], si_expires = Some 60, si_jti = None, si_aud = Some ''studio'', si_iss = None,
     si_org = None, si_roles = []\<rparr>) = Inr c \<and> jc_sub c = ''i''"
proof -
  let ?i = "\<lparr>si_identity = ''i'', si_owner = ''o'', si_client = None,
     si_permissions = [], si_expires = Some 60, si_jti = None, si_aud = Some ''studio'', si_iss = None,
     si_org = None, si_roles = []\<rparr>"
  let ?cd = "sample_codec\<lparr>jwt_dec := (\<lambda>s. Some (sign_claims 1000 ?i))\<rparr>"
  have "jwtVerify ?cd 5000 (jwtSign ?cd 1000 ?i) =
    (if (5000 :: int) div 1000 \<le> 1000 div 1000 + nullish (si_expires ?i) DEFAULT_EXPIRES_IN_SEC
     then Inr (sign_claims 1000 ?i) else Inl (ForbiddenError ''JWT has expired''))"
    by (rule jwt_sign_verify [OF _ _ _ _ refl]) (simp_all add: sample_codec_def)
  then show ?thesis by (intro exI conjI) (simp, simp add: sign_claims_def Let_def)
qed

subsection \<open>Rotation, bootstrap and the owner of a new identity\<close>

lemma rotateIdentity_Inr:
  assumes "rotateIdentity hash db i owner rnd = (Inr (x, new), db')"
  shows "findIdentityById db' i = Some x \<and> identities db' = identities (rotateSecret db i (hash new)) \<and>
    (\<forall>r \<in> set (identities db). ir_secret_hash r = Some (hash new) \<longrightarrow> ir_id r = i) \<and>
    id_owner x = owner \<and> id_active x \<and>
    new = (if id_type x = OAuth then generateOAuthTokenPlaintext rnd else generateApiKeyPlaintext rnd)"
proof -
  from assms obtain y where y: "findIdentityById db i = Some y" "id_owner y = owner" "id_active y"
    and new: "new = (if id_type y = OAuth then generateOAuthTokenPlaintext rnd else generateApiKeyPlaintext rnd)"
    and free: "\<not> list_ex (\<lambda>r. ir_id r \<noteq> i \<and> ir_secret_hash r = Some (hash new)) (identities db)"
    and x: "findIdentityById (rotateSecret db i (hash new)) i = Some x"
    and db': "identities db' = identities (rotateSecret db i (hash new))"
    by (auto simp: rotateIdentity_def Let_def split: option.splits if_splits)
  from y(1) obtain r where r: "sql_first (\<lambda>r. ir_id r = i) (identities db) = Some r" "y = rowToIdentity r"
    by (auto simp: findIdentityById_def)
  from sql_first_SomeD [OF r(1)] have "ir_id r = i" by simp
  with x r(1) have "x = rowToIdentity (r\<lparr>ir_secret_hash := Some (hash new), ir_last_used := None\<rparr>)"
    by (simp add: findIdentityById_def rotateSecret_def updateIdentities_def sql_first_update)
  then have "id_owner x = id_owner y" "id_active x = id_active y" "id_type x = id_type y"
    by (simp_all add: r(2))
  moreover have "findIdentityById db' i = Some x" using x by (simp add: findIdentityById_def db')
  ultimately show ?thesis using y new free db' by (auto simp: list_ex_iff)
qed

lemma sql_first_rotated:
  assumes "\<forall>r \<in> set t. ir_secret_hash r = Some h \<longrightarrow> ir_id r = i"
  shows "sql_first (\<lambda>r. ir_secret_hash r = Some h)
      (sql_update (\<lambda>r. ir_id r = i) (\<lambda>r. r\<lparr>ir_secret_hash := Some h, ir_last_used := None\<rparr>) t) =
    sql_first (\<lambda>r. ir_id r = i)
      (sql_update (\<lambda>r. ir_id r = i) (\<lambda>r. r\<lparr>ir_secret_hash := Some h, ir_last_used := None\<rparr>) t)"
  using assms by (intro sql_first_cong) (auto simp: set_sql_update split: if_splits)

text \<open>
  Rotating a secret replaces it at once. The old key no longer resolves to anybody, and the new
  key that the call returns resolves to the same identity, owner and permissions (until it
  expires).
\<close>

theorem rotate_replaces_secret:
  assumes "rotateIdentity hash db i owner rnd = (Inr (x, new), db')"
    and "\<forall>r \<in> set (identities db). ir_secret_hash r = Some (hash old) \<longrightarrow> ir_id r = i"
    and "hash old \<noteq> hash new"
  shows "resolveApiKey hash db' now old \<noteq> Inr r \<and> id_id x = i \<and> id_owner x = owner \<and>
    (id_type x \<noteq> OAuth \<longrightarrow> 16 < length rnd \<longrightarrow> \<not> expired x now \<longrightarrow>
       resolveApiKey hash db' now new = Inr (resolved_of x))"
proof -
  note run = rotateIdentity_Inr [OF assms(1)]
  let ?f = "\<lambda>r. r\<lparr>ir_secret_hash := Some (hash new), ir_last_used := None\<rparr>"
  from run have db': "identities db' = sql_update (\<lambda>r. ir_id r = i) ?f (identities db)"
    by (simp add: rotateSecret_def updateIdentities_def)
  have "findBySecretHash db' (hash old) = None"
    using assms(2,3) unfolding findBySecretHash_def db' by (auto simp: set_sql_update split: if_splits)
  moreover have "findBySecretHash db' (hash new) = Some x"
    using run sql_first_rotated unfolding findBySecretHash_def findIdentityById_def db' by metis
  moreover have "id_id x = i" using run by (auto dest: findIdentityById_Some)
  moreover have "isApiKeyFormat (generateApiKeyPlaintext rnd)" if "16 < length rnd"
    using that by (simp add: isApiKeyFormat_def generateApiKeyPlaintext_def)
  ultimately show ?thesis using run by (auto simp: resolveApiKey_def)
qed

theorem rotate_replaces_secret_witness:
  "\<exists>x new db'. rotateIdentity (\<lambda>s. s) two_keys_db ''j'' ''o'' ''fedcba98765432100'' = (Inr (x, new), db') \<and>
     resolveApiKey (\<lambda>s. s) db' 3000 new = Inr (resolved_of x)"
proof -
  let ?run = "rotateIdentity (\<lambda>s. s) two_keys_db ''j'' ''o'' ''fedcba98765432100''"
  let ?old = "''aic_0123456789abcdef1''"
  have "\<not> isl (fst ?run)" by code_simp
  from run_Inr [OF this] obtain x new where run: "?run = (Inr (x, new), snd ?run)"
    by (metis prod.collapse)
  have "projr (fst ?run) = (x, new)" using run by (metis fst_conv sum.sel(2))
  moreover have "snd (projr (fst ?run)) = ''aic_fedcba98765432100''"
    "id_type (fst (projr (fst ?run))) = ApiKey" "id_expires (fst (projr (fst ?run))) = None" by code_simp+
  ultimately have new: "new = ''aic_fedcba98765432100''" and x: "id_type x = ApiKey" "id_expires x = None"
    by simp_all
  have "\<forall>r \<in> set (identities two_keys_db). ir_secret_hash r = Some ?old \<longrightarrow> ir_id r = ''j''" by code_simp
  from rotate_replaces_secret [OF run this, of 3000] new x run show ?thesis
    by (auto simp: expired_def)
qed

lemma bootstrapped_steps:
  "auth_step db db' \<Longrightarrow> isBootstrapCompleted db \<Longrightarrow> isBootstrapCompleted db'"
proof (induction rule: auth_step.induct)
  case (authenticate db hash cd h now)
  have all: "settings (snd (authenticate ps h now db)) = settings db"
    if "\<And>p d. p \<in> set ps \<Longrightarrow> snd (p h now d) = d" for ps :: "auth_db provider list"
    using that
  proof (induction ps)
    case Nil
    show ?case by simp
  next
    case (Cons p ps)
    from Cons.prems have IH: "settings (snd (authenticate ps h now db)) = settings db" by (intro Cons.IH) simp
    obtain res d where p: "p h now db = (res, d)" by (cases "p h now db")
    with Cons.prems [of p db] have "d = db" by simp
    with IH p show ?case by (auto simp: updateLastUsed_def split: sum.splits option.splits)
  qed
  have "settings (snd (authenticate (stored_providers hash cd) h now db)) = settings db"
    by (rule all) (auto simp: stored_providers_def stored_providers_state)
  with authenticate show ?case by (simp add: isBootstrapCompleted_def getSetting_def)
next
  case (create db hash body actor owner fr)
  then show ?case
    by (auto simp: createIdentity_def isBootstrapCompleted_def getSetting_def Let_def
        split: prod.splits sum.splits dest!: insertIdentity_cases)
qed (auto simp: bootstrap_def isBootstrapAvailable_def revoke_def rotateIdentity_def createClient_def
    updateClient_def isBootstrapCompleted_def getSetting_def update_defs
    split: option.splits sum.splits)

lemma getSetting_set: "getSetting (setSetting db k v) k = Some v"
proof -
  have "map_of (map (\<lambda>p. if fst p = k then (k, v) else p) l) k = Some v" if "list_ex (\<lambda>p. fst p = k) l" for l
    using that by (induction l) auto
  moreover have "map_of (l @ [(k, v)]) k = Some v" if "\<not> list_ex (\<lambda>p. fst p = k) l" for l
    using that by (induction l) auto
  ultimately show ?thesis by (simp add: getSetting_def setSetting_def)
qed

lemma bootstrap_completed:
  assumes "bootstrap hash db b fr = (Inr x, db')"
  shows "isBootstrapCompleted db'"
proof -
  from assms obtain cs ids where "settings db' =
      settings (setSetting (db\<lparr>clients := cs, identities := ids\<rparr>) BOOTSTRAP_COMPLETED ''true'')"
    by (auto simp: bootstrap_def Let_def split: if_splits sum.splits option.splits)
  then show ?thesis using getSetting_set [of _ BOOTSTRAP_COMPLETED "''true''"]
    by (simp add: isBootstrapCompleted_def getSetting_def)
qed

text \<open>
  The first-run bootstrap can succeed once. After it has, no sequence of operations on the tables
  makes it available again: every later call is refused and changes nothing.
\<close>

theorem bootstrap_once:
  assumes "bootstrap hash db b fr = (Inr x, db1)" and "auth_step\<^sup>*\<^sup>* db1 db2"
  shows "bootstrap hash' db2 b' fr' = (Inl (ForbiddenError ''Bootstrap is no longer available''), db2)"
proof -
  from assms(2) have "isBootstrapCompleted db2"
    by (induction rule: rtranclp_induct) (auto intro: bootstrapped_steps bootstrap_completed [OF assms(1)])
  then show ?thesis by (simp add: bootstrap_def isBootstrapAvailable_def)
qed

definition sample_bootstrap :: bootstrap_body where
  "sample_bootstrap = \<lparr>bb_name = ''b'', bb_owner = None, bb_description = [], bb_client = Some (''c'', ''t'', [])\<rparr>"

theorem bootstrap_once_witness:
  "\<exists>x db. bootstrap (\<lambda>s. s) empty_auth_db sample_bootstrap (sample_fresh ''i'' ''0123456789abcdef0'') = (Inr x, db) \<and>
     bootstrap (\<lambda>s. s) db sample_bootstrap (sample_fresh ''k'' ''f'') =
       (Inl (ForbiddenError ''Bootstrap is no longer available''), db)"
proof -
  let ?run = "bootstrap (\<lambda>s. s) empty_auth_db sample_bootstrap (sample_fresh ''i'' ''0123456789abcdef0'')"
  have "\<not> isl (fst ?run)" by code_simp
  from run_Inr [OF this] have run: "?run = (Inr (projr (fst ?run)), snd ?run)" .
  from bootstrap_once [OF run rtranclp.rtrancl_refl] run show ?thesis by blast
qed

text \<open>
  Creating an identity does not check the owner it is created for. A caller of any owner who puts
  another owner's id in the request's \<^verbatim>\<open>owner_id\<close> receives a key that authenticates as that other
  owner, although revoking and rotating refuse identities of other owners.
\<close>

theorem createIdentity_for_other_owner:
  assumes "cb_owner body = Some victim" and "cb_type body = ApiKey" and "cb_expires body = None"
    and "16 < length (fr_random fr)"
    and "\<forall>r \<in> set (identities db). ir_id r \<noteq> fr_id fr \<and>
           ir_secret_hash r \<noteq> Some (hash (generateApiKeyPlaintext (fr_random fr)))"
  shows "\<exists>i key db'. createIdentity hash db body actorIdentity actorOwner fr = (Inr (i, Some key), db') \<and>
    (\<exists>r. resolveApiKey hash db' now key = Inr r \<and> rs_owner r = victim \<and>
       rs_metadata r = nullish (cb_metadata body) default_metadata)"
proof -
  let ?key = "generateApiKeyPlaintext (fr_random fr)"
  let ?row = "\<lparr>ir_id = fr_id fr, ir_type = ApiKey, ir_name = cb_name body, ir_secret_hash = Some (hash ?key),
     ir_owner = victim, ir_description = cb_description body,
     ir_metadata = Some (nullish (cb_metadata body) default_metadata), ir_client = cb_client body,
     ir_created_by = Some actorIdentity, ir_created = fr_now fr, ir_last_used = None, ir_expires = None,
     ir_revoked = None, ir_active = True\<rparr>"
  let ?db = "db\<lparr>identities := identities db @ [?row]\<rparr>"
  have none: "sql_first (\<lambda>r. ir_id r = fr_id fr) (identities db) = None"
    "sql_first (\<lambda>r. ir_secret_hash r = Some (hash ?key)) (identities db) = None" using assms(5) by auto
  have ins: "insertIdentity db ?row = (Inr (rowToIdentity ?row), ?db)"
    using assms(5) none
    by (auto simp: insertIdentity_def identity_clash_def sql_insert_def list_ex_iff findIdentityById_def
        sql_first_append sql_first_Cons simp del: sql_first_None)
  have key: "isApiKeyFormat ?key" using assms(4) by (simp add: isApiKeyFormat_def generateApiKeyPlaintext_def)
  let ?db' = "emitAuthEvent (event_of IdentityCreated (Some (fr_id fr)) victim (cb_client body)) ?db"
  have "createIdentity hash db body actorIdentity actorOwner fr = (Inr (rowToIdentity ?row, Some ?key), ?db')"
    using assms(1-3) ins by (simp add: createIdentity_def)
  moreover have "findBySecretHash ?db' (hash ?key) = Some (rowToIdentity ?row)"
    using none by (simp add: findBySecretHash_def sql_first_append sql_first_Cons del: sql_first_None)
  then have "resolveApiKey hash ?db' now ?key = Inr (resolved_of (rowToIdentity ?row))"
    using key by (simp add: resolveApiKey_def expired_def)
  ultimately show ?thesis by (fastforce simp: resolved_of_def rowToIdentity_def)
qed

theorem createIdentity_for_other_owner_witness:
  "\<exists>i key db'. createIdentity (\<lambda>s. s) empty_auth_db (sample_body\<lparr>cb_owner := Some ''victim''\<rparr>) ''x'' ''attacker''
        (sample_fresh ''i'' ''0123456789abcdef0'') = (Inr (i, Some key), db') \<and>
     (\<exists>r. resolveApiKey (\<lambda>s. s) db' 5 key = Inr r \<and> rs_owner r = ''victim'')"
  using createIdentity_for_other_owner [of "sample_body\<lparr>cb_owner := Some ''victim''\<rparr>" "''victim''"
      "sample_fresh ''i'' ''0123456789abcdef0''" empty_auth_db "\<lambda>s. s" "''x''" "''attacker''" 5]
  by (fastforce simp: sample_body_def sample_fresh_def empty_auth_db_def)

text \<open>
  An access token the issuer refuses is accepted all the same. When both userinfo endpoints answer
  with an error status, the code falls back to the unverified payload of the token: whoever writes
  a token naming a subject authenticates as the identity of that subject, whatever the signature.
\<close>

theorem studio_oidc_accepts_forged_token:
  assumes "STUDIO_OIDC_ENABLED env" and "OIDC_ISSUER_URL env = Some url" and "url \<noteq> []"
    and "extractOidcAccessToken headers = Some token"
    and "js_split CHR ''.'' token = [h, payload, forged]"
    and "oidc_decode env payload = Some \<lparr>oc_iss = None, oc_sub = Some sub, oc_email = e, oc_name = n\<rparr>"
    and "sub \<noteq> []" and refused: "\<And>u. oidc_fetch env u token = FetchRefused"
    and "findByName db (studioOidcIdentityName sub) = Some victim"
  shows "fst (studioOidcAccessTokenProvider env o' i' headers now db) =
    Inr (Some ((resolved_of victim)\<lparr>rs_type := OAuth\<rparr>))"
proof -
  have payload: "decodeJwtPayload env token = \<lparr>oc_iss = None, oc_sub = Some sub, oc_email = e, oc_name = n\<rparr>"
    using assms(5,6) by (simp add: decodeJwtPayload_def)
  have "issuerMatches env token (strip_slash url)" by (simp add: issuerMatches_def payload)
  moreover have "truthy (Some sub) = Some sub" "truthy (Some url) = Some url"
    using assms(3,7) by (simp_all add: truthy_iffs)
  then have "fetchOidcUserInfo env (strip_slash url) token =
      Inr \<lparr>ui_sub = Some sub, ui_email = e, ui_name = n\<rparr>"
    using refused by (simp add: fetchOidcUserInfo_def payload)
  ultimately show ?thesis using assms \<open>truthy (Some sub) = Some sub\<close> \<open>truthy (Some url) = Some url\<close>
    by (simp add: studioOidcAccessTokenProvider_def)
qed

definition forged_env :: oidc_env where
  "forged_env = \<lparr>OIDC_ISSUER_URL = Some ''https://idp/'', STUDIO_OIDC_ENABLED = True,
     REMOTE_MCP_OAUTH_ENABLED = False, OIDC_MCP_OWNER_ID = None,
     oidc_decode = (\<lambda>s. if s = ''p'' then Some \<lparr>oc_iss = None, oc_sub = Some ''u'', oc_email = None, oc_name = None\<rparr>
                         else None),
     oidc_fetch = (\<lambda>u t. FetchRefused)\<rparr>"

theorem studio_oidc_accepts_forged_token_witness:
  "\<exists>r. fst (studioOidcAccessTokenProvider forged_env ''new'' ''n'' (key_header ''h.p.forged'') 5
        (snd (createIdentity (\<lambda>s. s) empty_auth_db
           (sample_body\<lparr>cb_type := OAuth, cb_name := studioOidcIdentityName ''u''\<rparr>) ''x'' ''victim''
           (sample_fresh ''i'' ''r'')))) = Inr (Some r) \<and> rs_owner r = ''victim''"
proof -
  let ?db = "snd (createIdentity (\<lambda>s. s) empty_auth_db
      (sample_body\<lparr>cb_type := OAuth, cb_name := studioOidcIdentityName ''u''\<rparr>) ''x'' ''victim''
      (sample_fresh ''i'' ''r''))"
  have "findByName ?db (studioOidcIdentityName ''u'') \<noteq> None" by code_simp
  then obtain v where v: "findByName ?db (studioOidcIdentityName ''u'') = Some v" by blast
  have "map_option id_owner (findByName ?db (studioOidcIdentityName ''u'')) = Some ''victim''" by code_simp
  with v have "id_owner v = ''victim''" by simp
  moreover have "fst (studioOidcAccessTokenProvider forged_env ''new'' ''n'' (key_header ''h.p.forged'') 5 ?db) =
      Inr (Some ((resolved_of v)\<lparr>rs_type := OAuth\<rparr>))"
    by (rule studio_oidc_accepts_forged_token [where token = "''h.p.forged''" and payload = "''p''"
          and h = "''h''" and forged = "''forged''" and sub = "''u''" and url = "''https://idp/''"
          and e = None and n = None])
       (use v in \<open>simp_all add: forged_env_def\<close>, code_simp+)
  ultimately show ?thesis by (simp add: resolved_of_def)
qed

end
