(* ===== verification/Accounts.thy ===== *)
theory Accounts
  imports Identity_Service
begin

section \<open>Native accounts and the login guard\<close>

text \<open>
  \<^verbatim>\<open>src/src/auth/login-guard.ts\<close>, \<^verbatim>\<open>password.ts\<close>, \<^verbatim>\<open>account.repository.ts\<close> and
  \<^verbatim>\<open>account.service.ts\<close>. Scrypt, the pepper HMAC and base64url are the fields of
  \<open>password_crypto\<close>; the sealing of a session token is \<open>seal\<close>. Instants are milliseconds. The
  delay of a failed login (\<^verbatim>\<open>authFailureDelay\<close>) has no effect on the state and is left out.
\<close>

definition MAX_FAILED_ATTEMPTS :: nat where "MAX_FAILED_ATTEMPTS = 5"
definition LOCKOUT_MINUTES :: int where "LOCKOUT_MINUTES = 15"

subsection \<open>The login guard\<close>

definition getRow :: "'a auth_db_scheme \<Rightarrow> string \<Rightarrow> attempt_row option" where
  "getRow db email = sql_first (\<lambda>r. at_email r = email) (login_attempts db)"

definition resetGuard :: "'a auth_db_scheme \<Rightarrow> string \<Rightarrow> 'a auth_db_scheme" where
  "resetGuard db email = db\<lparr>login_attempts := sql_delete (\<lambda>r. at_email r = email) (login_attempts db)\<rparr>"

definition assertNotLocked ::
  "'a auth_db_scheme \<Rightarrow> string \<Rightarrow> int \<Rightarrow> (app_error + unit) \<times> 'a auth_db_scheme" where
  "assertNotLocked db email now =
     (case Option.bind (getRow db email) at_locked_until of
        None \<Rightarrow> (Inr (), db)
      | Some t \<Rightarrow>
          if now < t
          then (Inl (ForbiddenError ''Account temporarily locked - try again later''), db)
          else (Inr (), resetGuard db email))"

definition recordFailure ::
  "'a auth_db_scheme \<Rightarrow> string \<Rightarrow> string option \<Rightarrow> int \<Rightarrow> 'a auth_db_scheme" where
  "recordFailure db email ip now =
     (let normalized = js_lower email;
          row = getRow db normalized;
          failed = (case row of Some r \<Rightarrow> at_failed r | None \<Rightarrow> 0) + 1;
          lockedUntil = (if MAX_FAILED_ATTEMPTS \<le> failed
                         then Some (now + LOCKOUT_MINUTES * 60000) else None)
      in case row of
           Some r \<Rightarrow>
             db\<lparr>login_attempts := sql_update (\<lambda>x. at_email x = normalized)
                (\<lambda>x. x\<lparr>at_failed := failed, at_locked_until := lockedUntil, at_last := now,
                      at_ip := (case ip of Some a \<Rightarrow> Some a | None \<Rightarrow> at_ip r)\<rparr>) (login_attempts db)\<rparr>
         | None \<Rightarrow>
             db\<lparr>login_attempts := login_attempts db @
                [\<lparr>at_email = normalized, at_failed = failed, at_locked_until = lockedUntil,
                  at_last = now, at_ip = ip\<rparr>]\<rparr>)"

definition recordSuccess :: "'a auth_db_scheme \<Rightarrow> string \<Rightarrow> 'a auth_db_scheme" where
  "recordSuccess db email = resetGuard db (js_lower email)"

subsection \<open>Passwords\<close>

record password_crypto =
  pepper :: "string \<Rightarrow> string"
  scrypt :: "string \<Rightarrow> string \<Rightarrow> string"
  b64url :: "string \<Rightarrow> string"
  unb64url :: "string \<Rightarrow> string"

definition hashPassword :: "password_crypto \<Rightarrow> string \<Rightarrow> string \<Rightarrow> string" where
  "hashPassword cr salt plaintext =
     ''scrypt-v2$'' @ b64url cr salt @ ''$'' @ b64url cr (scrypt cr (pepper cr plaintext) salt)"

definition verifyPassword :: "password_crypto \<Rightarrow> string \<Rightarrow> string \<Rightarrow> bool" where
  "verifyPassword cr plaintext stored =
     (case js_split CHR ''$'' stored of
        [version, saltB64, hashB64] \<Rightarrow>
          if version \<noteq> ''scrypt'' \<and> version \<noteq> ''scrypt-v2'' then False
          else scrypt cr (if version = ''scrypt-v2'' then pepper cr plaintext else plaintext)
                 (unb64url cr saltB64) = unb64url cr hashB64
      | _ \<Rightarrow> False)"

subsection \<open>Accounts\<close>

definition account_clash :: "account_row \<Rightarrow> account_row \<Rightarrow> bool" where
  "account_clash r s \<longleftrightarrow> ac_id r = ac_id s \<or> ac_email r = ac_email s"

interpretation account_emails: keyed_table ac_email account_clash
  by unfold_locales (simp add: account_clash_def)

definition findByEmail :: "'a auth_db_scheme \<Rightarrow> string \<Rightarrow> account_row option" where
  "findByEmail db email =
     sql_first (\<lambda>r. ac_email r = js_lower email \<and> ac_active r) (accounts db)"

definition findAccountById :: "'a auth_db_scheme \<Rightarrow> string \<Rightarrow> account_row option" where
  "findAccountById db i = sql_first (\<lambda>r. ac_id r = i \<and> ac_active r) (accounts db)"

definition insertAccount ::
  "'a auth_db_scheme \<Rightarrow> account_row \<Rightarrow> (app_error + account_row) \<times> 'a auth_db_scheme" where
  "insertAccount db r =
     (case sql_insert account_clash
             (r\<lparr>ac_email := js_lower (ac_email r), ac_last_login := None, ac_active := True\<rparr>)
             (accounts db) of
        Inl e \<Rightarrow> (Inl e, db)
      | Inr t \<Rightarrow>
          let db' = db\<lparr>accounts := t\<rparr>
          in (case findAccountById db' (ac_id r) of
                None \<Rightarrow> (Inl (PlainError ''Failed to load auth account after insert''), db')
              | Some a \<Rightarrow> (Inr a, db')))"

definition touchLogin :: "'a auth_db_scheme \<Rightarrow> string \<Rightarrow> int \<Rightarrow> 'a auth_db_scheme" where
  "touchLogin db i now =
     db\<lparr>accounts := sql_update (\<lambda>r. ac_id r = i) (\<lambda>r. r\<lparr>ac_last_login := Some now\<rparr>) (accounts db)\<rparr>"

definition ACCESS_TOKEN_TTL_SEC :: int where "ACCESS_TOKEN_TTL_SEC = 28800"

definition STUDIO_ACCOUNT_PERMISSIONS :: "string list" where
  "STUDIO_ACCOUNT_PERMISSIONS = [''memory.read'', ''memory.write'', ''workspace.read'']"

record account_session =
  as_token :: string
  as_expires :: int
  as_owner :: string
  as_identity :: string
  as_org :: string
  as_email :: string
  as_display :: string
  as_ws :: string

text \<open>
  One request: what the client sends (\<^verbatim>\<open>RegisterAccountInput\<close>, \<^verbatim>\<open>LoginAccountInput\<close>) and what the
  server generates while serving it. \<open>rq_seal\<close> is the encryption of the signed token, \<open>rq_jti\<close> its
  identifier.
\<close>

record account_request =
  rq_email :: string
  rq_password :: string
  rq_display :: "string option"
  rq_ip :: "string option"
  rq_now :: int
  rq_owner :: string
  rq_identity :: string
  rq_account :: string
  rq_salt :: string
  rq_jti :: string
  rq_org_mint :: mint
  rq_ws_mint :: mint

record session_keys =
  sk_crypto :: password_crypto
  sk_codec :: jwt_codec
  sk_seal :: "string \<Rightarrow> string"

definition issueSession ::
  "session_keys \<Rightarrow> int \<Rightarrow> string \<Rightarrow> string \<Rightarrow> string \<Rightarrow> string \<Rightarrow> string \<Rightarrow> workspace \<Rightarrow> account_session" where
  "issueSession sk now jti identityId ownerId email displayName w =
     \<lparr>as_token = sk_seal sk (jwtSign (sk_codec sk) now
        \<lparr>si_identity = identityId, si_owner = ownerId, si_client = None,
         si_permissions = STUDIO_ACCOUNT_PERMISSIONS, si_expires = Some ACCESS_TOKEN_TTL_SEC,
         si_jti = Some jti, si_aud = Some ''studio'', si_iss = Some ''ratary'', si_org = None, si_roles = []\<rparr>),
      as_expires = ACCESS_TOKEN_TTL_SEC, as_owner = ownerId, as_identity = identityId,
      as_org = ws_org w, as_email = email, as_display = displayName, as_ws = ws_id w\<rparr>"

text \<open>The tail the three entry points share.\<close>

definition openSession ::
  "session_keys \<Rightarrow> 'a auth_db_scheme \<Rightarrow> account_request \<Rightarrow> string \<Rightarrow> string \<Rightarrow> string \<Rightarrow> string
     \<Rightarrow> (app_error + account_session) \<times> 'a auth_db_scheme" where
  "openSession sk db rq identityId ownerId email displayName =
     (case ensureDefaultWorkspace db ownerId (rq_org_mint rq) (rq_ws_mint rq) of
        (Inl e, db') \<Rightarrow> (Inl e, db')
      | (Inr (w, _), db') \<Rightarrow>
          (Inr (issueSession sk (rq_now rq) (rq_jti rq) identityId ownerId email displayName w), db'))"

definition request_email :: "account_request \<Rightarrow> string" where
  "request_email rq = js_lower (js_trim (rq_email rq))"

definition display_name :: "account_request \<Rightarrow> string" where
  "display_name rq =
     (case truthy (map_option js_trim (rq_display rq)) of Some d \<Rightarrow> d
      | None \<Rightarrow> str_or (hd (js_split CHR ''@'' (request_email rq))) ''User'')"

text \<open>The two rows of the transaction.\<close>

definition registered_identity :: "account_request \<Rightarrow> identity_row" where
  "registered_identity rq =
     \<lparr>ir_id = rq_identity rq, ir_type = Jwt, ir_name = ''user:'' @ request_email rq,
      ir_secret_hash = None, ir_owner = rq_owner rq,
      ir_description = ''Native email/password account'',
      ir_metadata = Some \<lparr>im_permissions = STUDIO_ACCOUNT_PERMISSIONS,
        im_other = [(''email'', request_email rq), (''displayName'', display_name rq),
                    (''authProvider'', ''native'')]\<rparr>,
      ir_client = None, ir_created_by = None, ir_created = rq_now rq, ir_last_used = None,
      ir_expires = None, ir_revoked = None, ir_active = True\<rparr>"

definition registered_account :: "session_keys \<Rightarrow> account_request \<Rightarrow> account_row" where
  "registered_account sk rq =
     \<lparr>ac_id = rq_account rq, ac_email = request_email rq,
      ac_password = hashPassword (sk_crypto sk) (rq_salt rq) (rq_password rq),
      ac_display = display_name rq, ac_owner = rq_owner rq, ac_identity = rq_identity rq,
      ac_created = rq_now rq, ac_last_login = None, ac_active = True\<rparr>"

definition register ::
  "session_keys \<Rightarrow> 'a auth_db_scheme \<Rightarrow> account_request
     \<Rightarrow> (app_error + account_session) \<times> 'a auth_db_scheme" where
  "register sk db rq =
     (let email = request_email rq in
      if email = [] \<or> \<not> js_includes email ''@''
      then (Inl (ValidationError ''Valid email is required''), db)
      else if length (rq_password rq) < 8
      then (Inl (ValidationError ''Password must be at least 8 characters''), db)
      else if findByEmail db email \<noteq> None
      then (Inl (ConflictError ''Email already registered''), db)
      else
        case and_then (sql_insert identity_clash (registered_identity rq) (identities db))
               (\<lambda>ids. and_then (sql_insert account_clash (registered_account sk rq) (accounts db))
                  (\<lambda>acs. Inr (ids, acs))) of
          Inl e \<Rightarrow> (Inl e, db)
        | Inr (ids, acs) \<Rightarrow>
            openSession sk
              (emitAuthEvent (event_of IdentityCreated (Some (rq_identity rq)) (rq_owner rq) None)
                (db\<lparr>identities := ids, accounts := acs\<rparr>))
              rq (rq_identity rq) (rq_owner rq) email (display_name rq))"

definition login ::
  "session_keys \<Rightarrow> 'a auth_db_scheme \<Rightarrow> account_request
     \<Rightarrow> (app_error + account_session) \<times> 'a auth_db_scheme" where
  "login sk db rq =
     (let email = request_email rq in
      case assertNotLocked db email (rq_now rq) of
        (Inl e, db1) \<Rightarrow> (Inl e, db1)
      | (Inr _, db1) \<Rightarrow>
     (case (case findByEmail db1 email of
              None \<Rightarrow> None
            | Some a \<Rightarrow> if verifyPassword (sk_crypto sk) (rq_password rq) (ac_password a) then Some a else None) of
        None \<Rightarrow> (Inl (UnauthorizedError ''Invalid email or password''),
                 recordFailure db1 email (rq_ip rq) (rq_now rq))
      | Some account \<Rightarrow>
     (case findIdentityById db1 (ac_identity account) of
        None \<Rightarrow> (Inl (ForbiddenError ''Account is disabled''), db1)
      | Some i \<Rightarrow>
          if \<not> id_active i then (Inl (ForbiddenError ''Account is disabled''), db1)
          else
            let db2 = updateMetadata db1 (id_id i)
                        ((id_metadata i)\<lparr>im_permissions := STUDIO_ACCOUNT_PERMISSIONS\<rparr>);
                db3 = recordSuccess db2 email;
                db4 = touchLogin db3 (ac_id account) (rq_now rq)
            in openSession sk db4 rq (ac_identity account) (ac_owner account) (ac_email account)
                 (ac_display account))))"

definition reissueSession ::
  "session_keys \<Rightarrow> 'a auth_db_scheme \<Rightarrow> account_request
     \<Rightarrow> (app_error + account_session) \<times> 'a auth_db_scheme" where
  "reissueSession sk db rq =
     (case findByEmail db (request_email rq) of
        None \<Rightarrow> (Inl (UnauthorizedError ''Subject mismatch for reissue''), db)
      | Some account \<Rightarrow>
          if ac_owner account \<noteq> rq_owner rq \<or> ac_identity account \<noteq> rq_identity rq
          then (Inl (UnauthorizedError ''Subject mismatch for reissue''), db)
          else (case findIdentityById db (ac_identity account) of
                  None \<Rightarrow> (Inl (ForbiddenError ''Account is disabled''), db)
                | Some i \<Rightarrow>
                    if \<not> id_active i then (Inl (ForbiddenError ''Account is disabled''), db)
                    else openSession sk db rq (ac_identity account) (ac_owner account)
                           (ac_email account) (ac_display account)))"

subsection \<open>The lockout\<close>

definition guard_state :: "'a auth_db_scheme \<Rightarrow> string \<Rightarrow> (nat \<times> int option) option" where
  "guard_state db email = map_option (\<lambda>r. (at_failed r, at_locked_until r)) (getRow db email)"

definition failures :: "'a auth_db_scheme \<Rightarrow> string \<Rightarrow> nat" where
  "failures db email = (case guard_state db email of Some (n, _) \<Rightarrow> n | None \<Rightarrow> 0)"

definition wrong_password :: "session_keys \<Rightarrow> 'a auth_db_scheme \<Rightarrow> string \<Rightarrow> string \<Rightarrow> bool" where
  "wrong_password sk db email password \<longleftrightarrow>
     (case findByEmail db email of None \<Rightarrow> True
      | Some a \<Rightarrow> \<not> verifyPassword (sk_crypto sk) password (ac_password a))"

fun login_all :: "session_keys \<Rightarrow> 'a auth_db_scheme \<Rightarrow> account_request list \<Rightarrow> 'a auth_db_scheme" where
  "login_all sk db [] = db"
| "login_all sk db (rq # rqs) = login_all sk (snd (login sk db rq)) rqs"

lemma login_all_append: "login_all sk db (xs @ ys) = login_all sk (login_all sk db xs) ys"
  by (induction xs arbitrary: db) auto

lemma request_email_lower [simp]: "js_lower (request_email rq) = request_email rq"
  by (simp add: request_email_def)

lemma guard_state_recordFailure:
  assumes "js_lower e = e"
  shows "guard_state (recordFailure db e ip now) e =
    Some (failures db e + 1, if 5 \<le> failures db e + 1 then Some (now + 900000) else None)"
proof (cases "getRow db e")
  case None
  then have "sql_first (\<lambda>r. at_email r = e) (login_attempts db) = None" by (simp add: getRow_def)
  with None assms show ?thesis
    by (simp add: guard_state_def failures_def recordFailure_def getRow_def sql_first_append sql_first_Cons
        MAX_FAILED_ATTEMPTS_def LOCKOUT_MINUTES_def Let_def del: sql_first_None)
next
  case (Some r)
  then have "sql_first (\<lambda>r. at_email r = e) (login_attempts db) = Some r" by (simp add: getRow_def)
  moreover from sql_first_SomeD [OF this] have "at_email r = e" by simp
  ultimately show ?thesis using Some assms
    by (simp add: guard_state_def failures_def recordFailure_def getRow_def sql_first_update
        MAX_FAILED_ATTEMPTS_def LOCKOUT_MINUTES_def Let_def)
qed

lemma accounts_recordFailure [simp]: "accounts (recordFailure db e ip now) = accounts db"
  by (simp add: recordFailure_def Let_def split: option.splits)

lemma wrong_password_cong: "accounts db = accounts db' \<Longrightarrow> wrong_password sk db e pw = wrong_password sk db' e pw"
  by (simp add: wrong_password_def findByEmail_def)

lemma assertNotLocked_guard_state:
  "assertNotLocked db e now =
     (case guard_state db e of
        Some (_, Some t) \<Rightarrow>
          if now < t then (Inl (ForbiddenError ''Account temporarily locked - try again later''), db)
          else (Inr (), resetGuard db e)
      | _ \<Rightarrow> (Inr (), db))"
  by (auto simp: assertNotLocked_def guard_state_def split: option.splits)

lemma guard_state_reset: "guard_state (resetGuard db e) e = None"
  by (simp add: guard_state_def getRow_def resetGuard_def)

lemma login_wrong:
  assumes "assertNotLocked db (request_email rq) (rq_now rq) = (Inr u, db)"
    and "wrong_password sk db (request_email rq) (rq_password rq)"
  shows "login sk db rq = (Inl (UnauthorizedError ''Invalid email or password''),
    recordFailure db (request_email rq) (rq_ip rq) (rq_now rq))"
  using assms
  by (auto simp: login_def wrong_password_def Let_def split: option.splits)

lemma login_all_wrong:
  assumes "\<forall>rq \<in> set rqs. request_email rq = e \<and> wrong_password sk db e (rq_password rq)"
    and "guard_state db e = (if n = 0 then None else Some (n, None))" and "n + length rqs < 5"
  shows "guard_state (login_all sk db rqs) e =
      (if n + length rqs = 0 then None else Some (n + length rqs, None)) \<and>
    accounts (login_all sk db rqs) = accounts db"
  using assms
proof (induction rqs arbitrary: db n)
  case Nil
  then show ?case by simp
next
  case (Cons rq rqs)
  let ?db = "recordFailure db e (rq_ip rq) (rq_now rq)"
  from Cons.prems have e: "request_email rq = e" "js_lower e = e" "wrong_password sk db e (rq_password rq)" by auto
  have "failures db e = n" using Cons.prems(2) by (simp add: failures_def)
  with guard_state_recordFailure [OF e(2), of db "rq_ip rq" "rq_now rq"] Cons.prems(3)
  have "guard_state ?db e = (if Suc n = 0 then None else Some (Suc n, None))" by simp
  moreover have "\<forall>rq \<in> set rqs. request_email rq = e \<and> wrong_password sk ?db e (rq_password rq)"
    using Cons.prems(1) wrong_password_cong [of ?db db] by auto
  moreover have "assertNotLocked db e (rq_now rq) = (Inr (), db)"
    using Cons.prems(2) by (simp add: assertNotLocked_guard_state)
  with e have "login sk db rq = (Inl (UnauthorizedError ''Invalid email or password''), ?db)"
    using login_wrong [of db rq] by simp
  ultimately show ?case using Cons.IH [of ?db "Suc n"] Cons.prems(3) by simp
qed

text \<open>
  C34: the login guard counts. Up to four wrong passwords in a row leave an account open; the fifth
  locks it, and then every login for that address, with the right password too, is refused for
  fifteen minutes from the fifth failure and changes nothing (so guessing on does not extend the
  lock); from then on the address is open again with a fresh count.
\<close>

theorem login_lockout:
  assumes "getRow db e = None"
    and "\<forall>r \<in> set (rqs @ [fifth]). request_email r = e \<and> wrong_password sk db e (rq_password r)"
    and "length rqs = 4" and "request_email rq = e"
  shows "fst (assertNotLocked (login_all sk db rqs) e now) = Inr () \<and>
    (rq_now rq < rq_now fifth + 900000 \<longrightarrow>
      login sk (login_all sk db (rqs @ [fifth])) rq =
        (Inl (ForbiddenError ''Account temporarily locked - try again later''), login_all sk db (rqs @ [fifth]))) \<and>
    (rq_now fifth + 900000 \<le> now \<longrightarrow>
      fst (assertNotLocked (login_all sk db (rqs @ [fifth])) e now) = Inr () \<and>
      failures (snd (assertNotLocked (login_all sk db (rqs @ [fifth])) e now)) e = 0)"
proof -
  let ?db4 = "login_all sk db rqs" and ?db5 = "login_all sk db (rqs @ [fifth])"
  have "guard_state ?db4 e = Some (4, None) \<and> accounts ?db4 = accounts db"
    using login_all_wrong [of rqs e sk db 0] assms by (auto simp: guard_state_def)
  then have four: "guard_state ?db4 e = Some (4, None)" and acc: "accounts ?db4 = accounts db" by simp_all
  then have open4: "fst (assertNotLocked ?db4 e now) = Inr ()" by (simp add: assertNotLocked_guard_state)
  have fifth: "request_email fifth = e" "js_lower e = e" "wrong_password sk ?db4 e (rq_password fifth)"
    using assms(2) wrong_password_cong [OF acc] by auto
  with four have "?db5 = recordFailure ?db4 e (rq_ip fifth) (rq_now fifth)"
    using login_wrong [of ?db4 fifth "()" sk] by (simp add: login_all_append assertNotLocked_guard_state)
  with four have five: "guard_state ?db5 e = Some (5, Some (rq_now fifth + 900000))"
    using guard_state_recordFailure [OF fifth(2), of ?db4] by (simp add: failures_def)
  have locked: "login sk ?db5 rq =
      (Inl (ForbiddenError ''Account temporarily locked - try again later''), ?db5)"
    if "rq_now rq < rq_now fifth + 900000"
    using that five assms(4) by (simp add: login_def Let_def assertNotLocked_guard_state)
  have "fst (assertNotLocked ?db5 e now) = Inr () \<and>
      failures (snd (assertNotLocked ?db5 e now)) e = 0" if "rq_now fifth + 900000 \<le> now"
    using that five by (simp add: assertNotLocked_guard_state failures_def guard_state_reset)
  with open4 locked show ?thesis by blast
qed

definition sample_keys :: session_keys where
  "sample_keys =
     \<lparr>sk_crypto = \<lparr>pepper = (\<lambda>s. s), scrypt = (\<lambda>p s. p @ s), b64url = (\<lambda>s. s), unb64url = (\<lambda>s. s)\<rparr>,
      sk_codec = sample_codec, sk_seal = (\<lambda>s. s)\<rparr>"

definition sample_request :: "string \<Rightarrow> int \<Rightarrow> account_request" where
  "sample_request pw now =
     \<lparr>rq_email = '' Ann@b.c'', rq_password = pw, rq_display = None, rq_ip = None, rq_now = now,
      rq_owner = ''o'', rq_identity = ''i'', rq_account = ''a'', rq_salt = ''s'', rq_jti = ''j'',
      rq_org_mint = \<lparr>mint_id = ''m'', mint_now = ''t''\<rparr>,
      rq_ws_mint = \<lparr>mint_id = ''w'', mint_now = ''t''\<rparr>\<rparr>"

definition registered_db :: auth_db where
  "registered_db = snd (register sample_keys empty_auth_db (sample_request ''password1'' 1000))"

theorem login_lockout_witness:
  "login sample_keys (login_all sample_keys registered_db
       (map (sample_request ''wrong'') [2000, 3000, 4000, 5000] @ [sample_request ''guess'' 6000]))
     (sample_request ''password1'' 900000) =
   (Inl (ForbiddenError ''Account temporarily locked - try again later''),
    login_all sample_keys registered_db
       (map (sample_request ''wrong'') [2000, 3000, 4000, 5000] @ [sample_request ''guess'' 6000]))"
proof -
  have empty: "getRow registered_db ''ann@b.c'' = None" by code_simp
  have wrong: "\<forall>r \<in> set (map (sample_request ''wrong'') [2000, 3000, 4000, 5000] @ [sample_request ''guess'' 6000]).
      request_email r = ''ann@b.c'' \<and> wrong_password sample_keys registered_db ''ann@b.c'' (rq_password r)"
    by code_simp
  have "length (map (sample_request ''wrong'') [2000, 3000, 4000, 5000]) = 4"
    "request_email (sample_request ''password1'' 900000) = ''ann@b.c''" by (simp, code_simp)
  from login_lockout [OF empty wrong this] show ?thesis by (simp add: sample_request_def)
qed

subsection \<open>Registering, then logging in\<close>

lemma verifyPassword_hashPassword:
  assumes "CHR ''$'' \<notin> set (b64url cr salt)"
    and "CHR ''$'' \<notin> set (b64url cr (scrypt cr (pepper cr pw) salt))"
    and "unb64url cr (b64url cr salt) = salt"
    and "unb64url cr (b64url cr (scrypt cr (pepper cr pw) salt)) = scrypt cr (pepper cr pw) salt"
  shows "verifyPassword cr pw' (hashPassword cr salt pw) \<longleftrightarrow>
    scrypt cr (pepper cr pw') salt = scrypt cr (pepper cr pw) salt"
proof -
  let ?h = "b64url cr (scrypt cr (pepper cr pw) salt)"
  have "js_split CHR ''$'' (''scrypt-v2'' @ CHR ''$'' # (b64url cr salt @ CHR ''$'' # ?h)) =
      ''scrypt-v2'' # b64url cr salt # [?h]"
    using assms(1,2) by (subst js_split_append) (auto simp: js_split_append js_split_none)
  then have "js_split CHR ''$'' (hashPassword cr salt pw) = [''scrypt-v2'', b64url cr salt, ?h]"
    by (simp add: hashPassword_def)
  then show ?thesis using assms(3,4) by (simp add: verifyPassword_def)
qed

lemma ensureDefaultWorkspace_frame:
  "ensureDefaultWorkspace db x mo mw = (res, db') \<Longrightarrow>
     \<exists>os ws. db' = db\<lparr>organizations := os, workspaces := ws\<rparr>"
proof -
  assume a: "ensureDefaultWorkspace db x mo mw = (res, db')"
  have self: "\<exists>os ws. db = db\<lparr>organizations := os, workspaces := ws\<rparr>" for db :: "'a scope_db_scheme"
    by (intro exI [of _ "organizations db"] exI [of _ "workspaces db"]) simp
  have "\<exists>os. snd (ensureDefaultOrganization db x mo) = db\<lparr>organizations := os\<rparr>"
  proof -
    have same: "\<exists>os. db = db\<lparr>organizations := os\<rparr>" by (intro exI [of _ "organizations db"]) simp
    show ?thesis using same
      by (auto simp: ensureDefaultOrganization_def createOrganization_def Let_def
          split: option.splits sum.splits)
  qed
  then obtain os where os: "snd (ensureDefaultOrganization db x mo) = db\<lparr>organizations := os\<rparr>" by blast
  obtain r db1 where e: "ensureDefaultOrganization db x mo = (r, db1)" by fastforce
  with os have db1: "db1 = db\<lparr>organizations := os\<rparr>" by simp
  have ins: "\<exists>ws. snd (insertWorkspace db1 w) = db1\<lparr>workspaces := ws\<rparr>" for w
  proof -
    have same: "\<exists>ws. db1 = db1\<lparr>workspaces := ws\<rparr>" by (intro exI [of _ "workspaces db1"]) simp
    show ?thesis using same by (auto simp: insertWorkspace_def split: sum.splits)
  qed
  have one: "\<exists>os ws. db1 = db\<lparr>organizations := os, workspaces := ws\<rparr>"
    by (intro exI [of _ os] exI [of _ "workspaces db"]) (simp add: db1)
  have two: "\<exists>os ws'. db1\<lparr>workspaces := ws\<rparr> = db\<lparr>organizations := os, workspaces := ws'\<rparr>" for ws
    by (intro exI [of _ os] exI [of _ ws]) (simp add: db1)
  show ?thesis
  proof (cases r)
    case (Inl e')
    with a e one show ?thesis by (auto simp: ensureDefaultWorkspace_def)
  next
    case (Inr p)
    obtain oo b where p: "p = (oo, b)" by fastforce
    show ?thesis
    proof (cases "findDefaultWorkspace db1 x")
      case None
      obtain res2 db2 where i: "insertWorkspace db1 \<lparr>ws_id = mint_id mw, ws_owner = x, ws_name = DEFAULT_WORKSPACE_NAME,
                        ws_slug = DEFAULT_WORKSPACE_SLUG, ws_created = mint_now mw,
                        ws_org = org_id oo\<rparr> = (res2, db2)" by fastforce
      with ins obtain ws where "db2 = db1\<lparr>workspaces := ws\<rparr>" by (metis snd_conv)
      moreover have "db' = db2" using a e Inr p None i
        by (auto simp: ensureDefaultWorkspace_def split: sum.splits)
      ultimately show ?thesis using two by blast
    next
      case (Some w)
      with a e Inr p one two show ?thesis by (auto simp: ensureDefaultWorkspace_def split: if_splits)
    qed
  qed
qed

lemma ensureDefaultWorkspace_found:
  assumes "findOrganizationBySlug d x DEFAULT_ORGANIZATION_SLUG = Some r"
    and "findDefaultWorkspace d x = Some w" and "ws_org w = org_id r"
  shows "ensureDefaultWorkspace d x mo mw = (Inr (w, False), d)"
  using assms by (simp add: ensureDefaultWorkspace_def ensureDefaultOrganization_def)

text \<open>After a bootstrap, any state with the same two tables answers it without a write.\<close>

lemma ensureDefaultWorkspace_later:
  assumes "scope_inv db" and "id_form (mint_id mo)"
    and "ensureDefaultWorkspace db x mo mw = (Inr (w, c), db')"
    and "organizations d = organizations db'" and "workspaces d = workspaces db'"
  shows "ensureDefaultWorkspace d x mo' mw' = (Inr (w, False), d)"
proof -
  from findDefaultWorkspace_after [OF assms(1-3), of mo'] obtain r where
    w: "findDefaultWorkspace db' x = Some w"
    and org: "ensureDefaultOrganization db' x mo' = (Inr (r, False), db')" "ws_org w = org_id r" by blast
  from org(1) have "findOrganizationBySlug db' x DEFAULT_ORGANIZATION_SLUG = Some r"
    by (auto simp: ensureDefaultOrganization_def split: option.splits sum.splits prod.splits)
  with w org(2) assms(4,5) show ?thesis
    by (intro ensureDefaultWorkspace_found)
       (simp_all add: findOrganizationBySlug_def findDefaultWorkspace_def findWorkspaceBySlug_def)
qed

text \<open>What a registration that succeeded has written.\<close>

lemma register_Inr:
  assumes "register sk db rq = (Inr s, db1)"
  shows "\<exists>identity account w c db0.
    ir_id identity = rq_identity rq \<and> ir_active identity \<and>
    ac_email account = request_email rq \<and> ac_active account \<and>
    ac_password account = hashPassword (sk_crypto sk) (rq_salt rq) (rq_password rq) \<and>
    ac_owner account = rq_owner rq \<and> ac_identity account = rq_identity rq \<and>
    (\<forall>r \<in> set (accounts db). \<not> account_clash account r) \<and>
    (\<forall>r \<in> set (identities db). \<not> identity_clash identity r) \<and>
    identities db0 = identities db @ [identity] \<and> accounts db0 = accounts db @ [account] \<and>
    login_attempts db0 = login_attempts db \<and>
    organizations db0 = organizations db \<and> workspaces db0 = workspaces db \<and>
    ensureDefaultWorkspace db0 (rq_owner rq) (rq_org_mint rq) (rq_ws_mint rq) = (Inr (w, c), db1) \<and>
    as_owner s = rq_owner rq \<and> as_identity s = rq_identity rq \<and> as_email s = request_email rq \<and>
    as_org s = ws_org w \<and> as_ws s = ws_id w"
proof -
  let ?i = "registered_identity rq" and ?a = "registered_account sk rq"
  let ?db0 = "emitAuthEvent (event_of IdentityCreated (Some (rq_identity rq)) (rq_owner rq) None)
       (db\<lparr>identities := identities db @ [?i], accounts := accounts db @ [?a]\<rparr>)"
  from assms have free: "\<forall>r \<in> set (accounts db). \<not> account_clash ?a r"
      "\<forall>r \<in> set (identities db). \<not> identity_clash ?i r"
    and sess: "openSession sk ?db0 rq (rq_identity rq) (rq_owner rq) (request_email rq) (display_name rq) =
      (Inr s, db1)"
    by (auto simp: register_def Let_def and_then_eq_Inr split: if_splits sum.splits)
  from sess obtain w c where
    "ensureDefaultWorkspace ?db0 (rq_owner rq) (rq_org_mint rq) (rq_ws_mint rq) = (Inr (w, c), db1)"
    "s = issueSession sk (rq_now rq) (rq_jti rq) (rq_identity rq) (rq_owner rq) (request_email rq)
           (display_name rq) w"
    by (auto simp: openSession_def split: prod.splits sum.splits)
  with free show ?thesis
    by (intro exI [of _ ?i] exI [of _ ?a] exI [of _ w] exI [of _ c] exI [of _ ?db0])
       (simp add: issueSession_def emitAuthEvent_def registered_identity_def registered_account_def)
qed



end
