(* ===== verification/Rest_Boundary.thy ===== *)
theory Rest_Boundary
  imports Accounts
begin

section \<open>The request hooks of the REST server\<close>

text \<open>
  The three \<^verbatim>\<open>onRequest\<close> hooks that \<^verbatim>\<open>src/src/transport/rest/rest-server.ts\<close> installs, in its order:
  \<^verbatim>\<open>auth.middleware.ts\<close>, \<^verbatim>\<open>tenant-context.middleware.ts\<close> and \<^verbatim>\<open>permission.middleware.ts\<close>. An
  escape in a query string is decoded bytewise, which is the WHATWG decoding on ASCII.
\<close>

record http_request =
  hr_method :: string
  hr_url :: string
  hr_headers :: headers
  hr_user :: "auth_user option"

definition hex_value :: "char \<Rightarrow> nat option" where
  "hex_value c =
     (let n = (of_char c :: nat) in
      if 48 \<le> n \<and> n \<le> 57 then Some (n - 48)
      else if 65 \<le> n \<and> n \<le> 70 then Some (n - 55)
      else if 97 \<le> n \<and> n \<le> 102 then Some (n - 87) else None)"

fun form_decode :: "string \<Rightarrow> string" where
  "form_decode [] = []"
| "form_decode (c # s) =
     (if c = CHR ''+'' then CHR '' '' # form_decode s
      else if c = CHR ''%'' then
        (case s of
           a # b # t \<Rightarrow>
             (case (hex_value a, hex_value b) of
                (Some x, Some y) \<Rightarrow> char_of (16 * x + y) # form_decode (drop 2 s)
              | _ \<Rightarrow> c # form_decode s)
         | _ \<Rightarrow> c # form_decode s)
      else c # form_decode s)"

definition query_params :: "string \<Rightarrow> (string \<times> string) list" where
  "query_params url =
     (let u = takeWhile (\<lambda>c. c \<noteq> CHR ''#'') url;
          q = drop 1 (dropWhile (\<lambda>c. c \<noteq> CHR ''?'') u)
      in map (\<lambda>p. (form_decode (takeWhile (\<lambda>c. c \<noteq> CHR ''='') p),
                   form_decode (drop 1 (dropWhile (\<lambda>c. c \<noteq> CHR ''='') p))))
           (filter (\<lambda>p. p \<noteq> []) (js_split CHR ''&'' q)))"

definition injectMcpQueryApiKey :: "mcp_env \<Rightarrow> http_request \<Rightarrow> http_request" where
  "injectMcpQueryApiKey env req =
     (if \<not> isRemoteMcpPath env (hr_url req) then req
      else if truthy (extractBearerToken (hr_headers req)) \<noteq> None then req
      else
        (let ps = query_params (hr_url req);
             apiKey = (case map_of ps ''apiKey'' of Some k \<Rightarrow> Some k | None \<Rightarrow> map_of ps ''api_key'')
         in case truthy apiKey of
              Some k \<Rightarrow> req\<lparr>hr_headers := (hr_headers req)(''authorization'' \<mapsto> HStr (''Bearer '' @ k))\<rparr>
            | None \<Rightarrow> req))"

definition authenticateMiddleware ::
  "mcp_env \<Rightarrow> 'a auth_db_scheme provider list \<Rightarrow> int \<Rightarrow> http_request \<Rightarrow> 'a auth_db_scheme
     \<Rightarrow> (app_error + http_request) \<times> 'a auth_db_scheme" where
  "authenticateMiddleware env providers now req db =
     (if isPublicPath (hr_url req) then (Inr req, db)
      else
        let req1 = injectMcpQueryApiKey env req in
        if isRemoteMcpPath env (hr_url req1) \<and> truthy (extractBearerToken (hr_headers req1)) = None
        then (Inr req1, db)
        else (case authenticate providers (hr_headers req1) now db of
                (Inl e, db') \<Rightarrow> (Inl e, db')
              | (Inr u, db') \<Rightarrow> (Inr (req1\<lparr>hr_user := Some u\<rparr>), db')))"

definition tenantMiddleware ::
  "mcp_env \<Rightarrow> http_request \<Rightarrow> 'a auth_db_scheme \<Rightarrow> (app_error + http_request) \<times> audit_record list" where
  "tenantMiddleware env req db =
     (if isTenantContextExemptPath env (hr_url req) (hr_method req) then (Inr req, [])
      else (case hr_user req of
              None \<Rightarrow> (Inr req, [])
            | Some user \<Rightarrow>
                if au_owner user = [] then (Inr req, [])
                else (case resolveAuthorizedTenantContext db user (hr_headers req) REST of
                        (Inl e, recs) \<Rightarrow> (Inl e, recs)
                      | (Inr t, recs) \<Rightarrow> (Inr (req\<lparr>hr_user := Some t\<rparr>), recs))))"

definition permissionMiddleware :: "mcp_env \<Rightarrow> http_request \<Rightarrow> (app_error + unit) \<times> audit_record list" where
  "permissionMiddleware env req =
     (case hr_user req of
        None \<Rightarrow> (Inr (), [])
      | Some user \<Rightarrow>
          (case evaluateRestAuthorization env user (hr_method req) (hr_url req) of
             (Inl e, recs) \<Rightarrow> (Inl e, recs) | (Inr _, recs) \<Rightarrow> (Inr (), recs)))"

definition restHooks ::
  "mcp_env \<Rightarrow> 'a auth_db_scheme provider list \<Rightarrow> int \<Rightarrow> http_request \<Rightarrow> 'a auth_db_scheme
     \<Rightarrow> (app_error + http_request) \<times> audit_record list \<times> 'a auth_db_scheme" where
  "restHooks env providers now req db =
     (case authenticateMiddleware env providers now req db of
        (Inl e, db') \<Rightarrow> (Inl e, [], db')
      | (Inr req1, db') \<Rightarrow>
          (case tenantMiddleware env req1 db' of
             (Inl e, recs) \<Rightarrow> (Inl e, recs, db')
           | (Inr req2, recs) \<Rightarrow>
               (case permissionMiddleware env req2 of
                  (Inl e, recs') \<Rightarrow> (Inl e, recs @ recs', db')
                | (Inr _, recs') \<Rightarrow> (Inr req2, recs @ recs', db'))))"

subsection \<open>What a request that gets through has proved\<close>

lemma injectMcpQueryApiKey_same [simp]:
  "hr_url (injectMcpQueryApiKey env req) = hr_url req"
  "hr_method (injectMcpQueryApiKey env req) = hr_method req"
  "hr_user (injectMcpQueryApiKey env req) = hr_user req"
  by (auto simp: injectMcpQueryApiKey_def Let_def split: option.splits)

lemma authenticateMiddleware_protected:
  assumes "authenticateMiddleware env ps now req db = (Inr req1, db')"
    and "\<not> isPublicPath (hr_url req)" and "\<not> isRemoteMcpPath env (hr_url req)"
  shows "\<exists>u. hr_user req1 = Some u \<and> hr_url req1 = hr_url req \<and> hr_method req1 = hr_method req \<and>
    authenticate ps (hr_headers req1) now db = (Inr u, db')"
  using assms
  by (auto simp: authenticateMiddleware_def Let_def split: if_splits prod.splits sum.splits)

lemma tenantMiddleware_Inr:
  assumes "tenantMiddleware env req db = (Inr req2, recs)" and "hr_user req = Some u"
    and "\<not> isTenantContextExemptPath env (hr_url req) (hr_method req)"
  shows "hr_url req2 = hr_url req \<and> hr_method req2 = hr_method req \<and> hr_headers req2 = hr_headers req \<and>
    (req2 = req \<or> (\<exists>t. hr_user req2 = Some (attachTenantContextToAuthUser u t) \<and>
       resolveTenantContext db u (hr_headers req) = Inr t))"
  using assms
  by (auto simp: tenantMiddleware_def resolveAuthorizedTenantContext_def Let_def
      split: if_splits sum.splits)

lemma permissionMiddleware_Inr:
  assumes "permissionMiddleware env req = (Inr x, recs)" and "hr_user req = Some u"
  shows "\<exists>r. evaluatePermissionForRequest env u (hr_method req) (hr_url req) = Inr r"
  using assms
  by (auto simp: permissionMiddleware_def evaluateRestAuthorization_def Let_def
      split: sum.splits option.splits)

lemma data_plane_guarded:
  assumes "restHooks env (stored_providers hash cd) now req db = (Inr req', recs, db')"
    and "isDataPlanePath env (hr_url req) (hr_method req)"
    and "reading (hr_method req) \<or> mutating (hr_method req)"
  shows "\<exists>u r p x w. hr_url req' = hr_url req \<and> hr_method req' = hr_method req \<and>
    headerValue (hr_headers req') ''x-organization-id'' = Some x \<and> headerValue (hr_headers req') ''x-workspace-id'' = Some w \<and>
    hr_user req' = Some u \<and> r \<in> set (identities db) \<and> ir_active r \<and>
    au_identity u = ir_id r \<and> au_owner u = ir_owner r \<and>
    resolveRequiredPermission env (hr_method req) (hr_url req) = Some p \<and>
    permission_string p \<in> set (im_permissions (nullish (ir_metadata r) default_metadata)) \<and>
    au_org u = Some x \<and> au_ws u = Some w \<and>
    organizationExistsForOwner db' (ir_owner r) x \<and> tenant_owned db' (ir_owner r) x w"
proof -
  note guarded = data_plane_not_exempt [OF assms(2)]
  from assms(1) obtain req1 log1 log2 where
    auth: "authenticateMiddleware env (stored_providers hash cd) now req db = (Inr req1, db')"
    and tenant: "tenantMiddleware env req1 db' = (Inr req', log1)"
    and perm: "permissionMiddleware env req' = (Inr (), log2)"
    by (auto simp: restHooks_def split: prod.splits sum.splits)
  from authenticateMiddleware_protected [OF auth guarded(2,4)] obtain u where
    u: "hr_user req1 = Some u" "hr_url req1 = hr_url req" "hr_method req1 = hr_method req"
    and sound: "authenticate (stored_providers hash cd) (hr_headers req1) now db = (Inr u, db')" by blast
  from authenticate_stored [OF sound] obtain rs where
    "live_identity db now rs" "u = toAuthUser rs" by blast
  then obtain r where r: "r \<in> set (identities db)" "ir_active r" "au_identity u = ir_id r"
      "au_owner u = ir_owner r" "au_org u = None"
      "au_permissions u = im_permissions (nullish (ir_metadata r) default_metadata)"
    by (auto simp: live_identity_def toAuthUser_def resolved_of_def rowToIdentity_def)
  from tenantMiddleware_Inr [OF tenant u(1)] guarded(1) u(2,3) have
    same: "hr_url req' = hr_url req" "hr_method req' = hr_method req" "hr_headers req' = hr_headers req1"
    and cases: "req' = req1 \<or> (\<exists>t. hr_user req' = Some (attachTenantContextToAuthUser u t) \<and>
       resolveTenantContext db' u (hr_headers req1) = Inr t)" by auto
  have "req' \<noteq> req1"
  proof
    assume "req' = req1"
    with permissionMiddleware_Inr [OF perm] u same obtain x where
      "evaluatePermissionForRequest env u (hr_method req) (hr_url req) = Inr x" by auto
    from data_plane_permission [OF assms(2,3) this] r(5) show False by auto
  qed
  with cases obtain t where t: "hr_user req' = Some (attachTenantContextToAuthUser u t)"
    "resolveTenantContext db' u (hr_headers req1) = Inr t" by blast
  from permissionMiddleware_Inr [OF perm t(1)] same obtain x where
    "evaluatePermissionForRequest env (attachTenantContextToAuthUser u t) (hr_method req) (hr_url req) = Inr x"
    by auto
  from data_plane_permission [OF assms(2,3) this] obtain p where
    p: "resolveRequiredPermission env (hr_method req) (hr_url req) = Some p"
      "hasPermission (au_permissions (attachTenantContextToAuthUser u t)) p" by blast
  have "headerValue (hr_headers req') ''x-organization-id'' = Some (tn_org t)"
    "headerValue (hr_headers req') ''x-workspace-id'' = Some (tn_ws t)"
    using t(2) by (auto simp: same(3) resolveTenantContext_def split: option.splits)
  with resolveTenantContext_Inr [OF t(2)] p t(1) r same(1,2) show ?thesis
    by (fastforce simp: attachTenantContextToAuthUser_def hasPermission_def)
qed


definition tenant_headers :: "string \<Rightarrow> headers" where
  "tenant_headers key =
     [''x-api-key'' \<mapsto> HStr key, ''x-organization-id'' \<mapsto> HStr '' m'', ''x-workspace-id'' \<mapsto> HList [''w'', ''z'']]"

text \<open>An account of the owner \<open>o\<close> with its default tenant, and an API key of the same owner.\<close>

definition guarded_db :: auth_db where
  "guarded_db = snd (createIdentity (\<lambda>s. s) registered_db sample_body ''x'' ''o''
     (sample_fresh ''k'' ''0123456789abcdef0''))"

definition sample_env :: mcp_env where
  "sample_env = \<lparr>REMOTE_MCP_ENABLED = True, REMOTE_MCP_PATH = ''mcp''\<rparr>"

definition sample_http :: http_request where
  "sample_http = \<lparr>hr_method = ''POST'', hr_url = ''/api/v1/memory?x=1'',
     hr_headers = tenant_headers ''aic_0123456789abcdef0'', hr_user = None\<rparr>"


subsection \<open>Remote MCP sessions\<close>

text \<open>
  A remote MCP session is always bound to a tenant of the caller and leaves one record. When the
  session is authorised, through headers or through the default tenant, the workspace belongs to
  the caller's owner and lies in the organization, and the one record is an approval naming that
  tenant; when it is refused the one record is a denial.
\<close>

theorem authorizeMcpRemoteSession_tenant:
  assumes "scope_inv db" and "id_form (mint_id mo)"
    and "authorizeMcpRemoteSession db auth headers mo mw = (res, recs, db')"
  shows "\<exists>a. recs = [a] \<and> ar_transport a = MCP \<and> ar_identity a = au_identity auth \<and>
    (case res of
       Inl e \<Rightarrow> ar_decision a = Deny
     | Inr u \<Rightarrow> ar_decision a = Allow \<and> au_owner u = au_owner auth \<and> au_permissions u = au_permissions auth \<and>
         au_org u = Some (ar_org a) \<and> au_ws u = Some (ar_ws a) \<and>
         tenant_owned db' (au_owner auth) (ar_org a) (ar_ws a))"
proof (cases "headerPresent headers ''x-organization-id'' \<or> headerPresent headers ''x-workspace-id''")
  case True
  with assms(3) have run: "resolveAuthorizedTenantContext db auth headers MCP = (res, recs)" "db' = db"
    by (auto simp: authorizeMcpRemoteSession_def split: prod.splits)
  show ?thesis
  proof (cases "resolveTenantContext db auth headers")
    case (Inl e)
    with run show ?thesis by (auto simp: resolveAuthorizedTenantContext_def audit_auth_def)
  next
    case (Inr t)
    with run resolveTenantContext_Inr [OF Inr] show ?thesis
      by (auto simp: resolveAuthorizedTenantContext_def audit_auth_def attachTenantContextToAuthUser_def Let_def)
  qed
next
  case False
  show ?thesis
  proof (cases "ensureDefaultWorkspace db (au_owner auth) mo mw")
    case (Pair r d)
    show ?thesis
    proof (cases r)
      case (Inl e)
      with Pair False assms(3) show ?thesis by (auto simp: authorizeMcpRemoteSession_def audit_auth_def)
    next
      case (Inr x)
      obtain w c where x: "x = (w, c)" by fastforce
      show ?thesis
      proof (cases "ws_org w = []")
        case True
        with Pair Inr x False assms(3) show ?thesis
          by (auto simp: authorizeMcpRemoteSession_def audit_auth_def Let_def)
      next
        case ne: False
        from Pair Inr x have "ensureDefaultWorkspace db (au_owner auth) mo mw = (Inr (w, c), d)" by simp
        from findDefaultWorkspace_after [OF assms(1,2) this]
        have "findDefaultWorkspace d (au_owner auth) = Some w" by blast
        then have "tenant_owned d (au_owner auth) (ws_org w) (ws_id w)"
          by (auto simp: findDefaultWorkspace_def findWorkspaceBySlug_def in_organization_Some
              mapWorkspaceRowOrNull_Some tenant_owned_def dest!: sql_first_SomeD)
        with Pair Inr x False ne assms(3) show ?thesis
          by (auto simp: authorizeMcpRemoteSession_def audit_auth_def attachTenantContextToAuthUser_def Let_def)
      qed
    qed
  qed
qed

theorem authorizeMcpRemoteSession_tenant_witness:
  "\<exists>u recs db'. authorizeMcpRemoteSession (\<lparr>organizations = [], workspaces = []\<rparr> :: scope_db) sample_user
      (\<lambda>_. None) \<lparr>mint_id = ''m'', mint_now = ''t''\<rparr> \<lparr>mint_id = ''w'', mint_now = ''t''\<rparr> = (Inr u, recs, db') \<and>
    (\<exists>x w. au_org u = Some x \<and> au_ws u = Some w \<and> tenant_owned db' ''o'' x w)"
proof -
  let ?mo = "\<lparr>mint_id = ''m'', mint_now = ''t''\<rparr>"
  let ?run = "authorizeMcpRemoteSession (\<lparr>organizations = [], workspaces = []\<rparr> :: scope_db) sample_user
      (\<lambda>_. None) ?mo \<lparr>mint_id = ''w'', mint_now = ''t''\<rparr>"
  have form: "id_form (mint_id ?mo)" by code_simp
  have "\<not> isl (fst ?run)" by code_simp
  then obtain u where u: "fst ?run = Inr u" by (auto simp: isl_def intro: sum.exhaust [of "fst ?run"])
  then have run: "?run = (Inr u, fst (snd ?run), snd (snd ?run))" by (metis prod.collapse)
  have owner: "au_owner sample_user = ''o''" by (simp add: sample_user_def)
  from authorizeMcpRemoteSession_tenant [OF scope_inv_initial form run] have
    "\<exists>x w. au_org u = Some x \<and> au_ws u = Some w \<and> tenant_owned (snd (snd ?run)) ''o'' x w"
    unfolding owner by fastforce
  with run show ?thesis by blast
qed

end
