(* ===== verification/Memory_Store.thy ===== *)
theory Memory_Store
  imports Tenant_Context
begin

section \<open>The memory store\<close>

text \<open>
  The table \<open>memories\<close> and the statements of \<^verbatim>\<open>src/src/repositories/memory-writer.sql.ts\<close> and
  \<^verbatim>\<open>memory-reader.sql.ts\<close>, with the row mapping of \<^verbatim>\<open>src/src/utils/memory-mapper.ts\<close>. The JSON
  columns \<open>tags\<close>, \<open>keywords\<close> and \<open>aliases\<close>, which the code only writes with \<^verbatim>\<open>JSON.stringify\<close> of a
  string array, are kept as that array. \<open>LIKE\<close> is SQLite's: case-insensitive on ASCII. The text
  with which the driver reports a refused key is the parameter \<open>dup\<close>:
  \<open>UNIQUE constraint failed\<close> for SQLite and D1, \<open>duplicate key value violates unique
  constraint\<close> for Postgres.
\<close>

record memory =
  m_id :: string
  m_codename :: "string option"
  m_slug :: "string option"
  m_title :: string
  m_project :: string
  m_content :: string
  m_summary :: string
  m_keywords :: "string list"
  m_category :: string
  m_type :: string
  m_importance :: int
  m_language :: string
  m_notes :: string
  m_tags :: "string list"
  m_favorite :: bool
  m_archived :: bool
  m_owner :: string
  m_project_id :: string
  m_level :: string
  m_last_accessed :: "string option"
  m_access_count :: int
  m_embedding :: "string option"
  m_object_key :: "string option"
  m_semantic_hash :: "string option"
  m_lifecycle :: "string option"
  m_aliases :: "string list"
  m_source_path :: "string option"
  m_created :: string
  m_updated :: string

text \<open>The signals of \<^verbatim>\<open>memory/decay/decay-signals.ts\<close>; their column, a JSON text, is held decoded.\<close>

record decay_signals =
  dg_relevance :: real
  dg_recency :: real
  dg_reactivation :: real
  dg_connectivity :: real
  dg_importance :: real
  dg_protected :: bool

record memory_row = memory +
  mr_workspace :: "string option"
  mr_agent :: "string option"
  mr_compression_meta :: "string option"
  mr_compression_version :: "int option"
  mr_decay_score :: "real option"
  mr_decay_signals :: "decay_signals option"
  mr_decay_computed :: "string option"

definition MEMORY_LIFECYCLE_STATES :: "string list" where
  "MEMORY_LIFECYCLE_STATES =
     [''active'', ''dormant'', ''fading'', ''archived'', ''stale'', ''candidate_compress'']"

definition parseLifecycleState :: "string option \<Rightarrow> string option" where
  "parseLifecycleState v =
     (case truthy v of
        None \<Rightarrow> None | Some s \<Rightarrow> if s \<in> set MEMORY_LIFECYCLE_STATES then Some s else None)"

definition rowToMemory :: "memory_row \<Rightarrow> memory" where
  "rowToMemory r = (memory.truncate r)\<lparr>m_lifecycle := parseLifecycleState (m_lifecycle r)\<rparr>"

text \<open>The column list \<^verbatim>\<open>RETRIEVAL_MEMORY_SELECT\<close> reads \<open>'' as content\<close>.\<close>

definition rowToRetrieval :: "memory_row \<Rightarrow> memory" where
  "rowToRetrieval r = rowToMemory (r\<lparr>m_content := []\<rparr>)"

definition DEFAULT_MEMORY_LEVEL :: string where "DEFAULT_MEMORY_LEVEL = ''note''"
definition CODENAME_MAX_RETRIES :: nat where "CODENAME_MAX_RETRIES = 3"

record insert_memory_data =
  in_title :: string
  in_project :: string
  in_content :: string
  in_summary :: string
  in_tags :: "string list"
  in_keywords :: "string list"
  in_category :: string
  in_type :: string
  in_importance :: int
  in_language :: string
  in_notes :: string
  in_codename :: string
  in_slug :: string
  in_favorite :: bool
  in_archived :: "bool option"
  in_owner :: "string option"
  in_workspace :: "string option"
  in_id :: "string option"
  in_created :: "string option"
  in_updated :: "string option"
  in_project_id :: "string option"
  in_level :: "string option"
  in_semantic_hash :: "string option"
  in_access_count :: "int option"
  in_last_accessed :: "string option"
  in_agent :: "string option"
  in_aliases :: "string list option"
  in_source_path :: "string option"

record update_memory_data =
  up_title :: "string option"
  up_project :: "string option"
  up_content :: "string option"
  up_summary :: "string option"
  up_tags :: "string list option"
  up_keywords :: "string list option"
  up_category :: "string option"
  up_type :: "string option"
  up_importance :: "int option"
  up_language :: "string option"
  up_notes :: "string option"
  up_slug :: "string option"
  up_favorite :: "bool option"
  up_archived :: "bool option"
  up_project_id :: "string option"
  up_level :: "string option"
  up_agent :: "string option"
  up_aliases :: "string list option"
  up_source_path :: "string option option"

record memory_db =
  memories :: "memory_row list"

subsection \<open>Conditions\<close>

definition ascii_lower :: "char \<Rightarrow> char" where
  "ascii_lower c = (let n = (of_char c :: nat) in if 65 \<le> n \<and> n \<le> 90 then char_of (n + 32) else c)"

fun sql_like :: "string \<Rightarrow> string \<Rightarrow> bool" where
  "sql_like [] s = (s = [])"
| "sql_like (p # ps) [] = (p = CHR ''%'' \<and> sql_like ps [])"
| "sql_like (p # ps) (c # s) =
     (if p = CHR ''%'' then sql_like ps (c # s) \<or> sql_like (p # ps) s
      else (p = CHR ''_'' \<or> ascii_lower p = ascii_lower c) \<and> sql_like ps s)"

definition in_workspace_filter :: "string option \<Rightarrow> memory_row \<Rightarrow> bool" where
  "in_workspace_filter workspaceId r \<longleftrightarrow>
     (case truthy workspaceId of None \<Rightarrow> True | Some w \<Rightarrow> mr_workspace r = Some w)"

definition workspaceIdFromScope :: "memory_scope \<Rightarrow> string option" where
  "workspaceIdFromScope scope = truthy (map_option js_trim (ms_workspace scope))"

text \<open>\<open>owner_id = ?\<close> and the optional workspace filter: the boundary of every scoped statement.\<close>

definition visible :: "string \<Rightarrow> string option \<Rightarrow> memory_row \<Rightarrow> bool" where
  "visible ownerId workspaceId r \<longleftrightarrow> m_owner r = ownerId \<and> in_workspace_filter workspaceId r"

definition memory_hit :: "string \<Rightarrow> string \<Rightarrow> string option \<Rightarrow> memory_row \<Rightarrow> bool" where
  "memory_hit i ownerId workspaceId r \<longleftrightarrow> m_id r = i \<and> visible ownerId workspaceId r"

text \<open>Primary key and the three partial unique indexes per owner.\<close>

definition memory_clash :: "memory_row \<Rightarrow> memory_row \<Rightarrow> bool" where
  "memory_clash r s \<longleftrightarrow>
     m_id r = m_id s \<or>
     (m_owner r = m_owner s \<and>
       ((m_codename r \<noteq> None \<and> m_codename r = m_codename s) \<or>
        (m_slug r \<noteq> None \<and> m_slug r = m_slug s) \<or>
        (m_source_path r \<noteq> None \<and> m_source_path r = m_source_path s)))"

interpretation memory_ids: keyed_table m_id memory_clash
  by unfold_locales (simp add: memory_clash_def)

subsection \<open>Single rows\<close>

definition findById :: "'a memory_db_scheme \<Rightarrow> string \<Rightarrow> string \<Rightarrow> string option \<Rightarrow> memory option" where
  "findById db i ownerId workspaceId =
     map_option rowToRetrieval (sql_first (memory_hit i ownerId workspaceId) (memories db))"

definition findByIds :: "'a memory_db_scheme \<Rightarrow> string list \<Rightarrow> string \<Rightarrow> string option \<Rightarrow> memory list" where
  "findByIds db ids ownerId workspaceId =
     map rowToRetrieval (sql_select (\<lambda>r. m_id r \<in> set ids \<and> visible ownerId workspaceId r) (memories db))"

definition findByIdsWithContent ::
  "'a memory_db_scheme \<Rightarrow> string list \<Rightarrow> string \<Rightarrow> string option \<Rightarrow> memory list" where
  "findByIdsWithContent db ids ownerId workspaceId =
     map rowToMemory (sql_select (\<lambda>r. m_id r \<in> set ids \<and> visible ownerId workspaceId r) (memories db))"

definition findByCodename :: "'a memory_db_scheme \<Rightarrow> string \<Rightarrow> string \<Rightarrow> string option \<Rightarrow> memory option" where
  "findByCodename db ownerId codename workspaceId =
     map_option rowToMemory
       (sql_first (\<lambda>r. m_codename r = Some codename \<and> visible ownerId workspaceId r) (memories db))"

definition findBySlug :: "'a memory_db_scheme \<Rightarrow> string \<Rightarrow> string \<Rightarrow> string option \<Rightarrow> memory option" where
  "findBySlug db ownerId slug workspaceId =
     map_option rowToMemory
       (sql_first (\<lambda>r. m_slug r = Some slug \<and> visible ownerId workspaceId r) (memories db))"

definition forward_slashes :: "string \<Rightarrow> string" where
  "forward_slashes s = map (\<lambda>c. if c = CHR 0x5C then CHR ''/'' else c) s"

definition findBySourcePath :: "'a memory_db_scheme \<Rightarrow> string \<Rightarrow> string \<Rightarrow> string option \<Rightarrow> memory option" where
  "findBySourcePath db ownerId path workspaceId =
     map_option rowToMemory
       (sql_first (\<lambda>r. m_source_path r = Some (forward_slashes path) \<and> visible ownerId workspaceId r)
         (memories db))"

definition slugExists :: "'a memory_db_scheme \<Rightarrow> string \<Rightarrow> string \<Rightarrow> string option \<Rightarrow> bool" where
  "slugExists db ownerId slug excludeSlug =
     (if truthy excludeSlug = Some slug then False
      else 0 < sql_count (\<lambda>r. m_owner r = ownerId \<and> m_slug r = Some slug) (memories db))"

subsection \<open>Codenames\<close>

fun memory_type_of :: "string \<Rightarrow> memory_type option" where
  "memory_type_of s =
     (if s = ''note'' then Some Note else if s = ''prompt'' then Some Prompt
      else if s = ''code'' then Some CodeType else if s = ''architecture'' then Some Architecture
      else if s = ''task'' then Some Task else if s = ''meeting'' then Some Meeting
      else if s = ''research'' then Some Research else if s = ''documentation'' then Some Documentation
      else if s = ''api'' then Some Api else if s = ''config'' then Some Config else None)"

declare memory_type_of.simps [simp del]

definition allocateCodename :: "'a memory_db_scheme \<Rightarrow> string \<Rightarrow> string \<Rightarrow> string" where
  "allocateCodename db ownerId prefix =
     (let rows = order_desc (\<lambda>r. nullish (m_codename r) [])
                   (sql_select (\<lambda>r. m_owner r = ownerId \<and>
                       (case m_codename r of None \<Rightarrow> False
                        | Some c \<Rightarrow> sql_like (js_upper prefix @ ''-%'') c)) (memories db));
          lastSeq = (case rows of [] \<Rightarrow> 0
                     | r # _ \<Rightarrow> (case truthy (m_codename r) of
                                 Some c \<Rightarrow> parseCodenameSequence c prefix | None \<Rightarrow> 0))
      in formatCodename prefix (lastSeq + 1))"

subsection \<open>Insertion\<close>

definition insert_row :: "insert_memory_data \<Rightarrow> mint \<Rightarrow> memory_row" where
  "insert_row data m =
     (let now = nullish (in_created data) (mint_now m) in
      \<lparr>m_id = nullish (in_id data) (mint_id m), m_codename = Some (in_codename data),
       m_slug = Some (in_slug data), m_title = in_title data, m_project = in_project data,
       m_content = in_content data, m_summary = in_summary data, m_keywords = in_keywords data,
       m_category = in_category data, m_type = in_type data, m_importance = in_importance data,
       m_language = in_language data, m_notes = in_notes data, m_tags = in_tags data,
       m_favorite = in_favorite data, m_archived = nullish (in_archived data) False,
       m_owner = nullish (in_owner data) [],
       m_project_id = nullish (in_project_id data) (slugify (in_project data)),
       m_level = nullish (in_level data) DEFAULT_MEMORY_LEVEL,
       m_last_accessed = in_last_accessed data, m_access_count = nullish (in_access_count data) 0,
       m_embedding = None, m_object_key = None, m_semantic_hash = in_semantic_hash data,
       m_lifecycle = None, m_aliases = nullish (in_aliases data) [],
       m_source_path = in_source_path data, m_created = now,
       m_updated = nullish (in_updated data) now,
       mr_workspace = in_workspace data, mr_agent = in_agent data, mr_compression_meta = None,
       mr_compression_version = None, mr_decay_score = None, mr_decay_signals = None,
       mr_decay_computed = None\<rparr>)"

text \<open>The prefix of a retry; an unknown type is not in the prefix table, and its lookup throws.\<close>

definition retry_prefix :: "insert_memory_data \<Rightarrow> string option" where
  "retry_prefix data =
     (if in_type data = []
      then Some (resolveCodenamePrefix None (Some (in_category data)) (Some (in_project data)))
      else map_option (\<lambda>t. resolveCodenamePrefix (Some t) (Some (in_category data)) (Some (in_project data)))
             (memory_type_of (in_type data)))"

text \<open>
  The loop over the attempts, the argument counting those left. The first attempt uses the
  codename of the caller, later ones a newly allocated one.
\<close>

fun insert_attempts ::
  "string \<Rightarrow> 'a memory_db_scheme \<Rightarrow> insert_memory_data \<Rightarrow> memory_row \<Rightarrow> nat
     \<Rightarrow> (app_error + memory) \<times> 'a memory_db_scheme" where
  "insert_attempts dup db data row 0 =
     (Inl (DatabaseError ''Failed to insert memory after codename retries''), db)"
| "insert_attempts dup db data row (Suc left) =
     (case (if Suc left = CODENAME_MAX_RETRIES then Some (in_codename data)
            else map_option (allocateCodename db (m_owner row)) (retry_prefix data)) of
        None \<Rightarrow> (Inl (PlainError ''Cannot read properties of undefined''), db)
      | Some codename \<Rightarrow>
          (case sql_insert memory_clash (row\<lparr>m_codename := Some codename\<rparr>) (memories db) of
             Inl _ \<Rightarrow>
               if js_includes dup ''UNIQUE'' \<and> 0 < left
               then insert_attempts dup db data row left
               else (Inl (PlainError dup), db)
           | Inr t \<Rightarrow>
               let db' = db\<lparr>memories := t\<rparr>
               in (case findById db' (m_id row) (m_owner row) (in_workspace data) of
                     None \<Rightarrow> (Inl (DatabaseError ''Failed to retrieve inserted memory''), db')
                   | Some mem \<Rightarrow> (Inr mem, db'))))"

definition insertMemory ::
  "string \<Rightarrow> 'a memory_db_scheme \<Rightarrow> insert_memory_data \<Rightarrow> mint
     \<Rightarrow> (app_error + memory) \<times> 'a memory_db_scheme" where
  "insertMemory dup db data m = insert_attempts dup db data (insert_row data m) CODENAME_MAX_RETRIES"

subsection \<open>Updates\<close>

definition put_memory :: "memory_row list \<Rightarrow> 'a memory_db_scheme \<Rightarrow> 'a memory_db_scheme" where
  "put_memory t db = db\<lparr>memories := t\<rparr>"

text \<open>
  A write to the rows a condition selects; one that breaks a unique index is refused as a whole.
\<close>

definition unique_rows :: "memory_row list \<Rightarrow> bool" where
  "unique_rows t \<longleftrightarrow> sorted_wrt (\<lambda>r s. \<not> memory_clash s r) t"

definition write_rows ::
  "string \<Rightarrow> 'a memory_db_scheme \<Rightarrow> (memory_row \<Rightarrow> bool) \<Rightarrow> (memory_row \<Rightarrow> memory_row)
     \<Rightarrow> app_error + 'a memory_db_scheme" where
  "write_rows dup db p f =
     (let t = sql_update p f (memories db)
      in if unique_rows t then Inr (put_memory t db) else Inl (PlainError dup))"

text \<open>The merged object of \<^verbatim>\<open>update\<close>, and the columns its statement writes from it.\<close>

definition merge_update :: "memory \<Rightarrow> update_memory_data \<Rightarrow> string \<Rightarrow> memory" where
  "merge_update existing data now =
     existing\<lparr>m_title := nullish (up_title data) (m_title existing),
       m_project := nullish (up_project data) (m_project existing),
       m_project_id := (case up_project_id data of Some p \<Rightarrow> p
          | None \<Rightarrow> (case up_project data of Some p \<Rightarrow> slugify p | None \<Rightarrow> m_project_id existing)),
       m_content := nullish (up_content data) (m_content existing),
       m_summary := nullish (up_summary data) (m_summary existing),
       m_tags := nullish (up_tags data) (m_tags existing),
       m_keywords := nullish (up_keywords data) (m_keywords existing),
       m_category := nullish (up_category data) (m_category existing),
       m_type := nullish (up_type data) (m_type existing),
       m_importance := nullish (up_importance data) (m_importance existing),
       m_language := nullish (up_language data) (m_language existing),
       m_notes := nullish (up_notes data) (m_notes existing),
       m_slug := (case up_slug data of Some s \<Rightarrow> Some s | None \<Rightarrow> m_slug existing),
       m_aliases := nullish (up_aliases data) (m_aliases existing),
       m_source_path := nullish (up_source_path data) (m_source_path existing),
       m_level := nullish (up_level data) (m_level existing),
       m_favorite := nullish (up_favorite data) (m_favorite existing),
       m_archived := nullish (up_archived data) (m_archived existing),
       m_updated := now\<rparr>"

definition written_columns :: "memory \<Rightarrow> string option \<Rightarrow> memory_row \<Rightarrow> memory_row" where
  "written_columns u agent r =
     r\<lparr>m_title := m_title u, m_project := m_project u, m_content := m_content u,
       m_summary := m_summary u, m_tags := m_tags u, m_keywords := m_keywords u,
       m_category := m_category u, m_type := m_type u, m_importance := m_importance u,
       m_language := m_language u, m_notes := m_notes u, m_slug := m_slug u,
       m_aliases := m_aliases u, m_source_path := m_source_path u, m_project_id := m_project_id u,
       m_level := m_level u, m_favorite := m_favorite u, m_archived := m_archived u,
       m_updated := m_updated u, mr_agent := agent\<rparr>"

definition updateMemoryRow ::
  "string \<Rightarrow> 'a memory_db_scheme \<Rightarrow> string \<Rightarrow> string \<Rightarrow> update_memory_data \<Rightarrow> string option \<Rightarrow> string
     \<Rightarrow> (app_error + memory option) \<times> 'a memory_db_scheme" where
  "updateMemoryRow dup db i ownerId data workspaceId now =
     (case findById db i ownerId workspaceId of
        None \<Rightarrow> (Inr None, db)
      | Some existing \<Rightarrow>
          let updated = merge_update existing data now
          in (case write_rows dup db (memory_hit i ownerId workspaceId)
                     (written_columns updated (up_agent data)) of
                Inl e \<Rightarrow> (Inl e, db)
              | Inr db' \<Rightarrow> (Inr (Some updated), db')))"

definition deleteMemoryRow ::
  "'a memory_db_scheme \<Rightarrow> string \<Rightarrow> string \<Rightarrow> string option \<Rightarrow> bool \<times> 'a memory_db_scheme" where
  "deleteMemoryRow db i ownerId workspaceId =
     (0 < sql_count (memory_hit i ownerId workspaceId) (memories db),
      put_memory (sql_delete (memory_hit i ownerId workspaceId) (memories db)) db)"

text \<open>
  The writers that find a row, change columns outside every index, and answer with the object
  they read, changed the same way.
\<close>

definition touch_row ::
  "'a memory_db_scheme \<Rightarrow> string \<Rightarrow> string \<Rightarrow> string option \<Rightarrow> (memory \<Rightarrow> memory_row \<Rightarrow> memory_row)
     \<Rightarrow> (memory \<Rightarrow> memory) \<Rightarrow> memory option \<times> 'a memory_db_scheme" where
  "touch_row db i ownerId workspaceId write answer =
     (case findById db i ownerId workspaceId of
        None \<Rightarrow> (None, db)
      | Some existing \<Rightarrow>
          (Some (answer existing),
           put_memory (sql_update (memory_hit i ownerId workspaceId) (write existing) (memories db)) db))"

definition toggleFavorite ::
  "'a memory_db_scheme \<Rightarrow> string \<Rightarrow> string \<Rightarrow> string option \<Rightarrow> string
     \<Rightarrow> memory option \<times> 'a memory_db_scheme" where
  "toggleFavorite db i ownerId workspaceId now =
     touch_row db i ownerId workspaceId
       (\<lambda>e r. r\<lparr>m_favorite := \<not> m_favorite e, m_updated := now\<rparr>)
       (\<lambda>e. e\<lparr>m_favorite := \<not> m_favorite e, m_updated := now\<rparr>)"

definition archive ::
  "'a memory_db_scheme \<Rightarrow> string \<Rightarrow> string \<Rightarrow> bool \<Rightarrow> string option \<Rightarrow> string
     \<Rightarrow> memory option \<times> 'a memory_db_scheme" where
  "archive db i ownerId archived workspaceId now =
     touch_row db i ownerId workspaceId
       (\<lambda>e r. r\<lparr>m_archived := archived, m_updated := now\<rparr>)
       (\<lambda>e. e\<lparr>m_archived := archived, m_updated := now\<rparr>)"

definition bumpImportance ::
  "'a memory_db_scheme \<Rightarrow> string \<Rightarrow> string \<Rightarrow> int \<Rightarrow> string option \<Rightarrow> string
     \<Rightarrow> memory option \<times> 'a memory_db_scheme" where
  "bumpImportance db i ownerId importance workspaceId now =
     touch_row db i ownerId workspaceId
       (\<lambda>e r. r\<lparr>m_importance := importance, m_updated := now\<rparr>)
       (\<lambda>e. e\<lparr>m_importance := importance, m_updated := now\<rparr>)"

definition setLifecycleState ::
  "'a memory_db_scheme \<Rightarrow> string \<Rightarrow> string \<Rightarrow> string \<Rightarrow> string option \<Rightarrow> string
     \<Rightarrow> memory option \<times> 'a memory_db_scheme" where
  "setLifecycleState db i ownerId state workspaceId now =
     touch_row db i ownerId workspaceId
       (\<lambda>e r. r\<lparr>m_lifecycle := Some state, m_updated := now\<rparr>)
       (\<lambda>e. e\<lparr>m_lifecycle := Some state, m_updated := now\<rparr>)"

definition deleteAllByOwner :: "'a memory_db_scheme \<Rightarrow> string \<Rightarrow> string option \<Rightarrow> 'a memory_db_scheme" where
  "deleteAllByOwner db ownerId workspaceId =
     put_memory (sql_delete (visible ownerId workspaceId) (memories db)) db"

definition recordAccessBatch ::
  "'a memory_db_scheme \<Rightarrow> string list \<Rightarrow> string \<Rightarrow> string option \<Rightarrow> string \<Rightarrow> 'a memory_db_scheme" where
  "recordAccessBatch db ids ownerId workspaceId now =
     (if ids = [] then db
      else put_memory (sql_update (\<lambda>r. m_id r \<in> set ids \<and> visible ownerId workspaceId r)
             (\<lambda>r. r\<lparr>m_last_accessed := Some now, m_access_count := m_access_count r + 1\<rparr>)
             (memories db)) db)"

definition recordAccess ::
  "'a memory_db_scheme \<Rightarrow> string \<Rightarrow> string \<Rightarrow> string option \<Rightarrow> string \<Rightarrow> 'a memory_db_scheme" where
  "recordAccess db i ownerId workspaceId now = recordAccessBatch db [i] ownerId workspaceId now"

record backfill_data =
  bf_codename :: string
  bf_slug :: string
  bf_summary :: string
  bf_keywords :: "string list"
  bf_category :: string
  bf_type :: string
  bf_importance :: int
  bf_language :: string
  bf_notes :: string

definition applyKnowledgeBackfill ::
  "string \<Rightarrow> 'a memory_db_scheme \<Rightarrow> string \<Rightarrow> string \<Rightarrow> backfill_data \<Rightarrow> string
     \<Rightarrow> app_error + 'a memory_db_scheme" where
  "applyKnowledgeBackfill dup db i ownerId data now =
     write_rows dup db (memory_hit i ownerId None)
       (\<lambda>r. r\<lparr>m_codename := Some (bf_codename data), m_slug := Some (bf_slug data),
             m_summary := bf_summary data, m_keywords := bf_keywords data,
             m_category := bf_category data, m_type := bf_type data,
             m_importance := bf_importance data, m_language := bf_language data,
             m_notes := bf_notes data, m_updated := now\<rparr>)"

definition applyMemoryIntelligenceBackfill ::
  "'a memory_db_scheme \<Rightarrow> string \<Rightarrow> string \<Rightarrow> string \<Rightarrow> string \<Rightarrow> string \<Rightarrow> string
     \<Rightarrow> 'a memory_db_scheme" where
  "applyMemoryIntelligenceBackfill db i ownerId projectId level semanticHash now =
     put_memory (sql_update (memory_hit i ownerId None)
       (\<lambda>r. r\<lparr>m_project_id := projectId, m_level := level, m_semantic_hash := Some semanticHash,
             m_updated := now\<rparr>) (memories db)) db"

definition applyEmbeddingBackfill ::
  "'a memory_db_scheme \<Rightarrow> string \<Rightarrow> string \<Rightarrow> string \<Rightarrow> 'a memory_db_scheme" where
  "applyEmbeddingBackfill db i ownerId embeddingId =
     put_memory (sql_update (memory_hit i ownerId None)
       (\<lambda>r. r\<lparr>m_embedding := Some embeddingId\<rparr>) (memories db)) db"

definition applyCompressionMetadata ::
  "'a memory_db_scheme \<Rightarrow> string \<Rightarrow> string \<Rightarrow> string \<Rightarrow> int \<Rightarrow> string option \<Rightarrow> string
     \<Rightarrow> 'a memory_db_scheme" where
  "applyCompressionMetadata db i ownerId metadata version workspaceId now =
     put_memory (sql_update (memory_hit i ownerId workspaceId)
       (\<lambda>r. r\<lparr>mr_compression_meta := Some metadata, mr_compression_version := Some version,
             m_updated := now\<rparr>) (memories db)) db"

record decay_result =
  dr_score :: real
  dr_signals :: decay_signals
  dr_computed :: string
  dr_state :: string

definition applyDecayResult ::
  "'a memory_db_scheme \<Rightarrow> string \<Rightarrow> string \<Rightarrow> decay_result \<Rightarrow> string option \<Rightarrow> 'a memory_db_scheme" where
  "applyDecayResult db i ownerId data workspaceId =
     put_memory (sql_update (memory_hit i ownerId workspaceId)
       (\<lambda>r. r\<lparr>mr_decay_score := Some (dr_score data), mr_decay_signals := Some (dr_signals data),
             mr_decay_computed := Some (dr_computed data), m_lifecycle := Some (dr_state data),
             m_archived := (if dr_state data = ''archived'' then True else m_archived r)\<rparr>)
       (memories db)) db"

end
