(* ===== verification/Memory_Laws.thy ===== *)
theory Memory_Laws
  imports Memory_Store
begin

section \<open>Laws of the memory store\<close>

text \<open>
  What the statements of \<open>Memory_Store\<close> keep and deliver: isolation of owners, the unique keys,
  what an insertion and an update leave in the table, and the allocation of codenames.
\<close>

named_theorems store_ops \<open>the definitions of the writers\<close>

declare updateMemoryRow_def [store_ops] deleteMemoryRow_def [store_ops] touch_row_def [store_ops]
  toggleFavorite_def [store_ops] archive_def [store_ops] bumpImportance_def [store_ops]
  setLifecycleState_def [store_ops] deleteAllByOwner_def [store_ops] recordAccessBatch_def [store_ops]
  recordAccess_def [store_ops] applyKnowledgeBackfill_def [store_ops]
  applyMemoryIntelligenceBackfill_def [store_ops] applyEmbeddingBackfill_def [store_ops]
  applyCompressionMetadata_def [store_ops] applyDecayResult_def [store_ops] write_rows_def [store_ops]
  put_memory_def [store_ops]

text \<open>Every writer, with the owner on whose behalf it runs; a refused write leaves the table.\<close>

inductive memory_step :: "string \<Rightarrow> memory_db \<Rightarrow> memory_db \<Rightarrow> bool" for ownerId :: string where
  insert: "in_owner data = Some ownerId \<Longrightarrow> memory_step ownerId db (snd (insertMemory dup db data m))"
| update: "memory_step ownerId db (snd (updateMemoryRow dup db i ownerId data w now))"
| delete: "memory_step ownerId db (snd (deleteMemoryRow db i ownerId w))"
| favorite: "memory_step ownerId db (snd (toggleFavorite db i ownerId w now))"
| archive: "memory_step ownerId db (snd (archive db i ownerId a w now))"
| importance: "memory_step ownerId db (snd (bumpImportance db i ownerId n w now))"
| lifecycle: "memory_step ownerId db (snd (setLifecycleState db i ownerId st w now))"
| delete_all: "memory_step ownerId db (deleteAllByOwner db ownerId w)"
| access: "memory_step ownerId db (recordAccessBatch db ids ownerId w now)"
| backfill: "applyKnowledgeBackfill dup db i ownerId b now = Inr db' \<Longrightarrow> memory_step ownerId db db'"
| intelligence: "memory_step ownerId db (applyMemoryIntelligenceBackfill db i ownerId p l h now)"
| embedding: "memory_step ownerId db (applyEmbeddingBackfill db i ownerId e)"
| compression: "memory_step ownerId db (applyCompressionMetadata db i ownerId meta v w now)"
| decay: "memory_step ownerId db (applyDecayResult db i ownerId d w)"

subsection \<open>Insertion\<close>

lemma insert_attempts_cases:
  assumes "insert_attempts dup db data row n = (res, db')"
  shows "(db' = db \<and> (\<exists>e. res = Inl e)) \<or>
    (\<exists>c. (\<forall>s \<in> set (memories db). \<not> memory_clash (row\<lparr>m_codename := Some c\<rparr>) s) \<and>
      db' = db\<lparr>memories := memories db @ [row\<lparr>m_codename := Some c\<rparr>]\<rparr> \<and>
      (res = Inl (DatabaseError ''Failed to retrieve inserted memory'') \<or>
       (\<exists>mem. res = Inr mem \<and> findById db' (m_id row) (m_owner row) (in_workspace data) = Some mem)))"
  using assms
proof (induction n)
  case 0
  then show ?case by auto
next
  case (Suc n)
  show ?case
  proof (cases "if Suc n = CODENAME_MAX_RETRIES then Some (in_codename data)
      else map_option (allocateCodename db (m_owner row)) (retry_prefix data)")
    case None
    with Suc.prems show ?thesis by (simp only: insert_attempts.simps) auto
  next
    case (Some c)
    let ?row = "row\<lparr>m_codename := Some c\<rparr>"
    from Some Suc.prems have run: "(case sql_insert memory_clash ?row (memories db) of
             Inl e \<Rightarrow> if js_includes dup ''UNIQUE'' \<and> 0 < n then insert_attempts dup db data row n
                    else (Inl (PlainError dup), db)
           | Inr t \<Rightarrow> let db' = db\<lparr>memories := t\<rparr>
               in (case findById db' (m_id row) (m_owner row) (in_workspace data) of
                     None \<Rightarrow> (Inl (DatabaseError ''Failed to retrieve inserted memory''), db')
                   | Some mem \<Rightarrow> (Inr mem, db'))) = (res, db')"
      by (simp only: insert_attempts.simps option.case)
    show ?thesis
    proof (cases "sql_insert memory_clash ?row (memories db)")
      case (Inl e)
      with run Suc.IH show ?thesis by (auto split: if_splits)
    next
      case (Inr t)
      with run have "(\<forall>s \<in> set (memories db). \<not> memory_clash ?row s) \<and>
          db' = db\<lparr>memories := memories db @ [?row]\<rparr> \<and>
          (res = Inl (DatabaseError ''Failed to retrieve inserted memory'') \<or>
           (\<exists>mem. res = Inr mem \<and> findById db' (m_id row) (m_owner row) (in_workspace data) = Some mem))"
        by (auto simp: Let_def split: option.splits)
      then show ?thesis by blast
    qed
  qed
qed

lemma insertMemory_cases:
  assumes "insertMemory dup db data m = (res, db')"
  obtains (refused) e where "db' = db" "res = Inl e"
  | (inserted) r c where "r = (insert_row data m)\<lparr>m_codename := Some c\<rparr>"
      "\<forall>s \<in> set (memories db). \<not> memory_clash r s" "db' = db\<lparr>memories := memories db @ [r]\<rparr>"
      "res = Inl (DatabaseError ''Failed to retrieve inserted memory'') \<or>
       (\<exists>mem. res = Inr mem \<and> findById db' (m_id r) (m_owner r) (in_workspace data) = Some mem)"
  using insert_attempts_cases [OF assms [unfolded insertMemory_def]] by fastforce

subsection \<open>Owners are isolated\<close>

definition others :: "string \<Rightarrow> 'a memory_db_scheme \<Rightarrow> memory_row list" where
  "others ownerId db = filter (\<lambda>r. m_owner r \<noteq> ownerId) (memories db)"

lemma memory_hit_owner: "memory_hit i o' w r \<Longrightarrow> m_owner r = o'"
  by (simp add: memory_hit_def visible_def)

lemma visible_owner: "visible o' w r \<Longrightarrow> m_owner r = o'"
  by (simp add: visible_def)

lemmas owner_simps = memory_hit_owner visible_owner written_columns_def

lemma others_insert:
  assumes "in_owner data = Some o'"
  shows "others o' (snd (insertMemory dup db data m)) = others o' db"
proof -
  obtain res db' where run: "insertMemory dup db data m = (res, db')" by fastforce
  then show ?thesis
    by (cases rule: insertMemory_cases) (auto simp: run others_def insert_row_def Let_def assms)
qed

lemma memory_step_others: "memory_step o' db db' \<Longrightarrow> others o' db' = others o' db"
proof (induction rule: memory_step.induct)
  case (insert data db dup m)
  then show ?case by (rule others_insert)
next
  case (access db ids w now)
  show ?case
    by (auto simp: store_ops others_def dest: visible_owner intro!: filter_sql_update)
qed (auto simp: store_ops others_def Let_def owner_simps filter_sql_update filter_sql_delete
      split: option.splits sum.splits if_splits)

text \<open>
  C4: owners are isolated in the memory table. Whatever sequence of writes runs on behalf of one owner
  (inserts, updates, deletions, bulk deletion, access records, backfills, decay), the rows of every
  other owner stay exactly as they were, in the same order; so whatever any lookup returned to
  another owner before, it returns after.
\<close>

theorem memory_owners_isolated:
  assumes "(memory_step o')\<^sup>*\<^sup>* db db'" and "other \<noteq> o'"
  shows "filter (\<lambda>r. m_owner r = other) (memories db') = filter (\<lambda>r. m_owner r = other) (memories db) \<and>
    findById db' i other w = findById db i other w \<and>
    findByIdsWithContent db' ids other w = findByIdsWithContent db ids other w \<and>
    findByCodename db' other c w = findByCodename db other c w"
proof -
  from assms(1) have o: "others o' db' = others o' db"
    by (induction rule: rtranclp_induct) (auto simp: memory_step_others)
  have sel: "filter p (memories d) = filter p (others o' d)" if "\<And>r. p r \<Longrightarrow> m_owner r = other"
    for p and d :: memory_db
    using that assms(2) by (auto simp: others_def intro!: filter_cong)
  have same: "filter p (memories db') = filter p (memories db)" if "\<And>r. p r \<Longrightarrow> m_owner r = other" for p
    using sel [OF that] o by simp
  have first: "sql_first p (memories db') = sql_first p (memories db)"
    if "\<And>r. p r \<Longrightarrow> m_owner r = other" for p
  proof -
    have "sql_first p t = (case filter p t of [] \<Rightarrow> None | r # _ \<Rightarrow> Some r)" for t
      by (induction t) (auto simp: sql_first_Cons)
    then show ?thesis using same [OF that] by simp
  qed
  show ?thesis
    by (simp add: same findById_def findByIdsWithContent_def findByCodename_def sql_select_def)
       (intro conjI first arg_cong [where f = "map_option _"] arg_cong [where f = "map _"] same;
        auto simp: owner_simps)
qed

subsection \<open>Unique keys\<close>

lemma unique_rows_append:
  "unique_rows t \<Longrightarrow> \<forall>s \<in> set t. \<not> memory_clash r s \<Longrightarrow> unique_rows (t @ [r])"
  by (simp add: unique_rows_def sorted_wrt_append)

lemma unique_rows_delete: "unique_rows t \<Longrightarrow> unique_rows (sql_delete p t)"
  by (simp add: unique_rows_def sorted_wrt_sql_delete)

text \<open>Columns outside the indexes can change freely.\<close>

lemma unique_rows_update:
  assumes "unique_rows t"
    and "\<And>r. m_id (f r) = m_id r \<and> m_owner (f r) = m_owner r \<and> m_codename (f r) = m_codename r \<and>
      m_slug (f r) = m_slug r \<and> m_source_path (f r) = m_source_path r"
  shows "unique_rows (sql_update p f t)"
  using assms(1) unfolding unique_rows_def
  by (rule sorted_wrt_sql_update) (auto simp: memory_clash_def assms(2))

lemma memory_step_unique:
  "memory_step o' db db' \<Longrightarrow> unique_rows (memories db) \<Longrightarrow> unique_rows (memories db')"
proof (induction rule: memory_step.induct)
  case (insert data db dup m)
  obtain res db' where run: "insertMemory dup db data m = (res, db')" by fastforce
  then show ?case
    by (cases rule: insertMemory_cases) (use insert in \<open>auto simp: run unique_rows_append\<close>)
qed (auto simp: store_ops Let_def intro: unique_rows_delete unique_rows_update
      split: option.splits sum.splits if_splits)


subsection \<open>What an insertion stores\<close>

lemma sql_first_append_new:
  assumes "\<forall>s \<in> set t. \<not> p s" and "p r"
  shows "sql_first p (t @ [r]) = Some r"
proof -
  have "sql_first p t = None" using assms(1) by simp
  then show ?thesis using assms(2) by (simp add: sql_first_append sql_first_Cons del: sql_first_None)
qed

text \<open>
  A memory that was inserted is in the table with exactly what the caller asked for: one new row,
  after all others, that carries the given title, content, tags, owner, workspace and level, the
  slug as given, and a codename no row of the owner had. The object the call returns agrees with
  that row in every field but one: its content is always empty.
\<close>

theorem insertMemory_stores:
  assumes "insertMemory dup db data m = (Inr mem, db')"
  shows "\<exists>r. memories db' = memories db @ [r] \<and> rowToMemory r = mem\<lparr>m_content := in_content data\<rparr> \<and>
    m_content mem = [] \<and> m_title r = in_title data \<and> m_tags r = in_tags data \<and>
    m_owner r = nullish (in_owner data) [] \<and> mr_workspace r = in_workspace data \<and>
    m_level r = nullish (in_level data) DEFAULT_MEMORY_LEVEL \<and> m_slug r = Some (in_slug data) \<and>
    (\<forall>s \<in> set (memories db). m_owner s = m_owner r \<longrightarrow> m_codename s \<noteq> m_codename r)"
  using assms
proof (cases rule: insertMemory_cases)
  case (refused e)
  then show ?thesis by simp
next
  case (inserted r c)
  then have found: "findById db' (m_id r) (m_owner r) (in_workspace data) = Some mem" by auto
  have ws: "mr_workspace r = in_workspace data" by (simp add: inserted(1) insert_row_def Let_def)
  have "sql_first (memory_hit (m_id r) (m_owner r) (in_workspace data)) (memories db @ [r]) = Some r"
    using inserted(2) ws
    by (intro sql_first_append_new)
       (auto simp: memory_hit_def memory_clash_def visible_def in_workspace_filter_def truthy_iffs
         split: option.splits)
  with found inserted(3) have mem: "mem = rowToRetrieval r" by (simp add: findById_def)
  have "m_content r = in_content data" by (simp add: inserted(1) insert_row_def Let_def)
  then have "rowToMemory r = mem\<lparr>m_content := in_content data\<rparr>"
    by (cases r) (simp add: mem rowToRetrieval_def rowToMemory_def memory.defs)
  moreover have "\<forall>s \<in> set (memories db). m_owner s = m_owner r \<longrightarrow> m_codename s \<noteq> m_codename r"
    using inserted(2) by (auto simp: memory_clash_def inserted(1))
  ultimately show ?thesis using inserted ws
    by (intro exI [of _ r])
       (simp add: mem rowToRetrieval_def rowToMemory_def memory.defs insert_row_def Let_def)
qed

subsection \<open>Updates\<close>

lemma memory_hit_written [simp]: "memory_hit i o' w (written_columns u a r) = memory_hit i o' w r"
  by (simp add: memory_hit_def visible_def in_workspace_filter_def written_columns_def split: option.splits)

text \<open>
  An update writes the content it is given, but one that gives no content erases the stored one.
  \<^verbatim>\<open>update\<close> fills missing fields from the memory it read, and it reads with the column list that
  replaces content by the empty string; so after any update without content (a new title, a
  changed tag) the row's content is empty.
\<close>

theorem update_without_content_erases_it:
  assumes "updateMemoryRow dup db i ownerId data w now = (Inr (Some u), db')"
    and "r \<in> set (memories db')" and "memory_hit i ownerId w r"
  shows "m_content r = nullish (up_content data) [] \<and> m_title r = m_title u \<and> m_updated r = now"
proof -
  from assms(1) obtain e where e: "findById db i ownerId w = Some e"
    and u: "u = merge_update e data now"
    and rows: "memories db' = sql_update (memory_hit i ownerId w) (written_columns u (up_agent data)) (memories db)"
    by (auto simp: updateMemoryRow_def write_rows_def put_memory_def Let_def
        split: option.splits sum.splits if_splits)
  from e have "m_content e = []"
    by (auto simp: findById_def rowToRetrieval_def rowToMemory_def memory.defs)
  moreover from assms(2,3) obtain s where "r = written_columns u (up_agent data) s"
    by (auto simp: rows set_sql_update split: if_splits)
  ultimately show ?thesis by (simp add: written_columns_def u merge_update_def)
qed

subsection \<open>Codenames\<close>

lemma digits_value_foldl: "foldl (\<lambda>n c. 10 * n + (of_char c - 48)) a ds = a * 10 ^ length ds + digits_value ds"
proof (induction ds arbitrary: a)
  case Nil
  then show ?case by (simp add: digits_value_def)
next
  case (Cons c ds)
  have cons: "digits_value (c # ds) = (of_char c - 48) * 10 ^ length ds + digits_value ds"
    unfolding digits_value_def [of "c # ds"] foldl_Cons Cons.IH by simp
  show ?case unfolding foldl_Cons Cons.IH cons by (simp add: add_mult_distrib)
qed

lemma digits_value_Cons: "digits_value (c # ds) = (of_char c - 48) * 10 ^ length ds + digits_value ds"
  by (subst digits_value_def, subst foldl_Cons, subst digits_value_foldl) simp

lemma digits_value_bound: "\<forall>c \<in> set ds. js_digit c \<Longrightarrow> digits_value ds < 10 ^ length ds"
proof (induction ds)
  case Nil
  then show ?case by (simp add: digits_value_def)
next
  case (Cons c ds)
  then have "of_char c \<le> (57 :: nat)" by (simp add: js_digit_def Let_def)
  then have "of_char c - 48 \<le> (9 :: nat)" by arith
  then have "(of_char c - 48) * 10 ^ length ds \<le> (9 :: nat) * 10 ^ length ds" by (rule mult_le_mono1)
  moreover have "digits_value ds < 10 ^ length ds" using Cons by simp
  ultimately have "(of_char c - 48) * 10 ^ length ds + digits_value ds < 10 * 10 ^ length ds" by linarith
  then show ?case by (simp add: digits_value_Cons)
qed

text \<open>On digit strings of one length the order of texts is the order of numbers.\<close>

lemma digits_less:
  assumes "length s = length t" and "\<forall>c \<in> set s. js_digit c" and "\<forall>c \<in> set t. js_digit c"
    and "digits_value s < digits_value t"
  shows "s < t"
  using assms
proof (induction s t rule: list_induct2)
  case Nil
  then show ?case by simp
next
  case (Cons c s d t)
  show ?case
  proof (cases "c = d")
    case True
    with Cons show ?thesis by (simp add: digits_value_Cons)
  next
    case False
    have "digits_value s < 10 ^ length s" "digits_value t < 10 ^ length s"
      using Cons digits_value_bound [of s] digits_value_bound [of t] by simp_all
    have le: "(of_char c :: nat) - 48 \<le> of_char d - 48"
    proof (rule ccontr)
      assume "\<not> ?thesis"
      then have "Suc (of_char d - 48) * 10 ^ length s \<le> (of_char c - 48) * 10 ^ length s" by (intro mult_le_mono1) simp
      with Cons.prems(3) Cons.hyps \<open>digits_value t < 10 ^ length s\<close> show False
        by (simp add: digits_value_Cons)
    qed
    have "(of_char c :: nat) \<noteq> of_char d" using False by simp
    moreover have "48 \<le> (of_char c :: nat)" "48 \<le> (of_char d :: nat)"
      using Cons.prems(1,2) by (simp_all add: js_digit_def Let_def)
    ultimately have "(of_char c :: nat) < of_char d" using le by arith
    then show ?thesis by (simp add: less_char_def)
  qed
qed

lemma append_less_iff: "(p @ s < p @ t) = (s < (t :: string))"
  by (induction p) simp_all

lemma sql_like_percent [simp]: "sql_like ''%'' s"
  by (induction s) auto

lemma sql_like_prefix:
  "\<forall>c \<in> set q. c \<noteq> CHR ''%'' \<Longrightarrow> sql_like (q @ ''%'') (q @ s)"
  by (induction q) auto

lemma order_desc_hd:
  assumes "order_desc k t = r # rs" and "x \<in> set t"
  shows "k x \<le> k r"
proof -
  from assms(1) sorted_order_desc [of k t] have "\<forall>y \<in> set rs. k y \<le> k r" by (simp add: sorted_append)
  moreover from assms have "x \<in> set (r # rs)" by (metis set_order_desc)
  ultimately show ?thesis by auto
qed

text \<open>Codenames with at most four digits: same length, so ordered as their numbers.\<close>

lemma nat_digits_length: "n < 10000 \<Longrightarrow> length (nat_digits n) \<le> 4"
proof -
  assume "n < 10000"
  then have "n div 10 div 10 div 10 < 10" by simp
  then show ?thesis
    by (subst nat_digits.simps, subst nat_digits.simps, subst nat_digits.simps, subst nat_digits.simps) auto
qed

lemma padded_length: "n \<le> 9999 \<Longrightarrow> length (js_pad_start 4 CHR ''0'' (js_nat_string n)) = 4"
  using nat_digits_length [of n] by (simp add: js_pad_start_def js_nat_string_def)

lemma padded_value [simp]: "digits_value (js_pad_start k CHR ''0'' (js_nat_string n)) = n"
  by (simp add: js_pad_start_def digits_value_zeros)

lemma formatCodename_less:
  assumes "normal_prefix p" and "n < m" and "m \<le> 9999"
  shows "formatCodename p (int n) < formatCodename p (int m)"
proof -
  have "js_pad_start 4 CHR ''0'' (js_nat_string n) < js_pad_start 4 CHR ''0'' (js_nat_string m)"
    using assms(2,3) padded_digits [of 4] by (intro digits_less) (simp_all add: padded_length list_all_iff)
  then show ?thesis using assms
    by (simp add: formatCodename_normal append_less_iff [of "p @ ''-''", simplified])
qed

lemma formatCodename_inj:
  "normal_prefix p \<Longrightarrow> formatCodename p (int n) = formatCodename p (int m) \<longleftrightarrow> n = m"
  by (metis of_nat_eq_iff parse_format_codename)

lemma normal_prefix_upper: "normal_prefix p \<Longrightarrow> js_upper p = p"
  by (simp add: normal_prefix_def js_upper_code_chars)

lemma formatCodename_like:
  assumes "normal_prefix p"
  shows "sql_like (p @ ''-%'') (formatCodename p (int n))"
proof -
  have "\<forall>c \<in> set (p @ ''-''). c \<noteq> CHR ''%''"
    using assms by (auto simp: normal_prefix_def list_all_iff code_char_def Let_def)
  from sql_like_prefix [OF this] show ?thesis by (simp add: formatCodename_normal assms)
qed

text \<open>The codenames of an owner under a prefix, as the allocation sees them.\<close>

definition codenames :: "'a memory_db_scheme \<Rightarrow> string \<Rightarrow> string \<Rightarrow> string set" where
  "codenames db ownerId p =
     {c. \<exists>r \<in> set (memories db). m_owner r = ownerId \<and> m_codename r = Some c \<and> sql_like (p @ ''-%'') c}"

lemma codenames_formatted:
  assumes "normal_prefix p"
  shows "formatCodename p (int n) \<in> codenames db ownerId p \<longleftrightarrow>
    (\<exists>r \<in> set (memories db). m_owner r = ownerId \<and> m_codename r = Some (formatCodename p (int n)))"
  using formatCodename_like [OF assms] by (auto simp: codenames_def)

lemma allocateCodename_max:
  assumes "normal_prefix p" and "codenames db ownerId p \<noteq> {}"
  shows "\<exists>c \<in> codenames db ownerId p. (\<forall>d \<in> codenames db ownerId p. d \<le> c) \<and>
    (c \<noteq> [] \<longrightarrow> allocateCodename db ownerId p = formatCodename p (parseCodenameSequence c p + 1))"
proof -
  let ?p = "\<lambda>r. m_owner r = ownerId \<and>
     (case m_codename r of None \<Rightarrow> False | Some c \<Rightarrow> sql_like (js_upper p @ ''-%'') c)"
  let ?k = "\<lambda>r. nullish (m_codename r) []"
  let ?rows = "order_desc ?k (sql_select ?p (memories db))"
  have names: "codenames db ownerId p = ?k ` set (sql_select ?p (memories db))"
  proof (intro set_eqI iffI)
    fix c
    assume "c \<in> codenames db ownerId p"
    then obtain r where "r \<in> set (memories db)" "?p r" "m_codename r = Some c"
      by (auto simp: codenames_def normal_prefix_upper [OF assms(1)])
    then show "c \<in> ?k ` set (sql_select ?p (memories db))"
      by (intro image_eqI [of _ _ r]) (simp_all add: sql_select_def)
  next
    fix c
    assume "c \<in> ?k ` set (sql_select ?p (memories db))"
    then show "c \<in> codenames db ownerId p"
      by (auto simp: sql_select_def codenames_def normal_prefix_upper [OF assms(1)] split: option.splits)
  qed
  then have "set ?rows \<noteq> {}" using assms(2) by simp
  then have "?rows \<noteq> []" by (metis list.set(1))
  then obtain r rs where rows: "?rows = r # rs" by (meson neq_Nil_conv)
  then have "r \<in> set ?rows" by (metis list.set_intros(1))
  then have r: "r \<in> set (sql_select ?p (memories db))" unfolding set_order_desc .
  then obtain c where c: "m_codename r = Some c" by (auto simp: sql_select_def split: option.splits)
  have max: "\<forall>d \<in> codenames db ownerId p. d \<le> c"
    using order_desc_hd [OF rows] unfolding names by (simp add: c)
  have "c \<in> codenames db ownerId p" unfolding names using r c by (intro image_eqI [of _ _ r]) simp_all
  moreover have "allocateCodename db ownerId p = formatCodename p (parseCodenameSequence c p + 1)" if "c \<noteq> []"
  proof -
    have "truthy (Some c) = Some c" using that by (simp add: truthy_iffs)
    then show ?thesis unfolding allocateCodename_def Let_def rows by (simp add: c)
  qed
  ultimately show ?thesis using max by blast
qed

lemma allocateCodename_first:
  assumes "normal_prefix p" and "codenames db ownerId p = {}"
  shows "allocateCodename db ownerId p = formatCodename p 1"
proof -
  have "sql_select (\<lambda>r. m_owner r = ownerId \<and>
     (case m_codename r of None \<Rightarrow> False | Some c \<Rightarrow> sql_like (js_upper p @ ''-%'') c)) (memories db) = []"
    using assms(2)
    by (auto simp: sql_select_def filter_empty_conv codenames_def normal_prefix_upper [OF assms(1)]
        split: option.splits)
  then show ?thesis by (simp add: allocateCodename_def order_desc_def)
qed

lemma formatCodename_not_Nil: "normal_prefix p \<Longrightarrow> formatCodename p (int n) \<noteq> []"
  by (simp add: formatCodename_normal)

lemma allocateCodename_next:
  assumes "normal_prefix p"
    and "\<forall>c \<in> codenames db ownerId p. \<exists>n \<le> 9998. c = formatCodename p (int n)"
  shows "\<exists>n \<le> 9999. allocateCodename db ownerId p = formatCodename p (int n) \<and>
    (\<forall>m. formatCodename p (int m) \<in> codenames db ownerId p \<longrightarrow> m < n)"
proof (cases "codenames db ownerId p = {}")
  case True
  with allocateCodename_first [OF assms(1) True] show ?thesis by (intro exI [of _ 1]) auto
next
  case False
  from allocateCodename_max [OF assms(1) False] obtain c where
    c: "c \<in> codenames db ownerId p" "\<forall>d \<in> codenames db ownerId p. d \<le> c"
    and alloc: "c \<noteq> [] \<longrightarrow> allocateCodename db ownerId p = formatCodename p (parseCodenameSequence c p + 1)"
    by blast
  from assms(2) c(1) obtain n where n: "n \<le> 9998" "c = formatCodename p (int n)" by blast
  have new: "allocateCodename db ownerId p = formatCodename p (int (Suc n))"
    using alloc formatCodename_not_Nil [OF assms(1)] parse_format_codename [OF assms(1)] n(2)
    by (simp add: add.commute)
  have below: "m < Suc n" if "formatCodename p (int m) \<in> codenames db ownerId p" for m
  proof (rule ccontr)
    assume "\<not> m < Suc n"
    moreover from assms(2) that formatCodename_inj [OF assms(1)] have "m \<le> 9998" by auto
    ultimately have "c < formatCodename p (int m)"
      using formatCodename_less [OF assms(1), of n m] n by simp
    with c(2) that show False by fastforce
  qed
  with new n(1) show ?thesis by (intro exI [of _ "Suc n"]) auto
qed

text \<open>
  An allocated codename is fresh as long as the owner's codenames under the prefix are the code's own
  and no number above 9998 is in use: the new number is one more than the largest in use (the
  text order the query sorts by agrees with the order of numbers), has four digits, and no memory
  of the owner has the codename.
\<close>

theorem allocateCodename_fresh:
  assumes "normal_prefix p"
    and "\<forall>c \<in> codenames db ownerId p. \<exists>n \<le> 9998. c = formatCodename p (int n)"
  shows "\<exists>n \<le> 9999. allocateCodename db ownerId p = formatCodename p (int n) \<and>
    (\<forall>m. formatCodename p (int m) \<in> codenames db ownerId p \<longrightarrow> m < n) \<and>
    (\<forall>r \<in> set (memories db). m_owner r = ownerId \<longrightarrow> m_codename r \<noteq> Some (formatCodename p (int n)))"
proof -
  from allocateCodename_next [OF assms] obtain n where
    n: "n \<le> 9999" "allocateCodename db ownerId p = formatCodename p (int n)"
    "\<forall>m. formatCodename p (int m) \<in> codenames db ownerId p \<longrightarrow> m < n" by blast
  then have "formatCodename p (int n) \<notin> codenames db ownerId p" by blast
  with codenames_formatted [OF assms(1), of n db ownerId] n show ?thesis by auto
qed

lemma formatCodename_10000:
  assumes "normal_prefix p"
  shows "formatCodename p (int 10000) < formatCodename p (int 9999)"
proof -
  have "js_pad_start 5 CHR ''0'' (js_nat_string 10000) < js_pad_start 4 CHR ''0'' (js_nat_string 9999)"
    by (simp add: js_pad_start_def js_nat_string_def nat_digits.simps less_char_def)
  then show ?thesis
    using formatCodename_normal [OF assms, of 10000] formatCodename_normal [OF assms, of 9999]
      append_less_iff [of "p @ ''-''"] by simp
qed

lemma allocateCodename_10000:
  assumes "normal_prefix p"
    and "\<forall>c \<in> codenames db ownerId p. \<exists>n \<le> 10000. c = formatCodename p (int n)"
    and "formatCodename p (int 9999) \<in> codenames db ownerId p"
  shows "allocateCodename db ownerId p = formatCodename p (int 10000)"
proof -
  from assms(3) have "codenames db ownerId p \<noteq> {}" by blast
  from allocateCodename_max [OF assms(1) this] obtain c where
    c: "c \<in> codenames db ownerId p" "\<forall>d \<in> codenames db ownerId p. d \<le> c"
    and alloc: "c \<noteq> [] \<longrightarrow> allocateCodename db ownerId p = formatCodename p (parseCodenameSequence c p + 1)"
    by blast
  from assms(2) c(1) obtain n where n: "n \<le> 10000" "c = formatCodename p (int n)" by blast
  have top: "formatCodename p (int 9999) \<le> c" using c(2) assms(3) by blast
  have "n = 9999"
  proof (rule ccontr)
    assume "n \<noteq> 9999"
    with n(1) have "n < 9999 \<or> n = 10000" by arith
    then have "c < formatCodename p (int 9999)"
      using formatCodename_less [OF assms(1), of n 9999] formatCodename_10000 [OF assms(1)]
      unfolding n(2) by blast
    with top show False by simp
  qed
  then show ?thesis
    using alloc formatCodename_not_Nil [OF assms(1), of 9999] parse_format_codename [OF assms(1), of 9999] n(2)
    by simp
qed

text \<open>
  With number 10000 the codenames of a prefix are used up. The query finds the largest codename in
  text order, where \<^verbatim>\<open>NOTE-9999\<close> comes after \<^verbatim>\<open>NOTE-10000\<close>; so once both exist every allocation
  answers \<^verbatim>\<open>NOTE-10000\<close> again, the three attempts of \<^verbatim>\<open>insert\<close> all collide, and no further memory of
  that type can be created by the owner.
\<close>

theorem insert_fails_after_10000:
  assumes "memory_type_of (in_type data) = Some t" and "in_owner data = Some ownerId"
    and "\<forall>c \<in> codenames db ownerId (MEMORY_TYPE_PREFIX t).
           \<exists>n \<le> 10000. c = formatCodename (MEMORY_TYPE_PREFIX t) (int n)"
    and "formatCodename (MEMORY_TYPE_PREFIX t) (int 9999) \<in> codenames db ownerId (MEMORY_TYPE_PREFIX t)"
    and "formatCodename (MEMORY_TYPE_PREFIX t) (int 10000) \<in> codenames db ownerId (MEMORY_TYPE_PREFIX t)"
    and "in_codename data = allocateCodename db ownerId (MEMORY_TYPE_PREFIX t)"
  shows "insertMemory dup db data m = (Inl (PlainError dup), db)"
proof -
  let ?c = "formatCodename (MEMORY_TYPE_PREFIX t) (int 10000)"
  have alloc: "allocateCodename db ownerId (MEMORY_TYPE_PREFIX t) = ?c"
    by (rule allocateCodename_10000 [OF normal_prefix_memory_type assms(3,4)])
  have "in_type data \<noteq> []" using assms(1) by (auto simp: memory_type_of.simps)
  then have retry: "retry_prefix data = Some (MEMORY_TYPE_PREFIX t)"
    using assms(1) by (simp add: retry_prefix_def resolveCodenamePrefix_def)
  have owner: "m_owner (insert_row data m) = ownerId" using assms(2) by (simp add: insert_row_def Let_def)
  from assms(5) obtain r where "r \<in> set (memories db)" "m_owner r = ownerId" "m_codename r = Some ?c"
    by (auto simp: codenames_def)
  then have "sql_insert memory_clash ((insert_row data m)\<lparr>m_codename := Some ?c\<rparr>) (memories db) =
      Inl (PlainError ''UNIQUE constraint failed'')"
    using owner by (auto simp: sql_insert_def memory_clash_def list_ex_iff)
  then show ?thesis
    using assms(6) alloc retry owner
    by (simp add: insertMemory_def CODENAME_MAX_RETRIES_def numeral_3_eq_3)
qed

text \<open>
  The retry after a taken codename depends on the database's wording. When the first codename
  collides and a fresh one exists, the insertion goes through if the driver's message has the
  word \<^verbatim>\<open>UNIQUE\<close> in capitals (SQLite), and fails at the first attempt otherwise (Postgres says
  \<^verbatim>\<open>duplicate key value violates unique constraint\<close>).
\<close>

theorem insert_retry_needs_capitals:
  assumes "s \<in> set (memories db)" and "m_owner s = m_owner (insert_row data m)"
    and "m_codename s = Some (in_codename data)"
    and "retry_prefix data = Some p"
    and "\<forall>r \<in> set (memories db). \<not> memory_clash
           ((insert_row data m)\<lparr>m_codename := Some (allocateCodename db (m_owner (insert_row data m)) p)\<rparr>) r"
  shows "if js_includes dup ''UNIQUE'' then isl (fst (insertMemory dup db data m)) = False
    else insertMemory dup db data m = (Inl (PlainError dup), db)"
proof -
  let ?row = "insert_row data m"
  let ?r = "?row\<lparr>m_codename := Some (allocateCodename db (m_owner ?row) p)\<rparr>"
  have first: "sql_insert memory_clash (?row\<lparr>m_codename := Some (in_codename data)\<rparr>) (memories db) =
      Inl (PlainError ''UNIQUE constraint failed'')"
    using assms(1-3) by (auto simp: sql_insert_def memory_clash_def list_ex_iff intro!: bexI [of _ s])
  have second: "sql_insert memory_clash ?r (memories db) = Inr (memories db @ [?r])" using assms(5) by simp
  have "sql_first (memory_hit (m_id ?row) (m_owner ?row) (in_workspace data)) (memories db @ [?r]) = Some ?r"
    using assms(5)
    by (intro sql_first_append_new)
       (auto simp: memory_hit_def memory_clash_def visible_def in_workspace_filter_def truthy_iffs
         insert_row_def Let_def split: option.splits)
  then have found: "findById (db\<lparr>memories := memories db @ [?r]\<rparr>) (m_id ?row) (m_owner ?row)
      (in_workspace data) = Some (rowToRetrieval ?r)" by (simp add: findById_def)
  show ?thesis
    using first found assms(4)
    by (simp add: insertMemory_def CODENAME_MAX_RETRIES_def numeral_3_eq_3 Let_def second del: sql_insert_Inr)
qed

subsection \<open>Concrete tables\<close>

definition sample_insert :: "string \<Rightarrow> string \<Rightarrow> string \<Rightarrow> insert_memory_data" where
  "sample_insert i codename slug =
     \<lparr>in_title = ''T'', in_project = ''p'', in_content = ''body'', in_summary = ''s'', in_tags = [''a''],
      in_keywords = [], in_category = [], in_type = ''note'', in_importance = 50, in_language = ''id'',
      in_notes = [], in_codename = codename, in_slug = slug, in_favorite = False, in_archived = None,
      in_owner = Some ''o'', in_workspace = Some ''w'', in_id = Some i, in_created = None, in_updated = None,
      in_project_id = None, in_level = None, in_semantic_hash = None, in_access_count = None,
      in_last_accessed = None, in_agent = None, in_aliases = None, in_source_path = None\<rparr>"

definition sample_mint :: mint where "sample_mint = \<lparr>mint_id = ''x'', mint_now = ''t''\<rparr>"

definition sqlite_dup :: string where "sqlite_dup = ''UNIQUE constraint failed''"

definition sample_memories :: "(string \<times> string \<times> string) list \<Rightarrow> memory_db" where
  "sample_memories xs = \<lparr>memories = map (\<lambda>(i, c, s). insert_row (sample_insert i c s) sample_mint) xs\<rparr>"

theorem memory_owners_isolated_witness:
  "findById (snd (deleteMemoryRow (sample_memories [(''1'', ''NOTE-0001'', ''a'')]) ''1'' ''mallory'' None)) ''1'' ''o'' None =
   findById (sample_memories [(''1'', ''NOTE-0001'', ''a'')]) ''1'' ''o'' None"
proof -
  have "(memory_step ''mallory'')\<^sup>*\<^sup>* (sample_memories [(''1'', ''NOTE-0001'', ''a'')])
      (snd (deleteMemoryRow (sample_memories [(''1'', ''NOTE-0001'', ''a'')]) ''1'' ''mallory'' None))"
    by (intro r_into_rtranclp memory_step.delete)
  from memory_owners_isolated [OF this, of "''o''" "''1''" None "[]" "[]"] show ?thesis by simp
qed


theorem insertMemory_stores_witness:
  "\<exists>mem db'. insertMemory sqlite_dup \<lparr>memories = []\<rparr> (sample_insert ''1'' ''NOTE-0001'' ''a'') sample_mint = (Inr mem, db') \<and>
     m_content mem = [] \<and> (\<exists>r. memories db' = [r] \<and> m_content (rowToMemory r) = ''body'')"
proof -
  let ?run = "insertMemory sqlite_dup (\<lparr>memories = []\<rparr> :: memory_db) (sample_insert ''1'' ''NOTE-0001'' ''a'') sample_mint"
  have "\<not> isl (fst ?run)" by code_simp
  from run_Inr [OF this] have run: "?run = (Inr (projr (fst ?run)), snd ?run)" .
  have body: "in_content (sample_insert ''1'' ''NOTE-0001'' ''a'') = ''body''" by (simp add: sample_insert_def)
  from insertMemory_stores [OF run] run show ?thesis unfolding body by fastforce
qed

definition title_update :: update_memory_data where
  "title_update = \<lparr>up_title = Some ''New title'', up_project = None, up_content = None, up_summary = None, up_tags = None,
        up_keywords = None, up_category = None, up_type = None, up_importance = None, up_language = None,
        up_notes = None, up_slug = None, up_favorite = None, up_archived = None, up_project_id = None,
        up_level = None, up_agent = None, up_aliases = None, up_source_path = None\<rparr>"

theorem update_without_content_erases_it_witness:
  "\<exists>u db' r. updateMemoryRow sqlite_dup (sample_memories [(''1'', ''NOTE-0001'', ''a'')]) ''1'' ''o''
       title_update None ''u'' = (Inr (Some u), db') \<and>
     memories db' = [r] \<and> m_content r = [] \<and>
     map m_content (memories (sample_memories [(''1'', ''NOTE-0001'', ''a'')])) = [''body'']"
proof -
  let ?db = "sample_memories [(''1'', ''NOTE-0001'', ''a'')]"
  let ?run = "updateMemoryRow sqlite_dup ?db ''1'' ''o'' title_update None ''u''"
  have "\<not> isl (fst ?run)" by code_simp
  from run_Inr [OF this] have run: "?run = (Inr (projr (fst ?run)), snd ?run)" .
  have "projr (fst ?run) \<noteq> None" by code_simp
  then obtain u where "projr (fst ?run) = Some u" by blast
  with run have run: "?run = (Inr (Some u), snd ?run)" by simp
  have "length (memories (snd ?run)) = 1" by code_simp
  then obtain r where r: "memories (snd ?run) = [r]" by (cases "memories (snd ?run)") auto
  have "list_all (memory_hit ''1'' ''o'' None) (memories (snd ?run))" by code_simp
  then have "memory_hit ''1'' ''o'' None r" by (simp add: r)
  from update_without_content_erases_it [OF run _ this] r have "m_content r = []"
    by (simp add: title_update_def)
  moreover have "map m_content (memories ?db) = [''body'']" by code_simp
  ultimately show ?thesis using run r
    by (intro exI [of _ u] exI [of _ "snd ?run"] exI [of _ r] conjI)
qed

theorem allocateCodename_fresh_witness:
  "allocateCodename (sample_memories [(''1'', ''NOTE-0009'', ''a''), (''2'', ''NOTE-0010'', ''b'')]) ''o'' ''NOTE'' = ''NOTE-0011'' \<and>
   (\<exists>n \<le> 9999. formatCodename ''NOTE'' (int n) = ''NOTE-0011'')"
proof -
  let ?db = "sample_memories [(''1'', ''NOTE-0009'', ''a''), (''2'', ''NOTE-0010'', ''b'')]"
  have p: "normal_prefix ''NOTE''" using normal_prefix_memory_type [of Note] by simp
  have alloc: "allocateCodename ?db ''o'' ''NOTE'' = ''NOTE-0011''" by code_simp
  have names: "formatCodename ''NOTE'' (int 9) = ''NOTE-0009''" "formatCodename ''NOTE'' (int 10) = ''NOTE-0010''"
    by code_simp+
  have "list_all (\<lambda>r. m_codename r = Some ''NOTE-0009'' \<or> m_codename r = Some ''NOTE-0010'') (memories ?db)"
    by code_simp
  then have two: "c = ''NOTE-0009'' \<or> c = ''NOTE-0010''" if "c \<in> codenames ?db ''o'' ''NOTE''" for c
    using that by (auto simp: codenames_def list_all_iff)
  have "\<exists>n \<le> 9998. c = formatCodename ''NOTE'' (int n)" if "c \<in> codenames ?db ''o'' ''NOTE''" for c
    using two [OF that]
  proof
    assume "c = ''NOTE-0009''"
    with names(1) show ?thesis by (intro exI [of _ 9]) simp
  next
    assume "c = ''NOTE-0010''"
    with names(2) show ?thesis by (intro exI [of _ 10]) simp
  qed
  then have all: "\<forall>c \<in> codenames ?db ''o'' ''NOTE''. \<exists>n \<le> 9998. c = formatCodename ''NOTE'' (int n)" by blast
  from allocateCodename_fresh [OF p all] have "\<exists>n \<le> 9999. allocateCodename ?db ''o'' ''NOTE'' = formatCodename ''NOTE'' (int n)"
    by blast
  with alloc show ?thesis by metis
qed

lemma digit_chars: "(char_of (48 :: nat)) = CHR ''0''" "(char_of (49 :: nat)) = CHR ''1''" "(char_of (57 :: nat)) = CHR ''9''"
  by code_simp+

theorem insert_fails_after_10000_witness:
  "insertMemory sqlite_dup (sample_memories [(''1'', ''NOTE-9999'', ''a''), (''2'', ''NOTE-10000'', ''b'')])
     (sample_insert ''3'' ''NOTE-10000'' ''c'') sample_mint =
   (Inl (PlainError sqlite_dup), sample_memories [(''1'', ''NOTE-9999'', ''a''), (''2'', ''NOTE-10000'', ''b'')])"
proof -
  let ?db = "sample_memories [(''1'', ''NOTE-9999'', ''a''), (''2'', ''NOTE-10000'', ''b'')]"
  let ?data = "sample_insert ''3'' ''NOTE-10000'' ''c''"
  have p: "normal_prefix ''NOTE''" using normal_prefix_memory_type [of Note] by simp
  have names: "formatCodename ''NOTE'' (int 9999) = ''NOTE-9999''" "formatCodename ''NOTE'' (int 10000) = ''NOTE-10000''"
    by (simp_all add: formatCodename_normal [OF p] js_pad_start_def js_nat_string_def nat_digits.simps digit_chars
        del: of_nat_numeral)
  have "list_all (\<lambda>r. m_codename r = Some ''NOTE-9999'' \<or> m_codename r = Some ''NOTE-10000'') (memories ?db)"
    by code_simp
  then have two: "c = ''NOTE-9999'' \<or> c = ''NOTE-10000''" if "c \<in> codenames ?db ''o'' ''NOTE''" for c
    using that by (auto simp: codenames_def list_all_iff)
  have "\<exists>n \<le> 10000. c = formatCodename ''NOTE'' (int n)" if "c \<in> codenames ?db ''o'' ''NOTE''" for c
    using two [OF that]
  proof
    assume "c = ''NOTE-9999''"
    with names(1) show ?thesis by (intro exI [of _ 9999]) (simp del: of_nat_numeral)
  next
    assume "c = ''NOTE-10000''"
    with names(2) show ?thesis by (intro exI [of _ 10000]) (simp del: of_nat_numeral)
  qed
  then have all: "\<forall>c \<in> codenames ?db ''o'' (MEMORY_TYPE_PREFIX Note).
      \<exists>n \<le> 10000. c = formatCodename (MEMORY_TYPE_PREFIX Note) (int n)" by simp
  have "list_ex (\<lambda>r. m_owner r = ''o'' \<and> m_codename r = Some ''NOTE-9999'') (memories ?db)"
    "list_ex (\<lambda>r. m_owner r = ''o'' \<and> m_codename r = Some ''NOTE-10000'') (memories ?db)" by code_simp+
  then have mem: "formatCodename (MEMORY_TYPE_PREFIX Note) (int 9999) \<in> codenames ?db ''o'' (MEMORY_TYPE_PREFIX Note)"
    "formatCodename (MEMORY_TYPE_PREFIX Note) (int 10000) \<in> codenames ?db ''o'' (MEMORY_TYPE_PREFIX Note)"
    unfolding MEMORY_TYPE_PREFIX.simps codenames_formatted [OF p] unfolding names list_ex_iff by blast+
  have ty: "memory_type_of (in_type ?data) = Some Note" by code_simp
  have owner: "in_owner ?data = Some ''o''" by (simp add: sample_insert_def)
  have "allocateCodename ?db ''o'' ''NOTE'' = formatCodename ''NOTE'' (int 10000)"
    using allocateCodename_10000 [OF p, of ?db "''o''"] all mem by simp
  then have code: "in_codename ?data = allocateCodename ?db ''o'' (MEMORY_TYPE_PREFIX Note)"
    unfolding names by (simp add: sample_insert_def)
  show ?thesis by (rule insert_fails_after_10000 [OF ty owner all mem code])
qed

theorem insert_retry_needs_capitals_witness:
  "insertMemory ''duplicate key value violates unique constraint'' (sample_memories [(''1'', ''NOTE-0001'', ''a'')])
     (sample_insert ''2'' ''NOTE-0001'' ''b'') sample_mint =
   (Inl (PlainError ''duplicate key value violates unique constraint''), sample_memories [(''1'', ''NOTE-0001'', ''a'')])"
proof -
  let ?db = "sample_memories [(''1'', ''NOTE-0001'', ''a'')]"
  let ?data = "sample_insert ''2'' ''NOTE-0001'' ''b''"
  let ?s = "insert_row (sample_insert ''1'' ''NOTE-0001'' ''a'') sample_mint"
  have "?s \<in> set (memories ?db)" by (simp add: sample_memories_def)
  moreover have "m_owner ?s = m_owner (insert_row ?data sample_mint)"
    "m_codename ?s = Some (in_codename ?data)" by code_simp+
  moreover have "retry_prefix ?data = Some ''NOTE''" by code_simp
  moreover have "\<forall>r \<in> set (memories ?db). \<not> memory_clash ((insert_row ?data sample_mint)\<lparr>m_codename :=
      Some (allocateCodename ?db (m_owner (insert_row ?data sample_mint)) ''NOTE'')\<rparr>) r" by code_simp
  moreover have "\<not> js_includes ''duplicate key value violates unique constraint'' ''UNIQUE''" by code_simp
  ultimately show ?thesis
    using insert_retry_needs_capitals [of ?s ?db ?data sample_mint "''NOTE''"
        "''duplicate key value violates unique constraint''"] by simp
qed

end
