(* ===== verification/Knowledge.thy ===== *)
theory Knowledge
  imports Memory_Laws
begin

section \<open>Enrichment of a memory\<close>

text \<open>
  \<^verbatim>\<open>src/src/knowledge/knowledge.service.ts\<close> with its helpers \<^verbatim>\<open>keyword.normalizer.ts\<close>,
  \<^verbatim>\<open>summary.generator.ts\<close> and \<^verbatim>\<open>metadata.validator.ts\<close>: the fields a memory gets before it is
  stored. A refused metadata object is a \<open>ZodError\<close>, whose issue list is not modelled.
\<close>

subsection \<open>Keywords\<close>

text \<open>The loop over the merged list, with the result so far; it stops at thirty keywords.\<close>

fun keyword_loop :: "string list \<Rightarrow> string list \<Rightarrow> string list" where
  "keyword_loop result [] = result"
| "keyword_loop result (raw # rest) =
     (let keyword = js_lower (js_trim raw)
      in if keyword = [] \<or> keyword \<in> set result then keyword_loop result rest
         else let result' = result @ [keyword]
              in if 30 \<le> length result' then result' else keyword_loop result' rest)"

definition normalizeKeywords :: "string list \<Rightarrow> string list option \<Rightarrow> string list" where
  "normalizeKeywords tags explicitKeywords = keyword_loop [] (nullish explicitKeywords [] @ tags)"

lemma keyword_loop_inv:
  assumes "distinct result" "length result < 30" "\<forall>k \<in> set result. k \<noteq> [] \<and> js_lower (js_trim k) = k"
  shows "distinct (keyword_loop result raws) \<and> length (keyword_loop result raws) \<le> 30 \<and>
    (\<forall>k \<in> set (keyword_loop result raws). k \<noteq> [] \<and> js_lower (js_trim k) = k)"
  using assms
proof (induction result raws rule: keyword_loop.induct)
  case (1 result)
  then show ?case by simp
next
  case (2 result raw rest)
  have norm: "js_lower (js_trim (js_lower (js_trim raw))) = js_lower (js_trim raw)"
    by (simp add: js_simps)
  show ?case
  proof (cases "js_lower (js_trim raw) = [] \<or> js_lower (js_trim raw) \<in> set result")
    case True
    then have "keyword_loop result (raw # rest) = keyword_loop result rest" by (simp add: Let_def)
    with "2.IH"(1) [OF refl True "2.prems"] show ?thesis by simp
  next
    case False
    let ?r = "result @ [js_lower (js_trim raw)]"
    have d: "distinct ?r" "\<forall>k \<in> set ?r. k \<noteq> [] \<and> js_lower (js_trim k) = k"
      using False "2.prems" norm by auto
    show ?thesis
    proof (cases "30 \<le> length ?r")
      case True
      with False d "2.prems" show ?thesis by (simp add: Let_def)
    next
      case small: False
      with "2.IH"(2) [OF refl False refl small d(1) _ d(2)] False show ?thesis
        by (simp add: Let_def)
    qed
  qed
qed

lemma normalizeKeywords_normal:
  "distinct (normalizeKeywords tags ks) \<and> length (normalizeKeywords tags ks) \<le> 30 \<and>
    (\<forall>k \<in> set (normalizeKeywords tags ks). k \<noteq> [] \<and> js_lower (js_trim k) = k)"
  unfolding normalizeKeywords_def by (rule keyword_loop_inv) auto

subsection \<open>Summaries\<close>

definition MAX_SUMMARY_LENGTH :: nat where "MAX_SUMMARY_LENGTH = 300"

text \<open>
  The horizontal ellipsis is the only character of the program outside Latin-1; it is
  represented by the code point 0x85, which no replacement of this function treats specially.
\<close>

definition ellipsis :: char where "ellipsis = CHR 0x85"

definition line_end :: "char \<Rightarrow> bool" where "line_end c \<longleftrightarrow> c = CHR 0x0A \<or> c = CHR 0x0D"

text \<open>\<open>replace(/^#{1,6}\s+/gm, '')\<close>; the flag says that the position is the start of a line.\<close>

function strip_headings :: "bool \<Rightarrow> string \<Rightarrow> string" where
  "strip_headings lineStart [] = []"
| "strip_headings lineStart (c # s) =
     (let hashes = length (takeWhile ((=) CHR ''#'') (c # s));
          rest = dropWhile ((=) CHR ''#'') (c # s);
          spaces = takeWhile js_space rest
      in if lineStart \<and> 1 \<le> hashes \<and> hashes \<le> 6 \<and> spaces \<noteq> []
         then strip_headings (line_end (last spaces)) (dropWhile js_space rest)
         else c # strip_headings (line_end c) s)"
  by pat_completeness auto

lemma length_two_dropWhile:
  assumes "takeWhile q (dropWhile p xs) \<noteq> []"
  shows "length (dropWhile q (dropWhile p xs)) < length xs"
proof -
  have "length (takeWhile q (dropWhile p xs)) + length (dropWhile q (dropWhile p xs)) = length (dropWhile p xs)"
    by (metis length_append takeWhile_dropWhile_id)
  moreover have "length (dropWhile p xs) \<le> length xs" by (rule length_dropWhile_le)
  ultimately show ?thesis using assms by (cases "takeWhile q (dropWhile p xs)") auto
qed

termination strip_headings
proof (relation "measure (\<lambda>(_, s). length s)", goal_cases)
  case 1
  show ?case by simp
next
  case (2 lineStart c s hashes rest spaces)
  then show ?case using length_two_dropWhile by fastforce
next
  case (3 lineStart c s hashes rest spaces)
  then show ?case by simp
qed

definition markdown_char :: "char \<Rightarrow> bool" where
  "markdown_char c \<longleftrightarrow> c \<in> set ''*_`>#-''"

fun collapse_spaces :: "bool \<Rightarrow> string \<Rightarrow> string" where
  "collapse_spaces inrun [] = []"
| "collapse_spaces inrun (c # s) =
     (if \<not> js_space c then c # collapse_spaces False s
      else if inrun then collapse_spaces True s else CHR '' '' # collapse_spaces True s)"

definition generateSummary :: "string \<Rightarrow> string" where
  "generateSummary content =
     (let stripped = js_trim (collapse_spaces False
            (filter (\<lambda>c. \<not> markdown_char c) (strip_headings True content)))
      in if length stripped \<le> MAX_SUMMARY_LENGTH then stripped
         else js_trim_end (take (MAX_SUMMARY_LENGTH - 1) stripped) @ [ellipsis])"

lemma length_generateSummary: "length (generateSummary content) \<le> MAX_SUMMARY_LENGTH"
proof -
  have trim: "length (js_trim_end s) \<le> length s" for s
    by (metis js_trim_end_prefix length_append le_add1)
  have "length (js_trim_end (take (MAX_SUMMARY_LENGTH - 1) s)) \<le> MAX_SUMMARY_LENGTH - 1" for s
    using trim [of "take (MAX_SUMMARY_LENGTH - 1) s"] by simp
  moreover have "0 < MAX_SUMMARY_LENGTH" by (simp add: MAX_SUMMARY_LENGTH_def)
  ultimately show ?thesis
    unfolding generateSummary_def Let_def by (smt (verit) Suc_pred' add.right_neutral add_Suc_right length_append length_Cons list.size(3) not_less_eq_eq plus_1_eq_Suc add.commute)
qed


subsection \<open>Unique slugs\<close>

lemma js_nat_string_inj: "js_nat_string m = js_nat_string n \<Longrightarrow> m = n"
  using digits_value_js_nat_string by metis

lemma takeWhile_dash_digits:
  "takeWhile (\<lambda>c. c \<noteq> CHR ''-'') (rev (js_nat_string n) @ CHR ''-'' # s) = rev (js_nat_string n)"
proof -
  have "\<forall>c \<in> set (rev (js_nat_string n)). c \<noteq> CHR ''-''"
    using js_nat_string_digits js_digit_not_space by fastforce
  then show ?thesis by (subst takeWhile_append2) auto
qed

lemma withSlugSuffix_inj:
  assumes "withSlugSuffix base m = withSlugSuffix base n"
  shows "m = n"
proof -
  have form: "\<exists>t. withSlugSuffix base k = t @ CHR ''-'' # js_nat_string k" for k
    by (auto simp: withSlugSuffix_def Let_def)
  from form [of m] form [of n] assms obtain t u where
    "t @ CHR ''-'' # js_nat_string m = u @ CHR ''-'' # js_nat_string n" by metis
  then have "rev (t @ CHR ''-'' # js_nat_string m) = rev (u @ CHR ''-'' # js_nat_string n)" by simp
  then have "rev (js_nat_string m) @ CHR ''-'' # rev t = rev (js_nat_string n) @ CHR ''-'' # rev u"
    by simp
  then have "rev (js_nat_string m) = rev (js_nat_string n)" by (metis takeWhile_dash_digits)
  then show ?thesis by (simp add: js_nat_string_inj)
qed

lemma slugExists_stored:
  "slugExists db ownerId slug excl \<Longrightarrow> Some slug \<in> m_slug ` set (memories db)"
  by (auto simp: slugExists_def sql_count_def filter_empty_conv image_iff split: if_splits) (metis)

lemma finite_taken_suffixes:
  "finite {k. suffix \<le> k \<and> slugExists db ownerId (withSlugSuffix base k) excl}"
proof -
  have "finite ((\<lambda>k. Some (withSlugSuffix base k)) -` (m_slug ` set (memories db)))"
    by (rule finite_vimageI) (auto simp: inj_on_def dest: withSlugSuffix_inj)
  then show ?thesis by (rule rev_finite_subset) (auto dest: slugExists_stored)
qed

text \<open>The \<open>while\<close> loop; it ends because a table has finitely many slugs and no suffix gives the same candidate twice.\<close>

function slug_loop ::
  "'a memory_db_scheme \<Rightarrow> string \<Rightarrow> string option \<Rightarrow> string \<Rightarrow> string \<Rightarrow> nat \<Rightarrow> string" where
  "slug_loop db ownerId excludeSlug base candidate suffix =
     (if slugExists db ownerId candidate excludeSlug
      then slug_loop db ownerId excludeSlug base (withSlugSuffix base suffix) (suffix + 1)
      else candidate)"
  by pat_completeness auto

termination slug_loop
proof (relation "measure (\<lambda>(db, ownerId, excl, base, candidate, suffix).
    card {k. suffix \<le> k \<and> slugExists db ownerId (withSlugSuffix base k) excl} +
    (if slugExists db ownerId candidate excl then 1 else 0))", goal_cases)
  case 1
  show ?case by simp
next
  case (2 db ownerId excl base candidate suffix)
  let ?taken = "\<lambda>n. {k. n \<le> k \<and> slugExists db ownerId (withSlugSuffix base k) excl}"
  have sub: "?taken (suffix + 1) \<subseteq> ?taken suffix" by auto
  show ?case
  proof (cases "slugExists db ownerId (withSlugSuffix base suffix) excl")
    case True
    then have "suffix \<in> ?taken suffix" "suffix \<notin> ?taken (suffix + 1)" by simp_all
    with sub have "?taken (suffix + 1) \<subset> ?taken suffix" by blast
    then have "card (?taken (suffix + 1)) < card (?taken suffix)"
      by (rule psubset_card_mono [OF finite_taken_suffixes])
    with True 2 show ?thesis by simp
  next
    case False
    have "card (?taken (suffix + 1)) \<le> card (?taken suffix)"
      by (rule card_mono [OF finite_taken_suffixes sub])
    with False 2 show ?thesis by simp
  qed
qed

declare slug_loop.simps [simp del]

definition allocateUniqueSlug :: "'a memory_db_scheme \<Rightarrow> string \<Rightarrow> string \<Rightarrow> string option \<Rightarrow> string" where
  "allocateUniqueSlug db ownerId title excludeSlug =
     (let base = slugify title in slug_loop db ownerId excludeSlug base base 2)"

lemma slug_loop_fresh: "\<not> slugExists db ownerId (slug_loop db ownerId excl base candidate suffix) excl"
proof (induction db ownerId excl base candidate suffix rule: slug_loop.induct)
  case (1 db ownerId excl base candidate suffix)
  show ?case
  proof (cases "slugExists db ownerId candidate excl")
    case True
    with 1 [OF True] slug_loop.simps [of db ownerId excl base candidate suffix] show ?thesis by simp
  next
    case False
    with slug_loop.simps [of db ownerId excl base candidate suffix] show ?thesis by simp
  qed
qed

lemma allocateUniqueSlug_fresh: "\<not> slugExists db ownerId (allocateUniqueSlug db ownerId title excl) excl"
  unfolding allocateUniqueSlug_def Let_def by (rule slug_loop_fresh)

lemma slug_free_row:
  assumes "\<not> slugExists db ownerId slug excl" "truthy excl \<noteq> Some slug" "r \<in> set (memories db)" "m_owner r = ownerId"
  shows "m_slug r \<noteq> Some slug"
  using assms by (auto simp: slugExists_def)

subsection \<open>Validation and enrichment\<close>

record knowledge_input =
  ki_title :: string
  ki_project :: string
  ki_content :: string
  ki_summary :: "string option"
  ki_tags :: "string list"
  ki_keywords :: "string list option"
  ki_category :: "string option"
  ki_type :: "string option"
  ki_importance :: "int option"
  ki_language :: "string option"
  ki_notes :: "string option"

record enriched_fields =
  ef_codename :: string
  ef_slug :: string
  ef_summary :: string
  ef_keywords :: "string list"
  ef_category :: string
  ef_type :: string
  ef_importance :: int
  ef_language :: string
  ef_notes :: string

definition CATEGORIES :: "string list" where
  "CATEGORIES = [[], ''Architecture'', ''Development'', ''Research'', ''Meeting'', ''Prompt'', ''Task'', ''API'']"

definition opt_all :: "('a \<Rightarrow> bool) \<Rightarrow> 'a option \<Rightarrow> bool" where
  "opt_all p v = (case v of None \<Rightarrow> True | Some x \<Rightarrow> p x)"

lemma opt_all_simps [simp]: "opt_all p None" "opt_all p (Some x) = p x"
  by (simp_all add: opt_all_def)

definition zod_error :: app_error where "zod_error = PlainError ''ZodError''"

definition validateKnowledgeMetadata ::
  "string list option \<Rightarrow> string option \<Rightarrow> string option \<Rightarrow> int option \<Rightarrow> string option \<Rightarrow> string option
     \<Rightarrow> string option \<Rightarrow> app_error + unit" where
  "validateKnowledgeMetadata keywords category memoryType importance language notes summary =
     guard_or
       (opt_all (\<lambda>ks. length ks \<le> 30 \<and> list_all (\<lambda>k. length k \<le> 100) ks) keywords \<and>
        opt_all (\<lambda>c. c \<in> set CATEGORIES) category \<and>
        opt_all (\<lambda>t. memory_type_of t \<noteq> None) memoryType \<and>
        opt_all (\<lambda>i. 0 \<le> i \<and> i \<le> 100) importance \<and>
        opt_all (\<lambda>l. 2 \<le> length l \<and> length l \<le> 10) language \<and>
        opt_all (\<lambda>n. length n \<le> 5000) notes \<and>
        opt_all (\<lambda>s. length s \<le> MAX_SUMMARY_LENGTH) summary) zod_error"

definition enrichForCreate ::
  "'a memory_db_scheme \<Rightarrow> string \<Rightarrow> knowledge_input \<Rightarrow> app_error + enriched_fields" where
  "enrichForCreate db ownerId input =
     and_then (validateKnowledgeMetadata (ki_keywords input) (ki_category input) (ki_type input)
                 (ki_importance input) (ki_language input) (ki_notes input) (ki_summary input))
       (\<lambda>_. let memoryType = nullish (ki_type input) ''note'';
               prefix = resolveCodenamePrefix (memory_type_of memoryType) (ki_category input) (Some (ki_project input))
           in Inr \<lparr>ef_codename = allocateCodename db ownerId prefix,
                   ef_slug = allocateUniqueSlug db ownerId (ki_title input) None,
                   ef_summary = (case truthy (ki_summary input) of
                       Some s \<Rightarrow> s | None \<Rightarrow> generateSummary (ki_content input)),
                   ef_keywords = normalizeKeywords (ki_tags input) (ki_keywords input),
                   ef_category = nullish (ki_category input) [],
                   ef_type = memoryType,
                   ef_importance = nullish (ki_importance input) 50,
                   ef_language = nullish (ki_language input) ''id'',
                   ef_notes = nullish (ki_notes input) []\<rparr>)"

text \<open>The partial input and result of \<^verbatim>\<open>enrichForUpdate\<close>: an absent property is \<open>None\<close>.\<close>

record knowledge_patch =
  kp_title :: "string option"
  kp_content :: "string option"
  kp_summary :: "string option"
  kp_tags :: "string list option"
  kp_keywords :: "string list option"
  kp_category :: "string option"
  kp_type :: "string option"
  kp_importance :: "int option"
  kp_language :: "string option"
  kp_notes :: "string option"

record enriched_patch =
  ep_summary :: "string option"
  ep_keywords :: "string list option"
  ep_category :: "string option"
  ep_type :: "string option"
  ep_importance :: "int option"
  ep_language :: "string option"
  ep_notes :: "string option"
  ep_slug :: "string option"

definition enrichForUpdate ::
  "'a memory_db_scheme \<Rightarrow> string \<Rightarrow> memory \<Rightarrow> knowledge_patch \<Rightarrow> app_error + enriched_patch" where
  "enrichForUpdate db ownerId existing input =
     and_then (validateKnowledgeMetadata (kp_keywords input) (kp_category input) (kp_type input)
                 (kp_importance input) (kp_language input) (kp_notes input) (kp_summary input))
       (\<lambda>_. Inr \<lparr>ep_summary = (case kp_summary input of
                   Some s \<Rightarrow> Some s
                 | None \<Rightarrow> (case kp_content input of
                       Some c \<Rightarrow> if m_summary existing = [] then Some (generateSummary c) else None
                     | None \<Rightarrow> None)),
               ep_keywords =
                 (if kp_tags input \<noteq> None \<or> kp_keywords input \<noteq> None
                  then Some (normalizeKeywords (nullish (kp_tags input) (m_tags existing)) (kp_keywords input))
                  else None),
               ep_category = kp_category input, ep_type = kp_type input,
               ep_importance = kp_importance input, ep_language = kp_language input,
               ep_notes = kp_notes input,
               ep_slug = (case kp_title input of
                   Some t \<Rightarrow> if t \<noteq> m_title existing
                             then Some (allocateUniqueSlug db ownerId t (m_slug existing)) else None
                 | None \<Rightarrow> None)\<rparr>)"

end
