(* ===== verification/Write_Intents.thy ===== *)
theory Write_Intents
  imports Knowledge
begin

section \<open>Embeddings and write intents\<close>

text \<open>
  Two tables beside \<open>memories\<close>: \<^verbatim>\<open>src/src/embedding/d1-embedding.store.ts\<close> (without the
  similarity search) and the idempotency ledger of
  \<^verbatim>\<open>src/src/infrastructure/write-intents/sql-write-intent-store.ts\<close>, with the cleanup task of
  \<^verbatim>\<open>src/src/memory/stewardship/tasks/write-intent-cleanup.task.ts\<close>. The primary key of the
  ledger is the pair of owner and request.
\<close>

record embedding_row =
  em_id :: string
  em_memory :: string
  em_owner :: string
  em_model :: string
  em_dimensions :: nat
  em_vector :: "rat list"
  em_hash :: string
  em_created :: string
  em_updated :: string

record embedding_db = memory_db +
  embeddings :: "embedding_row list"

record embedding_input =
  ei_memory :: string
  ei_owner :: string
  ei_model :: string
  ei_dimensions :: nat
  ei_vector :: "rat list"
  ei_hash :: string

definition embedding_clash :: "embedding_row \<Rightarrow> embedding_row \<Rightarrow> bool" where
  "embedding_clash r s \<longleftrightarrow> em_id r = em_id s \<or> (em_memory r = em_memory s \<and> em_model r = em_model s)"

interpretation embedding_ids: keyed_table em_id embedding_clash
  by unfold_locales (simp add: embedding_clash_def)

definition assertVectorDimensions :: "rat list \<Rightarrow> nat \<Rightarrow> app_error + unit" where
  "assertVectorDimensions vector dimensions =
     guard_or (length vector = dimensions)
       (ValidationError (''Vector length '' @ js_nat_string (length vector) @
         '' does not match dimensions '' @ js_nat_string dimensions))"

definition findByMemoryId ::
  "'a embedding_db_scheme \<Rightarrow> string \<Rightarrow> string \<Rightarrow> string \<Rightarrow> embedding_row option" where
  "findByMemoryId db memoryId ownerId modelId =
     sql_first (\<lambda>r. em_memory r = memoryId \<and> em_owner r = ownerId \<and> em_model r = modelId) (embeddings db)"

definition upsertEmbedding ::
  "'a embedding_db_scheme \<Rightarrow> embedding_input \<Rightarrow> mint \<Rightarrow> (app_error + string) \<times> 'a embedding_db_scheme" where
  "upsertEmbedding db input m =
     (case assertVectorDimensions (ei_vector input) (ei_dimensions input) of
        Inl e \<Rightarrow> (Inl e, db)
      | Inr _ \<Rightarrow>
          (case findByMemoryId db (ei_memory input) (ei_owner input) (ei_model input) of
             Some existing \<Rightarrow>
               (Inr (em_id existing),
                db\<lparr>embeddings := sql_update (\<lambda>r. em_id r = em_id existing \<and> em_owner r = ei_owner input)
                    (\<lambda>r. r\<lparr>em_dimensions := ei_dimensions input, em_vector := ei_vector input,
                          em_hash := ei_hash input, em_updated := mint_now m\<rparr>) (embeddings db)\<rparr>)
           | None \<Rightarrow>
               (case sql_insert embedding_clash
                       \<lparr>em_id = mint_id m, em_memory = ei_memory input, em_owner = ei_owner input,
                        em_model = ei_model input, em_dimensions = ei_dimensions input,
                        em_vector = ei_vector input, em_hash = ei_hash input,
                        em_created = mint_now m, em_updated = mint_now m\<rparr> (embeddings db) of
                  Inl e \<Rightarrow> (Inl e, db)
                | Inr t \<Rightarrow> (Inr (mint_id m), db\<lparr>embeddings := t\<rparr>))))"

definition deleteByMemoryId :: "'a embedding_db_scheme \<Rightarrow> string \<Rightarrow> string \<Rightarrow> 'a embedding_db_scheme" where
  "deleteByMemoryId db memoryId ownerId =
     db\<lparr>embeddings := sql_delete (\<lambda>r. em_memory r = memoryId \<and> em_owner r = ownerId) (embeddings db)\<rparr>"

definition deleteEmbeddingsByOwner :: "'a embedding_db_scheme \<Rightarrow> string \<Rightarrow> 'a embedding_db_scheme" where
  "deleteEmbeddingsByOwner db ownerId =
     db\<lparr>embeddings := sql_delete (\<lambda>r. em_owner r = ownerId) (embeddings db)\<rparr>"

subsection \<open>The ledger\<close>

datatype intent_status = Claimed | Completed

record write_intent =
  wi_owner :: string
  wi_request :: string
  wi_operation :: string
  wi_resource_type :: string
  wi_resource :: string
  wi_status :: intent_status
  wi_created :: string

record intent_db = embedding_db +
  intents :: "write_intent list"

text \<open>\<open>ClaimResult\<close>: \<open>claimed: true\<close>, or the stored intent.\<close>

datatype claim_result = NewClaim | ExistingClaim write_intent

definition intent_key :: "write_intent \<Rightarrow> string \<times> string" where
  "intent_key w = (wi_owner w, wi_request w)"

definition intent_clash :: "write_intent \<Rightarrow> write_intent \<Rightarrow> bool" where
  "intent_clash r s \<longleftrightarrow> intent_key r = intent_key s"

interpretation intent_keys: keyed_table intent_key intent_clash
  by unfold_locales (simp add: intent_clash_def)

definition isKeyViolation :: "string \<Rightarrow> bool" where
  "isKeyViolation message \<longleftrightarrow>
     js_includes (js_lower message) ''unique'' \<or> js_includes (js_lower message) ''duplicate key''"

definition getByRequestId :: "'a intent_db_scheme \<Rightarrow> string \<Rightarrow> string \<Rightarrow> write_intent option" where
  "getByRequestId db ownerId requestId =
     sql_first (\<lambda>w. wi_owner w = ownerId \<and> wi_request w = requestId) (intents db)"

definition claim ::
  "string \<Rightarrow> 'a intent_db_scheme \<Rightarrow> string \<Rightarrow> string \<Rightarrow> string \<Rightarrow> string \<Rightarrow> string \<Rightarrow> string
     \<Rightarrow> (app_error + claim_result) \<times> 'a intent_db_scheme" where
  "claim dup db ownerId requestId operation resourceType resourceId now =
     (case sql_insert intent_clash
             \<lparr>wi_owner = ownerId, wi_request = requestId, wi_operation = operation,
              wi_resource_type = resourceType, wi_resource = resourceId, wi_status = Claimed,
              wi_created = now\<rparr> (intents db) of
        Inr t \<Rightarrow> (Inr NewClaim, db\<lparr>intents := t\<rparr>)
      | Inl _ \<Rightarrow>
          if \<not> isKeyViolation dup then (Inl (PlainError dup), db)
          else (case getByRequestId db ownerId requestId of
                  None \<Rightarrow> (Inl (PlainError dup), db)
                | Some w \<Rightarrow> (Inr (ExistingClaim w), db)))"

definition markCompleted :: "'a intent_db_scheme \<Rightarrow> string \<Rightarrow> string \<Rightarrow> 'a intent_db_scheme" where
  "markCompleted db ownerId requestId =
     db\<lparr>intents := sql_update (\<lambda>w. wi_owner w = ownerId \<and> wi_request w = requestId)
         (\<lambda>w. w\<lparr>wi_status := Completed\<rparr>) (intents db)\<rparr>"

definition expired_intent :: "string \<Rightarrow> intent_status \<Rightarrow> string \<Rightarrow> write_intent \<Rightarrow> bool" where
  "expired_intent ownerId st cutoff w \<longleftrightarrow>
     wi_owner w = ownerId \<and> wi_status w = st \<and> wi_created w < cutoff"

definition deleteExpiredCompleted :: "'a intent_db_scheme \<Rightarrow> string \<Rightarrow> string \<Rightarrow> nat \<times> 'a intent_db_scheme" where
  "deleteExpiredCompleted db ownerId cutoff =
     (sql_count (expired_intent ownerId Completed cutoff) (intents db),
      db\<lparr>intents := sql_delete (expired_intent ownerId Completed cutoff) (intents db)\<rparr>)"

definition countExpiredCompleted :: "'a intent_db_scheme \<Rightarrow> string \<Rightarrow> string \<Rightarrow> nat" where
  "countExpiredCompleted db ownerId cutoff =
     sql_count (expired_intent ownerId Completed cutoff) (intents db)"

definition listExpiredClaimed :: "'a intent_db_scheme \<Rightarrow> string \<Rightarrow> string \<Rightarrow> write_intent list" where
  "listExpiredClaimed db ownerId cutoff =
     sql_select (expired_intent ownerId Claimed cutoff) (intents db)"

definition deleteByRequestId :: "'a intent_db_scheme \<Rightarrow> string \<Rightarrow> string \<Rightarrow> 'a intent_db_scheme" where
  "deleteByRequestId db ownerId requestId =
     db\<lparr>intents := sql_delete (\<lambda>w. wi_owner w = ownerId \<and> wi_request w = requestId) (intents db)\<rparr>"

subsection \<open>The cleanup task\<close>

record cleanup_counts =
  cc_removed :: nat
  cc_resolved :: nat
  cc_orphans :: nat

record cleanup_result =
  cr_scanned :: nat
  cr_changed :: nat
  cr_counts :: cleanup_counts

fun cleanup_loop ::
  "'a intent_db_scheme \<Rightarrow> string \<Rightarrow> bool \<Rightarrow> cleanup_counts \<Rightarrow> write_intent list
     \<Rightarrow> cleanup_counts \<times> 'a intent_db_scheme" where
  "cleanup_loop db ownerId dryRun n [] = (n, db)"
| "cleanup_loop db ownerId dryRun n (w # ws) =
     (case findById db (wi_resource w) ownerId None of
        None \<Rightarrow> cleanup_loop db ownerId dryRun (n\<lparr>cc_orphans := cc_orphans n + 1\<rparr>) ws
      | Some _ \<Rightarrow>
          if dryRun then cleanup_loop db ownerId dryRun (n\<lparr>cc_resolved := cc_resolved n + 1\<rparr>) ws
          else cleanup_loop (deleteByRequestId db ownerId (wi_request w)) ownerId dryRun
                 (n\<lparr>cc_resolved := cc_resolved n + 1, cc_removed := cc_removed n + 1\<rparr>) ws)"

definition intentCleanup ::
  "'a intent_db_scheme \<Rightarrow> string \<Rightarrow> string \<Rightarrow> bool \<Rightarrow> cleanup_result \<times> 'a intent_db_scheme" where
  "intentCleanup db ownerId cutoff dryRun =
     (let expiredCompleted = countExpiredCompleted db ownerId cutoff;
          expiredClaimed = listExpiredClaimed db ownerId cutoff
      in case cleanup_loop db ownerId dryRun \<lparr>cc_removed = 0, cc_resolved = 0, cc_orphans = 0\<rparr> expiredClaimed of
           (n, db1) \<Rightarrow>
             (case (if \<not> dryRun \<and> 0 < expiredCompleted then deleteExpiredCompleted db1 ownerId cutoff else (0, db1)) of
                (k, db2) \<Rightarrow>
                  (\<lparr>cr_scanned = expiredCompleted + length expiredClaimed, cr_changed = cc_removed n + k,
                    cr_counts = n\<lparr>cc_removed := cc_removed n + k\<rparr>\<rparr>, db2)))"

subsection \<open>Laws of the ledger\<close>

lemma getByRequestId_key:
  "getByRequestId db ownerId requestId = sql_first (\<lambda>w. intent_key w = (ownerId, requestId)) (intents db)"
  by (simp add: getByRequestId_def intent_key_def)

lemma claim_new:
  assumes "getByRequestId db ownerId requestId = None"
  shows "claim dup db ownerId requestId operation ty rid now =
    (Inr NewClaim, db\<lparr>intents := intents db @
      [\<lparr>wi_owner = ownerId, wi_request = requestId, wi_operation = operation, wi_resource_type = ty,
        wi_resource = rid, wi_status = Claimed, wi_created = now\<rparr>]\<rparr>)"
proof -
  have "\<forall>s \<in> set (intents db). \<not> intent_clash \<lparr>wi_owner = ownerId, wi_request = requestId,
      wi_operation = operation, wi_resource_type = ty, wi_resource = rid, wi_status = Claimed, wi_created = now\<rparr> s"
    using assms by (auto simp: getByRequestId_def intent_clash_def intent_key_def)
  then show ?thesis by (auto simp: claim_def sql_insert_def list_ex_iff)
qed

lemma claim_existing:
  assumes "getByRequestId db ownerId requestId = Some w" "isKeyViolation dup"
  shows "claim dup db ownerId requestId operation ty rid now = (Inr (ExistingClaim w), db)"
proof -
  have "w \<in> set (intents db)" "wi_owner w = ownerId" "wi_request w = requestId"
    using sql_first_SomeD [OF assms(1) [unfolded getByRequestId_def]] by auto
  then have "list_ex (intent_clash \<lparr>wi_owner = ownerId, wi_request = requestId, wi_operation = operation,
      wi_resource_type = ty, wi_resource = rid, wi_status = Claimed, wi_created = now\<rparr>) (intents db)"
    by (auto simp: list_ex_iff intent_clash_def intent_key_def)
  with assms show ?thesis by (simp add: claim_def sql_insert_def)
qed

lemma getByRequestId_mark:
  "getByRequestId (markCompleted db o' q') ownerId requestId =
    map_option (\<lambda>w. if wi_owner w = o' \<and> wi_request w = q' then w\<lparr>wi_status := Completed\<rparr> else w)
      (getByRequestId db ownerId requestId)"
  by (simp add: getByRequestId_def markCompleted_def sql_first_update)

lemma key_violation_texts:
  "isKeyViolation ''UNIQUE constraint failed''"
  "isKeyViolation ''duplicate key value violates unique constraint''"
  by code_simp+


lemma findById_memories: "memories db = memories db' \<Longrightarrow> findById db i o' w = findById db' i o' w"
  by (simp add: findById_def)

lemma cleanup_loop_intents:
  assumes "cleanup_loop db ownerId False n ws = (n', db')"
  shows "memories db' = memories db \<and>
    intents db' = filter (\<lambda>w. \<not> (wi_owner w = ownerId \<and> (\<exists>v \<in> set ws. wi_request w = wi_request v \<and>
      findById db (wi_resource v) ownerId None \<noteq> None))) (intents db)"
  using assms
proof (induction ws arbitrary: n db)
  case Nil
  then show ?case by simp
next
  case (Cons w ws)
  show ?case
  proof (cases "findById db (wi_resource w) ownerId None")
    case None
    with Cons.prems Cons.IH [of db] show ?thesis by simp
  next
    case (Some m)
    let ?db = "deleteByRequestId db ownerId (wi_request w)"
    have same: "findById ?db i ownerId None = findById db i ownerId None" for i
      by (rule findById_memories) (simp add: deleteByRequestId_def)
    from Cons.prems Some have "cleanup_loop ?db ownerId False
        (n\<lparr>cc_resolved := cc_resolved n + 1, cc_removed := cc_removed n + 1\<rparr>) ws = (n', db')" by simp
    from Cons.IH [OF this] Some show ?thesis
      unfolding same by (auto simp: deleteByRequestId_def sql_delete_def intro!: filter_cong)
  qed
qed

lemma cleanup_loop_dry:
  "snd (cleanup_loop db ownerId True n ws) = db \<and> cc_removed (fst (cleanup_loop db ownerId True n ws)) = cc_removed n"
  by (induction ws arbitrary: n) (auto split: option.splits)

lemma intent_unique_key:
  assumes "intent_keys.unique t" "v \<in> set t" "w \<in> set t" "intent_key v = intent_key w"
  shows "v = w"
  using assms by (auto simp: intent_keys.unique_def distinct_map inj_on_def)

text \<open>
  The cleanup task deletes exactly the intents that no retry can need: the expired completed ones,
  and those expired claims whose memory exists. Every other intent stays, an orphaned claim
  (expired, its memory missing) among them, and no memory is touched.
\<close>

theorem intentCleanup_keeps_orphans:
  assumes "intent_keys.unique (intents db)" and "intentCleanup db ownerId cutoff False = (res, db')"
  shows "memories db' = memories db \<and> intents db' = filter (\<lambda>w. \<not> (expired_intent ownerId Completed cutoff w \<or>
    (expired_intent ownerId Claimed cutoff w \<and> findById db (wi_resource w) ownerId None \<noteq> None))) (intents db)"
proof -
  let ?ws = "listExpiredClaimed db ownerId cutoff"
  obtain n db1 where loop: "cleanup_loop db ownerId False \<lparr>cc_removed = 0, cc_resolved = 0, cc_orphans = 0\<rparr> ?ws = (n, db1)"
    by fastforce
  from cleanup_loop_intents [OF loop] have mem: "memories db1 = memories db"
    and int1: "intents db1 = filter (\<lambda>w. \<not> (wi_owner w = ownerId \<and> (\<exists>v \<in> set ?ws. wi_request w = wi_request v \<and>
      findById db (wi_resource v) ownerId None \<noteq> None))) (intents db)" by blast+
  have key: "(wi_owner w = ownerId \<and> (\<exists>v \<in> set ?ws. wi_request w = wi_request v \<and>
      findById db (wi_resource v) ownerId None \<noteq> None)) \<longleftrightarrow>
    (expired_intent ownerId Claimed cutoff w \<and> findById db (wi_resource w) ownerId None \<noteq> None)"
    if "w \<in> set (intents db)" for w
  proof
    assume "wi_owner w = ownerId \<and> (\<exists>v \<in> set ?ws. wi_request w = wi_request v \<and>
      findById db (wi_resource v) ownerId None \<noteq> None)"
    then obtain v where v: "v \<in> set (intents db)" "expired_intent ownerId Claimed cutoff v"
      "wi_owner w = ownerId" "wi_request w = wi_request v" "findById db (wi_resource v) ownerId None \<noteq> None"
      by (auto simp: listExpiredClaimed_def sql_simps)
    then have "v = w" using intent_unique_key [OF assms(1) v(1) that]
      by (simp add: intent_key_def expired_intent_def)
    with v show "expired_intent ownerId Claimed cutoff w \<and> findById db (wi_resource w) ownerId None \<noteq> None" by simp
  next
    assume "expired_intent ownerId Claimed cutoff w \<and> findById db (wi_resource w) ownerId None \<noteq> None"
    with that show "wi_owner w = ownerId \<and> (\<exists>v \<in> set ?ws. wi_request w = wi_request v \<and>
      findById db (wi_resource v) ownerId None \<noteq> None)"
      by (auto simp: listExpiredClaimed_def sql_simps expired_intent_def)
  qed
  have int1': "intents db1 = filter (\<lambda>w. \<not> (expired_intent ownerId Claimed cutoff w \<and>
      findById db (wi_resource w) ownerId None \<noteq> None)) (intents db)"
    unfolding int1 using key by (intro filter_cong) auto
  have final: "intents db' = sql_delete (expired_intent ownerId Completed cutoff) (intents db1) \<and> memories db' = memories db1"
  proof (cases "0 < countExpiredCompleted db ownerId cutoff")
    case True
    with assms(2) loop show ?thesis by (auto simp: intentCleanup_def Let_def deleteExpiredCompleted_def)
  next
    case False
    then have "\<forall>w \<in> set (intents db). \<not> expired_intent ownerId Completed cutoff w"
      by (simp add: countExpiredCompleted_def)
    then have "sql_delete (expired_intent ownerId Completed cutoff) (intents db1) = intents db1"
      by (auto simp: sql_delete_def int1' intro!: filter_cong)
    with False assms(2) loop show ?thesis by (auto simp: intentCleanup_def Let_def)
  qed
  then show ?thesis unfolding int1' mem by (auto simp: sql_delete_def intro!: filter_cong)
qed

definition sample_intent :: "string \<Rightarrow> string \<Rightarrow> intent_status \<Rightarrow> write_intent" where
  "sample_intent req res st =
     \<lparr>wi_owner = ''o'', wi_request = req, wi_operation = ''create'', wi_resource_type = ''memory'',
      wi_resource = res, wi_status = st, wi_created = ''2026-01-01''\<rparr>"

definition sample_ledger :: intent_db where
  "sample_ledger =
     \<lparr>memories = memories (sample_memories [(''1'', ''NOTE-0001'', ''a'')]), embeddings = [],
      intents = [sample_intent ''p'' ''1'' Claimed, sample_intent ''q'' ''2'' Claimed, sample_intent ''r'' ''3'' Completed]\<rparr>"

theorem intentCleanup_keeps_orphans_witness:
  "memories (snd (intentCleanup sample_ledger ''o'' ''2026-02-01'' False)) = memories sample_ledger \<and>
   intents (snd (intentCleanup sample_ledger ''o'' ''2026-02-01'' False)) =
     filter (\<lambda>w. \<not> (expired_intent ''o'' Completed ''2026-02-01'' w \<or>
       (expired_intent ''o'' Claimed ''2026-02-01'' w \<and> findById sample_ledger (wi_resource w) ''o'' None \<noteq> None)))
       (intents sample_ledger)"
proof -
  have "intent_keys.unique (intents sample_ledger)"
    by (simp add: intent_keys.unique_def sample_ledger_def sample_intent_def intent_key_def)
  then show ?thesis by (rule intentCleanup_keeps_orphans) (rule prod.collapse [symmetric])
qed

end
