(* ===== verification/Sync.thy ===== *)
theory Sync
  imports Write_Intents
begin

section \<open>Reconciliation of concurrent writes\<close>

text \<open>
  \<^verbatim>\<open>src/src/sync\<close> (stale detection with its conflict audit, the accepting manager) and the
  conflict strategies of \<^verbatim>\<open>src/src/client-sync\<close>, with the conflict and cursor tables of
  \<^verbatim>\<open>src/src/infrastructure/client-sync\<close>. JSON payloads are kept as the object they encode.
\<close>

datatype write_operation = CreateOp | UpdateOp | DeleteOp

record memory_write_event =
  ev_scope :: memory_scope
  ev_memory :: string
  ev_operation :: write_operation
  ev_expected :: "string option"

datatype sync_result = Accept | Reject

record push_data =
  pd_title :: "string option"
  pd_project :: "string option"
  pd_content :: "string option"
  pd_summary :: "string option"
  pd_tags :: "string list option"
  pd_favorite :: "bool option"

record push_change =
  pc_memory :: string
  pc_operation :: write_operation
  pc_expected :: "string option"
  pc_data :: "push_data option"

datatype conflict_payload =
    StaleWrite write_operation "string option" "string option"
  | PushedChange push_change

datatype conflict_status = Pending | Resolved

record sync_audit =
  sa_owner :: string
  sa_memory :: string
  sa_operation :: write_operation
  sa_expected :: "string option"
  sa_actual :: string
  sa_workspace :: "string option"
  sa_agent :: "string option"
  sa_created :: string

record sync_conflict =
  sc_id :: string
  sc_owner :: string
  sc_workspace :: "string option"
  sc_platform :: string
  sc_memory :: string
  sc_payload :: conflict_payload
  sc_status :: conflict_status
  sc_created :: string

record sync_cursor =
  cu_id :: string
  cu_owner :: string
  cu_workspace :: "string option"
  cu_platform :: string
  cu_value :: string
  cu_updated :: string

record sync_db = intent_db +
  sync_audits :: "sync_audit list"
  sync_conflicts :: "sync_conflict list"
  sync_cursors :: "sync_cursor list"

subsection \<open>Stale detection\<close>

record stale_detection =
  sd_stale :: bool
  sd_actual :: "string option"

definition shouldCheckStale :: "memory_write_event \<Rightarrow> bool" where
  "shouldCheckStale ev \<longleftrightarrow>
     truthy (ev_expected ev) \<noteq> None \<and> (ev_operation ev = UpdateOp \<or> ev_operation ev = DeleteOp)"

definition getMemoryUpdatedAt :: "'a memory_db_scheme \<Rightarrow> memory_write_event \<Rightarrow> string option" where
  "getMemoryUpdatedAt db ev =
     map_option m_updated (sql_first (\<lambda>r. m_id r = ev_memory ev \<and> m_owner r = ms_owner (ev_scope ev) \<and>
       \<not> m_archived r \<and> (hasWorkspaceScope (ev_scope ev) \<longrightarrow> mr_workspace r = ms_workspace (ev_scope ev)))
       (memories db))"

definition detect ::
  "memory_write_event \<Rightarrow> string \<Rightarrow> 'a sync_db_scheme \<Rightarrow> stale_detection \<times> 'a sync_db_scheme" where
  "detect ev now db =
     (if \<not> shouldCheckStale ev then (\<lparr>sd_stale = False, sd_actual = None\<rparr>, db)
      else let actual = getMemoryUpdatedAt db ev
           in (case truthy actual of
                 Some a \<Rightarrow>
                   if Some a \<noteq> ev_expected ev
                   then (\<lparr>sd_stale = True, sd_actual = Some a\<rparr>,
                         db\<lparr>sync_audits := sync_audits db @
                           [\<lparr>sa_owner = ms_owner (ev_scope ev), sa_memory = ev_memory ev,
                             sa_operation = ev_operation ev, sa_expected = ev_expected ev, sa_actual = a,
                             sa_workspace = ms_workspace (ev_scope ev), sa_agent = ms_agent (ev_scope ev),
                             sa_created = now\<rparr>]\<rparr>)
                   else (\<lparr>sd_stale = False, sd_actual = Some a\<rparr>, db)
               | None \<Rightarrow> (\<lparr>sd_stale = False, sd_actual = actual\<rparr>, db)))"

subsection \<open>Conflict and cursor stores\<close>

record conflict_insert =
  ci_owner :: string
  ci_workspace :: "string option"
  ci_platform :: string
  ci_memory :: string
  ci_payload :: conflict_payload

definition conflict_clash :: "sync_conflict \<Rightarrow> sync_conflict \<Rightarrow> bool" where
  "conflict_clash r s \<longleftrightarrow> sc_id r = sc_id s"

interpretation conflict_ids: keyed_table sc_id conflict_clash
  by unfold_locales (simp add: conflict_clash_def)

definition insertConflict ::
  "conflict_insert \<Rightarrow> mint \<Rightarrow> 'a sync_db_scheme \<Rightarrow> (app_error + sync_conflict) \<times> 'a sync_db_scheme" where
  "insertConflict rec m db =
     (let row = \<lparr>sc_id = mint_id m, sc_owner = ci_owner rec, sc_workspace = ci_workspace rec,
                 sc_platform = js_lower (ci_platform rec), sc_memory = ci_memory rec,
                 sc_payload = ci_payload rec, sc_status = Pending, sc_created = mint_now m\<rparr>
      in case sql_insert conflict_clash row (sync_conflicts db) of
           Inl e \<Rightarrow> (Inl e, db) | Inr t \<Rightarrow> (Inr row, db\<lparr>sync_conflicts := t\<rparr>))"

definition pendingFilter :: "string \<Rightarrow> string option \<Rightarrow> string option \<Rightarrow> sync_conflict \<Rightarrow> bool" where
  "pendingFilter ownerId workspaceId platformId c \<longleftrightarrow>
     sc_owner c = ownerId \<and> sc_status c = Pending \<and> sc_workspace c = workspaceId \<and>
     (case truthy platformId of None \<Rightarrow> True | Some p \<Rightarrow> sc_platform c = js_lower p)"

definition countPending :: "'a sync_db_scheme \<Rightarrow> string \<Rightarrow> string option \<Rightarrow> string option \<Rightarrow> nat" where
  "countPending db ownerId workspaceId platformId =
     sql_count (pendingFilter ownerId workspaceId platformId) (sync_conflicts db)"

definition listPending ::
  "'a sync_db_scheme \<Rightarrow> string \<Rightarrow> string option \<Rightarrow> string option \<Rightarrow> nat \<Rightarrow> sync_conflict list" where
  "listPending db ownerId workspaceId platformId limit =
     page limit 0 (order_asc sc_created
       (sql_select (pendingFilter ownerId workspaceId platformId) (sync_conflicts db)))"

definition updateConflictStatus ::
  "'a sync_db_scheme \<Rightarrow> string \<Rightarrow> string \<Rightarrow> conflict_status \<Rightarrow> 'a sync_db_scheme" where
  "updateConflictStatus db i ownerId st =
     db\<lparr>sync_conflicts := sql_update (\<lambda>c. sc_id c = i \<and> sc_owner c = ownerId)
         (\<lambda>c. c\<lparr>sc_status := st\<rparr>) (sync_conflicts db)\<rparr>"

definition cursor_hit :: "string \<Rightarrow> string option \<Rightarrow> string \<Rightarrow> sync_cursor \<Rightarrow> bool" where
  "cursor_hit ownerId workspaceId platformId c \<longleftrightarrow>
     cu_owner c = ownerId \<and> cu_platform c = js_lower platformId \<and> cu_workspace c = workspaceId"

definition getCursor :: "'a sync_db_scheme \<Rightarrow> string \<Rightarrow> string option \<Rightarrow> string \<Rightarrow> sync_cursor option" where
  "getCursor db ownerId workspaceId platformId =
     sql_first (cursor_hit ownerId workspaceId platformId) (sync_cursors db)"

definition cursor_clash :: "sync_cursor \<Rightarrow> sync_cursor \<Rightarrow> bool" where
  "cursor_clash r s \<longleftrightarrow> cu_id r = cu_id s \<or>
     (cu_owner r = cu_owner s \<and> cu_platform r = cu_platform s \<and> cu_workspace r \<noteq> None \<and>
      cu_workspace r = cu_workspace s)"

interpretation cursor_ids: keyed_table cu_id cursor_clash
  by unfold_locales (simp add: cursor_clash_def)

definition upsertCursor ::
  "string \<Rightarrow> string option \<Rightarrow> string \<Rightarrow> string \<Rightarrow> mint \<Rightarrow> 'a sync_db_scheme
     \<Rightarrow> (app_error + unit) \<times> 'a sync_db_scheme" where
  "upsertCursor ownerId workspaceId platformId value m db =
     (if getCursor db ownerId workspaceId platformId \<noteq> None
      then (Inr (), db\<lparr>sync_cursors := sql_update (cursor_hit ownerId workspaceId platformId)
              (\<lambda>c. c\<lparr>cu_value := value, cu_updated := mint_now m\<rparr>) (sync_cursors db)\<rparr>)
      else (case sql_insert cursor_clash
                   \<lparr>cu_id = mint_id m, cu_owner = ownerId, cu_workspace = workspaceId,
                    cu_platform = js_lower platformId, cu_value = value, cu_updated = mint_now m\<rparr>
                   (sync_cursors db) of
              Inl e \<Rightarrow> (Inl e, db) | Inr t \<Rightarrow> (Inr (), db\<lparr>sync_cursors := t\<rparr>)))"

subsection \<open>Managers and resolvers\<close>

type_synonym 'd sync_manager = "memory_write_event \<Rightarrow> mint \<Rightarrow> 'd \<Rightarrow> (app_error + sync_result) \<times> 'd"

definition acceptSyncManager :: "'a sync_db_scheme sync_manager" where
  "acceptSyncManager ev m db = (Inr Accept, snd (detect ev (mint_now m) db))"

record conflict_context =
  cx_event :: memory_write_event
  cx_actual :: "string option"
  cx_stale :: bool

record conflict_resolution =
  rs_result :: sync_result
  rs_queue :: bool

definition LastWriteWinsResolver :: "conflict_context \<Rightarrow> conflict_resolution" where
  "LastWriteWinsResolver ctx =
     (if \<not> cx_stale ctx then \<lparr>rs_result = Accept, rs_queue = False\<rparr>
      else \<lparr>rs_result = Reject, rs_queue = False\<rparr>)"

definition FieldMergeResolver :: "conflict_context \<Rightarrow> conflict_resolution" where
  "FieldMergeResolver ctx = \<lparr>rs_result = Accept, rs_queue = False\<rparr>"

definition ManualQueueResolver :: "conflict_context \<Rightarrow> conflict_resolution" where
  "ManualQueueResolver ctx =
     (if \<not> cx_stale ctx then \<lparr>rs_result = Accept, rs_queue = False\<rparr>
      else \<lparr>rs_result = Reject, rs_queue = True\<rparr>)"

definition conflictAwareSyncManager ::
  "(conflict_context \<Rightarrow> conflict_resolution) \<Rightarrow> bool \<Rightarrow> 'a sync_db_scheme sync_manager" where
  "conflictAwareSyncManager resolve withStore ev m db =
     (case detect ev (mint_now m) db of
        (det, db1) \<Rightarrow>
          let resolution = resolve \<lparr>cx_event = ev, cx_actual = sd_actual det, cx_stale = sd_stale det\<rparr>
          in if rs_queue resolution \<and> sd_stale det \<and> withStore
             then then_st (insertConflict
                    \<lparr>ci_owner = ms_owner (ev_scope ev), ci_workspace = ms_workspace (ev_scope ev),
                     ci_platform = nullish (ms_agent (ev_scope ev)) ''unknown'', ci_memory = ev_memory ev,
                     ci_payload = StaleWrite (ev_operation ev) (ev_expected ev) (sd_actual det)\<rparr> m db1)
                  (\<lambda>_ db2. (Inr (rs_result resolution), db2))
             else (Inr (rs_result resolution), db1))"

text \<open>\<open>createConflictResolver\<close> of \<^verbatim>\<open>src/src/composition/create-multi-client-sync-ports.ts\<close>.\<close>

datatype sync_strategy = LWW | FieldMerge | ManualQueue

fun createConflictResolver :: "sync_strategy \<Rightarrow> conflict_context \<Rightarrow> conflict_resolution" where
  "createConflictResolver FieldMerge = FieldMergeResolver"
| "createConflictResolver ManualQueue = ManualQueueResolver"
| "createConflictResolver LWW = LastWriteWinsResolver"


subsection \<open>The contract of a sync manager\<close>

text \<open>A write is stale when the caller names a time other than that of the stored row.\<close>

definition stale_write :: "memory_write_event \<Rightarrow> 'a memory_db_scheme \<Rightarrow> bool" where
  "stale_write ev db \<longleftrightarrow> shouldCheckStale ev \<and>
     (\<exists>a. truthy (getMemoryUpdatedAt db ev) = Some a \<and> ev_expected ev \<noteq> Some a)"

definition same_store :: "'a sync_db_scheme \<Rightarrow> 'a sync_db_scheme \<Rightarrow> bool" where
  "same_store db db' \<longleftrightarrow> memories db' = memories db \<and> embeddings db' = embeddings db \<and>
     intents db' = intents db \<and> sync_cursors db' = sync_cursors db"

lemma same_store_refl [simp]: "same_store db db"
  by (simp add: same_store_def)

lemma same_store_trans: "same_store a b \<Longrightarrow> same_store b c \<Longrightarrow> same_store a c"
  by (simp add: same_store_def)

lemma detect_stale: "sd_stale (fst (detect ev now db)) \<longleftrightarrow> stale_write ev db"
  by (auto simp: detect_def stale_write_def Let_def split: option.splits)

lemma detect_fresh: "\<not> stale_write ev db \<Longrightarrow> snd (detect ev now db) = db"
  by (auto simp: detect_def stale_write_def Let_def split: option.splits)

lemma detect_frame: "same_store db (snd (detect ev now db)) \<and> sync_conflicts (snd (detect ev now db)) = sync_conflicts db"
  by (auto simp: detect_def same_store_def Let_def split: option.splits)

text \<open>A stale write leaves one audit record, with both times.\<close>

lemma detect_stale_audit:
  assumes "stale_write ev db"
  shows "\<exists>a. sa_expected a = ev_expected ev \<and> Some (sa_actual a) = getMemoryUpdatedAt db ev \<and>
    sa_memory a = ev_memory ev \<and> sa_owner a = ms_owner (ev_scope ev) \<and>
    sync_audits (snd (detect ev now db)) = sync_audits db @ [a]"
proof -
  from assms obtain a where a: "shouldCheckStale ev" "truthy (getMemoryUpdatedAt db ev) = Some a"
    "ev_expected ev \<noteq> Some a" unfolding stale_write_def by blast
  then have "getMemoryUpdatedAt db ev = Some a" by (simp add: truthy_eq_Some)
  with a show ?thesis by (auto simp: detect_def)
qed

lemma insertConflict_frame:
  "insertConflict rec m db = (r, db') \<Longrightarrow> same_store db db' \<and> sync_audits db' = sync_audits db"
  by (auto simp: insertConflict_def same_store_def Let_def split: sum.splits)

text \<open>
  What the memory service relies on: a reconciliation touches neither memories nor the ledger,
  and accepts a write that is not stale without writing anything.
\<close>

locale sync_reconciler =
  fixes reconcile :: "'a sync_db_scheme sync_manager"
  assumes frame: "reconcile ev m db = (r, db') \<Longrightarrow> same_store db db'"
    and fresh: "\<not> stale_write ev db \<Longrightarrow> reconcile ev m db = (Inr Accept, db)"
begin

lemma reconcile_create: "ev_operation ev = CreateOp \<Longrightarrow> reconcile ev m db = (Inr Accept, db)"
  by (rule fresh) (simp add: stale_write_def shouldCheckStale_def)

lemma reconcile_memories: "memories (snd (reconcile ev m db)) = memories db"
  using frame [of ev m db] by (cases "reconcile ev m db") (simp add: same_store_def)

end

interpretation accept_manager: sync_reconciler acceptSyncManager
proof unfold_locales
  fix ev m db r db'
  show "acceptSyncManager ev m db = (r, db') \<Longrightarrow> same_store db db'"
    using detect_frame by (auto simp: acceptSyncManager_def)
  show "\<not> stale_write ev db \<Longrightarrow> acceptSyncManager ev m db = (Inr Accept, db)"
    by (simp add: acceptSyncManager_def detect_fresh)
qed

text \<open>The strategies: each accepts what is not stale, and queues only what it refuses.\<close>

locale conflict_resolver =
  fixes resolve :: "conflict_context \<Rightarrow> conflict_resolution"
  assumes accepts_fresh: "\<not> cx_stale c \<Longrightarrow> resolve c = \<lparr>rs_result = Accept, rs_queue = False\<rparr>"
    and queues_refused: "rs_queue (resolve c) \<Longrightarrow> rs_result (resolve c) = Reject"
begin

lemma aware_frame:
  assumes "conflictAwareSyncManager resolve withStore ev m db = (r, db')"
  shows "same_store db db'"
proof -
  obtain det db1 where det: "detect ev (mint_now m) db = (det, db1)" by fastforce
  with detect_frame [of db ev "mint_now m"] have f: "same_store db db1" by simp
  show ?thesis using assms f
    by (auto simp: conflictAwareSyncManager_def det Let_def split: if_splits
        elim!: then_st_cases dest!: insertConflict_frame intro: same_store_trans)
qed

lemma aware_fresh:
  assumes "\<not> stale_write ev db"
  shows "conflictAwareSyncManager resolve withStore ev m db = (Inr Accept, db)"
proof -
  obtain det db1 where det: "detect ev (mint_now m) db = (det, db1)" by fastforce
  with assms detect_stale [of ev "mint_now m" db] detect_fresh [of ev db "mint_now m"]
  have "\<not> sd_stale det" "db1 = db" by simp_all
  then show ?thesis by (simp add: conflictAwareSyncManager_def det accepts_fresh)
qed

lemma aware_accepted_unqueued:
  assumes "conflictAwareSyncManager resolve withStore ev m db = (Inr Accept, db')"
  shows "sync_conflicts db' = sync_conflicts db"
proof -
  obtain det db1 where det: "detect ev (mint_now m) db = (det, db1)" by fastforce
  with detect_frame [of db ev "mint_now m"] have f: "sync_conflicts db1 = sync_conflicts db" by simp
  let ?c = "\<lparr>cx_event = ev, cx_actual = sd_actual det, cx_stale = sd_stale det\<rparr>"
  have "\<not> rs_queue (resolve ?c)"
  proof
    assume q: "rs_queue (resolve ?c)"
    then have "rs_result (resolve ?c) = Reject" by (rule queues_refused)
    with assms show False
      by (auto simp: conflictAwareSyncManager_def det Let_def then_st_Inr split: if_splits)
  qed
  with assms f show ?thesis by (simp add: conflictAwareSyncManager_def det Let_def)
qed

end

sublocale conflict_resolver \<subseteq> aware: sync_reconciler "conflictAwareSyncManager resolve withStore" for withStore
  by unfold_locales (rule aware_frame, assumption, rule aware_fresh)

interpretation lww: conflict_resolver LastWriteWinsResolver
  by unfold_locales (auto simp: LastWriteWinsResolver_def split: if_splits)

interpretation field_merge: conflict_resolver FieldMergeResolver
  by unfold_locales (auto simp: FieldMergeResolver_def)

interpretation manual_queue: conflict_resolver ManualQueueResolver
  by unfold_locales (auto simp: ManualQueueResolver_def split: if_splits)

interpretation strategy: conflict_resolver "createConflictResolver st" for st
  by (cases st) (simp_all add: lww.conflict_resolver_axioms field_merge.conflict_resolver_axioms
      manual_queue.conflict_resolver_axioms)

end
