(* ===== verification/Search_Filters.thy ===== *)
theory Search_Filters
  imports Memory_Laws
begin

section \<open>Conditions of a search\<close>

text \<open>
  How a search turns its input into \<open>LIKE\<close> conditions: \<^verbatim>\<open>src/src/repositories/sql-substring-match.ts\<close>,
  the filter grammar and the ignore patterns of \<^verbatim>\<open>src/src/search/precision\<close>. A SQL fragment is the
  predicate its text and parameters denote on a row; \<open>NULL LIKE p\<close> is not true.
  \<^verbatim>\<open>String.localeCompare\<close> is the parameter \<open>lc\<close>.
\<close>

subsection \<open>JSON columns as text\<close>

definition hex_digit :: "nat \<Rightarrow> char" where
  "hex_digit n = (if n < 10 then char_of (48 + n) else char_of (87 + n))"

definition json_char :: "char \<Rightarrow> string" where
  "json_char c =
     (let n = (of_char c :: nat) in
      if c = CHR 0x22 then [CHR 0x5C, CHR 0x22]
      else if c = CHR 0x5C then [CHR 0x5C, CHR 0x5C]
      else if n = 8 then [CHR 0x5C, CHR ''b''] else if n = 9 then [CHR 0x5C, CHR ''t'']
      else if n = 10 then [CHR 0x5C, CHR ''n''] else if n = 12 then [CHR 0x5C, CHR ''f'']
      else if n = 13 then [CHR 0x5C, CHR ''r'']
      else if n < 32 then [CHR 0x5C] @ ''u00'' @ [hex_digit (n div 16), hex_digit (n mod 16)]
      else [c])"

definition json_string :: "string \<Rightarrow> string" where
  "json_string s = [CHR 0x22] @ concat (map json_char s) @ [CHR 0x22]"

text \<open>\<^verbatim>\<open>tagsToJson\<close>, \<^verbatim>\<open>keywordsToJson\<close> and \<^verbatim>\<open>aliasesToJson\<close> of \<^verbatim>\<open>src/src/utils/memory-mapper.ts\<close>.\<close>

definition tagsToJson :: "string list \<Rightarrow> string" where
  "tagsToJson tags = ''['' @ js_join '','' (map json_string tags) @ '']''"

definition like_opt :: "string \<Rightarrow> string option \<Rightarrow> bool" where
  "like_opt p v = (case v of None \<Rightarrow> False | Some s \<Rightarrow> sql_like p s)"

definition around :: "string \<Rightarrow> string" where
  "around s = ''%'' @ s @ ''%''"

definition tag_pattern :: "string \<Rightarrow> string" where
  "tag_pattern tag = around ([CHR 0x22] @ tag @ [CHR 0x22])"

definition has_tag :: "string \<Rightarrow> memory_row \<Rightarrow> bool" where
  "has_tag tag r \<longleftrightarrow>
     sql_like (tag_pattern tag) (tagsToJson (m_tags r)) \<or> sql_like (tag_pattern tag) (tagsToJson (m_keywords r))"

subsection \<open>Patterns within the limit of D1\<close>

definition D1_MAX_LIKE_PATTERN_BYTES :: nat where "D1_MAX_LIKE_PATTERN_BYTES = 50"
definition D1_MAX_LIKE_LITERAL_BYTES :: nat where "D1_MAX_LIKE_LITERAL_BYTES = D1_MAX_LIKE_PATTERN_BYTES - 2"

definition utf8_bytes :: "char \<Rightarrow> nat" where
  "utf8_bytes c = (if (of_char c :: nat) < 128 then 1 else 2)"

definition utf8ByteLength :: "string \<Rightarrow> nat" where
  "utf8ByteLength s = sum_list (map utf8_bytes s)"

definition likePatternFitsD1 :: "string \<Rightarrow> bool" where
  "likePatternFitsD1 p \<longleftrightarrow> utf8ByteLength p \<le> D1_MAX_LIKE_PATTERN_BYTES"

fun truncate_loop :: "nat \<Rightarrow> string \<Rightarrow> string \<Rightarrow> string" where
  "truncate_loop maxBytes result [] = result"
| "truncate_loop maxBytes result (c # s) =
     (if maxBytes < utf8ByteLength (result @ [c]) then result
      else truncate_loop maxBytes (result @ [c]) s)"

definition truncateToUtf8Bytes :: "string \<Rightarrow> nat \<Rightarrow> string" where
  "truncateToUtf8Bytes value maxBytes =
     (if maxBytes = 0 then []
      else if utf8ByteLength value \<le> maxBytes then value
      else truncate_loop maxBytes [] value)"

text \<open>\<open>[\p{L}\p{N}_.-]\<close> on Latin-1, and the split at the runs of the other characters.\<close>

definition word_char :: "char \<Rightarrow> bool" where
  "word_char c \<longleftrightarrow>
     (let n = (of_char c :: nat) in
      (48 \<le> n \<and> n \<le> 57) \<or> (65 \<le> n \<and> n \<le> 90) \<or> (97 \<le> n \<and> n \<le> 122) \<or>
      n \<in> set [95, 46, 45, 170, 181, 186, 178, 179, 185, 188, 189, 190] \<or>
      (192 \<le> n \<and> n \<noteq> 215 \<and> n \<noteq> 247))"

function split_words :: "string \<Rightarrow> string \<Rightarrow> string list" where
  "split_words word [] = [word]"
| "split_words word (c # s) =
     (if word_char c then split_words (word @ [c]) s
      else word # split_words [] (dropWhile (\<lambda>d. \<not> word_char d) s))"
  by pat_completeness auto

termination split_words
  by (relation "measure (\<lambda>(_, s). length s)") (auto simp: le_imp_less_Suc length_dropWhile_le)

text \<open>
  \<open>[...new Set(xs)]\<close> keeps first occurrences. \<^verbatim>\<open>Array.sort\<close> with a comparator is a stable sort.
\<close>

definition js_set :: "'a list \<Rightarrow> 'a list" where
  "js_set xs = rev (remdups (rev xs))"

fun js_sort_insert :: "('a \<Rightarrow> 'a \<Rightarrow> int) \<Rightarrow> 'a \<Rightarrow> 'a list \<Rightarrow> 'a list" where
  "js_sort_insert cmp x [] = [x]"
| "js_sort_insert cmp x (y # ys) = (if cmp x y \<le> 0 then x # y # ys else y # js_sort_insert cmp x ys)"

definition js_sort :: "('a \<Rightarrow> 'a \<Rightarrow> int) \<Rightarrow> 'a list \<Rightarrow> 'a list" where
  "js_sort cmp xs = foldr (js_sort_insert cmp) xs []"

definition by_length :: "(string \<Rightarrow> string \<Rightarrow> int) \<Rightarrow> string \<Rightarrow> string \<Rightarrow> int" where
  "by_length lc a b =
     (if length b \<noteq> length a then int (length b) - int (length a) else lc a b)"

definition deriveLikeSafeSearchTerms ::
  "(string \<Rightarrow> string \<Rightarrow> int) \<Rightarrow> string \<Rightarrow> nat \<Rightarrow> string list" where
  "deriveLikeSafeSearchTerms lc query maxTerms =
     (let trimmed = js_trim query in
      if trimmed = [] then []
      else if likePatternFitsD1 (around trimmed) then [trimmed]
      else let tokens = filter (\<lambda>t. 1 < length t) (split_words [] trimmed);
               candidates = concat (map (\<lambda>token.
                  if likePatternFitsD1 (around token) then [token]
                  else let t = truncateToUtf8Bytes token D1_MAX_LIKE_LITERAL_BYTES
                       in if t = [] then [] else [t]) tokens);
               uniq = js_set candidates
           in if uniq = []
              then let fallback = truncateToUtf8Bytes trimmed D1_MAX_LIKE_LITERAL_BYTES
                   in if fallback = [] then [] else [fallback]
              else take maxTerms (js_sort (by_length lc) uniq))"

definition safe_pattern :: "string \<Rightarrow> string" where
  "safe_pattern term =
     (if likePatternFitsD1 (around term) then around term
      else around (truncateToUtf8Bytes term D1_MAX_LIKE_LITERAL_BYTES))"

definition match_patterns :: "(string \<Rightarrow> string \<Rightarrow> int) \<Rightarrow> string \<Rightarrow> string list" where
  "match_patterns lc query = map safe_pattern (deriveLikeSafeSearchTerms lc query 12)"

text \<open>The condition \<^verbatim>\<open>buildColumnsSubstringMatch\<close> builds; without terms it is \<open>0\<close>.\<close>

definition buildColumnsSubstringMatch ::
  "(string \<Rightarrow> string \<Rightarrow> int) \<Rightarrow> (memory_row \<Rightarrow> string option) list \<Rightarrow> string \<Rightarrow> memory_row \<Rightarrow> bool" where
  "buildColumnsSubstringMatch lc columns query r \<longleftrightarrow>
     columns \<noteq> [] \<and> list_ex (\<lambda>p. list_ex (\<lambda>col. like_opt p (col r)) columns) (match_patterns lc query)"

subsection \<open>The filter grammar\<close>

datatype tag_mode = OrMode | AndMode

record search_grammar =
  sg_projects :: "string list"
  sg_project_exclude :: "string list"
  sg_path_prefix :: "string list"
  sg_path_exclude :: "string list"
  sg_tags :: "string list"
  sg_tag_exclude :: "string list"
  sg_tag_mode :: "tag_mode option"

text \<open>An absent list and an empty one are not distinguished by the parser; both are \<open>[]\<close> here.\<close>

definition parseSearchFilterGrammar :: "search_grammar option \<Rightarrow> search_grammar option" where
  "parseSearchFilterGrammar input =
     (case input of None \<Rightarrow> None
      | Some g \<Rightarrow>
          if sg_projects g \<noteq> [] \<or> sg_project_exclude g \<noteq> [] \<or> sg_path_prefix g \<noteq> [] \<or>
             sg_path_exclude g \<noteq> [] \<or> sg_tags g \<noteq> [] \<or> sg_tag_exclude g \<noteq> []
          then Some (g\<lparr>sg_tag_mode := Some (nullish (sg_tag_mode g) OrMode)\<rparr>) else None)"

definition strip_dot_slash :: "string \<Rightarrow> string" where
  "strip_dot_slash p = (if js_starts_with p ''./'' then drop 2 p else p)"

definition normalizeSourcePath :: "string \<Rightarrow> string" where
  "normalizeSourcePath path = dropWhile ((=) CHR ''/'') (strip_dot_slash (forward_slashes path))"

definition strip_trailing_slashes :: "string \<Rightarrow> string" where
  "strip_trailing_slashes s = rev (dropWhile ((=) CHR ''/'') (rev s))"

definition sourcePathLikePrefix :: "string \<Rightarrow> string" where
  "sourcePathLikePrefix p = strip_trailing_slashes (normalizeSourcePath p) @ ''/%''"

definition applySearchFilterGrammarToSql :: "search_grammar \<Rightarrow> memory_row \<Rightarrow> bool" where
  "applySearchFilterGrammarToSql g r \<longleftrightarrow>
     (sg_projects g \<noteq> [] \<longrightarrow> list_ex (\<lambda>p. m_project r = p) (sg_projects g)) \<and>
     list_all (\<lambda>p. m_project r \<noteq> p) (sg_project_exclude g) \<and>
     (sg_path_prefix g \<noteq> [] \<longrightarrow>
       list_ex (\<lambda>p. like_opt (sourcePathLikePrefix p) (m_source_path r)) (sg_path_prefix g)) \<and>
     list_all (\<lambda>e. let normalized = strip_trailing_slashes (normalizeSourcePath e)
         in (m_source_path r = None \<or> \<not> like_opt (normalized @ ''/%'') (m_source_path r)) \<and>
            (m_source_path r = None \<or> m_source_path r \<noteq> Some normalized)) (sg_path_exclude g) \<and>
     (sg_tags g \<noteq> [] \<longrightarrow>
       (if sg_tag_mode g = Some AndMode then list_all (\<lambda>t. has_tag t r) (sg_tags g)
        else list_ex (\<lambda>t. has_tag t r) (sg_tags g))) \<and>
     list_all (\<lambda>t. \<not> has_tag t r) (sg_tag_exclude g)"

subsection \<open>Ignore patterns\<close>

definition parseIgnorePatterns :: "string option \<Rightarrow> string list" where
  "parseIgnorePatterns raw =
     (case truthy (map_option js_trim raw) of None \<Rightarrow> []
      | Some _ \<Rightarrow> filter (\<lambda>p. p \<noteq> []) (map js_trim (js_split CHR '','' (nullish raw []))))"

definition normalizePath :: "string \<Rightarrow> string" where
  "normalizePath p = strip_dot_slash (forward_slashes p)"

text \<open>The pieces of the regular expression that \<^verbatim>\<open>globToRegExp\<close> assembles, and its match.\<close>

datatype glob_piece = AnyText | AnySegment | AnyChar | Literal char

definition skip_slash :: "string \<Rightarrow> string" where
  "skip_slash s = (if s \<noteq> [] \<and> hd s = CHR ''/'' then tl s else s)"

lemma length_skip_slash [termination_simp]: "length (skip_slash s) < Suc (Suc (length s))"
  by (cases s) (auto simp: skip_slash_def)

fun globToRegExp :: "string \<Rightarrow> glob_piece list" where
  "globToRegExp [] = []"
| "globToRegExp [c] =
     (if c = CHR ''*'' then [AnySegment] else if c = CHR ''?'' then [AnyChar] else [Literal c])"
| "globToRegExp (c # d # s) =
     (if c = CHR ''*'' \<and> d = CHR ''*'' then AnyText # globToRegExp (skip_slash s)
      else if c = CHR ''*'' then AnySegment # globToRegExp (d # s)
      else if c = CHR ''?'' then AnyChar # globToRegExp (d # s)
      else Literal c # globToRegExp (d # s))"

definition regexp_dot :: "char \<Rightarrow> bool" where
  "regexp_dot c \<longleftrightarrow> c \<noteq> CHR 0x0A \<and> c \<noteq> CHR 0x0D"

fun glob_match :: "glob_piece list \<Rightarrow> string \<Rightarrow> bool" where
  "glob_match [] s = (s = [])"
| "glob_match (AnyText # ps) [] = glob_match ps []"
| "glob_match (AnyText # ps) (c # s) =
     (glob_match ps (c # s) \<or> (regexp_dot c \<and> glob_match (AnyText # ps) s))"
| "glob_match (AnySegment # ps) [] = glob_match ps []"
| "glob_match (AnySegment # ps) (c # s) =
     (glob_match ps (c # s) \<or> (c \<noteq> CHR ''/'' \<and> glob_match (AnySegment # ps) s))"
| "glob_match (AnyChar # ps) [] = False"
| "glob_match (AnyChar # ps) (c # s) = (regexp_dot c \<and> glob_match ps s)"
| "glob_match (Literal d # ps) [] = False"
| "glob_match (Literal d # ps) (c # s) = (js_lower_char d = js_lower_char c \<and> glob_match ps s)"

definition sourcePathMatchesIgnore :: "string option \<Rightarrow> string list \<Rightarrow> bool" where
  "sourcePathMatchesIgnore path patterns \<longleftrightarrow>
     (if patterns = [] then False
      else case truthy path of None \<Rightarrow> False
           | Some p \<Rightarrow> list_ex (\<lambda>g. glob_match (globToRegExp (normalizePath g)) (normalizePath p)) patterns)"

definition js_ends_with :: "string \<Rightarrow> string \<Rightarrow> bool" where
  "js_ends_with s p \<longleftrightarrow> js_starts_with (rev s) (rev p)"

fun remove_double_stars :: "string \<Rightarrow> string" where
  "remove_double_stars (c # d # s) =
     (if c = CHR ''*'' \<and> d = CHR ''*'' then remove_double_stars s else c # remove_double_stars (d # s))"
| "remove_double_stars s = s"

definition ignore_segment :: "string \<Rightarrow> string" where
  "ignore_segment s =
     (let a = (if js_starts_with s ''**/'' then drop 3 s else s);
          b = (if js_ends_with a ''/**'' then take (length a - 3) a else a)
      in remove_double_stars b)"

text \<open>The \<open>LIKE\<close> pattern of an ignore pattern, if it gives one.\<close>

definition ignore_like :: "string \<Rightarrow> string option" where
  "ignore_like p =
     (let normalized = normalizePath p in
      if js_includes normalized ''**'' then
        (let segment = ignore_segment normalized in if segment = [] then None else Some (around segment))
      else if js_ends_with normalized ''*'' then
        Some (strip_trailing_slashes (take (length normalized - 1) normalized) @ ''%'')
      else if js_starts_with normalized ''*'' then Some (''%'' @ drop 1 normalized)
      else Some (normalized @ ''%''))"

definition applyIgnorePatternsToSql :: "string list \<Rightarrow> memory_row \<Rightarrow> bool" where
  "applyIgnorePatternsToSql patterns r \<longleftrightarrow>
     list_all (\<lambda>p. case ignore_like p of None \<Rightarrow> True
        | Some l \<Rightarrow> m_source_path r = None \<or> \<not> like_opt l (m_source_path r)) patterns"


subsection \<open>Patterns stay within the limit\<close>

lemma utf8_append [simp]: "utf8ByteLength (s @ t) = utf8ByteLength s + utf8ByteLength t"
  by (simp add: utf8ByteLength_def)

lemma utf8_around: "utf8ByteLength (around s) = utf8ByteLength s + 2"
  by (simp add: around_def utf8ByteLength_def utf8_bytes_def)

lemma truncate_loop_bound:
  "utf8ByteLength result \<le> n \<Longrightarrow> utf8ByteLength (truncate_loop n result s) \<le> n"
  by (induction n result s rule: truncate_loop.induct) auto

lemma truncate_bound: "utf8ByteLength (truncateToUtf8Bytes s n) \<le> n"
  unfolding truncateToUtf8Bytes_def using truncate_loop_bound [of "[]" n s]
  by (auto simp: utf8ByteLength_def)

text \<open>A truncation cuts at the end and loses nothing that fits.\<close>

lemma truncate_loop_prefix: "\<exists>t. result @ s = truncate_loop n result s @ t"
proof (induction n result s rule: truncate_loop.induct)
  case (2 n result c s)
  then show ?case by (cases "n < utf8ByteLength (result @ [c])") auto
qed simp

lemma truncate_prefix: "\<exists>t. s = truncateToUtf8Bytes s n @ t"
  unfolding truncateToUtf8Bytes_def using truncate_loop_prefix [of "[]" s n] by auto

text \<open>
  No text search sends the database a pattern beyond the limit of D1, whatever the query: each
  \<open>LIKE\<close> pattern that \<^verbatim>\<open>buildColumnsSubstringMatch\<close> binds has at most 50 bytes, and there are at most
  twelve terms.
\<close>

theorem search_patterns_fit:
  "(\<forall>p \<in> set (match_patterns lc query). likePatternFitsD1 p) \<and> length (match_patterns lc query) \<le> 12"
proof -
  have "likePatternFitsD1 (safe_pattern t)" for t
  proof (cases "likePatternFitsD1 (around t)")
    case True
    then show ?thesis by (simp add: safe_pattern_def)
  next
    case False
    have "utf8ByteLength (truncateToUtf8Bytes t D1_MAX_LIKE_LITERAL_BYTES) \<le> D1_MAX_LIKE_LITERAL_BYTES"
      by (rule truncate_bound)
    with False show ?thesis
      by (simp add: safe_pattern_def likePatternFitsD1_def utf8_around D1_MAX_LIKE_LITERAL_BYTES_def
          D1_MAX_LIKE_PATTERN_BYTES_def)
  qed
  moreover have "length (deriveLikeSafeSearchTerms lc query 12) \<le> 12"
    by (auto simp: deriveLikeSafeSearchTerms_def Let_def)
  ultimately show ?thesis by (auto simp: match_patterns_def)
qed

theorem search_patterns_fit_witness:
  "\<exists>p q. match_patterns (\<lambda>_ _. 0) (replicate 60 CHR ''a'' @ '' b ccc'') = [p, q] \<and> likePatternFitsD1 p \<and> likePatternFitsD1 q"
proof -
  let ?ps = "match_patterns (\<lambda>_ _. 0) (replicate 60 CHR ''a'' @ '' b ccc'')"
  have "length ?ps = 2" by code_simp
  then obtain p q where ps: "?ps = [p, q]" by (auto simp: length_Suc_conv numeral_2_eq_2)
  with search_patterns_fit [of "\<lambda>_ _. 0" "replicate 60 CHR ''a'' @ '' b ccc''"] show ?thesis by (metis list.set_intros(1,2))
qed

text \<open>
  The tag conditions are outside that discipline. A tag longer than 46 bytes (the schema
  admits a hundred characters) makes a \<open>LIKE\<close> pattern beyond the limit, which D1 refuses.
\<close>

theorem tag_pattern_exceeds_limit:
  assumes "46 < utf8ByteLength tag"
  shows "\<not> likePatternFitsD1 (tag_pattern tag)"
  using assms
  by (simp add: tag_pattern_def likePatternFitsD1_def utf8_around D1_MAX_LIKE_PATTERN_BYTES_def)
     (simp add: utf8ByteLength_def utf8_bytes_def)

theorem tag_pattern_exceeds_limit_witness:
  "\<not> likePatternFitsD1 (tag_pattern (replicate 60 CHR ''a''))"
  by (rule tag_pattern_exceeds_limit) (simp add: utf8ByteLength_def utf8_bytes_def sum_list_replicate)

subsection \<open>Ignore patterns and their regular expressions\<close>

lemma ascii_lower_star: "ascii_lower d = CHR ''*'' \<longleftrightarrow> d = CHR ''*''"
proof
  assume "ascii_lower d = CHR ''*''"
  then have "of_char (ascii_lower d) = (42 :: nat)" by simp
  then have "\<not> (65 \<le> (of_char d :: nat) \<and> (of_char d :: nat) \<le> 90)"
    by (auto simp: ascii_lower_def Let_def)
  with \<open>ascii_lower d = CHR ''*''\<close> show "d = CHR ''*''" by (auto simp: ascii_lower_def Let_def)
qed (simp add: ascii_lower_def)

lemma sql_like_star: "sql_like p s \<Longrightarrow> CHR ''*'' \<in> set p \<Longrightarrow> CHR ''*'' \<in> set s"
proof (induction p s rule: sql_like.induct)
  case (3 p ps c s)
  have lower: "ascii_lower CHR ''*'' = CHR ''*''" by (simp add: ascii_lower_star)
  from 3 lower show ?case by (auto split: if_splits simp: ascii_lower_star) (metis ascii_lower_star)+
qed auto

lemma glob_literals: "list_all (\<lambda>c. c \<noteq> CHR ''*'' \<and> c \<noteq> CHR ''?'') s \<Longrightarrow> globToRegExp s = map Literal s"
  by (induction s rule: globToRegExp.induct) auto

lemma glob_match_literals: "glob_match (map Literal s) s"
  by (induction s) auto

lemma glob_match_any_text:
  "list_all regexp_dot u \<Longrightarrow> glob_match ps v \<Longrightarrow> glob_match (AnyText # ps) (u @ v)"
proof (induction u)
  case Nil
  then show ?case by (cases v) auto
qed auto

lemma glob_match_any_segment: "glob_match ps v \<Longrightarrow> glob_match (AnySegment # ps) v"
  by (cases v) auto


lemma plain_path:
  assumes "list_all (\<lambda>c. c \<noteq> CHR 0x5C) p" "\<not> js_starts_with p ''./''"
  shows "normalizePath p = p"
proof -
  have "forward_slashes p = p" using assms(1) by (induction p) (auto simp: forward_slashes_def)
  with assms(2) show ?thesis by (simp add: normalizePath_def strip_dot_slash_def)
qed

definition plain_name :: "string \<Rightarrow> bool" where
  "plain_name s \<longleftrightarrow> list_all (\<lambda>c. c \<notin> {CHR ''*'', CHR ''?'', CHR 0x5C, CHR 0x0A, CHR 0x0D}) s"

text \<open>
  An ignore pattern such as \<open>**/*.tmp\<close> ignores nothing in a search. The glob matches every path
  with that ending, but the \<open>LIKE\<close> pattern made from it keeps the inner star as a literal
  character, so the SQL condition admits the row.
\<close>

theorem ignored_path_still_found:
  assumes "plain_name name" "plain_name ending" "\<not> js_starts_with (name @ ending) ''./''" "name \<noteq> []"
    and "m_source_path r = Some (name @ ending)"
  shows "sourcePathMatchesIgnore (m_source_path r) [''**/*'' @ ending] \<and>
    applyIgnorePatternsToSql [''**/*'' @ ending] r"
proof -
  let ?p = "''**/*'' @ ending" and ?path = "name @ ending"
  have n1: "normalizePath ?path = ?path"
    using assms by (intro plain_path) (auto simp: plain_name_def list_all_iff)
  have n2: "normalizePath ?p = ?p"
    using assms(2) by (intro plain_path) (auto simp: plain_name_def list_all_iff js_starts_with_def)
  have lits: "globToRegExp ending = map Literal ending"
    using assms(2) by (intro glob_literals) (auto simp: plain_name_def list_all_iff)
  have glob: "globToRegExp ?p = AnyText # AnySegment # map Literal ending"
  proof (cases ending)
    case Nil
    then show ?thesis by (simp add: skip_slash_def)
  next
    case (Cons c t)
    with assms(2) have "c \<noteq> CHR ''*''" by (simp add: plain_name_def)
    with Cons lits show ?thesis by (simp add: skip_slash_def)
  qed
  from assms(4) have truthy_name: "truthy (Some ?path) = Some ?path" by (simp add: truthy_eq_Some)
  have "list_all regexp_dot name" using assms(1) by (auto simp: plain_name_def list_all_iff regexp_dot_def)
  then have "glob_match (globToRegExp ?p) ?path"
    unfolding glob by (intro glob_match_any_text glob_match_any_segment glob_match_literals)
  then have matched: "sourcePathMatchesIgnore (m_source_path r) [?p]"
    unfolding sourcePathMatchesIgnore_def assms(5) by (simp only: truthy_name option.case if_False list.distinct
        list_ex_iff) (rule bexI [of _ ?p], simp only: n1 n2, simp only: list.set_intros)
  have nostar: "CHR ''*'' \<notin> set ending" using assms(2) by (auto simp: plain_name_def list_all_iff)
  have "\<not> js_starts_with (rev ending @ ''*'') ''**/''"
    using nostar by (cases "rev ending") (auto simp: js_starts_with_iff dest: arg_cong [of _ _ set])
  then have "\<not> js_ends_with (CHR ''*'' # ending) ''/**''" by (simp add: js_ends_with_def)
  then have seg: "ignore_segment ?p = remove_double_stars (CHR ''*'' # ending)"
    by (simp add: ignore_segment_def js_starts_with_def)
  have star: "CHR ''*'' \<in> set (remove_double_stars (CHR ''*'' # ending))"
    using nostar by (cases ending) auto
  have "js_includes ?p ''**''" by (simp add: js_starts_with_def)
  then have like: "ignore_like ?p = Some (around (remove_double_stars (CHR ''*'' # ending)))"
    using star unfolding ignore_like_def Let_def n2 seg by (auto split: if_splits)
  have "\<not> sql_like (around (remove_double_stars (CHR ''*'' # ending))) ?path"
  proof
    assume "sql_like (around (remove_double_stars (CHR ''*'' # ending))) ?path"
    then have "CHR ''*'' \<in> set ?path" by (rule sql_like_star) (simp add: around_def star)
    with assms(1,2) show False by (auto simp: plain_name_def list_all_iff)
  qed
  then have "applyIgnorePatternsToSql [?p] r"
    using like by (simp add: applyIgnorePatternsToSql_def assms(5) like_opt_def)
  with matched show ?thesis by blast
qed


theorem ignored_path_still_found_witness:
  "sourcePathMatchesIgnore (Some ''notes/a.tmp'') [''**/*.tmp''] \<and>
   applyIgnorePatternsToSql [''**/*.tmp'']
     ((insert_row (sample_insert ''1'' ''NOTE-0001'' ''a'') sample_mint)\<lparr>m_source_path := Some ''notes/a.tmp''\<rparr>)"
  using ignored_path_still_found [of "''notes/a''" "''.tmp''"
      "(insert_row (sample_insert ''1'' ''NOTE-0001'' ''a'') sample_mint)\<lparr>m_source_path := Some ''notes/a.tmp''\<rparr>"]
  by (simp add: plain_name_def js_starts_with_def)

end
