(* ===== verification/Memory_Reader.thy ===== *)
theory Memory_Reader
  imports Search_Filters
begin

section \<open>Lists and searches\<close>

text \<open>
  The queries of \<^verbatim>\<open>src/src/repositories/memory-reader.sql.ts\<close> that return more than one row. A query
  is the predicate its conditions denote, then \<open>ORDER BY\<close>, then \<open>LIMIT\<close> and \<open>OFFSET\<close>.
\<close>

record list_filters =
  lf_owner :: string
  lf_workspace :: "string option"
  lf_project :: "string option"
  lf_favorite :: "bool option"
  lf_archived :: "bool option"
  lf_limit :: nat
  lf_offset :: nat

record search_filters =
  sf_owner :: string
  sf_workspace :: "string option"
  sf_query :: "string option"
  sf_tag :: "string option"
  sf_project :: "string option"
  sf_category :: "string option"
  sf_type :: "string option"
  sf_importance :: "int option"
  sf_favorite :: "bool option"
  sf_archived :: "bool option"
  sf_limit :: nat
  sf_offset :: nat
  sf_grammar :: "search_grammar option"
  sf_ignore :: "string list"

record retrieval_filters =
  rf_owner :: string
  rf_workspace :: "string option"
  rf_project :: "string option"
  rf_tags :: "string list"
  rf_levels :: "string list"
  rf_query :: "string option"
  rf_importance :: "int option"
  rf_archived :: "bool option"
  rf_max :: nat

text \<open>A condition that is pushed only when the filter is defined, or only when it is truthy.\<close>

definition when_given :: "'v option \<Rightarrow> ('v \<Rightarrow> bool) \<Rightarrow> bool" where
  "when_given v p = (case v of None \<Rightarrow> True | Some x \<Rightarrow> p x)"

definition archived_filter :: "bool option \<Rightarrow> memory_row \<Rightarrow> bool" where
  "archived_filter a r \<longleftrightarrow> m_archived r = nullish a False"

definition executeSearch ::
  "'a memory_db_scheme \<Rightarrow> (memory_row \<Rightarrow> bool) \<Rightarrow> nat \<Rightarrow> nat \<Rightarrow> memory list \<times> nat" where
  "executeSearch db p limit offset =
     (map rowToMemory (page limit offset (order_desc m_updated (sql_select p (memories db)))),
      sql_count p (memories db))"

definition list_condition :: "list_filters \<Rightarrow> memory_row \<Rightarrow> bool" where
  "list_condition f r \<longleftrightarrow> visible (lf_owner f) (lf_workspace f) r \<and>
     when_given (lf_project f) (\<lambda>p. m_project r = p) \<and>
     when_given (lf_favorite f) (\<lambda>v. m_favorite r = v) \<and>
     archived_filter (lf_archived f) r"

definition findAll :: "'a memory_db_scheme \<Rightarrow> list_filters \<Rightarrow> memory list \<times> nat" where
  "findAll db f = executeSearch db (list_condition f) (lf_limit f) (lf_offset f)"

subsection \<open>Searches\<close>

definition SEARCH_QUERY_COLUMNS :: "(memory_row \<Rightarrow> string option) list" where
  "SEARCH_QUERY_COLUMNS =
     [\<lambda>r. Some (m_title r), \<lambda>r. Some (m_content r), \<lambda>r. Some (m_summary r), \<lambda>r. Some (m_project r),
      m_codename, \<lambda>r. Some (tagsToJson (m_keywords r)), \<lambda>r. Some (tagsToJson (m_aliases r))]"

definition RETRIEVAL_QUERY_COLUMNS :: "(memory_row \<Rightarrow> string option) list" where
  "RETRIEVAL_QUERY_COLUMNS =
     [\<lambda>r. Some (m_title r), \<lambda>r. Some (m_content r), \<lambda>r. Some (m_summary r), \<lambda>r. Some (m_project r),
      m_codename, \<lambda>r. Some (tagsToJson (m_keywords r))]"

definition applyExtendedFilters :: "search_filters \<Rightarrow> memory_row \<Rightarrow> bool" where
  "applyExtendedFilters f r \<longleftrightarrow>
     when_given (truthy (sf_project f)) (\<lambda>p. m_project r = p) \<and>
     when_given (truthy (sf_category f)) (\<lambda>c. m_category r = c) \<and>
     when_given (truthy (sf_type f)) (\<lambda>t. m_type r = t) \<and>
     when_given (sf_importance f) (\<lambda>i. i \<le> m_importance r) \<and>
     when_given (sf_favorite f) (\<lambda>v. m_favorite r = v) \<and>
     archived_filter (sf_archived f) r"

definition searchByTag :: "'a memory_db_scheme \<Rightarrow> string \<Rightarrow> search_filters \<Rightarrow> memory list \<times> nat" where
  "searchByTag db tag f =
     executeSearch db (\<lambda>r. visible (sf_owner f) (sf_workspace f) r \<and> has_tag tag r \<and> applyExtendedFilters f r)
       (sf_limit f) (sf_offset f)"

definition searchByProject :: "'a memory_db_scheme \<Rightarrow> string \<Rightarrow> search_filters \<Rightarrow> memory list \<times> nat" where
  "searchByProject db project f =
     executeSearch db (\<lambda>r. visible (sf_owner f) (sf_workspace f) r \<and> m_project r = project \<and>
       applyExtendedFilters f r) (sf_limit f) (sf_offset f)"

definition searchWithPrecisionFilters ::
  "(string \<Rightarrow> string \<Rightarrow> int) \<Rightarrow> 'a memory_db_scheme \<Rightarrow> search_filters \<Rightarrow> search_grammar option
     \<Rightarrow> memory list \<times> nat" where
  "searchWithPrecisionFilters lc db f grammar =
     executeSearch db (\<lambda>r. visible (sf_owner f) (sf_workspace f) r \<and>
       when_given grammar (\<lambda>g. applySearchFilterGrammarToSql g r) \<and>
       (sf_ignore f \<noteq> [] \<longrightarrow> applyIgnorePatternsToSql (sf_ignore f) r) \<and>
       (case truthy (map_option js_trim (sf_query f)) of
          Some _ \<Rightarrow> buildColumnsSubstringMatch lc SEARCH_QUERY_COLUMNS (nullish (sf_query f) []) r
        | None \<Rightarrow>
            (case truthy (sf_tag f) of
               Some t \<Rightarrow> has_tag t r
             | None \<Rightarrow> when_given (truthy (sf_project f)) (\<lambda>p. m_project r = p))) \<and>
       applyExtendedFilters f r) (sf_limit f) (sf_offset f)"

definition findSearchCandidates ::
  "(string \<Rightarrow> string \<Rightarrow> int) \<Rightarrow> 'a memory_db_scheme \<Rightarrow> search_filters \<Rightarrow> memory list \<times> nat" where
  "findSearchCandidates lc db f =
     (let grammar = parseSearchFilterGrammar (sf_grammar f) in
      if grammar \<noteq> None \<or> sf_ignore f \<noteq> [] then searchWithPrecisionFilters lc db f grammar
      else (case truthy (sf_tag f) of
              Some t \<Rightarrow> searchByTag db t f
            | None \<Rightarrow>
                (case (truthy (sf_project f), truthy (sf_query f)) of
                   (Some p, None) \<Rightarrow> searchByProject db p f
                 | (_, Some q) \<Rightarrow>
                     executeSearch db (\<lambda>r. visible (sf_owner f) (sf_workspace f) r \<and>
                       buildColumnsSubstringMatch lc SEARCH_QUERY_COLUMNS q r \<and> applyExtendedFilters f r)
                       (sf_limit f) (sf_offset f)
                 | (None, None) \<Rightarrow>
                     findAll db \<lparr>lf_owner = sf_owner f, lf_workspace = sf_workspace f, lf_project = sf_project f,
                       lf_favorite = sf_favorite f, lf_archived = sf_archived f, lf_limit = sf_limit f,
                       lf_offset = sf_offset f\<rparr>)))"

subsection \<open>Other lists\<close>

definition distinct_column ::
  "'a memory_db_scheme \<Rightarrow> string \<Rightarrow> string option \<Rightarrow> (memory_row \<Rightarrow> string) \<Rightarrow> string list" where
  "distinct_column db ownerId workspaceId col =
     sort (remdups (map col (sql_select
       (\<lambda>r. visible ownerId workspaceId r \<and> col r \<noteq> [] \<and> \<not> m_archived r) (memories db))))"

definition listDistinctCategories :: "'a memory_db_scheme \<Rightarrow> string \<Rightarrow> string option \<Rightarrow> string list" where
  "listDistinctCategories db ownerId workspaceId = distinct_column db ownerId workspaceId m_category"

definition listProjects :: "'a memory_db_scheme \<Rightarrow> string \<Rightarrow> string option \<Rightarrow> string list" where
  "listProjects db ownerId workspaceId = distinct_column db ownerId workspaceId m_project"

definition listTags :: "'a memory_db_scheme \<Rightarrow> string \<Rightarrow> string option \<Rightarrow> string list" where
  "listTags db ownerId workspaceId =
     sort (js_set (concat (map m_tags (sql_select
       (\<lambda>r. visible ownerId workspaceId r \<and> \<not> m_archived r) (memories db)))))"

definition findAllByOwner :: "'a memory_db_scheme \<Rightarrow> string \<Rightarrow> string option \<Rightarrow> memory list" where
  "findAllByOwner db ownerId workspaceId =
     map rowToMemory (order_asc m_created (sql_select (visible ownerId workspaceId) (memories db)))"

definition findWithoutCodename :: "'a memory_db_scheme \<Rightarrow> string \<Rightarrow> nat \<Rightarrow> memory list" where
  "findWithoutCodename db ownerId limit =
     map rowToMemory (page limit 0 (order_asc m_created (sql_select
       (\<lambda>r. m_owner r = ownerId \<and> truthy (m_codename r) = None) (memories db))))"

definition findWithoutEmbedding :: "'a memory_db_scheme \<Rightarrow> string \<Rightarrow> nat \<Rightarrow> memory list" where
  "findWithoutEmbedding db ownerId limit =
     map rowToMemory (page limit 0 (order_desc m_updated (sql_select
       (\<lambda>r. m_owner r = ownerId \<and> truthy (m_embedding r) = None) (memories db))))"

definition retrieval_condition :: "(string \<Rightarrow> string \<Rightarrow> int) \<Rightarrow> retrieval_filters \<Rightarrow> memory_row \<Rightarrow> bool" where
  "retrieval_condition lc f r \<longleftrightarrow>
     visible (rf_owner f) (rf_workspace f) r \<and> m_archived r = (rf_archived f = Some True) \<and>
     when_given (truthy (rf_project f)) (\<lambda>p. m_project_id r = p) \<and>
     (rf_levels f \<noteq> [] \<longrightarrow> m_level r \<in> set (rf_levels f)) \<and>
     when_given (rf_importance f) (\<lambda>i. i \<le> m_importance r) \<and>
     when_given (truthy (rf_query f)) (\<lambda>q. buildColumnsSubstringMatch lc RETRIEVAL_QUERY_COLUMNS q r) \<and>
     (rf_tags f \<noteq> [] \<longrightarrow> list_ex (\<lambda>t. has_tag t r) (rf_tags f))"

definition findRetrievalCandidates ::
  "(string \<Rightarrow> string \<Rightarrow> int) \<Rightarrow> 'a memory_db_scheme \<Rightarrow> retrieval_filters \<Rightarrow> memory list" where
  "findRetrievalCandidates lc db f =
     map rowToRetrieval (page (min (rf_max f) 100) 0 (order_desc m_importance (order_desc m_updated
       (sql_select (retrieval_condition lc f) (memories db)))))"

definition findDuplicatesBySemanticHash ::
  "'a memory_db_scheme \<Rightarrow> string \<Rightarrow> string option \<Rightarrow> string option \<Rightarrow> string \<Rightarrow> memory list" where
  "findDuplicatesBySemanticHash db ownerId workspaceId projectId hash =
     map rowToMemory (order_desc m_importance (order_desc m_updated (sql_select
       (\<lambda>r. visible ownerId workspaceId r \<and> \<not> m_archived r \<and> m_semantic_hash r = Some hash \<and>
            when_given (truthy projectId) (\<lambda>p. m_project_id r = p)) (memories db))))"

definition findStaleCandidates ::
  "'a memory_db_scheme \<Rightarrow> string \<Rightarrow> string option \<Rightarrow> string option \<Rightarrow> int \<Rightarrow> string \<Rightarrow> memory list" where
  "findStaleCandidates db ownerId workspaceId projectId minAccessCount cutoff =
     map rowToMemory (order_desc m_access_count (sql_select
       (\<lambda>r. visible ownerId workspaceId r \<and> \<not> m_archived r \<and> m_level r \<in> {''note'', ''raw''} \<and>
            minAccessCount \<le> m_access_count r \<and> m_updated r < cutoff \<and>
            when_given (truthy projectId) (\<lambda>p. m_project_id r = p)) (memories db)))"

definition findUpdatedSince ::
  "'a memory_db_scheme \<Rightarrow> string \<Rightarrow> string option \<Rightarrow> string \<Rightarrow> nat \<Rightarrow> memory list" where
  "findUpdatedSince db ownerId workspaceId since limit =
     map rowToMemory (page limit 0 (order_asc m_updated (sql_select
       (\<lambda>r. visible ownerId workspaceId r \<and> \<not> m_archived r \<and> (since \<noteq> [] \<longrightarrow> since < m_updated r))
       (memories db))))"


subsection \<open>Laws of ordered pages\<close>

lemma mset_order_desc [simp]: "mset (order_desc k t) = mset t"
  by (simp add: order_desc_def)

lemma length_order_desc [simp]: "length (order_desc k t) = length t"
  by (simp add: order_desc_def)

lemma order_desc_sorted: "sorted_wrt (\<lambda>r s. k s \<le> k r) (order_desc k t)"
  unfolding order_desc_def sorted_wrt_rev using sorted_sort_key [of k "rev t"] by (simp add: sorted_map)

lemma sorted_page: "sorted_wrt P t \<Longrightarrow> sorted_wrt P (page limit offset t)"
  by (simp add: page_def sorted_wrt_take sorted_wrt_drop)

lemma concat_pages: "concat (map (\<lambda>k. page limit (k * limit) t) [0..<n]) = take (n * limit) t"
proof (induction n)
  case 0
  then show ?case by simp
next
  case (Suc n)
  have "take (n * limit) t @ take limit (drop (n * limit) t) = take (n * limit + limit) t"
    by (simp add: take_add)
  with Suc show ?case by (simp add: page_def add.commute)
qed

text \<open>What every \<^verbatim>\<open>executeSearch\<close> answers.\<close>

lemma executeSearch_answer:
  assumes "executeSearch db p limit offset = (ms, found)"
  shows "length ms \<le> limit \<and> length ms \<le> found \<and> found = length (filter p (memories db)) \<and>
    sorted_wrt (\<lambda>m n. m_updated n \<le> m_updated m) ms \<and>
    (\<forall>m \<in> set ms. \<exists>r \<in> set (memories db). p r \<and> m = rowToMemory r)"
proof -
  let ?all = "order_desc m_updated (filter p (memories db))"
  have ms: "ms = map rowToMemory (page limit offset ?all)" and found: "found = length (filter p (memories db))"
    using assms by (auto simp: executeSearch_def sql_simps)
  have upd: "m_updated (rowToMemory r) = m_updated r" for r by (simp add: rowToMemory_def memory.truncate_def)
  have "sorted_wrt (\<lambda>r s. m_updated s \<le> m_updated r) (page limit offset ?all)"
    by (intro sorted_page order_desc_sorted)
  then have "sorted_wrt (\<lambda>m n. m_updated n \<le> m_updated m) ms"
    by (simp add: ms sorted_wrt_map upd)
  moreover have "length ms \<le> found" by (simp add: ms found page_def)
  moreover have "length ms \<le> limit" using length_page [of limit offset ?all] by (simp add: ms)
  moreover have "\<forall>m \<in> set ms. \<exists>r \<in> set (memories db). p r \<and> m = rowToMemory r"
    using set_page [of limit offset ?all] by (auto simp: ms)
  ultimately show ?thesis using found by blast
qed

lemma findSearchCandidates_scope:
  "\<exists>p. (\<forall>r. p r \<longrightarrow> visible (sf_owner f) (sf_workspace f) r \<and> archived_filter (sf_archived f) r) \<and>
    findSearchCandidates lc db f = executeSearch db p (sf_limit f) (sf_offset f)"
proof -
  let ?Q = "\<lambda>p. \<forall>r. p r \<longrightarrow> visible (sf_owner f) (sf_workspace f) r \<and> archived_filter (sf_archived f) r"
  have ext: "applyExtendedFilters f r \<Longrightarrow> archived_filter (sf_archived f) r" for r
    by (simp add: applyExtendedFilters_def)
  have tagq: "\<exists>p. ?Q p \<and> searchByTag db t f = executeSearch db p (sf_limit f) (sf_offset f)" for t
    unfolding searchByTag_def by (rule exI, rule conjI [rotated], rule refl) (simp add: ext)
  have projq: "\<exists>p. ?Q p \<and> searchByProject db t f = executeSearch db p (sf_limit f) (sf_offset f)" for t
    unfolding searchByProject_def by (rule exI, rule conjI [rotated], rule refl) (simp add: ext)
  have prec: "\<exists>p. ?Q p \<and> searchWithPrecisionFilters lc db f g = executeSearch db p (sf_limit f) (sf_offset f)" for g
    unfolding searchWithPrecisionFilters_def by (rule exI, rule conjI [rotated], rule refl) (simp add: ext)
  have text_q: "\<exists>p. ?Q p \<and> executeSearch db (\<lambda>r. visible (sf_owner f) (sf_workspace f) r \<and>
      buildColumnsSubstringMatch lc SEARCH_QUERY_COLUMNS q r \<and> applyExtendedFilters f r)
      (sf_limit f) (sf_offset f) = executeSearch db p (sf_limit f) (sf_offset f)" for q
    by (rule exI, rule conjI [rotated], rule refl) (simp add: ext)
  have all: "\<exists>p. ?Q p \<and> findAll db \<lparr>lf_owner = sf_owner f, lf_workspace = sf_workspace f, lf_project = sf_project f,
      lf_favorite = sf_favorite f, lf_archived = sf_archived f, lf_limit = sf_limit f,
      lf_offset = sf_offset f\<rparr> = executeSearch db p (sf_limit f) (sf_offset f)"
    unfolding findAll_def list_filters.simps by (rule exI, rule conjI [rotated], rule refl) (simp add: list_condition_def)
  let ?g = "parseSearchFilterGrammar (sf_grammar f)"
  show ?thesis
  proof (cases "?g \<noteq> None \<or> sf_ignore f \<noteq> []")
    case True
    then have "findSearchCandidates lc db f = searchWithPrecisionFilters lc db f ?g"
      by (simp only: findSearchCandidates_def Let_def if_True)
    then show ?thesis using prec [of ?g] by metis
  next
    case plain: False
    show ?thesis
    proof (cases "truthy (sf_tag f)")
      case (Some t)
      with plain have "findSearchCandidates lc db f = searchByTag db t f"
        by (simp only: findSearchCandidates_def Let_def if_False option.case)
      then show ?thesis using tagq [of t] by metis
    next
      case notag: None
      note unfold = findSearchCandidates_def Let_def if_False option.case prod.case
      show ?thesis
      proof (cases "truthy (sf_query f)")
        case (Some q)
        have "findSearchCandidates lc db f = executeSearch db (\<lambda>r. visible (sf_owner f) (sf_workspace f) r \<and>
            buildColumnsSubstringMatch lc SEARCH_QUERY_COLUMNS q r \<and> applyExtendedFilters f r)
            (sf_limit f) (sf_offset f)"
          using plain notag Some by (cases "truthy (sf_project f)") (simp_all only: unfold)
        then show ?thesis using text_q [of q] by metis
      next
        case noquery: None
        show ?thesis
        proof (cases "truthy (sf_project f)")
          case (Some x)
          with plain notag noquery have "findSearchCandidates lc db f = searchByProject db x f"
            by (simp only: unfold)
          then show ?thesis using projq [of x] by metis
        next
          case None
          with plain notag noquery have "findSearchCandidates lc db f = findAll db \<lparr>lf_owner = sf_owner f,
              lf_workspace = sf_workspace f, lf_project = sf_project f, lf_favorite = sf_favorite f,
              lf_archived = sf_archived f, lf_limit = sf_limit f, lf_offset = sf_offset f\<rparr>"
            by (simp only: unfold)
          then show ?thesis using all by metis
        qed
      qed
    qed
  qed
qed

text \<open>
  C33: a search stays in its scope. Whichever of its paths runs (tag, project, text, grammar and ignore
  patterns, plain list), every memory it returns is a stored row of the searching owner, in the
  workspace asked for, archived exactly if archived memories were asked for; the page is no longer
  than the limit, newest first, and the total counts at least the page.
\<close>

theorem search_stays_in_scope:
  assumes "findSearchCandidates lc db f = (ms, found)"
  shows "(\<forall>m \<in> set ms. \<exists>r \<in> set (memories db). m = rowToMemory r \<and> visible (sf_owner f) (sf_workspace f) r \<and>
      m_archived r = nullish (sf_archived f) False) \<and>
    length ms \<le> sf_limit f \<and> length ms \<le> found \<and> sorted_wrt (\<lambda>m n. m_updated n \<le> m_updated m) ms"
proof -
  from findSearchCandidates_scope [of f lc db] obtain p where
    p: "\<forall>r. p r \<longrightarrow> visible (sf_owner f) (sf_workspace f) r \<and> archived_filter (sf_archived f) r"
    and run: "executeSearch db p (sf_limit f) (sf_offset f) = (ms, found)" using assms by metis
  from executeSearch_answer [OF run] p show ?thesis unfolding archived_filter_def by blast
qed

text \<open>
  Paging loses and repeats nothing. While the table does not change, the pages of a list at
  offsets 0, limit, 2 * limit, and so on until they cover the total, together hold each memory that
  satisfies the filter exactly once.
\<close>

theorem list_pages_complete:
  assumes "snd (findAll db f) \<le> n * lf_limit f"
  shows "mset (concat (map (\<lambda>k. fst (findAll db (f\<lparr>lf_offset := k * lf_limit f\<rparr>))) [0..<n])) =
    mset (map rowToMemory (filter (list_condition f) (memories db)))"
proof -
  let ?all = "order_desc m_updated (filter (list_condition f) (memories db))"
  have cond: "list_condition (f\<lparr>lf_offset := k\<rparr>) = list_condition f" for k
    by (rule ext) (simp add: list_condition_def)
  have pages: "fst (findAll db (f\<lparr>lf_offset := k * lf_limit f\<rparr>)) = map rowToMemory (page (lf_limit f) (k * lf_limit f) ?all)" for k
    by (simp add: findAll_def executeSearch_def cond sql_select_def)
  have "concat (map (\<lambda>k. fst (findAll db (f\<lparr>lf_offset := k * lf_limit f\<rparr>))) [0..<n]) =
      map rowToMemory (concat (map (\<lambda>k. page (lf_limit f) (k * lf_limit f) ?all) [0..<n]))"
    by (simp add: pages map_concat comp_def)
  also have "\<dots> = map rowToMemory ?all"
    using assms by (simp add: concat_pages findAll_def executeSearch_def sql_count_def)
  finally show ?thesis by simp
qed


subsection \<open>Instances\<close>

definition sample_search :: search_filters where
  "sample_search =
     \<lparr>sf_owner = ''o'', sf_workspace = None, sf_query = Some ''no'', sf_tag = None, sf_project = None,
      sf_category = None, sf_type = None, sf_importance = None, sf_favorite = None, sf_archived = None,
      sf_limit = 1, sf_offset = 0, sf_grammar = None, sf_ignore = []\<rparr>"

definition sample_list :: list_filters where
  "sample_list =
     \<lparr>lf_owner = ''o'', lf_workspace = None, lf_project = None, lf_favorite = None, lf_archived = None,
      lf_limit = 1, lf_offset = 0\<rparr>"

definition two_notes :: memory_db where
  "two_notes = sample_memories [(''1'', ''NOTE-0001'', ''a''), (''2'', ''NOTE-0002'', ''b'')]"

theorem search_stays_in_scope_witness:
  "\<exists>m ms r. fst (findSearchCandidates (\<lambda>_ _. 0) two_notes sample_search) = m # ms \<and> r \<in> set (memories two_notes) \<and>
    m = rowToMemory r \<and> visible ''o'' None r \<and> ms = []"
proof -
  let ?run = "findSearchCandidates (\<lambda>_ _. 0) two_notes sample_search"
  have "fst ?run \<noteq> []" by code_simp
  then obtain m ms where ms: "fst ?run = m # ms" by (cases "fst ?run") auto
  have "?run = (m # ms, snd ?run)" by (simp flip: ms)
  moreover have "sf_owner sample_search = ''o''" "sf_workspace sample_search = None" "sf_limit sample_search = 1"
    by (simp_all add: sample_search_def)
  ultimately show ?thesis using search_stays_in_scope [of "\<lambda>_ _. 0" two_notes sample_search "m # ms" "snd ?run"] ms
    by auto
qed

theorem list_pages_complete_witness:
  "mset (fst (findAll two_notes sample_list) @ fst (findAll two_notes (sample_list\<lparr>lf_offset := 1\<rparr>))) =
   mset (map rowToMemory (memories two_notes))"
proof -
  have "snd (findAll two_notes sample_list) \<le> 2 * lf_limit sample_list" by code_simp
  from list_pages_complete [OF this]
  have "mset (concat (map (\<lambda>k. fst (findAll two_notes (sample_list\<lparr>lf_offset := k * lf_limit sample_list\<rparr>))) [0..<2])) =
      mset (map rowToMemory (filter (list_condition sample_list) (memories two_notes)))" .
  moreover have "filter (list_condition sample_list) (memories two_notes) = memories two_notes"
    by (simp add: filter_id_conv two_notes_def sample_memories_def sample_list_def list_condition_def when_given_def
        archived_filter_def visible_def in_workspace_filter_def insert_row_def sample_insert_def Let_def)
  moreover have "sample_list\<lparr>lf_offset := 0\<rparr> = sample_list" "lf_limit sample_list = 1"
    by (simp_all add: sample_list_def)
  ultimately show ?thesis by (simp add: upt_rec)
qed

end
