(* ===== verification/Memory_Service.thy ===== *)
theory Memory_Service
  imports Sync Memory_Reader
begin

section \<open>The memory service\<close>

text \<open>
  \<^verbatim>\<open>src/src/services/memory.service.ts\<close>: the operations a client calls. The collaborators the
  constructor takes are the fields of \<open>service_ports\<close>; an absent one is \<open>None\<close>. The evolution
  coordinator is any pair of hooks on the state; the domain events, which the code does not
  await, have no part in a result and are left out. One operation draws one time and the
  identifiers it needs from its \<open>mint\<close>.
\<close>

record 'd service_ports =
  sp_dup :: string
  sp_agents :: "(memory_scope \<Rightarrow> string \<Rightarrow> 'd \<Rightarrow> string option) option"
  sp_sync :: "'d sync_manager option"
  sp_created :: "(memory_scope \<Rightarrow> memory \<Rightarrow> 'd \<Rightarrow> (app_error + unit) \<times> 'd) option"
  sp_updated :: "(memory_scope \<Rightarrow> memory \<Rightarrow> string option \<Rightarrow> 'd \<Rightarrow> (app_error + unit) \<times> 'd) option"
  sp_embeddings :: bool
  sp_intents :: bool

type_synonym 'a ports = "'a sync_db_scheme service_ports"

record create_input =
  cr_title :: string
  cr_project :: string
  cr_content :: string
  cr_summary :: string
  cr_tags :: "string list"
  cr_favorite :: bool
  cr_level :: "string option"
  cr_keywords :: "string list option"
  cr_category :: "string option"
  cr_type :: "string option"
  cr_importance :: "int option"
  cr_language :: "string option"
  cr_notes :: "string option"
  cr_request :: "string option"

record update_input =
  ui_title :: "string option"
  ui_project :: "string option"
  ui_content :: "string option"
  ui_summary :: "string option"
  ui_tags :: "string list option"
  ui_favorite :: "bool option"
  ui_keywords :: "string list option"
  ui_category :: "string option"
  ui_type :: "string option"
  ui_importance :: "int option"
  ui_language :: "string option"
  ui_notes :: "string option"
  ui_expected :: "string option"

record create_outcome =
  co_memory :: memory
  co_replayed :: bool

subsection \<open>Steps shared by the writes\<close>

definition resolveAttributionAgentId :: "'a ports \<Rightarrow> memory_scope \<Rightarrow> 'a sync_db_scheme \<Rightarrow> string option" where
  "resolveAttributionAgentId ports scope db =
     (case truthy (map_option js_trim (ms_agent scope)) of
        None \<Rightarrow> None
      | Some hint \<Rightarrow>
          (case sp_agents ports of
             None \<Rightarrow> None
           | Some resolve \<Rightarrow> if \<not> hasWorkspaceScope scope then None else resolve scope hint db))"

definition reconcileMemoryWrite ::
  "'a ports \<Rightarrow> memory_scope \<Rightarrow> string \<Rightarrow> write_operation \<Rightarrow> string option \<Rightarrow> mint \<Rightarrow> 'a sync_db_scheme
     \<Rightarrow> (app_error + unit) \<times> 'a sync_db_scheme" where
  "reconcileMemoryWrite ports scope memoryId operation expected m db =
     (case sp_sync ports of
        None \<Rightarrow> (Inr (), db)
      | Some reconcile \<Rightarrow>
          then_st (reconcile \<lparr>ev_scope = scope, ev_memory = memoryId, ev_operation = operation,
                              ev_expected = expected\<rparr> m db)
            (\<lambda>result db'. if result = Reject
               then (Inl (SyncConflictError ''Memory write rejected due to sync conflict''), db')
               else (Inr (), db')))"

definition knowledge_of :: "create_input \<Rightarrow> knowledge_input" where
  "knowledge_of input =
     \<lparr>ki_title = cr_title input, ki_project = cr_project input, ki_content = cr_content input,
      ki_summary = Some (cr_summary input), ki_tags = cr_tags input, ki_keywords = cr_keywords input,
      ki_category = cr_category input, ki_type = cr_type input, ki_importance = cr_importance input,
      ki_language = cr_language input, ki_notes = cr_notes input\<rparr>"

definition create_data ::
  "memory_scope \<Rightarrow> create_input \<Rightarrow> enriched_fields \<Rightarrow> string option \<Rightarrow> string \<Rightarrow> insert_memory_data" where
  "create_data scope input e agent i =
     \<lparr>in_title = cr_title input, in_project = cr_project input, in_content = cr_content input,
      in_summary = ef_summary e, in_tags = cr_tags input, in_keywords = ef_keywords e,
      in_category = ef_category e, in_type = ef_type e, in_importance = ef_importance e,
      in_language = ef_language e, in_notes = ef_notes e, in_codename = ef_codename e,
      in_slug = ef_slug e, in_favorite = cr_favorite input, in_archived = Some False,
      in_owner = Some (ms_owner scope), in_workspace = workspaceIdFromScope scope, in_id = Some i,
      in_created = None, in_updated = None, in_project_id = None,
      in_level = Some (nullish (cr_level input) DEFAULT_MEMORY_LEVEL), in_semantic_hash = None,
      in_access_count = None, in_last_accessed = None, in_agent = agent, in_aliases = None,
      in_source_path = None\<rparr>"

definition performCreate ::
  "'a ports \<Rightarrow> memory_scope \<Rightarrow> create_input \<Rightarrow> string \<Rightarrow> mint \<Rightarrow> 'a sync_db_scheme
     \<Rightarrow> (app_error + memory) \<times> 'a sync_db_scheme" where
  "performCreate ports scope input i m db =
     (case enrichForCreate db (ms_owner scope) (knowledge_of input) of
        Inl e \<Rightarrow> (Inl e, db)
      | Inr enriched \<Rightarrow>
          let agent = resolveAttributionAgentId ports scope db in
          then_st (reconcileMemoryWrite ports scope i CreateOp None m db) (\<lambda>_ db1.
          then_st (insertMemory (sp_dup ports) db1 (create_data scope input enriched agent i) m) (\<lambda>mem db2.
            case sp_created ports of
              None \<Rightarrow> (Inr mem, db2)
            | Some hook \<Rightarrow> then_st (hook scope mem db2) (\<lambda>_ db3. (Inr mem, db3)))))"

definition completeClaimedCreate ::
  "'a ports \<Rightarrow> memory_scope \<Rightarrow> create_input \<Rightarrow> string \<Rightarrow> string \<Rightarrow> mint \<Rightarrow> 'a sync_db_scheme
     \<Rightarrow> (app_error + memory) \<times> 'a sync_db_scheme" where
  "completeClaimedCreate ports scope input i requestId m db =
     (case performCreate ports scope input i m db of
        (Inl e, db1) \<Rightarrow>
          (case findById db1 i (ms_owner scope) None of
             Some winner \<Rightarrow> (Inr winner, db1) | None \<Rightarrow> (Inl e, db1))
      | (Inr mem, db1) \<Rightarrow> (Inr mem, markCompleted db1 (ms_owner scope) requestId))"

definition createMemoryIdempotent ::
  "'a ports \<Rightarrow> memory_scope \<Rightarrow> create_input \<Rightarrow> mint \<Rightarrow> 'a sync_db_scheme
     \<Rightarrow> (app_error + create_outcome) \<times> 'a sync_db_scheme" where
  "createMemoryIdempotent ports scope input m db =
     (let outcome = (\<lambda>replayed run. then_st run
            (\<lambda>mem db'. (Inr \<lparr>co_memory = mem, co_replayed = replayed\<rparr>, db')))
      in case (truthy (map_option js_trim (cr_request input)), sp_intents ports) of
           (Some requestId, True) \<Rightarrow>
             then_st (claim (sp_dup ports) db (ms_owner scope) requestId ''create'' ''memory'' (mint_id m) (mint_now m))
               (\<lambda>c db1. case c of
                  NewClaim \<Rightarrow> outcome False (completeClaimedCreate ports scope input (mint_id m) requestId m db1)
                | ExistingClaim w \<Rightarrow>
                    (case findById db1 (wi_resource w) (ms_owner scope) None of
                       Some found \<Rightarrow> (Inr \<lparr>co_memory = found, co_replayed = True\<rparr>, db1)
                     | None \<Rightarrow> outcome True
                         (completeClaimedCreate ports scope input (wi_resource w) requestId m db1)))
         | _ \<Rightarrow> outcome False (performCreate ports scope input (mint_id m) m db))"

definition createMemory ::
  "'a ports \<Rightarrow> memory_scope \<Rightarrow> create_input \<Rightarrow> mint \<Rightarrow> 'a sync_db_scheme
     \<Rightarrow> (app_error + memory) \<times> 'a sync_db_scheme" where
  "createMemory ports scope input m db =
     then_st (createMemoryIdempotent ports scope input m db) (\<lambda>out db'. (Inr (co_memory out), db'))"

subsection \<open>Update and deletion\<close>

definition patch_of :: "update_input \<Rightarrow> knowledge_patch" where
  "patch_of input =
     \<lparr>kp_title = ui_title input, kp_content = ui_content input, kp_summary = ui_summary input,
      kp_tags = ui_tags input, kp_keywords = ui_keywords input, kp_category = ui_category input,
      kp_type = ui_type input, kp_importance = ui_importance input, kp_language = ui_language input,
      kp_notes = ui_notes input\<rparr>"

definition update_data :: "update_input \<Rightarrow> enriched_patch \<Rightarrow> string option \<Rightarrow> update_memory_data" where
  "update_data input e agent =
     \<lparr>up_title = ui_title input, up_project = ui_project input, up_content = ui_content input,
      up_summary = ep_summary e, up_tags = ui_tags input, up_keywords = ep_keywords e,
      up_category = ep_category e, up_type = ep_type e, up_importance = ep_importance e,
      up_language = ep_language e, up_notes = ep_notes e, up_slug = ep_slug e,
      up_favorite = ui_favorite input, up_archived = None, up_project_id = None, up_level = None,
      up_agent = agent, up_aliases = None, up_source_path = None\<rparr>"

text \<open>\<open>a ?? b\<close> on two optional times.\<close>

definition expected_or :: "string option \<Rightarrow> string \<Rightarrow> string option" where
  "expected_or expected actual = Some (nullish expected actual)"

definition updateMemory ::
  "'a ports \<Rightarrow> memory_scope \<Rightarrow> string \<Rightarrow> update_input \<Rightarrow> mint \<Rightarrow> 'a sync_db_scheme
     \<Rightarrow> (app_error + memory) \<times> 'a sync_db_scheme" where
  "updateMemory ports scope i input m db =
     (case findById db i (ms_owner scope) (workspaceIdFromScope scope) of
        None \<Rightarrow> (Inl (NotFoundError ''Memory'' (Some i)), db)
      | Some existing \<Rightarrow>
          (case enrichForUpdate db (ms_owner scope) existing (patch_of input) of
             Inl e \<Rightarrow> (Inl e, db)
           | Inr enriched \<Rightarrow>
               let agent = resolveAttributionAgentId ports scope db in
               then_st (reconcileMemoryWrite ports scope i UpdateOp
                          (expected_or (ui_expected input) (m_updated existing)) m db) (\<lambda>_ db1.
               then_st (case sp_updated ports of
                          None \<Rightarrow> (Inr (), db1) | Some hook \<Rightarrow> hook scope existing agent db1) (\<lambda>_ db2.
               then_st (updateMemoryRow (sp_dup ports) db2 i (ms_owner scope) (update_data input enriched agent)
                          (workspaceIdFromScope scope) (mint_now m)) (\<lambda>updated db3.
                 case updated of
                   None \<Rightarrow> (Inl (NotFoundError ''Memory'' (Some i)), db3)
                 | Some mem \<Rightarrow> (Inr mem, db3))))))"

definition deleteMemory ::
  "'a ports \<Rightarrow> memory_scope \<Rightarrow> string \<Rightarrow> string option \<Rightarrow> mint \<Rightarrow> 'a sync_db_scheme
     \<Rightarrow> (app_error + unit) \<times> 'a sync_db_scheme" where
  "deleteMemory ports scope i expected m db =
     (case findById db i (ms_owner scope) (workspaceIdFromScope scope) of
        None \<Rightarrow> (Inl (NotFoundError ''Memory'' (Some i)), db)
      | Some existing \<Rightarrow>
          then_st (reconcileMemoryWrite ports scope i DeleteOp
                     (expected_or expected (m_updated existing)) m db) (\<lambda>_ db1.
            case deleteMemoryRow db1 i (ms_owner scope) (workspaceIdFromScope scope) of
              (deleted, db2) \<Rightarrow>
                if \<not> deleted then (Inl (NotFoundError ''Memory'' (Some i)), db2)
                else (Inr (), if sp_embeddings ports then deleteByMemoryId db2 i (ms_owner scope) else db2)))"

subsection \<open>Reads and flags\<close>

definition or_not_found :: "string \<Rightarrow> memory option \<Rightarrow> app_error + memory" where
  "or_not_found i v = (case v of None \<Rightarrow> Inl (NotFoundError ''Memory'' (Some i)) | Some mem \<Rightarrow> Inr mem)"

definition getMemoryById :: "memory_scope \<Rightarrow> string \<Rightarrow> 'a memory_db_scheme \<Rightarrow> app_error + memory" where
  "getMemoryById scope i db = or_not_found i (findById db i (ms_owner scope) (workspaceIdFromScope scope))"

definition getMemoryByCodename :: "memory_scope \<Rightarrow> string \<Rightarrow> 'a memory_db_scheme \<Rightarrow> app_error + memory" where
  "getMemoryByCodename scope codename db =
     or_not_found codename (findByCodename db (ms_owner scope) codename (workspaceIdFromScope scope))"

definition getMemoryBySlug :: "memory_scope \<Rightarrow> string \<Rightarrow> 'a memory_db_scheme \<Rightarrow> app_error + memory" where
  "getMemoryBySlug scope slug db =
     or_not_found slug (findBySlug db (ms_owner scope) slug (workspaceIdFromScope scope))"

definition toggleMemoryFavorite ::
  "memory_scope \<Rightarrow> string \<Rightarrow> string \<Rightarrow> 'a memory_db_scheme \<Rightarrow> (app_error + memory) \<times> 'a memory_db_scheme" where
  "toggleMemoryFavorite scope i now db =
     (case toggleFavorite db i (ms_owner scope) (workspaceIdFromScope scope) now of
        (v, db') \<Rightarrow> (or_not_found i v, db'))"

definition archiveMemory ::
  "memory_scope \<Rightarrow> string \<Rightarrow> bool \<Rightarrow> string \<Rightarrow> 'a memory_db_scheme \<Rightarrow> (app_error + memory) \<times> 'a memory_db_scheme" where
  "archiveMemory scope i archived now db =
     (case archive db i (ms_owner scope) archived (workspaceIdFromScope scope) now of
        (v, db') \<Rightarrow> (or_not_found i v, db'))"

subsection \<open>Backups\<close>

record backup_item =
  bi_title :: string
  bi_project :: string
  bi_content :: string
  bi_summary :: string
  bi_tags :: "string list"
  bi_favorite :: bool
  bi_archived :: bool

definition backup_create :: "backup_item \<Rightarrow> create_input" where
  "backup_create item =
     \<lparr>cr_title = bi_title item, cr_project = bi_project item, cr_content = bi_content item,
      cr_summary = bi_summary item, cr_tags = bi_tags item, cr_favorite = bi_favorite item,
      cr_level = Some ''raw'', cr_keywords = None, cr_category = None, cr_type = None,
      cr_importance = None, cr_language = None, cr_notes = None, cr_request = None\<rparr>"

definition exportBackup :: "memory_scope \<Rightarrow> 'a memory_db_scheme \<Rightarrow> memory list" where
  "exportBackup scope db = findAllByOwner db (ms_owner scope) (workspaceIdFromScope scope)"

text \<open>The loop over the items, each with the identifier and time its creation draws.\<close>

fun import_loop ::
  "'a ports \<Rightarrow> memory_scope \<Rightarrow> nat \<Rightarrow> (backup_item \<times> mint) list \<Rightarrow> 'a sync_db_scheme
     \<Rightarrow> (app_error + nat) \<times> 'a sync_db_scheme" where
  "import_loop ports scope imported [] db = (Inr imported, db)"
| "import_loop ports scope imported ((item, m) # rest) db =
     then_st (createMemory ports scope (backup_create item) m db)
       (\<lambda>_ db'. import_loop ports scope (imported + 1) rest db')"

definition importBackup ::
  "'a ports \<Rightarrow> memory_scope \<Rightarrow> (backup_item \<times> mint) list \<Rightarrow> 'a sync_db_scheme
     \<Rightarrow> (app_error + nat) \<times> 'a sync_db_scheme" where
  "importBackup ports scope items db = import_loop ports scope 0 items db"

definition replaceBackup ::
  "'a ports \<Rightarrow> memory_scope \<Rightarrow> (backup_item \<times> mint) list \<Rightarrow> 'a sync_db_scheme
     \<Rightarrow> (app_error + nat) \<times> 'a sync_db_scheme" where
  "replaceBackup ports scope items db =
     (let db1 = (if sp_embeddings ports then deleteEmbeddingsByOwner db (ms_owner scope) else db);
          db2 = deleteAllByOwner db1 (ms_owner scope) (workspaceIdFromScope scope)
      in import_loop ports scope 0 items db2)"

end
