(* ===== verification/Service_Laws.thy ===== *)
theory Service_Laws
  imports Memory_Service
begin

section \<open>Laws of the memory service\<close>

text \<open>
  Idempotent creation, protection against lost updates, and backups. The lemmas are proved once for
  any ports that keep a contract (the locale \<open>write_service\<close>), which the ports the composition
  root builds satisfy.
\<close>

subsection \<open>The ports of the composition root\<close>

text \<open>
  \<^verbatim>\<open>createMemoryService\<close> of \<^verbatim>\<open>src/src/services/create-memory-service.ts\<close> over
  \<^verbatim>\<open>createMultiClientSyncPorts\<close> of \<^verbatim>\<open>src/src/composition/create-multi-client-sync-ports.ts\<close>, with the
  evolution coordinator disabled: without multi-client sync the accepting manager, otherwise the
  strategy of the environment with the conflict store.
\<close>

definition syncManagerFor :: "sync_strategy option \<Rightarrow> 'a sync_db_scheme sync_manager" where
  "syncManagerFor st =
     (case st of None \<Rightarrow> acceptSyncManager
      | Some s \<Rightarrow> conflictAwareSyncManager (createConflictResolver s) True)"

definition servicePorts ::
  "string \<Rightarrow> sync_strategy option \<Rightarrow> (memory_scope \<Rightarrow> string \<Rightarrow> 'a sync_db_scheme \<Rightarrow> string option) option
     \<Rightarrow> 'a ports" where
  "servicePorts dup st agents =
     \<lparr>sp_dup = dup, sp_agents = agents, sp_sync = Some (syncManagerFor st), sp_created = None,
      sp_updated = None, sp_embeddings = True, sp_intents = True\<rparr>"

lemma servicePorts_simps [simp]:
  "sp_dup (servicePorts dup st agents) = dup" "sp_sync (servicePorts dup st agents) = Some (syncManagerFor st)"
  "sp_created (servicePorts dup st agents) = None" "sp_updated (servicePorts dup st agents) = None"
  "sp_embeddings (servicePorts dup st agents)" "sp_intents (servicePorts dup st agents)"
  by (simp_all add: servicePorts_def)

lemma syncManagerFor_reconciler: "sync_reconciler (syncManagerFor st)"
  by (cases st) (simp_all add: syncManagerFor_def accept_manager.sync_reconciler_axioms
      strategy.aware.sync_reconciler_axioms)

subsection \<open>The contract\<close>

definition same_data :: "'a sync_db_scheme \<Rightarrow> 'a sync_db_scheme \<Rightarrow> bool" where
  "same_data db db' \<longleftrightarrow> memories db' = memories db \<and> intents db' = intents db"

lemma same_data_refl [simp]: "same_data db db"
  by (simp add: same_data_def)

lemma same_store_data: "same_store db db' \<Longrightarrow> same_data db db'"
  by (simp add: same_store_def same_data_def)

lemma rowToRetrieval_id [simp]: "m_id (rowToRetrieval r) = m_id r"
  by (simp add: rowToRetrieval_def rowToMemory_def memory.truncate_def)

text \<open>The object an insertion answers is what any later lookup by its identifier finds.\<close>

lemma insertMemory_found:
  assumes "insertMemory dup db data m = (Inr mem, db')" "in_id data = Some i" "in_owner data = Some ownerId"
  shows "findById db' i ownerId None = Some mem \<and> m_id mem = i"
  using assms(1)
proof (cases rule: insertMemory_cases)
  case (refused e)
  then show ?thesis by simp
next
  case (inserted r c)
  have r: "m_id r = i" "m_owner r = ownerId" using inserted(1) assms(2,3) by (simp_all add: insert_row_def Let_def)
  have no: "\<not> memory_hit i ownerId w s" if "s \<in> set (memories db)" for s w
    using inserted(2) that r by (auto simp: memory_clash_def memory_hit_def)
  have look: "findById db' i ownerId w = (if memory_hit i ownerId w r then Some (rowToRetrieval r) else None)" for w
  proof -
    have "sql_first (memory_hit i ownerId w) (memories db) = None" using no by simp
    then show ?thesis by (simp add: findById_def inserted(3) sql_first_append sql_first_Cons del: sql_first_None)
  qed
  from inserted(4) r have found: "findById db' i ownerId (in_workspace data) = Some mem" by auto
  with look have mem: "mem = rowToRetrieval r" by (auto split: if_splits)
  have "memory_hit i ownerId None r" by (simp add: memory_hit_def visible_def in_workspace_filter_def r)
  then show ?thesis by (simp add: look mem r)
qed

lemma insertMemory_intents: "intents (snd (insertMemory dup db data m)) = intents db"
proof -
  obtain res db' where run: "insertMemory dup db data m = (res, db')" by fastforce
  then show ?thesis by (cases rule: insertMemory_cases) (simp_all add: run)
qed

lemma findById_id: "findById db i o' w = Some mem \<Longrightarrow> m_id mem = i"
  by (auto simp: findById_def memory_hit_def dest!: sql_first_SomeD)

locale write_service =
  fixes ports :: "'a ports"
  assumes reconciler: "sp_sync ports = Some f \<Longrightarrow> sync_reconciler f"
    and created_hook: "sp_created ports = Some h \<Longrightarrow> h scope mem db = (r, db') \<Longrightarrow> same_data db db'"
    and updated_hook: "sp_updated ports = Some g \<Longrightarrow> g scope mem agent db = (r, db') \<Longrightarrow> same_data db db'"
begin

lemma reconcile_frame:
  assumes "reconcileMemoryWrite ports scope i op expected m db = (r, db')"
  shows "same_store db db'"
proof (cases "sp_sync ports")
  case None
  with assms show ?thesis by (simp add: reconcileMemoryWrite_def)
next
  case (Some f)
  show ?thesis
    using assms Some sync_reconciler.frame [OF reconciler [OF Some]]
    by (auto simp: reconcileMemoryWrite_def elim!: then_st_cases split: if_splits)
qed

lemma reconcile_fresh:
  assumes "\<not> stale_write \<lparr>ev_scope = scope, ev_memory = i, ev_operation = op, ev_expected = expected\<rparr> db"
  shows "reconcileMemoryWrite ports scope i op expected m db = (Inr (), db)"
proof (cases "sp_sync ports")
  case None
  then show ?thesis by (simp add: reconcileMemoryWrite_def)
next
  case (Some f)
  with sync_reconciler.fresh [OF reconciler [OF Some] assms] show ?thesis
    by (simp add: reconcileMemoryWrite_def)
qed

lemma reconcile_create: "reconcileMemoryWrite ports scope i CreateOp None m db = (Inr (), db)"
  by (rule reconcile_fresh) (simp add: stale_write_def shouldCheckStale_def)

lemma performCreate_Inr:
  assumes "performCreate ports scope input i m db = (Inr mem, db')"
  shows "\<exists>e db2. enrichForCreate db (ms_owner scope) (knowledge_of input) = Inr e \<and>
    insertMemory (sp_dup ports) db (create_data scope input e (resolveAttributionAgentId ports scope db) i) m = (Inr mem, db2) \<and>
    same_data db2 db'"
proof (cases "enrichForCreate db (ms_owner scope) (knowledge_of input)")
  case (Inl e)
  with assms show ?thesis by (simp add: performCreate_def)
next
  case (Inr e)
  with assms obtain db2 where ins: "insertMemory (sp_dup ports) db
      (create_data scope input e (resolveAttributionAgentId ports scope db) i) m = (Inr mem, db2)"
    and rest: "(case sp_created ports of None \<Rightarrow> (Inr mem, db2)
        | Some hook \<Rightarrow> then_st (hook scope mem db2) (\<lambda>_ db3. (Inr mem, db3))) = (Inr mem, db')"
    by (auto simp: performCreate_def Let_def reconcile_create then_st_Inr split: option.splits)
  from rest have "same_data db2 db'"
    by (auto simp: then_st_Inr split: option.splits intro: created_hook)
  with Inr ins show ?thesis by blast
qed

lemma performCreate_intents: "intents (snd (performCreate ports scope input i m db)) = intents db"
proof (cases "enrichForCreate db (ms_owner scope) (knowledge_of input)")
  case (Inl e)
  then show ?thesis by (simp add: performCreate_def)
next
  case (Inr e)
  let ?ins = "insertMemory (sp_dup ports) db (create_data scope input e (resolveAttributionAgentId ports scope db) i) m"
  have run: "performCreate ports scope input i m db = then_st ?ins (\<lambda>mem db2.
      case sp_created ports of None \<Rightarrow> (Inr mem, db2)
      | Some hook \<Rightarrow> then_st (hook scope mem db2) (\<lambda>_ db3. (Inr mem, db3)))"
    by (simp add: performCreate_def Inr reconcile_create Let_def)
  obtain res db2 where ins: "?ins = (res, db2)" by fastforce
  with insertMemory_intents have int2: "intents db2 = intents db" by (metis snd_conv)
  show ?thesis
  proof (cases res)
    case (Inl x)
    with run ins int2 show ?thesis by simp
  next
    case (Inr mem)
    show ?thesis
    proof (cases "sp_created ports")
      case None
      with run ins int2 Inr show ?thesis by simp
    next
      case (Some h)
      obtain hr db3 where h: "h scope mem db2 = (hr, db3)" by fastforce
      with created_hook [OF Some h] have "intents db3 = intents db" by (simp add: same_data_def int2)
      then show ?thesis using run ins Inr Some h by (cases hr) simp_all
    qed
  qed
qed

lemma completeClaimedCreate_found:
  assumes "completeClaimedCreate ports scope input i q m db = (Inr mem, db')"
  shows "findById db' i (ms_owner scope) None = Some mem \<and>
    (intents db' = intents db \<or> intents db' = intents (markCompleted db (ms_owner scope) q))"
proof -
  obtain res db1 where run: "performCreate ports scope input i m db = (res, db1)" by fastforce
  with performCreate_intents [of scope input i m db] have int: "intents db1 = intents db" by simp
  show ?thesis
  proof (cases res)
    case (Inl e)
    with assms run int show ?thesis by (auto simp: completeClaimedCreate_def split: option.splits)
  next
    case (Inr x)
    with assms run have x: "x = mem" "db' = markCompleted db1 (ms_owner scope) q"
      by (auto simp: completeClaimedCreate_def)
    from performCreate_Inr run Inr x obtain e db2 where
      ins: "insertMemory (sp_dup ports) db (create_data scope input e (resolveAttributionAgentId ports scope db) i) m = (Inr mem, db2)"
      and same: "same_data db2 db1" by metis
    from insertMemory_found [OF ins, of i "ms_owner scope"] have "findById db2 i (ms_owner scope) None = Some mem"
      by (simp add: create_data_def)
    with same x have "findById db' i (ms_owner scope) None = Some mem"
      by (simp add: findById_def same_data_def markCompleted_def)
    with x int show ?thesis by (simp add: markCompleted_def)
  qed
qed

text \<open>After a creation under a request, the ledger names the memory that was returned.\<close>

lemma create_registered:
  assumes "createMemoryIdempotent ports scope input m db = (Inr out, db')"
    and "sp_intents ports" "isKeyViolation (sp_dup ports)"
    and "truthy (map_option js_trim (cr_request input)) = Some q"
  shows "\<exists>w. getByRequestId db' (ms_owner scope) q = Some w \<and>
    findById db' (wi_resource w) (ms_owner scope) None = Some (co_memory out)"
proof (cases "getByRequestId db (ms_owner scope) q")
  case None
  define w where "w = \<lparr>wi_owner = ms_owner scope, wi_request = q, wi_operation = ''create'',
      wi_resource_type = ''memory'', wi_resource = mint_id m, wi_status = Claimed, wi_created = mint_now m\<rparr>"
  let ?db = "db\<lparr>intents := intents db @ [w]\<rparr>"
  from assms None have run: "completeClaimedCreate ports scope input (mint_id m) q m ?db = (Inr (co_memory out), db')"
    by (auto simp: createMemoryIdempotent_def Let_def claim_new then_st_Inr w_def)
  have g: "getByRequestId ?db (ms_owner scope) q = Some w"
    using None by (simp add: getByRequestId_def sql_first_append sql_first_Cons w_def del: sql_first_None)
  from completeClaimedCreate_found [OF run] have
    f: "findById db' (mint_id m) (ms_owner scope) None = Some (co_memory out)"
    and i: "intents db' = intents ?db \<or> intents db' = intents (markCompleted ?db (ms_owner scope) q)" by blast+
  from i have "\<exists>v. getByRequestId db' (ms_owner scope) q = Some v \<and> wi_resource v = mint_id m"
  proof
    assume "intents db' = intents ?db"
    with g show ?thesis by (simp add: getByRequestId_def w_def)
  next
    assume "intents db' = intents (markCompleted ?db (ms_owner scope) q)"
    then have "getByRequestId db' (ms_owner scope) q = getByRequestId (markCompleted ?db (ms_owner scope) q) (ms_owner scope) q"
      by (simp add: getByRequestId_def)
    with g show ?thesis by (simp add: getByRequestId_mark w_def)
  qed
  with f show ?thesis by auto
next
  case (Some w)
  note cl = claim_existing [OF Some assms(3)]
  show ?thesis
  proof (cases "findById db (wi_resource w) (ms_owner scope) None")
    case found: (Some mem)
    with assms Some cl have "out = \<lparr>co_memory = mem, co_replayed = True\<rparr>" "db' = db"
      by (auto simp: createMemoryIdempotent_def Let_def)
    with found Some show ?thesis by simp
  next
    case None
    with assms Some cl have run: "completeClaimedCreate ports scope input (wi_resource w) q m db = (Inr (co_memory out), db')"
      by (auto simp: createMemoryIdempotent_def Let_def then_st_Inr)
    from completeClaimedCreate_found [OF run] have
      f: "findById db' (wi_resource w) (ms_owner scope) None = Some (co_memory out)"
      and i: "intents db' = intents db \<or> intents db' = intents (markCompleted db (ms_owner scope) q)" by blast+
    from i have "\<exists>v. getByRequestId db' (ms_owner scope) q = Some v \<and> wi_resource v = wi_resource w"
    proof
      assume "intents db' = intents db"
      with Some show ?thesis by (simp add: getByRequestId_def)
    next
      assume "intents db' = intents (markCompleted db (ms_owner scope) q)"
      then have "getByRequestId db' (ms_owner scope) q = getByRequestId (markCompleted db (ms_owner scope) q) (ms_owner scope) q"
        by (simp add: getByRequestId_def)
      with Some show ?thesis by (simp add: getByRequestId_mark)
    qed
    with f show ?thesis by auto
  qed
qed

lemma create_replays:
  assumes "getByRequestId db (ms_owner scope) q = Some w" "findById db (wi_resource w) (ms_owner scope) None = Some mem"
    and "sp_intents ports" "isKeyViolation (sp_dup ports)"
    and "truthy (map_option js_trim (cr_request input)) = Some q"
  shows "createMemoryIdempotent ports scope input m db = (Inr \<lparr>co_memory = mem, co_replayed = True\<rparr>, db)"
  using assms claim_existing [OF assms(1,4)] by (simp add: createMemoryIdempotent_def Let_def)

end

interpretation root_service: write_service "servicePorts dup st agents" for dup st agents
  by (rule write_service.intro) (auto simp: syncManagerFor_reconciler)



subsection \<open>Creation succeeds\<close>

lemma insertMemory_ok:
  assumes "\<forall>s \<in> set (memories db). \<not> memory_clash (insert_row data m) s"
  shows "insertMemory dup db data m =
    (Inr (rowToRetrieval (insert_row data m)), db\<lparr>memories := memories db @ [insert_row data m]\<rparr>)"
proof -
  let ?r = "insert_row data m"
  have code: "?r\<lparr>m_codename := Some (in_codename data)\<rparr> = ?r" by (simp add: insert_row_def Let_def)
  have ws: "mr_workspace ?r = in_workspace data" by (simp add: insert_row_def Let_def)
  have "sql_first (memory_hit (m_id ?r) (m_owner ?r) (in_workspace data)) (memories db @ [?r]) = Some ?r"
    using assms ws
    by (intro sql_first_append_new)
       (auto simp: memory_hit_def memory_clash_def visible_def in_workspace_filter_def truthy_iffs
         split: option.splits)
  then have found: "findById (db\<lparr>memories := memories db @ [?r]\<rparr>) (m_id ?r) (m_owner ?r) (in_workspace data) =
      Some (rowToRetrieval ?r)" by (simp add: findById_def)
  have three: "CODENAME_MAX_RETRIES = Suc 2" by (simp add: CODENAME_MAX_RETRIES_def)
  have ins: "sql_insert memory_clash ?r (memories db) = Inr (memories db @ [?r])" using assms by simp
  show ?thesis
    unfolding insertMemory_def three insert_attempts.simps unfolding three [symmetric]
    by (simp add: code found ins Let_def del: sql_insert_Inr)
qed

lemma createMemory_plain:
  assumes "truthy (map_option js_trim (cr_request input)) = None"
  shows "createMemory ports scope input m db = performCreate ports scope input (mint_id m) m db"
  using assms
  by (cases "performCreate ports scope input (mint_id m) m db")
     (auto simp: createMemory_def createMemoryIdempotent_def Let_def then_st_def split: sum.splits prod.splits)

lemma performCreate_service:
  assumes "enrichForCreate db (ms_owner scope) (knowledge_of input) = Inr e"
  shows "performCreate (servicePorts dup st agents) scope input i m db =
    insertMemory dup db (create_data scope input e (resolveAttributionAgentId (servicePorts dup st agents) scope db) i) m"
proof -
  let ?ins = "insertMemory dup db (create_data scope input e (resolveAttributionAgentId (servicePorts dup st agents) scope db) i) m"
  have "performCreate (servicePorts dup st agents) scope input i m db = then_st ?ins (\<lambda>mem db2. (Inr mem, db2))"
    by (simp add: performCreate_def assms root_service.reconcile_create Let_def)
  then show ?thesis by (cases ?ins; cases "fst ?ins") simp_all
qed

lemma valid_type:
  assumes "opt_all (\<lambda>t. memory_type_of t \<noteq> None) ty"
  shows "\<exists>t. memory_type_of (nullish ty ''note'') = Some t"
  using assms by (cases ty) (auto simp: memory_type_of.simps)



subsection \<open>Stale writes\<close>

lemma unique_id_row:
  assumes "memory_ids.unique t" "r \<in> set t" "s \<in> set t" "m_id r = m_id s"
  shows "r = s"
  using assms unfolding memory_ids.unique_def distinct_map by (blast dest: inj_onD)

lemma sql_first_unique_id:
  assumes "memory_ids.unique t" "r \<in> set t" "p r" "\<And>s. p s \<Longrightarrow> m_id s = m_id r"
  shows "sql_first p t = Some r"
proof -
  have "sql_first p t \<noteq> None" unfolding sql_first_None using assms(2,3) by blast
  then obtain s where s: "sql_first p t = Some s" by blast
  from sql_first_SomeD [OF s] have "p s" "s \<in> set t" by simp_all
  then have "s = r" by (intro unique_id_row [OF assms(1) _ assms(2)] assms(4))
  with s show ?thesis by simp
qed

lemma stored_time:
  assumes "memory_ids.unique (memories db)" "map_option js_trim (ms_workspace scope) = ms_workspace scope"
    and "findById db i (ms_owner scope) (workspaceIdFromScope scope) = Some existing"
  shows "getMemoryUpdatedAt db \<lparr>ev_scope = scope, ev_memory = i, ev_operation = op, ev_expected = t\<rparr> =
    (if m_archived existing then None else Some (m_updated existing))"
proof -
  from assms(3) obtain r where r: "r \<in> set (memories db)" "memory_hit i (ms_owner scope) (workspaceIdFromScope scope) r"
    and ex: "existing = rowToRetrieval r" by (auto simp: findById_def dest: sql_first_SomeD)
  have fields: "m_archived existing = m_archived r" "m_updated existing = m_updated r"
    by (simp_all add: ex rowToRetrieval_def rowToMemory_def memory.truncate_def)
  let ?p = "\<lambda>s. m_id s = i \<and> m_owner s = ms_owner scope \<and> \<not> m_archived s \<and>
    (hasWorkspaceScope scope \<longrightarrow> mr_workspace s = ms_workspace scope)"
  have ws: "hasWorkspaceScope scope \<longrightarrow> mr_workspace r = ms_workspace scope"
    using r(2) assms(2) by (auto simp: memory_hit_def visible_def in_workspace_filter_def workspaceIdFromScope_def
        hasWorkspaceScope_def truthy_iffs split: option.splits)
  show ?thesis
  proof (cases "m_archived r")
    case True
    have "\<not> ?p s" if "s \<in> set (memories db)" for s
    proof
      assume "?p s"
      with r have "m_id s = m_id r" by (simp add: memory_hit_def)
      with r(1) that have "s = r" by (intro unique_id_row [OF assms(1)])
      with \<open>?p s\<close> True show False by simp
    qed
    then have "sql_first ?p (memories db) = None" by simp
    with True fields show ?thesis by (simp add: getMemoryUpdatedAt_def del: sql_first_None)
  next
    case False
    have "sql_first ?p (memories db) = Some r"
      using r False ws by (intro sql_first_unique_id [OF assms(1)]) (auto simp: memory_hit_def visible_def)
    with False fields show ?thesis by (simp add: getMemoryUpdatedAt_def)
  qed
qed

lemma refusing_strategy:
  assumes "st \<in> {LWW, ManualQueue}" "stale_write ev db"
  shows "fst (syncManagerFor (Some st) ev m db) \<noteq> Inr Accept"
proof -
  obtain det db1 where det: "detect ev (mint_now m) db = (det, db1)" by fastforce
  with assms(2) detect_stale [of ev "mint_now m" db] have "sd_stale det" by simp
  then show ?thesis using assms(1)
    by (auto simp: syncManagerFor_def conflictAwareSyncManager_def det Let_def LastWriteWinsResolver_def
        ManualQueueResolver_def then_st_def split: prod.splits sum.splits)
qed

text \<open>
  C11: no update is lost. Under last-write-wins and under the manual queue, an update that names the time
  its author last saw is refused when the stored memory (not archived) has moved on, and the
  memory table stays as it was.
\<close>

theorem stale_update_refused:
  assumes "st \<in> {LWW, ManualQueue}"
    and "memory_ids.unique (memories db)" "map_option js_trim (ms_workspace scope) = ms_workspace scope"
    and "findById db i (ms_owner scope) (workspaceIdFromScope scope) = Some existing"
    and "\<not> m_archived existing" "m_updated existing \<noteq> []"
    and "ui_expected input = Some t" "t \<noteq> []" "t \<noteq> m_updated existing"
  shows "isl (fst (updateMemory (servicePorts dup (Some st) agents) scope i input m db)) \<and>
    memories (snd (updateMemory (servicePorts dup (Some st) agents) scope i input m db)) = memories db"
proof (cases "enrichForUpdate db (ms_owner scope) existing (patch_of input)")
  case (Inl e)
  then show ?thesis using assms(4) by (simp add: updateMemory_def)
next
  case (Inr e)
  let ?ports = "servicePorts dup (Some st) agents"
  let ?ev = "\<lparr>ev_scope = scope, ev_memory = i, ev_operation = UpdateOp, ev_expected = Some t\<rparr>"
  have "stale_write ?ev db"
    using assms(5-9) stored_time [OF assms(2-4), of UpdateOp "Some t"]
    by (simp add: stale_write_def shouldCheckStale_def truthy_iffs)
  note refused = refusing_strategy [OF assms(1) this, of m]
  obtain res db1 where rec: "syncManagerFor (Some st) ?ev m db = (res, db1)" by fastforce
  have "\<exists>x. reconcileMemoryWrite ?ports scope i UpdateOp (Some t) m db = (Inl x, db1)"
  proof (cases res)
    case (Inl x)
    then show ?thesis by (simp add: reconcileMemoryWrite_def rec)
  next
    case (Inr y)
    with refused rec have "y = Reject" by (cases y) simp_all
    with Inr show ?thesis by (simp add: reconcileMemoryWrite_def rec)
  qed
  then obtain x where run: "reconcileMemoryWrite ?ports scope i UpdateOp (Some t) m db = (Inl x, db1)" by blast
  from root_service.reconcile_frame [OF run] have "memories db1 = memories db" by (simp add: same_store_def)
  with run assms(4,7) Inr show ?thesis by (simp add: updateMemory_def expected_or_def)
qed

text \<open>
  An archived memory is outside that protection. The detector only looks at rows that are not
  archived, so whatever time the author names, the strict strategy lets the write through.
\<close>

theorem archived_stale_write_accepted:
  assumes "memory_ids.unique (memories db)" "map_option js_trim (ms_workspace scope) = ms_workspace scope"
    and "findById db i (ms_owner scope) (workspaceIdFromScope scope) = Some existing" "m_archived existing"
  shows "reconcileMemoryWrite (servicePorts dup (Some LWW) agents) scope i UpdateOp t m db = (Inr (), db)"
  by (rule root_service.reconcile_fresh)
     (simp add: stale_write_def stored_time [OF assms(1-3)] assms(4) truthy_iffs)


subsection \<open>Backups\<close>

text \<open>What a restored item is in the table.\<close>

definition restored :: "memory_scope \<Rightarrow> backup_item \<times> mint \<Rightarrow> memory_row \<Rightarrow> bool" where
  "restored scope im r \<longleftrightarrow>
     m_title r = bi_title (fst im) \<and> m_project r = bi_project (fst im) \<and> m_content r = bi_content (fst im) \<and>
     m_tags r = bi_tags (fst im) \<and> m_favorite r = bi_favorite (fst im) \<and> \<not> m_archived r \<and>
     m_level r = ''raw'' \<and> visible (ms_owner scope) (workspaceIdFromScope scope) r"

lemma visible_own:
  assumes "m_owner r = ms_owner scope" "mr_workspace r = workspaceIdFromScope scope"
  shows "visible (ms_owner scope) (workspaceIdFromScope scope) r"
  using assms by (auto simp: visible_def in_workspace_filter_def workspaceIdFromScope_def truthy_iffs split: option.splits)

lemma createMemory_backup:
  assumes "createMemory (servicePorts dup st agents) scope (backup_create item) m db = (Inr mem, db')"
  shows "\<exists>r. memories db' = memories db @ [r] \<and> restored scope (item, m) r"
proof -
  have plain: "truthy (map_option js_trim (cr_request (backup_create item))) = None"
    by (simp add: backup_create_def)
  from assms have run: "performCreate (servicePorts dup st agents) scope (backup_create item) (mint_id m) m db = (Inr mem, db')"
    by (simp add: createMemory_plain [OF plain])
  from root_service.performCreate_Inr [OF run] obtain e where
    e: "enrichForCreate db (ms_owner scope) (knowledge_of (backup_create item)) = Inr e" by blast
  let ?data = "create_data scope (backup_create item) e
    (resolveAttributionAgentId (servicePorts dup st agents) scope db) (mint_id m)"
  from run have ins: "insertMemory dup db ?data m = (Inr mem, db')" by (simp only: performCreate_service [OF e])
  then show ?thesis
  proof (cases rule: insertMemory_cases)
    case (refused x)
    then show ?thesis by simp
  next
    case (inserted r c)
    have "m_owner r = ms_owner scope" "mr_workspace r = workspaceIdFromScope scope"
      by (simp_all add: inserted(1) insert_row_def create_data_def Let_def)
    then have "restored scope (item, m) r"
      unfolding restored_def by (intro conjI visible_own)
        (simp_all add: inserted(1) insert_row_def create_data_def backup_create_def Let_def)
    with inserted(3) show ?thesis by simp
  qed
qed

lemma import_loop_rows:
  assumes "import_loop (servicePorts dup st agents) scope n items db = (Inr k, db')"
  shows "k = n + length items \<and> (\<exists>rows. memories db' = memories db @ rows \<and> list_all2 (restored scope) items rows)"
  using assms
proof (induction items arbitrary: n db)
  case Nil
  then show ?case by simp
next
  case (Cons im rest)
  obtain item m where im: "im = (item, m)" by fastforce
  from Cons.prems obtain mem db1 where
    first: "createMemory (servicePorts dup st agents) scope (backup_create item) m db = (Inr mem, db1)"
    and rest: "import_loop (servicePorts dup st agents) scope (n + 1) rest db1 = (Inr k, db')"
    by (auto simp: im then_st_Inr)
  from createMemory_backup [OF first] obtain r where r: "memories db1 = memories db @ [r]" "restored scope (item, m) r" by blast
  from Cons.IH [OF rest] obtain rows where "k = n + 1 + length rest" "memories db' = memories db1 @ rows"
    "list_all2 (restored scope) rest rows" by blast
  with r show ?case by (intro conjI exI [of _ "r # rows"]) (simp_all add: im)
qed


text \<open>
  A failed replacement loses the memories it was to replace. The old rows are deleted before the
  first item is checked, so a backup whose first summary is longer than the 300 characters the
  metadata schema admits ends in an error with none of the caller's memories left.
\<close>

theorem replaceBackup_error_loses_all:
  assumes "MAX_SUMMARY_LENGTH < length (bi_summary item)"
    and "replaceBackup (servicePorts dup st agents) scope ((item, m) # rest) db = (res, db')"
  shows "res = Inl zod_error \<and>
    (\<forall>r \<in> set (memories db'). \<not> visible (ms_owner scope) (workspaceIdFromScope scope) r)"
proof -
  let ?db = "deleteAllByOwner (deleteEmbeddingsByOwner db (ms_owner scope)) (ms_owner scope) (workspaceIdFromScope scope)"
  have plain: "truthy (map_option js_trim (cr_request (backup_create item))) = None"
    by (simp add: backup_create_def)
  have "enrichForCreate ?db (ms_owner scope) (knowledge_of (backup_create item)) = Inl zod_error"
    using assms(1) by (simp add: enrichForCreate_def knowledge_of_def backup_create_def
        validateKnowledgeMetadata_def guard_or_def)
  then have "createMemory (servicePorts dup st agents) scope (backup_create item) m ?db = (Inl zod_error, ?db)"
    by (simp add: createMemory_plain [OF plain] performCreate_def)
  with assms(2) have "res = Inl zod_error" "db' = ?db" by (simp_all add: replaceBackup_def Let_def)
  then show ?thesis by (simp add: deleteAllByOwner_def put_memory_def)
qed

lemma import_loop_embeddings:
  assumes "import_loop (servicePorts dup st agents) scope n items db = (res, db')"
  shows "embeddings db' = embeddings db \<and> set (memories db) \<subseteq> set (memories db')"
  using assms
proof (induction items arbitrary: n db)
  case Nil
  then show ?case by simp
next
  case (Cons im rest)
  obtain item m where im: "im = (item, m)" by fastforce
  obtain r1 db1 where first: "createMemory (servicePorts dup st agents) scope (backup_create item) m db = (r1, db1)" by fastforce
  have plain: "truthy (map_option js_trim (cr_request (backup_create item))) = None"
    by (simp add: backup_create_def)
  have one: "embeddings db1 = embeddings db \<and> set (memories db) \<subseteq> set (memories db1)"
  proof (cases "enrichForCreate db (ms_owner scope) (knowledge_of (backup_create item))")
    case (Inl x)
    with first show ?thesis by (simp add: createMemory_plain [OF plain] performCreate_def)
  next
    case (Inr e)
    from first have "insertMemory dup db (create_data scope (backup_create item) e
        (resolveAttributionAgentId (servicePorts dup st agents) scope db) (mint_id m)) m = (r1, db1)"
      by (simp only: createMemory_plain [OF plain] performCreate_service [OF Inr])
    then show ?thesis by (cases rule: insertMemory_cases) auto
  qed
  show ?case
  proof (cases r1)
    case (Inl x)
    with Cons.prems first one show ?thesis by (auto simp: im)
  next
    case (Inr mem)
    with Cons.prems first have "import_loop (servicePorts dup st agents) scope (n + 1) rest db1 = (res, db')"
      by (simp add: im)
    from Cons.IH [OF this] one show ?thesis by auto
  qed
qed

text \<open>
  Replacing the backup of one workspace discards the embeddings of all the others. The memories of
  the owner's other workspaces stay, but none of them has an embedding any more.
\<close>

theorem replaceBackup_drops_other_embeddings:
  assumes "replaceBackup (servicePorts dup st agents) scope items db = (res, db')"
    and "r \<in> set (memories db)" "m_owner r = ms_owner scope"
    and "\<not> visible (ms_owner scope) (workspaceIdFromScope scope) r"
  shows "r \<in> set (memories db') \<and> findByMemoryId db' (m_id r) (ms_owner scope) model = None"
proof -
  let ?db = "deleteAllByOwner (deleteEmbeddingsByOwner db (ms_owner scope)) (ms_owner scope) (workspaceIdFromScope scope)"
  from assms(1) have "import_loop (servicePorts dup st agents) scope 0 items ?db = (res, db')"
    by (simp add: replaceBackup_def Let_def)
  note loop = import_loop_embeddings [OF this]
  have "r \<in> set (memories ?db)" using assms(2,4)
    by (simp add: deleteAllByOwner_def put_memory_def deleteEmbeddingsByOwner_def)
  moreover have "\<forall>e \<in> set (embeddings ?db). em_owner e \<noteq> ms_owner scope"
    by (simp add: deleteAllByOwner_def put_memory_def deleteEmbeddingsByOwner_def)
  ultimately show ?thesis using loop by (auto simp: findByMemoryId_def)
qed


subsection \<open>Deletion and the ledger\<close>

lemma deleteMemory_intents:
  assumes "deleteMemory (servicePorts dup st agents) scope i expected m db = (Inr (), db')"
  shows "intents db' = intents db"
proof -
  from assms obtain existing where "findById db i (ms_owner scope) (workspaceIdFromScope scope) = Some existing"
    by (cases "findById db i (ms_owner scope) (workspaceIdFromScope scope)") (simp_all add: deleteMemory_def)
  with assms obtain db1 where
    rec: "reconcileMemoryWrite (servicePorts dup st agents) scope i DeleteOp (expected_or expected (m_updated existing)) m db = (Inr (), db1)"
    and rest: "(case deleteMemoryRow db1 i (ms_owner scope) (workspaceIdFromScope scope) of (deleted, db2) \<Rightarrow>
        if \<not> deleted then (Inl (NotFoundError ''Memory'' (Some i)), db2)
        else (Inr (), if sp_embeddings (servicePorts dup st agents) then deleteByMemoryId db2 i (ms_owner scope) else db2)) = (Inr (), db')"
    by (auto simp add: deleteMemory_def then_st_Inr simp del: servicePorts_simps)
  from root_service.reconcile_frame [OF rec] have "intents db1 = intents db" by (simp add: same_store_def)
  with rest show ?thesis
    by (auto simp: deleteMemoryRow_def put_memory_def deleteByMemoryId_def split: if_splits)
qed

text \<open>
  A retried create brings a deleted memory back. If a memory was created under a request and then
  deleted, the next create with that request that succeeds answers, marked as a replay, a memory
  with the identifier of the deleted one, and it is in the table again.
\<close>

theorem deleted_memory_returns_on_retry:
  assumes "createMemoryIdempotent (servicePorts dup st agents) scope input m db = (Inr out, db1)"
    and "deleteMemory (servicePorts dup st agents) scope (m_id (co_memory out)) expected md db1 = (Inr (), db2)"
    and "createMemoryIdempotent (servicePorts dup st agents) scope' retry m' db2 = (Inr out2, db3)"
    and "truthy (map_option js_trim (cr_request input)) = Some q"
    and "truthy (map_option js_trim (cr_request retry)) = Some q"
    and "ms_owner scope' = ms_owner scope" and "isKeyViolation dup"
  shows "m_id (co_memory out2) = m_id (co_memory out) \<and> co_replayed out2 \<and>
    findById db3 (m_id (co_memory out)) (ms_owner scope) None = Some (co_memory out2)"
proof -
  let ?ports = "servicePorts dup st agents"
  from root_service.create_registered [OF assms(1) _ _ assms(4)] assms(7) obtain w where
    w1: "getByRequestId db1 (ms_owner scope) q = Some w"
    and f1: "findById db1 (wi_resource w) (ms_owner scope) None = Some (co_memory out)" by auto
  from f1 have i: "wi_resource w = m_id (co_memory out)" using findById_id by metis
  from deleteMemory_intents [OF assms(2)] w1 have w2: "getByRequestId db2 (ms_owner scope) q = Some w"
    by (simp add: getByRequestId_def)
  note cl = claim_existing [OF w2 assms(7)]
  show ?thesis
  proof (cases "findById db2 (wi_resource w) (ms_owner scope) None")
    case (Some found)
    with assms(3,5,6) cl have "out2 = \<lparr>co_memory = found, co_replayed = True\<rparr>" "db3 = db2"
      by (auto simp: createMemoryIdempotent_def Let_def)
    with Some i findById_id [OF Some] show ?thesis by simp
  next
    case None
    with assms(3,5,6) cl have "completeClaimedCreate ?ports scope' retry (wi_resource w) q m' db2 = (Inr (co_memory out2), db3)"
      and "co_replayed out2"
      by (auto simp: createMemoryIdempotent_def Let_def then_st_Inr)
    with root_service.completeClaimedCreate_found [OF this(1)] assms(6) i findById_id show ?thesis by metis
  qed
qed

subsection \<open>Instances\<close>

definition sample_scope :: "string \<Rightarrow> memory_scope" where
  "sample_scope w = \<lparr>ms_owner = ''o'', ms_workspace = Some w, ms_agent = None, ms_project = None, ms_org = None,
     ms_department = None, ms_tenant_project = None\<rparr>"

definition sample_create :: "string option \<Rightarrow> create_input" where
  "sample_create request =
     \<lparr>cr_title = ''A'', cr_project = [], cr_content = ''c'', cr_summary = ''s'', cr_tags = [''t''],
      cr_favorite = False, cr_level = None, cr_keywords = None, cr_category = None, cr_type = None,
      cr_importance = None, cr_language = None, cr_notes = None, cr_request = request\<rparr>"

definition mint_of :: "string \<Rightarrow> mint" where "mint_of i = \<lparr>mint_id = i, mint_now = ''t'' @ i\<rparr>"

definition no_agents :: "(memory_scope \<Rightarrow> string \<Rightarrow> sync_db \<Rightarrow> string option) option" where
  "no_agents = None"

definition empty_sync_db :: sync_db where
  "empty_sync_db = \<lparr>memories = [], embeddings = [], intents = [], sync_audits = [], sync_conflicts = [], sync_cursors = []\<rparr>"




definition sample_sync :: "memory_row list \<Rightarrow> sync_db" where
  "sample_sync rows = \<lparr>memories = rows, embeddings = [], intents = [], sync_audits = [], sync_conflicts = [], sync_cursors = []\<rparr>"

definition sample_row :: memory_row where
  "sample_row = insert_row (sample_insert ''1'' ''NOTE-0001'' ''a'') sample_mint"

lemma sample_row_fields [simp]:
  "m_id sample_row = ''1''" "m_owner sample_row = ''o''" "mr_workspace sample_row = Some ''w''"
  "m_updated sample_row = ''t''" "\<not> m_archived sample_row"
  by (simp_all add: sample_row_def insert_row_def sample_insert_def sample_mint_def Let_def)

definition sample_update :: "string \<Rightarrow> update_input" where
  "sample_update expected =
     \<lparr>ui_title = Some ''B'', ui_project = None, ui_content = None, ui_summary = None, ui_tags = None,
      ui_favorite = None, ui_keywords = None, ui_category = None, ui_type = None, ui_importance = None,
      ui_language = None, ui_notes = None, ui_expected = Some expected\<rparr>"

lemma sample_scope_workspace: "workspaceIdFromScope (sample_scope w) = truthy (Some (js_trim w))"
  by (simp add: workspaceIdFromScope_def sample_scope_def)

lemma sample_hit: "m_id r = ''1'' \<Longrightarrow> m_owner r = ''o'' \<Longrightarrow> mr_workspace r = Some ''w'' \<Longrightarrow>
  findById (sample_sync [r]) ''1'' (ms_owner (sample_scope ''w'')) (workspaceIdFromScope (sample_scope ''w'')) =
    Some (rowToRetrieval r)"
  by (simp add: findById_def sample_sync_def sql_first_Cons memory_hit_def visible_def in_workspace_filter_def
      workspaceIdFromScope_def sample_scope_def js_trim_def js_trim_start_def js_trim_end_def js_space_def truthy_iffs
      split: option.splits)

lemma sample_scope_trimmed:
  "map_option js_trim (ms_workspace (sample_scope ''w'')) = ms_workspace (sample_scope ''w'')"
  by code_simp

theorem stale_update_refused_witness:
  "isl (fst (updateMemory (servicePorts sqlite_dup (Some LWW) no_agents) (sample_scope ''w'') ''1'' (sample_update ''old'')
      (mint_of ''9'') (sample_sync [sample_row]))) \<and>
   memories (snd (updateMemory (servicePorts sqlite_dup (Some LWW) no_agents) (sample_scope ''w'') ''1'' (sample_update ''old'')
      (mint_of ''9'') (sample_sync [sample_row]))) = memories (sample_sync [sample_row])"
proof (rule stale_update_refused)
  show "memory_ids.unique (memories (sample_sync [sample_row]))" by (simp add: memory_ids.unique_def sample_sync_def)
  show "findById (sample_sync [sample_row]) ''1'' (ms_owner (sample_scope ''w'')) (workspaceIdFromScope (sample_scope ''w'')) =
    Some (rowToRetrieval sample_row)" by (rule sample_hit) simp_all
  show "map_option js_trim (ms_workspace (sample_scope ''w'')) = ms_workspace (sample_scope ''w'')"
    by (rule sample_scope_trimmed)
  show "ui_expected (sample_update ''old'') = Some ''old''" by (simp add: sample_update_def)
qed (simp_all add: rowToRetrieval_def rowToMemory_def memory.truncate_def)

theorem archived_stale_write_accepted_witness:
  "reconcileMemoryWrite (servicePorts sqlite_dup (Some LWW) no_agents) (sample_scope ''w'') ''1'' UpdateOp (Some ''old'')
     (mint_of ''9'') (sample_sync [sample_row\<lparr>m_archived := True\<rparr>]) = (Inr (), sample_sync [sample_row\<lparr>m_archived := True\<rparr>])"
proof (rule archived_stale_write_accepted)
  show "memory_ids.unique (memories (sample_sync [sample_row\<lparr>m_archived := True\<rparr>]))"
    by (simp add: memory_ids.unique_def sample_sync_def)
  show "findById (sample_sync [sample_row\<lparr>m_archived := True\<rparr>]) ''1'' (ms_owner (sample_scope ''w''))
    (workspaceIdFromScope (sample_scope ''w'')) = Some (rowToRetrieval (sample_row\<lparr>m_archived := True\<rparr>))"
    by (rule sample_hit) simp_all
  show "map_option js_trim (ms_workspace (sample_scope ''w'')) = ms_workspace (sample_scope ''w'')"
    by (rule sample_scope_trimmed)
qed (simp add: rowToRetrieval_def rowToMemory_def memory.truncate_def)

definition sample_item :: "string \<Rightarrow> bool \<Rightarrow> backup_item" where
  "sample_item summary archived =
     \<lparr>bi_title = ''B'', bi_project = [], bi_content = ''c'', bi_summary = summary, bi_tags = [], bi_favorite = True,
      bi_archived = archived\<rparr>"


theorem replaceBackup_error_loses_all_witness:
  "fst (replaceBackup (servicePorts sqlite_dup None no_agents) (sample_scope ''w'')
      [(sample_item (replicate 301 CHR ''x'') False, mint_of ''2'')] (sample_sync [sample_row])) = Inl zod_error"
  using replaceBackup_error_loses_all [of "sample_item (replicate 301 CHR ''x'') False" sqlite_dup None no_agents
      "sample_scope ''w''" "mint_of ''2''" "[]" "sample_sync [sample_row]", OF _ prod.collapse [symmetric]]
  by (simp add: MAX_SUMMARY_LENGTH_def sample_item_def)

theorem replaceBackup_drops_other_embeddings_witness:
  "findByMemoryId (snd (replaceBackup (servicePorts sqlite_dup None no_agents) (sample_scope ''v'') [] (sample_sync [sample_row])))
     ''1'' ''o'' ''e5'' = None \<and>
   sample_row \<in> set (memories (snd (replaceBackup (servicePorts sqlite_dup None no_agents) (sample_scope ''v'') [] (sample_sync [sample_row]))))"
proof -
  have "sample_row \<in> set (memories (sample_sync [sample_row]))" by (simp add: sample_sync_def)
  moreover have "m_owner sample_row = ms_owner (sample_scope ''v'')" by (simp add: sample_scope_def)
  moreover have "\<not> visible (ms_owner (sample_scope ''v'')) (workspaceIdFromScope (sample_scope ''v'')) sample_row" by code_simp
  ultimately show ?thesis
    using replaceBackup_drops_other_embeddings [OF prod.collapse [symmetric], of sample_row "sample_sync [sample_row]"
        "sample_scope ''v''" sqlite_dup None no_agents "[]" "''e5''"]
    by (simp add: sample_scope_def)
qed

theorem deleted_memory_returns_on_retry_witness:
  "\<exists>out db1 db2 out2 db3.
    createMemoryIdempotent (servicePorts sqlite_dup None no_agents) (sample_scope ''w'') (sample_create (Some ''q''))
      (mint_of ''1'') empty_sync_db = (Inr out, db1) \<and>
    deleteMemory (servicePorts sqlite_dup None no_agents) (sample_scope ''w'') (m_id (co_memory out)) None (mint_of ''2'') db1 = (Inr (), db2) \<and>
    createMemoryIdempotent (servicePorts sqlite_dup None no_agents) (sample_scope ''w'') (sample_create (Some ''q''))
      (mint_of ''3'') db2 = (Inr out2, db3) \<and>
    m_id (co_memory out2) = m_id (co_memory out) \<and> co_replayed out2"
proof -
  let ?p = "servicePorts sqlite_dup None no_agents" and ?s = "sample_scope ''w''" and ?c = "sample_create (Some ''q'')"
  let ?run = "createMemoryIdempotent ?p ?s ?c (mint_of ''1'') empty_sync_db"
  let ?del = "deleteMemory ?p ?s (m_id (co_memory (projr (fst ?run)))) None (mint_of ''2'') (snd ?run)"
  let ?again = "createMemoryIdempotent ?p ?s ?c (mint_of ''3'') (snd ?del)"
  have "\<not> isl (fst ?run)" "\<not> isl (fst ?del)" "\<not> isl (fst ?again)" by code_simp+
  then have run: "?run = (Inr (projr (fst ?run)), snd ?run)" and "?del = (Inr (projr (fst ?del)), snd ?del)"
    and again: "?again = (Inr (projr (fst ?again)), snd ?again)" by (blast dest: run_Inr)+
  then have del: "?del = (Inr (), snd ?del)" by simp
  have q: "truthy (map_option js_trim (cr_request ?c)) = Some ''q''" by code_simp
  from deleted_memory_returns_on_retry [OF run del again q q refl] key_violation_texts run del again
  show ?thesis unfolding sqlite_dup_def by blast
qed

end
