(* ===== verification/Client_Sync.thy ===== *)
theory Client_Sync
  imports Service_Laws
begin

section \<open>Client synchronisation\<close>

text \<open>
  \<^verbatim>\<open>src/src/client-sync/client-sync.service.ts\<close> with the platform registry and the merge policy of
  \<^verbatim>\<open>src/src/evolution/default-memory-merge-policy.ts\<close>: a client pulls the changes after a cursor
  and pushes a list of its own. The conflict store is present, as the composition root always
  passes it; each change of a push draws one mint for its write and one for the queue.
\<close>

definition KNOWN_CLIENT_PLATFORMS :: "string list" where
  "KNOWN_CLIENT_PLATFORMS =
     [''cursor'', ''claude'', ''chatgpt'', ''gemini'', ''codex'', ''qwen'', ''openhands'', ''continue'', ''mcp'']"

definition DEFAULT_SYNC_PULL_LIMIT :: nat where "DEFAULT_SYNC_PULL_LIMIT = 100"

definition isKnown :: "string \<Rightarrow> bool" where
  "isKnown platformId \<longleftrightarrow> js_lower (js_trim platformId) \<in> set KNOWN_CLIENT_PLATFORMS"

definition assertKnown :: "string \<Rightarrow> app_error + unit" where
  "assertKnown platformId =
     guard_or (isKnown platformId) (ValidationError (''Unknown client platform: '' @ platformId))"

record pull_result =
  pr_memories :: "memory list"
  pr_next :: string
  pr_more :: bool

record push_result =
  ps_accepted :: nat
  ps_rejected :: nat
  ps_queued :: nat
  ps_conflicts :: "(string \<times> string) list"

record sync_status =
  ss_platform :: string
  ss_strategy :: sync_strategy
  ss_cursor :: "sync_cursor option"
  ss_pending :: nat

definition getStoredCursor :: "'a sync_db_scheme \<Rightarrow> memory_scope \<Rightarrow> string \<Rightarrow> sync_cursor option" where
  "getStoredCursor db scope platformId = getCursor db (ms_owner scope) (ms_workspace scope) (js_lower platformId)"

definition pull ::
  "memory_scope \<Rightarrow> string \<Rightarrow> string option \<Rightarrow> mint \<Rightarrow> 'a sync_db_scheme
     \<Rightarrow> (app_error + pull_result) \<times> 'a sync_db_scheme" where
  "pull scope platformId cursor m db =
     (case assertKnown platformId of
        Inl e \<Rightarrow> (Inl e, db)
      | Inr _ \<Rightarrow>
          let workspaceId = workspaceIdFromScope scope;
              since = (case cursor of Some c \<Rightarrow> c
                 | None \<Rightarrow> (case getStoredCursor db scope platformId of Some c \<Rightarrow> cu_value c | None \<Rightarrow> []));
              mems = findUpdatedSince db (ms_owner scope) workspaceId since (DEFAULT_SYNC_PULL_LIMIT + 1);
              hasMore = (DEFAULT_SYNC_PULL_LIMIT < length mems);
              pg = (if hasMore then take DEFAULT_SYNC_PULL_LIMIT mems else mems);
              nextCursor = (if 0 < length pg then m_updated (last pg) else str_or since (mint_now m))
          in then_st (upsertCursor (ms_owner scope) workspaceId (js_lower platformId) nextCursor m db)
               (\<lambda>_ db'. (Inr \<lparr>pr_memories = pg, pr_next = nextCursor, pr_more = hasMore\<rparr>, db')))"

subsection \<open>Merging a pushed change\<close>

record memory_snapshot =
  sn_title :: string
  sn_project :: string
  sn_content :: string
  sn_summary :: string
  sn_tags :: "string list"
  sn_keywords :: "string list"
  sn_category :: string
  sn_type :: string
  sn_importance :: int
  sn_language :: string
  sn_notes :: string
  sn_favorite :: bool
  sn_archived :: bool
  sn_level :: string

definition toMemorySnapshot :: "memory \<Rightarrow> memory_snapshot" where
  "toMemorySnapshot m =
     \<lparr>sn_title = m_title m, sn_project = m_project m, sn_content = m_content m, sn_summary = m_summary m,
      sn_tags = m_tags m, sn_keywords = m_keywords m, sn_category = m_category m, sn_type = m_type m,
      sn_importance = m_importance m, sn_language = m_language m, sn_notes = m_notes m,
      sn_favorite = m_favorite m, sn_archived = m_archived m, sn_level = m_level m\<rparr>"

definition preferNonEmpty :: "string \<Rightarrow> string \<Rightarrow> string" where
  "preferNonEmpty incoming base = (if 0 < length (js_trim incoming) then incoming else base)"

definition mergeSnapshots :: "memory_snapshot \<Rightarrow> memory_snapshot \<Rightarrow> memory_snapshot" where
  "mergeSnapshots base incoming =
     base\<lparr>sn_title := preferNonEmpty (sn_title incoming) (sn_title base),
       sn_content := preferNonEmpty (sn_content incoming) (sn_content base),
       sn_summary := preferNonEmpty (sn_summary incoming) (sn_summary base),
       sn_notes := preferNonEmpty (sn_notes incoming) (sn_notes base),
       sn_tags := js_set (sn_tags base @ sn_tags incoming),
       sn_keywords := js_set (sn_keywords base @ sn_keywords incoming),
       sn_importance := max (sn_importance base) (sn_importance incoming)\<rparr>"

text \<open>\<open>mergeFields\<close>; the flag says that a merge policy is configured.\<close>

definition mergeFields :: "bool \<Rightarrow> memory \<Rightarrow> push_data \<Rightarrow> push_data" where
  "mergeFields policy existing incoming =
     (if policy then
        let incomingSnapshot = toMemorySnapshot (existing\<lparr>
               m_title := nullish (pd_title incoming) (m_title existing),
               m_project := nullish (pd_project incoming) (m_project existing),
               m_content := nullish (pd_content incoming) (m_content existing),
               m_summary := nullish (pd_summary incoming) (m_summary existing),
               m_tags := nullish (pd_tags incoming) (m_tags existing),
               m_favorite := nullish (pd_favorite incoming) (m_favorite existing)\<rparr>);
            merged = mergeSnapshots (toMemorySnapshot existing) incomingSnapshot
        in \<lparr>pd_title = Some (sn_title merged), pd_project = Some (sn_project merged),
            pd_content = Some (sn_content merged), pd_summary = Some (sn_summary merged),
            pd_tags = Some (sn_tags merged), pd_favorite = Some (sn_favorite merged)\<rparr>
      else
        \<lparr>pd_title = Some (nullish (pd_title incoming) (m_title existing)),
         pd_project = Some (nullish (pd_project incoming) (m_project existing)),
         pd_content = Some (nullish (pd_content incoming) (m_content existing)),
         pd_summary = Some (nullish (pd_summary incoming) (m_summary existing)),
         pd_tags = Some (case pd_tags incoming of
             Some ts \<Rightarrow> js_set (m_tags existing @ ts) | None \<Rightarrow> m_tags existing),
         pd_favorite = Some (nullish (pd_favorite incoming) (m_favorite existing))\<rparr>)"

subsection \<open>Applying a change\<close>

definition no_push_data :: push_data where
  "no_push_data = \<lparr>pd_title = None, pd_project = None, pd_content = None, pd_summary = None,
     pd_tags = None, pd_favorite = None\<rparr>"

definition pushed_create :: "push_change \<Rightarrow> push_data \<Rightarrow> create_input" where
  "pushed_create change d =
     \<lparr>cr_title = nullish (pd_title d) [], cr_project = nullish (pd_project d) [],
      cr_content = nullish (pd_content d) [], cr_summary = nullish (pd_summary d) [],
      cr_tags = nullish (pd_tags d) [], cr_favorite = nullish (pd_favorite d) False,
      cr_level = None, cr_keywords = None, cr_category = None, cr_type = None, cr_importance = None,
      cr_language = None, cr_notes = None,
      cr_request = map_option (\<lambda>q. ''sync-create:'' @ q) (truthy (Some (js_trim (pc_memory change))))\<rparr>"

definition pushed_update :: "push_data \<Rightarrow> string \<Rightarrow> update_input" where
  "pushed_update d expected =
     \<lparr>ui_title = pd_title d, ui_project = pd_project d, ui_content = pd_content d,
      ui_summary = pd_summary d, ui_tags = pd_tags d, ui_favorite = pd_favorite d, ui_keywords = None,
      ui_category = None, ui_type = None, ui_importance = None, ui_language = None, ui_notes = None,
      ui_expected = Some expected\<rparr>"

definition applyChange ::
  "'a ports option \<Rightarrow> sync_strategy \<Rightarrow> bool \<Rightarrow> memory_scope \<Rightarrow> push_change \<Rightarrow> mint \<Rightarrow> 'a sync_db_scheme
     \<Rightarrow> (app_error + unit) \<times> 'a sync_db_scheme" where
  "applyChange service strategy policy scope change m db =
     (case service of
        None \<Rightarrow> (Inl (SyncConflictError ''MemoryService not available for push operations''), db)
      | Some ports \<Rightarrow>
          (case pc_operation change of
             CreateOp \<Rightarrow>
               (case pc_data change of
                  None \<Rightarrow> (Inl (SyncConflictError ''Create change requires title and content''), db)
                | Some d \<Rightarrow>
                    if truthy (pd_title d) = None \<or> truthy (pd_content d) = None
                    then (Inl (SyncConflictError ''Create change requires title and content''), db)
                    else then_st (createMemoryIdempotent ports scope (pushed_create change d) m db)
                           (\<lambda>_ db'. (Inr (), db')))
           | DeleteOp \<Rightarrow>
               (case findById db (pc_memory change) (ms_owner scope) (workspaceIdFromScope scope) of
                  None \<Rightarrow> (Inr (), db)
                | Some existing \<Rightarrow>
                    deleteMemory ports scope (pc_memory change)
                      (Some (nullish (pc_expected change) (m_updated existing))) m db)
           | UpdateOp \<Rightarrow>
               (case findById db (pc_memory change) (ms_owner scope) (workspaceIdFromScope scope) of
                  None \<Rightarrow> (Inl (SyncConflictError (''Memory '' @ pc_memory change @ '' not found for update'')), db)
                | Some existing \<Rightarrow>
                    let merged = (case pc_data change of
                          Some d \<Rightarrow> if strategy = FieldMerge then mergeFields policy existing d else d
                        | None \<Rightarrow> no_push_data)
                    in then_st (updateMemory ports scope (pc_memory change)
                              (pushed_update merged (nullish (pc_expected change) (m_updated existing))) m db)
                         (\<lambda>_ db'. (Inr (), db')))))"

fun push_loop ::
  "'a ports option \<Rightarrow> sync_strategy \<Rightarrow> bool \<Rightarrow> memory_scope \<Rightarrow> string \<Rightarrow> push_result
     \<Rightarrow> (push_change \<times> mint \<times> mint) list \<Rightarrow> 'a sync_db_scheme
     \<Rightarrow> (app_error + push_result) \<times> 'a sync_db_scheme" where
  "push_loop service strategy policy scope platformId res [] db = (Inr res, db)"
| "push_loop service strategy policy scope platformId res ((change, m, mq) # rest) db =
     (case applyChange service strategy policy scope change m db of
        (Inr _, db1) \<Rightarrow>
          push_loop service strategy policy scope platformId (res\<lparr>ps_accepted := ps_accepted res + 1\<rparr>) rest db1
      | (Inl e, db1) \<Rightarrow>
          if \<not> is_sync_conflict e then (Inl e, db1)
          else
            let res1 = res\<lparr>ps_rejected := ps_rejected res + 1,
                           ps_conflicts := ps_conflicts res @ [(pc_memory change, error_message e)]\<rparr>
            in if strategy = ManualQueue
               then then_st (insertConflict
                      \<lparr>ci_owner = ms_owner scope, ci_workspace = ms_workspace scope,
                       ci_platform = js_lower platformId, ci_memory = pc_memory change,
                       ci_payload = PushedChange change\<rparr> mq db1)
                    (\<lambda>_ db2. push_loop service strategy policy scope platformId
                       (res1\<lparr>ps_queued := ps_queued res1 + 1\<rparr>) rest db2)
               else push_loop service strategy policy scope platformId res1 rest db1)"

definition push ::
  "'a ports option \<Rightarrow> sync_strategy \<Rightarrow> bool \<Rightarrow> memory_scope \<Rightarrow> string \<Rightarrow> (push_change \<times> mint \<times> mint) list
     \<Rightarrow> string option \<Rightarrow> mint \<Rightarrow> 'a sync_db_scheme \<Rightarrow> (app_error + push_result) \<times> 'a sync_db_scheme" where
  "push service strategy policy scope platformId changes cursor m db =
     (case assertKnown platformId of
        Inl e \<Rightarrow> (Inl e, db)
      | Inr _ \<Rightarrow>
          then_st (push_loop service strategy policy scope platformId
                     \<lparr>ps_accepted = 0, ps_rejected = 0, ps_queued = 0, ps_conflicts = []\<rparr> changes db)
            (\<lambda>res db1. case truthy cursor of
               None \<Rightarrow> (Inr res, db1)
             | Some c \<Rightarrow>
                 then_st (upsertCursor (ms_owner scope) (ms_workspace scope) (js_lower platformId) c m db1)
                   (\<lambda>_ db2. (Inr res, db2))))"

definition getStatus ::
  "sync_strategy \<Rightarrow> memory_scope \<Rightarrow> string \<Rightarrow> 'a sync_db_scheme \<Rightarrow> app_error + sync_status" where
  "getStatus strategy scope platformId db =
     and_then (assertKnown platformId) (\<lambda>_. Inr
       \<lparr>ss_platform = js_lower platformId, ss_strategy = strategy,
        ss_cursor = getStoredCursor db scope platformId,
        ss_pending = countPending db (ms_owner scope) (ms_workspace scope) (Some (js_lower platformId))\<rparr>)"


subsection \<open>Pulling\<close>

text \<open>All the changes after a time that a client of the scope is to see, oldest first.\<close>

definition due :: "memory_scope \<Rightarrow> string \<Rightarrow> memory_row \<Rightarrow> bool" where
  "due scope since r \<longleftrightarrow> visible (ms_owner scope) (workspaceIdFromScope scope) r \<and> \<not> m_archived r \<and>
     (since \<noteq> [] \<longrightarrow> since < m_updated r)"

definition dueRows :: "'a memory_db_scheme \<Rightarrow> memory_scope \<Rightarrow> string \<Rightarrow> memory_row list" where
  "dueRows db scope since = order_asc m_updated (filter (due scope since) (memories db))"

definition pendingChanges :: "'a memory_db_scheme \<Rightarrow> memory_scope \<Rightarrow> string \<Rightarrow> memory list" where
  "pendingChanges db scope since = map rowToMemory (dueRows db scope since)"

definition nextCursor :: "'a memory_db_scheme \<Rightarrow> memory_scope \<Rightarrow> string \<Rightarrow> string \<Rightarrow> string" where
  "nextCursor db scope since now =
     (case take DEFAULT_SYNC_PULL_LIMIT (dueRows db scope since) of
        [] \<Rightarrow> str_or since now | r # rs \<Rightarrow> m_updated (last (r # rs)))"

lemma rowToMemory_updated [simp]: "m_updated (rowToMemory r) = m_updated r"
  by (simp add: rowToMemory_def memory.truncate_def)

lemma findUpdatedSince_due:
  "findUpdatedSince db (ms_owner scope) (workspaceIdFromScope scope) since n = take n (pendingChanges db scope since)"
proof -
  have "due scope since = (\<lambda>r. visible (ms_owner scope) (workspaceIdFromScope scope) r \<and> \<not> m_archived r \<and>
      (since \<noteq> [] \<longrightarrow> since < m_updated r))" by (rule ext) (simp add: due_def)
  then show ?thesis by (simp add: findUpdatedSince_def pendingChanges_def dueRows_def sql_simps take_map)
qed

lemma pull_page:
  assumes "isKnown platformId"
  shows "pull scope platformId (Some since) m db =
    then_st (upsertCursor (ms_owner scope) (workspaceIdFromScope scope) (js_lower platformId)
        (nextCursor db scope since (mint_now m)) m db)
      (\<lambda>_ db'. (Inr \<lparr>pr_memories = take DEFAULT_SYNC_PULL_LIMIT (pendingChanges db scope since),
          pr_next = nextCursor db scope since (mint_now m),
          pr_more = DEFAULT_SYNC_PULL_LIMIT < length (pendingChanges db scope since)\<rparr>, db'))"
proof -
  let ?P = "pendingChanges db scope since" and ?n = DEFAULT_SYNC_PULL_LIMIT
  have more: "(?n < length (take (?n + 1) ?P)) = (?n < length ?P)" by simp
  have pg: "(if ?n < length ?P then take ?n (take (?n + 1) ?P) else take (?n + 1) ?P) = take ?n ?P"
    by (cases "?n < length ?P") simp_all
  have cur: "(if 0 < length (take ?n ?P) then m_updated (last (take ?n ?P)) else str_or since (mint_now m)) =
      nextCursor db scope since (mint_now m)"
    by (cases "take ?n (dueRows db scope since)")
       (simp_all add: nextCursor_def pendingChanges_def take_map last_map del: take_eq_Nil)
  have known: "assertKnown platformId = Inr ()" using assms by (simp add: assertKnown_def)
  show ?thesis
    unfolding pull_def known Let_def findUpdatedSince_due option.case sum.case more pg cur ..
qed

lemma upsertCursor_ok:
  assumes "\<forall>c \<in> set (sync_cursors db). cu_id c \<noteq> mint_id m"
  shows "\<exists>t. upsertCursor ownerId workspaceId platformId value m db = (Inr (), db\<lparr>sync_cursors := t\<rparr>) \<and>
    (\<forall>c \<in> set t. cu_id c = mint_id m \<or> cu_id c \<in> cu_id ` set (sync_cursors db))"
proof (cases "getCursor db ownerId workspaceId platformId")
  case None
  then have no: "\<forall>c \<in> set (sync_cursors db). \<not> cursor_hit ownerId workspaceId platformId c"
    by (simp add: getCursor_def)
  let ?row = "\<lparr>cu_id = mint_id m, cu_owner = ownerId, cu_workspace = workspaceId, cu_platform = js_lower platformId,
    cu_value = value, cu_updated = mint_now m\<rparr>"
  have "\<forall>c \<in> set (sync_cursors db). \<not> cursor_clash ?row c"
    using no assms by (auto simp: cursor_clash_def cursor_hit_def)
  then have ins: "sql_insert cursor_clash ?row (sync_cursors db) = Inr (sync_cursors db @ [?row])" by simp
  have "upsertCursor ownerId workspaceId platformId value m db =
      (Inr (), db\<lparr>sync_cursors := sync_cursors db @ [?row]\<rparr>)"
    using None by (simp add: upsertCursor_def ins del: sql_insert_Inr)
  then show ?thesis by (intro exI [of _ "sync_cursors db @ [?row]"]) auto
next
  case (Some c)
  then show ?thesis
    by (intro exI [of _ "sql_update (cursor_hit ownerId workspaceId platformId)
        (\<lambda>c. c\<lparr>cu_value := value, cu_updated := mint_now m\<rparr>) (sync_cursors db)"])
       (auto simp: upsertCursor_def set_sql_update)
qed

lemma filter_above_last:
  assumes "sorted_wrt (\<lambda>r s. k r < (k s :: 'k :: linorder)) L" "take n L \<noteq> []"
  shows "filter (\<lambda>r. k (last (take n L)) < k r) L = drop n L"
proof -
  let ?A = "take n L" and ?B = "drop n L"
  have s: "sorted_wrt (\<lambda>r s. k r < k s) (?A @ ?B)" using assms(1) by simp
  have A: "\<not> k (last ?A) < k r" if "r \<in> set ?A" for r
  proof (cases "r = last ?A")
    case False
    define b l where "b = butlast ?A" and "l = last ?A"
    then have bl: "?A = b @ [l]" using assms(2) by simp
    have "sorted_wrt (\<lambda>r s. k r < k s) ?A" using s unfolding sorted_wrt_append by simp
    then have "sorted_wrt (\<lambda>r s. k r < k s) (b @ [l])" unfolding bl .
    moreover have "r \<in> set b" using that False unfolding l_def [symmetric] bl by simp
    ultimately have "k r < k l" by (simp add: sorted_wrt_append)
    then show ?thesis by (simp add: l_def)
  qed simp
  have B: "k (last ?A) < k r" if "r \<in> set ?B" for r
    using s that assms(2) unfolding sorted_wrt_append by (metis last_in_set)
  have "filter (\<lambda>r. k (last ?A) < k r) (?A @ ?B) = ?B"
    unfolding filter_append using A B by (simp add: filter_empty_conv filter_id_conv)
  then show ?thesis by simp
qed

text \<open>No two rows of the scope changed at the same time, and every time is set.\<close>

definition distinct_times :: "'a memory_db_scheme \<Rightarrow> memory_scope \<Rightarrow> bool" where
  "distinct_times db scope \<longleftrightarrow>
     distinct (map m_updated (filter (due scope []) (memories db))) \<and>
     (\<forall>r \<in> set (memories db). m_updated r \<noteq> [])"

lemma due_any: "due scope since r \<Longrightarrow> due scope [] r"
  by (simp add: due_def)

lemma dueRows_strict:
  assumes "distinct_times db scope"
  shows "sorted_wrt (\<lambda>r s. m_updated r < m_updated s) (dueRows db scope since)"
proof -
  let ?R = "filter (due scope since) (memories db)"
  have "?R = filter (due scope since) (filter (due scope []) (memories db))"
    by (auto simp: filter_filter due_def intro!: filter_cong)
  then have "distinct (map m_updated ?R)"
    using assms distinct_map_filter unfolding distinct_times_def by metis
  then have "distinct (map m_updated (dueRows db scope since))"
    by (simp add: dueRows_def order_asc_def distinct_map)
  moreover have "sorted (map m_updated (dueRows db scope since))"
    by (simp add: dueRows_def order_asc_def)
  ultimately have "sorted_wrt (<) (map m_updated (dueRows db scope since))"
    by (simp add: strict_sorted_iff)
  then show ?thesis by (simp add: sorted_wrt_map)
qed

lemma dueRows_next:
  assumes "distinct_times db scope"
  shows "dueRows db scope (nextCursor db scope since now) = drop DEFAULT_SYNC_PULL_LIMIT (dueRows db scope since)"
proof (cases "take DEFAULT_SYNC_PULL_LIMIT (dueRows db scope since) = []")
  case True
  then have none: "dueRows db scope since = []" by (simp add: DEFAULT_SYNC_PULL_LIMIT_def)
  then have "set (filter (due scope since) (memories db)) = {}"
    unfolding dueRows_def order_asc_def by (metis set_sort list.set(1))
  then have "filter (due scope since) (memories db) = []" by (simp only: set_empty)
  moreover have "due scope (str_or since now) r \<Longrightarrow> due scope since r" for r
    by (cases since) (auto simp: due_def)
  ultimately have "filter (due scope (str_or since now)) (memories db) = []" by (auto simp: filter_empty_conv)
  with none show ?thesis by (simp add: nextCursor_def dueRows_def order_asc_def)
next
  case False
  let ?A = "take DEFAULT_SYNC_PULL_LIMIT (dueRows db scope since)"
  have nc: "nextCursor db scope since now = m_updated (last ?A)"
    using False by (simp add: nextCursor_def split: list.split)
  have "last ?A \<in> set (dueRows db scope since)" by (rule in_set_takeD [OF last_in_set [OF False]])
  then have last: "last ?A \<in> set (memories db)" "due scope since (last ?A)"
    by (simp_all add: dueRows_def order_asc_def)
  obtain u where u: "u = m_updated (last ?A)" by simp
  have "u \<noteq> []" "since \<noteq> [] \<Longrightarrow> since < u"
    using last assms by (simp_all add: u distinct_times_def due_def)
  then have "due scope u r \<longleftrightarrow> due scope since r \<and> u < m_updated r" for r
    unfolding due_def by (blast intro: order.strict_trans)
  then have "filter (due scope u) (memories db) =
      filter (\<lambda>r. u < m_updated r) (filter (due scope since) (memories db))"
    unfolding filter_filter by (intro filter_cong refl) blast
  then have "dueRows db scope u = filter (\<lambda>r. u < m_updated r) (dueRows db scope since)"
    by (simp add: dueRows_def order_asc_def filter_sort)
  also have "\<dots> = drop DEFAULT_SYNC_PULL_LIMIT (dueRows db scope since)"
    unfolding u by (rule filter_above_last [OF dueRows_strict [OF assms] False])
  finally show ?thesis unfolding nc u .
qed

end
