(* ===== verification/Client_Sync_Laws.thy ===== *)
theory Client_Sync_Laws
  imports Client_Sync
begin

section \<open>What a client sees\<close>

text \<open>
  The pull loop of a client, the queue after a push, and the fields a merged push keeps: the
  properties of \<^verbatim>\<open>src/src/client-sync/client-sync.service.ts\<close> over the model of Client_Sync.
\<close>

subsection \<open>A client that pulls until there is no more\<close>

text \<open>
  Each pull passes on the cursor of the one before, with one mint per pull; the loop ends at the
  first answer without more, or when the mints are used up.
\<close>

fun pullAll ::
  "memory_scope \<Rightarrow> string \<Rightarrow> string \<Rightarrow> mint list \<Rightarrow> 'a sync_db_scheme \<Rightarrow> (app_error + memory list) \<times> 'a sync_db_scheme" where
  "pullAll scope platformId since [] db = (Inr [], db)"
| "pullAll scope platformId since (m # ms) db =
     then_st (pull scope platformId (Some since) m db) (\<lambda>res db1.
       if pr_more res
       then then_st (pullAll scope platformId (pr_next res) ms db1) (\<lambda>rest db2. (Inr (pr_memories res @ rest), db2))
       else (Inr (pr_memories res), db1))"

text \<open>The identifiers to come are new to the cursor table and to one another.\<close>

definition fresh_cursors :: "mint list \<Rightarrow> 'a sync_db_scheme \<Rightarrow> bool" where
  "fresh_cursors ms db \<longleftrightarrow> distinct (map mint_id ms) \<and> (\<forall>c \<in> set (sync_cursors db). cu_id c \<notin> mint_id ` set ms)"

lemma dueRows_cursors [simp]: "dueRows (db\<lparr>sync_cursors := t\<rparr>) scope since = dueRows db scope since"
  by (simp add: dueRows_def)

lemma nextCursor_cursors [simp]: "nextCursor (db\<lparr>sync_cursors := t\<rparr>) scope since now = nextCursor db scope since now"
  by (simp add: nextCursor_def)

lemma pendingChanges_cursors [simp]: "pendingChanges (db\<lparr>sync_cursors := t\<rparr>) scope since = pendingChanges db scope since"
  by (simp add: pendingChanges_def)

lemma distinct_times_cursors [simp]: "distinct_times (db\<lparr>sync_cursors := t\<rparr>) scope = distinct_times db scope"
  by (simp add: distinct_times_def)

lemma pull_ok:
  assumes "isKnown platformId" "fresh_cursors (m # ms) db"
  shows "\<exists>t. pull scope platformId (Some since) m db =
      (Inr \<lparr>pr_memories = take DEFAULT_SYNC_PULL_LIMIT (pendingChanges db scope since),
          pr_next = nextCursor db scope since (mint_now m),
          pr_more = DEFAULT_SYNC_PULL_LIMIT < length (pendingChanges db scope since)\<rparr>, db\<lparr>sync_cursors := t\<rparr>) \<and>
    fresh_cursors ms (db\<lparr>sync_cursors := t\<rparr>)"
proof -
  have "\<forall>c \<in> set (sync_cursors db). cu_id c \<noteq> mint_id m" using assms(2) by (auto simp: fresh_cursors_def)
  from upsertCursor_ok [OF this] obtain t where t:
    "upsertCursor (ms_owner scope) (workspaceIdFromScope scope) (js_lower platformId)
       (nextCursor db scope since (mint_now m)) m db = (Inr (), db\<lparr>sync_cursors := t\<rparr>)"
    "\<forall>c \<in> set t. cu_id c = mint_id m \<or> cu_id c \<in> cu_id ` set (sync_cursors db)" by blast
  have "fresh_cursors ms (db\<lparr>sync_cursors := t\<rparr>)"
    using t(2) assms(2) unfolding fresh_cursors_def by fastforce
  with t(1) show ?thesis by (intro exI [of _ t]) (simp add: pull_page [OF assms(1)])
qed

text \<open>
  C28: a client that keeps pulling gets every change. If no two visible memories changed at the same
  time, and there are enough rounds (one per hundred changes), the pages put together are all the
  changes after the cursor, oldest first, each exactly once.
\<close>

theorem pull_drains:
  assumes "isKnown platformId" "distinct_times db scope" "fresh_cursors ms db"
    and "length (pendingChanges db scope since) \<le> DEFAULT_SYNC_PULL_LIMIT * length ms"
  shows "fst (pullAll scope platformId since ms db) = Inr (pendingChanges db scope since)"
  using assms
proof (induction ms arbitrary: since db)
  case Nil
  then show ?case by simp
next
  case (Cons m ms)
  let ?P = "pendingChanges db scope since" and ?n = DEFAULT_SYNC_PULL_LIMIT
  obtain t where p: "pull scope platformId (Some since) m db =
      (Inr \<lparr>pr_memories = take ?n ?P, pr_next = nextCursor db scope since (mint_now m),
          pr_more = ?n < length ?P\<rparr>, db\<lparr>sync_cursors := t\<rparr>)"
    and fr: "fresh_cursors ms (db\<lparr>sync_cursors := t\<rparr>)"
    using pull_ok [OF Cons.prems(1,3)] by blast
  show ?case
  proof (cases "?n < length ?P")
    case False
    then show ?thesis by (simp add: p)
  next
    case True
    let ?next = "nextCursor db scope since (mint_now m)"
    have rest: "pendingChanges db scope ?next = drop ?n ?P"
      by (simp add: pendingChanges_def dueRows_next [OF Cons.prems(2)] drop_map)
    have "fst (pullAll scope platformId ?next ms (db\<lparr>sync_cursors := t\<rparr>)) = Inr (drop ?n ?P)"
      using Cons.IH [OF Cons.prems(1) _ fr, of ?next] Cons.prems(2,4) by (simp add: rest)
    then obtain db2 where "pullAll scope platformId ?next ms (db\<lparr>sync_cursors := t\<rparr>) = (Inr (drop ?n ?P), db2)"
      by (cases "pullAll scope platformId ?next ms (db\<lparr>sync_cursors := t\<rparr>)") simp
    with True show ?thesis by (simp add: p)
  qed
qed

text \<open>
  Changes that share a time are lost at a page border. When more than a hundred visible memories
  changed at one time \<open>u\<close>, the first page is cut inside them, the next one asks for strictly
  later changes, and the loop ends with those beyond the hundredth never delivered.
\<close>

theorem pull_skips_ties:
  assumes "isKnown platformId" "fresh_cursors (m # ms) db" "ms \<noteq> []" "u \<noteq> []"
    and "\<forall>r \<in> set (dueRows db scope []). m_updated r = u"
    and "DEFAULT_SYNC_PULL_LIMIT < length (dueRows db scope [])"
  shows "fst (pullAll scope platformId [] (m # ms) db) =
    Inr (take DEFAULT_SYNC_PULL_LIMIT (pendingChanges db scope []))"
proof -
  let ?P = "pendingChanges db scope []" and ?n = DEFAULT_SYNC_PULL_LIMIT
  obtain t where p: "pull scope platformId (Some []) m db =
      (Inr \<lparr>pr_memories = take ?n ?P, pr_next = nextCursor db scope [] (mint_now m),
          pr_more = ?n < length ?P\<rparr>, db\<lparr>sync_cursors := t\<rparr>)"
    and fr: "fresh_cursors ms (db\<lparr>sync_cursors := t\<rparr>)"
    using pull_ok [OF assms(1,2)] by blast
  let ?A = "take ?n (dueRows db scope [])"
  have ne: "?A \<noteq> []" using assms(6) by (auto simp: DEFAULT_SYNC_PULL_LIMIT_def)
  have "last ?A \<in> set (dueRows db scope [])" by (rule in_set_takeD [OF last_in_set [OF ne]])
  then have nx: "nextCursor db scope [] (mint_now m) = u"
    using ne assms(5) by (cases ?A) (simp_all add: nextCursor_def)
  have "set (dueRows db scope u) = {}"
    using assms(4,5) by (auto simp: dueRows_def order_asc_def due_def)
  then have none: "pendingChanges db scope u = []" by (simp add: pendingChanges_def)
  obtain m' ms' where ms: "ms = m' # ms'" using assms(3) by (cases ms) auto
  obtain t' where "pull scope platformId (Some u) m' (db\<lparr>sync_cursors := t\<rparr>) =
      (Inr \<lparr>pr_memories = [], pr_next = nextCursor db scope u (mint_now m'), pr_more = False\<rparr>,
       db\<lparr>sync_cursors := t'\<rparr>)"
    using pull_ok [OF assms(1) fr [unfolded ms], of scope u] by (auto simp: none)
  then show ?thesis using assms(6) by (simp add: p nx ms pendingChanges_def)
qed

subsection \<open>Pushed changes\<close>

lemma stale_manual_queue:
  assumes "stale_write ev db" "\<forall>c \<in> set (sync_conflicts db). sc_id c \<noteq> mint_id m"
  shows "\<exists>db1 c. syncManagerFor (Some ManualQueue) ev m db = (Inr Reject, db1) \<and> memories db1 = memories db \<and>
    sync_conflicts db1 = sync_conflicts db @ [c] \<and> sc_id c = mint_id m \<and>
    pendingFilter (ms_owner (ev_scope ev)) (ms_workspace (ev_scope ev)) None c"
proof -
  obtain det db1 where det: "detect ev (mint_now m) db = (det, db1)" by fastforce
  with assms(1) detect_stale [of ev "mint_now m" db] have st: "sd_stale det" by simp
  from det detect_frame [of db ev "mint_now m"] have fr: "memories db1 = memories db" "sync_conflicts db1 = sync_conflicts db"
    by (simp_all add: same_store_def)
  with assms(2) have "\<forall>c \<in> set (sync_conflicts db1). \<not> conflict_clash r c" if "sc_id r = mint_id m" for r
    using that by (auto simp: conflict_clash_def)
  then have "sql_insert conflict_clash r (sync_conflicts db1) = Inr (sync_conflicts db @ [r])" if "sc_id r = mint_id m" for r
    using that fr by simp
  with st fr show ?thesis
    by (simp add: syncManagerFor_def conflictAwareSyncManager_def det ManualQueueResolver_def Let_def insertConflict_def
        pendingFilter_def del: sql_insert_Inr)
qed

lemma insertConflict_ok:
  assumes "\<forall>c \<in> set (sync_conflicts db). sc_id c \<noteq> mint_id m"
  shows "\<exists>c. insertConflict rec m db = (Inr c, db\<lparr>sync_conflicts := sync_conflicts db @ [c]\<rparr>) \<and>
    pendingFilter (ci_owner rec) (ci_workspace rec) None c"
proof -
  have "sql_insert conflict_clash r (sync_conflicts db) = Inr (sync_conflicts db @ [r])" if "sc_id r = mint_id m" for r
    using that assms by (auto simp: conflict_clash_def)
  then show ?thesis by (simp add: insertConflict_def Let_def pendingFilter_def del: sql_insert_Inr)
qed

text \<open>
  Under the manual queue, one stale deletion pushed by a client is queued twice: once by the sync
  manager that the memory service asks, and once more by the push itself, while the client is told
  that one change was queued. No memory is touched.
\<close>

theorem push_queues_twice:
  assumes "isKnown platformId" "memory_ids.unique (memories db)"
    and "map_option js_trim (ms_workspace scope) = ms_workspace scope"
    and "findById db (pc_memory change) (ms_owner scope) (workspaceIdFromScope scope) = Some existing"
    and "\<not> m_archived existing" "m_updated existing \<noteq> []"
    and "pc_operation change = DeleteOp" "pc_expected change = Some t" "t \<noteq> []" "t \<noteq> m_updated existing"
    and "\<forall>c \<in> set (sync_conflicts db). sc_id c \<noteq> mint_id m \<and> sc_id c \<noteq> mint_id mq" "mint_id m \<noteq> mint_id mq"
  shows "\<exists>res db2. push (Some (servicePorts dup (Some ManualQueue) agents)) ManualQueue policy scope platformId
      [(change, m, mq)] None mc db = (Inr res, db2) \<and> ps_queued res = 1 \<and> memories db2 = memories db \<and>
    countPending db2 (ms_owner scope) (ms_workspace scope) None = countPending db (ms_owner scope) (ms_workspace scope) None + 2"
proof -
  let ?ev = "\<lparr>ev_scope = scope, ev_memory = pc_memory change, ev_operation = DeleteOp, ev_expected = Some t\<rparr>"
  let ?ports = "servicePorts dup (Some ManualQueue) agents"
  let ?pending = "pendingFilter (ms_owner scope) (ms_workspace scope) None"
  have "stale_write ?ev db"
    using assms(5-10) stored_time [OF assms(2-4), of DeleteOp "Some t"]
    by (simp add: stale_write_def shouldCheckStale_def truthy_iffs)
  from stale_manual_queue [OF this, of m] assms(11) obtain db1 c where
    man: "syncManagerFor (Some ManualQueue) ?ev m db = (Inr Reject, db1)" "memories db1 = memories db"
      "sync_conflicts db1 = sync_conflicts db @ [c]" "sc_id c = mint_id m" "?pending c" by auto
  have "\<forall>c \<in> set (sync_conflicts db1). sc_id c \<noteq> mint_id mq" using assms(11,12) man(3,4) by auto
  from insertConflict_ok [OF this, of "\<lparr>ci_owner = ms_owner scope, ci_workspace = ms_workspace scope,
      ci_platform = js_lower platformId, ci_memory = pc_memory change, ci_payload = PushedChange change\<rparr>"]
  obtain c' where ins: "insertConflict \<lparr>ci_owner = ms_owner scope, ci_workspace = ms_workspace scope,
      ci_platform = js_lower platformId, ci_memory = pc_memory change, ci_payload = PushedChange change\<rparr> mq db1 =
      (Inr c', db1\<lparr>sync_conflicts := sync_conflicts db1 @ [c']\<rparr>)" "?pending c'" by auto
  have "reconcileMemoryWrite ?ports scope (pc_memory change) DeleteOp (Some t) m db =
      (Inl (SyncConflictError ''Memory write rejected due to sync conflict''), db1)"
    by (simp add: reconcileMemoryWrite_def man(1))
  then have "applyChange (Some ?ports) ManualQueue policy scope change m db =
      (Inl (SyncConflictError ''Memory write rejected due to sync conflict''), db1)"
    using assms(4,7,8) by (simp add: applyChange_def deleteMemory_def expected_or_def)
  then show ?thesis
    using assms(1) man ins
    by (simp add: push_def assertKnown_def countPending_def sql_count_def truthy_def)
qed

text \<open>
  What a merged update keeps. With a merge policy a blank title, content or summary of the client
  does not erase the stored one and the tags are united, but a pushed project and a pushed favourite
  flag are dropped: the policy copies both from the stored memory.
\<close>

lemma set_js_set [simp]: "set (js_set xs) = set xs"
  by (auto simp: js_set_def)

lemma mergeFields_policy:
  "pd_project (mergeFields True existing d) = Some (m_project existing) \<and>
   pd_favorite (mergeFields True existing d) = Some (m_favorite existing) \<and>
   set (the (pd_tags (mergeFields True existing d))) = set (m_tags existing) \<union> set (nullish (pd_tags d) [])"
  by (auto simp: mergeFields_def Let_def mergeSnapshots_def toMemorySnapshot_def nullish_def split: option.splits)

lemma mergeFields_plain:
  "pd_project (mergeFields False existing d) = Some (nullish (pd_project d) (m_project existing)) \<and>
   pd_favorite (mergeFields False existing d) = Some (nullish (pd_favorite d) (m_favorite existing)) \<and>
   set (the (pd_tags (mergeFields False existing d))) = set (m_tags existing) \<union> set (nullish (pd_tags d) [])"
  by (auto simp: mergeFields_def nullish_def split: option.splits)

subsection \<open>Instances\<close>

lemma sample_due: "m_owner r = ''o'' \<Longrightarrow> mr_workspace r = Some ''w'' \<Longrightarrow> \<not> m_archived r \<Longrightarrow> due (sample_scope ''w'') [] r"
  by (simp add: due_def visible_def in_workspace_filter_def workspaceIdFromScope_def sample_scope_def js_trim_def
      js_trim_start_def js_trim_end_def js_space_def truthy_iffs split: option.splits)

theorem pull_drains_witness:
  "\<exists>a b. fst (pullAll (sample_scope ''w'') ''Cursor'' [] [mint_of ''7'']
      (sample_sync [sample_row\<lparr>m_updated := ''u''\<rparr>, sample_row\<lparr>m_id := ''2''\<rparr>])) = Inr [a, b] \<and> m_id a = ''2'' \<and> m_id b = ''1''"
proof -
  let ?db = "sample_sync [sample_row\<lparr>m_updated := ''u''\<rparr>, sample_row\<lparr>m_id := ''2''\<rparr>]"
  have rows: "dueRows ?db (sample_scope ''w'') [] = [sample_row\<lparr>m_id := ''2''\<rparr>, sample_row\<lparr>m_updated := ''u''\<rparr>]"
    by (simp add: dueRows_def order_asc_def sample_sync_def sample_due)
  have "fst (pullAll (sample_scope ''w'') ''Cursor'' [] [mint_of ''7''] ?db) = Inr (pendingChanges ?db (sample_scope ''w'') [])"
  proof (rule pull_drains)
    show "isKnown ''Cursor''" by code_simp
    show "distinct_times ?db (sample_scope ''w'')" by (simp add: distinct_times_def sample_sync_def sample_due)
    show "fresh_cursors [mint_of ''7''] ?db" by (simp add: fresh_cursors_def sample_sync_def)
    show "length (pendingChanges ?db (sample_scope ''w'') []) \<le> DEFAULT_SYNC_PULL_LIMIT * length [mint_of ''7'']"
      by (simp add: pendingChanges_def rows DEFAULT_SYNC_PULL_LIMIT_def)
  qed
  then show ?thesis by (simp add: pendingChanges_def rows rowToMemory_def memory.truncate_def)
qed

text \<open>A hundred and one memories with one time: the last of them is never pulled.\<close>

definition tied_rows :: "memory_row list" where
  "tied_rows = map (\<lambda>n. sample_row\<lparr>m_id := replicate n CHR ''x''\<rparr>) [0..<101]"

lemma tied_due: "dueRows (sample_sync tied_rows) (sample_scope ''w'') [] = tied_rows"
proof -
  have "filter (due (sample_scope ''w'') []) tied_rows = tied_rows"
    by (auto simp: tied_rows_def sample_due intro!: filter_True)
  moreover have "sorted (map m_updated tied_rows)" by (simp add: tied_rows_def comp_def map_replicate_const)
  ultimately show ?thesis by (simp add: dueRows_def order_asc_def sample_sync_def sorted_sort_id sort_key_id_if_sorted)
qed

theorem pull_skips_ties_witness:
  "\<exists>got. fst (pullAll (sample_scope ''w'') ''mcp'' [] [mint_of ''7'', mint_of ''8''] (sample_sync tied_rows)) = Inr got \<and>
    length got = 100 \<and> length (pendingChanges (sample_sync tied_rows) (sample_scope ''w'') []) = 101"
proof -
  have "fst (pullAll (sample_scope ''w'') ''mcp'' [] [mint_of ''7'', mint_of ''8''] (sample_sync tied_rows)) =
      Inr (take DEFAULT_SYNC_PULL_LIMIT (pendingChanges (sample_sync tied_rows) (sample_scope ''w'') []))"
  proof (rule pull_skips_ties)
    show "isKnown ''mcp''" by code_simp
    show "fresh_cursors [mint_of ''7'', mint_of ''8''] (sample_sync tied_rows)"
      by (simp add: fresh_cursors_def sample_sync_def mint_of_def)
    show "\<forall>r \<in> set (dueRows (sample_sync tied_rows) (sample_scope ''w'') []). m_updated r = ''t''"
      unfolding tied_due by (simp add: tied_rows_def)
    show "DEFAULT_SYNC_PULL_LIMIT < length (dueRows (sample_sync tied_rows) (sample_scope ''w'') [])"
      unfolding tied_due by (simp add: tied_rows_def DEFAULT_SYNC_PULL_LIMIT_def)
  qed simp_all
  then show ?thesis unfolding pendingChanges_def tied_due by (simp add: DEFAULT_SYNC_PULL_LIMIT_def tied_rows_def)
qed

definition sample_deletion :: push_change where
  "sample_deletion = \<lparr>pc_memory = ''1'', pc_operation = DeleteOp, pc_expected = Some ''old'', pc_data = None\<rparr>"

theorem push_queues_twice_witness:
  "\<exists>res db2. push (Some (servicePorts sqlite_dup (Some ManualQueue) no_agents)) ManualQueue True (sample_scope ''w'') ''mcp''
      [(sample_deletion, mint_of ''5'', mint_of ''6'')] None (mint_of ''7'') (sample_sync [sample_row]) = (Inr res, db2) \<and>
    ps_queued res = 1 \<and> countPending db2 ''o'' (Some ''w'') None = 2"
proof -
  have "\<exists>res db2. push (Some (servicePorts sqlite_dup (Some ManualQueue) no_agents)) ManualQueue True (sample_scope ''w'') ''mcp''
      [(sample_deletion, mint_of ''5'', mint_of ''6'')] None (mint_of ''7'') (sample_sync [sample_row]) = (Inr res, db2) \<and>
    ps_queued res = 1 \<and> memories db2 = memories (sample_sync [sample_row]) \<and>
    countPending db2 (ms_owner (sample_scope ''w'')) (ms_workspace (sample_scope ''w'')) None =
      countPending (sample_sync [sample_row]) (ms_owner (sample_scope ''w'')) (ms_workspace (sample_scope ''w'')) None + 2"
  proof (rule push_queues_twice)
    show "isKnown ''mcp''" by code_simp
    show "memory_ids.unique (memories (sample_sync [sample_row]))" by (simp add: memory_ids.unique_def sample_sync_def)
    show "findById (sample_sync [sample_row]) (pc_memory sample_deletion) (ms_owner (sample_scope ''w''))
        (workspaceIdFromScope (sample_scope ''w'')) = Some (rowToRetrieval sample_row)"
      unfolding sample_deletion_def push_change.simps by (rule sample_hit) simp_all
    show "map_option js_trim (ms_workspace (sample_scope ''w'')) = ms_workspace (sample_scope ''w'')"
      by (rule sample_scope_trimmed)
    show "pc_expected sample_deletion = Some ''old''" by (simp add: sample_deletion_def)
  qed (simp_all add: rowToRetrieval_def rowToMemory_def memory.truncate_def sample_deletion_def mint_of_def sample_sync_def)
  moreover have "ms_owner (sample_scope ''w'') = ''o''" "ms_workspace (sample_scope ''w'') = Some ''w''"
    "countPending (sample_sync [sample_row]) ''o'' (Some ''w'') None = 0"
    by (simp_all add: sample_scope_def sample_sync_def countPending_def sql_count_def)
  ultimately show ?thesis by auto
qed

end
