(* ===== verification/Relations.thy ===== *)
theory Relations
  imports Service_Laws
begin

section \<open>Relations between memories\<close>

text \<open>
  The table \<open>memory_relations\<close> with \<^verbatim>\<open>src/src/repositories/memory-relation.repository.ts\<close>, the
  provenance metadata of \<^verbatim>\<open>src/src/types/provenance.ts\<close> and
  \<^verbatim>\<open>src/src/services/memory-relation.service.ts\<close>. The column \<open>metadata\<close>, which the code writes with
  \<^verbatim>\<open>JSON.stringify\<close> of an object, is kept as that object, an association list in key order; a number
  is a rational. The foreign keys of the table, enforced or not by the configured database, are left
  out. The text of a schema failure is its fixed part, without the list of issues.
\<close>

datatype json =
    JNull | JBool bool | JNum rat | JStr string | JArr "json list" | JObj "(string \<times> json) list"

type_synonym json_object = "(string \<times> json) list"

text \<open>\<open>o.k\<close> and \<open>o.k = v\<close>.\<close>

definition json_get :: "json_object \<Rightarrow> string \<Rightarrow> json option" where
  "json_get obj k = map_of obj k"

fun json_set :: "json_object \<Rightarrow> string \<Rightarrow> json \<Rightarrow> json_object" where
  "json_set [] k v = [(k, v)]"
| "json_set ((k', v') # obj) k v = (if k' = k then (k, v) # obj else (k', v') # json_set obj k v)"

lemma json_get_set: "json_get (json_set obj k v) j = (if j = k then Some v else json_get obj j)"
  by (induction obj k v rule: json_set.induct) (auto simp: json_get_def)

subsection \<open>Types\<close>

datatype relation_type =
    Related | DependsOn | ParentOf | ChildOf | DuplicateOf | Consolidates | Reference
  | MotivatedBy | CausedBy | ResultedIn | Supersedes

datatype source_type = ManualSource | InferredSource | ImportSource | ApiSource | McpSource

record relation_row =
  rl_id :: string
  rl_source :: string
  rl_target :: string
  rl_relation :: relation_type
  rl_owner :: string
  rl_weight :: rat
  rl_confidence :: rat
  rl_created_by :: "string option"
  rl_source_type :: source_type
  rl_metadata :: json_object
  rl_created :: string

record relation_db = sync_db +
  relations :: "relation_row list"

record create_relation =
  cl_target :: string
  cl_relation :: relation_type
  cl_weight :: "rat option"
  cl_confidence :: "rat option"
  cl_source_type :: "source_type option"
  cl_metadata :: "json_object option"

subsection \<open>Provenance metadata\<close>

definition PROVENANCE_RELATION_TYPES :: "relation_type list" where
  "PROVENANCE_RELATION_TYPES = [MotivatedBy, CausedBy, ResultedIn, Supersedes]"

definition CONFLICT_KINDS :: "string list" where
  "CONFLICT_KINDS = [''mutually_exclusive'', ''temporal'', ''granularity'']"

definition PROVENANCE_RULES :: "string list" where
  "PROVENANCE_RULES = [''authored'', ''depends_on_candidate'']"

definition PROVENANCE_VERSION :: string where "PROVENANCE_VERSION = ''1.0''"

definition isProvenanceRelationType :: "relation_type \<Rightarrow> bool" where
  "isProvenanceRelationType relation \<longleftrightarrow> relation \<in> set PROVENANCE_RELATION_TYPES"

fun non_empty_text :: "json option \<Rightarrow> bool" where
  "non_empty_text (Some (JStr s)) = (s \<noteq> [])"
| "non_empty_text _ = False"

fun text_of :: "string list \<Rightarrow> json \<Rightarrow> bool" where
  "text_of allowed (JStr s) = (s \<in> set allowed)"
| "text_of allowed _ = False"

fun is_text :: "json \<Rightarrow> bool" where
  "is_text (JStr s) = True"
| "is_text _ = False"

fun text_list :: "json \<Rightarrow> bool" where
  "text_list (JArr xs) = list_all (\<lambda>x. non_empty_text (Some x)) xs"
| "text_list _ = False"

definition provenanceEvidence_ok :: "json_object \<Rightarrow> bool" where
  "provenanceEvidence_ok obj \<longleftrightarrow>
     non_empty_text (json_get obj ''provenanceVersion'') \<and>
     (case json_get obj ''rule'' of None \<Rightarrow> False | Some v \<Rightarrow> text_of PROVENANCE_RULES v) \<and>
     opt_all is_text (json_get obj ''matched'') \<and>
     opt_all (text_of CONFLICT_KINDS) (json_get obj ''conflictKind'') \<and>
     opt_all text_list (json_get obj ''evidenceRefs'')"

text \<open>A failure is a plain \<^verbatim>\<open>Error\<close>; its message is what the caller shows.\<close>

definition enforceProvenanceMetadata :: "relation_type \<Rightarrow> json_object \<Rightarrow> string + json_object" where
  "enforceProvenanceMetadata relation metadata =
     (if \<not> isProvenanceRelationType relation then Inr metadata
      else
        let next1 = (if non_empty_text (json_get metadata ''provenanceVersion'') then metadata
                     else json_set metadata ''provenanceVersion'' (JStr PROVENANCE_VERSION));
            next2 = (if non_empty_text (json_get next1 ''rule'') then next1
                     else json_set next1 ''rule'' (JStr ''authored''))
        in if \<not> provenanceEvidence_ok next2 then Inl ''invalid provenance metadata''
           else if relation = Supersedes \<and> json_get next2 ''conflictKind'' = None
                then Inl ''supersedes requires metadata.conflictKind''
                else Inr next2)"

subsection \<open>Repository\<close>

definition relation_clash :: "relation_row \<Rightarrow> relation_row \<Rightarrow> bool" where
  "relation_clash r s \<longleftrightarrow> rl_id r = rl_id s \<or>
     (rl_source r = rl_source s \<and> rl_target r = rl_target s \<and> rl_relation r = rl_relation s)"

interpretation relation_ids: keyed_table rl_id relation_clash
  by unfold_locales (simp add: relation_clash_def)

definition findRelationById :: "'a relation_db_scheme \<Rightarrow> string \<Rightarrow> string \<Rightarrow> relation_row option" where
  "findRelationById db i ownerId = sql_first (\<lambda>r. rl_id r = i \<and> rl_owner r = ownerId) (relations db)"

definition insertRelation ::
  "'a relation_db_scheme \<Rightarrow> string \<Rightarrow> string \<Rightarrow> relation_type \<Rightarrow> string \<Rightarrow> rat option \<Rightarrow> rat option
     \<Rightarrow> string option \<Rightarrow> source_type option \<Rightarrow> json_object option \<Rightarrow> mint
     \<Rightarrow> (app_error + relation_row) \<times> 'a relation_db_scheme" where
  "insertRelation db source target relation ownerId weight confidence createdBy sourceType metadata m =
     (case sql_insert relation_clash
             \<lparr>rl_id = mint_id m, rl_source = source, rl_target = target, rl_relation = relation,
              rl_owner = ownerId, rl_weight = nullish weight 1, rl_confidence = nullish confidence 1,
              rl_created_by = createdBy, rl_source_type = nullish sourceType ManualSource,
              rl_metadata = nullish metadata [], rl_created = mint_now m\<rparr> (relations db) of
        Inl e \<Rightarrow> (Inl e, db)
      | Inr t \<Rightarrow>
          let db' = db\<lparr>relations := t\<rparr>
          in (case findRelationById db' (mint_id m) ownerId of
                None \<Rightarrow> (Inl (DatabaseError ''Failed to retrieve inserted relation''), db')
              | Some r \<Rightarrow> (Inr r, db')))"

text \<open>An inner join on the primary key of \<open>memories\<close> keeps the row when the memory is there.\<close>

definition joined :: "'a memory_db_scheme \<Rightarrow> string \<Rightarrow> string \<Rightarrow> string \<Rightarrow> bool" where
  "joined db i ownerId workspaceId \<longleftrightarrow>
     list_ex (\<lambda>s. m_id s = i \<and> m_owner s = ownerId \<and> mr_workspace s = Some workspaceId) (memories db)"

definition findByMemory ::
  "'a relation_db_scheme \<Rightarrow> string \<Rightarrow> string \<Rightarrow> string option \<Rightarrow> relation_row list" where
  "findByMemory db memoryId ownerId workspaceId =
     (let touches = (\<lambda>r. rl_owner r = ownerId \<and> (rl_source r = memoryId \<or> rl_target r = memoryId))
      in case truthy workspaceId of
           Some w \<Rightarrow> order_desc rl_created (sql_select (\<lambda>r. touches r \<and>
               joined db (rl_source r) ownerId w \<and> joined db (rl_target r) ownerId w) (relations db))
         | None \<Rightarrow> order_desc rl_created (sql_select touches (relations db)))"

definition countDegreeByOwner :: "'a relation_db_scheme \<Rightarrow> string \<Rightarrow> string \<Rightarrow> nat option" where
  "countDegreeByOwner db ownerId =
     (let mine = sql_select (\<lambda>r. rl_owner r = ownerId) (relations db);
          ids = map rl_source mine @ map rl_target mine
      in (\<lambda>i. if i \<in> set ids then Some (count_list ids i) else None))"

definition relationExists ::
  "'a relation_db_scheme \<Rightarrow> string \<Rightarrow> string \<Rightarrow> relation_type \<Rightarrow> string \<Rightarrow> bool" where
  "relationExists db source target relation ownerId \<longleftrightarrow>
     0 < sql_count (\<lambda>r. rl_owner r = ownerId \<and> rl_source r = source \<and> rl_target r = target \<and>
       rl_relation r = relation) (relations db)"

definition deleteRelationRow :: "'a relation_db_scheme \<Rightarrow> string \<Rightarrow> string \<Rightarrow> bool \<times> 'a relation_db_scheme" where
  "deleteRelationRow db i ownerId =
     (let p = (\<lambda>r. rl_id r = i \<and> rl_owner r = ownerId)
      in (0 < sql_count p (relations db), db\<lparr>relations := sql_delete p (relations db)\<rparr>))"

definition createFromInput ::
  "'a relation_db_scheme \<Rightarrow> string \<Rightarrow> string \<Rightarrow> create_relation \<Rightarrow> string option \<Rightarrow> mint
     \<Rightarrow> (app_error + relation_row) \<times> 'a relation_db_scheme" where
  "createFromInput db source ownerId input createdBy m =
     insertRelation db source (cl_target input) (cl_relation input) ownerId (cl_weight input)
       (cl_confidence input) createdBy (cl_source_type input) (cl_metadata input) m"

datatype upsert_outcome = RelationCreated | RelationUpdated | SkippedManual

definition upsertInferred ::
  "'a relation_db_scheme \<Rightarrow> string \<Rightarrow> string \<Rightarrow> relation_type \<Rightarrow> string \<Rightarrow> rat \<Rightarrow> rat \<Rightarrow> json_object option
     \<Rightarrow> mint \<Rightarrow> (app_error + upsert_outcome) \<times> 'a relation_db_scheme" where
  "upsertInferred db source target relation ownerId weight confidence metadata m =
     (case sql_first (\<lambda>r. rl_owner r = ownerId \<and> rl_source r = source \<and> rl_target r = target \<and>
             rl_relation r = relation) (relations db) of
        Some existing \<Rightarrow>
          if rl_source_type existing \<noteq> InferredSource then (Inr SkippedManual, db)
          else (Inr RelationUpdated,
                db\<lparr>relations := sql_update (\<lambda>r. rl_id r = rl_id existing \<and> rl_owner r = ownerId)
                    (\<lambda>r. r\<lparr>rl_weight := weight, rl_confidence := confidence, rl_metadata := nullish metadata []\<rparr>)
                    (relations db)\<rparr>)
      | None \<Rightarrow>
          then_st (insertRelation db source target relation ownerId (Some weight) (Some confidence) None
                     (Some InferredSource) metadata m)
            (\<lambda>_ db'. (Inr RelationCreated, db')))"

subsection \<open>Service\<close>

definition listRelations :: "memory_scope \<Rightarrow> string \<Rightarrow> 'a relation_db_scheme \<Rightarrow> app_error + relation_row list" where
  "listRelations scope memoryId db =
     (case findById db memoryId (ms_owner scope) (workspaceIdFromScope scope) of
        None \<Rightarrow> Inl (NotFoundError ''Memory'' (Some memoryId))
      | Some _ \<Rightarrow> Inr (findByMemory db memoryId (ms_owner scope) (workspaceIdFromScope scope)))"

definition createRelation ::
  "memory_scope \<Rightarrow> string \<Rightarrow> create_relation \<Rightarrow> string option \<Rightarrow> mint \<Rightarrow> 'a relation_db_scheme
     \<Rightarrow> (app_error + relation_row) \<times> 'a relation_db_scheme" where
  "createRelation scope sourceId input createdBy m db =
     (let workspaceId = workspaceIdFromScope scope
      in if findById db sourceId (ms_owner scope) workspaceId = None
         then (Inl (NotFoundError ''Memory'' (Some sourceId)), db)
         else if findById db (cl_target input) (ms_owner scope) workspaceId = None
         then (Inl (NotFoundError ''Memory'' (Some (cl_target input))), db)
         else if sourceId = cl_target input then (Inl (ValidationError ''Cannot relate memory to itself''), db)
         else if relationExists db sourceId (cl_target input) (cl_relation input) (ms_owner scope)
         then (Inl (ValidationError ''Relation already exists''), db)
         else (case (if isProvenanceRelationType (cl_relation input)
                     then enforceProvenanceMetadata (cl_relation input) (nullish (cl_metadata input) [])
                     else Inr (nullish (cl_metadata input) [])) of
                 Inl message \<Rightarrow> (Inl (ValidationError message), db)
               | Inr metadata \<Rightarrow>
                   createFromInput db sourceId (ms_owner scope) (input\<lparr>cl_metadata := Some metadata\<rparr>) createdBy m))"

definition deleteRelation ::
  "memory_scope \<Rightarrow> string \<Rightarrow> string \<Rightarrow> 'a relation_db_scheme \<Rightarrow> (app_error + unit) \<times> 'a relation_db_scheme" where
  "deleteRelation scope memoryId relationId db =
     (case findById db memoryId (ms_owner scope) (workspaceIdFromScope scope) of
        None \<Rightarrow> (Inl (NotFoundError ''Memory'' (Some memoryId)), db)
      | Some _ \<Rightarrow>
          (case deleteRelationRow db relationId (ms_owner scope) of
             (deleted, db') \<Rightarrow>
               if \<not> deleted then (Inl (NotFoundError ''Relation'' (Some relationId)), db') else (Inr (), db')))"

end
