(* ===== verification/Inference.thy ===== *)
theory Inference
  imports Relations "HOL-Library.AList"
begin

section \<open>Inferred relations\<close>

text \<open>
  \<^verbatim>\<open>src/src/inference\<close>: the six sources of candidate relations, the scoring policy that merges
  them, and the orchestrator that writes them through \<open>upsertInferred\<close>, with the evidence table of
  \<^verbatim>\<open>src/src/infrastructure/inference/sql-relation-evidence-store.ts\<close>. The numbers, doubles in the
  code, are rationals; the time in milliseconds that \<^verbatim>\<open>new Date(s).getTime()\<close> gives a timestamp
  is the parameter \<open>tm\<close>.
\<close>

definition RELATION_INFERENCE_MIN_CONFIDENCE :: rat where "RELATION_INFERENCE_MIN_CONFIDENCE = 3 / 10"
definition RELATION_INFERENCE_MAX_CANDIDATES :: nat where "RELATION_INFERENCE_MAX_CANDIDATES = 500"
definition TEMPORAL_PROXIMITY_DAYS :: rat where "TEMPORAL_PROXIMITY_DAYS = 7"
definition PROJECT_COOCCURRENCE_CONFIDENCE :: rat where "PROJECT_COOCCURRENCE_CONFIDENCE = 6 / 10"
definition SHARED_TAG_BASE_CONFIDENCE :: rat where "SHARED_TAG_BASE_CONFIDENCE = 5 / 10"
definition TEMPORAL_PROXIMITY_CONFIDENCE :: rat where "TEMPORAL_PROXIMITY_CONFIDENCE = 4 / 10"
definition DEPENDENCY_TAG_PREFIX :: string where "DEPENDENCY_TAG_PREFIX = ''depends:''"
definition DEPENDENCY_CONFIDENCE :: rat where "DEPENDENCY_CONFIDENCE = 7 / 10"
definition SEMANTIC_SIMILARITY_BASE :: rat where "SEMANTIC_SIMILARITY_BASE = 45 / 100"

record candidate =
  ic_source :: string
  ic_target :: string
  ic_relation :: relation_type
  ic_weight :: rat
  ic_confidence :: rat
  ic_origin :: string
  ic_evidence :: json_object

record scored_relation = candidate +
  ir_weight :: rat
  ir_confidence :: rat

subsection \<open>Sources\<close>

text \<open>The two nested loops over \<open>i < j\<close>, which skip equal identifiers.\<close>

fun pairs :: "'a list \<Rightarrow> ('a \<times> 'a) list" where
  "pairs [] = []"
| "pairs (x # xs) = map (Pair x) xs @ pairs xs"

definition memory_pairs :: "memory list \<Rightarrow> (memory \<times> memory) list" where
  "memory_pairs mems = filter (\<lambda>(s, t). m_id s \<noteq> m_id t) (pairs mems)"

definition projectSource :: "memory list \<Rightarrow> candidate list" where
  "projectSource mems =
     (let key = (\<lambda>m. str_or (m_project_id m) (m_project m));
          projects = js_set (filter (\<lambda>k. k \<noteq> []) (map key mems))
      in concat (map (\<lambda>p. map (\<lambda>(s, t).
             \<lparr>ic_source = m_id s, ic_target = m_id t, ic_relation = Related, ic_weight = 1,
              ic_confidence = PROJECT_COOCCURRENCE_CONFIDENCE, ic_origin = ''project'',
              ic_evidence = [(''projectId'', JStr p),
                (''sourceCodename'', case m_codename s of None \<Rightarrow> JNull | Some c \<Rightarrow> JStr c),
                (''targetCodename'', case m_codename t of None \<Rightarrow> JNull | Some c \<Rightarrow> JStr c)]\<rparr>)
           (memory_pairs (filter (\<lambda>m. key m = p) mems))) projects))"

definition sharedTagSource :: "memory list \<Rightarrow> candidate list" where
  "sharedTagSource mems =
     concat (map (\<lambda>(s, t).
       let shared = filter (\<lambda>tag. tag \<in> set (m_tags s)) (m_tags t);
           overlapRatio = of_nat (length shared) / of_nat (max (max (length (m_tags s)) (length (m_tags t))) 1)
       in if shared = [] then []
          else [\<lparr>ic_source = m_id s, ic_target = m_id t, ic_relation = Related, ic_weight = of_nat (length shared),
                 ic_confidence = min 1 (SHARED_TAG_BASE_CONFIDENCE + overlapRatio * (4 / 10)), ic_origin = ''shared_tag'',
                 ic_evidence = [(''sharedTags'', JArr (map JStr shared)), (''overlapRatio'', JNum overlapRatio)]\<rparr>])
       (memory_pairs mems))"

definition daysBetween :: "(string \<Rightarrow> int) \<Rightarrow> string \<Rightarrow> string \<Rightarrow> rat" where
  "daysBetween tm a b = of_int \<bar>tm a - tm b\<bar> / (1000 * 60 * 60 * 24)"

definition temporalSource :: "(string \<Rightarrow> int) \<Rightarrow> memory list \<Rightarrow> candidate list" where
  "temporalSource tm mems =
     concat (map (\<lambda>(s, t).
       let gapDays = daysBetween tm (m_created s) (m_created t);
           proximity = 1 - gapDays / TEMPORAL_PROXIMITY_DAYS
       in if TEMPORAL_PROXIMITY_DAYS < gapDays then []
          else [\<lparr>ic_source = m_id s, ic_target = m_id t, ic_relation = Related, ic_weight = 5 / 10,
                 ic_confidence = TEMPORAL_PROXIMITY_CONFIDENCE * proximity, ic_origin = ''temporal'',
                 ic_evidence = [(''gapDays'', JNum gapDays), (''proximity'', JNum proximity)]\<rparr>])
       (memory_pairs mems))"

definition conversationSource :: "(string \<Rightarrow> int) \<Rightarrow> memory list \<Rightarrow> candidate list" where
  "conversationSource tm mems =
     concat (map (\<lambda>(s, t).
       let gapDays = daysBetween tm (m_created s) (m_created t);
           proximity = 1 - gapDays / TEMPORAL_PROXIMITY_DAYS
       in if m_project s = [] \<or> m_project s \<noteq> m_project t \<or> TEMPORAL_PROXIMITY_DAYS < gapDays then []
          else [\<lparr>ic_source = m_id s, ic_target = m_id t, ic_relation = Related, ic_weight = proximity,
                 ic_confidence = TEMPORAL_PROXIMITY_CONFIDENCE * proximity * (85 / 100), ic_origin = ''conversation'',
                 ic_evidence = [(''project'', JStr (m_project s)), (''gapDays'', JNum gapDays),
                   (''proximity'', JNum proximity)]\<rparr>])
       (memory_pairs mems))"

text \<open>
  \<open>split(/[^a-z0-9]+/)\<close> and the filter on length: a split at every other character adds only empty
  pieces, which the filter drops.
\<close>

definition lower_alnum :: "char \<Rightarrow> bool" where
  "lower_alnum c \<longleftrightarrow> js_digit c \<or> (let n = (of_char c :: nat) in 97 \<le> n \<and> n \<le> 122)"

fun alnum_pieces :: "string \<Rightarrow> string \<Rightarrow> string list" where
  "alnum_pieces w [] = [w]"
| "alnum_pieces w (c # s) = (if lower_alnum c then alnum_pieces (w @ [c]) s else w # alnum_pieces [] s)"

definition tokenize :: "string \<Rightarrow> string list" where
  "tokenize s = js_set (filter (\<lambda>w. 2 < length w) (alnum_pieces [] (js_lower s)))"

definition jaccard :: "string list \<Rightarrow> string list \<Rightarrow> rat" where
  "jaccard a b =
     (if a = [] \<or> b = [] then 0
      else let intersection = length (filter (\<lambda>x. x \<in> set b) a);
               joint = length a + length b - intersection
           in if 0 < joint then of_nat intersection / of_nat joint else 0)"

definition semanticSource :: "memory list \<Rightarrow> candidate list" where
  "semanticSource mems =
     concat (map (\<lambda>(s, t).
       let titleOverlap = jaccard (tokenize (m_title s)) (tokenize (m_title t));
           tagOverlap = jaccard (js_set (m_tags s)) (js_set (m_tags t));
           similarity = max titleOverlap (tagOverlap * (9 / 10))
       in if similarity < 25 / 100 then []
          else [\<lparr>ic_source = m_id s, ic_target = m_id t, ic_relation = Related, ic_weight = similarity,
                 ic_confidence = min 1 (SEMANTIC_SIMILARITY_BASE + similarity * (5 / 10)),
                 ic_origin = ''semantic_similarity'',
                 ic_evidence = [(''titleOverlap'', JNum titleOverlap), (''tagOverlap'', JNum tagOverlap),
                   (''similarity'', JNum similarity)]\<rparr>])
       (memory_pairs mems))"

definition dependencySource :: "memory list \<Rightarrow> candidate list" where
  "dependencySource mems =
     (let byCodename = map_of (rev (concat (map (\<lambda>m. case truthy (m_codename m) of None \<Rightarrow> []
            | Some c \<Rightarrow> [(js_lower c, m)]) mems)))
      in concat (map (\<lambda>s. concat (map (\<lambda>tag.
           let targetCodename = js_lower (js_trim (drop (length DEPENDENCY_TAG_PREFIX) tag))
           in if \<not> js_starts_with tag DEPENDENCY_TAG_PREFIX then []
              else (case byCodename targetCodename of
                      None \<Rightarrow> []
                    | Some t \<Rightarrow>
                        if m_id t = m_id s then []
                        else [\<lparr>ic_source = m_id s, ic_target = m_id t, ic_relation = DependsOn, ic_weight = 1,
                               ic_confidence = DEPENDENCY_CONFIDENCE, ic_origin = ''dependency'',
                               ic_evidence = [(''tag'', JStr tag), (''targetCodename'', JStr targetCodename)]\<rparr>]))
           (m_tags s))) mems))"

text \<open>The sources in the order of \<^verbatim>\<open>src/src/composition/create-relation-inference-ports.ts\<close>.\<close>

definition inferenceSources :: "(string \<Rightarrow> int) \<Rightarrow> (string \<times> (memory list \<Rightarrow> candidate list)) list" where
  "inferenceSources tm =
     [(''project'', projectSource), (''shared_tag'', sharedTagSource), (''temporal'', temporalSource tm),
      (''semantic_similarity'', semanticSource), (''conversation'', conversationSource tm),
      (''dependency'', dependencySource)]"

subsection \<open>Scoring\<close>

fun relation_name :: "relation_type \<Rightarrow> string" where
  "relation_name Related = ''related''"
| "relation_name DependsOn = ''depends_on''"
| "relation_name ParentOf = ''parent''"
| "relation_name ChildOf = ''child''"
| "relation_name DuplicateOf = ''duplicate''"
| "relation_name Consolidates = ''consolidates''"
| "relation_name Reference = ''reference''"
| "relation_name MotivatedBy = ''motivated_by''"
| "relation_name CausedBy = ''caused_by''"
| "relation_name ResultedIn = ''resulted_in''"
| "relation_name Supersedes = ''supersedes''"

definition edgeKey :: "candidate \<Rightarrow> string" where
  "edgeKey c = ic_source c @ '':'' @ ic_target c @ '':'' @ relation_name (ic_relation c)"

definition merge_candidate :: "candidate \<Rightarrow> (string \<times> scored_relation) list \<Rightarrow> (string \<times> scored_relation) list" where
  "merge_candidate c merged =
     (case map_of merged (edgeKey c) of
        None \<Rightarrow> AList.update (edgeKey c)
          (candidate.extend c \<lparr>ir_weight = ic_weight c, ir_confidence = ic_confidence c\<rparr>) merged
      | Some existing \<Rightarrow> AList.update (edgeKey c)
          (existing\<lparr>ir_weight := min 10 (ir_weight existing + ic_weight c * (5 / 10)),
             ir_confidence := max (ir_confidence existing) (ic_confidence c),
             ic_evidence := json_set (ic_evidence existing) (ic_origin c @ ''_support'') (JObj (ic_evidence c))\<rparr>)
          merged)"

definition scoreCandidates :: "candidate list \<Rightarrow> scored_relation list" where
  "scoreCandidates candidates =
     filter (\<lambda>r. RELATION_INFERENCE_MIN_CONFIDENCE \<le> ir_confidence r) (map snd (fold merge_candidate candidates []))"

subsection \<open>The run\<close>

record evidence_row =
  er_id :: string
  er_owner :: string
  er_workspace :: "string option"
  er_source :: string
  er_target :: string
  er_relation :: relation_type
  er_origin :: string
  er_confidence :: rat
  er_payload :: json_object
  er_created :: string

record inference_db = relation_db +
  evidence :: "evidence_row list"

definition evidence_clash :: "evidence_row \<Rightarrow> evidence_row \<Rightarrow> bool" where
  "evidence_clash r s \<longleftrightarrow> er_id r = er_id s"

interpretation evidence_ids: keyed_table er_id evidence_clash
  by unfold_locales (simp add: evidence_clash_def)

definition appendEvidence ::
  "memory_scope \<Rightarrow> scored_relation \<Rightarrow> mint \<Rightarrow> 'a inference_db_scheme \<Rightarrow> (app_error + unit) \<times> 'a inference_db_scheme" where
  "appendEvidence scope r m db =
     (case sql_insert evidence_clash
             \<lparr>er_id = mint_id m, er_owner = ms_owner scope, er_workspace = ms_workspace scope, er_source = ic_source r,
              er_target = ic_target r, er_relation = ic_relation r, er_origin = ic_origin r,
              er_confidence = ir_confidence r, er_payload = ic_evidence r, er_created = mint_now m\<rparr> (evidence db) of
        Inl e \<Rightarrow> (Inl e, db) | Inr t \<Rightarrow> (Inr (), db\<lparr>evidence := t\<rparr>))"

record inference_options =
  io_dry :: bool
  io_project :: "string option"
  io_limit :: "nat option"

record inference_counts =
  in_created :: nat
  in_updated :: nat
  in_skipped :: nat

record inference_report =
  in_found :: nat
  in_counts :: inference_counts
  in_sources :: "(string \<times> nat) list"

fun count_outcome :: "upsert_outcome \<Rightarrow> inference_counts \<Rightarrow> inference_counts" where
  "count_outcome RelationCreated c = c\<lparr>in_created := in_created c + 1\<rparr>"
| "count_outcome RelationUpdated c = c\<lparr>in_updated := in_updated c + 1\<rparr>"
| "count_outcome SkippedManual c = c\<lparr>in_skipped := in_skipped c + 1\<rparr>"

text \<open>The loop that writes; each relation draws a mint for its row and one for its evidence.\<close>

fun infer_loop ::
  "bool \<Rightarrow> memory_scope \<Rightarrow> (scored_relation \<times> mint \<times> mint) list \<Rightarrow> inference_counts \<Rightarrow> 'a inference_db_scheme
     \<Rightarrow> (app_error + inference_counts) \<times> 'a inference_db_scheme" where
  "infer_loop withEvidence scope [] c db = (Inr c, db)"
| "infer_loop withEvidence scope ((r, m, me) # rest) c db =
     then_st (upsertInferred db (ic_source r) (ic_target r) (ic_relation r) (ms_owner scope) (ir_weight r)
                (ir_confidence r) (Some [(''inferenceSource'', JStr (ic_origin r)), (''evidence'', JObj (ic_evidence r))]) m)
       (\<lambda>outcome db1. then_st (if withEvidence then appendEvidence scope r me db1 else (Inr (), db1))
          (\<lambda>_ db2. infer_loop withEvidence scope rest (count_outcome outcome c) db2))"

definition inferred_candidates ::
  "(string \<Rightarrow> int) \<Rightarrow> memory_scope \<Rightarrow> inference_options \<Rightarrow> 'a memory_db_scheme \<Rightarrow> (string \<times> candidate list) list" where
  "inferred_candidates tm scope opts db =
     (let mems0 = findAllByOwner db (ms_owner scope) (workspaceIdFromScope scope);
          mems = (case truthy (io_project opts) of None \<Rightarrow> mems0
                | Some p \<Rightarrow> filter (\<lambda>m. m_project_id m = p \<or> m_project m = p) mems0)
      in map (\<lambda>(i, infer). (i, infer mems)) (inferenceSources tm))"

definition scored_relations ::
  "(string \<Rightarrow> int) \<Rightarrow> memory_scope \<Rightarrow> inference_options \<Rightarrow> 'a memory_db_scheme \<Rightarrow> scored_relation list" where
  "scored_relations tm scope opts db =
     take (nullish (io_limit opts) RELATION_INFERENCE_MAX_CANDIDATES)
       (scoreCandidates (concat (map snd (inferred_candidates tm scope opts db))))"

definition runInference ::
  "(string \<Rightarrow> int) \<Rightarrow> bool \<Rightarrow> memory_scope \<Rightarrow> inference_options \<Rightarrow> (nat \<Rightarrow> mint \<times> mint) \<Rightarrow> 'a inference_db_scheme
     \<Rightarrow> (app_error + inference_report) \<times> 'a inference_db_scheme" where
  "runInference tm withEvidence scope opts mints db =
     (let bySource = map (\<lambda>(i, found). (i, length found)) (inferred_candidates tm scope opts db);
          scored = scored_relations tm scope opts db;
          none = \<lparr>in_created = 0, in_updated = 0, in_skipped = 0\<rparr>
      in then_st (if io_dry opts then (Inr none, db)
                  else infer_loop withEvidence scope (zip scored (map mints [0..<length scored])) none db)
           (\<lambda>c db'. (Inr \<lparr>in_found = length scored, in_counts = c, in_sources = bySource\<rparr>, db')))"

end
