(* ===== verification/Graph_Walk.thy ===== *)
theory Graph_Walk
  imports Ratary_Prelude
begin

section \<open>Breadth-first walks with a budget\<close>

text \<open>
  The loop that \<^verbatim>\<open>src/src/graph/traversal.ts\<close> and \<^verbatim>\<open>src/src/knowledge/provenance/chain-walk.ts\<close>
  share: a queue of nodes with their depths, the nodes seen, and the answers so far, which end the
  walk when they reach the budget. \<open>hops x\<close> lists the edges to try at \<open>x\<close> in order, \<open>goal\<close> is the
  node an edge leads to, \<open>answer d h\<close> what is recorded for it. A walk ends because every push on the
  queue uses up budget.
\<close>

record 's walk_state =
  wk_seen :: "string list"
  wk_queue :: "(string \<times> nat) list"
  wk_found :: "'s list"

text \<open>The inner loop over the edges of one node.\<close>

fun visit :: "nat \<Rightarrow> ('h \<Rightarrow> string) \<Rightarrow> (nat \<Rightarrow> 'h \<Rightarrow> 's) \<Rightarrow> nat \<Rightarrow> 'h list \<Rightarrow> 's walk_state \<Rightarrow> 's walk_state" where
  "visit budget goal answer d [] st = st"
| "visit budget goal answer d (h # hs) st =
     (if budget \<le> length (wk_found st) then st
      else if goal h \<in> set (wk_seen st) then visit budget goal answer d hs st
      else visit budget goal answer d hs
             (st\<lparr>wk_seen := goal h # wk_seen st, wk_queue := wk_queue st @ [(goal h, d)],
                 wk_found := wk_found st @ [answer d h]\<rparr>))"

lemma visit_measure:
  "length (wk_queue (visit budget goal answer d hs st)) + (budget - length (wk_found (visit budget goal answer d hs st))) =
   length (wk_queue st) + (budget - length (wk_found st))"
  by (induction hs arbitrary: st) auto

text \<open>The outer loop.\<close>

function walk ::
  "nat \<Rightarrow> nat \<Rightarrow> ('h \<Rightarrow> string) \<Rightarrow> (nat \<Rightarrow> 'h \<Rightarrow> 's) \<Rightarrow> (string \<Rightarrow> 'h list) \<Rightarrow> 's walk_state \<Rightarrow> 's list" where
  "walk budget maxDepth goal answer hops st =
     (case wk_queue st of
        [] \<Rightarrow> wk_found st
      | (x, k) # q \<Rightarrow>
          if budget \<le> length (wk_found st) then wk_found st
          else if maxDepth \<le> k then walk budget maxDepth goal answer hops (st\<lparr>wk_queue := q\<rparr>)
          else walk budget maxDepth goal answer hops
                 (visit budget goal answer (k + 1) (hops x) (st\<lparr>wk_queue := q\<rparr>)))"
  by pat_completeness auto
termination
  by (relation "measure (\<lambda>(budget, _, _, _, _, st). length (wk_queue st) + (budget - length (wk_found st)))")
     (auto simp: visit_measure)

declare walk.simps [simp del]

definition walk_start :: "string \<Rightarrow> 's walk_state" where
  "walk_start seed = \<lparr>wk_seen = [seed], wk_queue = [(seed, 0)], wk_found = []\<rparr>"

subsection \<open>Distance\<close>

text \<open>\<open>y\<close> is reached from \<open>x\<close> in \<open>n\<close> steps and in no fewer.\<close>

definition at_distance :: "('a \<times> 'a) set \<Rightarrow> 'a \<Rightarrow> nat \<Rightarrow> 'a \<Rightarrow> bool" where
  "at_distance R x n y \<longleftrightarrow> (x, y) \<in> R ^^ n \<and> (\<forall>k < n. (x, y) \<notin> R ^^ k)"

lemma at_distance_0 [simp]: "at_distance R x 0 y \<longleftrightarrow> y = x"
  by (auto simp: at_distance_def)

lemma at_distance_unique: "at_distance R x m y \<Longrightarrow> at_distance R x n y \<Longrightarrow> m = n"
  unfolding at_distance_def by (metis linorder_neqE_nat)

lemma at_distance_pred:
  assumes "at_distance R x (Suc n) y"
  obtains w where "at_distance R x n w" "(w, y) \<in> R"
proof -
  from assms obtain w where w: "(x, w) \<in> R ^^ n" "(w, y) \<in> R" by (auto simp: at_distance_def)
  have far: "\<not> ((x, w) \<in> R ^^ k \<and> k < n)" for k
  proof (rule notI, elim conjE)
    assume k: "(x, w) \<in> R ^^ k" "k < n"
    with w(2) have "(x, y) \<in> R ^^ Suc k" by auto
    moreover have "(x, y) \<notin> R ^^ Suc k" using assms k(2) unfolding at_distance_def by (simp del: relpow.simps)
    ultimately show False by blast
  qed
  with w have "at_distance R x n w" by (auto simp: at_distance_def)
  from that [OF this w(2)] show ?thesis .
qed

lemma at_distance_step:
  assumes "at_distance R x n w" "(w, y) \<in> R" "\<And>k. k \<le> n \<Longrightarrow> \<not> at_distance R x k y"
  shows "at_distance R x (Suc n) y"
proof -
  have "(x, y) \<in> R ^^ Suc n" using assms(1,2) by (auto simp: at_distance_def)
  moreover have "(x, y) \<notin> R ^^ k" if "k < Suc n" for k
    using that
  proof (induction k rule: less_induct)
    case (less k)
    show ?case
    proof
      assume "(x, y) \<in> R ^^ k"
      with less have "at_distance R x k y" by (simp add: at_distance_def)
      with assms(3) less.prems show False by simp
    qed
  qed
  ultimately show ?thesis by (simp add: at_distance_def)
qed

text \<open>What the inner loop adds.\<close>

lemma visit_seen: "set (wk_seen st) \<subseteq> set (wk_seen (visit budget goal answer d hs st))"
  by (induction hs arbitrary: st) fastforce+

lemma visit_spec:
  assumes "length (wk_found st) \<le> budget"
  shows "\<exists>new. set new \<subseteq> set hs \<and> distinct (map goal new) \<and> goal ` set new \<inter> set (wk_seen st) = {} \<and>
    wk_found (visit budget goal answer d hs st) = wk_found st @ map (answer d) new \<and>
    wk_queue (visit budget goal answer d hs st) = wk_queue st @ map (\<lambda>h. (goal h, d)) new \<and>
    set (wk_seen (visit budget goal answer d hs st)) = set (wk_seen st) \<union> goal ` set new \<and>
    length (wk_found (visit budget goal answer d hs st)) \<le> budget \<and>
    (length (wk_found (visit budget goal answer d hs st)) < budget \<longrightarrow>
       goal ` set hs \<subseteq> set (wk_seen (visit budget goal answer d hs st)))"
  using assms
proof (induction hs arbitrary: st)
  case Nil
  then show ?case by (intro exI [of _ "[]"]) simp
next
  case (Cons h hs)
  consider "budget \<le> length (wk_found st)" | "length (wk_found st) < budget" "goal h \<in> set (wk_seen st)"
    | "length (wk_found st) < budget" "goal h \<notin> set (wk_seen st)" by linarith
  then show ?case
  proof cases
    case 1
    with Cons.prems show ?thesis by (intro exI [of _ "[]"]) simp
  next
    case 2
    then have eq: "visit budget goal answer d (h # hs) st = visit budget goal answer d hs st" by simp
    obtain new where
      new: "set new \<subseteq> set hs" "distinct (map goal new)" "goal ` set new \<inter> set (wk_seen st) = {}"
        "wk_found (visit budget goal answer d hs st) = wk_found st @ map (answer d) new"
        "wk_queue (visit budget goal answer d hs st) = wk_queue st @ map (\<lambda>h. (goal h, d)) new"
        "set (wk_seen (visit budget goal answer d hs st)) = set (wk_seen st) \<union> goal ` set new"
        "length (wk_found (visit budget goal answer d hs st)) \<le> budget"
        "length (wk_found (visit budget goal answer d hs st)) < budget \<longrightarrow>
           goal ` set hs \<subseteq> set (wk_seen (visit budget goal answer d hs st))"
      using Cons.IH [OF Cons.prems] by blast
    have "set new \<subseteq> set (h # hs)" using new(1) by auto
    moreover have "length (wk_found (visit budget goal answer d hs st)) < budget \<longrightarrow>
        goal ` set (h # hs) \<subseteq> set (wk_seen (visit budget goal answer d hs st))"
      using new(6,8) 2(2) by simp
    ultimately show ?thesis unfolding eq using new(2-7) by blast
  next
    case 3
    let ?st = "st\<lparr>wk_seen := goal h # wk_seen st, wk_queue := wk_queue st @ [(goal h, d)],
        wk_found := wk_found st @ [answer d h]\<rparr>"
    from Cons.IH [of ?st] 3 obtain new where
      new: "set new \<subseteq> set hs" "distinct (map goal new)" "goal ` set new \<inter> set (wk_seen ?st) = {}"
        "wk_found (visit budget goal answer d hs ?st) = wk_found ?st @ map (answer d) new"
        "wk_queue (visit budget goal answer d hs ?st) = wk_queue ?st @ map (\<lambda>h. (goal h, d)) new"
        "set (wk_seen (visit budget goal answer d hs ?st)) = set (wk_seen ?st) \<union> goal ` set new"
        "length (wk_found (visit budget goal answer d hs ?st)) \<le> budget"
        "length (wk_found (visit budget goal answer d hs ?st)) < budget \<longrightarrow>
           goal ` set hs \<subseteq> set (wk_seen (visit budget goal answer d hs ?st))" by auto
    from 3 have "visit budget goal answer d (h # hs) st = visit budget goal answer d hs ?st" by simp
    with new 3 show ?thesis by (intro exI [of _ "h # new"]) auto
  qed
qed

subsection \<open>Correctness\<close>

text \<open>The edges that the walk follows.\<close>

definition hop_edges :: "('h \<Rightarrow> string) \<Rightarrow> (string \<Rightarrow> 'h list) \<Rightarrow> (string \<times> string) set" where
  "hop_edges goal hops = {(x, y). y \<in> goal ` set (hops x)}"

text \<open>
  The contract of a client of the walk: what it records for an edge shows the node and the depth.
  The laws say that the answers are at their distance from the seed, in order of distance and each
  once, and that a walk that did not use up its budget has found everything within the depth.
\<close>

locale graph_walk =
  fixes goal :: "'h \<Rightarrow> string" and answer :: "nat \<Rightarrow> 'h \<Rightarrow> 's" and hops :: "string \<Rightarrow> 'h list"
    and node :: "'s \<Rightarrow> string" and depth :: "'s \<Rightarrow> nat"
  assumes node_answer: "node (answer d h) = goal h"
    and depth_answer: "depth (answer d h) = d"
begin

abbreviation "away \<equiv> at_distance (hop_edges goal hops)"

definition sound :: "string \<Rightarrow> nat \<Rightarrow> nat \<Rightarrow> 's walk_state \<Rightarrow> bool" where
  "sound seed budget maxDepth st \<longleftrightarrow>
     set (wk_seen st) = insert seed (node ` set (wk_found st)) \<and> distinct (seed # map node (wk_found st)) \<and>
     (\<forall>s \<in> set (wk_found st). away seed (depth s) (node s) \<and> 0 < depth s \<and> depth s \<le> maxDepth) \<and>
     (\<forall>p \<in> set (wk_queue st). fst p \<in> set (wk_seen st) \<and> away seed (snd p) (fst p) \<and> snd p \<le> maxDepth) \<and>
     sorted (map snd (wk_queue st)) \<and> sorted (map depth (wk_found st)) \<and>
     (\<forall>p \<in> set (wk_queue st). \<forall>s \<in> set (wk_found st). depth s \<le> Suc (snd p)) \<and>
     (\<forall>p \<in> set (wk_queue st). \<forall>q \<in> set (wk_queue st). snd q \<le> Suc (snd p)) \<and>
     length (wk_found st) \<le> budget"

definition closed :: "string \<Rightarrow> nat \<Rightarrow> 's walk_state \<Rightarrow> bool" where
  "closed seed maxDepth st \<longleftrightarrow>
     (\<forall>x \<in> set (wk_seen st). \<forall>n < maxDepth. x \<notin> fst ` set (wk_queue st) \<longrightarrow> away seed n x \<longrightarrow>
        goal ` set (hops x) \<subseteq> set (wk_seen st)) \<and>
     (\<forall>x k q. wk_queue st = (x, k) # q \<longrightarrow> (\<forall>j \<le> k. \<forall>y. away seed j y \<longrightarrow> y \<in> set (wk_seen st)))"

lemma sound_start: "sound seed budget maxDepth (walk_start seed)"
  by (simp add: sound_def walk_start_def)

lemma closed_start: "closed seed maxDepth (walk_start seed)"
  by (simp add: closed_def walk_start_def)

lemma sound_pop:
  assumes "sound seed budget maxDepth st" "wk_queue st = (x, k) # q"
  shows "sound seed budget maxDepth (st\<lparr>wk_queue := q\<rparr>)"
  using assms(1) unfolding sound_def assms(2) by auto

lemma closed_pop:
  assumes "sound seed budget maxDepth st" "closed seed maxDepth st" "wk_queue st = (x, k) # q" "maxDepth \<le> k"
  shows "closed seed maxDepth (st\<lparr>wk_queue := q\<rparr>)"
proof -
  have x: "away seed k x" using assms(1,3) by (auto simp: sound_def)
  have q: "j = k" if "(y, j) \<in> set q" for y j
  proof -
    have "k \<le> j" "j \<le> maxDepth" using assms(1,3) that by (auto simp: sound_def)
    with assms(4) show ?thesis by simp
  qed
  show ?thesis
    unfolding closed_def
  proof (intro conjI ballI allI impI)
    fix z n assume z: "z \<in> set (wk_seen (st\<lparr>wk_queue := q\<rparr>))" "n < maxDepth"
      "z \<notin> fst ` set (wk_queue (st\<lparr>wk_queue := q\<rparr>))" "away seed n z"
    then have "z \<noteq> x" using at_distance_unique [OF x, of n] assms(4) by auto
    with z assms(2,3) show "goal ` set (hops z) \<subseteq> set (wk_seen (st\<lparr>wk_queue := q\<rparr>))"
      by (simp add: closed_def)
  next
    fix y j r i z assume "wk_queue (st\<lparr>wk_queue := q\<rparr>) = (y, j) # r" "i \<le> j" "away seed i z"
    with q [of y j] assms(2,3) show "z \<in> set (wk_seen (st\<lparr>wk_queue := q\<rparr>))" by (simp add: closed_def)
  qed
qed

lemma sound_visit:
  assumes inv: "sound seed budget maxDepth st" "closed seed maxDepth st"
    and pop: "wk_queue st = (x, k) # q" "length (wk_found st) < budget" "k < maxDepth"
  defines "st' \<equiv> visit budget goal answer (k + 1) (hops x) (st\<lparr>wk_queue := q\<rparr>)"
  shows "sound seed budget maxDepth st'"
    and "length (wk_found st') < budget \<Longrightarrow> closed seed maxDepth st'"
proof -
  have spec0: "length (wk_found (st\<lparr>wk_queue := q\<rparr>)) \<le> budget" using pop(2) by simp
  obtain new where new: "set new \<subseteq> set (hops x)" "distinct (map goal new)" "goal ` set new \<inter> set (wk_seen st) = {}"
    and found: "wk_found st' = wk_found st @ map (answer (Suc k)) new"
    and queue: "wk_queue st' = q @ map (\<lambda>h. (goal h, Suc k)) new"
    and seen: "set (wk_seen st') = set (wk_seen st) \<union> goal ` set new"
    and len: "length (wk_found st') \<le> budget"
    and all: "length (wk_found st') < budget \<longrightarrow> goal ` set (hops x) \<subseteq> set (wk_seen st')"
    using visit_spec [OF spec0, of "hops x" goal answer "k + 1"] unfolding st'_def by auto
  have S: "set (wk_seen st) = insert seed (node ` set (wk_found st))" "distinct (seed # map node (wk_found st))"
    "\<forall>s \<in> set (wk_found st). away seed (depth s) (node s) \<and> 0 < depth s \<and> depth s \<le> maxDepth"
    "\<forall>p \<in> set q. fst p \<in> set (wk_seen st) \<and> away seed (snd p) (fst p) \<and> snd p \<le> maxDepth"
    "sorted (map snd q)" "sorted (map depth (wk_found st))" "\<forall>s \<in> set (wk_found st). depth s \<le> Suc k"
    "\<forall>p \<in> set q. k \<le> snd p \<and> snd p \<le> Suc k"
    and x: "x \<in> set (wk_seen st)" "away seed k x"
    using inv(1) unfolding sound_def pop(1) by auto
  have near: "y \<in> set (wk_seen st)" if "j \<le> k" "away seed j y" for j y
    using inv(2) that pop(1) by (simp add: closed_def)
  have away: "away seed (Suc k) (goal h)" if "h \<in> set new" for h
  proof (rule at_distance_step [OF x(2)])
    show "(x, goal h) \<in> hop_edges goal hops" using that new(1) by (auto simp: hop_edges_def)
    show "\<not> away seed j (goal h)" if "j \<le> k" for j using near [OF that] new(3) \<open>h \<in> set new\<close> by blast
  qed
  have nodes: "node ` answer (Suc k) ` set new = goal ` set new" "map node (map (answer (Suc k)) new) = map goal new"
    by (simp_all add: node_answer image_image)
  have range: "k \<le> snd p \<and> snd p \<le> Suc k" if "p \<in> set (wk_queue st')" for p
    using that S(8) by (auto simp: queue)
  show "sound seed budget maxDepth st'"
    unfolding sound_def
  proof (intro conjI)
    show "set (wk_seen st') = insert seed (node ` set (wk_found st'))"
      by (simp add: seen found S(1) nodes image_Un)
    show "distinct (seed # map node (wk_found st'))"
      using S(1,2) new(2,3) by (auto simp: found node_answer comp_def)
    show "\<forall>s \<in> set (wk_found st'). away seed (depth s) (node s) \<and> 0 < depth s \<and> depth s \<le> maxDepth"
      using S(3) away pop(3) by (auto simp: found node_answer depth_answer)
    show "\<forall>p \<in> set (wk_queue st'). fst p \<in> set (wk_seen st') \<and> away seed (snd p) (fst p) \<and> snd p \<le> maxDepth"
      using S(4) away pop(3) by (auto simp: queue seen)
    show "sorted (map snd (wk_queue st'))"
      using S(5,8) by (auto simp: queue sorted_append comp_def map_replicate_const)
    show "sorted (map depth (wk_found st'))"
      using S(6,7) by (auto simp: found sorted_append comp_def depth_answer map_replicate_const)
    show "\<forall>p \<in> set (wk_queue st'). \<forall>s \<in> set (wk_found st'). depth s \<le> Suc (snd p)"
      using S(7,8) by (fastforce simp: queue found depth_answer)
    show "\<forall>p \<in> set (wk_queue st'). \<forall>q \<in> set (wk_queue st'). snd q \<le> Suc (snd p)"
      using range by (meson Suc_le_mono le_trans)
    show "length (wk_found st') \<le> budget" by (rule len)
  qed
  assume more: "length (wk_found st') < budget"
  with all have closure: "goal ` set (hops x) \<subseteq> set (wk_seen st')" by blast
  have old: "goal ` set (hops z) \<subseteq> set (wk_seen st')"
    if "z \<in> set (wk_seen st)" "z \<notin> fst ` set q" "n < maxDepth" "away seed n z" for z n
  proof (cases "z = x")
    case False
    with that inv(2) pop(1) have "goal ` set (hops z) \<subseteq> set (wk_seen st)" by (simp add: closed_def)
    then show ?thesis by (auto simp: seen)
  qed (simp add: closure)
  show "closed seed maxDepth st'"
    unfolding closed_def
  proof (intro conjI ballI allI impI)
    fix z n assume z: "z \<in> set (wk_seen st')" "n < maxDepth" "z \<notin> fst ` set (wk_queue st')" "away seed n z"
    then show "goal ` set (hops z) \<subseteq> set (wk_seen st')" by (intro old) (auto simp: seen queue image_Un image_image)
  next
    fix y i r j z assume h: "wk_queue st' = (y, i) # r" "j \<le> i" "away seed j z"
    then have "(y, i) \<in> set (wk_queue st')" by simp
    from range [OF this] have i: "i = k \<or> i = Suc k" by auto
    show "z \<in> set (wk_seen st')"
    proof (cases "j \<le> k")
      case True
      then show ?thesis using near h(3) by (auto simp: seen)
    next
      case False
      with i h(2) have j: "j = Suc k" "i = Suc k" by auto
      have "sorted (map snd (wk_queue st'))"
        using S(5,8) by (auto simp: queue sorted_append comp_def map_replicate_const)
      then have ge: "Suc k \<le> snd p" if "p \<in> set (wk_queue st')" for p using that h(1) j(2) by auto
      from h(3) j(1) obtain w where w: "away seed k w" "(w, z) \<in> hop_edges goal hops" by (auto elim: at_distance_pred)
      have "w \<notin> fst ` set q"
      proof
        assume "w \<in> fst ` set q"
        then obtain p where p: "p \<in> set q" "fst p = w" by blast
        then have "snd p = k" using S(4) w(1) at_distance_unique by fastforce
        with ge [of p] p show False by (simp add: queue)
      qed
      with old [OF near [OF le_refl w(1)] _ pop(3) w(1)] w(2) show ?thesis by (auto simp: hop_edges_def)
    qed
  qed
qed

lemma closed_complete:
  assumes "sound seed budget maxDepth st" "closed seed maxDepth st" "wk_queue st = []" "away seed n y" "n \<le> maxDepth"
  shows "y \<in> set (wk_seen st)"
  using assms(4,5)
proof (induction n arbitrary: y)
  case 0
  with assms(1) show ?case by (simp add: sound_def)
next
  case (Suc n)
  from Suc.prems(1) obtain w where w: "away seed n w" "(w, y) \<in> hop_edges goal hops" by (rule at_distance_pred)
  with Suc have "w \<in> set (wk_seen st)" "n < maxDepth" by simp_all
  with w assms(2,3) show ?case by (auto simp: closed_def hop_edges_def)
qed

lemma walk_result:
  assumes "sound seed budget maxDepth st" "length (wk_found st) < budget \<Longrightarrow> closed seed maxDepth st"
  shows "\<exists>st'. walk budget maxDepth goal answer hops st = wk_found st' \<and> sound seed budget maxDepth st' \<and>
    (length (wk_found st') < budget \<longrightarrow> closed seed maxDepth st' \<and> wk_queue st' = [])"
  using assms
proof (induction "length (wk_queue st) + (budget - length (wk_found st))" arbitrary: st rule: less_induct)
  case less
  show ?case
  proof (cases "wk_queue st")
    case Nil
    with less.prems show ?thesis by (intro exI [of _ st]) (simp add: walk.simps)
  next
    case (Cons p q)
    obtain x k where p: "p = (x, k)" by fastforce
    note pop = Cons [unfolded p]
    consider "budget \<le> length (wk_found st)" | "length (wk_found st) < budget" "maxDepth \<le> k"
      | "length (wk_found st) < budget" "k < maxDepth" by linarith
    then show ?thesis
    proof cases
      case 1
      with pop less.prems show ?thesis by (intro exI [of _ st]) (simp add: walk.simps)
    next
      case 2
      let ?st = "st\<lparr>wk_queue := q\<rparr>"
      have "walk budget maxDepth goal answer hops st = walk budget maxDepth goal answer hops ?st"
        using 2 pop by (simp add: walk.simps [of budget maxDepth goal answer hops st])
      moreover have "sound seed budget maxDepth ?st" by (rule sound_pop [OF less.prems(1) pop])
      moreover have "closed seed maxDepth ?st" by (rule closed_pop [OF less.prems(1,2) pop 2(2)]) (rule 2(1))
      ultimately show ?thesis using less.hyps [of ?st] pop 2(1) by simp
    next
      case 3
      let ?st = "visit budget goal answer (k + 1) (hops x) (st\<lparr>wk_queue := q\<rparr>)"
      have "walk budget maxDepth goal answer hops st = walk budget maxDepth goal answer hops ?st"
        using 3 pop by (simp add: walk.simps [of budget maxDepth goal answer hops st])
      moreover note sound_visit [OF less.prems(1) less.prems(2) [OF 3(1)] pop 3]
      moreover have "length (wk_queue ?st) + (budget - length (wk_found ?st)) <
          length (wk_queue st) + (budget - length (wk_found st))"
        unfolding visit_measure by (simp add: pop)
      ultimately show ?thesis using less.hyps [of ?st] by simp
    qed
  qed
qed

text \<open>The law of the walk.\<close>

definition shortest_paths :: "string \<Rightarrow> nat \<Rightarrow> nat \<Rightarrow> 's list \<Rightarrow> bool" where
  "shortest_paths seed budget maxDepth found \<longleftrightarrow>
     distinct (map node found) \<and> sorted (map depth found) \<and> length found \<le> budget \<and>
     (\<forall>s \<in> set found. away seed (depth s) (node s) \<and> 0 < depth s \<and> depth s \<le> maxDepth) \<and>
     (length found < budget \<longrightarrow>
        (\<forall>n y. away seed n y \<longrightarrow> 0 < n \<longrightarrow> n \<le> maxDepth \<longrightarrow> (\<exists>s \<in> set found. node s = y \<and> depth s = n)))"

lemma walk_shortest_paths:
  "shortest_paths seed budget maxDepth (walk budget maxDepth goal answer hops (walk_start seed))"
proof -
  obtain st where w: "walk budget maxDepth goal answer hops (walk_start seed) = wk_found st"
    and st: "sound seed budget maxDepth st"
    and full: "length (wk_found st) < budget \<longrightarrow> closed seed maxDepth st \<and> wk_queue st = []"
    using walk_result [OF sound_start closed_start] by blast
  have "\<exists>s \<in> set (wk_found st). node s = y \<and> depth s = n"
    if len: "length (wk_found st) < budget" and y: "away seed n y" "0 < n" "n \<le> maxDepth" for n y
  proof -
    have "y \<in> set (wk_seen st)" using full len closed_complete [OF st _ _ y(1,3)] by blast
    moreover have "y \<noteq> seed" using y(1,2) at_distance_unique [of _ seed 0 seed n] by fastforce
    ultimately obtain s where s: "s \<in> set (wk_found st)" "node s = y" using st by (auto simp: sound_def)
    with st have "away seed (depth s) y" by (auto simp: sound_def)
    with s show ?thesis using at_distance_unique [OF y(1)] by blast
  qed
  with st show ?thesis unfolding w shortest_paths_def by (simp add: sound_def)
qed

end

end
