(* ===== verification/Graph.thy ===== *)
theory Graph
  imports Relations Graph_Walk
begin

section \<open>Graph traversal over relations\<close>

text \<open>
  \<^verbatim>\<open>src/src/graph/traversal.ts\<close>, the adapter of
  \<^verbatim>\<open>src/src/infrastructure/graph/d1/d1-graph.adapter.ts\<close> with its cache of edges,
  \<^verbatim>\<open>src/src/services/graph.service.ts\<close>, the retrieval leg of
  \<^verbatim>\<open>src/src/graph/graph-retrieval-candidate-source.ts\<close>, and the provenance chains of
  \<^verbatim>\<open>src/src/knowledge/provenance/chain-walk.ts\<close> with
  \<^verbatim>\<open>src/src/infrastructure/provenance/sql-provenance-query.ts\<close>. \<^verbatim>\<open>String.localeCompare\<close> is the
  parameter \<open>lc\<close>.
\<close>

subsection \<open>The traversal\<close>

definition DEFAULT_GRAPH_MAX_DEPTH :: int where "DEFAULT_GRAPH_MAX_DEPTH = 2"
definition DEFAULT_GRAPH_MAX_DEPTH_MVP :: int where "DEFAULT_GRAPH_MAX_DEPTH_MVP = 3"
definition DEFAULT_GRAPH_MAX_NEIGHBORS :: int where "DEFAULT_GRAPH_MAX_NEIGHBORS = 30"

record relation_edge =
  re_source :: string
  re_target :: string
  re_relation :: relation_type

datatype hop_direction = Outgoing | Incoming

datatype traversal_direction = OnlyOutgoing | OnlyIncoming | BothDirections

record traversal_options =
  to_depth :: int
  to_budget :: int
  to_types :: "relation_type list option"
  to_direction :: "traversal_direction option"

record graph_neighbor =
  gn_memory :: string
  gn_depth :: nat
  gn_type :: relation_type
  gn_direction :: hop_direction

definition allowed_edges :: "relation_type list option \<Rightarrow> relation_edge list \<Rightarrow> relation_edge list" where
  "allowed_edges types edges =
     filter (\<lambda>e. case types of None \<Rightarrow> True | Some ts \<Rightarrow> re_relation e \<in> set ts) edges"

text \<open>The lists \<open>outgoing\<close> and \<open>incoming\<close> of a node, in the order in which they are tried.\<close>

definition edge_hops ::
  "traversal_direction \<Rightarrow> relation_edge list \<Rightarrow> string \<Rightarrow> (relation_edge \<times> hop_direction) list" where
  "edge_hops direction edges x =
     (if direction \<noteq> OnlyIncoming then map (\<lambda>e. (e, Outgoing)) (filter (\<lambda>e. re_source e = x) edges) else []) @
     (if direction \<noteq> OnlyOutgoing then map (\<lambda>e. (e, Incoming)) (filter (\<lambda>e. re_target e = x) edges) else [])"

definition hop_goal :: "relation_edge \<times> hop_direction \<Rightarrow> string" where
  "hop_goal h = (case h of (e, Outgoing) \<Rightarrow> re_target e | (e, Incoming) \<Rightarrow> re_source e)"

definition hop_answer :: "nat \<Rightarrow> relation_edge \<times> hop_direction \<Rightarrow> graph_neighbor" where
  "hop_answer d h = \<lparr>gn_memory = hop_goal h, gn_depth = d, gn_type = re_relation (fst h), gn_direction = snd h\<rparr>"

definition traverse_depth :: "traversal_options \<Rightarrow> nat" where
  "traverse_depth opts = nat (min (max 0 (to_depth opts)) DEFAULT_GRAPH_MAX_DEPTH_MVP)"

definition traverseBidirectional ::
  "relation_edge list \<Rightarrow> string \<Rightarrow> traversal_options \<Rightarrow> graph_neighbor list" where
  "traverseBidirectional edges seed opts =
     (let maxDepth = traverse_depth opts; budget = nat (max 0 (to_budget opts))
      in if budget = 0 \<or> maxDepth = 0 then []
         else walk budget maxDepth hop_goal hop_answer
                (edge_hops (nullish (to_direction opts) BothDirections) (allowed_edges (to_types opts) edges))
                (walk_start seed))"

subsection \<open>The adapter\<close>

type_synonym edge_cache = "string \<Rightarrow> relation_edge list option"

definition edge_of :: "relation_row \<Rightarrow> relation_edge" where
  "edge_of r = \<lparr>re_source = rl_source r, re_target = rl_target r, re_relation = rl_relation r\<rparr>"

definition ownerEdges :: "'a relation_db_scheme \<Rightarrow> string \<Rightarrow> relation_edge list" where
  "ownerEdges db ownerId = map edge_of (sql_select (\<lambda>r. rl_owner r = ownerId) (relations db))"

definition loadOwnerEdges :: "edge_cache \<Rightarrow> 'a relation_db_scheme \<Rightarrow> string \<Rightarrow> relation_edge list \<times> edge_cache" where
  "loadOwnerEdges cache db ownerId =
     (case cache ownerId of
        Some edges \<Rightarrow> (edges, cache)
      | None \<Rightarrow> (let mapped = ownerEdges db ownerId in (mapped, cache(ownerId \<mapsto> mapped))))"

definition traverseNeighbors ::
  "edge_cache \<Rightarrow> 'a relation_db_scheme \<Rightarrow> string \<Rightarrow> string \<Rightarrow> traversal_options
     \<Rightarrow> graph_neighbor list \<times> edge_cache" where
  "traverseNeighbors cache db seed ownerId opts =
     (case loadOwnerEdges cache db ownerId of
        (edges, cache') \<Rightarrow> (traverseBidirectional edges seed opts, cache'))"

subsection \<open>The graph service\<close>

record graph_config =
  gc_depth :: int
  gc_neighbors :: int

record graph_seed =
  gs_memory :: "string option"
  gs_slug :: "string option"
  gs_path :: "string option"

record traverse_request =
  tq_memory :: "string option"
  tq_depth :: "int option"
  tq_types :: "relation_type list option"
  tq_direction :: "traversal_direction option"
  tq_seed :: "graph_seed option"

record traverse_result =
  tr_seed :: string
  tr_neighbors :: "graph_neighbor list"
  tr_memories :: "string list"

definition found_id :: "string \<Rightarrow> memory option \<Rightarrow> app_error + string" where
  "found_id what v = (case v of None \<Rightarrow> Inl (NotFoundError ''Memory'' (Some what)) | Some mem \<Rightarrow> Inr (m_id mem))"

definition resolveSeedMemoryId ::
  "memory_scope \<Rightarrow> traverse_request \<Rightarrow> 'a memory_db_scheme \<Rightarrow> app_error + string" where
  "resolveSeedMemoryId scope request db =
     (let workspaceId = workspaceIdFromScope scope;
          seed = (\<lambda>field. case tq_seed request of None \<Rightarrow> None | Some s \<Rightarrow> truthy (field s))
      in case truthy (tq_memory request) of
           Some i \<Rightarrow> Inr i
         | None \<Rightarrow>
             (case seed gs_memory of
                Some i \<Rightarrow> Inr i
              | None \<Rightarrow>
                  (case seed gs_slug of
                     Some slug \<Rightarrow> found_id slug (findBySlug db (ms_owner scope) slug workspaceId)
                   | None \<Rightarrow>
                       (case seed gs_path of
                          Some path \<Rightarrow> found_id path (findBySourcePath db (ms_owner scope) path workspaceId)
                        | None \<Rightarrow> Inl (NotFoundError ''Memory'' (Some ''seed''))))))"

definition traverseRelations ::
  "graph_config \<Rightarrow> memory_scope \<Rightarrow> traverse_request \<Rightarrow> edge_cache \<Rightarrow> 'a relation_db_scheme
     \<Rightarrow> (app_error + traverse_result) \<times> edge_cache" where
  "traverseRelations config scope request cache db =
     (case resolveSeedMemoryId scope request db of
        Inl e \<Rightarrow> (Inl e, cache)
      | Inr memoryId \<Rightarrow>
          if findById db memoryId (ms_owner scope) (workspaceIdFromScope scope) = None
          then (Inl (NotFoundError ''Memory'' (Some memoryId)), cache)
          else
            (case traverseNeighbors cache db memoryId (ms_owner scope)
                    \<lparr>to_depth = min (nullish (tq_depth request) (gc_depth config)) DEFAULT_GRAPH_MAX_DEPTH_MVP,
                     to_budget = gc_neighbors config, to_types = tq_types request,
                     to_direction = tq_direction request\<rparr> of
               (neighbors, cache') \<Rightarrow>
                 if neighbors = [] then (Inr \<lparr>tr_seed = memoryId, tr_neighbors = [], tr_memories = []\<rparr>, cache')
                 else
                   let mems = findByIds db (map gn_memory neighbors) (ms_owner scope) (workspaceIdFromScope scope);
                       activeIds = map m_id (filter (\<lambda>m. \<not> m_archived m) mems);
                       active = filter (\<lambda>n. gn_memory n \<in> set activeIds) neighbors
                   in (Inr \<lparr>tr_seed = memoryId, tr_neighbors = active, tr_memories = map gn_memory active\<rparr>, cache')))"

subsection \<open>The retrieval leg\<close>

record graph_retrieval_config =
  gr_seed_cap :: nat
  gr_depth :: int
  gr_neighbors :: int
  gr_types :: "relation_type list option"

record leg_state =
  lg_budget :: int
  lg_seen :: "string list"
  lg_ordered :: "string list"

fun take_neighbors :: "graph_neighbor list \<Rightarrow> leg_state \<Rightarrow> leg_state" where
  "take_neighbors [] st = st"
| "take_neighbors (n # ns) st =
     (if gn_memory n \<in> set (lg_seen st) then take_neighbors ns st
      else let st' = st\<lparr>lg_seen := gn_memory n # lg_seen st, lg_ordered := lg_ordered st @ [gn_memory n],
                        lg_budget := lg_budget st - 1\<rparr>
           in if lg_budget st' \<le> 0 then st' else take_neighbors ns st')"

fun expand_seeds ::
  "graph_retrieval_config \<Rightarrow> string \<Rightarrow> 'a relation_db_scheme \<Rightarrow> memory list \<Rightarrow> edge_cache \<Rightarrow> leg_state
     \<Rightarrow> leg_state \<times> edge_cache" where
  "expand_seeds config ownerId db [] cache st = (st, cache)"
| "expand_seeds config ownerId db (seed # seeds) cache st =
     (if lg_budget st \<le> 0 then (st, cache)
      else (case traverseNeighbors cache db (m_id seed) ownerId
                   \<lparr>to_depth = gr_depth config, to_budget = lg_budget st, to_types = gr_types config,
                    to_direction = None\<rparr> of
              (neighbors, cache') \<Rightarrow>
                expand_seeds config ownerId db seeds cache' (take_neighbors neighbors st)))"

definition graphCandidates ::
  "graph_retrieval_config \<Rightarrow> (retrieval_filters \<Rightarrow> memory list) option \<Rightarrow> (string \<Rightarrow> string \<Rightarrow> int)
     \<Rightarrow> retrieval_filters \<Rightarrow> edge_cache \<Rightarrow> 'a relation_db_scheme \<Rightarrow> memory list \<times> edge_cache" where
  "graphCandidates config vectorSeeds lc f cache db =
     (if truthy (rf_query f) = None then ([], cache)
      else
        let seeds = (case vectorSeeds of Some source \<Rightarrow> source f
              | None \<Rightarrow> findRetrievalCandidates lc db (f\<lparr>rf_max := gr_seed_cap config\<rparr>))
        in if seeds = [] then ([], cache)
           else (case expand_seeds config (rf_owner f) db seeds cache
                        \<lparr>lg_budget = gr_neighbors config, lg_seen = map m_id seeds, lg_ordered = []\<rparr> of
                   (st, cache') \<Rightarrow>
                     let mems = findByIds db (lg_ordered st) (rf_owner f) (rf_workspace f);
                         memoryMap = map_of (rev (map (\<lambda>m. (m_id m, m)) mems))
                     in (filter (\<lambda>m. \<not> m_archived m) (concat (map (\<lambda>i. case memoryMap i of None \<Rightarrow> [] | Some m \<Rightarrow> [m])
                           (lg_ordered st))), cache')))"

subsection \<open>Provenance chains\<close>

record walk_edge =
  we_id :: string
  we_source :: string
  we_target :: string
  we_relation :: relation_type

record chain_step =
  cs_memory :: string
  cs_depth :: nat
  cs_edge :: string
  cs_relation :: relation_type
  cs_direction :: hop_direction

record chain_options =
  co_depth :: "int option"
  co_budget :: "int option"

definition WHY_TYPES :: "relation_type list" where "WHY_TYPES = [MotivatedBy, CausedBy]"
definition EFFECT_TYPES :: "relation_type list" where "EFFECT_TYPES = [ResultedIn, Supersedes]"
definition DEFAULT_MAX_DEPTH :: int where "DEFAULT_MAX_DEPTH = 8"
definition DEFAULT_BUDGET :: int where "DEFAULT_BUDGET = 64"

definition compareEdges :: "(string \<Rightarrow> string \<Rightarrow> int) \<Rightarrow> walk_edge \<Rightarrow> walk_edge \<Rightarrow> int" where
  "compareEdges lc a b = (if lc (we_id a) (we_id b) \<noteq> 0 then lc (we_id a) (we_id b) else lc (we_target a) (we_target b))"

definition chain_hops ::
  "(string \<Rightarrow> string \<Rightarrow> int) \<Rightarrow> relation_type list \<Rightarrow> walk_edge list \<Rightarrow> string \<Rightarrow> walk_edge list" where
  "chain_hops lc allowed edges x =
     js_sort (compareEdges lc) (filter (\<lambda>e. isProvenanceRelationType (we_relation e) \<and>
       we_relation e \<in> set allowed \<and> we_source e = x) edges)"

definition chain_answer :: "nat \<Rightarrow> walk_edge \<Rightarrow> chain_step" where
  "chain_answer d e = \<lparr>cs_memory = we_target e, cs_depth = d, cs_edge = we_id e, cs_relation = we_relation e,
     cs_direction = Outgoing\<rparr>"

definition walkOutgoing ::
  "(string \<Rightarrow> string \<Rightarrow> int) \<Rightarrow> walk_edge list \<Rightarrow> string \<Rightarrow> relation_type list \<Rightarrow> chain_options \<Rightarrow> chain_step list" where
  "walkOutgoing lc edges seed allowed opts =
     (let maxDepth = nat (min (max 0 (nullish (co_depth opts) DEFAULT_MAX_DEPTH)) 32);
          budget = nat (max 0 (nullish (co_budget opts) DEFAULT_BUDGET))
      in if budget = 0 \<or> maxDepth = 0 then []
         else walk budget maxDepth we_target chain_answer (chain_hops lc allowed edges) (walk_start seed))"

definition walkWhyChain ::
  "(string \<Rightarrow> string \<Rightarrow> int) \<Rightarrow> walk_edge list \<Rightarrow> string \<Rightarrow> chain_options \<Rightarrow> chain_step list" where
  "walkWhyChain lc edges seed opts = walkOutgoing lc edges seed WHY_TYPES opts"

definition walkEffectChain ::
  "(string \<Rightarrow> string \<Rightarrow> int) \<Rightarrow> walk_edge list \<Rightarrow> string \<Rightarrow> chain_options \<Rightarrow> chain_step list" where
  "walkEffectChain lc edges seed opts = walkOutgoing lc edges seed EFFECT_TYPES opts"

definition rowToWalkEdge :: "relation_row \<Rightarrow> walk_edge" where
  "rowToWalkEdge r = \<lparr>we_id = rl_id r, we_source = rl_source r, we_target = rl_target r, we_relation = rl_relation r\<rparr>"

definition loadOwnerProvenanceEdges :: "'a relation_db_scheme \<Rightarrow> string \<Rightarrow> walk_edge list" where
  "loadOwnerProvenanceEdges db ownerId =
     map rowToWalkEdge (sql_select (\<lambda>r. rl_owner r = ownerId \<and> rl_relation r \<in> set PROVENANCE_RELATION_TYPES)
       (relations db))"

definition whyChain ::
  "(string \<Rightarrow> string \<Rightarrow> int) \<Rightarrow> 'a relation_db_scheme \<Rightarrow> string \<Rightarrow> string \<Rightarrow> chain_options \<Rightarrow> chain_step list" where
  "whyChain lc db ownerId memoryId opts = walkWhyChain lc (loadOwnerProvenanceEdges db ownerId) memoryId opts"

definition effectChain ::
  "(string \<Rightarrow> string \<Rightarrow> int) \<Rightarrow> 'a relation_db_scheme \<Rightarrow> string \<Rightarrow> string \<Rightarrow> chain_options \<Rightarrow> chain_step list" where
  "effectChain lc db ownerId memoryId opts = walkEffectChain lc (loadOwnerProvenanceEdges db ownerId) memoryId opts"

end
