(* ===== verification/Graph_Laws.thy ===== *)
theory Graph_Laws
  imports Graph
begin

section \<open>What a traversal answers\<close>

text \<open>
  The laws of the walk for the two traversals, the visibility of what the graph service and the
  retrieval leg return, and the effect of the adapter's cache.
\<close>

subsection \<open>Shortest paths\<close>

text \<open>The pairs of memories that an edge list links, with the direction of the request.\<close>

definition linked :: "traversal_direction \<Rightarrow> relation_edge list \<Rightarrow> (string \<times> string) set" where
  "linked direction edges =
     {(x, y). \<exists>e \<in> set edges. (direction \<noteq> OnlyIncoming \<and> re_source e = x \<and> re_target e = y) \<or>
        (direction \<noteq> OnlyOutgoing \<and> re_target e = x \<and> re_source e = y)}"

lemma hop_edges_linked: "hop_edges hop_goal (edge_hops direction edges) = linked direction edges"
  by (auto simp: hop_edges_def linked_def edge_hops_def hop_goal_def image_Un image_image)

interpretation relation_walk: graph_walk hop_goal hop_answer "edge_hops direction edges" gn_memory gn_depth
  for direction edges
  by unfold_locales (simp_all add: hop_answer_def)

text \<open>
  C30: the traversal is breadth-first search. Every neighbour it answers is at exactly the stated
  distance from the seed along allowed edges in the requested direction, at most the requested depth
  and never more than three; the neighbours come in order of distance, each memory once, at most
  as many as the budget. If the budget was not used up, none within the depth is missing.
\<close>

theorem traverse_shortest_paths:
  fixes edges seed opts
  defines "R \<equiv> linked (nullish (to_direction opts) BothDirections) (allowed_edges (to_types opts) edges)"
    and "ns \<equiv> traverseBidirectional edges seed opts"
  shows "distinct (map gn_memory ns) \<and> sorted (map gn_depth ns) \<and> int (length ns) \<le> max 0 (to_budget opts) \<and>
    (\<forall>n \<in> set ns. at_distance R seed (gn_depth n) (gn_memory n) \<and> 0 < gn_depth n \<and> gn_depth n \<le> traverse_depth opts) \<and>
    (int (length ns) < to_budget opts \<longrightarrow>
       (\<forall>k y. at_distance R seed k y \<longrightarrow> 0 < k \<longrightarrow> k \<le> traverse_depth opts \<longrightarrow>
          (\<exists>n \<in> set ns. gn_memory n = y \<and> gn_depth n = k)))"
proof (cases "nat (max 0 (to_budget opts)) = 0 \<or> traverse_depth opts = 0")
  case True
  then have "ns = []" by (auto simp: ns_def traverseBidirectional_def Let_def)
  with True show ?thesis by auto
next
  case False
  let ?hops = "edge_hops (nullish (to_direction opts) BothDirections) (allowed_edges (to_types opts) edges)"
  from False have ns: "ns = walk (nat (max 0 (to_budget opts))) (traverse_depth opts) hop_goal hop_answer ?hops (walk_start seed)"
    by (simp add: ns_def traverseBidirectional_def Let_def)
  show ?thesis
    using relation_walk.walk_shortest_paths [of "nullish (to_direction opts) BothDirections"
        "allowed_edges (to_types opts) edges" seed "nat (max 0 (to_budget opts))" "traverse_depth opts"] False
    unfolding relation_walk.shortest_paths_def hop_edges_linked ns [symmetric] R_def [symmetric]
    by (auto simp: nat_less_iff)
qed

lemma set_js_sort_insert: "set (js_sort_insert cmp x xs) = insert x (set xs)"
  by (induction cmp x xs rule: js_sort_insert.induct) auto

lemma set_js_sort [simp]: "set (js_sort cmp xs) = set xs"
  by (induction xs) (auto simp: js_sort_def set_js_sort_insert)

interpretation chain_walk: graph_walk we_target chain_answer "chain_hops lc allowed edges" cs_memory cs_depth
  for lc allowed edges
  by unfold_locales (simp_all add: chain_answer_def)

definition because :: "relation_type list \<Rightarrow> walk_edge list \<Rightarrow> (string \<times> string) set" where
  "because allowed edges = {(we_source e, we_target e) |e. e \<in> set edges \<and> we_relation e \<in> set allowed}"

lemma hop_edges_because:
  assumes "set allowed \<subseteq> set PROVENANCE_RELATION_TYPES"
  shows "hop_edges we_target (chain_hops lc allowed edges) = because allowed edges"
  using assms by (auto simp: hop_edges_def because_def chain_hops_def isProvenanceRelationType_def image_iff)


subsection \<open>Visibility\<close>

lemma findByIds_visible:
  assumes "mem \<in> set (findByIds db ids ownerId workspaceId)"
  shows "m_id mem \<in> set ids \<and> (\<exists>r \<in> set (memories db). mem = rowToRetrieval r \<and> m_id r = m_id mem \<and> visible ownerId workspaceId r)"
  using assms by (auto simp: findByIds_def sql_simps)

lemma rowToRetrieval_archived [simp]: "m_archived (rowToRetrieval r) = m_archived r"
  by (simp add: rowToRetrieval_def rowToMemory_def memory.truncate_def)

text \<open>
  A traversal shows only what the caller may read. Whatever the relations of the owner lead to,
  also through other workspaces, every neighbour in the answer is a memory of the caller's scope that
  is not archived.
\<close>

theorem traverse_visible:
  assumes "traverseRelations config scope request cache db = (Inr res, cache')" "n \<in> set (tr_neighbors res)"
  shows "\<exists>r \<in> set (memories db). m_id r = gn_memory n \<and> visible (ms_owner scope) (workspaceIdFromScope scope) r \<and> \<not> m_archived r"
proof -
  let ?ns = "fst (traverseNeighbors cache db (projr (resolveSeedMemoryId scope request db)) (ms_owner scope)
      \<lparr>to_depth = min (nullish (tq_depth request) (gc_depth config)) DEFAULT_GRAPH_MAX_DEPTH_MVP,
       to_budget = gc_neighbors config, to_types = tq_types request, to_direction = tq_direction request\<rparr>)"
  let ?mems = "findByIds db (map gn_memory ?ns) (ms_owner scope) (workspaceIdFromScope scope)"
  have "tr_neighbors res = filter (\<lambda>n. gn_memory n \<in> set (map m_id (filter (\<lambda>m. \<not> m_archived m) ?mems))) ?ns"
    using assms(1) by (auto simp: traverseRelations_def Let_def split: sum.splits if_splits prod.splits)
  with assms(2) obtain mem where mem: "mem \<in> set ?mems" "\<not> m_archived mem" "gn_memory n = m_id mem" by auto
  from findByIds_visible [OF mem(1)] obtain r where r: "r \<in> set (memories db)" "mem = rowToRetrieval r"
    "visible (ms_owner scope) (workspaceIdFromScope scope) r" by blast
  from mem(2,3) have "m_id r = gn_memory n" "\<not> m_archived r" unfolding r(2) by simp_all
  with r(1,3) show ?thesis by blast
qed

lemma take_neighbors_inv:
  assumes "set (lg_ordered st) \<inter> A = {}" "distinct (lg_ordered st)" "set (lg_ordered st) \<union> A \<subseteq> set (lg_seen st)"
    "int (length (lg_ordered st)) + lg_budget st = c" "0 < lg_budget st"
  shows "set (lg_ordered (take_neighbors ns st)) \<inter> A = {} \<and> distinct (lg_ordered (take_neighbors ns st)) \<and>
    set (lg_ordered (take_neighbors ns st)) \<union> A \<subseteq> set (lg_seen (take_neighbors ns st)) \<and>
    int (length (lg_ordered (take_neighbors ns st))) + lg_budget (take_neighbors ns st) = c \<and>
    0 \<le> lg_budget (take_neighbors ns st)"
  using assms
proof (induction ns arbitrary: st)
  case (Cons n ns)
  show ?case
  proof (cases "gn_memory n \<in> set (lg_seen st)")
    case True
    with Cons show ?thesis by simp
  next
    case False
    let ?st = "st\<lparr>lg_seen := gn_memory n # lg_seen st, lg_ordered := lg_ordered st @ [gn_memory n],
        lg_budget := lg_budget st - 1\<rparr>"
    have inv: "set (lg_ordered ?st) \<inter> A = {}" "distinct (lg_ordered ?st)" "set (lg_ordered ?st) \<union> A \<subseteq> set (lg_seen ?st)"
      "int (length (lg_ordered ?st)) + lg_budget ?st = c"
      using Cons.prems False by auto
    show ?thesis
    proof (cases "lg_budget ?st \<le> 0")
      case True
      then have "take_neighbors (n # ns) st = ?st" using False by simp
      moreover have "0 \<le> lg_budget ?st" using Cons.prems(5) by simp
      ultimately show ?thesis using inv by simp
    next
      case budget: False
      then have "take_neighbors (n # ns) st = take_neighbors ns ?st" using False by simp
      moreover have "0 < lg_budget ?st" using budget by simp
      ultimately show ?thesis using Cons.IH [OF inv] by simp
    qed
  qed
qed simp

lemma expand_seeds_inv:
  assumes "expand_seeds config ownerId db seeds cache st = (st', cache')"
    and "set (lg_ordered st) \<inter> A = {}" "distinct (lg_ordered st)" "set (lg_ordered st) \<union> A \<subseteq> set (lg_seen st)"
    "int (length (lg_ordered st)) + lg_budget st = c" "0 \<le> lg_budget st"
  shows "set (lg_ordered st') \<inter> A = {} \<and> distinct (lg_ordered st') \<and> int (length (lg_ordered st')) \<le> c"
  using assms
proof (induction seeds arbitrary: cache st)
  case (Cons seed seeds)
  show ?case
  proof (cases "lg_budget st \<le> 0")
    case False
    then have pos: "0 < lg_budget st" by simp
    obtain ns cache1 where t: "traverseNeighbors cache db (m_id seed) ownerId
        \<lparr>to_depth = gr_depth config, to_budget = lg_budget st, to_types = gr_types config, to_direction = None\<rparr> = (ns, cache1)"
      by fastforce
    from take_neighbors_inv [OF Cons.prems(2-5) pos, of ns] Cons.prems(1) False
    show ?thesis by (intro Cons.IH [of cache1 "take_neighbors ns st"]) (simp_all add: t)
  next
    case True
    with Cons.prems show ?thesis by auto
  qed
qed simp

text \<open>
  The graph leg of a retrieval adds at most the configured number of memories, each once, none of
  them a seed, and all of them visible in the scope of the request and not archived.
\<close>

theorem graphCandidates_sound:
  assumes "graphCandidates config (Some (\<lambda>_. seeds)) lc f cache db = (found, cache')"
    and "0 \<le> gr_neighbors config"
  shows "distinct (map m_id found) \<and> int (length found) \<le> gr_neighbors config \<and>
    set (map m_id found) \<inter> set (map m_id seeds) = {} \<and>
    (\<forall>mem \<in> set found. \<not> m_archived mem \<and>
       (\<exists>r \<in> set (memories db). mem = rowToRetrieval r \<and> visible (rf_owner f) (rf_workspace f) r))"
proof (cases "truthy (rf_query f) = None \<or> seeds = []")
  case True
  then have "found = []"
    using assms(1) by (cases "truthy (rf_query f) = None") (simp_all add: graphCandidates_def Let_def)
  with assms(2) show ?thesis by simp
next
  case False
  let ?st0 = "\<lparr>lg_budget = gr_neighbors config, lg_seen = map m_id seeds, lg_ordered = []\<rparr>"
  obtain st c1 where ex: "expand_seeds config (rf_owner f) db seeds cache ?st0 = (st, c1)" by fastforce
  let ?mems = "findByIds db (lg_ordered st) (rf_owner f) (rf_workspace f)"
  define mm where "mm = map_of (rev (map (\<lambda>m. (m_id m, m)) ?mems))"
  let ?pick = "\<lambda>i. case mm i of None \<Rightarrow> [] | Some m \<Rightarrow> [m]"
  have found: "found = filter (\<lambda>m. \<not> m_archived m) (concat (map ?pick (lg_ordered st)))"
  proof -
    obtain q where "truthy (rf_query f) = Some q" using False by (cases "truthy (rf_query f)") simp_all
    with assms(1) False show ?thesis by (simp add: graphCandidates_def Let_def ex mm_def)
  qed
  have inv: "set (lg_ordered st) \<inter> set (map m_id seeds) = {}" "distinct (lg_ordered st)"
    "int (length (lg_ordered st)) \<le> gr_neighbors config"
    using expand_seeds_inv [OF ex, of "set (map m_id seeds)" "gr_neighbors config"] assms(2) by auto
  have pick: "m \<in> set ?mems \<and> m_id m = i" if "mm i = Some m" for i m
    using map_of_SomeD [OF that [unfolded mm_def]] by auto
  have src: "\<exists>i. mm i = Some m" if "m \<in> set (concat (map ?pick is))" for m "is"
    using that by (induction "is") (auto split: option.splits)
  have ids: "map m_id (concat (map ?pick is)) = filter (\<lambda>i. mm i \<noteq> None) is" for "is"
    by (induction "is") (auto simp: pick split: option.splits)
  have "map m_id found = map m_id (filter (\<lambda>m. \<not> m_archived m) (concat (map ?pick (lg_ordered st))))" by (simp only: found)
  moreover have "distinct (map m_id (concat (map ?pick (lg_ordered st))))" unfolding ids using inv(2) by simp
  ultimately have "distinct (map m_id found)" by (simp add: distinct_map_filter)
  moreover have "length found \<le> length (lg_ordered st)"
  proof -
    have "length found \<le> length (concat (map ?pick (lg_ordered st)))" unfolding found by (rule length_filter_le)
    also have "\<dots> = length (filter (\<lambda>i. mm i \<noteq> None) (lg_ordered st))" using arg_cong [OF ids, of length] by simp
    also have "\<dots> \<le> length (lg_ordered st)" by (rule length_filter_le)
    finally show ?thesis .
  qed
  moreover have "set (map m_id found) \<subseteq> set (lg_ordered st)"
  proof -
    have "set (map m_id found) \<subseteq> set (map m_id (concat (map ?pick (lg_ordered st))))" unfolding found by auto
    then show ?thesis unfolding ids by auto
  qed
  moreover have "\<not> m_archived mem \<and> (\<exists>r \<in> set (memories db). mem = rowToRetrieval r \<and> visible (rf_owner f) (rf_workspace f) r)"
    if "mem \<in> set found" for mem
  proof -
    from that have "mem \<in> set (concat (map ?pick (lg_ordered st)))" "\<not> m_archived mem" by (simp_all add: found)
    with src pick have "mem \<in> set ?mems" by blast
    with \<open>\<not> m_archived mem\<close> findByIds_visible [of mem db "lg_ordered st"] show ?thesis by blast
  qed
  ultimately show ?thesis using inv(1,3) by fastforce
qed

subsection \<open>The cache of edges\<close>

lemma memories_relations_only: "memories (db\<lparr>relations := t\<rparr>) = memories db"
  by simp

lemma memories_relations [simp]:
  "findById (db\<lparr>relations := t\<rparr>) i ownerId w = findById db i ownerId w"
  "findByIds (db\<lparr>relations := t\<rparr>) ids ownerId w = findByIds db ids ownerId w"
  "resolveSeedMemoryId scope request (db\<lparr>relations := t\<rparr>) = resolveSeedMemoryId scope request db"
  unfolding findById_def findByIds_def resolveSeedMemoryId_def findBySlug_def findBySourcePath_def memories_relations_only
  by (rule refl)+

lemma createRelation_relations:
  assumes "createRelation scope i input by m db = (r, db')"
  shows "\<exists>t. db' = db\<lparr>relations := t\<rparr>"
proof -
  have same: "\<exists>t. db = db\<lparr>relations := t\<rparr>" by (rule exI [of _ "relations db"]) simp
  have ins: "\<exists>t. snd (insertRelation db s g rel o' w c b st md m) = db\<lparr>relations := t\<rparr>" for s g rel o' w c b st md
    using same by (auto simp: insertRelation_def Let_def split: sum.splits option.splits)
  show ?thesis
    using assms same ins [of i "cl_target input" "cl_relation input" "ms_owner scope" "cl_weight input" "cl_confidence input" "by"
        "cl_source_type input"]
    by (auto simp: createRelation_def Let_def createFromInput_def split: if_splits sum.splits) (metis snd_conv)+
qed

lemma cached_edges:
  assumes "traverseNeighbors cache db seed ownerId opts = (ns, cache')"
  shows "traverseNeighbors cache' db' seed ownerId opts = (ns, cache')"
  using assms by (auto simp: traverseNeighbors_def loadOwnerEdges_def Let_def split: prod.splits option.splits)

text \<open>
  The graph service does not see relations made after its first traversal. The adapter keeps the
  edges of an owner for as long as it lives (the service is made once, when the server starts): a
  relation created after a request leaves the answer to that request as it was, whatever it links.
\<close>

theorem traversal_misses_new_relation:
  assumes "traverseRelations config scope request cache db = (Inr res, cache1)"
    and "createRelation scope i input createdBy m db = (Inr r, db1)"
  shows "traverseRelations config scope request cache1 db1 = (Inr res, cache1)"
proof -
  from createRelation_relations [OF assms(2)] obtain t where db1: "db1 = db\<lparr>relations := t\<rparr>" by blast
  from assms(1) obtain memoryId where seed: "resolveSeedMemoryId scope request db = Inr memoryId"
    "findById db memoryId (ms_owner scope) (workspaceIdFromScope scope) \<noteq> None"
    by (auto simp: traverseRelations_def split: sum.splits if_splits)
  obtain ns c where walk: "traverseNeighbors cache db memoryId (ms_owner scope)
      \<lparr>to_depth = min (nullish (tq_depth request) (gc_depth config)) DEFAULT_GRAPH_MAX_DEPTH_MVP,
       to_budget = gc_neighbors config, to_types = tq_types request, to_direction = tq_direction request\<rparr> = (ns, c)"
    by fastforce
  from assms(1) seed walk have "c = cache1" by (auto simp: traverseRelations_def Let_def split: if_splits)
  with assms(1) seed walk cached_edges [OF walk, of db1] show ?thesis
    unfolding traverseRelations_def db1 memories_relations by (simp del: not_None_eq)
qed

subsection \<open>Instances\<close>

definition sample_edges :: "relation_edge list" where
  "sample_edges = [\<lparr>re_source = ''a'', re_target = ''b'', re_relation = DependsOn\<rparr>,
     \<lparr>re_source = ''c'', re_target = ''b'', re_relation = Related\<rparr>]"

definition sample_options :: traversal_options where
  "sample_options = \<lparr>to_depth = 5, to_budget = 10, to_types = None, to_direction = None\<rparr>"

theorem traverse_shortest_paths_witness:
  "map (\<lambda>n. (gn_memory n, gn_depth n)) (traverseBidirectional sample_edges ''a'' sample_options) = [(''b'', 1), (''c'', 2)] \<and>
   at_distance (linked BothDirections sample_edges) ''a'' 2 ''c''"
proof -
  let ?ns = "traverseBidirectional sample_edges ''a'' sample_options"
  have ns: "map (\<lambda>n. (gn_memory n, gn_depth n)) ?ns = [(''b'', 1), (''c'', 2)]" by code_simp
  then obtain n where n: "n \<in> set ?ns" "gn_memory n = ''c''" "gn_depth n = 2" by fastforce
  have R: "linked (nullish (to_direction sample_options) BothDirections) (allowed_edges (to_types sample_options) sample_edges) =
      linked BothDirections sample_edges" by (simp add: sample_options_def allowed_edges_def)
  from traverse_shortest_paths [where edges = sample_edges and seed = "''a''" and opts = sample_options, unfolded R] n
  have "at_distance (linked BothDirections sample_edges) ''a'' (gn_depth n) (gn_memory n)" by blast
  with ns n show ?thesis by simp
qed

definition sample_chain :: "walk_edge list" where
  "sample_chain = [\<lparr>we_id = ''1'', we_source = ''a'', we_target = ''b'', we_relation = CausedBy\<rparr>,
     \<lparr>we_id = ''2'', we_source = ''b'', we_target = ''a'', we_relation = MotivatedBy\<rparr>,
     \<lparr>we_id = ''3'', we_source = ''b'', we_target = ''c'', we_relation = MotivatedBy\<rparr>]"


definition sample_relations :: "relation_row list \<Rightarrow> relation_db" where
  "sample_relations rels = \<lparr>memories = [sample_row, sample_row\<lparr>m_id := ''2''\<rparr>, sample_row\<lparr>m_id := ''3'', mr_workspace := Some ''v''\<rparr>],
     embeddings = [], intents = [], sync_audits = [], sync_conflicts = [], sync_cursors = [], relations = rels\<rparr>"

definition sample_relation :: "string \<Rightarrow> string \<Rightarrow> string \<Rightarrow> relation_row" where
  "sample_relation i s t = \<lparr>rl_id = i, rl_source = s, rl_target = t, rl_relation = Related, rl_owner = ''o'', rl_weight = 1,
     rl_confidence = 1, rl_created_by = None, rl_source_type = ManualSource, rl_metadata = [], rl_created = ''t''\<rparr>"

definition sample_request :: traverse_request where
  "sample_request = \<lparr>tq_memory = Some ''1'', tq_depth = None, tq_types = None, tq_direction = None, tq_seed = None\<rparr>"

definition sample_config :: graph_config where "sample_config = \<lparr>gc_depth = 2, gc_neighbors = 30\<rparr>"

text \<open>The third memory is in another workspace: the traversal finds it and leaves it out.\<close>

theorem traverse_visible_witness:
  "\<exists>res n r. fst (traverseRelations sample_config (sample_scope ''w'') sample_request (\<lambda>_. None)
      (sample_relations [sample_relation ''r'' ''1'' ''2'', sample_relation ''q'' ''1'' ''3''])) = Inr res \<and>
    tr_neighbors res = [n] \<and> r \<in> set (memories (sample_relations [])) \<and> m_id r = gn_memory n \<and> visible ''o'' (Some ''w'') r"
proof -
  let ?db = "sample_relations [sample_relation ''r'' ''1'' ''2'', sample_relation ''q'' ''1'' ''3'']"
  let ?run = "traverseRelations sample_config (sample_scope ''w'') sample_request (\<lambda>_. None) ?db"
  have "\<not> isl (fst ?run)" by code_simp
  from run_Inr [OF this] have run: "?run = (Inr (projr (fst ?run)), snd ?run)" .
  have "length (tr_neighbors (projr (fst ?run))) = 1" by code_simp
  then obtain n where n: "tr_neighbors (projr (fst ?run)) = [n]" by (auto simp: length_Suc_conv)
  then have "n \<in> set (tr_neighbors (projr (fst ?run)))" by simp
  from traverse_visible [OF run this] obtain r where "r \<in> set (memories ?db)" "m_id r = gn_memory n"
    "visible (ms_owner (sample_scope ''w'')) (workspaceIdFromScope (sample_scope ''w'')) r" by blast
  moreover have "ms_owner (sample_scope ''w'') = ''o''" "workspaceIdFromScope (sample_scope ''w'') = Some ''w''" by code_simp+
  moreover have "memories ?db = memories (sample_relations [])" by (simp add: sample_relations_def)
  moreover have "fst ?run = Inr (projr (fst ?run))" using run by (metis fst_conv)
  ultimately show ?thesis using n by (metis (no_types, lifting))
qed

definition sample_link :: create_relation where
  "sample_link = \<lparr>cl_target = ''2'', cl_relation = Related, cl_weight = None, cl_confidence = None, cl_source_type = None,
     cl_metadata = None\<rparr>"

text \<open>The same request to an adapter made after the creation finds the neighbour.\<close>

theorem traversal_misses_new_relation_witness:
  "\<exists>res cache1 r db1 res2.
     traverseRelations sample_config (sample_scope ''w'') sample_request (\<lambda>_. None) (sample_relations []) = (Inr res, cache1) \<and>
     createRelation (sample_scope ''w'') ''1'' sample_link None (mint_of ''9'') (sample_relations []) = (Inr r, db1) \<and>
     traverseRelations sample_config (sample_scope ''w'') sample_request cache1 db1 = (Inr res, cache1) \<and>
     tr_memories res = [] \<and>
     fst (traverseRelations sample_config (sample_scope ''w'') sample_request (\<lambda>_. None) db1) = Inr res2 \<and>
     tr_memories res2 = [''2'']"
proof -
  let ?old = "traverseRelations sample_config (sample_scope ''w'') sample_request (\<lambda>_. None) (sample_relations [])"
  let ?make = "createRelation (sample_scope ''w'') ''1'' sample_link None (mint_of ''9'') (sample_relations [])"
  let ?new = "traverseRelations sample_config (sample_scope ''w'') sample_request (\<lambda>_. None) (snd ?make)"
  have "\<not> isl (fst ?old)" by code_simp
  from run_Inr [OF this] have old: "?old = (Inr (projr (fst ?old)), snd ?old)" .
  have "\<not> isl (fst ?make)" by code_simp
  from run_Inr [OF this] have make: "?make = (Inr (projr (fst ?make)), snd ?make)" .
  have "\<not> isl (fst ?new)" by code_simp
  from run_Inr [OF this] have "fst ?new = Inr (projr (fst ?new))" by (metis fst_conv)
  moreover have "tr_memories (projr (fst ?old)) = []" "tr_memories (projr (fst ?new)) = [''2'']" by code_simp+
  ultimately show ?thesis using old make traversal_misses_new_relation [OF old make] by blast
qed

definition sample_leg :: graph_retrieval_config where
  "sample_leg = \<lparr>gr_seed_cap = 5, gr_depth = 2, gr_neighbors = 1, gr_types = None\<rparr>"

definition sample_filters :: retrieval_filters where
  "sample_filters = \<lparr>rf_owner = ''o'', rf_workspace = None, rf_project = None, rf_tags = [], rf_levels = [],
     rf_query = Some ''q'', rf_importance = None, rf_archived = None, rf_max = 10\<rparr>"

theorem graphCandidates_sound_witness:
  "\<exists>m. fst (graphCandidates sample_leg (Some (\<lambda>_. [rowToMemory sample_row])) (\<lambda>_ _. 0) sample_filters (\<lambda>_. None)
       (sample_relations [sample_relation ''r'' ''1'' ''2'', sample_relation ''q'' ''1'' ''3''])) = [m] \<and> m_id m \<noteq> ''1'' \<and> \<not> m_archived m"
proof -
  let ?run = "graphCandidates sample_leg (Some (\<lambda>_. [rowToMemory sample_row])) (\<lambda>_ _. 0) sample_filters (\<lambda>_. None)
       (sample_relations [sample_relation ''r'' ''1'' ''2'', sample_relation ''q'' ''1'' ''3''])"
  have "length (fst ?run) = 1" by code_simp
  then obtain m where m: "fst ?run = [m]" by (auto simp: length_Suc_conv)
  have "?run = ([m], snd ?run)" by (simp flip: m)
  from graphCandidates_sound [OF this]
  have "set (map m_id [m]) \<inter> set (map m_id [rowToMemory sample_row]) = {} \<and> (\<forall>mem \<in> set [m]. \<not> m_archived mem)"
    by (simp add: sample_leg_def)
  moreover have "m_id (rowToMemory sample_row) = ''1''" by code_simp
  ultimately show ?thesis using m by auto
qed

end
