(* ===== verification/Relation_Laws.thy ===== *)
theory Relation_Laws
  imports Inference Graph_Laws
begin

section \<open>Laws of the relation table\<close>

text \<open>
  What the repository operations on relations leave behind, what the sources of candidates and the
  scoring can produce, and what the writing loop of the inference changes in the table.
\<close>

subsection \<open>Outcome of the repository operations\<close>

lemma insertRelation_cases:
  assumes "insertRelation db s t rel ownerId w c b st md m = (res, db')"
  obtains (refused) "db' = db" "isl res"
  | (added) r where "db' = db\<lparr>relations := relations db @ [r]\<rparr>" "res = Inr r" "\<forall>x \<in> set (relations db). \<not> relation_clash r x"
      "rl_id r = mint_id m" "rl_source r = s" "rl_target r = t" "rl_relation r = rel" "rl_owner r = ownerId"
      "rl_source_type r = nullish st ManualSource" "rl_metadata r = nullish md []"
      "rl_weight r = nullish w 1" "rl_confidence r = nullish c 1"
proof -
  let ?r = "\<lparr>rl_id = mint_id m, rl_source = s, rl_target = t, rl_relation = rel,
              rl_owner = ownerId, rl_weight = nullish w 1, rl_confidence = nullish c 1,
              rl_created_by = b, rl_source_type = nullish st ManualSource,
              rl_metadata = nullish md [], rl_created = mint_now m\<rparr>"
  show ?thesis
  proof (cases "sql_insert relation_clash ?r (relations db)")
    case (Inl e)
    with assms have "res = Inl e" "db' = db" by (simp_all add: insertRelation_def del: sql_insert_Inr)
    then show ?thesis by (intro refused) simp_all
  next
    case (Inr u)
    then have u: "u = relations db @ [?r]" "\<forall>x \<in> set (relations db). \<not> relation_clash ?r x" by simp_all
    then have "sql_first (\<lambda>r. rl_id r = mint_id m \<and> rl_owner r = ownerId) (relations db) = None"
      by (auto simp: relation_clash_def)
    then have "findRelationById (db\<lparr>relations := u\<rparr>) (mint_id m) ownerId = Some ?r"
      by (simp add: findRelationById_def u(1) sql_first_append sql_first_Cons del: sql_first_None)
    with Inr assms have "res = Inr ?r" "db' = db\<lparr>relations := u\<rparr>"
      by (simp_all add: insertRelation_def Let_def del: sql_insert_Inr)
    with u show ?thesis by (intro added [of ?r]) simp_all
  qed
qed

lemma insertRelation_values:
  assumes "insertRelation db s t rel ownerId w c b st md m = (Inr r, db')"
  shows "relations db' = relations db @ [r]" "rl_owner r = ownerId" "rl_source r = s" "rl_target r = t" "rl_relation r = rel"
    "rl_weight r = nullish w 1" "rl_confidence r = nullish c 1" "rl_metadata r = nullish md []"
proof -
  have "relations db' = relations db @ [r] \<and> rl_owner r = ownerId \<and> rl_source r = s \<and> rl_target r = t \<and> rl_relation r = rel \<and>
    rl_weight r = nullish w 1 \<and> rl_confidence r = nullish c 1 \<and> rl_metadata r = nullish md []"
    using assms
  proof (cases rule: insertRelation_cases)
    case (added r')
    then show ?thesis by simp
  qed simp
  then show "relations db' = relations db @ [r]" "rl_owner r = ownerId" "rl_source r = s" "rl_target r = t" "rl_relation r = rel"
    "rl_weight r = nullish w 1" "rl_confidence r = nullish c 1" "rl_metadata r = nullish md []" by blast+
qed

text \<open>What the inference changes in the table: weights of inferred rows, or one new inferred row.\<close>

definition same_key :: "relation_type set \<Rightarrow> relation_row \<Rightarrow> relation_row \<Rightarrow> bool" where
  "same_key types r r' \<longleftrightarrow> rl_id r' = rl_id r \<and> rl_source r' = rl_source r \<and> rl_target r' = rl_target r \<and>
     rl_relation r' = rl_relation r \<and> rl_owner r' = rl_owner r \<and> rl_source_type r' = rl_source_type r \<and>
     (r' \<noteq> r \<longrightarrow> rl_source_type r = InferredSource \<and> rl_relation r \<in> types)"

lemma same_key_refl: "same_key types r r"
  by (simp add: same_key_def)

lemma upsertInferred_cases:
  assumes "upsertInferred db s t rel ownerId w c md m = (res, db')" "relation_ids.unique (relations db)"
  obtains (kept) u where "db' = db\<lparr>relations := u\<rparr>" "list_all2 (same_key {rel}) (relations db) u"
      "isl res \<or> (res \<noteq> Inr RelationCreated \<and> (\<exists>r \<in> set (relations db). rl_owner r = ownerId \<and> rl_source r = s \<and>
         rl_target r = t \<and> rl_relation r = rel))"
  | (added) r where "db' = db\<lparr>relations := relations db @ [r]\<rparr>" "res = Inr RelationCreated"
      "\<forall>x \<in> set (relations db). \<not> relation_clash r x" "rl_source r = s" "rl_target r = t" "rl_relation r = rel"
      "rl_owner r = ownerId" "rl_source_type r = InferredSource"
      "\<forall>x \<in> set (relations db). \<not> (rl_owner x = ownerId \<and> rl_source x = s \<and> rl_target x = t \<and> rl_relation x = rel)"
proof (cases "sql_first (\<lambda>r. rl_owner r = ownerId \<and> rl_source r = s \<and> rl_target r = t \<and> rl_relation r = rel) (relations db)")
  case None
  then have none: "\<forall>x \<in> set (relations db). \<not> (rl_owner x = ownerId \<and> rl_source x = s \<and> rl_target x = t \<and> rl_relation x = rel)"
    by simp
  obtain r1 db1 where ins: "insertRelation db s t rel ownerId (Some w) (Some c) None (Some InferredSource) md m = (r1, db1)"
    by fastforce
  from ins show ?thesis
  proof (cases rule: insertRelation_cases)
    case refused
    then obtain e where "r1 = Inl e" by (cases r1) auto
    with None assms ins refused show ?thesis
      by (intro kept [of "relations db"]) (auto simp: upsertInferred_def list_all2_same same_key_refl simp del: sql_first_None)
  next
    case (added r)
    with None assms ins none show ?thesis
      by (intro that(2) [of r]) (simp_all add: upsertInferred_def del: sql_first_None)
  qed
next
  case (Some ex)
  from sql_first_SomeD [OF Some] have ex: "ex \<in> set (relations db)" "rl_owner ex = ownerId" "rl_source ex = s"
    "rl_target ex = t" "rl_relation ex = rel" by simp_all
  show ?thesis
  proof (cases "rl_source_type ex = InferredSource")
    case False
    with Some assms ex show ?thesis
      by (intro kept [of "relations db"]) (auto simp: upsertInferred_def list_all2_same same_key_refl)
  next
    case True
    let ?f = "\<lambda>r. if rl_id r = rl_id ex \<and> rl_owner r = ownerId
      then r\<lparr>rl_weight := w, rl_confidence := c, rl_metadata := nullish md []\<rparr> else r"
    have "same_key {rel} r (?f r)" if "r \<in> set (relations db)" for r
    proof (cases "rl_id r = rl_id ex")
      case same: True
      then have "r = ex" using assms(2) that ex(1) unfolding relation_ids.unique_def distinct_map by (blast dest: inj_onD)
      with True ex(5) show ?thesis by (simp add: same_key_def)
    qed (simp add: same_key_refl)
    then have "list_all2 (same_key {rel}) (relations db) (map ?f (relations db))"
      by (simp add: list_all2_map2 list_all2_same)
    with Some assms(1) True ex show ?thesis
      by (intro kept [of "map ?f (relations db)"]) (auto simp: upsertInferred_def sql_update_def)
  qed
qed

subsection \<open>The candidates\<close>

definition proper :: "'a candidate_scheme \<Rightarrow> bool" where
  "proper c \<longleftrightarrow> ic_source c \<noteq> ic_target c \<and> ic_relation c \<in> {Related, DependsOn}"

lemma memory_pairs_differ: "(s, t) \<in> set (memory_pairs mems) \<Longrightarrow> m_id s \<noteq> m_id t"
  by (simp add: memory_pairs_def)

lemma pair_source_proper:
  assumes "\<And>s t c. c \<in> set (f (s, t)) \<Longrightarrow> ic_source c = m_id s \<and> ic_target c = m_id t \<and> ic_relation c = Related"
    and "c \<in> set (concat (map f (memory_pairs mems)))"
  shows "proper c"
  using assms memory_pairs_differ by (fastforce simp: proper_def)

lemma sources_proper:
  assumes "(i, infer) \<in> set (inferenceSources tm)" "c \<in> set (infer mems)"
  shows "proper c"
proof -
  have "proper c" if "c \<in> set (sharedTagSource mems)"
    using that unfolding sharedTagSource_def by (elim pair_source_proper [rotated]) (auto simp: Let_def split: if_splits)
  moreover have "proper c" if "c \<in> set (temporalSource tm mems)"
    using that unfolding temporalSource_def by (elim pair_source_proper [rotated]) (auto simp: Let_def split: if_splits)
  moreover have "proper c" if "c \<in> set (semanticSource mems)"
    using that unfolding semanticSource_def by (elim pair_source_proper [rotated]) (auto simp: Let_def split: if_splits)
  moreover have "proper c" if "c \<in> set (conversationSource tm mems)"
    using that unfolding conversationSource_def by (elim pair_source_proper [rotated]) (auto simp: Let_def split: if_splits)
  moreover have "proper c" if "c \<in> set (projectSource mems)"
    using that by (auto simp: projectSource_def Let_def proper_def dest!: memory_pairs_differ)
  moreover have "proper c" if "c \<in> set (dependencySource mems)"
    using that by (auto simp: dependencySource_def Let_def proper_def split: if_splits option.splits)
  ultimately show ?thesis using assms by (auto simp: inferenceSources_def)
qed

lemma set_alist_update: "x \<in> set (AList.update k v al) \<Longrightarrow> x = (k, v) \<or> x \<in> set al"
  by (induction al) (auto split: if_splits)

lemma merge_candidate_proper:
  assumes "\<forall>(k, r) \<in> set merged. proper r" "proper c"
  shows "\<forall>(k, r) \<in> set (merge_candidate c merged). proper r"
proof (cases "map_of merged (edgeKey c)")
  case None
  with assms show ?thesis
    by (auto simp: merge_candidate_def proper_def candidate.defs dest!: set_alist_update)
next
  case (Some ex)
  with assms(1) map_of_SomeD [OF Some] have "proper ex" by auto
  with Some assms(1) show ?thesis
    by (auto simp: merge_candidate_def proper_def dest!: set_alist_update)
qed

lemma scoreCandidates_proper:
  assumes "\<forall>c \<in> set cs. proper c" "r \<in> set (scoreCandidates cs)"
  shows "proper r"
proof -
  have "\<forall>(k, r) \<in> set (fold merge_candidate cs merged). proper r" if "\<forall>(k, r) \<in> set merged. proper r" for merged
    using that assms(1)
  proof (induction cs arbitrary: merged)
    case (Cons c cs)
    have "proper c" "\<forall>c \<in> set cs. proper c" using Cons.prems(2) by simp_all
    with Cons.IH [OF merge_candidate_proper [OF Cons.prems(1)]] show ?case unfolding fold_simps comp_def by blast
  qed simp
  from this [of "[]"] assms(2) show ?thesis by (auto simp: scoreCandidates_def)
qed

lemma scored_relations_proper: "r \<in> set (scored_relations tm scope opts db) \<Longrightarrow> proper r"
proof -
  assume r: "r \<in> set (scored_relations tm scope opts db)"
  have "proper c" if c: "c \<in> set (concat (map snd (inferred_candidates tm scope opts db)))" for c
  proof -
    from c obtain i infer mems where "(i, infer) \<in> set (inferenceSources tm)" "c \<in> set (infer mems)"
      by (auto simp: inferred_candidates_def Let_def)
    then show ?thesis by (rule sources_proper)
  qed
  with r show ?thesis unfolding scored_relations_def by (intro scoreCandidates_proper) (auto dest: in_set_takeD)
qed

subsection \<open>The writing loop\<close>

lemma appendEvidence_frame:
  "appendEvidence scope r m db = (res, db') \<Longrightarrow> relations db' = relations db \<and> memories db' = memories db"
  by (auto simp: appendEvidence_def split: sum.splits)

text \<open>One pass of the loop for one relation, evidence included.\<close>

definition covered :: "string \<Rightarrow> relation_row list \<Rightarrow> 'a candidate_scheme \<Rightarrow> bool" where
  "covered ownerId rels c \<longleftrightarrow> (\<exists>r \<in> set rels. rl_owner r = ownerId \<and> rl_source r = ic_source c \<and>
     rl_target r = ic_target c \<and> rl_relation r = ic_relation c)"

text \<open>
  What a run may do to the table, seen as a relation between the tables before and after: rows keep
  their keys, only inferred rows of the two inferred types change, and new rows are inferred,
  between two memories, and clash with no other.
\<close>

definition inferred_change :: "relation_row list \<Rightarrow> relation_row list \<Rightarrow> bool" where
  "inferred_change t t' \<longleftrightarrow> (\<exists>u v. t' = u @ v \<and> list_all2 (same_key {Related, DependsOn}) t u \<and>
     (\<forall>r \<in> set v. rl_source_type r = InferredSource \<and> rl_relation r \<in> {Related, DependsOn} \<and> rl_source r \<noteq> rl_target r))"

lemma inferred_change_refl: "inferred_change t t"
  unfolding inferred_change_def by (intro exI [of _ t] exI [of _ "[]"]) (simp add: list_all2_same same_key_refl)

lemma same_key_trans: "same_key P a b \<Longrightarrow> same_key P b c \<Longrightarrow> same_key P a c"
  by (auto simp: same_key_def)

lemma inferred_change_trans:
  assumes "inferred_change a b" "inferred_change b c"
  shows "inferred_change a c"
proof -
  from assms(1) obtain u v where uv: "b = u @ v" "list_all2 (same_key {Related, DependsOn}) a u"
    "\<forall>r \<in> set v. rl_source_type r = InferredSource \<and> rl_relation r \<in> {Related, DependsOn} \<and> rl_source r \<noteq> rl_target r"
    unfolding inferred_change_def by blast
  from assms(2) obtain u' v' where uv': "c = u' @ v'" "list_all2 (same_key {Related, DependsOn}) (u @ v) u'"
    "\<forall>r \<in> set v'. rl_source_type r = InferredSource \<and> rl_relation r \<in> {Related, DependsOn} \<and> rl_source r \<noteq> rl_target r"
    unfolding inferred_change_def uv(1) by blast
  from uv'(2) obtain x y where xy: "u' = x @ y" "list_all2 (same_key {Related, DependsOn}) u x"
    "list_all2 (same_key {Related, DependsOn}) v y" by (auto simp: list_all2_append1)
  have "list_all2 (same_key {Related, DependsOn}) a x"
    by (rule list_all2_trans [OF _ uv(2) xy(2)]) (rule same_key_trans)
  moreover have "\<forall>r \<in> set y. rl_source_type r = InferredSource \<and> rl_relation r \<in> {Related, DependsOn} \<and> rl_source r \<noteq> rl_target r"
    using xy(3) uv(3) by (fastforce simp: list_all2_conv_all_nth in_set_conv_nth same_key_def)
  ultimately show ?thesis using uv'(1,3) xy(1) unfolding inferred_change_def
    by (intro exI [of _ x] exI [of _ "y @ v'"]) auto
qed

definition relation_keys :: "relation_row list \<Rightarrow> bool" where
  "relation_keys t \<longleftrightarrow> sorted_wrt (\<lambda>r s. \<not> relation_clash s r) t"

lemma relation_keys_unique: "relation_keys t \<Longrightarrow> relation_ids.unique t"
  by (induction t) (auto simp: relation_keys_def relation_ids.unique_def relation_clash_def)

lemma same_keyD:
  assumes "same_key P a b"
  shows "rl_id b = rl_id a" "rl_source b = rl_source a" "rl_target b = rl_target a" "rl_relation b = rl_relation a"
    "rl_owner b = rl_owner a" "rl_source_type b = rl_source_type a"
  using assms unfolding same_key_def by blast+

lemma same_key_clash:
  assumes "same_key P a a'" "same_key P b b'"
  shows "relation_clash a' b' = relation_clash a b"
  unfolding relation_clash_def same_keyD [OF assms(1)] same_keyD [OF assms(2)] ..

lemma same_key_widen: "same_key {k} a b \<Longrightarrow> k \<in> P \<Longrightarrow> same_key P a b"
  unfolding same_key_def by blast

lemma relation_keys_same:
  assumes "list_all2 (same_key P) t u" "relation_keys t"
  shows "relation_keys u"
  unfolding relation_keys_def sorted_wrt_iff_nth_less
proof (intro allI impI)
  fix i j assume ij: "i < j" "j < length u"
  with assms(1) have "same_key P (t ! i) (u ! i)" "same_key P (t ! j) (u ! j)" by (simp_all add: list_all2_conv_all_nth)
  from same_key_clash [OF this(2,1)] ij assms show "\<not> relation_clash (u ! j) (u ! i)"
    by (simp add: relation_keys_def sorted_wrt_iff_nth_less list_all2_conv_all_nth)
qed

lemma relation_keys_snoc: "relation_keys (t @ [r]) \<longleftrightarrow> relation_keys t \<and> (\<forall>x \<in> set t. \<not> relation_clash r x)"
  by (auto simp: relation_keys_def sorted_wrt_append)

definition inferred_metadata :: "scored_relation \<Rightarrow> json_object" where
  "inferred_metadata r = [(''inferenceSource'', JStr (ic_origin r)), (''evidence'', JObj (ic_evidence r))]"

lemma upsert_change:
  assumes "upsertInferred db (ic_source r) (ic_target r) (ic_relation r) ownerId w c md m = (res, db')"
    and "relation_keys (relations db)" "proper r"
  shows "relation_keys (relations db') \<and> inferred_change (relations db) (relations db') \<and> memories db' = memories db"
  using assms(1) relation_keys_unique [OF assms(2)]
proof (cases rule: upsertInferred_cases)
  case (kept u)
  have "list_all2 (same_key {Related, DependsOn}) (relations db) u"
    by (rule list_all2_mono [OF kept(2)]) (use assms(3) in \<open>simp add: same_key_widen proper_def\<close>)
  then have "inferred_change (relations db) u" unfolding inferred_change_def
    by (intro exI [of _ u] exI [of _ "[]"]) simp
  with kept(1) relation_keys_same [OF kept(2) assms(2)] show ?thesis by simp
next
  case (added r')
  have "inferred_change (relations db) (relations db @ [r'])"
    unfolding inferred_change_def using added assms(3)
    by (intro exI [of _ "relations db"] exI [of _ "[r']"]) (auto simp: list_all2_same same_key_refl proper_def)
  with added assms(2) show ?thesis by (simp add: relation_keys_snoc)
qed

lemma infer_loop_change:
  assumes "infer_loop withEvidence scope rs c db = (res, db')"
    and "relation_keys (relations db)" "\<forall>(r, _) \<in> set rs. proper r"
  shows "relation_keys (relations db') \<and> inferred_change (relations db) (relations db') \<and> memories db' = memories db"
  using assms
proof (induction withEvidence scope rs c db arbitrary: res db' rule: infer_loop.induct)
  case (1 withEvidence scope c db)
  then show ?case by (simp add: inferred_change_refl)
next
  case (2 withEvidence scope r m me rest c db)
  obtain res1 db1 where up: "upsertInferred db (ic_source r) (ic_target r) (ic_relation r) (ms_owner scope) (ir_weight r)
      (ir_confidence r) (Some (inferred_metadata r)) m = (res1, db1)" by fastforce
  from 2(4,3) have "proper r" by simp
  from upsert_change [OF up "2.prems"(2) this]
  have one: "relation_keys (relations db1)" "inferred_change (relations db) (relations db1)" "memories db1 = memories db" by simp_all
  obtain res2 db2 where ev: "(if withEvidence then appendEvidence scope r me db1 else (Inr (), db1)) = (res2, db2)" by fastforce
  then have two: "relations db2 = relations db1" "memories db2 = memories db1"
    by (auto split: if_splits dest: appendEvidence_frame)
  show ?case
  proof (cases res1)
    case (Inl e)
    with up "2.prems"(1) one show ?thesis by (simp add: inferred_metadata_def)
  next
    case r1: (Inr oc)
    show ?thesis
    proof (cases res2)
      case (Inl e)
      with up ev r1 "2.prems"(1) one two show ?thesis by (simp add: inferred_metadata_def)
    next
      case (Inr u)
      with up ev r1 "2.prems"(1) have "infer_loop withEvidence scope rest (count_outcome oc c) db2 = (res, db')"
        by (simp add: inferred_metadata_def)
      from "2.IH" [OF this] one two "2.prems"(3)
      show ?thesis by (auto intro: inferred_change_trans)
    qed
  qed
qed

end
