(* ===== verification/Inference_Laws.thy ===== *)
theory Inference_Laws
  imports Relation_Laws
begin

section \<open>Laws of the inference and invariant of the relation table\<close>

text \<open>
  A run leaves alone the relations it did not make, does its work once, and writes bounded values; every
  sequence of operations keeps the invariant of the table.
\<close>

subsection \<open>Running twice\<close>

text \<open>The row that a scored relation leaves behind, and that a second write of it finds unchanged.\<close>

definition edge_of_scored :: "'a candidate_scheme \<Rightarrow> string \<times> string \<times> relation_type" where
  "edge_of_scored r = (ic_source r, ic_target r, ic_relation r)"

definition holds_edge :: "string \<Rightarrow> string \<times> string \<times> relation_type \<Rightarrow> relation_row \<Rightarrow> bool" where
  "holds_edge ownerId e x \<longleftrightarrow> rl_owner x = ownerId \<and> (rl_source x, rl_target x, rl_relation x) = e"

definition written :: "string \<Rightarrow> relation_row list \<Rightarrow> scored_relation \<Rightarrow> bool" where
  "written ownerId t r \<longleftrightarrow> (\<exists>x \<in> set t. holds_edge ownerId (edge_of_scored r) x \<and>
     (rl_source_type x = InferredSource \<longrightarrow> rl_weight x = ir_weight r \<and> rl_confidence x = ir_confidence r \<and>
        rl_metadata x = inferred_metadata r))"

text \<open>The lookup of \<open>upsertInferred\<close> finds the one row that holds the edge.\<close>

lemma sql_first_edge:
  assumes "relation_keys t" "x \<in> set t" "holds_edge ownerId (s, d, rel) x"
  shows "sql_first (\<lambda>r. rl_owner r = ownerId \<and> rl_source r = s \<and> rl_target r = d \<and> rl_relation r = rel) t = Some x"
proof -
  have p: "(\<lambda>r. rl_owner r = ownerId \<and> rl_source r = s \<and> rl_target r = d \<and> rl_relation r = rel) = holds_edge ownerId (s, d, rel)"
    by (simp add: fun_eq_iff holds_edge_def)
  have "sql_first (holds_edge ownerId (s, d, rel)) t = Some x"
    using assms
  proof (induction t)
    case (Cons y t)
    show ?case
    proof (cases "x = y")
      case True
      with Cons.prems(3) show ?thesis by (simp add: sql_first_Cons)
    next
      case False
      with Cons.prems have "x \<in> set t" by simp
      with Cons.prems(1,3) have "\<not> holds_edge ownerId (s, d, rel) y"
        by (auto simp: relation_keys_def relation_clash_def holds_edge_def)
      with Cons \<open>x \<in> set t\<close> show ?thesis by (simp add: sql_first_Cons relation_keys_def)
    qed
  qed simp
  then show ?thesis unfolding p .
qed

lemma same_row_update:
  assumes "\<And>r. r \<in> set t \<Longrightarrow> p r \<Longrightarrow> f r = r"
  shows "sql_update p f t = t"
  using assms by (auto simp: sql_update_def intro!: map_idI)

lemma relation_id_inj:
  assumes "relation_keys t" "x \<in> set t" "y \<in> set t" "rl_id x = rl_id y"
  shows "x = y"
  using relation_keys_unique [OF assms(1)] assms(2-4) unfolding relation_ids.unique_def distinct_map by (blast dest: inj_onD)

lemma upsert_again:
  assumes "written ownerId (relations db) r" "relation_keys (relations db)"
  obtains oc where "upsertInferred db (ic_source r) (ic_target r) (ic_relation r) ownerId (ir_weight r)
      (ir_confidence r) (Some (inferred_metadata r)) m = (Inr oc, db)" "oc \<noteq> RelationCreated"
proof -
  from assms(1) obtain x where x: "x \<in> set (relations db)" "holds_edge ownerId (ic_source r, ic_target r, ic_relation r) x"
    "rl_source_type x = InferredSource \<Longrightarrow> rl_weight x = ir_weight r \<and> rl_confidence x = ir_confidence r \<and>
        rl_metadata x = inferred_metadata r" unfolding written_def edge_of_scored_def by blast
  from sql_first_edge [OF assms(2) x(1,2)]
  have found: "sql_first (\<lambda>ra. rl_owner ra = ownerId \<and> rl_source ra = ic_source r \<and> rl_target ra = ic_target r \<and>
    rl_relation ra = ic_relation r) (relations db) = Some x" .
  show ?thesis
  proof (cases "rl_source_type x = InferredSource")
    case True
    have "sql_update (\<lambda>ra. rl_id ra = rl_id x \<and> rl_owner ra = ownerId)
        (\<lambda>ra. ra\<lparr>rl_weight := ir_weight r, rl_confidence := ir_confidence r, rl_metadata := inferred_metadata r\<rparr>)
        (relations db) = relations db"
    proof (rule same_row_update)
      fix y assume "y \<in> set (relations db)" "rl_id y = rl_id x \<and> rl_owner y = ownerId"
      then have "y = x" using relation_id_inj [OF assms(2) _ x(1)] by blast
      then show "y\<lparr>rl_weight := ir_weight r, rl_confidence := ir_confidence r, rl_metadata := inferred_metadata r\<rparr> = y"
        using x(3) [OF True] by simp
    qed
    then show ?thesis using found True that [of RelationUpdated] by (simp add: upsertInferred_def)
  qed (use found that [of SkippedManual] in \<open>simp add: upsertInferred_def\<close>)
qed

lemma upsert_written:
  assumes "upsertInferred db (ic_source r) (ic_target r) (ic_relation r) ownerId (ir_weight r)
      (ir_confidence r) (Some (inferred_metadata r)) m = (Inr oc, db')" "relation_keys (relations db)"
  shows "written ownerId (relations db') r \<and>
    (\<forall>r'. edge_of_scored r' \<noteq> edge_of_scored r \<longrightarrow> written ownerId (relations db) r' \<longrightarrow> written ownerId (relations db') r')"
proof (cases "sql_first (\<lambda>ra. rl_owner ra = ownerId \<and> rl_source ra = ic_source r \<and> rl_target ra = ic_target r \<and>
    rl_relation ra = ic_relation r) (relations db)")
  case None
  obtain r1 db1 where ins: "insertRelation db (ic_source r) (ic_target r) (ic_relation r) ownerId (Some (ir_weight r))
      (Some (ir_confidence r)) None (Some InferredSource) (Some (inferred_metadata r)) m = (r1, db1)" by fastforce
  with None assms(1) obtain row where row: "r1 = Inr row" "db1 = db'"
    by (cases r1) (simp_all add: upsertInferred_def del: sql_first_None)
  then have ins': "insertRelation db (ic_source r) (ic_target r) (ic_relation r) ownerId (Some (ir_weight r))
      (Some (ir_confidence r)) None (Some InferredSource) (Some (inferred_metadata r)) m = (Inr row, db')" using ins by simp
  from insertRelation_values [OF ins'] have "relations db' = relations db @ [row]"
    "holds_edge ownerId (edge_of_scored r) row" "rl_weight row = ir_weight r" "rl_confidence row = ir_confidence r"
    "rl_metadata row = inferred_metadata r" by (simp_all add: holds_edge_def edge_of_scored_def)
  then show ?thesis unfolding written_def by auto
next
  case (Some x)
  from sql_first_SomeD [OF Some] have x: "x \<in> set (relations db)" "holds_edge ownerId (edge_of_scored r) x"
    by (simp_all add: holds_edge_def edge_of_scored_def)
  show ?thesis
  proof (cases "rl_source_type x = InferredSource")
    case False
    with Some assms(1) have "db' = db" by (simp add: upsertInferred_def)
    with x False show ?thesis unfolding written_def by blast
  next
    case True
    let ?f = "\<lambda>ra. ra\<lparr>rl_weight := ir_weight r, rl_confidence := ir_confidence r, rl_metadata := inferred_metadata r\<rparr>"
    let ?u = "map (\<lambda>ra. if rl_id ra = rl_id x \<and> rl_owner ra = ownerId then ?f ra else ra) (relations db)"
    from Some assms(1) True have db': "relations db' = ?u" by (auto simp: upsertInferred_def sql_update_def)
    have own: "rl_owner x = ownerId" using x(2) by (simp add: holds_edge_def)
    have "?f x \<in> set ?u" using x(1) own by (auto simp: image_iff intro!: bexI [of _ x])
    moreover have "holds_edge ownerId (edge_of_scored r) (?f x)" using x(2) by (simp add: holds_edge_def)
    ultimately have "written ownerId ?u r" unfolding written_def by (intro bexI [of _ "?f x"]) simp_all
    moreover have "written ownerId ?u r'" if r': "edge_of_scored r' \<noteq> edge_of_scored r" "written ownerId (relations db) r'" for r'
    proof -
      from r'(2) obtain y where y: "y \<in> set (relations db)" "holds_edge ownerId (edge_of_scored r') y"
        "rl_source_type y = InferredSource \<longrightarrow> rl_weight y = ir_weight r' \<and> rl_confidence y = ir_confidence r' \<and>
          rl_metadata y = inferred_metadata r'" unfolding written_def by blast
      have "y \<noteq> x" using y(2) x(2) r'(1) by (auto simp: holds_edge_def)
      then have "rl_id y \<noteq> rl_id x" using relation_id_inj [OF assms(2) y(1) x(1)] by blast
      then have "y \<in> set ?u" using y(1) by (auto simp: image_iff intro!: bexI [of _ y])
      with y(2,3) show ?thesis unfolding written_def by blast
    qed
    ultimately show ?thesis unfolding db' by blast
  qed
qed

lemma infer_loop_written:
  assumes "infer_loop withEvidence scope rs c db = (Inr c', db')" "relation_keys (relations db)"
    and "\<forall>(r, _) \<in> set rs. proper r" "distinct (map (\<lambda>x. edge_of_scored (fst x)) rs)"
  shows "(\<forall>(r, _) \<in> set rs. written (ms_owner scope) (relations db') r) \<and>
    (\<forall>r'. edge_of_scored r' \<notin> set (map (\<lambda>x. edge_of_scored (fst x)) rs) \<longrightarrow> written (ms_owner scope) (relations db) r' \<longrightarrow>
       written (ms_owner scope) (relations db') r')"
  using assms
proof (induction withEvidence scope rs c db arbitrary: c' db' rule: infer_loop.induct)
  case (1 withEvidence scope c db)
  then show ?case by simp
next
  case (2 withEvidence scope r m me rest c db)
  obtain res1 db1 where up: "upsertInferred db (ic_source r) (ic_target r) (ic_relation r) (ms_owner scope) (ir_weight r)
      (ir_confidence r) (Some (inferred_metadata r)) m = (res1, db1)" by fastforce
  with "2.prems"(1) obtain oc where oc: "res1 = Inr oc" by (cases res1) (simp_all add: inferred_metadata_def)
  obtain res2 db2 where ev: "(if withEvidence then appendEvidence scope r me db1 else (Inr (), db1)) = (res2, db2)" by fastforce
  then have two: "relations db2 = relations db1" by (auto split: if_splits dest: appendEvidence_frame)
  from up oc ev "2.prems"(1) have rest: "infer_loop withEvidence scope rest (count_outcome oc c) db2 = (Inr c', db')"
    by (cases res2) (simp_all add: inferred_metadata_def)
  have r: "proper r" "\<forall>(r, _) \<in> set rest. proper r" "distinct (map (\<lambda>x. edge_of_scored (fst x)) rest)"
    "edge_of_scored r \<notin> set (map (\<lambda>x. edge_of_scored (fst x)) rest)" using "2.prems"(3,4) by simp_all
  from upsert_written [OF up [unfolded oc] "2.prems"(2)] upsert_change [OF up "2.prems"(2) r(1)] two
  have one: "written (ms_owner scope) (relations db2) r" "relation_keys (relations db2)"
    "\<And>r'. edge_of_scored r' \<noteq> edge_of_scored r \<Longrightarrow> written (ms_owner scope) (relations db) r' \<Longrightarrow>
       written (ms_owner scope) (relations db2) r'" by simp_all
  from "2.IH" [OF rest one(2) r(2,3)] one(1,3) r(4) show ?case by simp
qed

lemma infer_loop_again:
  assumes "infer_loop withEvidence scope rs c db = (res, db')" "relation_keys (relations db)"
    and "\<forall>(r, _) \<in> set rs. written (ms_owner scope) (relations db) r"
  shows "relations db' = relations db \<and> (\<forall>c'. res = Inr c' \<longrightarrow> in_created c' = in_created c) \<and>
    (\<not> withEvidence \<longrightarrow> \<not> isl res \<and> db' = db)"
  using assms
proof (induction withEvidence scope rs c db arbitrary: res db' rule: infer_loop.induct)
  case (1 withEvidence scope c db)
  then show ?case by auto
next
  case (2 withEvidence scope r m me rest c db)
  have w: "written (ms_owner scope) (relations db) r" "\<forall>(r, _) \<in> set rest. written (ms_owner scope) (relations db) r"
    using "2.prems"(3) by simp_all
  obtain oc where up: "upsertInferred db (ic_source r) (ic_target r) (ic_relation r) (ms_owner scope) (ir_weight r)
      (ir_confidence r) (Some (inferred_metadata r)) m = (Inr oc, db)" and oc: "oc \<noteq> RelationCreated"
    by (rule upsert_again [OF w(1) "2.prems"(2)])
  obtain res2 db2 where ev: "(if withEvidence then appendEvidence scope r me db else (Inr (), db)) = (res2, db2)" by fastforce
  then have two: "relations db2 = relations db" by (auto split: if_splits dest: appendEvidence_frame)
  show ?case
  proof (cases res2)
    case (Inl e)
    with up ev "2.prems"(1) two show ?thesis by (auto simp: inferred_metadata_def)
  next
    case (Inr u)
    with up ev "2.prems"(1) have rest: "infer_loop withEvidence scope rest (count_outcome oc c) db2 = (res, db')"
      by (simp add: inferred_metadata_def)
    have same: "in_created (count_outcome oc c) = in_created c" using oc by (cases oc) simp_all
    have none: "\<not> withEvidence \<longrightarrow> db2 = db" using ev by auto
    from "2.prems"(2) w(2) have "relation_keys (relations db2)" "\<forall>(r, _) \<in> set rest. written (ms_owner scope) (relations db2) r"
      unfolding two .
    from "2.IH" [OF rest this] show ?thesis unfolding two same using none by blast
  qed
qed

text \<open>The scored relations have different edges: the keys of the merging map are distinct.\<close>

definition scored_key :: "'a candidate_scheme \<Rightarrow> string" where
  "scored_key r = ic_source r @ '':'' @ ic_target r @ '':'' @ relation_name (ic_relation r)"

lemma edgeKey_scored: "edgeKey c = scored_key c"
  by (simp add: edgeKey_def scored_key_def)

lemma merge_candidate_keys:
  assumes "distinct (map fst merged)" "\<forall>(k, r) \<in> set merged. scored_key r = k"
  shows "distinct (map fst (merge_candidate c merged)) \<and> (\<forall>(k, r) \<in> set (merge_candidate c merged). scored_key r = k)"
proof (cases "map_of merged (edgeKey c)")
  case None
  with assms show ?thesis
    by (auto simp: merge_candidate_def edgeKey_scored scored_key_def candidate.defs distinct_update dest!: set_alist_update)
next
  case (Some ex)
  with assms(2) map_of_SomeD [OF Some] have "scored_key ex = edgeKey c" by auto
  with Some assms show ?thesis
    by (auto simp: merge_candidate_def scored_key_def distinct_update dest!: set_alist_update)
qed

lemma distinct_map_filter_map: "distinct (map (\<lambda>x. f (g x)) xs) \<Longrightarrow> distinct (map f (filter P (map g xs)))"
  by (induction xs) auto

lemma scored_relations_distinct: "distinct (map edge_of_scored (scored_relations tm scope opts db))"
proof -
  have keys: "distinct (map fst (fold merge_candidate cs merged)) \<and>
      (\<forall>(k, r) \<in> set (fold merge_candidate cs merged). scored_key r = k)"
    if "distinct (map fst merged)" "\<forall>(k, r) \<in> set merged. scored_key r = k" for cs merged
    using that
  proof (induction cs arbitrary: merged)
    case (Cons c cs)
    from merge_candidate_keys [OF Cons.prems] Cons.IH show ?case unfolding fold_simps comp_def by blast
  qed simp
  have "distinct (map scored_key (scoreCandidates cs))" for cs
  proof -
    let ?m = "fold merge_candidate cs []"
    have k: "distinct (map fst ?m)" "\<forall>(k, r) \<in> set ?m. scored_key r = k" using keys [of "[]" cs] by simp_all
    from k(2) have e: "map (\<lambda>x. scored_key (snd x)) ?m = map fst ?m" by (intro map_cong) auto
    show ?thesis unfolding scoreCandidates_def by (rule distinct_map_filter_map) (simp only: e k(1))
  qed
  then have d: "distinct (map scored_key (scored_relations tm scope opts db))"
    unfolding scored_relations_def by (simp add: take_map [symmetric] distinct_take)
  then have "distinct (scored_relations tm scope opts db)" by (simp add: distinct_map)
  moreover have "inj_on edge_of_scored (set (scored_relations tm scope opts db))"
    using d unfolding distinct_map by (intro inj_onI) (auto simp: inj_on_def edge_of_scored_def scored_key_def)
  ultimately show ?thesis by (simp add: distinct_map)
qed

subsection \<open>A run\<close>

lemma mem_same_scored:
  "memories db' = memories (db :: 'a memory_db_scheme) \<Longrightarrow> inferred_candidates tm scope opts db' = inferred_candidates tm scope opts db"
  by (simp add: inferred_candidates_def findAllByOwner_def)

lemma runInference_cases:
  assumes "runInference tm ev scope opts mints db = (res, db')"
  obtains (dry) "db' = db" "io_dry opts" "res = Inr \<lparr>in_found = length (scored_relations tm scope opts db),
      in_counts = \<lparr>in_created = 0, in_updated = 0, in_skipped = 0\<rparr>,
      in_sources = map (\<lambda>(i, found). (i, length found)) (inferred_candidates tm scope opts db)\<rparr>"
  | (wet) res' rs where "\<not> io_dry opts" "map fst rs = scored_relations tm scope opts db"
      "infer_loop ev scope rs \<lparr>in_created = 0, in_updated = 0, in_skipped = 0\<rparr> db = (res', db')"
      "res = map_sum id (\<lambda>c. \<lparr>in_found = length (scored_relations tm scope opts db), in_counts = c,
         in_sources = map (\<lambda>(i, found). (i, length found)) (inferred_candidates tm scope opts db)\<rparr>) res'"
proof (cases "io_dry opts")
  case True
  with assms show ?thesis by (intro dry) (auto simp: runInference_def)
next
  case False
  let ?s = "scored_relations tm scope opts db"
  let ?rs = "zip ?s (map mints [0..<length ?s])"
  obtain res' db1 where loop: "infer_loop ev scope ?rs \<lparr>in_created = 0, in_updated = 0, in_skipped = 0\<rparr> db = (res', db1)"
    by fastforce
  have "map fst ?rs = ?s" by simp
  moreover have "db1 = db'" "res = map_sum id (\<lambda>c. \<lparr>in_found = length ?s, in_counts = c,
         in_sources = map (\<lambda>(i, found). (i, length found)) (inferred_candidates tm scope opts db)\<rparr>) res'"
    using assms False loop by (cases res'; simp add: runInference_def)+
  ultimately show ?thesis using wet [of ?rs res'] False loop by blast
qed

lemma scored_proper:
  "map fst rs = scored_relations tm scope opts db \<Longrightarrow> \<forall>(r, _) \<in> set rs. proper r"
  using scored_relations_proper by (metis (no_types, lifting) case_prodI2 fst_conv image_eqI list.set_map)

lemma scored_distinct:
  "map fst rs = scored_relations tm scope opts db \<Longrightarrow> distinct (map (\<lambda>x. edge_of_scored (fst x)) rs)"
  using scored_relations_distinct [of tm scope opts db] by (metis (no_types, lifting) comp_def list.map_comp map_eq_conv)

lemma runInference_change:
  assumes "runInference tm ev scope opts mints db = (res, db')" "relation_keys (relations db)"
  shows "relation_keys (relations db') \<and> inferred_change (relations db) (relations db') \<and> memories db' = memories db"
  using assms(1)
proof (cases rule: runInference_cases)
  case dry
  with assms(2) inferred_change_refl show ?thesis by simp
next
  case (wet res' rs)
  from infer_loop_change [OF wet(3) assms(2) scored_proper [OF wet(2)]] show ?thesis .
qed

subsection \<open>The invariant of the table\<close>

definition relation_ok :: "relation_row \<Rightarrow> bool" where
  "relation_ok r \<longleftrightarrow> rl_source r \<noteq> rl_target r \<and>
     (isProvenanceRelationType (rl_relation r) \<longrightarrow> provenanceEvidence_ok (rl_metadata r)) \<and>
     (rl_relation r = Supersedes \<longrightarrow> json_get (rl_metadata r) ''conflictKind'' \<noteq> None)"

definition relations_ok :: "relation_row list \<Rightarrow> bool" where
  "relations_ok t \<longleftrightarrow> relation_keys t \<and> list_all relation_ok t"

lemma enforceProvenanceMetadata_ok:
  assumes "enforceProvenanceMetadata rel md = Inr md'" "isProvenanceRelationType rel"
  shows "provenanceEvidence_ok md' \<and> (rel = Supersedes \<longrightarrow> json_get md' ''conflictKind'' \<noteq> None)"
  using assms unfolding enforceProvenanceMetadata_def Let_def by (auto split: if_splits)

lemma createRelation_ok:
  assumes "createRelation scope sourceId input createdBy m db = (res, db')" "relations_ok (relations db)"
  shows "relations_ok (relations db')"
proof -
  let ?md = "if isProvenanceRelationType (cl_relation input)
    then enforceProvenanceMetadata (cl_relation input) (nullish (cl_metadata input) [])
    else Inr (nullish (cl_metadata input) [])"
  consider "db' = db" | md where "sourceId \<noteq> cl_target input" "?md = Inr md"
      "createFromInput db sourceId (ms_owner scope) (input\<lparr>cl_metadata := Some md\<rparr>) createdBy m = (res, db')"
    using assms(1) unfolding createRelation_def Let_def
    by (cases ?md) (auto split: if_splits)
  then show ?thesis
  proof cases
    case 1
    with assms(2) show ?thesis by simp
  next
    case (2 md)
    from 2(3) show ?thesis unfolding createFromInput_def
    proof (cases rule: insertRelation_cases)
      case refused
      with assms(2) show ?thesis by simp
    next
      case (added r)
      have "relation_ok r"
        using added(4-) 2(1,2) enforceProvenanceMetadata_ok [of "cl_relation input" _ md]
        by (auto simp: relation_ok_def isProvenanceRelationType_def PROVENANCE_RELATION_TYPES_def split: if_splits)
      with added(1,3) assms(2) show ?thesis by (simp add: relations_ok_def relation_keys_snoc)
    qed
  qed
qed

lemma relation_keys_filter: "relation_keys t \<Longrightarrow> relation_keys (filter p t)"
  by (simp add: relation_keys_def sorted_wrt_filter)

lemma deleteRelation_ok:
  assumes "relations_ok (relations db)"
  shows "relations_ok (relations (snd (deleteRelation scope memoryId relationId db)))"
  using assms
  by (auto simp: deleteRelation_def deleteRelationRow_def Let_def relations_ok_def sql_delete_def relation_keys_filter
      list_all_iff split: option.splits)

lemma same_key_ok:
  assumes "same_key {Related, DependsOn} r r'" "relation_ok r"
  shows "relation_ok r'"
proof (cases "r' = r")
  case False
  with assms(1) have "rl_relation r' \<in> {Related, DependsOn}" by (auto simp: same_key_def)
  then have "\<not> isProvenanceRelationType (rl_relation r')" "rl_relation r' \<noteq> Supersedes"
    by (auto simp: isProvenanceRelationType_def PROVENANCE_RELATION_TYPES_def)
  moreover have "rl_source r' \<noteq> rl_target r'" using assms(2) unfolding same_keyD [OF assms(1)] relation_ok_def by blast
  ultimately show ?thesis by (simp add: relation_ok_def)
qed (use assms(2) in simp)

lemma inferred_change_ok:
  assumes "inferred_change t t'" "list_all relation_ok t"
  shows "list_all relation_ok t'"
proof -
  from assms(1) obtain u v where uv: "t' = u @ v" "list_all2 (same_key {Related, DependsOn}) t u"
     "\<forall>r \<in> set v. rl_source_type r = InferredSource \<and> rl_relation r \<in> {Related, DependsOn} \<and> rl_source r \<noteq> rl_target r"
    unfolding inferred_change_def by blast
  have "relation_ok r'" if r': "r' \<in> set u" for r'
  proof -
    from r' uv(2) obtain r where "r \<in> set t" "same_key {Related, DependsOn} r r'"
      by (metis in_set_conv_nth list_all2_conv_all_nth)
    with assms(2) show ?thesis by (auto simp: list_all_iff intro: same_key_ok)
  qed
  moreover have "relation_ok r" if "r \<in> set v" for r
    using uv(3) that by (auto simp: relation_ok_def isProvenanceRelationType_def PROVENANCE_RELATION_TYPES_def)
  ultimately show ?thesis by (auto simp: uv(1) list_all_iff)
qed

text \<open>The operations that write the table, as they come from different requests.\<close>

datatype relation_op =
    CreateRelation memory_scope string create_relation "string option" mint
  | DeleteRelation memory_scope string string
  | RunInference bool memory_scope inference_options "nat \<Rightarrow> mint \<times> mint"

fun relation_step :: "(string \<Rightarrow> int) \<Rightarrow> relation_op \<Rightarrow> 'a inference_db_scheme \<Rightarrow> 'a inference_db_scheme" where
  "relation_step tm (CreateRelation scope i input who m) db = snd (createRelation scope i input who m db)"
| "relation_step tm (DeleteRelation scope i r) db = snd (deleteRelation scope i r db)"
| "relation_step tm (RunInference ev scope opts mints) db = snd (runInference tm ev scope opts mints db)"

lemma relation_step_ok:
  assumes "relations_ok (relations db)"
  shows "relations_ok (relations (relation_step tm op db))"
proof (cases op)
  case (CreateRelation scope i input who m)
  with createRelation_ok [OF prod.collapse [symmetric] assms] show ?thesis by simp
next
  case (DeleteRelation scope i r)
  with deleteRelation_ok [OF assms] show ?thesis by simp
next
  case (RunInference ev scope opts mints)
  from runInference_change [of tm ev scope opts mints db, OF prod.collapse [symmetric]] assms inferred_change_ok
  show ?thesis unfolding RunInference relation_step.simps relations_ok_def by blast
qed

lemma same_key_manual:
  "list_all2 (same_key P) t u \<Longrightarrow>
    filter (\<lambda>r. rl_source_type r \<noteq> InferredSource) u = filter (\<lambda>r. rl_source_type r \<noteq> InferredSource) t"
proof (induction rule: list_all2_induct)
  case (Cons a as b bs)
  then show ?case using same_keyD(6) [OF Cons(1)] by (auto simp: same_key_def)
qed simp

lemma list_all2_set2: "list_all2 P xs ys \<Longrightarrow> y \<in> set ys \<Longrightarrow> \<exists>x \<in> set xs. P x y"
  by (metis in_set_conv_nth list_all2_conv_all_nth)

lemma sum_map_Inr: "Inr y = map_sum id f s \<longleftrightarrow> (\<exists>x. s = Inr x \<and> y = f x)"
  by (cases s) auto

text \<open>
  C31: From a table that satisfies it, for example the empty one, any sequence of creations, deletions
  and inference runs, of any owners and whatever they answer, keeps the invariant of the relation
  table: identifiers and the triples of source, target and type are unique, no relation joins a
  memory to itself, and every provenance relation carries metadata that satisfies the schema of its
  evidence, with a conflict kind when it supersedes.
\<close>

theorem relation_table_invariant:
  assumes "relations_ok (relations db)"
  shows "relations_ok (relations (fold (relation_step tm) ops db))"
  using assms by (induction ops arbitrary: db) (simp_all add: relation_step_ok)

text \<open>
  Whatever a run of the inference answers, the relations that a user, an import or the API made are
  exactly as before, in their order; the memories are untouched; and every row that is new or
  different is an inferred relation of type \<open>related\<close> or \<open>depends_on\<close>.
\<close>

theorem inference_keeps_manual:
  assumes "relation_keys (relations db)" "runInference tm ev scope opts mints db = (res, db')"
  shows "filter (\<lambda>r. rl_source_type r \<noteq> InferredSource) (relations db') =
      filter (\<lambda>r. rl_source_type r \<noteq> InferredSource) (relations db) \<and> memories db' = memories db \<and>
    (\<forall>r \<in> set (relations db') - set (relations db). rl_source_type r = InferredSource \<and> rl_relation r \<in> {Related, DependsOn})"
proof -
  have change: "inferred_change (relations db) (relations db')" "memories db' = memories db"
    using runInference_change [OF assms(2,1)] by blast+
  from change(1) obtain u v where uv: "relations db' = u @ v" "list_all2 (same_key {Related, DependsOn}) (relations db) u"
     "\<forall>r \<in> set v. rl_source_type r = InferredSource \<and> rl_relation r \<in> {Related, DependsOn} \<and> rl_source r \<noteq> rl_target r"
    unfolding inferred_change_def by blast
  have "filter (\<lambda>r. rl_source_type r \<noteq> InferredSource) u = filter (\<lambda>r. rl_source_type r \<noteq> InferredSource) (relations db)"
    by (rule same_key_manual [OF uv(2)])
  moreover have "filter (\<lambda>r. rl_source_type r \<noteq> InferredSource) v = []" using uv(3) by (simp add: filter_empty_conv)
  moreover have "rl_source_type r = InferredSource \<and> rl_relation r \<in> {Related, DependsOn}"
    if "r \<in> set u - set (relations db)" for r
  proof -
    from that obtain q where "q \<in> set (relations db)" and q: "same_key {Related, DependsOn} q r"
      using list_all2_set2 [OF uv(2)] by blast
    with that have "r \<noteq> q" by blast
    with q show ?thesis unfolding same_keyD [OF q] same_key_def by blast
  qed
  ultimately show ?thesis using change(2) uv(1,3) by auto
qed

text \<open>
  Running the inference twice over the same memories does the work once: when a run has answered,
  a second one with the same options answers too, creates no relation, finds the same candidates per
  source, and leaves the database as it found it (with the evidence table switched off, which only
  grows).
\<close>

theorem inference_idempotent:
  assumes "relation_keys (relations db)" "\<not> io_dry opts"
    and "runInference tm ev scope opts mints db = (Inr report, db')"
  shows "\<exists>counts. runInference tm False scope opts mints2 db' = (Inr (report\<lparr>in_counts := counts\<rparr>), db') \<and> in_created counts = 0"
proof -
  from assms(3) obtain rs c where rs: "map fst rs = scored_relations tm scope opts db"
      "infer_loop ev scope rs \<lparr>in_created = 0, in_updated = 0, in_skipped = 0\<rparr> db = (Inr c, db')"
      and report: "report = \<lparr>in_found = length (scored_relations tm scope opts db), in_counts = c,
         in_sources = map (\<lambda>(i, found). (i, length found)) (inferred_candidates tm scope opts db)\<rparr>"
    using assms(2) by (cases rule: runInference_cases) (auto simp: sum_map_Inr)
  have keys: "relation_keys (relations db')" "memories db' = memories db"
    using runInference_change [OF assms(3,1)] by blast+
  have same: "inferred_candidates tm scope opts db' = inferred_candidates tm scope opts db"
    by (rule mem_same_scored [OF keys(2)])
  then have same2: "scored_relations tm scope opts db' = scored_relations tm scope opts db" by (simp add: scored_relations_def)
  from infer_loop_written [OF rs(2) assms(1) scored_proper [OF rs(1)] scored_distinct [OF rs(1)]]
  have written: "\<forall>r \<in> set (scored_relations tm scope opts db). written (ms_owner scope) (relations db') r"
    unfolding rs(1) [symmetric] by fastforce
  obtain res2 db2 where run2: "runInference tm False scope opts mints2 db' = (res2, db2)" by fastforce
  then obtain rs2 res3 where rs2: "map fst rs2 = scored_relations tm scope opts db'"
      "infer_loop False scope rs2 \<lparr>in_created = 0, in_updated = 0, in_skipped = 0\<rparr> db' = (res3, db2)"
      "res2 = map_sum id (\<lambda>c. \<lparr>in_found = length (scored_relations tm scope opts db'), in_counts = c,
         in_sources = map (\<lambda>(i, found). (i, length found)) (inferred_candidates tm scope opts db')\<rparr>) res3"
    using assms(2) by (cases rule: runInference_cases) auto
  from written have "\<forall>(r, _) \<in> set rs2. written (ms_owner scope) (relations db') r"
    unfolding same2 [symmetric] rs2(1) [symmetric] by fastforce
  from infer_loop_again [OF rs2(2) keys(1) this] obtain c2 where "res3 = Inr c2" "in_created c2 = 0" "db2 = db'"
    by (cases res3) auto
  with run2 rs2(3) show ?thesis unfolding same same2 by (simp add: report)
qed

text \<open>Between memories of the list, with a weight that is not negative and a confidence of at most 1.\<close>

definition sound :: "memory list \<Rightarrow> 'a candidate_scheme \<Rightarrow> bool" where
  "sound mems c \<longleftrightarrow> ic_source c \<in> m_id ` set mems \<and> ic_target c \<in> m_id ` set mems \<and> 0 \<le> ic_weight c \<and> ic_confidence c \<le> 1"

lemma set_pairs: "(s, t) \<in> set (pairs xs) \<Longrightarrow> s \<in> set xs \<and> t \<in> set xs"
  by (induction xs) auto

lemma memory_pairs_in: "(s, t) \<in> set (memory_pairs mems) \<Longrightarrow> m_id s \<in> m_id ` set mems \<and> m_id t \<in> m_id ` set mems"
  by (auto simp: memory_pairs_def dest: set_pairs)

lemma pair_source_sound:
  assumes "\<And>s t c. c \<in> set (f (s, t)) \<Longrightarrow> ic_source c = m_id s \<and> ic_target c = m_id t \<and> 0 \<le> ic_weight c \<and> ic_confidence c \<le> 1"
    and "c \<in> set (concat (map f (memory_pairs mems)))"
  shows "sound mems c"
  using assms memory_pairs_in [of _ _ mems] unfolding sound_def by (fastforce simp del: image_iff)

lemma proximity_bounds:
  assumes "\<not> TEMPORAL_PROXIMITY_DAYS < daysBetween tm a b"
  shows "0 \<le> 1 - daysBetween tm a b / TEMPORAL_PROXIMITY_DAYS \<and> 1 - daysBetween tm a b / TEMPORAL_PROXIMITY_DAYS \<le> 1"
proof -
  have "0 \<le> daysBetween tm a b" by (simp add: daysBetween_def)
  with assms show ?thesis by (simp add: TEMPORAL_PROXIMITY_DAYS_def divide_simps)
qed

lemma by_codename_in:
  "Some m = map_of (rev (concat (map (\<lambda>m. case truthy (m_codename m) of None \<Rightarrow> [] | Some c \<Rightarrow> [(js_lower c, m)]) mems))) k \<Longrightarrow>
    m \<in> set mems"
  by (drule sym, drule map_of_SomeD) (auto split: option.splits)

lemma sources_sound:
  assumes "(i, infer) \<in> set (inferenceSources tm)" "c \<in> set (infer mems)"
  shows "sound mems c"
proof -
  have "sound mems c" if "c \<in> set (sharedTagSource mems)"
    using that unfolding sharedTagSource_def by (elim pair_source_sound [rotated]) (auto simp: Let_def split: if_splits)
  moreover have "sound mems c" if "c \<in> set (temporalSource tm mems)"
    using that unfolding temporalSource_def
  proof (rule pair_source_sound [rotated])
    fix s t c
    assume "c \<in> set ((\<lambda>(s, t). let gapDays = daysBetween tm (m_created s) (m_created t);
           proximity = 1 - gapDays / TEMPORAL_PROXIMITY_DAYS
       in if TEMPORAL_PROXIMITY_DAYS < gapDays then []
          else [\<lparr>ic_source = m_id s, ic_target = m_id t, ic_relation = Related, ic_weight = 5 / 10,
                 ic_confidence = TEMPORAL_PROXIMITY_CONFIDENCE * proximity, ic_origin = ''temporal'',
                 ic_evidence = [(''gapDays'', JNum gapDays), (''proximity'', JNum proximity)]\<rparr>]) (s, t))"
    with proximity_bounds [of tm "m_created s" "m_created t"]
    show "ic_source c = m_id s \<and> ic_target c = m_id t \<and> 0 \<le> ic_weight c \<and> ic_confidence c \<le> 1"
      by (auto simp: Let_def TEMPORAL_PROXIMITY_CONFIDENCE_def split: if_splits)
  qed
  moreover have "sound mems c" if "c \<in> set (semanticSource mems)"
    using that unfolding semanticSource_def by (elim pair_source_sound [rotated]) (auto simp: Let_def split: if_splits)
  moreover have "sound mems c" if "c \<in> set (conversationSource tm mems)"
    using that unfolding conversationSource_def
  proof (rule pair_source_sound [rotated])
    fix s t c
    assume "c \<in> set ((\<lambda>(s, t). let gapDays = daysBetween tm (m_created s) (m_created t);
           proximity = 1 - gapDays / TEMPORAL_PROXIMITY_DAYS
       in if m_project s = [] \<or> m_project s \<noteq> m_project t \<or> TEMPORAL_PROXIMITY_DAYS < gapDays then []
          else [\<lparr>ic_source = m_id s, ic_target = m_id t, ic_relation = Related, ic_weight = proximity,
                 ic_confidence = TEMPORAL_PROXIMITY_CONFIDENCE * proximity * (85 / 100), ic_origin = ''conversation'',
                 ic_evidence = [(''project'', JStr (m_project s)), (''gapDays'', JNum gapDays),
                   (''proximity'', JNum proximity)]\<rparr>]) (s, t))"
    with proximity_bounds [of tm "m_created s" "m_created t"]
    show "ic_source c = m_id s \<and> ic_target c = m_id t \<and> 0 \<le> ic_weight c \<and> ic_confidence c \<le> 1"
      by (auto simp: Let_def TEMPORAL_PROXIMITY_CONFIDENCE_def split: if_splits)
  qed
  moreover have "sound mems c" if "c \<in> set (projectSource mems)"
    using that by (auto simp: projectSource_def Let_def sound_def PROJECT_COOCCURRENCE_CONFIDENCE_def dest!: memory_pairs_in)
  moreover have "sound mems c" if "c \<in> set (dependencySource mems)"
    using that by (auto simp: dependencySource_def Let_def sound_def DEPENDENCY_CONFIDENCE_def
        intro!: imageI by_codename_in split: if_splits option.splits)
  ultimately show ?thesis using assms by (auto simp: inferenceSources_def)
qed

definition scored_sound :: "memory list \<Rightarrow> scored_relation \<Rightarrow> bool" where
  "scored_sound mems r \<longleftrightarrow> ic_source r \<in> m_id ` set mems \<and> ic_target r \<in> m_id ` set mems \<and>
     0 \<le> ir_weight r \<and> ir_confidence r \<le> 1"

lemma merge_candidate_sound:
  assumes "\<forall>(k, r) \<in> set merged. scored_sound mems r" "sound mems c"
  shows "\<forall>(k, r) \<in> set (merge_candidate c merged). scored_sound mems r"
proof (cases "map_of merged (edgeKey c)")
  case None
  with assms show ?thesis
    by (auto simp: merge_candidate_def sound_def scored_sound_def candidate.defs dest!: set_alist_update simp del: image_iff)
next
  case (Some ex)
  with assms(1) map_of_SomeD [OF Some] have "scored_sound mems ex" by auto
  with Some assms show ?thesis
    by (auto simp: merge_candidate_def sound_def scored_sound_def dest!: set_alist_update simp del: image_iff)
qed

lemma scoreCandidates_sound:
  assumes "\<forall>c \<in> set cs. sound mems c" "r \<in> set (scoreCandidates cs)"
  shows "scored_sound mems r \<and> RELATION_INFERENCE_MIN_CONFIDENCE \<le> ir_confidence r"
proof -
  have "\<forall>(k, r) \<in> set (fold merge_candidate cs merged). scored_sound mems r" if "\<forall>(k, r) \<in> set merged. scored_sound mems r" for merged
    using that assms(1)
  proof (induction cs arbitrary: merged)
    case (Cons c cs)
    have "sound mems c" "\<forall>c \<in> set cs. sound mems c" using Cons.prems(2) by simp_all
    with Cons.IH [OF merge_candidate_sound [OF Cons.prems(1)]] show ?case unfolding fold_simps comp_def by blast
  qed simp
  from this [of "[]"] assms(2) show ?thesis by (auto simp: scoreCandidates_def)
qed

lemma scored_relations_sound:
  assumes r: "r \<in> set (scored_relations tm scope opts db)"
  shows "scored_sound (findAllByOwner db (ms_owner scope) (workspaceIdFromScope scope)) r \<and>
    RELATION_INFERENCE_MIN_CONFIDENCE \<le> ir_confidence r"
proof -
  let ?all = "findAllByOwner db (ms_owner scope) (workspaceIdFromScope scope)"
  have "sound ?all c" if c: "c \<in> set (concat (map snd (inferred_candidates tm scope opts db)))" for c
  proof -
    from c obtain i infer mems where "(i, infer) \<in> set (inferenceSources tm)" "c \<in> set (infer mems)" "set mems \<subseteq> set ?all"
      by (auto simp: inferred_candidates_def Let_def split: option.splits)
    then show ?thesis using sources_sound [of i infer tm c mems] unfolding sound_def by blast
  qed
  with r show ?thesis unfolding scored_relations_def by (intro scoreCandidates_sound) (auto dest: in_set_takeD)
qed

text \<open>
  What a run writes is bounded: at most the limit of the request (500 when it gives none) relations,
  each once, between two different memories that the caller can see, with a confidence from 0.3 to 1
  and a weight that is not negative.
\<close>

theorem scored_relations_bounds:
  "length (scored_relations tm scope opts db) \<le> nullish (io_limit opts) 500 \<and>
   distinct (map (\<lambda>r. (ic_source r, ic_target r, ic_relation r)) (scored_relations tm scope opts db)) \<and>
   (\<forall>r \<in> set (scored_relations tm scope opts db).
      ic_source r \<noteq> ic_target r \<and>
      {ic_source r, ic_target r} \<subseteq> m_id ` set (findAllByOwner db (ms_owner scope) (workspaceIdFromScope scope)) \<and>
      3 / 10 \<le> ir_confidence r \<and> ir_confidence r \<le> 1 \<and> 0 \<le> ir_weight r)"
proof (intro conjI ballI)
  show "length (scored_relations tm scope opts db) \<le> nullish (io_limit opts) 500"
    by (simp add: scored_relations_def RELATION_INFERENCE_MAX_CANDIDATES_def)
  show "distinct (map (\<lambda>r. (ic_source r, ic_target r, ic_relation r)) (scored_relations tm scope opts db))"
    using scored_relations_distinct unfolding edge_of_scored_def .
  fix r assume r: "r \<in> set (scored_relations tm scope opts db)"
  from scored_relations_sound [OF r] scored_relations_proper [OF r]
  show "ic_source r \<noteq> ic_target r" "{ic_source r, ic_target r} \<subseteq>
      m_id ` set (findAllByOwner db (ms_owner scope) (workspaceIdFromScope scope))"
    "3 / 10 \<le> ir_confidence r" "ir_confidence r \<le> 1" "0 \<le> ir_weight r"
    by (simp_all add: scored_sound_def proper_def RELATION_INFERENCE_MIN_CONFIDENCE_def)
qed

text \<open>
  A relation is deleted under any memory the caller can see: when the memory of the request is
  visible and the relation belongs to the owner, the answer is a success and exactly that relation
  is gone, although it may join two other memories, in another workspace.
\<close>

theorem deleteRelation_ignores_memory:
  assumes "relation_keys (relations db)" "r \<in> set (relations db)" "rl_owner r = ms_owner scope"
    and "findById db memoryId (ms_owner scope) (workspaceIdFromScope scope) = Some mem"
  shows "fst (deleteRelation scope memoryId (rl_id r) db) = Inr () \<and>
    relations (snd (deleteRelation scope memoryId (rl_id r) db)) = remove1 r (relations db)"
proof -
  have "0 < sql_count (\<lambda>x. rl_id x = rl_id r \<and> rl_owner x = ms_owner scope) (relations db)"
    using assms(2,3) by (auto simp: sql_count_def sql_select_def filter_empty_conv)
  moreover have "sql_delete (\<lambda>x. rl_id x = rl_id r \<and> rl_owner x = ms_owner scope) (relations db) = remove1 r (relations db)"
  proof -
    have "(rl_id x = rl_id r \<and> rl_owner x = ms_owner scope) = (x = r)" if "x \<in> set (relations db)" for x
      using relation_id_inj [OF assms(1) that assms(2)] assms(3) by blast
    then have "sql_delete (\<lambda>x. rl_id x = rl_id r \<and> rl_owner x = ms_owner scope) (relations db) = filter (\<lambda>x. x \<noteq> r) (relations db)"
      unfolding sql_delete_def by (intro filter_cong) auto
    moreover have "distinct (relations db)"
      using relation_keys_unique [OF assms(1)] by (simp add: relation_ids.unique_def distinct_map)
    ultimately show ?thesis by (simp add: distinct_remove1_removeAll removeAll_filter_not_eq neq_commute)
  qed
  ultimately show ?thesis using assms(4) by (simp add: deleteRelation_def deleteRelationRow_def)
qed

subsection \<open>Witnesses\<close>

definition sample_inference :: "relation_row list \<Rightarrow> inference_db" where
  "sample_inference rels = \<lparr>memories = [sample_row, sample_row\<lparr>m_id := ''2''\<rparr>, sample_row\<lparr>m_id := ''3'', mr_workspace := Some ''v''\<rparr>],
     embeddings = [], intents = [], sync_audits = [], sync_conflicts = [], sync_cursors = [], relations = rels, evidence = []\<rparr>"

definition sample_options :: inference_options where
  "sample_options = \<lparr>io_dry = False, io_project = None, io_limit = None\<rparr>"

definition sample_mints :: "nat \<Rightarrow> mint \<times> mint" where
  "sample_mints i = (mint_of (replicate (Suc i) CHR ''r''), mint_of (replicate (Suc i) CHR ''e''))"

definition sample_parent :: relation_row where
  "sample_parent = (sample_relation ''p'' ''1'' ''2'')\<lparr>rl_relation := ParentOf\<rparr>"

lemma sample_inference_ok: "relations_ok (relations (sample_inference []))" "relation_keys (relations (sample_inference [sample_parent]))"
  by (simp_all add: sample_inference_def relations_ok_def relation_keys_def)

lemma relations_sample_inference [simp]: "relations (sample_inference rels) = rels"
  by (simp add: sample_inference_def)

definition sample_ops :: "relation_op list" where
  "sample_ops = [CreateRelation (sample_scope ''w'') ''1'' (sample_link\<lparr>cl_relation := MotivatedBy\<rparr>) None (mint_of ''9''),
     RunInference True (sample_scope ''w'') sample_options sample_mints, DeleteRelation (sample_scope ''w'') ''1'' ''9'']"

text \<open>Three steps: an authored provenance relation, an inferred one beside it, and the first one deleted.\<close>

theorem relation_table_invariant_witness:
  "relations_ok (relations (fold (relation_step (\<lambda>_. 0)) sample_ops (sample_inference []))) \<and>
   map rl_relation (relations (fold (relation_step (\<lambda>_. 0)) (take 2 sample_ops) (sample_inference []))) = [MotivatedBy, Related] \<and>
   map rl_relation (relations (fold (relation_step (\<lambda>_. 0)) sample_ops (sample_inference []))) = [Related]"
proof (intro conjI)
  show "relations_ok (relations (fold (relation_step (\<lambda>_. 0)) sample_ops (sample_inference [])))"
    by (rule relation_table_invariant) (rule sample_inference_ok)
qed code_simp+

theorem inference_keeps_manual_witness:
  "\<exists>res db'. runInference (\<lambda>_. 0) True (sample_scope ''w'') sample_options sample_mints (sample_inference [sample_parent]) = (res, db') \<and>
     filter (\<lambda>r. rl_source_type r \<noteq> InferredSource) (relations db') = [sample_parent] \<and> length (relations db') = 2"
proof -
  let ?run = "runInference (\<lambda>_. 0) True (sample_scope ''w'') sample_options sample_mints (sample_inference [sample_parent])"
  have "length (relations (snd ?run)) = 2" by code_simp
  moreover have "filter (\<lambda>r. rl_source_type r \<noteq> InferredSource) (relations (snd ?run)) = [sample_parent]"
    using inference_keeps_manual [OF sample_inference_ok(2) prod.collapse [symmetric]]
    by (simp add: sample_parent_def sample_relation_def)
  ultimately show ?thesis by (metis prod.collapse)
qed

text \<open>The first run creates the relation, the second one rewrites the same row.\<close>

theorem inference_idempotent_witness:
  "\<exists>report db' counts.
     runInference (\<lambda>_. 0) True (sample_scope ''w'') sample_options sample_mints (sample_inference []) = (Inr report, db') \<and>
     in_created (in_counts report) = 1 \<and>
     runInference (\<lambda>_. 0) False (sample_scope ''w'') sample_options sample_mints db' = (Inr (report\<lparr>in_counts := counts\<rparr>), db') \<and>
     in_created counts = 0"
proof -
  let ?run = "runInference (\<lambda>_. 0) True (sample_scope ''w'') sample_options sample_mints (sample_inference [])"
  have "\<not> isl (fst ?run)" by code_simp
  from run_Inr [OF this] have run: "?run = (Inr (projr (fst ?run)), snd ?run)" .
  have "in_created (in_counts (projr (fst ?run))) = 1" by code_simp
  moreover have "relation_keys (relations (sample_inference []))" "\<not> io_dry sample_options"
    by (simp_all add: relation_keys_def sample_options_def)
  ultimately show ?thesis using run inference_idempotent [OF _ _ run, of sample_mints] by blast
qed

theorem scored_relations_bounds_witness:
  "\<exists>r. scored_relations (\<lambda>_. 0) (sample_scope ''w'') sample_options (sample_inference []) = [r] \<and>
     ic_source r \<noteq> ic_target r \<and> 3 / 10 \<le> ir_confidence r \<and> ir_confidence r \<le> 1"
proof -
  have "length (scored_relations (\<lambda>_. 0) (sample_scope ''w'') sample_options (sample_inference [])) = 1" by code_simp
  then obtain r where r: "scored_relations (\<lambda>_. 0) (sample_scope ''w'') sample_options (sample_inference []) = [r]"
    by (auto simp: length_Suc_conv)
  with scored_relations_bounds [of "\<lambda>_. 0" "sample_scope ''w''" sample_options "sample_inference []"] show ?thesis by auto
qed

text \<open>The deleted relation joins the second memory to one of another workspace.\<close>

theorem deleteRelation_ignores_memory_witness:
  "fst (deleteRelation (sample_scope ''w'') ''1'' ''q'' (sample_inference [sample_relation ''q'' ''2'' ''3''])) = Inr () \<and>
   relations (snd (deleteRelation (sample_scope ''w'') ''1'' ''q'' (sample_inference [sample_relation ''q'' ''2'' ''3'']))) = []"
proof -
  let ?db = "sample_inference [sample_relation ''q'' ''2'' ''3'']"
  have "findById ?db ''1'' (ms_owner (sample_scope ''w'')) (workspaceIdFromScope (sample_scope ''w'')) \<noteq> None" by code_simp
  then obtain mem where mem: "findById ?db ''1'' (ms_owner (sample_scope ''w'')) (workspaceIdFromScope (sample_scope ''w'')) = Some mem"
    by blast
  have "relation_keys (relations ?db)" by (simp add: relation_keys_def)
  moreover have "sample_relation ''q'' ''2'' ''3'' \<in> set (relations ?db)" by simp
  moreover have "rl_owner (sample_relation ''q'' ''2'' ''3'') = ms_owner (sample_scope ''w'')"
    by (simp add: sample_relation_def sample_scope_def)
  ultimately show ?thesis using deleteRelation_ignores_memory [OF _ _ _ mem, of "sample_relation ''q'' ''2'' ''3''"]
    by (simp add: sample_relation_def)
qed

text \<open>Twelve shared tags give a weight of 12, although a relation of the API has a weight of at most 10.\<close>

lemma inferred_weight_over_ten:
  "map ir_weight (scoreCandidates (sharedTagSource
      [rowToMemory (sample_row\<lparr>m_tags := map (\<lambda>c. [c]) ''abcdefghijkl''\<rparr>),
       rowToMemory (sample_row\<lparr>m_id := ''2'', m_tags := map (\<lambda>c. [c]) ''abcdefghijkl''\<rparr>)])) = [12]"
  by code_simp

end
