(* ===== verification/Evolution.thy ===== *)
theory Evolution
  imports Client_Sync_Laws Relations
begin

section \<open>Version history of memories\<close>

text \<open>
  \<^verbatim>\<open>src/src/evolution\<close> with its stores \<^verbatim>\<open>src/src/infrastructure/evolution\<close>: before a memory is written
  the coordinator saves a snapshot of it under the next version number, and the service lists,
  compares, restores and merges versions. The columns \<open>snapshot\<close> and \<open>merge_parent_ids\<close>, JSON texts in
  the code, are kept decoded.
\<close>

definition EVOLUTION_DEFAULT_BRANCH :: string where "EVOLUTION_DEFAULT_BRANCH = ''main''"

record version_row =
  vr_id :: string
  vr_memory :: string
  vr_owner :: string
  vr_number :: int
  vr_snapshot :: memory_snapshot
  vr_by :: "string option"
  vr_parents :: "string list"
  vr_confidence :: rat
  vr_created :: string

record head_row =
  hd_memory :: string
  hd_owner :: string
  hd_version :: int
  hd_branch :: string
  hd_updated :: string

record evolution_db = sync_db +
  versions :: "version_row list"
  heads :: "head_row list"

subsection \<open>Stores\<close>

definition version_clash :: "version_row \<Rightarrow> version_row \<Rightarrow> bool" where
  "version_clash r s \<longleftrightarrow> vr_id r = vr_id s \<or> (vr_memory r = vr_memory s \<and> vr_number r = vr_number s)"

interpretation version_ids: keyed_table vr_id version_clash
  by unfold_locales (simp add: version_clash_def)

definition head_clash :: "head_row \<Rightarrow> head_row \<Rightarrow> bool" where
  "head_clash r s \<longleftrightarrow> hd_memory r = hd_memory s"

interpretation head_ids: keyed_table hd_memory head_clash
  by unfold_locales (simp add: head_clash_def)

definition getHead :: "'a evolution_db_scheme \<Rightarrow> string \<Rightarrow> string \<Rightarrow> head_row option" where
  "getHead db memoryId ownerId = sql_first (\<lambda>h. hd_memory h = memoryId \<and> hd_owner h = ownerId) (heads db)"

text \<open>\<open>ON CONFLICT DO NOTHING\<close> turns a refused insert into no change.\<close>

definition initHead ::
  "'a evolution_db_scheme \<Rightarrow> string \<Rightarrow> string \<Rightarrow> string \<Rightarrow> (app_error + head_row) \<times> 'a evolution_db_scheme" where
  "initHead db memoryId ownerId now =
     (let db' = (case sql_insert head_clash
                   \<lparr>hd_memory = memoryId, hd_owner = ownerId, hd_version = 0,
                    hd_branch = EVOLUTION_DEFAULT_BRANCH, hd_updated = now\<rparr> (heads db) of
                 Inl _ \<Rightarrow> db | Inr t \<Rightarrow> db\<lparr>heads := t\<rparr>)
      in case getHead db' memoryId ownerId of
           None \<Rightarrow> (Inl (PlainError ''Failed to initialize memory head''), db')
         | Some h \<Rightarrow> (Inr h, db'))"

definition incrementHead ::
  "'a evolution_db_scheme \<Rightarrow> string \<Rightarrow> string \<Rightarrow> string \<Rightarrow> (app_error + head_row) \<times> 'a evolution_db_scheme" where
  "incrementHead db memoryId ownerId now =
     (let db' = db\<lparr>heads := sql_update (\<lambda>h. hd_memory h = memoryId \<and> hd_owner h = ownerId)
            (\<lambda>h. h\<lparr>hd_version := hd_version h + 1, hd_updated := now\<rparr>) (heads db)\<rparr>
      in case getHead db' memoryId ownerId of
           None \<Rightarrow> (Inl (PlainError ''Memory head not found''), db')
         | Some h \<Rightarrow> (Inr h, db'))"

definition appendVersion ::
  "'a evolution_db_scheme \<Rightarrow> string \<Rightarrow> string \<Rightarrow> int \<Rightarrow> memory_snapshot \<Rightarrow> string option \<Rightarrow> mint
     \<Rightarrow> (app_error + version_row) \<times> 'a evolution_db_scheme" where
  "appendVersion db memoryId ownerId n snapshot createdBy m =
     (let r = \<lparr>vr_id = mint_id m, vr_memory = memoryId, vr_owner = ownerId, vr_number = n, vr_snapshot = snapshot,
               vr_by = createdBy, vr_parents = [], vr_confidence = 1, vr_created = mint_now m\<rparr>
      in case sql_insert version_clash r (versions db) of
           Inl e \<Rightarrow> (Inl e, db) | Inr t \<Rightarrow> (Inr r, db\<lparr>versions := t\<rparr>))"

definition versionsOf :: "'a evolution_db_scheme \<Rightarrow> string \<Rightarrow> string \<Rightarrow> version_row list" where
  "versionsOf db memoryId ownerId =
     order_asc vr_number (sql_select (\<lambda>v. vr_memory v = memoryId \<and> vr_owner v = ownerId) (versions db))"

definition getVersion :: "'a evolution_db_scheme \<Rightarrow> string \<Rightarrow> string \<Rightarrow> int \<Rightarrow> version_row option" where
  "getVersion db memoryId ownerId n =
     sql_first (\<lambda>v. vr_memory v = memoryId \<and> vr_owner v = ownerId \<and> vr_number v = n) (versions db)"

subsection \<open>Coordinator\<close>

definition onMemoryCreated ::
  "mint \<Rightarrow> memory_scope \<Rightarrow> memory \<Rightarrow> 'a evolution_db_scheme \<Rightarrow> (app_error + unit) \<times> 'a evolution_db_scheme" where
  "onMemoryCreated m scope mem db =
     then_st (initHead db (m_id mem) (ms_owner scope) (mint_now m)) (\<lambda>_ db'. (Inr (), db'))"

definition onMemoryUpdated ::
  "mint \<Rightarrow> memory_scope \<Rightarrow> memory \<Rightarrow> string option \<Rightarrow> 'a evolution_db_scheme
     \<Rightarrow> (app_error + unit) \<times> 'a evolution_db_scheme" where
  "onMemoryUpdated m scope before createdBy db =
     then_st (case getHead db (m_id before) (ms_owner scope) of
                Some h \<Rightarrow> (Inr h, db) | None \<Rightarrow> initHead db (m_id before) (ms_owner scope) (mint_now m))
       (\<lambda>h db1. then_st (appendVersion db1 (m_id before) (ms_owner scope) (hd_version h + 1)
                           (toMemorySnapshot before) createdBy m)
         (\<lambda>_ db2. then_st (incrementHead db2 (m_id before) (ms_owner scope) (mint_now m)) (\<lambda>_ db3. (Inr (), db3))))"

text \<open>The ports of the memory service with the coordinator enabled; one mint serves one operation.\<close>

definition evolutionPorts ::
  "mint \<Rightarrow> string \<Rightarrow> sync_strategy option \<Rightarrow>
     (memory_scope \<Rightarrow> string \<Rightarrow> 'a evolution_db_scheme \<Rightarrow> string option) option \<Rightarrow> 'a evolution_db_scheme service_ports" where
  "evolutionPorts m dup st agents =
     (servicePorts dup st agents)\<lparr>sp_created := Some (onMemoryCreated m), sp_updated := Some (onMemoryUpdated m)\<rparr>"

subsection \<open>Comparison of versions\<close>

definition DIFF_FIELDS :: "(string \<times> (memory_snapshot \<Rightarrow> json)) list" where
  "DIFF_FIELDS =
     [(''title'', \<lambda>s. JStr (sn_title s)), (''content'', \<lambda>s. JStr (sn_content s)), (''summary'', \<lambda>s. JStr (sn_summary s)),
      (''tags'', \<lambda>s. JArr (map JStr (sn_tags s))), (''keywords'', \<lambda>s. JArr (map JStr (sn_keywords s))),
      (''importance'', \<lambda>s. JNum (of_int (sn_importance s))), (''category'', \<lambda>s. JStr (sn_category s)),
      (''memoryType'', \<lambda>s. JStr (sn_type s)), (''favorite'', \<lambda>s. JBool (sn_favorite s)),
      (''archived'', \<lambda>s. JBool (sn_archived s)), (''level'', \<lambda>s. JStr (sn_level s))]"

datatype version_ref = VersionNumber int | CurrentVersion

record field_change =
  fc_field :: string
  fc_before :: json
  fc_after :: json

record version_diff =
  vd_memory :: string
  vd_from :: int
  vd_to :: version_ref
  vd_changes :: "field_change list"
  vd_confidence :: rat

definition diffSnapshots :: "string \<Rightarrow> int \<Rightarrow> version_ref \<Rightarrow> memory_snapshot \<Rightarrow> memory_snapshot \<Rightarrow> version_diff" where
  "diffSnapshots memoryId fromVersion toVersion before after =
     \<lparr>vd_memory = memoryId, vd_from = fromVersion, vd_to = toVersion,
      vd_changes = concat (map (\<lambda>(name, field).
        if field before = field after then []
        else [\<lparr>fc_field = name, fc_before = field before, fc_after = field after\<rparr>]) DIFF_FIELDS),
      vd_confidence = 0\<rparr>"

definition change_weight :: "field_change \<Rightarrow> rat" where
  "change_weight c =
     (if fc_field c = ''content'' \<or> fc_field c = ''summary'' then 3 / 10
      else if fc_field c = ''title'' then 2 / 10 else 1 / 10)"

definition scoreDiff :: "version_diff \<Rightarrow> rat" where
  "scoreDiff d =
     (if vd_changes d = [] then 1
      else min 1 (max (1 / 10) (foldl (\<lambda>s c. s + change_weight c) 0 (vd_changes d))))"

subsection \<open>Service\<close>

definition snapshotToUpdateData :: "memory_snapshot \<Rightarrow> update_memory_data" where
  "snapshotToUpdateData s =
     \<lparr>up_title = Some (sn_title s), up_project = Some (sn_project s), up_content = Some (sn_content s),
      up_summary = Some (sn_summary s), up_tags = Some (sn_tags s), up_keywords = Some (sn_keywords s),
      up_category = Some (sn_category s), up_type = Some (sn_type s), up_importance = Some (sn_importance s),
      up_language = Some (sn_language s), up_notes = Some (sn_notes s), up_slug = None,
      up_favorite = Some (sn_favorite s), up_archived = Some (sn_archived s), up_project_id = None,
      up_level = Some (sn_level s), up_agent = None, up_aliases = None, up_source_path = None\<rparr>"

definition assertMemoryExists :: "memory_scope \<Rightarrow> string \<Rightarrow> 'a memory_db_scheme \<Rightarrow> app_error + memory" where
  "assertMemoryExists scope memoryId db =
     or_not_found memoryId (findById db memoryId (ms_owner scope) (workspaceIdFromScope scope))"

definition loadMemoryWithContent :: "memory_scope \<Rightarrow> string \<Rightarrow> 'a memory_db_scheme \<Rightarrow> app_error + memory" where
  "loadMemoryWithContent scope memoryId db =
     or_not_found memoryId
       (case findByIdsWithContent db [memoryId] (ms_owner scope) (workspaceIdFromScope scope) of [] \<Rightarrow> None | x # _ \<Rightarrow> Some x)"

definition listVersions ::
  "memory_scope \<Rightarrow> string \<Rightarrow> 'a evolution_db_scheme \<Rightarrow> app_error + head_row option \<times> version_row list" where
  "listVersions scope memoryId db =
     and_then (assertMemoryExists scope memoryId db)
       (\<lambda>_. Inr (getHead db memoryId (ms_owner scope), versionsOf db memoryId (ms_owner scope)))"

fun ref_name :: "version_ref \<Rightarrow> string" where
  "ref_name (VersionNumber n) = js_int_string n"
| "ref_name CurrentVersion = ''current''"

definition snapshot_at ::
  "'a evolution_db_scheme \<Rightarrow> memory_scope \<Rightarrow> string \<Rightarrow> memory \<Rightarrow> version_ref \<Rightarrow> app_error + memory_snapshot" where
  "snapshot_at db scope memoryId mem ref =
     (case ref of
        CurrentVersion \<Rightarrow> Inr (toMemorySnapshot mem)
      | VersionNumber n \<Rightarrow>
          (case getVersion db memoryId (ms_owner scope) n of
             None \<Rightarrow> Inl (NotFoundError ''MemoryVersion'' (Some (ref_name ref)))
           | Some v \<Rightarrow> Inr (vr_snapshot v)))"

definition diffVersions ::
  "memory_scope \<Rightarrow> string \<Rightarrow> int \<Rightarrow> version_ref \<Rightarrow> 'a evolution_db_scheme \<Rightarrow> app_error + version_diff" where
  "diffVersions scope memoryId fromVersion against db =
     and_then (assertMemoryExists scope memoryId db) (\<lambda>mem.
     and_then (snapshot_at db scope memoryId mem (VersionNumber fromVersion)) (\<lambda>before.
     and_then (snapshot_at db scope memoryId mem against) (\<lambda>after.
       let d = diffSnapshots memoryId fromVersion against before after
       in Inr (d\<lparr>vd_confidence := scoreDiff d\<rparr>))))"

text \<open>The write that ends a restore and a merge: the current state becomes a version, then the snapshot is applied.\<close>

definition apply_snapshot ::
  "string \<Rightarrow> memory_scope \<Rightarrow> string \<Rightarrow> memory \<Rightarrow> memory_snapshot \<Rightarrow> mint \<Rightarrow> 'a evolution_db_scheme
     \<Rightarrow> (app_error + memory) \<times> 'a evolution_db_scheme" where
  "apply_snapshot dup scope memoryId current snapshot m db =
     then_st (onMemoryUpdated m scope current None db) (\<lambda>_ db1.
     then_st (updateMemoryRow dup db1 memoryId (ms_owner scope) (snapshotToUpdateData snapshot)
                (workspaceIdFromScope scope) (mint_now m)) (\<lambda>updated db2.
       case updated of
         None \<Rightarrow> (Inl (NotFoundError ''Memory'' (Some memoryId)), db2)
       | Some mem \<Rightarrow> (Inr mem, db2)))"

definition restoreToVersion ::
  "string \<Rightarrow> memory_scope \<Rightarrow> string \<Rightarrow> int \<Rightarrow> mint \<Rightarrow> 'a evolution_db_scheme
     \<Rightarrow> (app_error + memory) \<times> 'a evolution_db_scheme" where
  "restoreToVersion dup scope memoryId n m db =
     (case loadMemoryWithContent scope memoryId db of
        Inl e \<Rightarrow> (Inl e, db)
      | Inr current \<Rightarrow>
          (case snapshot_at db scope memoryId current (VersionNumber n) of
             Inl e \<Rightarrow> (Inl e, db)
           | Inr snapshot \<Rightarrow> apply_snapshot dup scope memoryId current snapshot m db))"

definition mergeVersions ::
  "string \<Rightarrow> memory_scope \<Rightarrow> string \<Rightarrow> int \<Rightarrow> version_ref \<Rightarrow> mint \<Rightarrow> 'a evolution_db_scheme
     \<Rightarrow> (app_error + memory) \<times> 'a evolution_db_scheme" where
  "mergeVersions dup scope memoryId baseVersion incoming m db =
     (case loadMemoryWithContent scope memoryId db of
        Inl e \<Rightarrow> (Inl e, db)
      | Inr current \<Rightarrow>
          (case and_then (snapshot_at db scope memoryId current (VersionNumber baseVersion)) (\<lambda>base.
                and_then (snapshot_at db scope memoryId current incoming) (\<lambda>incoming'. Inr (mergeSnapshots base incoming'))) of
             Inl e \<Rightarrow> (Inl e, db)
           | Inr merged \<Rightarrow> apply_snapshot dup scope memoryId current merged m db))"

end
