(* ===== verification/Evolution_Laws.thy ===== *)
theory Evolution_Laws
  imports Evolution
begin

section \<open>Laws of the version history\<close>

text \<open>
  Versions of a memory are numbered without gaps up to its head, through every operation of the
  memory service and of the evolution service; a restore brings a snapshot back and can be undone.
\<close>

subsection \<open>The history\<close>

definition history_ok :: "'a evolution_db_scheme \<Rightarrow> bool" where
  "history_ok db \<longleftrightarrow> head_ids.unique (heads db) \<and>
     (\<forall>h \<in> set (heads db). 0 \<le> hd_version h \<and>
        map vr_number (filter (\<lambda>v. vr_memory v = hd_memory h) (versions db)) = [1..hd_version h]) \<and>
     (\<forall>v \<in> set (versions db). \<exists>h \<in> set (heads db). hd_memory h = vr_memory v \<and> hd_owner h = vr_owner v)"

lemma getHead_in: "getHead db i ownerId = Some h \<Longrightarrow> h \<in> set (heads db) \<and> hd_memory h = i \<and> hd_owner h = ownerId"
  by (auto simp: getHead_def dest!: sql_first_SomeD)

lemma head_of_memory:
  assumes "history_ok db" "h \<in> set (heads db)" "h' \<in> set (heads db)" "hd_memory h = hd_memory h'"
  shows "h = h'"
  using assms head_ids.key_unique_eq unfolding history_ok_def by blast

lemma initHead_cases:
  assumes "initHead db i ownerId now = (res, db')"
  obtains (there) h where "db' = db" "h \<in> set (heads db)" "hd_memory h = i" "res = Inr h \<or> isl res" "res = Inr h \<Longrightarrow> hd_owner h = ownerId"
  | (made) h where "db' = db\<lparr>heads := heads db @ [h]\<rparr>" "res = Inr h" "hd_memory h = i" "hd_owner h = ownerId"
      "hd_version h = 0" "\<forall>x \<in> set (heads db). hd_memory x \<noteq> i"
proof -
  let ?h = "\<lparr>hd_memory = i, hd_owner = ownerId, hd_version = 0, hd_branch = EVOLUTION_DEFAULT_BRANCH, hd_updated = now\<rparr>"
  show ?thesis
  proof (cases "sql_insert head_clash ?h (heads db)")
    case (Inl e)
    then obtain x where x: "x \<in> set (heads db)" "hd_memory x = i" by (auto simp: sql_insert_Inl head_clash_def)
    show ?thesis
    proof (cases "getHead db i ownerId")
      case None
      with Inl assms x show ?thesis by (intro there [of x]) (auto simp: initHead_def)
    next
      case (Some h)
      with Inl assms getHead_in [OF Some] show ?thesis by (intro there [of h]) (auto simp: initHead_def)
    qed
  next
    case (Inr t)
    then have t: "t = heads db @ [?h]" "\<forall>x \<in> set (heads db). hd_memory x \<noteq> i"
      by (simp_all add: head_clash_def) metis
    then have "sql_first (\<lambda>h. hd_memory h = i \<and> hd_owner h = ownerId) (heads db) = None" by simp
    then have "getHead (db\<lparr>heads := t\<rparr>) i ownerId = Some ?h"
      by (simp add: getHead_def t(1) sql_first_append sql_first_Cons del: sql_first_None)
    with Inr assms t show ?thesis by (intro made [of ?h]) (simp_all add: initHead_def del: sql_insert_Inr)
  qed
qed

lemma initHead_ok:
  assumes "initHead db i ownerId now = (res, db')" "history_ok db"
  shows "history_ok db'"
  using assms(1)
proof (cases rule: initHead_cases)
  case (there h)
  with assms(2) show ?thesis by simp
next
  case (made h)
  have "vr_memory v \<noteq> i" if "v \<in> set (versions db)" for v
    using that assms(2) made(6) unfolding history_ok_def by metis
  then have "filter (\<lambda>v. vr_memory v = hd_memory h) (versions db) = []" using made(3) by (simp add: filter_empty_conv)
  with assms(2) made show ?thesis by (auto simp: history_ok_def head_ids.unique_def)
qed

lemma incrementHead_known:
  assumes "getHead db i ownerId = Some h"
  shows "fst (incrementHead db i ownerId now) = Inr (h\<lparr>hd_version := hd_version h + 1, hd_updated := now\<rparr>)"
proof -
  have "getHead (snd (incrementHead db i ownerId now)) i ownerId = Some (h\<lparr>hd_version := hd_version h + 1, hd_updated := now\<rparr>)"
    using assms getHead_in [OF assms]
    by (simp add: incrementHead_def getHead_def Let_def sql_first_update split: option.split)
  then show ?thesis by (simp add: incrementHead_def Let_def split: option.splits)
qed

text \<open>What the coordinator does before a write: nothing lasting, or the next version with the head on it.\<close>

definition version_of :: "mint \<Rightarrow> memory_scope \<Rightarrow> memory \<Rightarrow> string option \<Rightarrow> int \<Rightarrow> version_row" where
  "version_of m scope before by n =
     \<lparr>vr_id = mint_id m, vr_memory = m_id before, vr_owner = ms_owner scope, vr_number = n,
      vr_snapshot = toMemorySnapshot before, vr_by = by, vr_parents = [], vr_confidence = 1, vr_created = mint_now m\<rparr>"

lemma onMemoryUpdated_cases:
  assumes "onMemoryUpdated m scope before by db = (res, db')" "history_ok db"
  obtains (refused) e where "res = Inl e" "history_ok db'" "versions db' = versions db"
  | (saved) n where "res = Inr ()" "history_ok db'" "versions db' = versions db @ [version_of m scope before by n]" "1 \<le> n"
      "\<forall>v \<in> set (versions db). \<not> version_clash (version_of m scope before by n) v"
      "\<exists>h \<in> set (heads db'). hd_memory h = m_id before \<and> hd_owner h = ms_owner scope \<and> hd_version h = n"
proof -
  let ?i = "m_id before" and ?o = "ms_owner scope"
  obtain res1 db1 where one: "(case getHead db ?i ?o of
      Some h \<Rightarrow> (Inr h, db) | None \<Rightarrow> initHead db ?i ?o (mint_now m)) = (res1, db1)" by fastforce
  have ok1: "history_ok db1" "versions db1 = versions db"
    using one assms(2) initHead_ok [of db ?i ?o "mint_now m" res1 db1]
    by (auto split: option.splits elim!: initHead_cases)
  show ?thesis
  proof (cases res1)
    case (Inl e)
    with one assms(1) ok1 show ?thesis by (intro refused [of e]) (simp_all add: onMemoryUpdated_def)
  next
    case (Inr h)
    have h: "h \<in> set (heads db1)" "hd_memory h = ?i" "hd_owner h = ?o"
      using one Inr by (auto split: option.splits elim!: initHead_cases dest!: getHead_in)
    have get: "getHead db1 ?i ?o = Some h"
    proof (cases "getHead db1 ?i ?o")
      case None
      with h show ?thesis by (auto simp: getHead_def)
    next
      case (Some h')
      with getHead_in [OF Some] h head_of_memory [OF ok1(1)] show ?thesis by metis
    qed
    let ?v = "version_of m scope before by (hd_version h + 1)"
    have rest: "then_st (appendVersion db1 ?i ?o (hd_version h + 1) (toMemorySnapshot before) by m)
         (\<lambda>_ db2. then_st (incrementHead db2 ?i ?o (mint_now m)) (\<lambda>_ db3. (Inr (), db3))) = (res, db')"
      using assms(1) one Inr by (simp add: onMemoryUpdated_def)
    show ?thesis
    proof (cases "sql_insert version_clash ?v (versions db1)")
      case (Inl e)
      with rest ok1 show ?thesis
        by (intro refused [of e]) (simp_all add: appendVersion_def version_of_def Let_def)
    next
      case ins: (Inr t)
      then have t: "t = versions db1 @ [?v]" and new: "\<forall>v \<in> set (versions db1). \<not> version_clash ?v v" by simp_all
      let ?db2 = "db1\<lparr>versions := t\<rparr>"
      have "getHead ?db2 ?i ?o = Some h" using get by (simp add: getHead_def)
      from incrementHead_known [OF this] obtain db3 where inc: "incrementHead ?db2 ?i ?o (mint_now m) =
          (Inr (h\<lparr>hd_version := hd_version h + 1, hd_updated := mint_now m\<rparr>), db3)"
        by (metis prod.collapse)
      from rest ins inc have res: "res = Inr ()" and "db' = db3"
        by (simp_all add: appendVersion_def version_of_def [symmetric] Let_def del: sql_insert_Inr)
      with inc have out: "db' = snd (incrementHead ?db2 ?i ?o (mint_now m))" by simp
      let ?up = "\<lambda>h. h\<lparr>hd_version := hd_version h + 1, hd_updated := mint_now m\<rparr>"
      let ?hit = "\<lambda>x. hd_memory x = ?i \<and> hd_owner x = ?o"
      have db': "versions db' = versions db1 @ [?v]" "heads db' = sql_update ?hit ?up (heads db1)"
        unfolding out by (simp_all add: incrementHead_def Let_def t split: option.splits)
      have hit: "?hit x = (x = h)" if "x \<in> set (heads db1)" for x
        using that h head_of_memory [OF ok1(1)] by metis
      have ok: "history_ok db'"
        unfolding history_ok_def
      proof (intro conjI ballI)
        show "head_ids.unique (heads db')"
          using ok1(1) unfolding db' history_ok_def by (intro head_ids.unique_update) simp_all
      next
        fix x assume "x \<in> set (heads db')"
        then obtain y where y: "y \<in> set (heads db1)" "x = (if ?hit y then ?up y else y)"
          unfolding db' set_sql_update by blast
        have yv: "0 \<le> hd_version y" "map vr_number (filter (\<lambda>v. vr_memory v = hd_memory y) (versions db1)) = [1..hd_version y]"
          using ok1(1) y(1) unfolding history_ok_def by blast+
        show "0 \<le> hd_version x" using y yv by auto
        show "map vr_number (filter (\<lambda>v. vr_memory v = hd_memory x) (versions db')) = [1..hd_version x]"
        proof (cases "y = h")
          case True
          then have x: "x = ?up h" using y(2) h by simp
          have "[1..hd_version h + 1] = [1..hd_version h] @ [hd_version h + 1]"
            using yv(1) True by (simp add: upto_rec2)
          with yv(2) True show ?thesis by (simp add: x db'(1) version_of_def h(2))
        next
          case False
          then have "\<not> ?hit y" using hit [OF y(1)] by blast
          with y(2) have x: "x = y" by (simp only: if_False)
          have "hd_memory y \<noteq> ?i" using False head_of_memory [OF ok1(1) y(1) h(1)] h(2) by metis
          with yv(2) show ?thesis by (simp add: x db'(1) version_of_def)
        qed
      next
        fix v assume "v \<in> set (versions db')"
        then consider "v \<in> set (versions db1)" | "v = ?v" unfolding db' by auto
        then have "\<exists>x \<in> set (heads db1). hd_memory x = vr_memory v \<and> hd_owner x = vr_owner v"
          using ok1(1) h by cases (auto simp: history_ok_def version_of_def)
        then obtain x where "x \<in> set (heads db1)" "hd_memory x = vr_memory v" "hd_owner x = vr_owner v" by blast
        then show "\<exists>x \<in> set (heads db'). hd_memory x = vr_memory v \<and> hd_owner x = vr_owner v"
          unfolding db' set_sql_update by (intro bexI [of _ "if ?hit x then ?up x else x"]) simp_all
      qed
      have "0 \<le> hd_version h" using ok1(1) h(1) by (simp add: history_ok_def)
      moreover have "\<exists>x \<in> set (heads db'). hd_memory x = ?i \<and> hd_owner x = ?o \<and> hd_version x = hd_version h + 1"
        unfolding db' set_sql_update using h by (intro bexI [of _ "?up h"]) (auto intro!: image_eqI [of _ _ h])
      ultimately show ?thesis
        using saved [of "hd_version h + 1"] res ok db'(1) ok1(2) new by simp
    qed
  qed
qed

subsection \<open>Operations that leave the history alone\<close>

text \<open>
  The tables that extend the store of the memory service, as one value: an operation of the service
  that keeps it keeps whatever is recorded there.
\<close>

named_theorems same_more \<open>operations that change no table beyond those of the memory service\<close>

lemma insertMemory_more [same_more]:
  "insertMemory dup db data m = (res, db') \<Longrightarrow> sync_db.more db' = sync_db.more db"
  by (erule insertMemory_cases) simp_all

lemma updateMemoryRow_more [same_more]:
  "updateMemoryRow dup db i ownerId data w now = (res, db') \<Longrightarrow> sync_db.more db' = sync_db.more db"
  by (auto simp: updateMemoryRow_def write_rows_def put_memory_def Let_def split: option.splits sum.splits if_splits)

lemma deleteMemoryRow_more [same_more]:
  "deleteMemoryRow db i ownerId w = (res, db') \<Longrightarrow> sync_db.more db' = sync_db.more db"
  by (auto simp: deleteMemoryRow_def put_memory_def)

lemma claim_more [same_more]:
  "claim dup db ownerId q op rt rid now = (res, db') \<Longrightarrow> sync_db.more db' = sync_db.more db"
  by (auto simp: claim_def Let_def split: sum.splits option.splits if_splits)

lemma markCompleted_more [simp]: "sync_db.more (markCompleted db ownerId q) = sync_db.more db"
  by (simp add: markCompleted_def)

lemma deleteByMemoryId_more [simp]: "sync_db.more (deleteByMemoryId db i ownerId) = sync_db.more db"
  by (simp add: deleteByMemoryId_def)

lemma insertConflict_more [same_more]:
  "insertConflict rec m db = (res, db') \<Longrightarrow> sync_db.more db' = sync_db.more db"
  by (auto simp: insertConflict_def Let_def split: sum.splits)

lemma detect_more [same_more]: "detect ev now db = (res, db') \<Longrightarrow> sync_db.more db' = sync_db.more db"
  by (auto simp: detect_def Let_def split: option.splits if_splits)

lemma detect_snd_more [simp]: "sync_db.more (snd (detect ev now db)) = sync_db.more db"
  by (rule detect_more [OF prod.collapse [symmetric]])

lemma syncManagerFor_more [same_more]:
  assumes "syncManagerFor st ev m db = (res, db')"
  shows "sync_db.more db' = sync_db.more db"
  using assms
  by (auto simp: syncManagerFor_def acceptSyncManager_def conflictAwareSyncManager_def Let_def
      split: option.splits prod.splits if_splits elim!: then_st_cases dest!: same_more)

subsection \<open>What the hooks record\<close>

text \<open>
  A service whose hooks keep an invariant of the recorded tables keeps it through every operation that
  writes memories.
\<close>

locale recording_service = write_service ports for ports :: "'a ports" +
  fixes recorded :: "'a sync_db_scheme \<Rightarrow> bool"
  assumes recorded_more: "sync_db.more db' = sync_db.more db \<Longrightarrow> recorded db \<Longrightarrow> recorded db'"
    and sync_more: "sp_sync ports = Some f \<Longrightarrow> f ev m db = (v, db') \<Longrightarrow> sync_db.more db' = sync_db.more db"
    and created_recorded: "sp_created ports = Some h \<Longrightarrow> h scope mem db = (r, db') \<Longrightarrow> recorded db \<Longrightarrow> recorded db'"
    and updated_recorded: "sp_updated ports = Some g \<Longrightarrow> g scope mem agent db = (r, db') \<Longrightarrow> recorded db \<Longrightarrow> recorded db'"
begin

lemma reconcile_more:
  "reconcileMemoryWrite ports scope i op expected m db = (r, db') \<Longrightarrow> sync_db.more db' = sync_db.more db"
  by (auto simp: reconcileMemoryWrite_def split: option.splits if_splits elim!: then_st_cases dest: sync_more)

lemma performCreate_recorded:
  assumes "performCreate ports scope input i m db = (r, db')" "recorded db"
  shows "recorded db'"
proof (cases "enrichForCreate db (ms_owner scope) (knowledge_of input)")
  case (Inl e)
  with assms show ?thesis by (simp add: performCreate_def)
next
  case (Inr e)
  obtain res db2 where ins: "insertMemory (sp_dup ports) db
      (create_data scope input e (resolveAttributionAgentId ports scope db) i) m = (res, db2)" by fastforce
  from recorded_more [OF insertMemory_more [OF ins] assms(2)] have two: "recorded db2" .
  show ?thesis
  proof (cases res)
    case (Inl x)
    with assms(1) ins Inr two show ?thesis by (simp add: performCreate_def reconcile_create Let_def)
  next
    case ok: (Inr mem)
    show ?thesis
    proof (cases "sp_created ports")
      case None
      with assms(1) ins Inr two ok show ?thesis by (simp add: performCreate_def reconcile_create Let_def)
    next
      case (Some h)
      obtain hr db3 where h: "h scope mem db2 = (hr, db3)" by fastforce
      from created_recorded [OF Some h two] have "recorded db3" .
      with assms(1) ins Inr ok Some h show ?thesis
        by (cases hr) (simp_all add: performCreate_def reconcile_create Let_def)
    qed
  qed
qed

lemma completeClaimedCreate_recorded:
  assumes "completeClaimedCreate ports scope input i q m db = (r, db')" "recorded db"
  shows "recorded db'"
proof -
  obtain res db1 where run: "performCreate ports scope input i m db = (res, db1)" by fastforce
  from performCreate_recorded [OF run assms(2)] have one: "recorded db1" .
  then have "recorded (markCompleted db1 (ms_owner scope) q)" by (rule recorded_more [rotated]) simp
  with one assms(1) run show ?thesis
    by (auto simp: completeClaimedCreate_def split: sum.splits option.splits)
qed

lemma createMemoryIdempotent_recorded:
  assumes "createMemoryIdempotent ports scope input m db = (r, db')" "recorded db"
  shows "recorded db'"
proof (cases "truthy (map_option js_trim (cr_request input)) = None \<or> \<not> sp_intents ports")
  case True
  then have "createMemoryIdempotent ports scope input m db = then_st (performCreate ports scope input (mint_id m) m db)
      (\<lambda>mem db'. (Inr \<lparr>co_memory = mem, co_replayed = False\<rparr>, db'))"
    by (auto simp: createMemoryIdempotent_def Let_def split: option.splits)
  with assms performCreate_recorded show ?thesis by (auto elim!: then_st_cases)
next
  case False
  then obtain q where q: "truthy (map_option js_trim (cr_request input)) = Some q" "sp_intents ports" by auto
  obtain c db1 where cl: "claim (sp_dup ports) db (ms_owner scope) q ''create'' ''memory'' (mint_id m) (mint_now m) = (c, db1)"
    by fastforce
  from recorded_more [OF claim_more [OF cl] assms(2)] have one: "recorded db1" .
  have "recorded db2" if "then_st (completeClaimedCreate ports scope input i q m db1)
      (\<lambda>mem db'. (Inr \<lparr>co_memory = mem, co_replayed = b\<rparr>, db')) = (r, db2)" for i b db2
    using that completeClaimedCreate_recorded [OF _ one] by (auto elim!: then_st_cases)
  moreover from assms(1) q cl have "then_st (c, db1) (\<lambda>c db1. case c of
      NewClaim \<Rightarrow> then_st (completeClaimedCreate ports scope input (mint_id m) q m db1)
          (\<lambda>mem db'. (Inr \<lparr>co_memory = mem, co_replayed = False\<rparr>, db'))
    | ExistingClaim w \<Rightarrow> (case findById db1 (wi_resource w) (ms_owner scope) None of
          Some found \<Rightarrow> (Inr \<lparr>co_memory = found, co_replayed = True\<rparr>, db1)
        | None \<Rightarrow> then_st (completeClaimedCreate ports scope input (wi_resource w) q m db1)
            (\<lambda>mem db'. (Inr \<lparr>co_memory = mem, co_replayed = True\<rparr>, db')))) = (r, db')"
    by (simp add: createMemoryIdempotent_def Let_def)
  ultimately show ?thesis using one
    by (cases c) (auto split: claim_result.splits option.splits)
qed

lemma createMemory_recorded:
  "createMemory ports scope input m db = (r, db') \<Longrightarrow> recorded db \<Longrightarrow> recorded db'"
  unfolding createMemory_def by (erule then_st_cases) (auto dest: createMemoryIdempotent_recorded)

lemma updateMemory_recorded:
  assumes "updateMemory ports scope i input m db = (r, db')" "recorded db"
  shows "recorded db'"
proof (cases "findById db i (ms_owner scope) (workspaceIdFromScope scope)")
  case None
  with assms show ?thesis by (simp add: updateMemory_def)
next
  case (Some existing)
  show ?thesis
  proof (cases "enrichForUpdate db (ms_owner scope) existing (patch_of input)")
    case (Inl e)
    with Some assms show ?thesis by (simp add: updateMemory_def)
  next
    case (Inr enriched)
    let ?agent = "resolveAttributionAgentId ports scope db"
    from assms(1) Some Inr have run: "then_st (reconcileMemoryWrite ports scope i UpdateOp
          (expected_or (ui_expected input) (m_updated existing)) m db) (\<lambda>_ db1.
        then_st (case sp_updated ports of None \<Rightarrow> (Inr (), db1) | Some hook \<Rightarrow> hook scope existing ?agent db1) (\<lambda>_ db2.
        then_st (updateMemoryRow (sp_dup ports) db2 i (ms_owner scope) (update_data input enriched ?agent)
          (workspaceIdFromScope scope) (mint_now m)) (\<lambda>updated db3.
            case updated of None \<Rightarrow> (Inl (NotFoundError ''Memory'' (Some i)), db3) | Some mem \<Rightarrow> (Inr mem, db3)))) = (r, db')"
      by (simp add: updateMemory_def Let_def)
    from run show ?thesis
    proof (cases rule: then_st_cases)
      case (fails e)
      from recorded_more [OF reconcile_more [OF fails(1)] assms(2)] show ?thesis .
    next
      case (runs x db1)
      from recorded_more [OF reconcile_more [OF runs(1)] assms(2)] have one: "recorded db1" .
      from runs(2) show ?thesis
      proof (cases rule: then_st_cases)
        case (fails e)
        with one updated_recorded show ?thesis by (auto split: option.splits)
      next
        case (runs y db2)
        with one updated_recorded have two: "recorded db2" by (auto split: option.splits)
        from runs(2) show ?thesis
          by (rule then_st_cases) (auto split: option.splits dest!: updateMemoryRow_more intro: recorded_more [OF _ two])
      qed
    qed
  qed
qed

lemma deleteMemory_recorded:
  assumes "deleteMemory ports scope i expected m db = (r, db')" "recorded db"
  shows "recorded db'"
proof (cases "findById db i (ms_owner scope) (workspaceIdFromScope scope)")
  case None
  with assms show ?thesis by (simp add: deleteMemory_def)
next
  case (Some existing)
  with assms(1) have run: "then_st (reconcileMemoryWrite ports scope i DeleteOp (expected_or expected (m_updated existing)) m db)
      (\<lambda>_ db1. case deleteMemoryRow db1 i (ms_owner scope) (workspaceIdFromScope scope) of (deleted, db2) \<Rightarrow>
        if \<not> deleted then (Inl (NotFoundError ''Memory'' (Some i)), db2)
        else (Inr (), if sp_embeddings ports then deleteByMemoryId db2 i (ms_owner scope) else db2)) = (r, db')"
    by (simp add: deleteMemory_def)
  from run show ?thesis
  proof (cases rule: then_st_cases)
    case (fails e)
    from recorded_more [OF reconcile_more [OF fails(1)] assms(2)] show ?thesis .
  next
    case (runs x db1)
    from recorded_more [OF reconcile_more [OF runs(1)] assms(2)] have one: "recorded db1" .
    from runs(2) show ?thesis
      by (auto split: prod.splits if_splits dest!: deleteMemoryRow_more intro!: recorded_more [OF _ one])
  qed
qed

end

lemma history_ok_more: "sync_db.more db' = sync_db.more db \<Longrightarrow> history_ok db \<Longrightarrow> history_ok (db' :: 'a evolution_db_scheme)"
  by (cases db; cases db') (simp add: history_ok_def)

lemma hook_same_data:
  "onMemoryCreated m scope mem db = (r, db') \<Longrightarrow> same_data db db'"
  "onMemoryUpdated m scope mem by db = (r, db') \<Longrightarrow> same_data db db'"
  by (auto simp: onMemoryCreated_def onMemoryUpdated_def initHead_def appendVersion_def incrementHead_def Let_def same_data_def
      split: sum.splits option.splits elim!: then_st_cases)

lemma evolutionPorts_simps [simp]:
  "sp_dup (evolutionPorts m dup st agents) = dup" "sp_sync (evolutionPorts m dup st agents) = Some (syncManagerFor st)"
  "sp_created (evolutionPorts m dup st agents) = Some (onMemoryCreated m)"
  "sp_updated (evolutionPorts m dup st agents) = Some (onMemoryUpdated m)"
  by (simp_all add: evolutionPorts_def)

interpretation evolving: recording_service "evolutionPorts m dup st agents" history_ok for m dup st agents
proof (rule recording_service.intro)
  show "write_service (evolutionPorts m dup st agents)"
    by (rule write_service.intro) (auto simp: syncManagerFor_reconciler intro: hook_same_data)
  show "recording_service_axioms (evolutionPorts m dup st agents) history_ok"
  proof (rule recording_service_axioms.intro)
    show "sync_db.more db' = sync_db.more db \<Longrightarrow> history_ok db \<Longrightarrow> history_ok db'" for db db' :: "'a evolution_db_scheme"
      by (rule history_ok_more)
    show "history_ok db'" if "sp_updated (evolutionPorts m dup st agents) = Some g" "g scope mem agent db = (r, db')" "history_ok db"
      for g scope mem agent r and db db' :: "'a evolution_db_scheme"
      using that by (auto elim!: onMemoryUpdated_cases)
  qed (auto simp: onMemoryCreated_def intro: syncManagerFor_more elim!: then_st_cases dest: initHead_ok)
qed

subsection \<open>Applying a snapshot\<close>

lemma memory_ids_unique: "unique_rows t \<Longrightarrow> memory_ids.unique t"
  by (induction t) (auto simp: unique_rows_def memory_ids.unique_def memory_clash_def)

lemma unique_rows_update_on:
  assumes "unique_rows t"
    and "\<And>r. r \<in> set t \<Longrightarrow> p r \<Longrightarrow> m_id (f r) = m_id r \<and> m_owner (f r) = m_owner r \<and> m_codename (f r) = m_codename r \<and>
      m_slug (f r) = m_slug r \<and> m_source_path (f r) = m_source_path r"
  shows "unique_rows (sql_update p f t)"
proof -
  let ?same = "\<lambda>r s. m_id s = m_id r \<and> m_owner s = m_owner r \<and> m_codename s = m_codename r \<and>
      m_slug s = m_slug r \<and> m_source_path s = m_source_path r"
  have "sql_update p f t = sql_update p (\<lambda>r. if ?same r (f r) then f r else r) t"
    unfolding sql_update_def using assms(2) by (intro map_cong) auto
  also have "unique_rows \<dots>" by (rule unique_rows_update [OF assms(1)]) simp
  finally show ?thesis .
qed

lemma load_first:
  "loadMemoryWithContent scope i db = or_not_found i
     (map_option rowToMemory (sql_first (memory_hit i (ms_owner scope) (workspaceIdFromScope scope)) (memories db)))"
proof -
  have "(case map rowToMemory (filter p t) of [] \<Rightarrow> None | x # _ \<Rightarrow> Some x) = map_option rowToMemory (sql_first p t)" for p t
    by (induction t) (auto simp: sql_first_Cons)
  moreover have "(\<lambda>r. m_id r = i \<and> visible (ms_owner scope) (workspaceIdFromScope scope) r) =
      memory_hit i (ms_owner scope) (workspaceIdFromScope scope)" by (simp add: fun_eq_iff memory_hit_def)
  ultimately show ?thesis
    by (simp add: loadMemoryWithContent_def findByIdsWithContent_def sql_select_def)
qed

lemma load_row:
  assumes "loadMemoryWithContent scope i db = Inr current"
  obtains r where "sql_first (memory_hit i (ms_owner scope) (workspaceIdFromScope scope)) (memories db) = Some r"
    "current = rowToMemory r" "m_id current = i"
proof -
  from assms obtain r where r: "sql_first (memory_hit i (ms_owner scope) (workspaceIdFromScope scope)) (memories db) = Some r"
    "current = rowToMemory r" by (auto simp: load_first or_not_found_def split: option.splits)
  moreover have "m_id current = i"
    using sql_first_SomeD [OF r(1)] r(2) by (simp add: memory_hit_def rowToMemory_def memory.defs)
  ultimately show ?thesis by (rule that)
qed

lemma snapshot_of_merge [simp]: "toMemorySnapshot (merge_update e (snapshotToUpdateData s) now) = s"
  by (simp add: toMemorySnapshot_def merge_update_def snapshotToUpdateData_def)

lemma snapshot_of_written: "toMemorySnapshot (rowToMemory (written_columns u a r)) = toMemorySnapshot u"
  by (simp add: toMemorySnapshot_def rowToMemory_def written_columns_def memory.defs)

lemma updateMemoryRow_restores:
  assumes "updateMemoryRow dup db i (ms_owner scope) (snapshotToUpdateData s) (workspaceIdFromScope scope) now = (Inr (Some mem), db')"
  shows "toMemorySnapshot mem = s \<and> (\<exists>mem'. loadMemoryWithContent scope i db' = Inr mem' \<and> toMemorySnapshot mem' = s)"
proof -
  let ?hit = "memory_hit i (ms_owner scope) (workspaceIdFromScope scope)"
  from assms obtain e where e: "findById db i (ms_owner scope) (workspaceIdFromScope scope) = Some e"
    and mem: "mem = merge_update e (snapshotToUpdateData s) now"
    and rows: "memories db' = sql_update ?hit (written_columns mem (up_agent (snapshotToUpdateData s))) (memories db)"
    by (auto simp: updateMemoryRow_def write_rows_def put_memory_def Let_def split: option.splits sum.splits if_splits)
  from e obtain r where r: "sql_first ?hit (memories db) = Some r" by (auto simp: findById_def)
  then have "?hit r" by (blast dest: sql_first_SomeD)
  with r have "sql_first ?hit (memories db') = Some (written_columns mem (up_agent (snapshotToUpdateData s)) r)"
    by (simp add: rows sql_first_update)
  then have "loadMemoryWithContent scope i db' = Inr (rowToMemory (written_columns mem (up_agent (snapshotToUpdateData s)) r))"
    by (simp add: load_first or_not_found_def)
  then show ?thesis by (simp add: snapshot_of_written mem)
qed

lemma updateMemoryRow_unique:
  "updateMemoryRow dup db i ownerId data w now = (Inr res, db') \<Longrightarrow> unique_rows (memories db) \<Longrightarrow> unique_rows (memories db')"
  by (auto simp: updateMemoryRow_def write_rows_def put_memory_def Let_def split: option.splits sum.splits if_splits)

lemma updateMemoryRow_succeeds:
  assumes "unique_rows (memories db)" "sql_first (memory_hit i ownerId w) (memories db) = Some r"
  shows "\<exists>mem db'. updateMemoryRow dup db i ownerId (snapshotToUpdateData s) w now = (Inr (Some mem), db') \<and> unique_rows (memories db')"
proof -
  let ?mem = "merge_update (rowToRetrieval r) (snapshotToUpdateData s) now"
  let ?f = "written_columns ?mem (up_agent (snapshotToUpdateData s))"
  from assms(2) have r: "r \<in> set (memories db)" "m_id r = i" by (auto simp: memory_hit_def dest!: sql_first_SomeD)
  have "unique_rows (sql_update (memory_hit i ownerId w) ?f (memories db))"
  proof (rule unique_rows_update_on [OF assms(1)])
    fix x assume "x \<in> set (memories db)" "memory_hit i ownerId w x"
    with r have "x = r" using memory_ids.key_unique_eq [OF memory_ids_unique [OF assms(1)]] by (simp add: memory_hit_def)
    then show "m_id (?f x) = m_id x \<and> m_owner (?f x) = m_owner x \<and> m_codename (?f x) = m_codename x \<and>
      m_slug (?f x) = m_slug x \<and> m_source_path (?f x) = m_source_path x"
      by (simp add: written_columns_def merge_update_def snapshotToUpdateData_def rowToRetrieval_def rowToMemory_def memory.defs)
  qed
  then show ?thesis
    using assms(2) by (simp add: updateMemoryRow_def findById_def write_rows_def put_memory_def Let_def)
qed

lemma apply_snapshot_ok:
  assumes "apply_snapshot dup scope i current s m db = (res, db')" "history_ok db"
  shows "history_ok db'"
  using assms(1) unfolding apply_snapshot_def
proof (cases rule: then_st_cases)
  case (fails e)
  from fails(1) assms(2) show ?thesis by (cases rule: onMemoryUpdated_cases)
next
  case (runs x db1)
  from runs(1) assms(2) have one: "history_ok db1" by (cases rule: onMemoryUpdated_cases)
  from runs(2) show ?thesis
    by (rule then_st_cases) (auto split: option.splits dest!: updateMemoryRow_more intro: history_ok_more [OF _ one])
qed

lemma versions_more: "sync_db.more db' = sync_db.more db \<Longrightarrow> versions db' = versions db \<and> heads (db' :: 'a evolution_db_scheme) = heads db"
  by (cases db; cases db') simp

lemma apply_snapshot_Inr:
  assumes "apply_snapshot dup scope i current s m db = (Inr mem, db')" "history_ok db" "m_id current = i"
  obtains n mem' where "toMemorySnapshot mem = s" "loadMemoryWithContent scope i db' = Inr mem'" "toMemorySnapshot mem' = s"
    "versions db' = versions db @ [version_of m scope current None n]" "history_ok db'"
    "getVersion db' i (ms_owner scope) n = Some (version_of m scope current None n)"
    "\<exists>h \<in> set (heads db'). hd_memory h = i \<and> hd_owner h = ms_owner scope"
proof -
  from assms(1) obtain db1 where up: "onMemoryUpdated m scope current None db = (Inr (), db1)"
    and row: "updateMemoryRow dup db1 i (ms_owner scope) (snapshotToUpdateData s) (workspaceIdFromScope scope) (mint_now m) =
      (Inr (Some mem), db')" by (auto simp: apply_snapshot_def then_st_Inr split: option.splits)
  from versions_more [OF updateMemoryRow_more [OF row]] have same: "versions db' = versions db1" "heads db' = heads db1" by blast+
  from up assms(2) obtain n where n: "versions db1 = versions db @ [version_of m scope current None n]"
      "\<forall>v \<in> set (versions db). \<not> version_clash (version_of m scope current None n) v"
      "\<exists>h \<in> set (heads db1). hd_memory h = m_id current \<and> hd_owner h = ms_owner scope \<and> hd_version h = n"
    by (cases rule: onMemoryUpdated_cases) auto
  have "sql_first (\<lambda>v. vr_memory v = i \<and> vr_owner v = ms_owner scope \<and> vr_number v = n) (versions db) = None"
    using n(2) assms(3) by (auto simp: version_clash_def version_of_def)
  then have "getVersion db' i (ms_owner scope) n = Some (version_of m scope current None n)"
    using assms(3) by (simp add: getVersion_def same n(1) sql_first_append sql_first_Cons version_of_def del: sql_first_None)
  with updateMemoryRow_restores [OF row] apply_snapshot_ok [OF assms(1,2)] n(1,3) assms(3) same that show ?thesis by metis
qed

lemma onMemoryUpdated_succeeds:
  assumes "history_ok db" "\<exists>h \<in> set (heads db). hd_memory h = m_id before \<and> hd_owner h = ms_owner scope"
    and "mint_id m \<notin> vr_id ` set (versions db)"
  shows "\<exists>db'. onMemoryUpdated m scope before by' db = (Inr (), db')"
proof -
  from assms(2) obtain h where get: "getHead db (m_id before) (ms_owner scope) = Some h"
    by (cases "getHead db (m_id before) (ms_owner scope)") (auto simp: getHead_def)
  note h = getHead_in [OF get]
  let ?v = "version_of m scope before by' (hd_version h + 1)"
  have "\<not> version_clash ?v v" if v: "v \<in> set (versions db)" for v
  proof
    assume "version_clash ?v v"
    with v assms(3) have "vr_memory v = hd_memory h" "vr_number v = hd_version h + 1"
      using h by (auto simp: version_clash_def version_of_def)
    with v have "hd_version h + 1 \<in> set (map vr_number (filter (\<lambda>v. vr_memory v = hd_memory h) (versions db)))" by force
    also have "\<dots> = set [1..hd_version h]" using assms(1) h unfolding history_ok_def by metis
    finally show False by simp
  qed
  then have ins: "sql_insert version_clash ?v (versions db) = Inr (versions db @ [?v])" by simp
  have "getHead (db\<lparr>versions := versions db @ [?v]\<rparr>) (m_id before) (ms_owner scope) = Some h" using get by (simp add: getHead_def)
  from incrementHead_known [OF this, of "mint_now m"] get ins show ?thesis
    by (cases "incrementHead (db\<lparr>versions := versions db @ [?v]\<rparr>) (m_id before) (ms_owner scope) (mint_now m)")
       (simp add: onMemoryUpdated_def appendVersion_def version_of_def Let_def del: sql_insert_Inr)
qed

lemma apply_snapshot_succeeds:
  assumes "history_ok db" "\<exists>h \<in> set (heads db). hd_memory h = i \<and> hd_owner h = ms_owner scope"
    and "mint_id m \<notin> vr_id ` set (versions db)" "unique_rows (memories db)"
    and "loadMemoryWithContent scope i db = Inr current"
  shows "\<exists>mem db'. apply_snapshot dup scope i current s m db = (Inr mem, db')"
proof -
  obtain r where r: "sql_first (memory_hit i (ms_owner scope) (workspaceIdFromScope scope)) (memories db) = Some r"
    and i: "m_id current = i" by (rule load_row [OF assms(5)])
  from onMemoryUpdated_succeeds [OF assms(1) _ assms(3)] assms(2) i obtain db1 where
    up: "onMemoryUpdated m scope current None db = (Inr (), db1)" by metis
  from hook_same_data(2) [OF up] have mems: "memories db1 = memories db" by (simp add: same_data_def)
  from updateMemoryRow_succeeds [of db1, unfolded mems, OF assms(4) r, of dup s "mint_now m"] obtain mem db' where
    "updateMemoryRow dup db1 i (ms_owner scope) (snapshotToUpdateData s) (workspaceIdFromScope scope) (mint_now m) = (Inr (Some mem), db')"
    by blast
  with up show ?thesis by (simp add: apply_snapshot_def)
qed


subsection \<open>Every sequence of operations\<close>

text \<open>The operations on memories of a server with evolution enabled, each with the mint it draws.\<close>

datatype evolution_op =
    MakeMemory memory_scope create_input mint
  | ChangeMemory memory_scope string update_input mint
  | DropMemory memory_scope string "string option" mint
  | RestoreVersion memory_scope string int mint
  | MergeVersions memory_scope string int version_ref mint

fun evolution_step ::
  "string \<Rightarrow> sync_strategy option \<Rightarrow> (memory_scope \<Rightarrow> string \<Rightarrow> 'a evolution_db_scheme \<Rightarrow> string option) option
     \<Rightarrow> evolution_op \<Rightarrow> 'a evolution_db_scheme \<Rightarrow> 'a evolution_db_scheme" where
  "evolution_step dup st agents (MakeMemory scope input m) db =
     snd (createMemoryIdempotent (evolutionPorts m dup st agents) scope input m db)"
| "evolution_step dup st agents (ChangeMemory scope i input m) db =
     snd (updateMemory (evolutionPorts m dup st agents) scope i input m db)"
| "evolution_step dup st agents (DropMemory scope i expected m) db =
     snd (deleteMemory (evolutionPorts m dup st agents) scope i expected m db)"
| "evolution_step dup st agents (RestoreVersion scope i n m) db = snd (restoreToVersion dup scope i n m db)"
| "evolution_step dup st agents (MergeVersions scope i base incoming m) db =
     snd (mergeVersions dup scope i base incoming m db)"

lemma restore_ok: "history_ok db \<Longrightarrow> history_ok (snd (restoreToVersion dup scope i n m db))"
  by (auto simp: restoreToVersion_def split: sum.splits intro: apply_snapshot_ok [OF prod.collapse [symmetric]])

lemma merge_ok: "history_ok db \<Longrightarrow> history_ok (snd (mergeVersions dup scope i base incoming m db))"
  by (auto simp: mergeVersions_def split: sum.splits intro: apply_snapshot_ok [OF prod.collapse [symmetric]])

lemma evolution_step_ok: "history_ok db \<Longrightarrow> history_ok (evolution_step dup st agents op db)"
proof (cases op)
  case (MakeMemory scope input m)
  then show "history_ok db \<Longrightarrow> ?thesis"
    by (simp add: evolving.createMemoryIdempotent_recorded [OF prod.collapse [symmetric]])
next
  case (ChangeMemory scope i input m)
  then show "history_ok db \<Longrightarrow> ?thesis" by (simp add: evolving.updateMemory_recorded [OF prod.collapse [symmetric]])
next
  case (DropMemory scope i expected m)
  then show "history_ok db \<Longrightarrow> ?thesis" by (simp add: evolving.deleteMemory_recorded [OF prod.collapse [symmetric]])
qed (simp_all add: restore_ok merge_ok)

text \<open>
  C9: Through any sequence of creations, updates and deletions of memories and of restores and merges of
  versions, by any owners and whatever each of them answers, the versions of a memory are numbered
  1, 2, 3 and so on without a gap up to the version its head names, in the order they were saved,
  and every version belongs to the owner of its head.
\<close>

theorem versions_numbered:
  assumes "versions db = []" "heads db = []"
    and "db' = fold (evolution_step dup st agents) ops db"
  shows "(\<forall>h \<in> set (heads db'). map vr_number (filter (\<lambda>v. vr_memory v = hd_memory h) (versions db')) = [1..hd_version h]) \<and>
    (\<forall>v \<in> set (versions db'). \<exists>h \<in> set (heads db'). hd_memory h = vr_memory v \<and> hd_owner h = vr_owner v \<and> vr_number v \<le> hd_version h)"
proof -
  have "history_ok db" using assms(1,2) by (simp add: history_ok_def head_ids.unique_def)
  then have "history_ok (fold (evolution_step dup st agents) ops db)"
    by (induction ops arbitrary: db) (simp_all add: evolution_step_ok)
  then have ok: "history_ok db'" unfolding assms(3) .
  show ?thesis
  proof (intro conjI ballI)
    fix v assume v: "v \<in> set (versions db')"
    with ok obtain h where h: "h \<in> set (heads db')" "hd_memory h = vr_memory v" "hd_owner h = vr_owner v"
      unfolding history_ok_def by blast
    from v h(2) have "vr_number v \<in> set (map vr_number (filter (\<lambda>v. vr_memory v = hd_memory h) (versions db')))" by simp
    also have "\<dots> = set [1..hd_version h]" using ok h(1) unfolding history_ok_def by metis
    finally show "\<exists>h \<in> set (heads db'). hd_memory h = vr_memory v \<and> hd_owner h = vr_owner v \<and> vr_number v \<le> hd_version h"
      using h by auto
  qed (use ok in \<open>simp add: history_ok_def\<close>)
qed

text \<open>
  The version that an update saves has no content: the memory service hands the coordinator the
  object it read without the content column. After an update through the service the snapshot of
  the newest version is that of the row as it was, except for the content, which is empty: restoring
  that version erases the content of the memory.
\<close>

theorem update_saves_no_content:
  assumes "history_ok db" "updateMemory (evolutionPorts m dup st agents) scope i input m db = (Inr mem, db')"
  shows "\<exists>v r. versions db' = versions db @ [v] \<and> vr_memory v = i \<and> r \<in> set (memories db) \<and>
    memory_hit i (ms_owner scope) (workspaceIdFromScope scope) r \<and>
    vr_snapshot v = (toMemorySnapshot (rowToMemory r))\<lparr>sn_content := []\<rparr>"
proof -
  let ?ports = "evolutionPorts m dup st agents"
  from assms(2) obtain existing enriched where ex: "findById db i (ms_owner scope) (workspaceIdFromScope scope) = Some existing"
    and en: "enrichForUpdate db (ms_owner scope) existing (patch_of input) = Inr enriched"
    by (auto simp: updateMemory_def split: option.splits sum.splits)
  define agent where "agent = resolveAttributionAgentId ?ports scope db"
  from assms(2) ex en obtain db1 db2 where rec: "reconcileMemoryWrite ?ports scope i UpdateOp
        (expected_or (ui_expected input) (m_updated existing)) m db = (Inr (), db1)"
    and hook: "onMemoryUpdated m scope existing agent db1 = (Inr (), db2)"
    and row: "updateMemoryRow dup db2 i (ms_owner scope) (update_data input enriched agent)
        (workspaceIdFromScope scope) (mint_now m) = (Inr (Some mem), db')"
    by (auto simp: updateMemory_def Let_def then_st_Inr agent_def split: option.splits)
  from evolving.reconcile_more [OF rec] have more: "sync_db.more db1 = sync_db.more db" .
  from hook history_ok_more [OF more assms(1)] obtain n where "versions db2 = versions db1 @ [version_of m scope existing agent n]"
    by (cases rule: onMemoryUpdated_cases) auto
  then have "versions db' = versions db @ [version_of m scope existing agent n]"
    using versions_more [OF more] versions_more [OF updateMemoryRow_more [OF row]] by simp
  moreover from ex obtain r0 where r0: "r0 \<in> set (memories db)" "memory_hit i (ms_owner scope) (workspaceIdFromScope scope) r0"
    "existing = rowToRetrieval r0" by (auto simp: findById_def dest!: sql_first_SomeD)
  ultimately show ?thesis
    by (intro exI [of _ "version_of m scope existing agent n"] exI [of _ r0])
       (simp add: version_of_def toMemorySnapshot_def rowToRetrieval_def rowToMemory_def memory.defs memory_hit_def)
qed

subsection \<open>Witnesses\<close>

definition sample_version :: version_row where
  "sample_version = \<lparr>vr_id = ''v1'', vr_memory = ''1'', vr_owner = ''o'', vr_number = 1,
     vr_snapshot = (toMemorySnapshot (rowToMemory sample_row))\<lparr>sn_title := ''Old''\<rparr>, vr_by = None, vr_parents = [],
     vr_confidence = 1, vr_created = ''t''\<rparr>"

definition sample_head :: head_row where
  "sample_head = \<lparr>hd_memory = ''1'', hd_owner = ''o'', hd_version = 1, hd_branch = EVOLUTION_DEFAULT_BRANCH, hd_updated = ''t''\<rparr>"

definition sample_evolution :: "version_row list \<Rightarrow> head_row list \<Rightarrow> evolution_db" where
  "sample_evolution vs hs = \<lparr>memories = [sample_row], embeddings = [], intents = [], sync_audits = [], sync_conflicts = [],
     sync_cursors = [], versions = vs, heads = hs\<rparr>"

definition sample_evolution_ops :: "evolution_op list" where
  "sample_evolution_ops = [ChangeMemory (sample_scope ''w'') ''1'' (sample_update ''t'') (mint_of ''7''),
     RestoreVersion (sample_scope ''w'') ''1'' 1 (mint_of ''8'')]"

theorem versions_numbered_witness:
  "map vr_number (filter (\<lambda>v. vr_memory v = ''1'')
      (versions (fold (evolution_step sqlite_dup None None) sample_evolution_ops (sample_evolution [] [])))) = [1, 2]"
proof -
  let ?db = "fold (evolution_step sqlite_dup None None) sample_evolution_ops (sample_evolution [] [])"
  have "map (\<lambda>h. (hd_memory h, hd_version h)) (heads ?db) = [(''1'', 2)]" by code_simp
  then obtain h where "h \<in> set (heads ?db)" "hd_memory h = ''1''" "hd_version h = 2" by auto
  moreover have "versions (sample_evolution [] []) = []" "heads (sample_evolution [] []) = []"
    by (simp_all add: sample_evolution_def)
  from conjunct1 [OF versions_numbered [OF this refl]]
  have "\<forall>h \<in> set (heads ?db). map vr_number (filter (\<lambda>v. vr_memory v = hd_memory h) (versions ?db)) = [1..hd_version h]" .
  ultimately have "map vr_number (filter (\<lambda>v. vr_memory v = ''1'') (versions ?db)) = [1..2]" by metis
  then show ?thesis by (simp add: upto.simps)
qed

lemma sample_history: "history_ok (sample_evolution [sample_version] [sample_head])"
  by (simp add: history_ok_def sample_evolution_def sample_version_def sample_head_def head_ids.unique_def upto.simps)


theorem update_saves_no_content_witness:
  "\<exists>mem db' v. updateMemory (evolutionPorts (mint_of ''7'') sqlite_dup None None) (sample_scope ''w'') ''1'' (sample_update ''t'')
      (mint_of ''7'') (sample_evolution [] []) = (Inr mem, db') \<and>
    m_content sample_row \<noteq> [] \<and> versions db' = [v] \<and> sn_content (vr_snapshot v) = []"
proof -
  let ?run = "updateMemory (evolutionPorts (mint_of ''7'') sqlite_dup None None) (sample_scope ''w'') ''1'' (sample_update ''t'')
      (mint_of ''7'') (sample_evolution [] [])"
  have "\<not> isl (fst ?run)" by code_simp
  from run_Inr [OF this] have run: "?run = (Inr (projr (fst ?run)), snd ?run)" .
  have "history_ok (sample_evolution [] [])" by (simp add: history_ok_def sample_evolution_def head_ids.unique_def)
  from update_saves_no_content [OF this run] obtain v where "versions (snd ?run) = versions (sample_evolution [] []) @ [v]"
    "sn_content (vr_snapshot v) = []" by auto
  moreover have "m_content sample_row \<noteq> []" by code_simp
  moreover have "versions (sample_evolution [] []) = []" by (simp add: sample_evolution_def)
  ultimately show ?thesis using run by (metis append_Nil)
qed

end
