(* ===== verification/Maintenance.thy ===== *)
theory Maintenance
  imports Relations
begin

section \<open>Maintenance tasks\<close>

text \<open>
  The contract of a stewardship task, \<^verbatim>\<open>src/src/memory/stewardship/imaintenance-task.interface.ts\<close>
  and \<^verbatim>\<open>stewardship.types.ts\<close>: a step that reads and changes the store, and that changes nothing in a
  dry run. The lines of text a task reports are left out.
\<close>

datatype stewardship_stage =
    MetadataRepair | DuplicateDetection | MergeCompress | ArchiveStage | GraphRepair | EmbeddingRepair | IndexRepair
  | RankingRefresh | RetrievalOptimization | DecayScoring | EntityResolution | ProvenanceCandidates

definition STEWARDSHIP_STAGE_ORDER :: "stewardship_stage list" where
  "STEWARDSHIP_STAGE_ORDER =
     [MetadataRepair, DuplicateDetection, MergeCompress, ArchiveStage, GraphRepair, EmbeddingRepair, IndexRepair,
      RankingRefresh, RetrievalOptimization, DecayScoring, EntityResolution, ProvenanceCandidates]"

fun index_in :: "'a \<Rightarrow> 'a list \<Rightarrow> nat" where
  "index_in x [] = 0"
| "index_in x (y # ys) = (if x = y then 0 else Suc (index_in x ys))"

definition STAGE_INDEX :: "stewardship_stage \<Rightarrow> nat" where
  "STAGE_INDEX stage = index_in stage STEWARDSHIP_STAGE_ORDER"

datatype task_status = TaskOk | TaskSkipped | TaskError

text \<open>The time of a run, as \<^verbatim>\<open>getTime()\<close> gives it and as \<^verbatim>\<open>toISOString()\<close> prints it.\<close>

record maintenance_ctx =
  mc_scope :: memory_scope
  mc_dry :: bool
  mc_project :: "string option"
  mc_now :: int
  mc_iso :: string

record task_result =
  mt_id :: string
  mt_stage :: stewardship_stage
  mt_status :: task_status
  mt_scanned :: nat
  mt_changed :: nat
  mt_error :: "string option"

record 'd maintenance_task =
  task_id :: string
  task_stage :: stewardship_stage
  task_run :: "maintenance_ctx \<Rightarrow> 'd \<Rightarrow> (app_error + task_result) \<times> 'd"

definition task_done :: "string \<Rightarrow> stewardship_stage \<Rightarrow> nat \<Rightarrow> nat \<Rightarrow> task_result" where
  "task_done i stage scanned changed =
     \<lparr>mt_id = i, mt_stage = stage, mt_status = TaskOk, mt_scanned = scanned, mt_changed = changed, mt_error = None\<rparr>"

definition task_skipped :: "string \<Rightarrow> stewardship_stage \<Rightarrow> task_result" where
  "task_skipped i stage =
     \<lparr>mt_id = i, mt_stage = stage, mt_status = TaskSkipped, mt_scanned = 0, mt_changed = 0, mt_error = None\<rparr>"

text \<open>The memories a task looks at: those of the owner, in every workspace, or those of one project.\<close>

definition scoped_memories :: "maintenance_ctx \<Rightarrow> 'a memory_db_scheme \<Rightarrow> memory list" where
  "scoped_memories ctx db =
     (let all = findAllByOwner db (ms_owner (mc_scope ctx)) None
      in case truthy (mc_project ctx) of None \<Rightarrow> all | Some p \<Rightarrow> filter (\<lambda>m. m_project_id m = p) all)"

text \<open>The contract of the interface: a dry run changes no state.\<close>

locale dry_task =
  fixes task :: "'d maintenance_task"
  assumes dry_pure: "mc_dry ctx \<Longrightarrow> snd (task_run task ctx db) = db"

end
