(* ===== verification/Decay.thy ===== *)
theory Decay
  imports Maintenance
begin

section \<open>Decay of memories\<close>

text \<open>
  \<^verbatim>\<open>src/src/memory/decay\<close> and the task \<^verbatim>\<open>src/src/memory/stewardship/tasks/decay-scoring.task.ts\<close>. The
  numbers are reals and \<^verbatim>\<open>Math.pow\<close>, \<^verbatim>\<open>Math.exp\<close> and \<^verbatim>\<open>Math.log\<close> the functions of analysis;
  \<^verbatim>\<open>Date.parse\<close> is the parameter \<open>tm\<close>, \<open>None\<close> for \<open>NaN\<close>, and \<^verbatim>\<open>Number\<close> the parameter \<open>num\<close>, \<open>None\<close>
  for a value that is not finite.
\<close>

subsection \<open>Signals\<close>

datatype decay_signal_name = RelevanceSignal | RecencySignal | ReactivationSignal | ConnectivitySignal | ImportanceSignal

definition DECAY_SIGNAL_NAMES :: "(string \<times> decay_signal_name) list" where
  "DECAY_SIGNAL_NAMES =
     [(''relevance'', RelevanceSignal), (''recency'', RecencySignal), (''reactivation'', ReactivationSignal),
      (''connectivity'', ConnectivitySignal), (''importance'', ImportanceSignal)]"

fun signal_value :: "decay_signals \<Rightarrow> decay_signal_name \<Rightarrow> real" where
  "signal_value s RelevanceSignal = dg_relevance s"
| "signal_value s RecencySignal = dg_recency s"
| "signal_value s ReactivationSignal = dg_reactivation s"
| "signal_value s ConnectivitySignal = dg_connectivity s"
| "signal_value s ImportanceSignal = dg_importance s"

record decay_input =
  di_updated :: string
  di_accessed :: "string option"
  di_count :: int
  di_degree :: nat
  di_importance :: int

record decay_config =
  dc_half_life :: real
  dc_floor :: "real option"
  dc_connectivity :: "real option"
  dc_reactivation :: "real option"

definition DEFAULT_SIGNAL_FLOOR :: real where "DEFAULT_SIGNAL_FLOOR = 1 / 100"
definition DEFAULT_CONNECTIVITY_SATURATION :: real where "DEFAULT_CONNECTIVITY_SATURATION = 10"
definition DEFAULT_REACTIVATION_SATURATION :: real where "DEFAULT_REACTIVATION_SATURATION = 20"
definition MS_PER_DAY :: real where "MS_PER_DAY = 86400000"

text \<open>An age of \<open>None\<close> is infinite: its factor is zero.\<close>

definition halfLifeFactor :: "real option \<Rightarrow> real \<Rightarrow> real" where
  "halfLifeFactor age halfLifeDays = (case age of None \<Rightarrow> 0 | Some d \<Rightarrow> (1 / 2) powr (d / halfLifeDays))"

definition decayDaysBetween :: "(string \<Rightarrow> int option) \<Rightarrow> string \<Rightarrow> int \<Rightarrow> real option" where
  "decayDaysBetween tm from now = map_option (\<lambda>ms. max 0 (of_int (now - ms) / MS_PER_DAY)) (tm from)"

definition clamp01 :: "real \<Rightarrow> real" where
  "clamp01 x = min 1 (max 0 x)"

definition log1p :: "real \<Rightarrow> real" where
  "log1p x = ln (1 + x)"

definition computeDecaySignals ::
  "(string \<Rightarrow> int option) \<Rightarrow> decay_input \<Rightarrow> decay_config \<Rightarrow> int \<Rightarrow> bool \<Rightarrow> decay_signals" where
  "computeDecaySignals tm input config now isProtected =
     (let floor = nullish (dc_floor config) DEFAULT_SIGNAL_FLOOR;
          connectivitySaturation = nullish (dc_connectivity config) DEFAULT_CONNECTIVITY_SATURATION;
          reactivationSaturation = nullish (dc_reactivation config) DEFAULT_REACTIVATION_SATURATION;
          relevance = max floor (halfLifeFactor (decayDaysBetween tm (di_updated input) now) (dc_half_life config));
          lastActivity = nullish (di_accessed input) (di_updated input);
          accessRecency = halfLifeFactor (decayDaysBetween tm lastActivity now) (dc_half_life config);
          recency = max floor accessRecency;
          reactivationBase = clamp01 (log1p (of_int (max 0 (di_count input))) / log1p reactivationSaturation);
          reactivation = max floor (reactivationBase * max accessRecency floor);
          connectivity = max floor (clamp01 (log1p (of_nat (di_degree input)) / log1p connectivitySaturation));
          importance = max floor (clamp01 (of_int (di_importance input) / 100))
      in \<lparr>dg_relevance = relevance, dg_recency = recency, dg_reactivation = reactivation,
          dg_connectivity = connectivity, dg_importance = importance, dg_protected = isProtected\<rparr>)"

subsection \<open>Score\<close>

type_synonym decay_weights = "decay_signal_name \<Rightarrow> real"

definition DEFAULT_DECAY_WEIGHTS :: decay_weights where "DEFAULT_DECAY_WEIGHTS = (\<lambda>_. 1)"

definition quoted :: "string \<Rightarrow> string" where
  "quoted s = CHR 0x22 # s @ [CHR 0x22]"

fun weight_loop :: "(string \<Rightarrow> real option) \<Rightarrow> string list \<Rightarrow> decay_weights \<Rightarrow> app_error + decay_weights" where
  "weight_loop num [] weights = Inr weights"
| "weight_loop num (entry # entries) weights =
     (case map js_trim (js_split CHR '':'' entry) of
        rawName # rawValue # _ \<Rightarrow>
          if rawName = [] then Inl (PlainError (''DECAY_WEIGHTS: malformed entry '' @ quoted entry))
          else (case map_of DECAY_SIGNAL_NAMES rawName of
                  None \<Rightarrow> Inl (PlainError (''DECAY_WEIGHTS: unknown signal '' @ quoted rawName))
                | Some signal \<Rightarrow>
                    (case num rawValue of
                       None \<Rightarrow> Inl (PlainError (''DECAY_WEIGHTS: invalid weight for '' @ quoted rawName @ '': '' @ quoted rawValue))
                     | Some value \<Rightarrow>
                         if value < 0
                         then Inl (PlainError (''DECAY_WEIGHTS: invalid weight for '' @ quoted rawName @ '': '' @ quoted rawValue))
                         else weight_loop num entries (weights(signal := value))))
      | _ \<Rightarrow> Inl (PlainError (''DECAY_WEIGHTS: malformed entry '' @ quoted entry)))"

definition parseDecayWeights :: "(string \<Rightarrow> real option) \<Rightarrow> string \<Rightarrow> app_error + decay_weights" where
  "parseDecayWeights num csv =
     (if js_trim csv = [] then Inr DEFAULT_DECAY_WEIGHTS
      else weight_loop num (js_split CHR '','' (js_trim csv)) DEFAULT_DECAY_WEIGHTS)"

definition clamped_signal :: "decay_signals \<Rightarrow> decay_signal_name \<Rightarrow> real" where
  "clamped_signal signals n = max DEFAULT_SIGNAL_FLOOR (min 1 (signal_value signals n))"

definition combineSignals :: "decay_signals \<Rightarrow> decay_weights \<Rightarrow> real" where
  "combineSignals signals weights =
     (if dg_protected signals then 1
      else (case foldl (\<lambda>(weightSum, logSum) n. if weights n = 0 then (weightSum, logSum)
                else (weightSum + weights n, logSum + weights n * ln (clamped_signal signals n)))
              (0, 0) (map snd DECAY_SIGNAL_NAMES) of
              (weightSum, logSum) \<Rightarrow> if weightSum = 0 then 0 else exp (logSum / weightSum)))"

subsection \<open>Protection and lifecycle\<close>

definition GOVERNANCE_PROTECTED_TAGS :: "string list" where
  "GOVERNANCE_PROTECTED_TAGS = [''governance'', ''adr'', ''architecture'', ''baseline'']"

definition CORE_IMPORTANCE_THRESHOLD :: int where "CORE_IMPORTANCE_THRESHOLD = 90"

definition isProtectedMemory :: "bool \<Rightarrow> int \<Rightarrow> string list \<Rightarrow> bool" where
  "isProtectedMemory favorite importance tags \<longleftrightarrow>
     favorite \<or> CORE_IMPORTANCE_THRESHOLD \<le> importance \<or>
     list_ex (\<lambda>tag. tag \<in> set (map js_lower tags)) GOVERNANCE_PROTECTED_TAGS"

record lifecycle_config =
  lc_floor :: real
  lc_retention :: real
  lc_dormant :: "real option"
  lc_fading :: "real option"

record lifecycle_ctx =
  lx_protected :: bool
  lx_degree :: nat
  lx_created :: string
  lx_accessed :: "string option"
  lx_now :: int

definition DEFAULT_DORMANT_BELOW :: real where "DEFAULT_DORMANT_BELOW = 35 / 100"
definition DEFAULT_FADING_BELOW :: real where "DEFAULT_FADING_BELOW = 15 / 100"

definition isWithinRetentionWindow ::
  "(string \<Rightarrow> int option) \<Rightarrow> string \<Rightarrow> string option \<Rightarrow> real \<Rightarrow> int \<Rightarrow> bool" where
  "isWithinRetentionWindow tm createdAt lastAccessed retentionDays now \<longleftrightarrow>
     (let cutoff = of_int now - retentionDays * MS_PER_DAY;
          since = (\<lambda>s. case tm s of None \<Rightarrow> False | Some ms \<Rightarrow> cutoff \<le> of_int ms)
      in since createdAt \<or> (case lastAccessed of None \<Rightarrow> False | Some s \<Rightarrow> since s))"

definition nextLifecycleState ::
  "(string \<Rightarrow> int option) \<Rightarrow> real \<Rightarrow> lifecycle_config \<Rightarrow> lifecycle_ctx \<Rightarrow> string" where
  "nextLifecycleState tm score config ctx =
     (if lx_protected ctx then ''active''
      else if isWithinRetentionWindow tm (lx_created ctx) (lx_accessed ctx) (lc_retention config) (lx_now ctx) then ''active''
      else if nullish (lc_dormant config) DEFAULT_DORMANT_BELOW \<le> score then ''active''
      else if nullish (lc_fading config) DEFAULT_FADING_BELOW \<le> score then ''dormant''
      else if lc_floor config \<le> score then ''fading''
      else if lx_degree ctx = 0 then ''archived'' else ''fading'')"

subsection \<open>The task\<close>

record decay_task_config =
  dt_enabled :: bool
  dt_half_life :: real
  dt_floor :: real
  dt_retention :: real
  dt_weights :: decay_weights

definition memory_protected :: "memory \<Rightarrow> bool" where
  "memory_protected m = isProtectedMemory (m_favorite m) (m_importance m) (m_tags m)"

definition decay_outcome ::
  "(string \<Rightarrow> int option) \<Rightarrow> decay_task_config \<Rightarrow> maintenance_ctx \<Rightarrow> (string \<Rightarrow> nat option) \<Rightarrow> memory \<Rightarrow> decay_result" where
  "decay_outcome tm config ctx degrees m =
     (let relationDegree = nullish (degrees (m_id m)) 0;
          isProtected = memory_protected m;
          signals = computeDecaySignals tm
            \<lparr>di_updated = m_updated m, di_accessed = m_last_accessed m, di_count = m_access_count m,
             di_degree = relationDegree, di_importance = m_importance m\<rparr>
            \<lparr>dc_half_life = dt_half_life config, dc_floor = None, dc_connectivity = None, dc_reactivation = None\<rparr>
            (mc_now ctx) isProtected;
          score = combineSignals signals (dt_weights config);
          nextState = nextLifecycleState tm score
            \<lparr>lc_floor = dt_floor config, lc_retention = dt_retention config, lc_dormant = None, lc_fading = None\<rparr>
            \<lparr>lx_protected = isProtected, lx_degree = relationDegree, lx_created = m_created m,
             lx_accessed = m_last_accessed m, lx_now = mc_now ctx\<rparr>
      in \<lparr>dr_score = score, dr_signals = signals, dr_computed = mc_iso ctx, dr_state = nextState\<rparr>)"

fun decay_loop ::
  "string \<Rightarrow> (memory \<Rightarrow> decay_result) \<Rightarrow> memory list \<Rightarrow> 'a memory_db_scheme \<Rightarrow> 'a memory_db_scheme" where
  "decay_loop ownerId outcome [] db = db"
| "decay_loop ownerId outcome (m # ms) db =
     decay_loop ownerId outcome ms (applyDecayResult db (m_id m) ownerId (outcome m) None)"

definition decayScoring ::
  "(string \<Rightarrow> int option) \<Rightarrow> decay_task_config \<Rightarrow> maintenance_ctx \<Rightarrow> 'a relation_db_scheme
     \<Rightarrow> (app_error + task_result) \<times> 'a relation_db_scheme" where
  "decayScoring tm config ctx db =
     (if \<not> dt_enabled config then (Inr (task_skipped ''decay-scoring'' DecayScoring), db)
      else
        let candidates = filter (\<lambda>m. \<not> m_archived m) (scoped_memories ctx db);
            degrees = countDegreeByOwner db (ms_owner (mc_scope ctx));
            outcome = decay_outcome tm config ctx degrees
        in if mc_dry ctx then (Inr (task_done ''decay-scoring'' DecayScoring (length candidates) 0), db)
           else (Inr (task_done ''decay-scoring'' DecayScoring (length candidates) (length candidates)),
                 decay_loop (ms_owner (mc_scope ctx)) outcome candidates db))"

definition DecayScoringTask :: "(string \<Rightarrow> int option) \<Rightarrow> decay_task_config \<Rightarrow> 'a relation_db_scheme maintenance_task" where
  "DecayScoringTask tm config =
     \<lparr>task_id = ''decay-scoring'', task_stage = DecayScoring, task_run = decayScoring tm config\<rparr>"

interpretation decay_task: dry_task "DecayScoringTask tm config" for tm config
  by unfold_locales (simp add: DecayScoringTask_def decayScoring_def Let_def)

end
