(* ===== verification/Decay_Laws.thy ===== *)
theory Decay_Laws
  imports Decay Inference_Laws Evolution_Laws
begin

section \<open>Laws of decay\<close>

text \<open>
  The score is a mean of the signals, and a run of the task changes exactly the active memories in
  its scope: it archives only what every gate lets through, and running it again changes nothing.
\<close>

subsection \<open>Score\<close>

lemma combine_foldl:
  "foldl (\<lambda>(a, b) n. if w n = 0 then (a, b) else (a + w n, b + w n * l n)) (a, b) ns =
     (a + sum_list (map w ns), b + sum_list (map (\<lambda>n. w n * l n) ns))"
  for w l :: "'n \<Rightarrow> real"
  by (induction ns arbitrary: a b) simp_all

lemma weighted_bounds:
  fixes w l :: "'n \<Rightarrow> real"
  assumes "\<And>n. n \<in> set ns \<Longrightarrow> 0 \<le> w n" "\<And>n. n \<in> set ns \<Longrightarrow> w n \<noteq> 0 \<Longrightarrow> lo \<le> l n \<and> l n \<le> hi"
  shows "sum_list (map w ns) * lo \<le> sum_list (map (\<lambda>n. w n * l n) ns) \<and>
    sum_list (map (\<lambda>n. w n * l n) ns) \<le> sum_list (map w ns) * hi"
  using assms
proof (induction ns)
  case (Cons n ns)
  have "w n * lo \<le> w n * l n \<and> w n * l n \<le> w n * hi"
    using Cons.prems(1,2) [of n] by (cases "w n = 0") (auto intro: mult_left_mono)
  with Cons show ?case by (auto simp: distrib_right intro: add_mono)
qed simp

lemma clamped_pos: "0 < clamped_signal s n" "1 / 100 \<le> clamped_signal s n" "clamped_signal s n \<le> 1"
  by (auto simp: clamped_signal_def DEFAULT_SIGNAL_FLOOR_def)

lemma all_signals: "n \<in> set (map snd DECAY_SIGNAL_NAMES)"
  by (cases n) (simp_all add: DECAY_SIGNAL_NAMES_def)

lemma combineSignals_mean:
  assumes "\<And>n. 0 \<le> w n" "w n0 \<noteq> 0" "\<not> dg_protected s" "0 < lo"
    and "\<And>n. w n \<noteq> 0 \<Longrightarrow> lo \<le> clamped_signal s n \<and> clamped_signal s n \<le> hi"
  shows "lo \<le> combineSignals s w \<and> combineSignals s w \<le> hi"
proof -
  let ?ns = "map snd DECAY_SIGNAL_NAMES"
  define W where "W = sum_list (map w ?ns)"
  define L where "L = sum_list (map (\<lambda>n. w n * ln (clamped_signal s n)) ?ns)"
  have "w n0 \<le> W" unfolding W_def using all_signals [of n0] assms(1) by (intro member_le_sum_list) auto
  moreover have "0 < w n0" using assms(1) [of n0] assms(2) by simp
  ultimately have W: "0 < W" by simp
  have hi: "0 < hi" using assms(4) assms(5) [OF assms(2)] by linarith
  have ln: "ln lo \<le> ln (clamped_signal s n) \<and> ln (clamped_signal s n) \<le> ln hi" if "w n \<noteq> 0" for n
    using assms(4) assms(5) [OF that] clamped_pos(1) hi by simp
  have "W * ln lo \<le> L \<and> L \<le> W * ln hi"
    unfolding W_def L_def using assms(1) ln by (intro weighted_bounds) auto
  with W have "ln lo \<le> L / W \<and> L / W \<le> ln hi" by (simp add: pos_le_divide_eq pos_divide_le_eq mult.commute)
  then have "exp (ln lo) \<le> exp (L / W) \<and> exp (L / W) \<le> exp (ln hi)" by simp
  moreover have "combineSignals s w = exp (L / W)"
    unfolding combineSignals_def combine_foldl using assms(3) W by (simp add: W_def L_def)
  ultimately show ?thesis using assms(4) hi by simp
qed

text \<open>
  The decay score of a memory that is not protected is a weighted mean of its signals: with weights
  that are not negative and not all zero it lies between the smallest and the largest signal that
  has a weight, so never below the signal floor 0.01 nor above 1; a protected memory scores 1.
\<close>

theorem decay_score_mean:
  assumes "\<And>n. 0 \<le> w n" "w n0 \<noteq> 0"
  shows "(if dg_protected s then combineSignals s w = 1
     else (\<exists>n m. w n \<noteq> 0 \<and> w m \<noteq> 0 \<and> clamped_signal s n \<le> combineSignals s w \<and> combineSignals s w \<le> clamped_signal s m)) \<and>
    1 / 100 \<le> combineSignals s w \<and> combineSignals s w \<le> 1"
proof (cases "dg_protected s")
  case True
  then show ?thesis by (simp add: combineSignals_def)
next
  case False
  let ?N = "{n \<in> set (map snd DECAY_SIGNAL_NAMES). w n \<noteq> 0}"
  have fin: "finite ?N" by (rule finite_subset [OF _ finite_set [of "map snd DECAY_SIGNAL_NAMES"]]) blast
  have ne: "?N \<noteq> {}" using all_signals [of n0] assms(2) by blast
  let ?lo = "Min (clamped_signal s ` ?N)" and ?hi = "Max (clamped_signal s ` ?N)"
  have "?lo \<in> clamped_signal s ` ?N" "?hi \<in> clamped_signal s ` ?N" using fin ne by (auto intro: Min_in Max_in simp del: set_map)
  then obtain n m where nm: "w n \<noteq> 0" "w m \<noteq> 0" "?lo = clamped_signal s n" "?hi = clamped_signal s m" by auto
  have "?lo \<le> combineSignals s w \<and> combineSignals s w \<le> ?hi"
  proof (rule combineSignals_mean [where w = w and ?n0.0 = n0 and s = s and lo = ?lo and hi = ?hi])
    show "0 < ?lo" using nm(3) clamped_pos(1) by simp
    show "?lo \<le> clamped_signal s k \<and> clamped_signal s k \<le> ?hi" if "w k \<noteq> 0" for k
      using that fin all_signals [of k] by (auto intro!: Min_le Max_ge simp del: set_map)
  qed (use assms False in simp_all)
  moreover have "1 / 100 \<le> ?lo" "?hi \<le> 1" using nm clamped_pos(2,3) by simp_all
  ultimately show ?thesis using False nm by auto
qed

subsection \<open>Effect of a run\<close>

definition decayed :: "decay_result \<Rightarrow> memory_row \<Rightarrow> memory_row" where
  "decayed d r = r\<lparr>mr_decay_score := Some (dr_score d), mr_decay_signals := Some (dr_signals d),
     mr_decay_computed := Some (dr_computed d), m_lifecycle := Some (dr_state d),
     m_archived := (if dr_state d = ''archived'' then True else m_archived r)\<rparr>"

lemma decayed_keys [simp]: "m_id (decayed d r) = m_id r" "m_owner (decayed d r) = m_owner r"
  "m_title (decayed d r) = m_title r" "m_content (decayed d r) = m_content r" "m_tags (decayed d r) = m_tags r"
  "m_updated (decayed d r) = m_updated r" "mr_decay_score (decayed d r) = Some (dr_score d)"
  "m_archived (decayed d r) \<longleftrightarrow> dr_state d = ''archived'' \<or> m_archived r"
  by (simp_all add: decayed_def)

lemma applyDecayResult_rows:
  "memories (applyDecayResult db i o' d None) = map (\<lambda>r. if m_id r = i \<and> m_owner r = o' then decayed d r else r) (memories db)"
  by (simp add: applyDecayResult_def put_memory_def sql_update_def decayed_def memory_hit_def visible_def in_workspace_filter_def)

lemma decay_loop_rows:
  assumes "distinct (map m_id ms)"
  shows "memories (decay_loop o' f ms db) =
    map (\<lambda>r. case map_of (map (\<lambda>m. (m_id m, m)) ms) (m_id r) of
          Some m \<Rightarrow> if m_owner r = o' then decayed (f m) r else r | None \<Rightarrow> r) (memories db)"
  using assms
proof (induction ms arbitrary: db)
  case (Cons m ms)
  then have m: "map_of (map (\<lambda>m. (m_id m, m)) ms) (m_id m) = None" by (simp add: map_of_eq_None_iff image_image)
  show ?case
    using Cons m by (auto simp: applyDecayResult_rows split: option.splits)
qed simp

lemma decay_loop_frame: "\<exists>t. decay_loop o' f ms db = put_memory t db"
proof (induction ms arbitrary: db)
  case Nil
  have "db = put_memory (memories db) db" by (simp add: put_memory_def)
  then show ?case by auto
next
  case (Cons m ms)
  obtain t where "decay_loop o' f ms (applyDecayResult db (m_id m) o' (f m) None) =
      put_memory t (applyDecayResult db (m_id m) o' (f m) None)" using Cons.IH by blast
  then have "decay_loop o' f (m # ms) db = put_memory t db" by (simp add: applyDecayResult_def put_memory_def)
  then show ?case by blast
qed

lemma decay_loop_same: "memories (decay_loop o' f ms db) = memories db \<Longrightarrow> decay_loop o' f ms db = db"
  using decay_loop_frame [of o' f ms db] by (auto simp: put_memory_def)

lemma decay_loop_relations: "relations (decay_loop o' f ms db) = relations (db :: 'a relation_db_scheme)"
  by (induction ms arbitrary: db) (simp_all add: applyDecayResult_def put_memory_def)

text \<open>The row of a memory that a run looks at.\<close>

definition decay_candidate :: "maintenance_ctx \<Rightarrow> memory_row \<Rightarrow> bool" where
  "decay_candidate ctx r \<longleftrightarrow> m_owner r = ms_owner (mc_scope ctx) \<and> \<not> m_archived r \<and>
     (case truthy (mc_project ctx) of None \<Rightarrow> True | Some p \<Rightarrow> m_project_id r = p)"

lemma rowToMemory_fields [simp]:
  "m_id (rowToMemory r) = m_id r" "m_owner (rowToMemory r) = m_owner r" "m_archived (rowToMemory r) = m_archived r"
  "m_project_id (rowToMemory r) = m_project_id r" "m_favorite (rowToMemory r) = m_favorite r"
  "m_importance (rowToMemory r) = m_importance r" "m_tags (rowToMemory r) = m_tags r"
  "m_created (rowToMemory r) = m_created r" "m_last_accessed (rowToMemory r) = m_last_accessed r"
  by (simp_all add: rowToMemory_def memory.defs)

lemma candidates_rows:
  "filter (\<lambda>m. \<not> m_archived m) (scoped_memories ctx db) =
     map rowToMemory (filter (decay_candidate ctx) (order_asc m_created (memories db)))"
proof -
  have vis: "visible (ms_owner (mc_scope ctx)) None r = (m_owner r = ms_owner (mc_scope ctx))" for r
    by (simp add: visible_def in_workspace_filter_def)
  have comm: "order_asc m_created (filter p t) = filter p (order_asc m_created t)" for p and t :: "memory_row list"
    by (simp add: order_asc_def filter_sort)
  show ?thesis
    by (auto simp: scoped_memories_def findAllByOwner_def sql_select_def comm filter_map comp_def decay_candidate_def vis
        Let_def conj_ac split: option.splits intro!: arg_cong [where f = "map _"] filter_cong)
qed

text \<open>The new table, row by row.\<close>

lemma decayScoring_rows:
  assumes "unique_rows (memories db)" "decayScoring tm config ctx db = (res, db')" "dt_enabled config" "\<not> mc_dry ctx"
  shows "relations db' = relations db \<and> memories db' =
    map (\<lambda>r. if decay_candidate ctx r
      then decayed (decay_outcome tm config ctx (countDegreeByOwner db (ms_owner (mc_scope ctx))) (rowToMemory r)) r else r)
      (memories db)"
proof -
  let ?f = "decay_outcome tm config ctx (countDegreeByOwner db (ms_owner (mc_scope ctx)))"
  let ?o = "ms_owner (mc_scope ctx)"
  let ?rows = "filter (decay_candidate ctx) (order_asc m_created (memories db))"
  let ?ms = "map rowToMemory ?rows"
  from assms(2-4) have db': "db' = decay_loop ?o ?f ?ms db" by (auto simp: decayScoring_def Let_def candidates_rows)
  have ids: "distinct (map m_id (memories db))" using memory_ids_unique [OF assms(1)] by (simp add: memory_ids.unique_def)
  have "distinct (map m_id (order_asc m_created (memories db)))"
    using ids by (metis distinct_map distinct_sort order_asc_def set_sort)
  then have d: "distinct (map m_id ?ms)" by (simp add: comp_def distinct_map_filter)
  have "(case map_of (map (\<lambda>m. (m_id m, m)) ?ms) (m_id r) of
          Some m \<Rightarrow> if m_owner r = ?o then decayed (?f m) r else r | None \<Rightarrow> r) =
      (if decay_candidate ctx r then decayed (?f (rowToMemory r)) r else r)" if r: "r \<in> set (memories db)" for r
  proof (cases "decay_candidate ctx r")
    case True
    then have "(m_id r, rowToMemory r) \<in> set (map (\<lambda>m. (m_id m, m)) ?ms)" using r by (auto simp: image_image)
    then have "map_of (map (\<lambda>m. (m_id m, m)) ?ms) (m_id r) = Some (rowToMemory r)"
      using d by (intro map_of_is_SomeI) (simp_all add: comp_def)
    with True show ?thesis by (simp add: decay_candidate_def)
  next
    case False
    show ?thesis
    proof (cases "map_of (map (\<lambda>m. (m_id m, m)) ?ms) (m_id r)")
      case (Some m)
      from map_of_SomeD [OF Some] obtain s where "s \<in> set (memories db)" "decay_candidate ctx s" "m_id s = m_id r" by auto
      with r ids have "s = r" by (metis distinct_map inj_onD)
      with \<open>decay_candidate ctx s\<close> False show ?thesis by simp
    qed (use False in simp)
  qed
  then show ?thesis unfolding db' decay_loop_rows [OF d] by (simp add: decay_loop_relations)
qed

text \<open>
  C38: A run of the decay task archives a memory only when every gate is open: it belongs to the owner and
  was active, it is not protected (no favourite, importance below 90, no governance tag), no relation
  touches it, it is outside the retention window, and its score is under the archive floor. Nothing
  else is lost: every row stays, with its title, content, tags and time of update, and a memory that
  was archived stays archived.
\<close>

theorem decay_archives_gated:
  assumes "unique_rows (memories db)" "decayScoring tm config ctx db = (res, db')"
    and "i < length (memories db)" "r = memories db ! i" "r' = memories db' ! i"
  shows "length (memories db') = length (memories db) \<and> m_id r' = m_id r \<and> m_title r' = m_title r \<and>
    m_content r' = m_content r \<and> m_tags r' = m_tags r \<and> m_updated r' = m_updated r \<and>
    (m_archived r \<longrightarrow> m_archived r') \<and>
    (m_archived r' \<and> \<not> m_archived r \<longrightarrow>
       m_owner r = ms_owner (mc_scope ctx) \<and> \<not> isProtectedMemory (m_favorite r) (m_importance r) (m_tags r) \<and>
       (\<forall>x \<in> set (relations db). rl_owner x = m_owner r \<longrightarrow> rl_source x \<noteq> m_id r \<and> rl_target x \<noteq> m_id r) \<and>
       \<not> isWithinRetentionWindow tm (m_created r) (m_last_accessed r) (dt_retention config) (mc_now ctx) \<and>
       (\<exists>score. mr_decay_score r' = Some score \<and> score < dt_floor config))"
proof (cases "dt_enabled config \<and> \<not> mc_dry ctx")
  case False
  with assms(2) have "db' = db" by (auto simp: decayScoring_def Let_def split: if_splits)
  then show ?thesis using assms(4,5) by simp
next
  case True
  let ?degrees = "countDegreeByOwner db (ms_owner (mc_scope ctx))"
  let ?f = "decay_outcome tm config ctx ?degrees"
  from decayScoring_rows [OF assms(1,2)] True
  have rows: "memories db' = map (\<lambda>r. if decay_candidate ctx r then decayed (?f (rowToMemory r)) r else r) (memories db)" by blast
  then have r': "r' = (if decay_candidate ctx r then decayed (?f (rowToMemory r)) r else r)" using assms(3-5) by simp
  have len: "length (memories db') = length (memories db)" by (simp add: rows)
  show ?thesis
  proof (cases "m_archived r' \<and> \<not> m_archived r")
    case False
    then have "\<not> (m_archived r' \<and> \<not> m_archived r)" .
    moreover have "m_archived r \<longrightarrow> m_archived r'" unfolding r' by simp
    ultimately show ?thesis unfolding len r' by (cases "decay_candidate ctx r") auto
  next
    case archived: True
    with r' have c: "decay_candidate ctx r" by (auto split: if_splits)
    with r' have r2: "r' = decayed (?f (rowToMemory r)) r" by simp
    with archived have st: "dr_state (?f (rowToMemory r)) = ''archived''" by auto
    then have gates: "\<not> memory_protected (rowToMemory r)" "nullish (?degrees (m_id r)) 0 = 0"
      "\<not> isWithinRetentionWindow tm (m_created r) (m_last_accessed r) (dt_retention config) (mc_now ctx)"
      "dr_score (?f (rowToMemory r)) < dt_floor config"
      by (auto simp: decay_outcome_def nextLifecycleState_def Let_def split: if_splits)
    have o: "m_owner r = ms_owner (mc_scope ctx)" using c by (simp add: decay_candidate_def)
    have free: "rl_source x \<noteq> m_id r \<and> rl_target x \<noteq> m_id r" if "x \<in> set (relations db)" "rl_owner x = m_owner r" for x
      using gates(2) that unfolding countDegreeByOwner_def o [symmetric]
      by (auto simp: sql_select_def Let_def count_list_0_iff image_iff split: if_splits)
    have rest: "m_title r' = m_title r" "m_content r' = m_content r" "m_tags r' = m_tags r" "m_updated r' = m_updated r"
      "m_id r' = m_id r" "mr_decay_score r' = Some (dr_score (?f (rowToMemory r)))"
      unfolding r2 by simp_all
    show ?thesis
      unfolding rest len using gates(1,3,4) o free archived by (simp add: memory_protected_def)
  qed
qed

lemma decay_outcome_row [simp]:
  "decay_outcome tm config ctx degrees (rowToMemory (decayed d r)) = decay_outcome tm config ctx degrees (rowToMemory r)"
  by (simp add: decay_outcome_def memory_protected_def rowToMemory_def decayed_def memory.defs)

lemma decay_candidate_decayed [simp]:
  "decay_candidate ctx (decayed d r) \<longleftrightarrow> decay_candidate ctx r \<and> dr_state d \<noteq> ''archived''"
  by (cases "truthy (mc_project ctx)") (auto simp: decay_candidate_def decayed_def)

lemma decayed_twice [simp]: "decayed d (decayed d r) = decayed d r"
  by (simp add: decayed_def)

text \<open>
  The decay task is idempotent, as its interface demands: a second run at the same time with the same
  configuration leaves the database as the first one left it.
\<close>

theorem decay_idempotent:
  assumes "unique_rows (memories db)" "decayScoring tm config ctx db = (res, db')"
  shows "snd (decayScoring tm config ctx db') = db'"
proof (cases "dt_enabled config \<and> \<not> mc_dry ctx")
  case False
  then show ?thesis by (auto simp: decayScoring_def Let_def)
next
  case True
  let ?degrees = "countDegreeByOwner db (ms_owner (mc_scope ctx))"
  let ?f = "decay_outcome tm config ctx ?degrees"
  from decayScoring_rows [OF assms] True
  have one: "relations db' = relations db"
    "memories db' = map (\<lambda>r. if decay_candidate ctx r then decayed (?f (rowToMemory r)) r else r) (memories db)" by blast+
  have same: "memory_clash (if decay_candidate ctx s then decayed (?f (rowToMemory s)) s else s)
      (if decay_candidate ctx r then decayed (?f (rowToMemory r)) r else r) = memory_clash s r" for r s
    by (simp add: memory_clash_def decayed_def)
  have "unique_rows (memories db')"
    using assms(1) unfolding unique_rows_def one(2) sorted_wrt_map same .
  moreover obtain res2 db2 where run: "decayScoring tm config ctx db' = (res2, db2)" by fastforce
  ultimately have two: "relations db2 = relations db'" "memories db2 =
    map (\<lambda>r. if decay_candidate ctx r
      then decayed (decay_outcome tm config ctx (countDegreeByOwner db' (ms_owner (mc_scope ctx))) (rowToMemory r)) r else r)
      (memories db')" using decayScoring_rows True by blast+
  have deg: "countDegreeByOwner db' o' = countDegreeByOwner db o'" for o' by (simp add: countDegreeByOwner_def one(1))
  have "memories db2 = memories db'"
    unfolding two(2) deg unfolding one(2) by simp
  moreover have "decay_loop o' f ms db' = db'" if "memories (decay_loop o' f ms db') = memories db'" for o' f ms
    using that by (rule decay_loop_same)
  ultimately show ?thesis using run by (auto simp: decayScoring_def Let_def split: if_splits)
qed

subsection \<open>Witnesses\<close>

definition sample_stale :: inference_db where
  "sample_stale = (sample_inference [])\<lparr>memories := [sample_row, sample_row\<lparr>m_id := ''2'', m_slug := Some ''b'', m_codename := Some ''NOTE-0002'', m_favorite := True\<rparr>]\<rparr>"

definition sample_relevance :: decay_weights where
  "sample_relevance = (\<lambda>n. if n = RelevanceSignal then 1 else 0)"

definition sample_decay :: decay_task_config where
  "sample_decay = \<lparr>dt_enabled = True, dt_half_life = 90, dt_floor = 1 / 20, dt_retention = 30, dt_weights = sample_relevance\<rparr>"

definition sample_night :: maintenance_ctx where
  "sample_night = \<lparr>mc_scope = sample_scope ''w'', mc_dry = False, mc_project = None, mc_now = 0, mc_iso = ''t''\<rparr>"

lemma sample_row_calm: "m_slug sample_row = Some ''a''" "m_source_path sample_row = None" "\<not> m_favorite sample_row"
  "m_codename sample_row = Some ''NOTE-0001''" "m_importance sample_row = 50" "m_tags sample_row = [''a'']"
  by (simp_all add: sample_row_def insert_row_def sample_insert_def sample_mint_def Let_def)

lemma unique_sample_stale: "unique_rows (memories sample_stale)"
  by (simp add: sample_stale_def sample_inference_def unique_rows_def memory_clash_def sample_row_calm)

lemma relevance_score:
  "combineSignals s sample_relevance = (if dg_protected s then 1 else clamped_signal s RelevanceSignal)"
  using clamped_pos(1) [of s RelevanceSignal]
  by (simp add: combineSignals_def DECAY_SIGNAL_NAMES_def sample_relevance_def)

theorem decay_score_mean_witness:
  "combineSignals \<lparr>dg_relevance = 1 / 2, dg_recency = 2, dg_reactivation = 0, dg_connectivity = 0, dg_importance = 0,
     dg_protected = False\<rparr> sample_relevance \<le> 1"
  using decay_score_mean [of sample_relevance RelevanceSignal] by (simp add: sample_relevance_def)

lemma degrees_sample: "countDegreeByOwner sample_stale o' = (\<lambda>i. None)"
  by (simp add: countDegreeByOwner_def sample_stale_def sample_inference_def sql_select_def Let_def)

lemma sample_outcome:
  "dr_state (decay_outcome (\<lambda>_. None) sample_decay sample_night (\<lambda>i. None) m) =
     (if memory_protected m then ''active'' else ''archived'')"
  by (simp add: decay_outcome_def Let_def sample_decay_def relevance_score clamped_signal_def computeDecaySignals_def
      DEFAULT_SIGNAL_FLOOR_def halfLifeFactor_def decayDaysBetween_def nextLifecycleState_def isWithinRetentionWindow_def
      DEFAULT_DORMANT_BELOW_def DEFAULT_FADING_BELOW_def nullish_def split: option.splits)

lemma sample_decay_run:
  assumes "decayScoring (\<lambda>_. None) sample_decay sample_night sample_stale = (res, db')"
  shows "map m_archived (memories db') = [True, False]"
proof -
  have "dt_enabled sample_decay" "\<not> mc_dry sample_night" by (simp_all add: sample_decay_def sample_night_def)
  from decayScoring_rows [OF unique_sample_stale assms this]
  have "map m_archived (memories db') = map (\<lambda>r. if decay_candidate sample_night r
      then \<not> memory_protected (rowToMemory r) \<or> m_archived r else m_archived r) (memories sample_stale)"
    by (simp add: degrees_sample sample_outcome if_distrib cong: if_cong)
  then show ?thesis
    by (simp add: sample_stale_def decay_candidate_def sample_night_def memory_protected_def sample_scope_def
        isProtectedMemory_def CORE_IMPORTANCE_THRESHOLD_def GOVERNANCE_PROTECTED_TAGS_def truthy_def sample_row_calm js_lower_def js_lower_char_def)
qed

theorem decay_archives_gated_witness:
  "\<exists>res db'. decayScoring (\<lambda>_. None) sample_decay sample_night sample_stale = (res, db') \<and>
     m_archived (memories db' ! 0) \<and> \<not> m_archived (memories db' ! 1) \<and>
     (\<exists>score. mr_decay_score (memories db' ! 0) = Some score \<and> score < 1 / 20)"
proof -
  obtain res db' where run: "decayScoring (\<lambda>_. None) sample_decay sample_night sample_stale = (res, db')" by fastforce
  have archived: "map m_archived (memories db') = [True, False]" by (rule sample_decay_run [OF run])
  then have "length (memories db') = 2" by (metis length_map length_Cons list.size(3) numeral_2_eq_2)
  with archived have "m_archived (memories db' ! 0)" "\<not> m_archived (memories db' ! 1)"
    by (metis nth_Cons_0 nth_map zero_less_numeral) (metis archived nth_Cons_0 nth_Cons_Suc nth_map One_nat_def \<open>length (memories db') = 2\<close> one_less_numeral_iff semiring_norm(76))
  moreover have "\<not> m_archived (memories sample_stale ! 0)" "0 < length (memories sample_stale)" by (simp_all add: sample_stale_def)
  ultimately show ?thesis
    using decay_archives_gated [OF unique_sample_stale run _ refl refl, of 0] run by (auto simp: sample_decay_def)
qed

theorem decay_idempotent_witness:
  "\<exists>db'. snd (decayScoring (\<lambda>_. None) sample_decay sample_night sample_stale) = db' \<and>
     map m_archived (memories db') = [True, False] \<and>
     snd (decayScoring (\<lambda>_. None) sample_decay sample_night db') = db'"
  using sample_decay_run [OF prod.collapse [symmetric]] decay_idempotent [OF unique_sample_stale prod.collapse [symmetric]]
  by simp

end
