(* ===== verification/Entities.thy ===== *)
theory Entities
  imports Maintenance Inference
begin

section \<open>Canonical entities\<close>

text \<open>
  \<^verbatim>\<open>src/src/knowledge/entities\<close>, \<^verbatim>\<open>src/src/infrastructure/entities\<close>, the types of
  \<^verbatim>\<open>src/src/types/entities.ts\<close> and \<^verbatim>\<open>src/src/memory/stewardship/tasks/entity-resolution.task.ts\<close>:
  symbols of a memory, the registry of entities and aliases, and the mentions that tie memories to
  entities. The stores the resolver and the task are given are records of operations, as in the code.
\<close>

subsection \<open>Types\<close>

datatype entity_kind = ProjectKind | ComponentKind | PersonKind | OrganizationKind | ConceptKind | TechnologyKind

datatype mention_field = CodenameField | TagField | KeywordField

datatype resolution_rule = CanonicalExact | AliasExact

definition RESOLVER_VERSION :: string where "RESOLVER_VERSION = ''1.0''"

fun kind_text :: "entity_kind \<Rightarrow> string" where
  "kind_text ProjectKind = ''project''"
| "kind_text ComponentKind = ''component''"
| "kind_text PersonKind = ''person''"
| "kind_text OrganizationKind = ''organization''"
| "kind_text ConceptKind = ''concept''"
| "kind_text TechnologyKind = ''technology''"

fun field_text :: "mention_field \<Rightarrow> string" where
  "field_text CodenameField = ''codename''"
| "field_text TagField = ''tag''"
| "field_text KeywordField = ''keyword''"

record canonical_entity =
  ce_id :: string
  ce_owner :: string
  ce_name :: string
  ce_normalized :: string
  ce_kind :: entity_kind
  ce_confidence :: rat
  ce_source :: string
  ce_created :: string
  ce_updated :: string

record entity_alias =
  al_id :: string
  al_owner :: string
  al_entity :: string
  al_alias :: string
  al_normalized :: string
  al_source :: string
  al_created :: string

record resolution_evidence =
  re_version :: string
  re_rule :: resolution_rule
  re_matched :: string

record mention_input =
  me_owner :: string
  me_memory :: string
  me_entity :: string
  me_field :: mention_field
  me_confidence :: rat
  me_evidence :: resolution_evidence
  me_source :: string

record entity_mention = mention_input +
  me_id :: string
  me_created :: string

record symbol_input =
  sy_symbol :: string
  sy_field :: mention_field

record create_entity =
  cn_owner :: string
  cn_name :: string
  cn_kind :: entity_kind
  cn_confidence :: "rat option"
  cn_source :: "string option"

record entity_db = inference_db +
  entities :: "canonical_entity list"
  aliases :: "entity_alias list"
  mentions :: "entity_mention list"

subsection \<open>Normal form of a symbol\<close>

text \<open>
  \<^verbatim>\<open>normalize('NFKC')\<close> on Latin-1. The characters whose compatibility form lies outside Latin-1 (the
  spacing diacritics, the micro sign and the fractions) stay.
\<close>

definition js_nfkc_char :: "char \<Rightarrow> char" where
  "js_nfkc_char c =
     (let n = (of_char c :: nat)
      in if n = 160 then CHR '' '' else if n = 170 then CHR ''a'' else if n = 178 then CHR ''2''
         else if n = 179 then CHR ''3'' else if n = 185 then CHR ''1'' else if n = 186 then CHR ''o'' else c)"

definition js_nfkc :: "string \<Rightarrow> string" where
  "js_nfkc s = map js_nfkc_char s"

text \<open>\<^verbatim>\<open>replace(/p+/g, ' ')\<close>; the flag says that the run at hand has its space already.\<close>

fun replace_runs :: "(char \<Rightarrow> bool) \<Rightarrow> bool \<Rightarrow> string \<Rightarrow> string" where
  "replace_runs p inrun [] = []"
| "replace_runs p inrun (c # s) =
     (if \<not> p c then c # replace_runs p False s
      else if inrun then replace_runs p True s else CHR '' '' # replace_runs p True s)"

definition symbol_separator :: "char \<Rightarrow> bool" where
  "symbol_separator c \<longleftrightarrow> c = CHR ''-'' \<or> c = CHR ''_''"

definition normalizeSymbol :: "string \<Rightarrow> string" where
  "normalizeSymbol s =
     js_trim (replace_runs js_space False (replace_runs symbol_separator False (js_lower (js_nfkc s))))"

subsection \<open>Symbols of a memory\<close>

definition push_symbol :: "string \<Rightarrow> mention_field \<Rightarrow> string list \<times> symbol_input list \<Rightarrow> string list \<times> symbol_input list" where
  "push_symbol symbol field acc =
     (let normalized = normalizeSymbol symbol; key = field_text field @ '':'' @ normalized; (seen, symbols) = acc
      in if normalized = [] \<or> key \<in> set seen then acc
         else (seen @ [key], symbols @ [\<lparr>sy_symbol = symbol, sy_field = field\<rparr>]))"

definition extractSymbols :: "'a memory_scheme \<Rightarrow> symbol_input list" where
  "extractSymbols m =
     (let acc0 = (case truthy (m_codename m) of None \<Rightarrow> ([], []) | Some c \<Rightarrow> push_symbol c CodenameField ([], []));
          acc1 = fold (\<lambda>tag. push_symbol tag TagField) (m_tags m) acc0;
          acc2 = fold (\<lambda>keyword. push_symbol keyword KeywordField) (m_keywords m) acc1
      in snd acc2)"

subsection \<open>Registry\<close>

text \<open>
  \<open>INSERT ... ON CONFLICT (key) DO NOTHING\<close>: a row that agrees with the new one on the named key makes
  the statement do nothing, any other refused constraint throws.
\<close>

definition sql_insert_ignore :: "('r \<Rightarrow> 'r \<Rightarrow> bool) \<Rightarrow> ('r \<Rightarrow> 'r \<Rightarrow> bool) \<Rightarrow> 'r \<Rightarrow> 'r list \<Rightarrow> app_error + 'r list" where
  "sql_insert_ignore conflict clash r t = (if list_ex (conflict r) t then Inr t else sql_insert clash r t)"

definition entity_key :: "canonical_entity \<Rightarrow> string \<times> string \<times> entity_kind" where
  "entity_key e = (ce_owner e, ce_normalized e, ce_kind e)"

definition entity_clash :: "canonical_entity \<Rightarrow> canonical_entity \<Rightarrow> bool" where
  "entity_clash r s \<longleftrightarrow> ce_id r = ce_id s \<or> entity_key r = entity_key s"

definition alias_key :: "entity_alias \<Rightarrow> string \<times> string" where
  "alias_key a = (al_owner a, al_normalized a)"

definition alias_clash :: "entity_alias \<Rightarrow> entity_alias \<Rightarrow> bool" where
  "alias_clash r s \<longleftrightarrow> al_id r = al_id s \<or> alias_key r = alias_key s"

interpretation entity_ids: keyed_table ce_id entity_clash
  by unfold_locales (simp add: entity_clash_def)

interpretation entity_keys: keyed_table entity_key entity_clash
  by unfold_locales (simp add: entity_clash_def)

interpretation alias_keys: keyed_table alias_key alias_clash
  by unfold_locales (simp add: alias_clash_def)

fun first_row :: "'r list \<Rightarrow> 'r option" where
  "first_row [] = None"
| "first_row (r # rs) = Some r"

definition findEntityById :: "'a entity_db_scheme \<Rightarrow> string \<Rightarrow> string \<Rightarrow> canonical_entity option" where
  "findEntityById db ownerId entityId = sql_first (\<lambda>e. ce_owner e = ownerId \<and> ce_id e = entityId) (entities db)"

definition findByNormalizedName ::
  "'a entity_db_scheme \<Rightarrow> string \<Rightarrow> string \<Rightarrow> entity_kind option \<Rightarrow> canonical_entity option" where
  "findByNormalizedName db ownerId name kind =
     (case kind of
        Some k \<Rightarrow> sql_first (\<lambda>e. ce_owner e = ownerId \<and> ce_normalized e = name \<and> ce_kind e = k) (entities db)
      | None \<Rightarrow> first_row (order_asc (\<lambda>e. kind_text (ce_kind e))
                  (sql_select (\<lambda>e. ce_owner e = ownerId \<and> ce_normalized e = name) (entities db))))"

definition findByNormalizedAlias :: "'a entity_db_scheme \<Rightarrow> string \<Rightarrow> string \<Rightarrow> canonical_entity option" where
  "findByNormalizedAlias db ownerId name =
     first_row (concat (map (\<lambda>a. sql_select (\<lambda>e. ce_id e = al_entity a \<and> ce_owner e = al_owner a) (entities db))
       (sql_select (\<lambda>a. al_owner a = ownerId \<and> al_normalized a = name) (aliases db))))"

definition createEntity ::
  "'a entity_db_scheme \<Rightarrow> create_entity \<Rightarrow> mint \<Rightarrow> (app_error + canonical_entity) \<times> 'a entity_db_scheme" where
  "createEntity db input m =
     (let normalizedName = normalizeSymbol (cn_name input)
      in case findByNormalizedName db (cn_owner input) normalizedName (Some (cn_kind input)) of
           Some existing \<Rightarrow> (Inr existing, db)
         | None \<Rightarrow>
             (case sql_insert_ignore (\<lambda>r s. entity_key r = entity_key s) entity_clash
                \<lparr>ce_id = mint_id m, ce_owner = cn_owner input, ce_name = cn_name input, ce_normalized = normalizedName,
                 ce_kind = cn_kind input, ce_confidence = nullish (cn_confidence input) 1,
                 ce_source = nullish (cn_source input) ''inferred'', ce_created = mint_now m, ce_updated = mint_now m\<rparr>
                (entities db) of
                Inl e \<Rightarrow> (Inl e, db)
              | Inr t \<Rightarrow>
                  let db' = db\<lparr>entities := t\<rparr>
                  in case findByNormalizedName db' (cn_owner input) normalizedName (Some (cn_kind input)) of
                       None \<Rightarrow> (Inl (PlainError (''entity registry: create failed for '' @ [CHR 0x22] @ cn_name input @ [CHR 0x22])), db')
                     | Some created \<Rightarrow> (Inr created, db')))"

definition addAlias ::
  "'a entity_db_scheme \<Rightarrow> string \<Rightarrow> string \<Rightarrow> string \<Rightarrow> mint \<Rightarrow> (app_error + entity_alias) \<times> 'a entity_db_scheme" where
  "addAlias db ownerId entityId alias m =
     (let normalizedAlias = normalizeSymbol alias
      in case sql_insert_ignore (\<lambda>r s. alias_key r = alias_key s) alias_clash
           \<lparr>al_id = mint_id m, al_owner = ownerId, al_entity = entityId, al_alias = alias,
            al_normalized = normalizedAlias, al_source = ''inferred'', al_created = mint_now m\<rparr> (aliases db) of
           Inl e \<Rightarrow> (Inl e, db)
         | Inr t \<Rightarrow>
             let db' = db\<lparr>aliases := t\<rparr>
             in case sql_first (\<lambda>a. al_owner a = ownerId \<and> al_normalized a = normalizedAlias) (aliases db') of
                  None \<Rightarrow> (Inl (PlainError (''entity registry: addAlias failed for '' @ [CHR 0x22] @ alias @ [CHR 0x22])), db')
                | Some a \<Rightarrow> (Inr a, db'))"

definition listAliases :: "'a entity_db_scheme \<Rightarrow> string \<Rightarrow> string \<Rightarrow> entity_alias list" where
  "listAliases db ownerId entityId =
     order_asc al_normalized (sql_select (\<lambda>a. al_owner a = ownerId \<and> al_entity a = entityId) (aliases db))"

text \<open>An \<open>UPDATE\<close> that would give two entities one key is refused, and changes nothing.\<close>

definition updateEntityMetadata ::
  "'a entity_db_scheme \<Rightarrow> string \<Rightarrow> string \<Rightarrow> string option \<Rightarrow> rat option \<Rightarrow> string
     \<Rightarrow> (app_error + canonical_entity) \<times> 'a entity_db_scheme" where
  "updateEntityMetadata db ownerId entityId newName newConfidence now =
     (case findEntityById db ownerId entityId of
        None \<Rightarrow> (Inl (PlainError (''entity registry: unknown entity '' @ [CHR 0x22] @ entityId @ [CHR 0x22])), db)
      | Some current \<Rightarrow>
          let canonicalName = nullish newName (ce_name current);
              confidence = nullish newConfidence (ce_confidence current);
              change = (\<lambda>e. e\<lparr>ce_name := canonicalName, ce_normalized := normalizeSymbol canonicalName,
                              ce_confidence := confidence, ce_updated := now\<rparr>);
              hit = (\<lambda>e. ce_owner e = ownerId \<and> ce_id e = entityId);
              t = sql_update hit change (entities db)
          in if \<not> distinct (map entity_key t) then (Inl (PlainError ''UNIQUE constraint failed''), db)
             else let db' = db\<lparr>entities := t\<rparr>
                  in case findEntityById db' ownerId entityId of
                       None \<Rightarrow> (Inl (PlainError (''entity registry: entity '' @ [CHR 0x22] @ entityId @ [CHR 0x22] @
                                  '' vanished during update'')), db')
                     | Some updated \<Rightarrow> (Inr updated, db'))"

definition listEntities :: "'a entity_db_scheme \<Rightarrow> string \<Rightarrow> canonical_entity list" where
  "listEntities db ownerId =
     order_asc ce_normalized (order_asc (\<lambda>e. kind_text (ce_kind e)) (sql_select (\<lambda>e. ce_owner e = ownerId) (entities db)))"

subsection \<open>Mentions\<close>

definition mention_key :: "entity_mention \<Rightarrow> string \<times> string \<times> string \<times> mention_field" where
  "mention_key x = (me_owner x, me_memory x, me_entity x, me_field x)"

definition mention_clash :: "entity_mention \<Rightarrow> entity_mention \<Rightarrow> bool" where
  "mention_clash r s \<longleftrightarrow> me_id r = me_id s \<or> mention_key r = mention_key s"

interpretation mention_keys: keyed_table mention_key mention_clash
  by unfold_locales (simp add: mention_clash_def)

definition mention_row :: "mention_input \<Rightarrow> mint \<Rightarrow> entity_mention" where
  "mention_row x m = mention_input.extend x \<lparr>me_id = mint_id m, me_created = mint_now m\<rparr>"

text \<open>The value is whether a row was inserted, \<^verbatim>\<open>meta.changes > 0\<close>.\<close>

definition upsertMention :: "'a entity_db_scheme \<Rightarrow> mention_input \<Rightarrow> mint \<Rightarrow> (app_error + bool) \<times> 'a entity_db_scheme" where
  "upsertMention db x m =
     (case sql_insert_ignore (\<lambda>r s. mention_key r = mention_key s) mention_clash (mention_row x m) (mentions db) of
        Inl e \<Rightarrow> (Inl e, db)
      | Inr t \<Rightarrow> (Inr (length (mentions db) < length t), db\<lparr>mentions := t\<rparr>))"

definition mention_order :: "entity_mention list \<Rightarrow> entity_mention list" where
  "mention_order t =
     order_desc me_confidence (order_asc me_memory (order_asc (\<lambda>x. field_text (me_field x)) t))"

definition findByEntityIds :: "'a entity_db_scheme \<Rightarrow> string \<Rightarrow> string list \<Rightarrow> entity_mention list" where
  "findByEntityIds db ownerId entityIds =
     (if entityIds = [] then []
      else mention_order (sql_select (\<lambda>x. me_owner x = ownerId \<and> me_entity x \<in> set entityIds) (mentions db)))"

definition findMentionsByMemory :: "'a entity_db_scheme \<Rightarrow> string \<Rightarrow> string \<Rightarrow> entity_mention list" where
  "findMentionsByMemory db ownerId memoryId =
     order_asc me_entity (order_asc (\<lambda>x. field_text (me_field x))
       (sql_select (\<lambda>x. me_owner x = ownerId \<and> me_memory x = memoryId) (mentions db)))"

definition countMentions :: "'a entity_db_scheme \<Rightarrow> string \<Rightarrow> nat" where
  "countMentions db ownerId = sql_count (\<lambda>x. me_owner x = ownerId) (mentions db)"

subsection \<open>Resolver\<close>

text \<open>The operations of \<^verbatim>\<open>IEntityRegistry\<close> the resolver calls.\<close>

record 'd entity_registry =
  rg_create :: "create_entity \<Rightarrow> mint \<Rightarrow> 'd \<Rightarrow> (app_error + canonical_entity) \<times> 'd"
  rg_by_name :: "'d \<Rightarrow> string \<Rightarrow> string \<Rightarrow> canonical_entity option"
  rg_by_alias :: "'d \<Rightarrow> string \<Rightarrow> string \<Rightarrow> canonical_entity option"

definition SqlEntityRegistry :: "'a entity_db_scheme entity_registry" where
  "SqlEntityRegistry =
     \<lparr>rg_create = \<lambda>input m db. createEntity db input m,
      rg_by_name = \<lambda>db ownerId n. findByNormalizedName db ownerId n None,
      rg_by_alias = findByNormalizedAlias\<rparr>"

datatype rule_match = Matched canonical_entity resolution_evidence | Unmatched string

definition applyResolutionRules ::
  "string \<Rightarrow> (string \<Rightarrow> canonical_entity option) \<Rightarrow> (string \<Rightarrow> canonical_entity option) \<Rightarrow> rule_match" where
  "applyResolutionRules symbol byNormalizedName byNormalizedAlias =
     (let normalized = normalizeSymbol symbol
      in if normalized = [] then Unmatched normalized
         else (case byNormalizedName normalized of
                 Some canonical \<Rightarrow> Matched canonical
                   \<lparr>re_version = RESOLVER_VERSION, re_rule = CanonicalExact, re_matched = symbol\<rparr>
               | None \<Rightarrow>
                   (case byNormalizedAlias normalized of
                      Some aliased \<Rightarrow> Matched aliased
                        \<lparr>re_version = RESOLVER_VERSION, re_rule = AliasExact, re_matched = symbol\<rparr>
                    | None \<Rightarrow> Unmatched normalized)))"

datatype symbol_resolution =
    Resolved symbol_input canonical_entity rat resolution_evidence
  | Unresolved symbol_input string

fun resolved :: "symbol_resolution \<Rightarrow> bool" where
  "resolved (Resolved _ _ _ _) = True"
| "resolved (Unresolved _ _) = False"

definition AUTO_CREATE_KIND_BY_FIELD :: "mention_field \<Rightarrow> entity_kind option" where
  "AUTO_CREATE_KIND_BY_FIELD field =
     (case field of CodenameField \<Rightarrow> Some ProjectKind | TagField \<Rightarrow> Some ConceptKind | KeywordField \<Rightarrow> None)"

definition resolveOne :: "'d entity_registry \<Rightarrow> 'd \<Rightarrow> string \<Rightarrow> symbol_input \<Rightarrow> symbol_resolution" where
  "resolveOne registry db ownerId input =
     (let normalized = normalizeSymbol (sy_symbol input)
      in if normalized = [] then Unresolved input normalized
         else let byName = rg_by_name registry db ownerId normalized;
                  byAlias = (if byName \<noteq> None then None else rg_by_alias registry db ownerId normalized)
              in case applyResolutionRules (sy_symbol input)
                   (\<lambda>n. if n = normalized then byName else None) (\<lambda>n. if n = normalized then byAlias else None) of
                   Unmatched n \<Rightarrow> Unresolved input n
                 | Matched entity ev \<Rightarrow> Resolved input entity 1 ev)"

definition resolve :: "'d entity_registry \<Rightarrow> 'd \<Rightarrow> string \<Rightarrow> symbol_input list \<Rightarrow> symbol_resolution list" where
  "resolve registry db ownerId symbols = map (resolveOne registry db ownerId) symbols"

text \<open>One turn of the loop of \<open>resolveWithAutoCreate\<close>; \<open>mints\<close> gives the symbol with this index its identifier and time.\<close>

definition autoResolveOne ::
  "'d entity_registry \<Rightarrow> string \<Rightarrow> symbol_input \<Rightarrow> mint \<Rightarrow> 'd \<Rightarrow> (app_error + symbol_resolution) \<times> 'd" where
  "autoResolveOne registry ownerId input m db =
     (let resolution = resolveOne registry db ownerId input
      in case AUTO_CREATE_KIND_BY_FIELD (sy_field input) of
           Some kind \<Rightarrow>
             if \<not> resolved resolution \<and> normalizeSymbol (sy_symbol input) \<noteq> []
             then then_st (rg_create registry
                     \<lparr>cn_owner = ownerId, cn_name = sy_symbol input, cn_kind = kind, cn_confidence = None,
                      cn_source = Some ''inferred''\<rparr> m db)
                   (\<lambda>_ db'. (Inr (resolveOne registry db' ownerId input), db'))
             else (Inr resolution, db)
         | None \<Rightarrow> (Inr resolution, db))"

fun resolveWithAutoCreate ::
  "'d entity_registry \<Rightarrow> string \<Rightarrow> (nat \<Rightarrow> mint) \<Rightarrow> symbol_input list \<Rightarrow> 'd \<Rightarrow> (app_error + symbol_resolution list) \<times> 'd" where
  "resolveWithAutoCreate registry ownerId mints [] db = (Inr [], db)"
| "resolveWithAutoCreate registry ownerId mints (input # symbols) db =
     then_st (autoResolveOne registry ownerId input (mints (length symbols)) db)
       (\<lambda>resolution db'. then_st (resolveWithAutoCreate registry ownerId mints symbols db')
          (\<lambda>results db''. (Inr (resolution # results), db'')))"

subsection \<open>The task\<close>

text \<open>What \<^verbatim>\<open>createEntityResolutionPorts\<close> builds, or \<open>None\<close> with the flag off.\<close>

record 'd entity_ports =
  ep_registry :: "'d entity_registry"
  ep_mention :: "'d \<Rightarrow> mention_input \<Rightarrow> mint \<Rightarrow> (app_error + bool) \<times> 'd"

definition createEntityResolutionPorts :: "bool \<Rightarrow> string \<Rightarrow> 'a entity_db_scheme entity_ports option" where
  "createEntityResolutionPorts isEnabled provider =
     (if \<not> isEnabled \<or> provider \<noteq> ''sql'' then None
      else Some \<lparr>ep_registry = SqlEntityRegistry, ep_mention = upsertMention\<rparr>)"

text \<open>The identifiers and times of one run: those of the entities and those of the mentions, by memory and symbol.\<close>

record resolution_mints =
  rm_entity :: "nat \<Rightarrow> nat \<Rightarrow> mint"
  rm_mention :: "nat \<Rightarrow> nat \<Rightarrow> mint"

text \<open>The loop over the resolutions of one memory counts the mentions inserted.\<close>

fun mention_loop ::
  "'d entity_ports \<Rightarrow> string \<Rightarrow> string \<Rightarrow> (nat \<Rightarrow> mint) \<Rightarrow> symbol_resolution list \<Rightarrow> nat \<Rightarrow> 'd \<Rightarrow> (app_error + nat) \<times> 'd" where
  "mention_loop ports ownerId memoryId mints [] upserted db = (Inr upserted, db)"
| "mention_loop ports ownerId memoryId mints (Unresolved _ _ # resolutions) upserted db =
     mention_loop ports ownerId memoryId mints resolutions upserted db"
| "mention_loop ports ownerId memoryId mints (Resolved input entity confidence ev # resolutions) upserted db =
     then_st (ep_mention ports db
         \<lparr>me_owner = ownerId, me_memory = memoryId, me_entity = ce_id entity, me_field = sy_field input,
          me_confidence = confidence, me_evidence = ev, me_source = ''inferred''\<rparr> (mints (length resolutions)))
       (\<lambda>inserted db'. mention_loop ports ownerId memoryId mints resolutions (if inserted then Suc upserted else upserted) db')"

fun resolution_loop ::
  "'d entity_ports \<Rightarrow> string \<Rightarrow> resolution_mints \<Rightarrow> 'm memory_scheme list \<Rightarrow> nat \<Rightarrow> 'd \<Rightarrow> (app_error + nat) \<times> 'd" where
  "resolution_loop ports ownerId mints [] upserted db = (Inr upserted, db)"
| "resolution_loop ports ownerId mints (m # ms) upserted db =
     then_st (resolveWithAutoCreate (ep_registry ports) ownerId (rm_entity mints (length ms)) (extractSymbols m) db)
       (\<lambda>resolutions db'.
          then_st (mention_loop ports ownerId (m_id m) (rm_mention mints (length ms)) resolutions upserted db')
            (\<lambda>n db''. resolution_loop ports ownerId mints ms n db''))"

text \<open>A dry run resolves without the registry being changed, and reports the numbers in its text only.\<close>

definition entityResolution ::
  "'a entity_db_scheme entity_ports option \<Rightarrow> resolution_mints \<Rightarrow> maintenance_ctx \<Rightarrow> 'a entity_db_scheme
     \<Rightarrow> (app_error + task_result) \<times> 'a entity_db_scheme" where
  "entityResolution portsOpt mints ctx db =
     (case portsOpt of
        None \<Rightarrow> (Inr (task_skipped ''entity-resolution'' EntityResolution), db)
      | Some ports \<Rightarrow>
          let scoped = scoped_memories ctx db
          in if mc_dry ctx then (Inr (task_done ''entity-resolution'' EntityResolution (length scoped) 0), db)
             else then_st (resolution_loop ports (ms_owner (mc_scope ctx)) mints scoped 0 db)
               (\<lambda>n db'. (Inr (task_done ''entity-resolution'' EntityResolution (length scoped) n), db')))"

definition EntityResolutionTask ::
  "'a entity_db_scheme entity_ports option \<Rightarrow> resolution_mints \<Rightarrow> 'a entity_db_scheme maintenance_task" where
  "EntityResolutionTask ports mints =
     \<lparr>task_id = ''entity-resolution'', task_stage = EntityResolution, task_run = entityResolution ports mints\<rparr>"

interpretation entity_task: dry_task "EntityResolutionTask ports mints" for ports mints
  by unfold_locales (simp add: EntityResolutionTask_def entityResolution_def Let_def split: option.splits)

end
