(* ===== verification/Entities_Laws.thy ===== *)
theory Entities_Laws
  imports Entities
begin

section \<open>Laws of canonical entities\<close>

text \<open>
  The normal form of a symbol is a normal form; the contract of the registry the resolver relies on,
  proved once for every registry and discharged by the SQL one; the invariant of the registry's tables;
  and how far the task is idempotent.
\<close>

subsection \<open>Normal form\<close>

fun single_spaced :: "bool \<Rightarrow> string \<Rightarrow> bool" where
  "single_spaced inrun [] = True"
| "single_spaced inrun (c # s) =
     (if js_space c then \<not> inrun \<and> c = CHR '' '' \<and> single_spaced True s else single_spaced False s)"

lemma js_space_blank [simp]: "js_space CHR '' ''" by (simp add: js_space_def)

lemma single_spaced_runs: "single_spaced inrun (replace_runs js_space inrun s)"
  by (induction js_space inrun s rule: replace_runs.induct) auto

lemma single_spaced_same: "single_spaced inrun s \<Longrightarrow> replace_runs js_space inrun s = s"
  by (induction inrun s rule: single_spaced.induct) (auto split: if_splits)

lemma single_spaced_append: "single_spaced inrun (s @ t) \<Longrightarrow> single_spaced inrun s"
  by (induction inrun s rule: single_spaced.induct) (auto split: if_splits)

lemma single_spaced_mono: "single_spaced True s \<Longrightarrow> single_spaced inrun s"
  by (cases s) (auto split: if_splits)

lemma single_spaced_drop: "single_spaced inrun s \<Longrightarrow> single_spaced inrun (dropWhile js_space s)"
  by (induction inrun s rule: single_spaced.induct) (auto split: if_splits intro: single_spaced_mono)

lemma single_spaced_trim: "single_spaced inrun s \<Longrightarrow> single_spaced inrun (js_trim s)"
  unfolding js_trim_def js_trim_start_def
  by (metis js_trim_end_prefix single_spaced_append single_spaced_drop)

lemma set_replace_runs: "set (replace_runs p inrun s) \<subseteq> {c \<in> set s. \<not> p c} \<union> {CHR '' ''}"
  by (induction p inrun s rule: replace_runs.induct) auto

lemma replace_runs_none: "(\<And>c. c \<in> set s \<Longrightarrow> \<not> p c) \<Longrightarrow> replace_runs p inrun s = s"
  by (induction p inrun s rule: replace_runs.induct) auto

lemma set_js_trim: "set (js_trim s) \<subseteq> set s"
  unfolding js_trim_def js_trim_end_def js_trim_start_def by (auto dest!: set_dropWhileD)

definition plain_char :: "char \<Rightarrow> bool" where
  "plain_char c \<longleftrightarrow> js_nfkc_char c = c \<and> js_lower_char c = c \<and> \<not> symbol_separator c \<and> (js_space c \<longrightarrow> c = CHR '' '')"

lemma lower_nfkc_char: "js_nfkc_char (js_lower_char (js_nfkc_char c)) = js_lower_char (js_nfkc_char c)"
  "js_nfkc_char (js_lower_char c) = js_lower_char (js_nfkc_char c)"
proof -
  have "of_char c < (256 :: nat)" by simp
  then show "js_nfkc_char (js_lower_char (js_nfkc_char c)) = js_lower_char (js_nfkc_char c)"
    "js_nfkc_char (js_lower_char c) = js_lower_char (js_nfkc_char c)"
    by (auto simp: js_lower_char_def js_nfkc_char_def Let_def)
qed

lemma plain_blank [simp]: "plain_char CHR '' ''"
  by (simp add: plain_char_def js_nfkc_char_def js_lower_char_def symbol_separator_def)

lemma plain_normalizeSymbol: "c \<in> set (normalizeSymbol s) \<Longrightarrow> plain_char c"
proof -
  let ?low = "js_lower (js_nfkc s)"
  assume "c \<in> set (normalizeSymbol s)"
  then have "c \<in> set (replace_runs js_space False (replace_runs symbol_separator False ?low))"
    unfolding normalizeSymbol_def using set_js_trim by blast
  then have "c = CHR '' '' \<or> \<not> js_space c \<and> c \<in> set (replace_runs symbol_separator False ?low)"
    using set_replace_runs by fastforce
  then have "c = CHR '' '' \<or> \<not> js_space c \<and> \<not> symbol_separator c \<and> c \<in> set ?low"
    using set_replace_runs by fastforce
  then show "plain_char c"
  proof (elim disjE conjE)
    assume c: "\<not> js_space c" "\<not> symbol_separator c" "c \<in> set ?low"
    then obtain x where "c = js_lower_char (js_nfkc_char x)" by (auto simp: js_lower_def js_nfkc_def)
    then have "js_nfkc_char c = c" "js_lower_char c = c" using lower_nfkc_char(1) [of x] by simp_all
    with c show ?thesis by (simp add: plain_char_def)
  qed simp
qed

text \<open>A run of separators and blanks is one blank.\<close>

lemma blank_separator: "\<not> symbol_separator c \<or> \<not> js_space c"
  by (auto simp: symbol_separator_def js_space_def)

lemma replace_runs_both:
  "inrun \<longrightarrow> inrun' \<Longrightarrow> replace_runs js_space inrun' (replace_runs symbol_separator inrun s) =
    replace_runs js_space inrun' (map (\<lambda>c. if symbol_separator c then CHR '' '' else c) s)"
  by (induction s arbitrary: inrun inrun') auto

lemma symbol_separator_code: "symbol_separator c \<longleftrightarrow> of_char c \<in> {45, 95 :: nat}"
proof -
  have code: "c = d \<longleftrightarrow> of_char c = (of_char d :: nat)" for d by (metis char_of_char)
  show ?thesis using code [of "CHR ''-''"] code [of "CHR ''_''"] by (simp add: symbol_separator_def)
qed

lemma separator_lower_nfkc: "symbol_separator (js_lower_char (js_nfkc_char c)) \<longleftrightarrow> symbol_separator c"
proof -
  have "of_char c < (256 :: nat)" by simp
  then show ?thesis by (auto simp: symbol_separator_code js_lower_char_def js_nfkc_char_def Let_def)
qed

lemma js_lower_map_separator:
  "js_lower (js_nfkc (map (\<lambda>c. if symbol_separator c then CHR '' '' else c) s)) =
     map (\<lambda>c. if symbol_separator c then CHR '' '' else c) (js_lower (js_nfkc s))"
  by (auto simp: js_lower_def js_nfkc_def separator_lower_nfkc) (simp_all add: js_nfkc_char_def js_lower_char_def)

text \<open>
  The normal form of a symbol is one: normalizing again changes nothing, it has no capitals, no
  separators, no blank at either end and no two blanks in a row, and it does not depend on the case
  of the letters or on which of \<open>-\<close>, \<open>_\<close> and blank separates the words.
\<close>

theorem normalizeSymbol_canonical:
  "normalizeSymbol (normalizeSymbol s) = normalizeSymbol s \<and> list_all plain_char (normalizeSymbol s) \<and>
   js_trim (normalizeSymbol s) = normalizeSymbol s \<and> single_spaced False (normalizeSymbol s) \<and>
   normalizeSymbol (js_lower s) = normalizeSymbol s \<and>
   normalizeSymbol (map (\<lambda>c. if symbol_separator c then CHR '' '' else c) s) = normalizeSymbol s"
proof (intro conjI)
  let ?t = "normalizeSymbol s"
  have plain: "plain_char c" if "c \<in> set ?t" for c using that by (rule plain_normalizeSymbol)
  then show "list_all plain_char ?t" by (simp add: list_all_iff)
  show trim: "js_trim ?t = ?t" by (simp add: normalizeSymbol_def)
  show single: "single_spaced False ?t" unfolding normalizeSymbol_def by (intro single_spaced_trim single_spaced_runs)
  have "js_lower (js_nfkc ?t) = ?t" using plain by (simp add: js_lower_def js_nfkc_def plain_char_def map_idI)
  moreover have "replace_runs symbol_separator False ?t = ?t" using plain by (intro replace_runs_none) (simp add: plain_char_def)
  ultimately show "normalizeSymbol ?t = ?t"
    unfolding normalizeSymbol_def [of ?t] by (simp add: single_spaced_same [OF single] trim)
  show "normalizeSymbol (js_lower s) = ?t"
    by (simp add: normalizeSymbol_def js_lower_def js_nfkc_def lower_nfkc_char comp_def)
  show "normalizeSymbol (map (\<lambda>c. if symbol_separator c then CHR '' '' else c) s) = ?t"
    unfolding normalizeSymbol_def js_lower_map_separator
    by (subst (1 2) replace_runs_both) (simp_all add: comp_def if_distrib cong: if_cong)
qed

subsection \<open>The resolver and the contract of its registry\<close>

text \<open>
  What the resolver relies on: a created entity is found under its normal form, creating one touches no
  other name and takes no alias away, and the registry's invariant is kept.
\<close>

locale resolving_registry =
  fixes registry :: "'d entity_registry" and ok :: "'d \<Rightarrow> bool"
  assumes create_ok: "rg_create registry c m db = (r, db') \<Longrightarrow> ok db \<Longrightarrow> ok db'"
    and create_found: "rg_create registry c m db = (Inr e, db') \<Longrightarrow>
      rg_by_name registry db' (cn_owner c) (normalizeSymbol (cn_name c)) \<noteq> None"
    and create_other: "rg_create registry c m db = (r, db') \<Longrightarrow> (o', n) \<noteq> (cn_owner c, normalizeSymbol (cn_name c)) \<Longrightarrow>
      rg_by_name registry db' o' n = rg_by_name registry db o' n"
    and create_alias: "rg_create registry c m db = (r, db') \<Longrightarrow> ok db \<Longrightarrow> rg_by_alias registry db o' n = Some e \<Longrightarrow>
      rg_by_alias registry db' o' n = Some e"
begin

definition stable :: "string \<Rightarrow> 'd \<Rightarrow> 'd \<Rightarrow> bool" where
  "stable o' db db' \<longleftrightarrow>
     (\<forall>input :: symbol_input. resolved (resolveOne registry db o' input) \<longrightarrow> resolveOne registry db' o' input = resolveOne registry db o' input)"

lemma stable_refl [simp]: "stable o' db db"
  by (simp add: stable_def)

lemma stable_trans: "stable o' a b \<Longrightarrow> stable o' b c \<Longrightarrow> stable o' a c"
  unfolding stable_def by metis

lemma stableD: "stable o' a b \<Longrightarrow> resolved (resolveOne registry a o' input) \<Longrightarrow>
    resolveOne registry b o' input = resolveOne registry a o' input"
  by (simp add: stable_def)

lemma resolveOne_cases:
  "resolveOne registry db o' (input :: symbol_input) =
     (let n = normalizeSymbol (sy_symbol input)
      in if n = [] then Unresolved input n
         else case rg_by_name registry db o' n of
           Some e \<Rightarrow> Resolved input e 1 \<lparr>re_version = RESOLVER_VERSION, re_rule = CanonicalExact, re_matched = sy_symbol input\<rparr>
         | None \<Rightarrow> (case rg_by_alias registry db o' n of
             Some e \<Rightarrow> Resolved input e 1 \<lparr>re_version = RESOLVER_VERSION, re_rule = AliasExact, re_matched = sy_symbol input\<rparr>
           | None \<Rightarrow> Unresolved input n))"
  by (simp add: resolveOne_def applyResolutionRules_def Let_def split: option.splits)

lemma create_stable:
  assumes "rg_create registry c m db = (r, db')" "ok db"
    and "rg_by_name registry db (cn_owner c) (normalizeSymbol (cn_name c)) = None"
    and "rg_by_alias registry db (cn_owner c) (normalizeSymbol (cn_name c)) = None"
  shows "stable o' db db'"
  unfolding stable_def
proof (intro allI impI)
  fix input :: symbol_input
  let ?n = "normalizeSymbol (sy_symbol input)"
  assume found: "resolved (resolveOne registry db o' input)"
  then have "(o', ?n) \<noteq> (cn_owner c, normalizeSymbol (cn_name c))"
    using assms(3,4) by (auto simp: resolveOne_cases Let_def split: if_splits option.splits)
  then have "rg_by_name registry db' o' ?n = rg_by_name registry db o' ?n" using create_other [OF assms(1)] by blast
  then show "resolveOne registry db' o' input = resolveOne registry db o' input"
    using found create_alias [OF assms(1,2)] by (auto simp: resolveOne_cases Let_def split: option.splits)
qed

definition creates :: "symbol_input \<Rightarrow> bool" where
  "creates input \<longleftrightarrow> AUTO_CREATE_KIND_BY_FIELD (sy_field input) \<noteq> None \<and> normalizeSymbol (sy_symbol input) \<noteq> []"

lemma autoResolveOne_stable:
  assumes "autoResolveOne registry o' input m db = (r, db')" "ok db"
  shows "ok db' \<and> stable o' db db' \<and>
    (\<forall>res. r = Inr res \<longrightarrow> res = resolveOne registry db' o' input \<and> (creates input \<longrightarrow> resolved res))"
proof (cases "creates input \<and> \<not> resolved (resolveOne registry db o' input)")
  case False
  then show ?thesis using assms by (auto simp: autoResolveOne_def creates_def Let_def split: option.splits if_splits)
next
  case True
  then obtain kind where kind: "AUTO_CREATE_KIND_BY_FIELD (sy_field input) = Some kind" by (auto simp: creates_def)
  let ?c = "\<lparr>cn_owner = o', cn_name = sy_symbol input, cn_kind = kind, cn_confidence = None, cn_source = Some ''inferred''\<rparr>"
  let ?n = "normalizeSymbol (sy_symbol input)"
  obtain q db1 where create: "rg_create registry ?c m db = (q, db1)" by fastforce
  have run: "(r, db') = then_st (q, db1) (\<lambda>_ db'. (Inr (resolveOne registry db' o' input), db'))"
    using assms(1) True kind create by (simp add: autoResolveOne_def creates_def Let_def)
  then have db': "db' = db1" by (cases q) simp_all
  have none: "rg_by_name registry db o' ?n = None" "rg_by_alias registry db o' ?n = None"
    using True by (auto simp: resolveOne_cases creates_def Let_def split: option.splits)
  have "stable o' db db1" using create_stable [OF create assms(2)] none by simp
  moreover have "ok db1" by (rule create_ok [OF create assms(2)])
  moreover have "resolved (resolveOne registry db1 o' input)" if "q = Inr e" for e
    using create_found [of ?c m db e db1] create that True
    by (auto simp: resolveOne_cases creates_def Let_def split: option.splits)
  ultimately show ?thesis using run by (cases q) (auto simp: db')
qed

lemma resolveWithAutoCreate_stable:
  assumes "resolveWithAutoCreate registry o' mints symbols db = (r, db')" "ok db"
  shows "ok db' \<and> stable o' db db' \<and>
    (\<forall>results. r = Inr results \<longrightarrow> length results = length symbols \<and>
       (\<forall>i < length symbols. (resolved (results ! i) \<longrightarrow> resolveOne registry db' o' (symbols ! i) = results ! i) \<and>
          (creates (symbols ! i) \<longrightarrow> resolved (results ! i))))"
  using assms
proof (induction symbols arbitrary: r db db')
  case (Cons input symbols)
  obtain q db1 where one: "autoResolveOne registry o' input (mints (length symbols)) db = (q, db1)" by fastforce
  note first = autoResolveOne_stable [OF one Cons.prems(2)]
  show ?case
  proof (cases q)
    case (Inl e)
    then show ?thesis using Cons.prems(1) one first by auto
  next
    case (Inr res)
    obtain q' db2 where rest: "resolveWithAutoCreate registry o' mints symbols db1 = (q', db2)" by fastforce
    note later = Cons.IH [OF rest] 
    have run: "(r, db') = then_st (q', db2) (\<lambda>results db''. (Inr (res # results), db''))"
      using Cons.prems(1) one Inr rest by simp
    then have db': "db' = db2" by (cases q') simp_all
    have "stable o' db db2" "ok db2" using first later stable_trans by blast+
    moreover have "resolved res \<longrightarrow> resolveOne registry db2 o' input = res" "creates input \<longrightarrow> resolved res"
      using first later Inr by (auto dest: stableD)
    ultimately show ?thesis
      using run later first by (cases q') (auto simp: db' nth_Cons split: nat.splits)
  qed
qed auto

lemma resolveWithAutoCreate_settled:
  assumes "\<And>input. input \<in> set symbols \<Longrightarrow> creates input \<Longrightarrow> resolved (resolveOne registry db o' input)"
  shows "resolveWithAutoCreate registry o' mints symbols db = (Inr (resolve registry db o' symbols), db)"
  using assms
proof (induction symbols)
  case (Cons input symbols)
  then have "autoResolveOne registry o' input m db = (Inr (resolveOne registry db o' input), db)" for m
    by (auto simp: autoResolveOne_def creates_def Let_def split: option.splits)
  with Cons show ?case by (simp add: resolve_def)
qed (simp add: resolve_def)

end

subsection \<open>The SQL registry\<close>

definition registry_ok :: "'a entity_db_scheme \<Rightarrow> bool" where
  "registry_ok db \<longleftrightarrow>
     distinct (map ce_id (entities db)) \<and> distinct (map entity_key (entities db)) \<and>
     list_all (\<lambda>e. ce_normalized e = normalizeSymbol (ce_name e)) (entities db) \<and>
     distinct (map alias_key (aliases db)) \<and>
     list_all (\<lambda>a. al_normalized a = normalizeSymbol (al_alias a)) (aliases db)"

lemma insert_ignore_cases:
  assumes "sql_insert_ignore conflict clash r t = Inr t'"
  shows "t' = t \<and> list_ex (conflict r) t \<or> t' = t @ [r] \<and> \<not> list_ex (conflict r) t \<and> (\<forall>s \<in> set t. \<not> clash r s)"
  using assms by (auto simp: sql_insert_ignore_def split: if_splits)

lemma filter_key_single: "distinct (map f xs) \<Longrightarrow> filter (\<lambda>x. f x = k) xs = [] \<or> (\<exists>x. filter (\<lambda>x. f x = k) xs = [x])"
  by (induction xs) (auto simp: filter_empty_conv image_iff)

lemma first_row_append: "first_row (xs @ ys) = (case first_row xs of None \<Rightarrow> first_row ys | Some x \<Rightarrow> Some x)"
  by (cases xs) simp_all

lemma first_row_None [simp]: "first_row xs = None \<longleftrightarrow> xs = []"
  by (cases xs) simp_all

lemma order_asc_Nil [simp]: "order_asc k t = [] \<longleftrightarrow> t = []"
  by (metis set_order_asc set_empty)

lemma findByNormalizedName_None:
  "findByNormalizedName db o' n None = None \<longleftrightarrow> (\<forall>e \<in> set (entities db). ce_owner e = o' \<longrightarrow> ce_normalized e \<noteq> n)"
  by (auto simp: findByNormalizedName_def sql_select_def filter_empty_conv)

lemma createEntity_cases:
  assumes "createEntity db c m = (r, db')"
  obtains (same) "db' = db" "\<And>e. r = Inr e \<Longrightarrow> e \<in> set (entities db) \<and> ce_owner e = cn_owner c \<and> ce_normalized e = normalizeSymbol (cn_name c)"
    | (new) row where "db' = db\<lparr>entities := entities db @ [row]\<rparr>" "r = Inr row" "\<forall>s \<in> set (entities db). \<not> entity_clash row s"
      "ce_id row = mint_id m" "ce_owner row = cn_owner c" "ce_name row = cn_name c" "ce_normalized row = normalizeSymbol (cn_name c)"
      "ce_kind row = cn_kind c"
proof -
  let ?n = "normalizeSymbol (cn_name c)"
  let ?row = "\<lparr>ce_id = mint_id m, ce_owner = cn_owner c, ce_name = cn_name c, ce_normalized = ?n,
    ce_kind = cn_kind c, ce_confidence = nullish (cn_confidence c) 1, ce_source = nullish (cn_source c) ''inferred'',
    ce_created = mint_now m, ce_updated = mint_now m\<rparr>"
  show thesis
  proof (cases "findByNormalizedName db (cn_owner c) ?n (Some (cn_kind c))")
    case (Some e)
    then have "r = Inr e" "db' = db" "e \<in> set (entities db) \<and> ce_owner e = cn_owner c \<and> ce_normalized e = ?n"
      using assms sql_first_SomeD by (fastforce simp: createEntity_def findByNormalizedName_def Let_def)+
    then show thesis using same by blast
  next
    case None
    then have free: "\<not> list_ex (\<lambda>s. entity_key ?row = entity_key s) (entities db)"
      by (auto simp: findByNormalizedName_def entity_key_def list_ex_iff)
    show thesis
    proof (cases "sql_insert entity_clash ?row (entities db)")
      case (Inl e)
      then show thesis using same assms None free by (auto simp: createEntity_def sql_insert_ignore_def Let_def)
    next
      case (Inr t)
      then have t: "t = entities db @ [?row]" "\<forall>s \<in> set (entities db). \<not> entity_clash ?row s" by simp_all
      have "findByNormalizedName (db\<lparr>entities := t\<rparr>) (cn_owner c) ?n (Some (cn_kind c)) = Some ?row"
        using None by (simp add: t(1) findByNormalizedName_def sql_first_append sql_first_Cons del: sql_first_None)
      then have "r = Inr ?row" "db' = db\<lparr>entities := t\<rparr>"
        using assms None free Inr by (auto simp: createEntity_def sql_insert_ignore_def Let_def simp del: sql_insert_Inr)
      then show thesis using new [of ?row] t by simp
    qed
  qed
qed

lemma createEntity_ok:
  assumes "createEntity db c m = (r, db')" "registry_ok db"
  shows "registry_ok db'"
  using assms(1)
proof (cases rule: createEntity_cases)
  case (new row)
  then show ?thesis using assms(2) by (auto simp: registry_ok_def entity_clash_def)
qed (use assms(2) in simp)

interpretation sql_registry: resolving_registry SqlEntityRegistry registry_ok
proof
  fix c m db r db' o' n e
  assume run: "rg_create SqlEntityRegistry c m db = (r, db')"
  then have create: "createEntity db c m = (r, db')" by (simp add: SqlEntityRegistry_def)
  show "registry_ok db'" if "registry_ok db" using createEntity_ok [OF create that] .
  show "rg_by_name SqlEntityRegistry db' o' n = rg_by_name SqlEntityRegistry db o' n"
    if "(o', n) \<noteq> (cn_owner c, normalizeSymbol (cn_name c))"
    using create
  proof (cases rule: createEntity_cases)
    case (new row)
    then show ?thesis using that by (auto simp: SqlEntityRegistry_def findByNormalizedName_def sql_select_def)
  qed simp
  show "rg_by_alias SqlEntityRegistry db' o' n = Some e"
    if "registry_ok db" "rg_by_alias SqlEntityRegistry db o' n = Some e"
    using create
  proof (cases rule: createEntity_cases)
    case (new row)
    have "distinct (map alias_key (aliases db))" using that(1) by (simp add: registry_ok_def)
    from filter_key_single [OF this, of "(o', n)"] that(2) obtain a where
      "filter (\<lambda>a. alias_key a = (o', n)) (aliases db) = [a]"
      by (auto simp: SqlEntityRegistry_def findByNormalizedAlias_def sql_select_def alias_key_def)
    then show ?thesis using that(2)
      by (auto simp: new(1) SqlEntityRegistry_def findByNormalizedAlias_def sql_select_def alias_key_def first_row_append)
  qed (use that(2) in simp)
next
  fix c m db e db'
  assume "rg_create SqlEntityRegistry c m db = (Inr e, db')"
  then have "createEntity db c m = (Inr e, db')" by (simp add: SqlEntityRegistry_def)
  then show "rg_by_name SqlEntityRegistry db' (cn_owner c) (normalizeSymbol (cn_name c)) \<noteq> None"
  proof (cases rule: createEntity_cases)
    case same
    then show ?thesis by (auto simp: SqlEntityRegistry_def findByNormalizedName_None)
  next
    case (new row)
    then show ?thesis by (auto simp: SqlEntityRegistry_def findByNormalizedName_None)
  qed
qed

text \<open>
  Resolution with auto-creation resolves every codename and every tag whose normal form is not
  empty; what it returns as resolved, and whatever was resolved before, resolves the same way
  afterwards; it keeps the registry's invariant; and repeating it on the same symbols changes nothing.
\<close>

theorem auto_create_resolves:
  assumes "registry_ok db" "resolveWithAutoCreate SqlEntityRegistry o' mints symbols db = (Inr results, db')"
  shows "registry_ok db' \<and> length results = length symbols \<and>
    (\<forall>i < length symbols. (resolved (results ! i) \<longrightarrow> resolveOne SqlEntityRegistry db' o' (symbols ! i) = results ! i) \<and>
       (sy_field (symbols ! i) \<noteq> KeywordField \<and> normalizeSymbol (sy_symbol (symbols ! i)) \<noteq> [] \<longrightarrow> resolved (results ! i))) \<and>
    (\<forall>input :: symbol_input. resolved (resolveOne SqlEntityRegistry db o' input) \<longrightarrow>
       resolveOne SqlEntityRegistry db' o' input = resolveOne SqlEntityRegistry db o' input) \<and>
    snd (resolveWithAutoCreate SqlEntityRegistry o' mints' symbols db') = db'"
proof -
  have creates: "sql_registry.creates input \<longleftrightarrow> sy_field input \<noteq> KeywordField \<and> normalizeSymbol (sy_symbol input) \<noteq> []" for input
    by (cases "sy_field input") (simp_all add: sql_registry.creates_def AUTO_CREATE_KIND_BY_FIELD_def)
  from sql_registry.resolveWithAutoCreate_stable [OF assms(2,1)]
  have run: "registry_ok db'" "sql_registry.stable o' db db'" "length results = length symbols"
    and each: "\<And>i. i < length symbols \<Longrightarrow> (resolved (results ! i) \<longrightarrow> resolveOne SqlEntityRegistry db' o' (symbols ! i) = results ! i) \<and>
      (sql_registry.creates (symbols ! i) \<longrightarrow> resolved (results ! i))" by auto
  have "resolved (resolveOne SqlEntityRegistry db' o' input)" if "input \<in> set symbols" "sql_registry.creates input" for input
    using each that by (metis in_set_conv_nth)
  from sql_registry.resolveWithAutoCreate_settled [OF this]
  have "snd (resolveWithAutoCreate SqlEntityRegistry o' mints' symbols db') = db'" by (simp add: snd_def)
  with run each show ?thesis by (simp add: creates sql_registry.stable_def)
qed

subsection \<open>Invariant of the registry\<close>

datatype registry_op =
    CreateEntityOp create_entity mint
  | AddAliasOp string string string mint
  | UpdateMetadataOp string string "string option" "rat option" string

fun registry_step :: "registry_op \<Rightarrow> 'a entity_db_scheme \<Rightarrow> 'a entity_db_scheme" where
  "registry_step (CreateEntityOp c m) db = snd (createEntity db c m)"
| "registry_step (AddAliasOp o' e a m) db = snd (addAlias db o' e a m)"
| "registry_step (UpdateMetadataOp o' e name confidence now) db = snd (updateEntityMetadata db o' e name confidence now)"

definition identity_of :: "canonical_entity \<Rightarrow> string \<times> string \<times> entity_kind \<times> string" where
  "identity_of e = (ce_id e, ce_owner e, ce_kind e, ce_created e)"

definition keeps_identities :: "'a entity_db_scheme \<Rightarrow> 'a entity_db_scheme \<Rightarrow> bool" where
  "keeps_identities db db' \<longleftrightarrow> (\<exists>new. map identity_of (entities db') = map identity_of (entities db) @ new)"

lemma keeps_identities_refl [simp]: "keeps_identities db db"
  by (simp add: keeps_identities_def)

lemma keeps_identities_trans: "keeps_identities a b \<Longrightarrow> keeps_identities b c \<Longrightarrow> keeps_identities a c"
  by (auto simp: keeps_identities_def)

lemma keeps_identities_append: "keeps_identities db (db\<lparr>entities := entities db @ rows\<rparr>)"
  by (simp add: keeps_identities_def)

lemma addAlias_cases:
  assumes "addAlias db o' e a m = (r, db')"
  obtains (refused) "db' = db" "isl r"
    | (taken) x where "db' = db" "r = Inr x" "x \<in> set (aliases db)" "alias_key x = (o', normalizeSymbol a)"
    | (new) row where "db' = db\<lparr>aliases := aliases db @ [row]\<rparr>" "r = Inr row" "\<forall>s \<in> set (aliases db). alias_key s \<noteq> alias_key row"
      "alias_key row = (o', normalizeSymbol a)" "al_entity row = e" "al_alias row = a"
proof -
  let ?n = "normalizeSymbol a"
  let ?row = "\<lparr>al_id = mint_id m, al_owner = o', al_entity = e, al_alias = a, al_normalized = ?n,
    al_source = ''inferred'', al_created = mint_now m\<rparr>"
  let ?find = "sql_first (\<lambda>a. al_owner a = o' \<and> al_normalized a = ?n)"
  show thesis
  proof (cases "sql_insert_ignore (\<lambda>r s. alias_key r = alias_key s) alias_clash ?row (aliases db)")
    case (Inl x)
    then show thesis using refused assms by (auto simp: addAlias_def Let_def)
  next
    case (Inr t)
    from insert_ignore_cases [OF Inr] show thesis
    proof (elim disjE conjE)
      assume t: "t = aliases db" and "list_ex (\<lambda>s. alias_key ?row = alias_key s) (aliases db)"
      then obtain x where "?find (aliases db) = Some x"
        by (cases "?find (aliases db)") (auto simp: alias_key_def list_ex_iff)
      then show thesis using taken [of x] sql_first_SomeD assms Inr t
        by (fastforce simp: addAlias_def Let_def alias_key_def)
    next
      assume t: "t = aliases db @ [?row]" and free: "\<not> list_ex (\<lambda>s. alias_key ?row = alias_key s) (aliases db)"
      then have "?find (aliases db) = None" by (auto simp: alias_key_def list_ex_iff)
      then have "?find t = Some ?row" by (simp add: t sql_first_append sql_first_Cons del: sql_first_None)
      then have run: "db' = db\<lparr>aliases := t\<rparr>" "r = Inr ?row" using assms Inr by (auto simp: addAlias_def Let_def)
      show thesis
      proof (rule new [of ?row])
        show "\<forall>s \<in> set (aliases db). alias_key s \<noteq> alias_key ?row" using free by (auto simp: list_ex_iff)
      qed (use run t in \<open>simp_all add: alias_key_def\<close>)
    qed
  qed
qed

lemma updateEntityMetadata_cases:
  assumes "updateEntityMetadata db o' i name confidence now = (r, db')"
  obtains (refused) "db' = db" "isl r"
    | (changed) current where "findEntityById db o' i = Some current"
      "db' = db\<lparr>entities := sql_update (\<lambda>e. ce_owner e = o' \<and> ce_id e = i)
         (\<lambda>e. e\<lparr>ce_name := nullish name (ce_name current), ce_normalized := normalizeSymbol (nullish name (ce_name current)),
            ce_confidence := nullish confidence (ce_confidence current), ce_updated := now\<rparr>) (entities db)\<rparr>"
      "distinct (map entity_key (entities db'))"
  using assms
  by (auto simp: updateEntityMetadata_def Let_def split: option.splits if_splits)

lemma registry_step_ok:
  assumes "registry_ok db"
  shows "registry_ok (registry_step op db) \<and> keeps_identities db (registry_step op db)"
proof (cases op)
  case (CreateEntityOp c m)
  obtain r db' where run: "createEntity db c m = (r, db')" by fastforce
  have "keeps_identities db db'"
    using run by (cases rule: createEntity_cases) (auto intro: keeps_identities_append)
  then show ?thesis using createEntity_ok [OF run assms] by (simp add: CreateEntityOp run)
next
  case (AddAliasOp o' e a m)
  obtain r db' where run: "addAlias db o' e a m = (r, db')" by fastforce
  have "registry_ok db' \<and> entities db' = entities db"
    using run
  proof (cases rule: addAlias_cases)
    case (new row)
    then show ?thesis using assms by (auto simp: registry_ok_def alias_key_def)
  qed (use assms in simp_all)
  then show ?thesis by (simp add: AddAliasOp run keeps_identities_def)
next
  case (UpdateMetadataOp o' i name confidence now)
  obtain r db' where run: "updateEntityMetadata db o' i name confidence now = (r, db')" by fastforce
  have "registry_ok db' \<and> keeps_identities db db'"
    using run
  proof (cases rule: updateEntityMetadata_cases)
    case (changed current)
    have "map ce_id (entities db') = map ce_id (entities db)" "map identity_of (entities db') = map identity_of (entities db)"
      unfolding changed(2) by (simp_all add: map_sql_update identity_of_def)
    then show ?thesis using assms changed(3) unfolding registry_ok_def keeps_identities_def
      by (auto simp: changed(2) list_all_iff set_sql_update)
  qed (use assms in simp)
  then show ?thesis by (simp add: UpdateMetadataOp run)
qed

text \<open>
  C39: The registry keeps its invariant through every sequence of creations, aliases and renames: one entity per
  owner, normal form and kind, one alias per owner and normal form, every stored normal form is
  the normal form of the stored name, and an entity, once there, keeps its identifier, owner, kind
  and time of creation for ever, so no mention is ever re-keyed.
\<close>

theorem registry_invariant:
  assumes "registry_ok db"
  shows "registry_ok (fold registry_step ops db) \<and> keeps_identities db (fold registry_step ops db)"
  using assms
proof (induction ops arbitrary: db)
  case (Cons op ops)
  note step = registry_step_ok [OF Cons.prems, of op]
  with Cons.IH [of "registry_step op db"] show ?case by (auto intro: keeps_identities_trans)
qed simp

subsection \<open>Runs of the task\<close>

abbreviation "sql_ports \<equiv> \<lparr>ep_registry = SqlEntityRegistry, ep_mention = upsertMention\<rparr>"

lemma sql_registry_ops:
  "rg_create SqlEntityRegistry c m db = createEntity db c m"
  "rg_by_name SqlEntityRegistry db o' n = findByNormalizedName db o' n None"
  "rg_by_alias SqlEntityRegistry db o' n = findByNormalizedAlias db o' n"
  by (simp_all add: SqlEntityRegistry_def)

lemma resolveOne_cong:
  assumes "entities db' = entities db" "aliases db' = aliases db"
  shows "resolveOne SqlEntityRegistry db' o' (input :: symbol_input) = resolveOne SqlEntityRegistry db o' input"
proof -
  have "rg_by_name SqlEntityRegistry db' o' n = rg_by_name SqlEntityRegistry db o' n"
    "rg_by_alias SqlEntityRegistry db' o' n = rg_by_alias SqlEntityRegistry db o' n" for n
    using assms by (simp_all add: sql_registry_ops findByNormalizedName_def findByNormalizedAlias_def)
  then show ?thesis by (simp only: sql_registry.resolveOne_cases)
qed

lemma registry_ok_cong: "entities db' = entities db \<Longrightarrow> aliases db' = aliases db \<Longrightarrow> registry_ok db' = registry_ok db"
  by (simp add: registry_ok_def)

lemma autoResolveOne_frame:
  assumes "autoResolveOne SqlEntityRegistry o' input m db = (r, db')"
  shows "\<exists>t. db' = db\<lparr>entities := t\<rparr>"
proof -
  have "db' = db \<or> (\<exists>c r. createEntity db c m = (r, db'))"
    using assms
    by (auto simp: autoResolveOne_def sql_registry_ops Let_def then_st_def split: option.splits if_splits prod.splits sum.splits)
  moreover have "db = db\<lparr>entities := entities db\<rparr>" by simp
  ultimately show ?thesis by (blast elim: createEntity_cases)
qed

lemma resolveWithAutoCreate_frame:
  "resolveWithAutoCreate SqlEntityRegistry o' mints symbols db = (r, db') \<Longrightarrow> \<exists>t. db' = db\<lparr>entities := t\<rparr>"
proof (induction symbols arbitrary: r db db')
  case Nil
  then have "db' = db\<lparr>entities := entities db\<rparr>" by simp
  then show ?case by blast
next
  case (Cons input symbols)
  obtain q db1 where one: "autoResolveOne SqlEntityRegistry o' input (mints (length symbols)) db = (q, db1)" by fastforce
  have "\<exists>t. db1 = db\<lparr>entities := t\<rparr>" by (rule autoResolveOne_frame [OF one])
  moreover have "\<exists>t. db' = db1\<lparr>entities := t\<rparr>"
  proof (cases q)
    case (Inl e)
    then have "db' = db1\<lparr>entities := entities db1\<rparr>" using Cons.prems one by simp
    then show ?thesis by blast
  next
    case (Inr res)
    obtain q' db2 where rest: "resolveWithAutoCreate SqlEntityRegistry o' mints symbols db1 = (q', db2)" by fastforce
    then have "db' = db2" using Cons.prems one Inr by (cases q') simp_all
    then show ?thesis using Cons.IH [OF rest] by simp
  qed
  ultimately show ?case by auto
qed

fun mentioned :: "'a entity_db_scheme \<Rightarrow> string \<Rightarrow> string \<Rightarrow> symbol_resolution \<Rightarrow> bool" where
  "mentioned db o' memoryId (Resolved input e _ _) \<longleftrightarrow>
     (o', memoryId, ce_id e, sy_field input) \<in> mention_key ` set (mentions db)"
| "mentioned db o' memoryId (Unresolved _ _) = True"

lemma mentioned_mono:
  "mentioned db o' i res \<Longrightarrow> mention_key ` set (mentions db) \<subseteq> mention_key ` set (mentions db') \<Longrightarrow> mentioned db' o' i res"
  by (cases res) auto

lemma mention_row_key [simp]: "mention_key (mention_row x m) = (me_owner x, me_memory x, me_entity x, me_field x)"
  by (simp add: mention_key_def mention_row_def mention_input.defs)

lemma upsertMention_run:
  assumes "upsertMention db x m = (r, db')"
  shows "(\<exists>t. db' = db\<lparr>mentions := mentions db @ t\<rparr>) \<and>
    (\<not> isl r \<longrightarrow> (me_owner x, me_memory x, me_entity x, me_field x) \<in> mention_key ` set (mentions db'))"
proof (cases "sql_insert_ignore (\<lambda>r s. mention_key r = mention_key s) mention_clash (mention_row x m) (mentions db)")
  case (Inl e)
  then have "isl r" "db' = db\<lparr>mentions := mentions db @ []\<rparr>" using assms by (auto simp: upsertMention_def)
  then show ?thesis by blast
next
  case (Inr t)
  then have db': "db' = db\<lparr>mentions := t\<rparr>" using assms by (auto simp: upsertMention_def)
  from insert_ignore_cases [OF Inr] show ?thesis
    unfolding db'
  proof (elim disjE conjE)
    assume "t = mentions db" and hit: "list_ex (\<lambda>s. mention_key (mention_row x m) = mention_key s) (mentions db)"
    then show "(\<exists>t'. db\<lparr>mentions := t\<rparr> = db\<lparr>mentions := mentions db @ t'\<rparr>) \<and>
      (\<not> isl r \<longrightarrow> (me_owner x, me_memory x, me_entity x, me_field x) \<in> mention_key ` set (mentions (db\<lparr>mentions := t\<rparr>)))"
      by (auto simp: list_ex_iff intro!: exI [of _ "[]"] image_eqI)
  qed auto
qed

lemma upsertMention_known:
  assumes "(me_owner x, me_memory x, me_entity x, me_field x) \<in> mention_key ` set (mentions db)"
  shows "upsertMention db x m = (Inr False, db)"
proof -
  have "list_ex (\<lambda>s. mention_key (mention_row x m) = mention_key s) (mentions db)"
    using assms by (auto simp: list_ex_iff)
  then show ?thesis by (simp add: upsertMention_def sql_insert_ignore_def)
qed

lemma mention_loop_run:
  "mention_loop sql_ports o' i mints rs n db = (r, db') \<Longrightarrow>
     (\<exists>t. db' = db\<lparr>mentions := mentions db @ t\<rparr>) \<and> (\<forall>k. r = Inr k \<longrightarrow> (\<forall>res \<in> set rs. mentioned db' o' i res))"
proof (induction rs arbitrary: n r db db')
  case Nil
  then have "db' = db\<lparr>mentions := mentions db @ []\<rparr>" by simp
  then show ?case by (metis empty_iff list.set(1))
next
  case (Cons res rs)
  show ?case
  proof (cases res)
    case (Unresolved a b)
    then show ?thesis using Cons by simp
  next
    case (Resolved input e c ev)
    let ?x = "\<lparr>me_owner = o', me_memory = i, me_entity = ce_id e, me_field = sy_field input,
            me_confidence = c, me_evidence = ev, me_source = ''inferred''\<rparr>"
    obtain q db1 where one: "upsertMention db ?x (mints (length rs)) = (q, db1)" by fastforce
    from upsertMention_run [OF one] obtain t where t: "db1 = db\<lparr>mentions := mentions db @ t\<rparr>"
      and known: "\<not> isl q \<longrightarrow> (o', i, ce_id e, sy_field input) \<in> mention_key ` set (mentions db1)" by auto
    show ?thesis
    proof (cases q)
      case (Inl err)
      then show ?thesis using Cons.prems Resolved one t by auto
    next
      case (Inr b)
      then have "mention_loop sql_ports o' i mints rs (if b then Suc n else n) db1 = (r, db')"
        using Cons.prems Resolved one by simp
      from Cons.IH [OF this] show ?thesis using known Inr t Resolved by (auto simp: image_iff)
    qed
  qed
qed

lemma mention_loop_settled:
  "(\<And>res. res \<in> set rs \<Longrightarrow> mentioned db o' i res) \<Longrightarrow> mention_loop sql_ports o' i mints rs n db = (Inr n, db)"
proof (induction rs)
  case (Cons res rs)
  then show ?case using Cons.prems [of res] by (cases res) (simp_all add: upsertMention_known)
qed simp

definition mention_keys_of :: "'a entity_db_scheme \<Rightarrow> (string \<times> string \<times> string \<times> mention_field) set" where
  "mention_keys_of db = mention_key ` set (mentions db)"

definition settled_symbols :: "string \<Rightarrow> memory list \<Rightarrow> 'a entity_db_scheme \<Rightarrow> bool" where
  "settled_symbols o' ms db \<longleftrightarrow>
     (\<forall>m \<in> set ms. \<forall>s \<in> set (extractSymbols m). sql_registry.creates s \<longrightarrow> resolved (resolveOne SqlEntityRegistry db o' s))"

definition settled_mentions :: "string \<Rightarrow> memory list \<Rightarrow> 'a entity_db_scheme \<Rightarrow> bool" where
  "settled_mentions o' ms db \<longleftrightarrow>
     (\<forall>m \<in> set ms. \<forall>s \<in> set (extractSymbols m). mentioned db o' (m_id m) (resolveOne SqlEntityRegistry db o' s))"

lemma resolution_loop_run:
  assumes "resolution_loop sql_ports o' mints ms n db = (r, db')" "registry_ok db"
  shows "registry_ok db' \<and> sql_registry.stable o' db db' \<and> memories db' = memories db \<and>
    mention_keys_of db \<subseteq> mention_keys_of db' \<and> (\<not> isl r \<longrightarrow> settled_symbols o' ms db')"
  using assms
proof (induction ms arbitrary: n r db)
  case (Cons m ms)
  obtain q db1 where one: "resolveWithAutoCreate SqlEntityRegistry o' (rm_entity mints (length ms)) (extractSymbols m) db = (q, db1)" by fastforce
  note first = sql_registry.resolveWithAutoCreate_stable [OF one Cons.prems(2)]
  from resolveWithAutoCreate_frame [OF one] have f1: "memories db1 = memories db" "mention_keys_of db1 = mention_keys_of db"
    by (auto simp: mention_keys_of_def)
  show ?case
  proof (cases q)
    case (Inl e)
    then show ?thesis using Cons.prems(1) one first f1 by auto
  next
    case (Inr results)
    obtain q' db2 where two: "mention_loop sql_ports o' (m_id m) (rm_mention mints (length ms)) results n db1 = (q', db2)" by fastforce
    from mention_loop_run [OF two] have f2: "entities db2 = entities db1" "aliases db2 = aliases db1" "memories db2 = memories db1"
      "mention_keys_of db1 \<subseteq> mention_keys_of db2" by (auto simp: mention_keys_of_def)
    have same: "resolveOne SqlEntityRegistry db2 o' input = resolveOne SqlEntityRegistry db1 o' input" for input :: symbol_input
      using f2 by (intro resolveOne_cong)
    have st: "sql_registry.stable o' db db2" "registry_ok db2"
      using first same registry_ok_cong [OF f2(1,2)] unfolding sql_registry.stable_def by simp_all
    show ?thesis
    proof (cases q')
      case (Inl e)
      then show ?thesis using Cons.prems(1) one two Inr st f1 f2 by auto
    next
      case inr: (Inr k)
      then have run: "resolution_loop sql_ports o' mints ms k db2 = (r, db')" using Cons.prems(1) one two Inr by simp
      note rest = Cons.IH [OF run st(2)]
      have "resolved (resolveOne SqlEntityRegistry db2 o' s)" if "s \<in> set (extractSymbols m)" "sql_registry.creates s" for s
        unfolding same using first Inr that by (metis in_set_conv_nth)
      then have "\<forall>s \<in> set (extractSymbols m). sql_registry.creates s \<longrightarrow> resolved (resolveOne SqlEntityRegistry db' o' s)"
        using rest by (auto simp: sql_registry.stable_def)
      then show ?thesis using rest st(1) f1 f2 by (auto simp: settled_symbols_def intro: sql_registry.stable_trans)
    qed
  qed
qed (simp add: settled_symbols_def)

lemma resolution_loop_settled:
  assumes "resolution_loop sql_ports o' mints ms n db = (r, db')" "settled_symbols o' ms db"
  shows "entities db' = entities db \<and> aliases db' = aliases db \<and> memories db' = memories db \<and>
    mention_keys_of db \<subseteq> mention_keys_of db' \<and> (\<not> isl r \<longrightarrow> settled_mentions o' ms db')"
  using assms
proof (induction ms arbitrary: n r db)
  case (Cons m ms)
  have one: "resolveWithAutoCreate SqlEntityRegistry o' (rm_entity mints (length ms)) (extractSymbols m) db =
      (Inr (resolve SqlEntityRegistry db o' (extractSymbols m)), db)"
    using Cons.prems(2) by (intro sql_registry.resolveWithAutoCreate_settled) (simp add: settled_symbols_def)
  let ?results = "resolve SqlEntityRegistry db o' (extractSymbols m)"
  obtain q db2 where two: "mention_loop sql_ports o' (m_id m) (rm_mention mints (length ms)) ?results n db = (q, db2)" by fastforce
  from mention_loop_run [OF two] have f: "entities db2 = entities db" "aliases db2 = aliases db" "memories db2 = memories db"
    "mention_keys_of db \<subseteq> mention_keys_of db2"
    and done1: "\<And>k. q = Inr k \<Longrightarrow> \<forall>res \<in> set ?results. mentioned db2 o' (m_id m) res" by (auto simp: mention_keys_of_def)
  show ?case
  proof (cases q)
    case (Inl e)
    then show ?thesis using Cons.prems(1) one two f by auto
  next
    case (Inr k)
    then have run: "resolution_loop sql_ports o' mints ms k db2 = (r, db')" using Cons.prems(1) one two by simp
    have same: "resolveOne SqlEntityRegistry db2 o' input = resolveOne SqlEntityRegistry db o' input" for input :: symbol_input
      using f by (intro resolveOne_cong)
    have "settled_symbols o' ms db2" using Cons.prems(2) by (simp add: settled_symbols_def same)
    note rest = Cons.IH [OF run this]
    have "resolveOne SqlEntityRegistry db' o' input = resolveOne SqlEntityRegistry db o' input" for input :: symbol_input
      using rest f by (intro resolveOne_cong) auto
    moreover have "mentioned db' o' (m_id m) (resolveOne SqlEntityRegistry db o' s)" if "s \<in> set (extractSymbols m)" for s
      using done1 [OF Inr] that rest by (auto simp: resolve_def mention_keys_of_def intro: mentioned_mono)
    ultimately show ?thesis using rest f by (auto simp: settled_mentions_def)
  qed
qed (simp add: settled_mentions_def)

lemma resolution_loop_fixed:
  assumes "settled_symbols o' ms db" "settled_mentions o' ms db"
  shows "resolution_loop sql_ports o' mints ms n db = (Inr n, db)"
  using assms
proof (induction ms)
  case (Cons m ms)
  have "resolveWithAutoCreate SqlEntityRegistry o' (rm_entity mints (length ms)) (extractSymbols m) db =
      (Inr (resolve SqlEntityRegistry db o' (extractSymbols m)), db)"
    using Cons.prems(1) by (intro sql_registry.resolveWithAutoCreate_settled) (simp add: settled_symbols_def)
  moreover have "mention_loop sql_ports o' (m_id m) ms' (resolve SqlEntityRegistry db o' (extractSymbols m)) n db = (Inr n, db)" for ms'
    using Cons.prems(2) by (intro mention_loop_settled) (auto simp: settled_mentions_def resolve_def)
  ultimately show ?case using Cons by (simp add: settled_symbols_def settled_mentions_def)
qed simp

text \<open>
  Runs of the entity task settle after two. The first run resolves every codename and tag in its
  scope; a second run creates no entity and no alias, it can only add mentions of keywords that had no
  entity before; and a third run, and so every later one, inserts nothing and leaves the database as it is.
\<close>

theorem entity_runs_settle:
  assumes "registry_ok db" "createEntityResolutionPorts True ''sql'' = ports" "\<not> mc_dry ctx"
    and "entityResolution ports mints1 ctx db = (Inr res1, db1)"
    and "entityResolution ports mints2 ctx db1 = (Inr res2, db2)"
  shows "entities db2 = entities db1 \<and> aliases db2 = aliases db1 \<and>
    entityResolution ports mints3 ctx db2 =
      (Inr (task_done ''entity-resolution'' EntityResolution (length (scoped_memories ctx db)) 0), db2)"
proof -
  let ?o = "ms_owner (mc_scope ctx)" and ?ms = "scoped_memories ctx db"
  from assms(2) have ports: "ports = Some sql_ports" by (simp add: createEntityResolutionPorts_def)
  from assms(3,4) obtain n1 where one: "resolution_loop sql_ports ?o mints1 ?ms 0 db = (Inr n1, db1)"
    by (auto simp: ports entityResolution_def Let_def then_st_Inr)
  note first = resolution_loop_run [OF one assms(1)]
  then have ms: "scoped_memories ctx db1 = ?ms" by (simp add: scoped_memories_def findAllByOwner_def)
  from assms(3,5) obtain n2 where two: "resolution_loop sql_ports ?o mints2 ?ms 0 db1 = (Inr n2, db2)"
    by (auto simp: ports entityResolution_def Let_def then_st_Inr ms)
  have "settled_symbols ?o ?ms db1" using first by simp
  note second = resolution_loop_settled [OF two this]
  then have ms2: "scoped_memories ctx db2 = ?ms" using ms by (simp add: scoped_memories_def findAllByOwner_def)
  have "resolveOne SqlEntityRegistry db2 ?o input = resolveOne SqlEntityRegistry db1 ?o input" for input :: symbol_input
    using second by (intro resolveOne_cong) auto
  then have "settled_symbols ?o ?ms db2" using first by (simp add: settled_symbols_def)
  with second have "resolution_loop sql_ports ?o mints3 ?ms 0 db2 = (Inr 0, db2)" by (intro resolution_loop_fixed) auto
  with second show ?thesis using assms(3) by (simp add: ports entityResolution_def Let_def ms2)
qed

subsection \<open>Findings and witnesses\<close>

definition sample_symbols :: entity_db where
  "sample_symbols = \<lparr>memories = [sample_row\<lparr>m_created := ''a'', m_tags := [], m_keywords := [''X'']\<rparr>,
       sample_row\<lparr>m_id := ''2'', m_created := ''b'', m_tags := [''x'']\<rparr>],
     embeddings = [], intents = [], sync_audits = [], sync_conflicts = [], sync_cursors = [], relations = [], evidence = [],
     entities = [], aliases = [], mentions = []\<rparr>"

definition sample_entity_mints :: "string \<Rightarrow> resolution_mints" where
  "sample_entity_mints run = \<lparr>rm_entity = \<lambda>j k. mint_of (replicate j CHR ''e'' @ replicate k CHR ''f''),
     rm_mention = \<lambda>j k. mint_of (run @ replicate j CHR ''m'' @ replicate k CHR ''n'')\<rparr>"

definition sample_dawn :: maintenance_ctx where
  "sample_dawn = \<lparr>mc_scope = sample_scope ''w'', mc_dry = False, mc_project = None, mc_now = 0, mc_iso = ''t''\<rparr>"

definition sample_run :: "string \<Rightarrow> entity_db \<Rightarrow> (app_error + task_result) \<times> entity_db" where
  "sample_run run = entityResolution (createEntityResolutionPorts True ''sql'') (sample_entity_mints run) sample_dawn"

lemma registry_sample: "registry_ok sample_symbols"
  by (simp add: registry_ok_def sample_symbols_def)

text \<open>
  The interface demands that a task be idempotent. This one is not: a keyword that only a later memory's
  tag turns into an entity is mentioned by the second run.
\<close>

lemma sample_second_run:
  "case sample_run ''a'' sample_symbols of (r1, db1) \<Rightarrow>
     case sample_run ''b'' db1 of (r2, db2) \<Rightarrow>
       \<not> isl r1 \<and> \<not> isl r2 \<and> entities db1 \<noteq> [] \<and> length (mentions db1) < length (mentions db2)"
  by code_simp

definition sample_inputs :: "symbol_input list" where
  "sample_inputs = [\<lparr>sy_symbol = ''adr 1'', sy_field = KeywordField\<rparr>, \<lparr>sy_symbol = ''ADR-1'', sy_field = CodenameField\<rparr>]"

theorem auto_create_resolves_witness:
  "\<exists>results db'. resolveWithAutoCreate SqlEntityRegistry ''o'' (\<lambda>_. mint_of ''e'') sample_inputs sample_symbols = (Inr results, db') \<and>
     \<not> resolved (results ! 0) \<and> resolved (results ! 1) \<and> length (entities db') = 1 \<and>
     snd (resolveWithAutoCreate SqlEntityRegistry ''o'' (\<lambda>_. mint_of ''f'') sample_inputs db') = db'"
proof -
  let ?run = "resolveWithAutoCreate SqlEntityRegistry ''o'' (\<lambda>_. mint_of ''e'') sample_inputs sample_symbols"
  have "\<not> isl (fst ?run)" by code_simp
  from run_Inr [OF this] obtain results db' where run: "?run = (Inr results, db')" by blast
  have "length (entities (snd ?run)) = 1" "\<not> resolved (projr (fst ?run) ! 0)" by code_simp+
  then have "length (entities db') = 1" "\<not> resolved (results ! 0)" by (simp_all add: run)
  moreover have "normalizeSymbol ''ADR-1'' \<noteq> []" by code_simp
  ultimately show ?thesis
    using auto_create_resolves [OF registry_sample run, of "\<lambda>_. mint_of ''f''"] run by (auto simp: sample_inputs_def)
qed

theorem registry_invariant_witness:
  "registry_ok (fold registry_step [CreateEntityOp \<lparr>cn_owner = ''o'', cn_name = ''ADR-1'', cn_kind = ProjectKind,
       cn_confidence = None, cn_source = None\<rparr> (mint_of ''e''),
     AddAliasOp ''o'' ''e'' ''decision one'' (mint_of ''a''), UpdateMetadataOp ''o'' ''e'' (Some ''ADR_2'') None ''t2''] sample_symbols) \<and>
   map ce_normalized (entities (fold registry_step [CreateEntityOp \<lparr>cn_owner = ''o'', cn_name = ''ADR-1'', cn_kind = ProjectKind,
       cn_confidence = None, cn_source = None\<rparr> (mint_of ''e''),
     AddAliasOp ''o'' ''e'' ''decision one'' (mint_of ''a''), UpdateMetadataOp ''o'' ''e'' (Some ''ADR_2'') None ''t2''] sample_symbols)) = [''adr 2'']"
  (is "registry_ok (fold _ ?ops _) \<and> ?names")
proof
  show "registry_ok (fold registry_step ?ops sample_symbols)" using registry_invariant [OF registry_sample, of ?ops] by blast
  show ?names by code_simp
qed

theorem entity_runs_settle_witness:
  "\<exists>db1 db2. snd (sample_run ''a'' sample_symbols) = db1 \<and> snd (sample_run ''b'' db1) = db2 \<and>
     entities db2 = entities db1 \<and> entities db1 \<noteq> [] \<and> snd (sample_run ''c'' db2) = db2"
proof -
  let ?run = "\<lambda>r. entityResolution (createEntityResolutionPorts True ''sql'') (sample_entity_mints r) sample_dawn"
  obtain r1 db1 where one: "?run ''a'' sample_symbols = (r1, db1)" by fastforce
  obtain r2 db2 where two: "?run ''b'' db1 = (r2, db2)" by fastforce
  from sample_second_run have ok: "\<not> isl r1" "\<not> isl r2" "entities db1 \<noteq> []"
    by (simp_all add: sample_run_def one two)
  then obtain res1 res2 where "r1 = Inr res1" "r2 = Inr res2" by (metis sum.disc(1) sum.exhaust)
  with one two have one: "?run ''a'' sample_symbols = (Inr res1, db1)" and two: "?run ''b'' db1 = (Inr res2, db2)" by simp_all
  have "\<not> mc_dry sample_dawn" by (simp add: sample_dawn_def)
  note settled = entity_runs_settle [OF registry_sample refl this one two, of "sample_entity_mints ''c''"]
  then show ?thesis using one two ok(3) by (auto simp: sample_run_def)
qed

end
