(* ===== verification/Consolidation.thy ===== *)
theory Consolidation
  imports Maintenance
begin

section \<open>Consolidation of duplicates\<close>

text \<open>
  \<^verbatim>\<open>src/src/memory/consolidator.ts\<close> with \<^verbatim>\<open>semantic-hash.ts\<close>, the rule-based policy and summarizer of
  \<^verbatim>\<open>src/src/memory/compression\<close> and the task \<^verbatim>\<open>stewardship/tasks/consolidation.task.ts\<close>. SHA-256,
  \<^verbatim>\<open>localeCompare\<close>, \<^verbatim>\<open>JSON.stringify\<close> of the compression metadata and the identifiers and times of
  the run are fields of \<open>consolidation_env\<close>. The texts of the actions in a report are left out.
\<close>

subsection \<open>Semantic hash\<close>

text \<open>
  \<^verbatim>\<open>NFKD\<close> and the removal of the combining marks, on lower-case Latin-1: the spacing diacritics become a
  blank. The fraction slash, outside Latin-1, is written as a slash; the micro sign stays.
\<close>

definition hash_char :: "char \<Rightarrow> string" where
  "hash_char c = (if (of_char c :: nat) \<in> {168, 175, 180, 184} then '' '' else nfkd_strip_char c)"

definition normalizeForHash :: "string \<Rightarrow> string" where
  "normalizeForHash s = js_trim (collapse_spaces False (concat (map hash_char (js_lower s))))"

definition computeSemanticHash :: "(string \<Rightarrow> string) \<Rightarrow> string \<Rightarrow> string \<Rightarrow> string \<Rightarrow> string" where
  "computeSemanticHash sha256 title summary content =
     sha256 (js_join ''|'' [normalizeForHash title, normalizeForHash summary, take 500 content])"

definition normalizeTitleForDedup :: "string \<Rightarrow> string" where
  "normalizeTitleForDedup title = normalizeForHash title"

subsection \<open>Policy and summarizer\<close>

text \<open>The operations of \<^verbatim>\<open>ICompressionPolicy\<close> and \<^verbatim>\<open>ICompressionSummarizer\<close>; the context of a decision is left out.\<close>

record compression_policy =
  cp_should :: "memory \<Rightarrow> nat \<Rightarrow> nat \<Rightarrow> bool"
  cp_level :: "memory \<Rightarrow> nat \<Rightarrow> string"
  cp_algorithm :: string
  cp_version :: int

definition LARGE_CONTENT_CHARS :: nat where "LARGE_CONTENT_CHARS = 8000"

definition RuleBasedCompressionPolicy :: compression_policy where
  "RuleBasedCompressionPolicy =
     \<lparr>cp_should = \<lambda>m clusterSize totalChars.
        if 2 \<le> clusterSize then True else if LARGE_CONTENT_CHARS < totalChars then False else False,
      cp_level = \<lambda>m clusterSize. if 3 \<le> clusterSize then ''canonical'' else ''summary'',
      cp_algorithm = ''rule_v1'', cp_version = 1\<rparr>"

record compression_summarizer =
  su_algorithm :: string
  su_summarize :: "string \<Rightarrow> string \<Rightarrow> string \<Rightarrow> app_error + string"

definition RuleBasedCompressionSummarizer :: compression_summarizer where
  "RuleBasedCompressionSummarizer =
     \<lparr>su_algorithm = ''rule_v1'', su_summarize = \<lambda>content title project. Inr (generateSummary content)\<rparr>"

record compression_metadata =
  cm_algorithm :: string
  cm_version :: int
  cm_sources :: "string list"
  cm_ratio :: rat
  cm_at :: string

subsection \<open>State of a run\<close>

record consolidation_options =
  cs_dry :: "bool option"
  cs_project :: "string option"
  cs_generate :: bool
  cs_access_min :: "int option"
  cs_stale_days :: "int option"
  cs_bump :: "int option"

record consolidator =
  co_relations :: bool
  co_policy :: "compression_policy option"
  co_enabled :: bool
  co_summarizer :: compression_summarizer

text \<open>The identifiers and times: of the summary of a group, of the links of its members, of the bumps.\<close>

record consolidation_env =
  ce_sha256 :: "string \<Rightarrow> string"
  ce_compare :: "string \<Rightarrow> string \<Rightarrow> int"
  ce_metadata :: "compression_metadata \<Rightarrow> string"
  ce_dup :: string
  ce_cutoff :: "int \<Rightarrow> string"
  ce_summary_mint :: "nat \<Rightarrow> mint"
  ce_consolidates_mint :: "nat \<Rightarrow> nat \<Rightarrow> mint"
  ce_duplicate_mint :: "nat \<Rightarrow> nat \<Rightarrow> mint"
  ce_archive_time :: "nat \<Rightarrow> nat \<Rightarrow> string"
  ce_bump_time :: "nat \<Rightarrow> string"

datatype consolidation_action =
    ArchiveDuplicate string | CreateSummary string | PromoteStale string | LinkDuplicate string

record consolidation_report =
  cn_found :: nat
  cn_archived :: nat
  cn_promoted :: nat
  cn_summaries :: nat
  cn_relations :: nat
  cn_dry :: bool
  cn_actions :: "consolidation_action list"

definition DEFAULT_STALE_ACCESS_MIN :: int where "DEFAULT_STALE_ACCESS_MIN = 3"
definition DEFAULT_STALE_DAYS :: int where "DEFAULT_STALE_DAYS = 30"
definition DEFAULT_IMPORTANCE_BUMP :: int where "DEFAULT_IMPORTANCE_BUMP = 5"

definition add_action :: "consolidation_action \<Rightarrow> consolidation_report \<Rightarrow> consolidation_report" where
  "add_action a rep = rep\<lparr>cn_actions := cn_actions rep @ [a]\<rparr>"

subsection \<open>Duplicate groups\<close>

definition loadActiveMemories :: "'a memory_db_scheme \<Rightarrow> string \<Rightarrow> string option \<Rightarrow> memory list" where
  "loadActiveMemories db ownerId projectId =
     filter (\<lambda>m. \<not> m_archived m \<and> (case truthy projectId of None \<Rightarrow> True | Some p \<Rightarrow> m_project_id m = p) \<and>
        (m_level m = ''raw'' \<or> m_level m = ''note''))
       (findAllByOwner db ownerId None)"

definition hash_of :: "(string \<Rightarrow> string) \<Rightarrow> memory \<Rightarrow> string" where
  "hash_of sha256 m = nullish (m_semantic_hash m) (computeSemanticHash sha256 (m_title m) (m_summary m) (m_content m))"

definition title_key :: "memory \<Rightarrow> string" where
  "title_key m = m_project_id m @ ''::'' @ normalizeTitleForDedup (m_title m)"

text \<open>The values of a \<^verbatim>\<open>Map\<close> filled by pushing each element to the list of its key.\<close>

definition grouped :: "('a \<Rightarrow> 'k) \<Rightarrow> 'a list \<Rightarrow> 'a list list" where
  "grouped key xs = map (\<lambda>k. filter (\<lambda>x. key x = k) xs) (js_set (map key xs))"

definition group_key :: "memory list \<Rightarrow> string" where
  "group_key cluster = js_join '','' (sort (map m_id cluster))"

fun collect_groups :: "string list \<Rightarrow> memory list list \<Rightarrow> memory list list" where
  "collect_groups seen [] = []"
| "collect_groups seen (cluster # rest) =
     (if length cluster < 2 \<or> group_key cluster \<in> set seen then collect_groups seen rest
      else cluster # collect_groups (group_key cluster # seen) rest)"

definition findDuplicateGroups :: "(string \<Rightarrow> string) \<Rightarrow> memory list \<Rightarrow> memory list list" where
  "findDuplicateGroups sha256 mems = collect_groups [] (grouped (hash_of sha256) mems @ grouped title_key mems)"

definition canonical_order :: "(string \<Rightarrow> string \<Rightarrow> int) \<Rightarrow> memory \<Rightarrow> memory \<Rightarrow> int" where
  "canonical_order lc a b =
     (if m_importance b \<noteq> m_importance a then m_importance b - m_importance a else lc (m_updated b) (m_updated a))"

definition pickCanonical :: "(string \<Rightarrow> string \<Rightarrow> int) \<Rightarrow> memory list \<Rightarrow> memory" where
  "pickCanonical lc cluster = hd (js_sort (canonical_order lc) cluster)"

subsection \<open>One group\<close>

fun summary_parts :: "compression_summarizer \<Rightarrow> memory list \<Rightarrow> app_error + string list" where
  "summary_parts su [] = Inr []"
| "summary_parts su (m # ms) =
     and_then (if m_summary m \<noteq> [] then Inr (m_summary m) else su_summarize su (m_content m) (m_title m) (m_project m))
       (\<lambda>line. and_then (summary_parts su ms) (\<lambda>parts. Inr ((m_title m @ '': '' @ line) # parts)))"

definition link_relation ::
  "consolidator \<Rightarrow> string \<Rightarrow> string \<Rightarrow> string \<Rightarrow> relation_type \<Rightarrow> rat \<Rightarrow> mint \<Rightarrow> consolidation_report
     \<Rightarrow> 'a relation_db_scheme \<Rightarrow> (app_error + consolidation_report) \<times> 'a relation_db_scheme" where
  "link_relation co ownerId source target relation confidence m rep db =
     (if \<not> co_relations co \<or> relationExists db source target relation ownerId then (Inr rep, db)
      else then_st (createFromInput db source ownerId
              \<lparr>cl_target = target, cl_relation = relation, cl_weight = None, cl_confidence = Some confidence,
               cl_source_type = Some InferredSource, cl_metadata = None\<rparr> None m)
            (\<lambda>_ db'. (Inr (rep\<lparr>cn_relations := cn_relations rep + 1\<rparr>), db')))"

definition linkDuplicate ::
  "consolidator \<Rightarrow> string \<Rightarrow> string \<Rightarrow> string \<Rightarrow> mint \<Rightarrow> consolidation_report
     \<Rightarrow> 'a relation_db_scheme \<Rightarrow> (app_error + consolidation_report) \<times> 'a relation_db_scheme" where
  "linkDuplicate co ownerId source target m rep db = link_relation co ownerId source target DuplicateOf (9 / 10) m rep db"

definition linkConsolidates ::
  "consolidator \<Rightarrow> string \<Rightarrow> string \<Rightarrow> string \<Rightarrow> mint \<Rightarrow> consolidation_report
     \<Rightarrow> 'a relation_db_scheme \<Rightarrow> (app_error + consolidation_report) \<times> 'a relation_db_scheme" where
  "linkConsolidates co ownerId summaryId source m rep db = link_relation co ownerId summaryId source Consolidates 1 m rep db"

fun consolidates_loop ::
  "consolidator \<Rightarrow> string \<Rightarrow> string \<Rightarrow> (nat \<Rightarrow> mint) \<Rightarrow> string list \<Rightarrow> consolidation_report
     \<Rightarrow> 'a relation_db_scheme \<Rightarrow> (app_error + consolidation_report) \<times> 'a relation_db_scheme" where
  "consolidates_loop co ownerId targetId mints [] rep db = (Inr rep, db)"
| "consolidates_loop co ownerId targetId mints (sourceId # sourceIds) rep db =
     then_st (linkConsolidates co ownerId targetId sourceId (mints (length sourceIds)) rep db)
       (\<lambda>rep' db'. consolidates_loop co ownerId targetId mints sourceIds rep' db')"

definition should_summarize :: "consolidator \<Rightarrow> consolidation_options \<Rightarrow> memory list \<Rightarrow> memory \<Rightarrow> bool" where
  "should_summarize co opts cluster canonical \<longleftrightarrow>
     cs_generate opts \<and>
     (\<not> co_enabled co \<or>
      (case co_policy co of None \<Rightarrow> True
       | Some policy \<Rightarrow> cp_should policy canonical (length cluster) (sum_list (map (\<lambda>m. length (m_content m)) cluster))))"

definition summary_data ::
  "consolidation_env \<Rightarrow> string \<Rightarrow> memory \<Rightarrow> string \<Rightarrow> string \<Rightarrow> string \<Rightarrow> string \<Rightarrow> string \<Rightarrow> insert_memory_data" where
  "summary_data env ownerId canonical title content summary codename level =
     \<lparr>in_title = title, in_project = m_project canonical, in_content = content, in_summary = summary,
      in_tags = m_tags canonical, in_keywords = m_keywords canonical, in_category = m_category canonical,
      in_type = ''note'', in_importance = min 100 (m_importance canonical + 5), in_language = m_language canonical,
      in_notes = ''Consolidated from '' @ nullish (m_codename canonical) ''null'', in_codename = codename,
      in_slug = slugify title, in_favorite = False, in_archived = None, in_owner = Some ownerId, in_workspace = None,
      in_id = None, in_created = None, in_updated = None, in_project_id = Some (m_project_id canonical),
      in_level = Some level, in_semantic_hash = Some (computeSemanticHash (ce_sha256 env) title summary content),
      in_access_count = None, in_last_accessed = None, in_agent = None, in_aliases = None, in_source_path = None\<rparr>"

text \<open>Insertion of the summary of a group; the value is its identifier and the report.\<close>

definition create_summary ::
  "consolidation_env \<Rightarrow> consolidator \<Rightarrow> string \<Rightarrow> nat \<Rightarrow> memory list \<Rightarrow> memory \<Rightarrow> consolidation_report
     \<Rightarrow> 'a relation_db_scheme \<Rightarrow> (app_error + string \<times> consolidation_report) \<times> 'a relation_db_scheme" where
  "create_summary env co ownerId g cluster canonical rep db =
     then_st (summary_parts (co_summarizer co) cluster, db) (\<lambda>parts db.
       let summaryContent = js_join [CHR 0x0A, CHR 0x0A] parts;
           summaryTitle = ''Summary: '' @ m_title canonical;
           targetLevel = (case co_policy co of None \<Rightarrow> ''summary'' | Some policy \<Rightarrow> cp_level policy canonical (length cluster))
       in then_st (su_summarize (co_summarizer co) summaryContent summaryTitle (m_project canonical), db) (\<lambda>summaryField db.
         let codename = allocateCodename db ownerId
               (resolveCodenamePrefix (Some Note) (Some (m_category canonical)) (Some (m_project canonical)))
         in then_st (insertMemory (ce_dup env) db
               (summary_data env ownerId canonical summaryTitle summaryContent summaryField codename targetLevel)
               (ce_summary_mint env g)) (\<lambda>summaryMemory db.
           let rep1 = rep\<lparr>cn_summaries := cn_summaries rep + 1\<rparr>
           in case (if co_enabled co then co_policy co else None) of
                None \<Rightarrow> (Inr (m_id summaryMemory, rep1), db)
              | Some policy \<Rightarrow>
                  let charsBefore = sum_list (map (\<lambda>m. length (m_content m)) cluster);
                      sourceIds = map m_id cluster;
                      meta = \<lparr>cm_algorithm = cp_algorithm policy @ ''+'' @ su_algorithm (co_summarizer co),
                              cm_version = cp_version policy, cm_sources = sourceIds,
                              cm_ratio = of_nat (length summaryContent) / of_nat (max charsBefore 1),
                              cm_at = mint_now (ce_summary_mint env g)\<rparr>;
                      db' = applyCompressionMetadata db (m_id summaryMemory) ownerId (ce_metadata env meta)
                              (cp_version policy) None (mint_now (ce_summary_mint env g))
                  in then_st (consolidates_loop co ownerId (m_id summaryMemory) (ce_consolidates_mint env g) sourceIds rep1 db')
                       (\<lambda>rep2 db''. (Inr (m_id summaryMemory, rep2), db'')))))"

fun duplicates_loop ::
  "consolidation_env \<Rightarrow> consolidator \<Rightarrow> string \<Rightarrow> bool \<Rightarrow> nat \<Rightarrow> string \<Rightarrow> memory list \<Rightarrow> consolidation_report
     \<Rightarrow> 'a relation_db_scheme \<Rightarrow> (app_error + consolidation_report) \<times> 'a relation_db_scheme" where
  "duplicates_loop env co ownerId dryRun g targetId [] rep db = (Inr rep, db)"
| "duplicates_loop env co ownerId dryRun g targetId (dup # dups) rep db =
     (let rep1 = add_action (LinkDuplicate (m_id dup)) (add_action (ArchiveDuplicate (m_id dup)) rep)
      in if dryRun then duplicates_loop env co ownerId dryRun g targetId dups rep1 db
         else let db1 = snd (archive db (m_id dup) ownerId True None (ce_archive_time env g (length dups)));
                  rep2 = rep1\<lparr>cn_archived := cn_archived rep1 + 1\<rparr>
              in then_st (linkDuplicate co ownerId (m_id dup) targetId (ce_duplicate_mint env g (length dups)) rep2 db1)
                   (\<lambda>rep3 db2. duplicates_loop env co ownerId dryRun g targetId dups rep3 db2))"

definition consolidate_group ::
  "consolidation_env \<Rightarrow> consolidator \<Rightarrow> string \<Rightarrow> consolidation_options \<Rightarrow> bool \<Rightarrow> nat \<Rightarrow> memory list \<Rightarrow> consolidation_report
     \<Rightarrow> 'a relation_db_scheme \<Rightarrow> (app_error + consolidation_report) \<times> 'a relation_db_scheme" where
  "consolidate_group env co ownerId opts dryRun g cluster rep db =
     (if length cluster < 2 then (Inr rep, db)
      else
        let canonical = pickCanonical (ce_compare env) cluster;
            dups = filter (\<lambda>m. m_id m \<noteq> m_id canonical) cluster;
            summarized = (if should_summarize co opts cluster canonical
              then let rep1 = add_action (CreateSummary (m_id canonical)) rep
                   in if dryRun then (Inr (m_id canonical, rep1), db)
                      else create_summary env co ownerId g cluster canonical rep1 db
              else (Inr (m_id canonical, rep), db))
        in then_st summarized (\<lambda>(targetId, rep2) db'. duplicates_loop env co ownerId dryRun g targetId dups rep2 db'))"

fun groups_loop ::
  "consolidation_env \<Rightarrow> consolidator \<Rightarrow> string \<Rightarrow> consolidation_options \<Rightarrow> bool \<Rightarrow> memory list list \<Rightarrow> consolidation_report
     \<Rightarrow> 'a relation_db_scheme \<Rightarrow> (app_error + consolidation_report) \<times> 'a relation_db_scheme" where
  "groups_loop env co ownerId opts dryRun [] rep db = (Inr rep, db)"
| "groups_loop env co ownerId opts dryRun (cluster # groups) rep db =
     then_st (consolidate_group env co ownerId opts dryRun (length groups) cluster rep db)
       (\<lambda>rep' db'. groups_loop env co ownerId opts dryRun groups rep' db')"

subsection \<open>Stale memories\<close>

fun promote_loop ::
  "consolidation_env \<Rightarrow> string \<Rightarrow> bool \<Rightarrow> int \<Rightarrow> memory list \<Rightarrow> consolidation_report
     \<Rightarrow> 'a memory_db_scheme \<Rightarrow> consolidation_report \<times> 'a memory_db_scheme" where
  "promote_loop env ownerId dryRun bump [] rep db = (rep, db)"
| "promote_loop env ownerId dryRun bump (m # ms) rep db =
     (let nextImportance = min 100 (m_importance m + bump)
      in if nextImportance = m_importance m then promote_loop env ownerId dryRun bump ms rep db
         else let rep1 = add_action (PromoteStale (m_id m)) rep
              in if dryRun then promote_loop env ownerId dryRun bump ms rep1 db
                 else promote_loop env ownerId dryRun bump ms (rep1\<lparr>cn_promoted := cn_promoted rep1 + 1\<rparr>)
                        (snd (bumpImportance db (m_id m) ownerId nextImportance None (ce_bump_time env (length ms)))))"

subsection \<open>The run and its task\<close>

definition consolidate ::
  "consolidation_env \<Rightarrow> consolidator \<Rightarrow> memory_scope \<Rightarrow> consolidation_options \<Rightarrow> 'a relation_db_scheme
     \<Rightarrow> (app_error + consolidation_report) \<times> 'a relation_db_scheme" where
  "consolidate env co scope opts db =
     (let dryRun = nullish (cs_dry opts) True;
          ownerId = ms_owner scope;
          groups = findDuplicateGroups (ce_sha256 env) (loadActiveMemories db ownerId (cs_project opts));
          rep0 = \<lparr>cn_found = sum_list (map length groups), cn_archived = 0, cn_promoted = 0, cn_summaries = 0,
                  cn_relations = 0, cn_dry = dryRun, cn_actions = []\<rparr>
      in then_st (groups_loop env co ownerId opts dryRun groups rep0 db) (\<lambda>rep1 db1.
           let stale = findStaleCandidates db1 ownerId None (cs_project opts)
                 (nullish (cs_access_min opts) DEFAULT_STALE_ACCESS_MIN)
                 (ce_cutoff env (nullish (cs_stale_days opts) DEFAULT_STALE_DAYS))
           in case promote_loop env ownerId dryRun (nullish (cs_bump opts) DEFAULT_IMPORTANCE_BUMP) stale rep1 db1 of
                (rep2, db2) \<Rightarrow> (Inr rep2, db2)))"

definition consolidationTask ::
  "(maintenance_ctx \<Rightarrow> consolidation_env) \<Rightarrow> consolidator \<Rightarrow> maintenance_ctx \<Rightarrow> 'a relation_db_scheme
     \<Rightarrow> (app_error + task_result) \<times> 'a relation_db_scheme" where
  "consolidationTask env co ctx db =
     then_st (consolidate (env ctx) co (mc_scope ctx)
         \<lparr>cs_dry = Some (mc_dry ctx), cs_project = mc_project ctx, cs_generate = \<not> mc_dry ctx,
          cs_access_min = None, cs_stale_days = None, cs_bump = None\<rparr> db)
       (\<lambda>rep db'. (Inr (task_done ''consolidation'' MergeCompress (cn_found rep)
          (if mc_dry ctx then 0 else cn_archived rep + cn_summaries rep + cn_promoted rep + cn_relations rep)), db'))"

definition ConsolidationTask ::
  "(maintenance_ctx \<Rightarrow> consolidation_env) \<Rightarrow> consolidator \<Rightarrow> 'a relation_db_scheme maintenance_task" where
  "ConsolidationTask env co =
     \<lparr>task_id = ''consolidation'', task_stage = MergeCompress, task_run = consolidationTask env co\<rparr>"

subsection \<open>Dry runs\<close>

lemma then_st_keeps: "snd p = db \<Longrightarrow> (\<And>x. snd (f x db) = db) \<Longrightarrow> snd (then_st p f) = db"
  by (cases p) (auto simp: then_st_def split: sum.splits)

lemma duplicates_loop_dry: "snd (duplicates_loop env co o' True g t dups rep db) = db"
  by (induction dups arbitrary: rep) (simp_all add: Let_def)

lemma consolidate_group_dry: "snd (consolidate_group env co o' opts True g cluster rep db) = db"
  by (simp add: consolidate_group_def duplicates_loop_dry Let_def)

lemma groups_loop_dry: "snd (groups_loop env co o' opts True groups rep db) = db"
  by (induction groups arbitrary: rep) (simp_all add: then_st_keeps consolidate_group_dry)

lemma promote_loop_dry: "snd (promote_loop env o' True bump ms rep db) = db"
  by (induction ms arbitrary: rep) (simp_all add: Let_def)

lemma consolidate_dry:
  assumes "nullish (cs_dry opts) True"
  shows "snd (consolidate env co scope opts db) = db"
  unfolding consolidate_def Let_def using assms
  by (intro then_st_keeps) (simp_all add: groups_loop_dry promote_loop_dry split: prod.splits, metis promote_loop_dry snd_conv)

interpretation consolidation_task: dry_task "ConsolidationTask env co" for env co
  by unfold_locales
    (simp add: ConsolidationTask_def consolidationTask_def then_st_keeps consolidate_dry)

end
