(* ===== verification/Consolidation_Laws.thy ===== *)
theory Consolidation_Laws
  imports Consolidation Decay_Laws Graph_Laws
begin

section \<open>Laws of consolidation\<close>

text \<open>
  What a run may do to the tables, on every path and also when it throws; that every group of duplicates
  keeps a representative; and the error that a second summary of one title ends in.
\<close>

subsection \<open>What a run may change\<close>

definition stable_part :: "memory_row \<Rightarrow> memory_row" where
  "stable_part r = r\<lparr>m_archived := False, m_importance := 0, m_updated := [], mr_compression_meta := None,
     mr_compression_version := None\<rparr>"

definition kept_row :: "string \<Rightarrow> string set \<Rightarrow> memory_row \<Rightarrow> memory_row \<Rightarrow> bool" where
  "kept_row o' A r r' \<longleftrightarrow> stable_part r' = stable_part r \<and> (m_owner r \<noteq> o' \<longrightarrow> r' = r) \<and>
     (m_archived r \<longrightarrow> m_archived r') \<and> (m_archived r' \<longrightarrow> m_archived r \<or> m_id r \<in> A)"

definition grows :: "string \<Rightarrow> string set \<Rightarrow> 'a relation_db_scheme \<Rightarrow> 'a relation_db_scheme \<Rightarrow> bool" where
  "grows o' A db db' \<longleftrightarrow>
     (\<exists>old new. memories db' = old @ new \<and> list_all2 (kept_row o' A) (memories db) old \<and> list_all (\<lambda>r. m_owner r = o') new) \<and>
     (\<exists>new. relations db' = relations db @ new \<and> list_all (\<lambda>x. rl_owner x = o' \<and> rl_source_type x = InferredSource) new)"

lemma stable_part_same:
  assumes "stable_part r' = stable_part r"
  shows "m_id r' = m_id r" "m_owner r' = m_owner r" "m_title r' = m_title r" "m_content r' = m_content r"
    "m_tags r' = m_tags r" "m_summary r' = m_summary r" "mr_workspace r' = mr_workspace r"
  using assms [THEN arg_cong, of m_id] assms [THEN arg_cong, of m_owner] assms [THEN arg_cong, of m_title]
    assms [THEN arg_cong, of m_content] assms [THEN arg_cong, of m_tags] assms [THEN arg_cong, of m_summary]
    assms [THEN arg_cong, of mr_workspace]
  by (simp_all add: stable_part_def)

lemma kept_row_refl [simp]: "kept_row o' A r r"
  by (simp add: kept_row_def)

lemma kept_row_trans: "kept_row o' A r s \<Longrightarrow> kept_row o' A s t \<Longrightarrow> kept_row o' A r t"
  using stable_part_same(1,2) unfolding kept_row_def by metis

lemma kept_rows_refl [simp]: "list_all2 (kept_row o' A) t t"
  by (simp add: list_all2_refl)

lemma grows_refl [simp]: "grows o' A db db"
proof -
  show ?thesis
    unfolding grows_def by (intro conjI exI [of _ "[]"] exI [of _ "memories db"]) simp_all
qed

lemma grows_trans:
  assumes "grows o' A a b" "grows o' A b c"
  shows "grows o' A a c"
proof -
  from assms(1) obtain old new rel where ab: "memories b = old @ new" "list_all2 (kept_row o' A) (memories a) old"
    "list_all (\<lambda>r. m_owner r = o') new" "relations b = relations a @ rel"
    "list_all (\<lambda>x. rl_owner x = o' \<and> rl_source_type x = InferredSource) rel" unfolding grows_def by blast
  from assms(2) obtain old' new' rel' where bc: "memories c = old' @ new'" "list_all2 (kept_row o' A) (old @ new) old'"
    "list_all (\<lambda>r. m_owner r = o') new'" "relations c = (relations a @ rel) @ rel'"
    "list_all (\<lambda>x. rl_owner x = o' \<and> rl_source_type x = InferredSource) rel'" unfolding grows_def ab(1,4) by blast
  from bc(2) obtain u v where uv: "old' = u @ v" "list_all2 (kept_row o' A) old u" "list_all2 (kept_row o' A) new v"
    by (auto simp: list_all2_append1)
  have "list_all2 (kept_row o' A) (memories a) u"
    by (rule list_all2_trans [OF _ ab(2) uv(2)]) (rule kept_row_trans)
  moreover have "list_all (\<lambda>r. m_owner r = o') (v @ new')"
    using uv(3) ab(3) bc(3) by (induction rule: list_all2_induct) (auto simp: kept_row_def dest: stable_part_same(2))
  moreover have "memories c = u @ (v @ new')" using bc(1) uv(1) by simp
  moreover have "relations c = relations a @ (rel @ rel')" using bc(4) by simp
  ultimately show ?thesis unfolding grows_def using ab(5) bc(5) by (metis (no_types, lifting) list_all_append)
qed

lemma grows_then:
  assumes "grows o' A a (snd p)" "\<And>x. grows o' A (snd p) (snd (f x (snd p)))"
  shows "grows o' A a (snd (then_st p f))"
proof (cases p)
  case (Pair r d)
  with assms show ?thesis by (cases r) (auto intro: grows_trans)
qed

lemma grows_update:
  assumes "\<And>r. r \<in> set (memories db) \<Longrightarrow> p r \<Longrightarrow> kept_row o' A r (f r)"
  shows "grows o' A db (put_memory (sql_update p f (memories db)) db)"
proof -
  have "list_all2 (kept_row o' A) (memories db) (sql_update p f (memories db))"
    using assms by (simp add: sql_update_def list_all2_conv_all_nth)
  then show ?thesis unfolding grows_def put_memory_def by (intro conjI exI [of _ "[]"] exI) auto
qed

lemma grows_mono: "grows o' A db db' \<Longrightarrow> A \<subseteq> B \<Longrightarrow> grows o' B db db'"
  unfolding grows_def by (blast intro: list_all2_mono kept_row_def [THEN iffD2] dest: kept_row_def [THEN iffD1])

subsection \<open>The steps of a run\<close>

lemma grows_archive: "i \<in> A \<Longrightarrow> grows o' A db (snd (archive db i o' True None now))"
  by (auto simp: archive_def touch_row_def kept_row_def stable_part_def memory_hit_def visible_def
      intro!: grows_update split: option.splits)

lemma grows_bump: "grows o' A db (snd (bumpImportance db i o' n None now))"
  by (auto simp: bumpImportance_def touch_row_def kept_row_def stable_part_def memory_hit_def visible_def
      intro!: grows_update split: option.splits)

lemma grows_compression: "grows o' A db (applyCompressionMetadata db i o' meta v None now)"
  by (auto simp: applyCompressionMetadata_def kept_row_def stable_part_def memory_hit_def visible_def intro!: grows_update)

lemma grows_relation:
  "list_all (\<lambda>x. rl_owner x = o' \<and> rl_source_type x = InferredSource) t \<Longrightarrow> grows o' A db (db\<lparr>relations := relations db @ t\<rparr>)"
  unfolding grows_def by (intro conjI exI [of _ t] exI [of _ "[]"] exI [of _ "memories db"]) auto

lemma grows_create:
  assumes "cl_source_type input = Some InferredSource"
  shows "grows o' A db (snd (createFromInput db s o' input by_whom m))"
proof (cases "sql_insert relation_clash
     \<lparr>rl_id = mint_id m, rl_source = s, rl_target = cl_target input, rl_relation = cl_relation input, rl_owner = o',
      rl_weight = nullish (cl_weight input) 1, rl_confidence = nullish (cl_confidence input) 1, rl_created_by = by_whom,
      rl_source_type = nullish (cl_source_type input) ManualSource, rl_metadata = nullish (cl_metadata input) [],
      rl_created = mint_now m\<rparr> (relations db)")
  case (Inl e)
  then show ?thesis by (simp add: createFromInput_def insertRelation_def)
next
  case (Inr t)
  then have "\<exists>x. t = relations db @ [x] \<and> rl_owner x = o' \<and> rl_source_type x = InferredSource" using assms by auto
  moreover have "snd (createFromInput db s o' input by_whom m) = db\<lparr>relations := t\<rparr>"
    using Inr by (simp add: createFromInput_def insertRelation_def Let_def del: sql_insert_Inr split: option.splits)
  ultimately show ?thesis by (auto intro: grows_relation)
qed

lemma grows_link: "grows o' A db (snd (link_relation co o' s t rel c m rep db))"
  by (auto simp: link_relation_def intro!: grows_then grows_create)

lemma grows_insert:
  assumes "in_owner data = Some o'"
  shows "grows o' A db (snd (insertMemory dup db data m))"
proof -
  obtain r db' where run: "insertMemory dup db data m = (r, db')" by fastforce
  then have "grows o' A db db'"
  proof (cases rule: insertMemory_cases)
    case (inserted row c)
    have "m_owner row = o'" using assms by (simp add: inserted(1) insert_row_def Let_def)
    then show ?thesis unfolding inserted(3) grows_def by (intro conjI exI [of _ "[row]"] exI [of _ "memories db"]) auto
  qed simp
  then show ?thesis by (simp add: run)
qed

lemma grows_consolidates: "grows o' A db (snd (consolidates_loop co o' t mints ids rep db))"
  by (induction ids arbitrary: rep db) (auto simp: linkConsolidates_def intro!: grows_then grows_link)

lemma grows_summary: "grows o' A db (snd (create_summary env co o' g cluster canonical rep db))"
  unfolding create_summary_def Let_def
  by (intro grows_then) (auto simp: summary_data_def split: option.splits
      intro!: grows_then grows_insert grows_consolidates intro: grows_trans [OF grows_compression])

lemma grows_duplicates:
  assumes "m_id ` set dups \<subseteq> A"
  shows "grows o' A db (snd (duplicates_loop env co o' dry g t dups rep db))"
  using assms
proof (induction dups arbitrary: rep db)
  case (Cons d dups)
  then show ?case
    by (auto simp: Let_def linkDuplicate_def intro!: grows_then grows_trans [OF grows_archive grows_link])
qed simp

definition archived_of :: "(string \<Rightarrow> string \<Rightarrow> int) \<Rightarrow> memory list \<Rightarrow> string set" where
  "archived_of lc cluster = {m_id m |m. m \<in> set cluster \<and> m_id m \<noteq> m_id (pickCanonical lc cluster)}"

lemma grows_group:
  assumes "archived_of (ce_compare env) cluster \<subseteq> A"
  shows "grows o' A db (snd (consolidate_group env co o' opts dry g cluster rep db))"
proof -
  have "m_id ` set (filter (\<lambda>m. m_id m \<noteq> m_id (pickCanonical (ce_compare env) cluster)) cluster) \<subseteq> A"
    using assms by (auto simp: archived_of_def)
  then show ?thesis
    unfolding consolidate_group_def Let_def
    by (auto intro!: grows_then grows_summary grows_duplicates)
qed

lemma grows_groups:
  assumes "\<Union> (archived_of (ce_compare env) ` set groups) \<subseteq> A"
  shows "grows o' A db (snd (groups_loop env co o' opts dry groups rep db))"
  using assms by (induction groups arbitrary: rep db) (auto intro!: grows_then grows_group)

lemma grows_promote: "grows o' A db (snd (promote_loop env o' dry bump ms rep db))"
proof (induction ms arbitrary: rep db)
  case (Cons m ms)
  then show ?case using grows_trans [OF grows_bump Cons.IH] by (cases dry) (simp_all add: Let_def)
qed simp

definition duplicate_groups :: "consolidation_env \<Rightarrow> memory_scope \<Rightarrow> consolidation_options \<Rightarrow> 'a memory_db_scheme \<Rightarrow> memory list list" where
  "duplicate_groups env scope opts db =
     findDuplicateGroups (ce_sha256 env) (loadActiveMemories db (ms_owner scope) (cs_project opts))"

lemma consolidate_grows:
  assumes "consolidate env co scope opts db = (res, db')"
  shows "grows (ms_owner scope) (\<Union> (archived_of (ce_compare env) ` set (duplicate_groups env scope opts db))) db db'"
proof -
  have "grows (ms_owner scope) (\<Union> (archived_of (ce_compare env) ` set (duplicate_groups env scope opts db))) db
      (snd (consolidate env co scope opts db))"
    unfolding consolidate_def Let_def duplicate_groups_def
    by (intro grows_then grows_groups subset_refl) (simp add: grows_promote split_def)
  then show ?thesis by (simp add: assms)
qed

text \<open>
  C37: A consolidation loses nothing, dry or not, and also when it throws half-way. Every memory is still
  there, in its place, with its title, content, summary, tags, owner and workspace; memories of other owners
  are untouched; a memory becomes archived only as a member of a group of duplicates other than
  the one the group keeps; new memories are the owner's, and every relation that was there stays, with
  only inferred ones of the owner added.
\<close>

theorem consolidation_loses_nothing:
  assumes "consolidate env co scope opts db = (res, db')" "i < length (memories db)"
    and "r = memories db ! i" "r' = memories db' ! i"
  shows "length (memories db) \<le> length (memories db') \<and>
    m_id r' = m_id r \<and> m_owner r' = m_owner r \<and> m_title r' = m_title r \<and> m_content r' = m_content r \<and>
    m_summary r' = m_summary r \<and> m_tags r' = m_tags r \<and> mr_workspace r' = mr_workspace r \<and>
    (m_owner r \<noteq> ms_owner scope \<longrightarrow> r' = r) \<and> (m_archived r \<longrightarrow> m_archived r') \<and>
    (m_archived r' \<and> \<not> m_archived r \<longrightarrow>
       (\<exists>cluster \<in> set (findDuplicateGroups (ce_sha256 env) (loadActiveMemories db (ms_owner scope) (cs_project opts))).
          m_id r \<in> m_id ` set cluster \<and> m_id r \<noteq> m_id (pickCanonical (ce_compare env) cluster))) \<and>
    (\<forall>x \<in> set (drop (length (memories db)) (memories db')). m_owner x = ms_owner scope) \<and>
    (\<exists>new. relations db' = relations db @ new \<and>
       (\<forall>x \<in> set new. rl_owner x = ms_owner scope \<and> rl_source_type x = InferredSource))"
proof -
  let ?A = "\<Union> (archived_of (ce_compare env) ` set (duplicate_groups env scope opts db))"
  from consolidate_grows [OF assms(1)] obtain old new rel where
    g: "memories db' = old @ new" "list_all2 (kept_row (ms_owner scope) ?A) (memories db) old"
      "list_all (\<lambda>r. m_owner r = ms_owner scope) new" "relations db' = relations db @ rel"
      "list_all (\<lambda>x. rl_owner x = ms_owner scope \<and> rl_source_type x = InferredSource) rel"
    unfolding grows_def by blast
  have len: "length old = length (memories db)" using list_all2_lengthD [OF g(2)] by simp
  then have "r' = old ! i" using assms(2,4) g(1) by (simp add: nth_append)
  then have kept: "kept_row (ms_owner scope) ?A r r'" using list_all2_nthD [OF g(2) assms(2)] assms(3) by simp
  have sp: "stable_part r' = stable_part r" using kept by (simp add: kept_row_def)
  have arch: "m_archived r' \<and> \<not> m_archived r \<longrightarrow>
      (\<exists>cluster \<in> set (findDuplicateGroups (ce_sha256 env) (loadActiveMemories db (ms_owner scope) (cs_project opts))).
         m_id r \<in> m_id ` set cluster \<and> m_id r \<noteq> m_id (pickCanonical (ce_compare env) cluster))"
  proof
    assume "m_archived r' \<and> \<not> m_archived r"
    then have "m_id r \<in> ?A" using kept by (simp add: kept_row_def)
    then show "\<exists>cluster \<in> set (findDuplicateGroups (ce_sha256 env) (loadActiveMemories db (ms_owner scope) (cs_project opts))).
         m_id r \<in> m_id ` set cluster \<and> m_id r \<noteq> m_id (pickCanonical (ce_compare env) cluster)"
      unfolding duplicate_groups_def archived_of_def by auto
  qed
  have rels: "\<exists>new. relations db' = relations db @ new \<and>
      (\<forall>x \<in> set new. rl_owner x = ms_owner scope \<and> rl_source_type x = InferredSource)"
    using g(4,5) by (auto simp: list_all_iff)
  have len2: "length (memories db) \<le> length (memories db')" "\<forall>x \<in> set (drop (length (memories db)) (memories db')). m_owner x = ms_owner scope"
    using g(3) len by (simp_all add: g(1) list_all_iff)
  have own: "m_owner r \<noteq> ms_owner scope \<longrightarrow> r' = r" "m_archived r \<longrightarrow> m_archived r'"
    using kept by (simp_all add: kept_row_def)
  show ?thesis by (intro conjI stable_part_same [OF sp] len2 own arch rels)
qed

subsection \<open>The representative of a group\<close>

definition compare_ok :: "('a \<Rightarrow> 'a \<Rightarrow> int) \<Rightarrow> bool" where
  "compare_ok cmp \<longleftrightarrow> (\<forall>a b. cmp a b \<le> 0 \<or> cmp b a \<le> 0) \<and> (\<forall>a b c. cmp a b \<le> 0 \<longrightarrow> cmp b c \<le> 0 \<longrightarrow> cmp a c \<le> 0)"

lemma js_sort_Nil [simp]: "js_sort cmp xs = [] \<longleftrightarrow> xs = []" "js_sort cmp [] = []"
  by (metis set_empty set_js_sort) (simp add: js_sort_def)

lemma hd_js_sort:
  "hd (js_sort cmp (x # xs)) = (if xs = [] \<or> cmp x (hd (js_sort cmp xs)) \<le> 0 then x else hd (js_sort cmp xs))"
proof (cases "js_sort cmp xs")
  case (Cons y ys)
  then have "xs \<noteq> []" by auto
  with Cons show ?thesis by (simp add: js_sort_def)
next
  case Nil
  then have "xs = []" by simp
  then show ?thesis by (simp add: js_sort_def)
qed

lemma hd_js_sort_in: "xs \<noteq> [] \<Longrightarrow> hd (js_sort cmp xs) \<in> set xs"
  by (metis hd_in_set js_sort_Nil set_js_sort)

lemma hd_js_sort_le:
  assumes "compare_ok cmp" "x \<in> set xs"
  shows "cmp (hd (js_sort cmp xs)) x \<le> 0"
  using assms(2)
proof (induction xs)
  case (Cons y ys)
  have refl: "cmp y y \<le> 0" using assms(1) by (auto simp: compare_ok_def)
  show ?case
  proof (cases "ys = [] \<or> cmp y (hd (js_sort cmp ys)) \<le> 0")
    case True
    have "cmp y x \<le> 0" if "x \<in> set ys"
      using True that Cons.IH [OF that] assms(1) unfolding compare_ok_def by (cases ys) auto
    moreover have "hd (js_sort cmp (y # ys)) = y" using True by (simp add: hd_js_sort)
    ultimately show ?thesis using Cons.prems refl by (cases "x = y") simp_all
  next
    case False
    then have "cmp (hd (js_sort cmp ys)) y \<le> 0" using assms(1) unfolding compare_ok_def by blast
    moreover have "cmp (hd (js_sort cmp ys)) x \<le> 0" if "x \<in> set ys" using Cons.IH [OF that] .
    moreover have "hd (js_sort cmp (y # ys)) = hd (js_sort cmp ys)" using False by (simp add: hd_js_sort)
    ultimately show ?thesis using Cons.prems by (cases "x = y") simp_all
  qed
qed simp

text \<open>The first of the least elements of a list is also that of every part of the list it belongs to.\<close>

lemma hd_js_sort_filter:
  assumes "compare_ok cmp" "xs \<noteq> []" "P (hd (js_sort cmp xs))"
  shows "hd (js_sort cmp (filter P xs)) = hd (js_sort cmp xs)"
  using assms(2,3)
proof (induction xs)
  case (Cons x xs)
  show ?case
  proof (cases "xs = [] \<or> cmp x (hd (js_sort cmp xs)) \<le> 0")
    case True
    then have x: "hd (js_sort cmp (x # xs)) = x" by (simp add: hd_js_sort)
    have "cmp x y \<le> 0" if "y \<in> set xs" for y
      using hd_js_sort_le [OF assms(1) that] True that assms(1) unfolding compare_ok_def by (metis empty_iff list.set(1))
    then have "filter P xs = [] \<or> cmp x (hd (js_sort cmp (filter P xs))) \<le> 0"
      using hd_js_sort_in [of "filter P xs" cmp] by auto
    then show ?thesis using Cons.prems x by (simp add: hd_js_sort)
  next
    case False
    then have x: "hd (js_sort cmp (x # xs)) = hd (js_sort cmp xs)" by (simp add: hd_js_sort)
    with False Cons have ih: "hd (js_sort cmp (filter P xs)) = hd (js_sort cmp xs)" by simp
    have "filter P xs \<noteq> []" using hd_js_sort_in [of xs cmp] Cons.prems False x by (auto simp: filter_empty_conv)
    then show ?thesis using ih False x by (simp add: hd_js_sort)
  qed
qed simp

lemma canonical_order_ok: "compare_ok lc \<Longrightarrow> compare_ok (canonical_order lc)"
proof -
  assume ok: "compare_ok lc"
  have "canonical_order lc a b \<le> 0 \<or> canonical_order lc b a \<le> 0" for a b
    using ok by (auto simp: compare_ok_def canonical_order_def)
  moreover have "canonical_order lc a c \<le> 0" if "canonical_order lc a b \<le> 0" "canonical_order lc b c \<le> 0" for a b c
  proof (cases "m_importance a = m_importance b \<and> m_importance b = m_importance c")
    case True
    with that have "lc (m_updated b) (m_updated a) \<le> 0" "lc (m_updated c) (m_updated b) \<le> 0"
      by (simp_all add: canonical_order_def)
    then have "lc (m_updated c) (m_updated a) \<le> 0" using ok unfolding compare_ok_def by blast
    then show ?thesis using True by (simp add: canonical_order_def)
  next
    case False
    with that show ?thesis by (auto simp: canonical_order_def split: if_splits)
  qed
  ultimately show ?thesis unfolding compare_ok_def by blast
qed

lemma pick_part:
  assumes "compare_ok lc" "xs \<noteq> []" "P (pickCanonical lc xs)"
  shows "pickCanonical lc (filter P xs) = pickCanonical lc xs"
  using hd_js_sort_filter [OF canonical_order_ok [OF assms(1)] assms(2)] assms(3) by (simp add: pickCanonical_def)

text \<open>Two memories a run may take for duplicates of each other.\<close>

definition duplicates :: "(string \<Rightarrow> string) \<Rightarrow> memory \<Rightarrow> memory \<Rightarrow> bool" where
  "duplicates sha256 a b \<longleftrightarrow> hash_of sha256 a = hash_of sha256 b \<or> title_key a = title_key b"

lemma collect_groups_in: "g \<in> set (collect_groups seen gs) \<Longrightarrow> g \<in> set gs"
  by (induction seen gs rule: collect_groups.induct) (auto split: if_splits)

lemma group_of:
  assumes "g \<in> set (findDuplicateGroups sha256 mems)"
  obtains p where "g = filter p mems" "\<And>a b. p a \<Longrightarrow> p b \<Longrightarrow> duplicates sha256 a b"
proof -
  from collect_groups_in assms have "g \<in> set (grouped (hash_of sha256) mems) \<or> g \<in> set (grouped title_key mems)"
    unfolding findDuplicateGroups_def by fastforce
  then show thesis
  proof
    assume "g \<in> set (grouped (hash_of sha256) mems)"
    then obtain k where "g = filter (\<lambda>x. hash_of sha256 x = k) mems" by (auto simp: grouped_def)
    then show thesis by (rule that) (simp add: duplicates_def)
  next
    assume "g \<in> set (grouped title_key mems)"
    then obtain k where "g = filter (\<lambda>x. title_key x = k) mems" by (auto simp: grouped_def)
    then show thesis by (rule that) (simp add: duplicates_def)
  qed
qed

lemma class_representative:
  assumes "compare_ok lc" "m \<in> set mems" "distinct (map m_id mems)"
  shows "\<exists>n \<in> set mems. (duplicates sha256)\<^sup>*\<^sup>* m n \<and> m_id n \<notin> \<Union> (archived_of lc ` set (findDuplicateGroups sha256 mems))"
proof -
  let ?dup = "(duplicates sha256)\<^sup>*\<^sup>*"
  let ?cluster_class = "filter (?dup m) mems"
  let ?n = "pickCanonical lc ?cluster_class"
  have ne: "?cluster_class \<noteq> []" using assms(2) by (auto simp: filter_empty_conv)
  then have n: "?n \<in> set mems" "?dup m ?n" using hd_js_sort_in [OF ne] by (auto simp: pickCanonical_def)
  have "m_id ?n \<notin> archived_of lc g" if g: "g \<in> set (findDuplicateGroups sha256 mems)" for g
  proof
    assume arch: "m_id ?n \<in> archived_of lc g"
    from g obtain p where p: "g = filter p mems" "\<And>a b. p a \<Longrightarrow> p b \<Longrightarrow> duplicates sha256 a b" by (metis group_of)
    from arch obtain x where x: "x \<in> set g" "m_id x = m_id ?n" and diff: "m_id ?n \<noteq> m_id (pickCanonical lc g)"
      by (auto simp: archived_of_def)
    have "x = ?n" using x n(1) p(1) assms(3) by (auto simp: distinct_map inj_on_def)
    with x p(1) have pn: "p ?n" by simp
    have "?dup m y" if "p y" for y using rtranclp.rtrancl_into_rtrancl [of "duplicates sha256" m ?n y] n(2) p(2) pn that by blast
    then have "g = filter p ?cluster_class" unfolding p(1) filter_filter by (metis (mono_tags, lifting) filter_cong)
    then have "pickCanonical lc g = ?n" using pick_part [OF assms(1) ne, of p] pn by simp
    with diff show False by simp
  qed
  with n show ?thesis by blast
qed

text \<open>
  Consolidation never archives the last copy. Whatever the groups overlap in, after a run every active
  memory it looked at is still represented: it is linked, by a chain of equal hashes or equal
  titles, to a memory that the run left active.
\<close>

theorem consolidation_keeps_representative:
  assumes "compare_ok (ce_compare env)" "unique_rows (memories db)" "consolidate env co scope opts db = (res, db')"
    and "m \<in> set (loadActiveMemories db (ms_owner scope) (cs_project opts))"
  shows "\<exists>i n. i < length (memories db) \<and> n = rowToMemory (memories db ! i) \<and>
    n \<in> set (loadActiveMemories db (ms_owner scope) (cs_project opts)) \<and>
    (duplicates (ce_sha256 env))\<^sup>*\<^sup>* m n \<and> \<not> m_archived (memories db' ! i)"
proof -
  let ?mems = "loadActiveMemories db (ms_owner scope) (cs_project opts)"
  have "distinct (map m_id ?mems)"
  proof -
    have "distinct (map m_id (memories db))" using memory_ids_unique [OF assms(2)] by (simp add: memory_ids.unique_def)
    then have "distinct (map m_id (order_asc m_created (sql_select (visible (ms_owner scope) None) (memories db))))"
      unfolding order_asc_def sql_select_def by (simp add: distinct_map inj_on_def)
    then show ?thesis by (simp add: loadActiveMemories_def findAllByOwner_def filter_map comp_def distinct_map_filter)
  qed
  from class_representative [OF assms(1,4) this, of "ce_sha256 env"] obtain n where
    n: "n \<in> set ?mems" "(duplicates (ce_sha256 env))\<^sup>*\<^sup>* m n"
      "m_id n \<notin> \<Union> (archived_of (ce_compare env) ` set (findDuplicateGroups (ce_sha256 env) ?mems))" by blast
  then obtain r where r: "r \<in> set (memories db)" "n = rowToMemory r" "\<not> m_archived r"
    by (auto simp: loadActiveMemories_def findAllByOwner_def sql_select_def)
  then obtain i where i: "i < length (memories db)" "memories db ! i = r" by (auto simp: in_set_conv_nth)
  from consolidate_grows [OF assms(3)] obtain old new where
    g: "memories db' = old @ new" "list_all2 (kept_row (ms_owner scope)
       (\<Union> (archived_of (ce_compare env) ` set (findDuplicateGroups (ce_sha256 env) ?mems)))) (memories db) old"
    unfolding grows_def duplicate_groups_def by blast
  have "memories db' ! i = old ! i" using list_all2_lengthD [OF g(2)] i(1) g(1) by (simp add: nth_append)
  then have "\<not> m_archived (memories db' ! i)" using list_all2_nthD [OF g(2) i(1)] n(3) r i(2) by (auto simp: kept_row_def)
  with i r n show ?thesis by blast
qed

subsection \<open>A second summary\<close>

lemma collect_groups_large: "g \<in> set (collect_groups seen gs) \<Longrightarrow> 2 \<le> length g"
  by (induction seen gs rule: collect_groups.induct) (auto split: if_splits)

lemma insertMemory_slug_taken:
  assumes "in_owner data = Some o'" "s \<in> set (memories db)" "m_owner s = o'" "m_slug s = Some (in_slug data)"
  shows "\<exists>e. insertMemory dup db data m = (Inl e, db)"
proof -
  obtain r db' where run: "insertMemory dup db data m = (r, db')" by fastforce
  then show ?thesis
  proof (cases rule: insertMemory_cases)
    case (inserted row c)
    have "m_owner row = o'" "m_slug row = Some (in_slug data)"
      using assms(1) by (simp_all add: inserted(1) insert_row_def Let_def)
    then have "memory_clash row s" using assms by (simp add: memory_clash_def)
    with inserted(2) assms(2) show ?thesis by blast
  qed (use run in auto)
qed

lemma create_summary_slug_taken:
  assumes "s \<in> set (memories db)" "m_owner s = o'" "m_slug s = Some (slugify (''Summary: '' @ m_title canonical))"
  shows "\<exists>e. create_summary env co o' g cluster canonical rep db = (Inl e, db)"
proof (cases "summary_parts (co_summarizer co) cluster")
  case (Inl e)
  then show ?thesis by (simp add: create_summary_def)
next
  case (Inr parts)
  let ?text = "js_join [CHR 0x0A, CHR 0x0A] parts" and ?title = "''Summary: '' @ m_title canonical"
  show ?thesis
  proof (cases "su_summarize (co_summarizer co) ?text ?title (m_project canonical)")
    case (Inl e)
    then show ?thesis using Inr by (simp add: create_summary_def Let_def)
  next
    case summary: (Inr field)
    let ?level = "case co_policy co of None \<Rightarrow> ''summary'' | Some policy \<Rightarrow> cp_level policy canonical (length cluster)"
    let ?codename = "allocateCodename db o' (resolveCodenamePrefix (Some Note) (Some (m_category canonical)) (Some (m_project canonical)))"
    obtain e where "insertMemory (ce_dup env) db (summary_data env o' canonical ?title ?text field ?codename ?level)
        (ce_summary_mint env g) = (Inl e, db)"
      using insertMemory_slug_taken [where data = "summary_data env o' canonical ?title ?text field ?codename ?level", OF _ assms(1,2)]
        assms(3) by (auto simp: summary_data_def)
    then show ?thesis using Inr summary by (simp add: create_summary_def Let_def)
  qed
qed

text \<open>
  A title can be summarized once. If the owner has a memory with the slug of the summary that the first
  group of duplicates asks for, as every earlier summary of a memory with this title has, the run throws
  before it changes anything, on this group and with it on all the others, and so does every later run.
\<close>

theorem second_summary_fails:
  assumes "cs_dry opts = Some False"
    and "findDuplicateGroups (ce_sha256 env) (loadActiveMemories db (ms_owner scope) (cs_project opts)) = cluster # clusters"
    and "should_summarize co opts cluster (pickCanonical (ce_compare env) cluster)"
    and "s \<in> set (memories db)" "m_owner s = ms_owner scope"
    and "m_slug s = Some (slugify (''Summary: '' @ m_title (pickCanonical (ce_compare env) cluster)))"
  shows "\<exists>e. consolidate env co scope opts db = (Inl e, db)"
proof -
  have two: "\<not> length cluster < 2"
    using collect_groups_large [of cluster "[]"] assms(2) by (metis findDuplicateGroups_def leD list.set_intros(1))
  have "\<exists>e. groups_loop env co (ms_owner scope) opts False (cluster # clusters) rep db = (Inl e, db)" for rep
  proof -
    obtain e where "create_summary env co (ms_owner scope) (length clusters) cluster (pickCanonical (ce_compare env) cluster)
        (add_action (CreateSummary (m_id (pickCanonical (ce_compare env) cluster))) rep) db = (Inl e, db)"
      using create_summary_slug_taken [OF assms(4-6)] by blast
    then show ?thesis using two assms(3) by (simp add: consolidate_group_def Let_def)
  qed
  note fails = this
  show ?thesis
    using fails [of "\<lparr>cn_found = sum_list (map length (cluster # clusters)), cn_archived = 0, cn_promoted = 0, cn_summaries = 0,
        cn_relations = 0, cn_dry = False, cn_actions = []\<rparr>"]
    unfolding consolidate_def Let_def assms(1,2) by auto
qed

subsection \<open>Witnesses and findings\<close>

definition text_order :: "string \<Rightarrow> string \<Rightarrow> int" where
  "text_order a b = (if a = b then 0 else if a < b then -1 else 1)"

lemma text_order_ok: "compare_ok text_order"
  by (auto simp: compare_ok_def text_order_def split: if_splits)

definition sample_env :: "string \<Rightarrow> consolidation_env" where
  "sample_env run = \<lparr>ce_sha256 = \<lambda>s. s, ce_compare = text_order, ce_metadata = \<lambda>_. [], ce_dup = sqlite_dup, ce_cutoff = \<lambda>_. [],
     ce_summary_mint = \<lambda>g. mint_of (run @ ''s''), ce_consolidates_mint = \<lambda>g j. mint_of (run @ ''c'' @ replicate j CHR ''x''),
     ce_duplicate_mint = \<lambda>g j. mint_of (run @ ''d'' @ replicate j CHR ''x''), ce_archive_time = \<lambda>g j. ''u'', ce_bump_time = \<lambda>j. ''u''\<rparr>"

definition sample_consolidator :: consolidator where
  "sample_consolidator = \<lparr>co_relations = True, co_policy = None, co_enabled = False, co_summarizer = RuleBasedCompressionSummarizer\<rparr>"

definition sample_nightly :: "bool \<Rightarrow> consolidation_options" where
  "sample_nightly summaries = \<lparr>cs_dry = Some False, cs_project = None, cs_generate = summaries, cs_access_min = None,
     cs_stale_days = None, cs_bump = None\<rparr>"

definition copy_row :: "string \<Rightarrow> string \<Rightarrow> memory_row" where
  "copy_row i w = sample_row\<lparr>m_id := i, m_codename := Some i, m_slug := Some i, mr_workspace := Some w\<rparr>"

definition sample_copies :: inference_db where
  "sample_copies = (sample_inference [])\<lparr>memories := [sample_row, copy_row ''2'' ''v'',
     (copy_row ''3'' ''w'')\<lparr>m_slug := Some ''summary-t'', m_level := ''summary''\<rparr>]\<rparr>"

definition nightly :: "bool \<Rightarrow> inference_db \<Rightarrow> (app_error + consolidation_report) \<times> inference_db" where
  "nightly summaries = consolidate (sample_env ''a'') sample_consolidator (sample_scope ''w'') (sample_nightly summaries)"

text \<open>A run for a scope with workspace \<open>w\<close> archives a memory of workspace \<open>v\<close>.\<close>

lemma nightly_crosses_workspaces:
  "case nightly False sample_copies of (r, db') \<Rightarrow>
     \<not> isl r \<and> map mr_workspace (memories db') = [Some ''w'', Some ''v'', Some ''w''] \<and>
     map m_archived (memories db') = [False, True, False]"
  by code_simp

lemma sample_fields [simp]: "ce_compare (sample_env run) = text_order" "ce_sha256 (sample_env run) = (\<lambda>s. s)"
  "ms_owner (sample_scope w) = ''o''" "cs_project (sample_nightly b) = None" "cs_dry (sample_nightly b) = Some False"
  by (simp_all add: sample_env_def sample_scope_def sample_nightly_def)

lemma sample_copies_unique: "unique_rows (memories sample_copies)"
  by (simp add: sample_copies_def copy_row_def unique_rows_def memory_clash_def sample_row_calm)

theorem consolidation_loses_nothing_witness:
  "\<exists>res db'. nightly False sample_copies = (res, db') \<and> m_archived (memories db' ! 1) \<and>
     m_content (memories db' ! 1) = m_content sample_row \<and>
     (\<exists>cluster \<in> set (findDuplicateGroups (\<lambda>s. s) (loadActiveMemories sample_copies ''o'' None)). ''2'' \<in> m_id ` set cluster)"
proof -
  obtain res db' where run: "nightly False sample_copies = (res, db')" by fastforce
  with nightly_crosses_workspaces have arch: "map m_archived (memories db') = [False, True, False]" by simp
  then have "length (memories db') = 3" by (metis length_map length_Cons list.size(3) numeral_3_eq_3)
  then have "m_archived (memories db' ! 1)" using arch by (metis nth_map One_nat_def nth_Cons_0 nth_Cons_Suc one_less_numeral_iff semiring_norm(77))
  moreover have "1 < length (memories sample_copies)" "memories sample_copies ! 1 = copy_row ''2'' ''v''"
    by (simp_all add: sample_copies_def)
  moreover note consolidation_loses_nothing [OF run [unfolded nightly_def] calculation(2) refl refl]
  ultimately show ?thesis using run
    by (simp add: copy_row_def) blast
qed

lemma sample_group:
  "loadActiveMemories sample_copies ''o'' None = [rowToMemory sample_row, rowToMemory (copy_row ''2'' ''v'')]"
  "findDuplicateGroups (\<lambda>s. s) [rowToMemory sample_row, rowToMemory (copy_row ''2'' ''v'')] =
     [[rowToMemory sample_row, rowToMemory (copy_row ''2'' ''v'')]]"
  "slugify (''Summary: '' @ m_title (pickCanonical text_order [rowToMemory sample_row, rowToMemory (copy_row ''2'' ''v'')])) = ''summary-t''"
  by code_simp+

theorem consolidation_keeps_representative_witness:
  "\<exists>res db' i. nightly False sample_copies = (res, db') \<and> i < 3 \<and> \<not> m_archived (memories db' ! i)"
proof -
  obtain res db' where run: "nightly False sample_copies = (res, db')" by fastforce
  have "compare_ok (ce_compare (sample_env ''a''))" by (simp add: sample_env_def text_order_ok)
  moreover have "rowToMemory (copy_row ''2'' ''v'') \<in> set (loadActiveMemories sample_copies (ms_owner (sample_scope ''w'')) (cs_project (sample_nightly False)))"
    by (simp add: sample_group sample_scope_def sample_nightly_def)
  ultimately obtain i where "i < length (memories sample_copies)" "\<not> m_archived (memories db' ! i)"
    using consolidation_keeps_representative [OF _ sample_copies_unique run [unfolded nightly_def]] by blast
  moreover have "length (memories sample_copies) = 3" by (simp add: sample_copies_def)
  ultimately have "i < 3" "\<not> m_archived (memories db' ! i)" by simp_all
  with run show ?thesis by blast
qed

theorem second_summary_fails_witness:
  "\<exists>e. nightly True sample_copies = (Inl e, sample_copies)"
proof -
  let ?s = "(copy_row ''3'' ''w'')\<lparr>m_slug := Some ''summary-t'', m_level := ''summary''\<rparr>"
  let ?cluster = "[rowToMemory sample_row, rowToMemory (copy_row ''2'' ''v'')]"
  have "should_summarize sample_consolidator (sample_nightly True) ?cluster (pickCanonical text_order ?cluster)"
    by (simp add: should_summarize_def sample_consolidator_def sample_nightly_def)
  moreover have "?s \<in> set (memories sample_copies)" "m_owner ?s = ''o''" "m_slug ?s = Some ''summary-t''"
    by (simp_all add: sample_copies_def copy_row_def)
  ultimately show ?thesis
    using second_summary_fails [of "sample_nightly True" "sample_env ''a''" sample_copies "sample_scope ''w''" ?cluster "[]"
        sample_consolidator ?s] sample_group
    by (simp add: nightly_def sample_fields)
qed

end
