(* ===== verification/Signals.thy ===== *)
theory Signals
  imports Entities
begin

section \<open>Quality signals\<close>

text \<open>
  Feedback on memories: the normalizers, the scoring policy and the ingestor of \<^verbatim>\<open>src/src/ingest\<close>, the
  table of signals (\<^verbatim>\<open>src/src/infrastructure/signals/sql-memory-signal-store.ts\<close>), the table of learning
  events (\<^verbatim>\<open>src/src/infrastructure/learning/sql-learning-event-store.ts\<close>) and its recorder
  (\<^verbatim>\<open>src/src/learning/learning-event-recorder.ts\<close>). A payload is stored as JSON and read back; the rows
  hold it decoded. Importance and its changes are integers. What \<^verbatim>\<open>z.string().uuid()\<close> accepts is a
  parameter. Domain events are sent without effect on the result and are left out.
\<close>

subsection \<open>Types\<close>

datatype signal_type = AccessSignal | ExplicitFeedback | ConsolidationHint | IngestSignal | InspectionOutcome

record quality_signal =
  qs_id :: string
  qs_type :: signal_type
  qs_memory :: "string option"
  qs_owner :: string
  qs_workspace :: "string option"
  qs_org :: "string option"
  qs_agent :: "string option"
  qs_delta :: "int option"
  qs_payload :: "json_object option"
  qs_observed :: string

record ingest_result =
  ig_accepted :: bool
  ig_duplicate :: bool
  ig_delta :: "int option"

datatype learning_event_type =
    FeedbackEvent | AccessEvent | ConsolidationEvent | InspectionEvent | ContextAccessed | LearningRunCompleted

record learning_event =
  le_id :: string
  le_owner :: string
  le_workspace :: "string option"
  le_type :: learning_event_type
  le_payload :: json_object
  le_processed :: bool
  le_created :: string

record signal_row =
  sg_id :: string
  sg_owner :: string
  sg_workspace :: "string option"
  sg_memory :: "string option"
  sg_type :: signal_type
  sg_payload :: json_object
  sg_created :: string

record signal_db = entity_db +
  signals :: "signal_row list"
  learning_events :: "learning_event list"

subsection \<open>Normalizers\<close>

record signal_auth =
  sa_owner :: string
  sa_workspace :: "string option"

text \<open>A normalizer draws the signal identifier and the time from the mint.\<close>

type_synonym signal_normalizer = "json \<Rightarrow> signal_auth \<Rightarrow> mint \<Rightarrow> quality_signal option"

fun CompositeSignalNormalizer :: "signal_normalizer list \<Rightarrow> signal_normalizer" where
  "CompositeSignalNormalizer [] raw ctx m = None"
| "CompositeSignalNormalizer (n # ns) raw ctx m =
     (case n raw ctx m of Some s \<Rightarrow> Some s | None \<Rightarrow> CompositeSignalNormalizer ns raw ctx m)"

text \<open>The checks of the schemas: a required string, an optional field, a list of non-empty strings.\<close>

fun text_value :: "json option \<Rightarrow> string option" where
  "text_value (Some (JStr s)) = Some s"
| "text_value _ = None"

definition uuid_value :: "(string \<Rightarrow> bool) \<Rightarrow> json option \<Rightarrow> string option" where
  "uuid_value is_uuid v = (case text_value v of Some s \<Rightarrow> if is_uuid s then Some s else None | None \<Rightarrow> None)"

definition one_of :: "string list \<Rightarrow> json option \<Rightarrow> bool" where
  "one_of allowed v = (case text_value v of Some s \<Rightarrow> s \<in> set allowed | None \<Rightarrow> False)"

definition signal_id_ok :: "(string \<Rightarrow> bool) \<Rightarrow> json_object \<Rightarrow> bool" where
  "signal_id_ok is_uuid obj = opt_all (\<lambda>v. uuid_value is_uuid (Some v) \<noteq> None) (json_get obj ''signalId'')"

definition explicitFeedback_ok :: "(string \<Rightarrow> bool) \<Rightarrow> json_object \<Rightarrow> bool" where
  "explicitFeedback_ok is_uuid obj \<longleftrightarrow>
     json_get obj ''type'' = Some (JStr ''explicit_feedback'') \<and>
     uuid_value is_uuid (json_get obj ''memoryId'') \<noteq> None \<and>
     one_of [''helpful'', ''not_helpful''] (json_get obj ''value'') \<and> signal_id_ok is_uuid obj"

definition DefaultSignalNormalizer :: "(string \<Rightarrow> bool) \<Rightarrow> signal_normalizer" where
  "DefaultSignalNormalizer is_uuid raw ctx m =
     (case raw of
        JObj obj \<Rightarrow>
          if explicitFeedback_ok is_uuid obj
          then Some \<lparr>qs_id = nullish (text_value (json_get obj ''signalId'')) (mint_id m), qs_type = ExplicitFeedback,
                     qs_memory = text_value (json_get obj ''memoryId''), qs_owner = sa_owner ctx,
                     qs_workspace = sa_workspace ctx, qs_org = None, qs_agent = None, qs_delta = None,
                     qs_payload = Some (case json_get obj ''value'' of Some v \<Rightarrow> [(''value'', v)] | None \<Rightarrow> []),
                     qs_observed = mint_now m\<rparr>
          else None
      | _ \<Rightarrow> None)"

text \<open>An object of the schema keeps the declared keys only.\<close>

definition pick_keys :: "string list \<Rightarrow> json_object \<Rightarrow> json_object" where
  "pick_keys ks obj = concat (map (\<lambda>k. case json_get obj k of Some v \<Rightarrow> [(k, v)] | None \<Rightarrow> []) ks)"

definition diffScope_ok :: "json \<Rightarrow> bool" where
  "diffScope_ok v =
     (case v of
        JObj obj \<Rightarrow> opt_all text_list (json_get obj ''paths'') \<and> opt_all text_list (json_get obj ''modules'') \<and>
          opt_all text_list (json_get obj ''adrIds'')
      | _ \<Rightarrow> False)"

fun is_flag :: "json option \<Rightarrow> bool" where
  "is_flag (Some (JBool b)) = True"
| "is_flag _ = False"

definition inspectionOutcome_ok :: "(string \<Rightarrow> bool) \<Rightarrow> json_object \<Rightarrow> bool" where
  "inspectionOutcome_ok is_uuid obj \<longleftrightarrow>
     json_get obj ''type'' = Some (JStr ''inspection_outcome'') \<and>
     one_of [''forge_inspect'', ''ci'', ''mcp'', ''rest''] (json_get obj ''source'') \<and>
     opt_all (\<lambda>v. non_empty_text (Some v)) (json_get obj ''taskId'') \<and>
     one_of [''constitutional'', ''critical'', ''major''] (json_get obj ''severity'') \<and>
     one_of [''boundary'', ''adr'', ''testing'', ''security'', ''phase_gate''] (json_get obj ''category'') \<and>
     is_flag (json_get obj ''resolved'') \<and> opt_all diffScope_ok (json_get obj ''diffScope'') \<and>
     opt_all (\<lambda>v. non_empty_text (Some v)) (json_get obj ''patternHint'') \<and> signal_id_ok is_uuid obj"

definition stripped_scope :: "json_object \<Rightarrow> json_object" where
  "stripped_scope obj =
     (case json_get obj ''diffScope'' of
        Some (JObj d) \<Rightarrow> [(''diffScope'', JObj (pick_keys [''paths'', ''modules'', ''adrIds''] d))]
      | _ \<Rightarrow> [])"

definition InspectionOutcomeNormalizer :: "(string \<Rightarrow> bool) \<Rightarrow> signal_normalizer" where
  "InspectionOutcomeNormalizer is_uuid raw ctx m =
     (case raw of
        JObj obj \<Rightarrow>
          if inspectionOutcome_ok is_uuid obj
          then Some \<lparr>qs_id = nullish (text_value (json_get obj ''signalId'')) (mint_id m), qs_type = InspectionOutcome,
                     qs_memory = None, qs_owner = sa_owner ctx, qs_workspace = sa_workspace ctx, qs_org = None,
                     qs_agent = None, qs_delta = None,
                     qs_payload = Some ((''kind'', JStr ''inspection_outcome'') #
                       pick_keys [''source'', ''taskId'', ''severity'', ''category'', ''resolved''] obj @
                       stripped_scope obj @ pick_keys [''patternHint''] obj),
                     qs_observed = mint_now m\<rparr>
          else None
      | _ \<Rightarrow> None)"

subsection \<open>Scoring\<close>

definition clampDelta :: "int \<Rightarrow> int" where
  "clampDelta delta = min 10 (max (- 10) delta)"

definition score_signal :: "quality_signal \<Rightarrow> int" where
  "score_signal signal =
     (case qs_delta signal of
        Some d \<Rightarrow> clampDelta d
      | None \<Rightarrow>
          let v = (case qs_payload signal of Some p \<Rightarrow> json_get p ''value'' | None \<Rightarrow> None)
          in if qs_type signal = ExplicitFeedback \<and> v = Some (JStr ''helpful'') then 5
             else if qs_type signal = ExplicitFeedback \<and> v = Some (JStr ''not_helpful'') then - 5
             else 0)"

definition applyDelta :: "int \<Rightarrow> int \<Rightarrow> int" where
  "applyDelta currentImportance delta = min 100 (max 0 (currentImportance + delta))"

subsection \<open>Table of signals\<close>

definition signal_clash :: "signal_row \<Rightarrow> signal_row \<Rightarrow> bool" where
  "signal_clash r s \<longleftrightarrow> sg_id r = sg_id s"

interpretation signal_ids: keyed_table sg_id signal_clash
  by unfold_locales (simp add: signal_clash_def)

definition signalExists :: "'a signal_db_scheme \<Rightarrow> string \<Rightarrow> bool" where
  "signalExists db signalId = (0 < sql_count (\<lambda>r. sg_id r = signalId) (signals db))"

definition signal_row_of :: "quality_signal \<Rightarrow> signal_row" where
  "signal_row_of s =
     \<lparr>sg_id = qs_id s, sg_owner = qs_owner s, sg_workspace = qs_workspace s, sg_memory = qs_memory s,
      sg_type = qs_type s, sg_payload = nullish (qs_payload s) [], sg_created = qs_observed s\<rparr>"

definition appendSignal ::
  "quality_signal \<Rightarrow> 'a signal_db_scheme \<Rightarrow> (app_error + unit) \<times> 'a signal_db_scheme" where
  "appendSignal s db =
     (case sql_insert signal_clash (signal_row_of s) (signals db) of
        Inl e \<Rightarrow> (Inl e, db) | Inr t \<Rightarrow> (Inr (), db\<lparr>signals := t\<rparr>))"

definition row_signal :: "signal_row \<Rightarrow> quality_signal" where
  "row_signal r =
     \<lparr>qs_id = sg_id r, qs_type = sg_type r, qs_memory = sg_memory r, qs_owner = sg_owner r,
      qs_workspace = sg_workspace r, qs_org = None, qs_agent = None, qs_delta = None,
      qs_payload = Some (sg_payload r), qs_observed = sg_created r\<rparr>"

definition listSignals :: "'a signal_db_scheme \<Rightarrow> memory_scope \<Rightarrow> nat \<Rightarrow> quality_signal list" where
  "listSignals db scope limit =
     map row_signal (take limit (order_desc sg_created (sql_select
       (\<lambda>r. sg_owner r = ms_owner scope \<and>
         (case truthy (ms_workspace scope) of None \<Rightarrow> True | Some w \<Rightarrow> sg_workspace r = Some w)) (signals db))))"

subsection \<open>Learning events\<close>

definition event_clash :: "learning_event \<Rightarrow> learning_event \<Rightarrow> bool" where
  "event_clash r s \<longleftrightarrow> le_id r = le_id s"

interpretation event_ids: keyed_table le_id event_clash
  by unfold_locales (simp add: event_clash_def)

text \<open>\<open>append\<close> stores an event unprocessed.\<close>

definition appendEvent ::
  "learning_event \<Rightarrow> 'a signal_db_scheme \<Rightarrow> (app_error + unit) \<times> 'a signal_db_scheme" where
  "appendEvent ev db =
     (case sql_insert event_clash (ev\<lparr>le_processed := False\<rparr>) (learning_events db) of
        Inl e \<Rightarrow> (Inl e, db) | Inr t \<Rightarrow> (Inr (), db\<lparr>learning_events := t\<rparr>))"

definition unprocessed :: "memory_scope \<Rightarrow> learning_event \<Rightarrow> bool" where
  "unprocessed scope e \<longleftrightarrow>
     le_owner e = ms_owner scope \<and> \<not> le_processed e \<and> le_workspace e = ms_workspace scope"

definition listUnprocessed :: "'a signal_db_scheme \<Rightarrow> memory_scope \<Rightarrow> nat \<Rightarrow> learning_event list" where
  "listUnprocessed db scope limit =
     take limit (order_asc le_created (sql_select (unprocessed scope) (learning_events db)))"

definition markProcessed :: "string list \<Rightarrow> 'a signal_db_scheme \<Rightarrow> 'a signal_db_scheme" where
  "markProcessed ids db =
     (if ids = [] then db
      else db\<lparr>learning_events := sql_update (\<lambda>e. le_id e \<in> set ids) (\<lambda>e. e\<lparr>le_processed := True\<rparr>) (learning_events db)\<rparr>)"

fun mapSignalType :: "signal_type \<Rightarrow> learning_event_type" where
  "mapSignalType ExplicitFeedback = FeedbackEvent"
| "mapSignalType AccessSignal = AccessEvent"
| "mapSignalType ConsolidationHint = ConsolidationEvent"
| "mapSignalType InspectionOutcome = InspectionEvent"
| "mapSignalType IngestSignal = AccessEvent"

text \<open>\<open>{ ...a, ...b }\<close>; a field that is undefined is not stored.\<close>

definition spread :: "json_object \<Rightarrow> json_object \<Rightarrow> json_object" where
  "spread a b = foldl (\<lambda>obj (k, v). json_set obj k v) a b"

definition memory_field :: "string option \<Rightarrow> json_object" where
  "memory_field i = (case i of Some x \<Rightarrow> [(''memoryId'', JStr x)] | None \<Rightarrow> [])"

definition recordFromSignal ::
  "memory_scope \<Rightarrow> quality_signal \<Rightarrow> ingest_result \<Rightarrow> mint \<Rightarrow> 'a signal_db_scheme
     \<Rightarrow> (app_error + unit) \<times> 'a signal_db_scheme" where
  "recordFromSignal scope signal res m db =
     (if \<not> ig_accepted res \<or> ig_duplicate res then (Inr (), db)
      else appendEvent
        \<lparr>le_id = mint_id m, le_owner = ms_owner scope, le_workspace = ms_workspace scope,
         le_type = mapSignalType (qs_type signal),
         le_payload = spread ((''signalId'', JStr (qs_id signal)) # memory_field (qs_memory signal) @
             [(''appliedDelta'', JNum (of_int (nullish (ig_delta res) 0)))]) (nullish (qs_payload signal) []),
         le_processed = False, le_created = qs_observed signal\<rparr> db)"

subsection \<open>Ingestor\<close>

definition append_if :: "bool \<Rightarrow> quality_signal \<Rightarrow> 'a signal_db_scheme \<Rightarrow> (app_error + unit) \<times> 'a signal_db_scheme" where
  "append_if stored signal db = (if stored then appendSignal signal db else (Inr (), db))"

text \<open>The flag says whether the ingestor has a signal store; the time is that of the update of the memory.\<close>

definition ingest ::
  "bool \<Rightarrow> memory_scope \<Rightarrow> quality_signal \<Rightarrow> string \<Rightarrow> 'a signal_db_scheme
     \<Rightarrow> (app_error + ingest_result) \<times> 'a signal_db_scheme" where
  "ingest stored scope signal now db =
     (let accept = (\<lambda>d. \<lparr>ig_accepted = True, ig_duplicate = False, ig_delta = Some d\<rparr>)
      in if qs_owner signal \<noteq> ms_owner scope then (Inl (NotFoundError ''Memory'' None), db)
         else if stored \<and> signalExists db (qs_id signal)
         then (Inr \<lparr>ig_accepted = False, ig_duplicate = True, ig_delta = None\<rparr>, db)
         else if qs_type signal = ConsolidationHint \<or> qs_type signal = InspectionOutcome
         then then_st (append_if stored signal db) (\<lambda>_ db1. (Inr (accept 0), db1))
         else case truthy (qs_memory signal) of
           None \<Rightarrow> (Inr \<lparr>ig_accepted = False, ig_duplicate = False, ig_delta = None\<rparr>, db)
         | Some memoryId \<Rightarrow>
             (case findById db memoryId (ms_owner scope) (ms_workspace scope) of
                None \<Rightarrow> (Inl (NotFoundError ''Memory'' (Some memoryId)), db)
              | Some memory \<Rightarrow>
                  let delta = score_signal signal
                  in if delta = 0 then then_st (append_if stored signal db) (\<lambda>_ db1. (Inr (accept 0), db1))
                     else
                       let nextImportance = applyDelta (m_importance memory) delta;
                           db1 = snd (bumpImportance db memoryId (ms_owner scope) nextImportance (ms_workspace scope) now)
                       in then_st (append_if stored signal db1) (\<lambda>_ db2. (Inr (accept delta), db2))))"

text \<open>One request: the signal and the event each draw a mint; the recorder is optional.\<close>

record signal_mints =
  gm_signal :: mint
  gm_event :: mint
  gm_now :: string

definition processSignalIngest ::
  "signal_normalizer \<Rightarrow> bool \<Rightarrow> bool \<Rightarrow> memory_scope \<Rightarrow> json \<Rightarrow> signal_mints \<Rightarrow> 'a signal_db_scheme
     \<Rightarrow> (app_error + ingest_result) \<times> 'a signal_db_scheme" where
  "processSignalIngest normalizer stored recorder scope raw ms db =
     (case normalizer raw \<lparr>sa_owner = ms_owner scope, sa_workspace = ms_workspace scope\<rparr> (gm_signal ms) of
        None \<Rightarrow> (Inl (ValidationError ''Invalid signal payload''), db)
      | Some signal \<Rightarrow>
          then_st (ingest stored scope signal (gm_now ms) db) (\<lambda>res db1.
            if ig_accepted res \<and> \<not> ig_duplicate res \<and> recorder
            then then_st (recordFromSignal scope signal res (gm_event ms) db1) (\<lambda>_ db2. (Inr res, db2))
            else (Inr res, db1)))"

definition signalNormalizer :: "(string \<Rightarrow> bool) \<Rightarrow> signal_normalizer" where
  "signalNormalizer is_uuid =
     CompositeSignalNormalizer [DefaultSignalNormalizer is_uuid, InspectionOutcomeNormalizer is_uuid]"

end
