(* ===== verification/Learning.thy ===== *)
theory Learning
  imports Signals Maintenance
begin

section \<open>Learning\<close>

text \<open>
  What the server learns from recorded events: the engines of \<^verbatim>\<open>src/src/learning\<close>, the table of ranking
  snapshots (\<^verbatim>\<open>src/src/infrastructure/learning/sql-learning-artifact-store.ts\<close>), the orchestrator with its
  disabled form, and the reflection over stored signals (\<^verbatim>\<open>src/src/ingest/signal-reflection-runner.ts\<close>).
  Numbers are rationals. The texts of recommendations and notes are left out.
\<close>

subsection \<open>Types\<close>

datatype weight_key =
    LevelCanonical | LevelSummary | LevelNote | LevelRaw | RecencyDays7 | RecencyDays30 | AccessCountLog

fun RETRIEVAL_WEIGHTS :: "weight_key \<Rightarrow> rat" where
  "RETRIEVAL_WEIGHTS LevelCanonical = 30"
| "RETRIEVAL_WEIGHTS LevelSummary = 20"
| "RETRIEVAL_WEIGHTS LevelNote = 10"
| "RETRIEVAL_WEIGHTS LevelRaw = 0"
| "RETRIEVAL_WEIGHTS RecencyDays7 = 15"
| "RETRIEVAL_WEIGHTS RecencyDays30 = 8"
| "RETRIEVAL_WEIGHTS AccessCountLog = 5"

record ranking_snapshot =
  rk_id :: string
  rk_owner :: string
  rk_workspace :: "string option"
  rk_version :: int
  rk_multipliers :: "(weight_key \<times> rat) list"
  rk_created :: string

record snapshot_row =
  sn_id :: string
  sn_owner :: string
  sn_workspace :: "string option"
  sn_type :: string
  sn_payload :: ranking_snapshot
  sn_active :: bool
  sn_created :: string

record learning_db = signal_db +
  ranking_snapshots :: "snapshot_row list"

record behavior_summary =
  bh_total :: nat
  bh_unprocessed :: nat
  bh_by_type :: "(learning_event_type \<times> nat) list"
  bh_helpful :: nat
  bh_not_helpful :: nat

record learning_options =
  lo_dry :: bool
  lo_limit :: "nat option"

record learning_report =
  lr_dry :: bool
  lr_events :: nat
  lr_analytics :: behavior_summary
  lr_snapshot :: "ranking_snapshot option"
  lr_recommendations :: nat
  lr_patterns :: nat

definition LEARNING_MIN_FEEDBACK_EVENTS :: nat where "LEARNING_MIN_FEEDBACK_EVENTS = 3"
definition LEARNING_WEIGHT_MULTIPLIER_MIN :: rat where "LEARNING_WEIGHT_MULTIPLIER_MIN = 4 / 5"
definition LEARNING_WEIGHT_MULTIPLIER_MAX :: rat where "LEARNING_WEIGHT_MULTIPLIER_MAX = 6 / 5"
definition LEARNING_DEFAULT_EVENT_BATCH :: nat where "LEARNING_DEFAULT_EVENT_BATCH = 500"

subsection \<open>Engines\<close>

definition event_value :: "learning_event \<Rightarrow> json option" where
  "event_value e = json_get (le_payload e) ''value''"

definition helpful :: "learning_event \<Rightarrow> bool" where
  "helpful e \<longleftrightarrow> le_type e = FeedbackEvent \<and> event_value e = Some (JStr ''helpful'')"

definition not_helpful :: "learning_event \<Rightarrow> bool" where
  "not_helpful e \<longleftrightarrow> le_type e = FeedbackEvent \<and> event_value e = Some (JStr ''not_helpful'')"

text \<open>A counter per key, in the order in which the keys first occur.\<close>

fun count_key :: "'k \<Rightarrow> ('k \<times> nat) list \<Rightarrow> ('k \<times> nat) list" where
  "count_key k [] = [(k, 1)]"
| "count_key k ((k', n) # cs) = (if k' = k then (k', n + 1) # cs else (k', n) # count_key k cs)"

definition count_types :: "learning_event list \<Rightarrow> (learning_event_type \<times> nat) list" where
  "count_types events = foldl (\<lambda>cs e. count_key (le_type e) cs) [] events"

definition summarize :: "learning_event list \<Rightarrow> behavior_summary" where
  "summarize events =
     \<lparr>bh_total = length events, bh_unprocessed = length (filter (\<lambda>e. \<not> le_processed e) events),
      bh_by_type = count_types events, bh_helpful = length (filter helpful events),
      bh_not_helpful = length (filter not_helpful events)\<rparr>"

definition clampMultiplier :: "rat \<Rightarrow> rat" where
  "clampMultiplier v = min LEARNING_WEIGHT_MULTIPLIER_MAX (max LEARNING_WEIGHT_MULTIPLIER_MIN v)"

definition resolveRetrievalWeight :: "weight_key \<Rightarrow> ranking_snapshot option \<Rightarrow> rat" where
  "resolveRetrievalWeight key snapshot =
     (let multiplier = (case snapshot of None \<Rightarrow> 1 | Some s \<Rightarrow> nullish (map_of (rk_multipliers s) key) 1)
      in RETRIEVAL_WEIGHTS key * clampMultiplier multiplier)"

text \<open>\<open>DefaultRankingLearningEngine\<close>.\<close>

definition computeRanking :: "memory_scope \<Rightarrow> learning_event list \<Rightarrow> mint \<Rightarrow> ranking_snapshot option" where
  "computeRanking scope events m =
     (let feedback = filter (\<lambda>e. le_type e = FeedbackEvent) events
      in if length feedback < LEARNING_MIN_FEEDBACK_EVENTS then None
         else
           let yes = length (filter (\<lambda>e. event_value e = Some (JStr ''helpful'')) feedback);
               nay = length (filter (\<lambda>e. event_value e = Some (JStr ''not_helpful'')) feedback)
           in if yes + nay = 0 then None
              else
                let helpfulRatio = of_nat yes / of_nat (yes + nay);
                    accessMultiplier = clampMultiplier (LEARNING_WEIGHT_MULTIPLIER_MIN +
                      helpfulRatio * (LEARNING_WEIGHT_MULTIPLIER_MAX - LEARNING_WEIGHT_MULTIPLIER_MIN))
                in Some \<lparr>rk_id = mint_id m, rk_owner = ms_owner scope, rk_workspace = ms_workspace scope,
                         rk_version = 1, rk_multipliers = [(AccessCountLog, accessMultiplier)], rk_created = mint_now m\<rparr>)"

text \<open>\<open>payload.memoryId ?? payload.memory_id\<close>, if it is a non-empty string.\<close>

definition memoryIdFromEvent :: "learning_event \<Rightarrow> string option" where
  "memoryIdFromEvent e =
     (let v = (case json_get (le_payload e) ''memoryId'' of
                 None \<Rightarrow> json_get (le_payload e) ''memory_id''
               | Some JNull \<Rightarrow> json_get (le_payload e) ''memory_id''
               | Some v \<Rightarrow> Some v)
      in truthy (text_value v))"

record feedback_stats =
  fs_score :: int
  fs_helpful :: nat
  fs_not_helpful :: nat

definition count_feedback :: "json option \<Rightarrow> feedback_stats \<Rightarrow> feedback_stats" where
  "count_feedback v s =
     (if v = Some (JStr ''helpful'') then s\<lparr>fs_score := fs_score s + 2, fs_helpful := fs_helpful s + 1\<rparr>
      else if v = Some (JStr ''not_helpful'')
      then s\<lparr>fs_score := fs_score s - 1, fs_not_helpful := fs_not_helpful s + 1\<rparr>
      else s)"

fun update_stats :: "string \<Rightarrow> (feedback_stats \<Rightarrow> feedback_stats) \<Rightarrow> (string \<times> feedback_stats) list \<Rightarrow> (string \<times> feedback_stats) list" where
  "update_stats k f [] = [(k, f \<lparr>fs_score = 0, fs_helpful = 0, fs_not_helpful = 0\<rparr>)]"
| "update_stats k f ((k', s) # rest) = (if k' = k then (k', f s) # rest else (k', s) # update_stats k f rest)"

definition feedback_scores :: "learning_event list \<Rightarrow> (string \<times> feedback_stats) list" where
  "feedback_scores events =
     foldl (\<lambda>acc e. case memoryIdFromEvent e of
        None \<Rightarrow> acc | Some i \<Rightarrow> if le_type e = FeedbackEvent then update_stats i (count_feedback (event_value e)) acc else acc)
       [] events"

definition recommend :: "learning_event list \<Rightarrow> nat \<Rightarrow> (string \<times> int) list" where
  "recommend events limit =
     map (\<lambda>(i, s). (i, fs_score s)) (take limit (sort_key (\<lambda>(i, s). - fs_score s)
       (filter (\<lambda>(i, s). 0 < fs_score s) (feedback_scores events))))"

definition minePatterns :: "learning_event list \<Rightarrow> (learning_event_type \<times> nat) list" where
  "minePatterns events = filter (\<lambda>(t, n). 2 \<le> n) (count_types events)"

fun add_topic :: "string \<Rightarrow> string \<Rightarrow> (string \<times> string list) list \<Rightarrow> (string \<times> string list) list" where
  "add_topic p i [] = [(p, [i])]"
| "add_topic p i ((p', ids) # rest) =
     (if p' = p then (p', if i \<in> set ids then ids else ids @ [i]) # rest else (p', ids) # add_topic p i rest)"

definition discover :: "learning_event list \<Rightarrow> (string \<times> string list) list" where
  "discover events =
     filter (\<lambda>(p, ids). 2 \<le> length ids) (foldl (\<lambda>acc e. case memoryIdFromEvent e of
        None \<Rightarrow> acc
      | Some i \<Rightarrow> add_topic (nullish (truthy (text_value (json_get (le_payload e) ''project''))) ''default'') i acc) [] events)"

definition adapt :: "behavior_summary \<Rightarrow> bool" where
  "adapt analytics \<longleftrightarrow>
     LEARNING_MIN_FEEDBACK_EVENTS \<le> bh_helpful analytics \<and> bh_not_helpful analytics < bh_helpful analytics"

definition evaluate_score :: "behavior_summary \<Rightarrow> rat" where
  "evaluate_score analytics =
     (let totalFeedback = bh_helpful analytics + bh_not_helpful analytics
      in if 0 < totalFeedback then of_nat (bh_helpful analytics) / of_nat totalFeedback else 0)"

subsection \<open>Table of snapshots\<close>

definition SNAPSHOT_TYPE_RANKING :: string where "SNAPSHOT_TYPE_RANKING = ''ranking''"

definition snapshot_clash :: "snapshot_row \<Rightarrow> snapshot_row \<Rightarrow> bool" where
  "snapshot_clash r s \<longleftrightarrow> sn_id r = sn_id s"

interpretation snapshot_ids: keyed_table sn_id snapshot_clash
  by unfold_locales (simp add: snapshot_clash_def)

definition ranking_of :: "string \<Rightarrow> string option \<Rightarrow> snapshot_row \<Rightarrow> bool" where
  "ranking_of ownerId workspaceId r \<longleftrightarrow>
     sn_owner r = ownerId \<and> sn_type r = SNAPSHOT_TYPE_RANKING \<and> sn_workspace r = workspaceId"

definition saveRankingSnapshot ::
  "ranking_snapshot \<Rightarrow> bool \<Rightarrow> 'a learning_db_scheme \<Rightarrow> (app_error + unit) \<times> 'a learning_db_scheme" where
  "saveRankingSnapshot s activate db =
     (let t = (if activate then sql_update (ranking_of (rk_owner s) (rk_workspace s)) (\<lambda>r. r\<lparr>sn_active := False\<rparr>)
                 (ranking_snapshots db) else ranking_snapshots db);
          db1 = db\<lparr>ranking_snapshots := t\<rparr>
      in case sql_insert snapshot_clash
               \<lparr>sn_id = rk_id s, sn_owner = rk_owner s, sn_workspace = rk_workspace s, sn_type = SNAPSHOT_TYPE_RANKING,
                sn_payload = s, sn_active = activate, sn_created = rk_created s\<rparr> t of
           Inl e \<Rightarrow> (Inl e, db1) | Inr t' \<Rightarrow> (Inr (), db1\<lparr>ranking_snapshots := t'\<rparr>))"

definition getActiveRankingSnapshot :: "'a learning_db_scheme \<Rightarrow> memory_scope \<Rightarrow> ranking_snapshot option" where
  "getActiveRankingSnapshot db scope =
     (case order_desc sn_created (sql_select (\<lambda>r. ranking_of (ms_owner scope) (ms_workspace scope) r \<and> sn_active r)
             (ranking_snapshots db)) of
        [] \<Rightarrow> None | r # _ \<Rightarrow> Some (sn_payload r))"

subsection \<open>Orchestrator\<close>

text \<open>
  The engines that may be left out and whose answers enter the report. The answers of the discovery, the
  adaptation, the suggestion, the export and the evaluation are awaited and dropped, so they are no part
  of a run.
\<close>

record learning_engines =
  en_recommend :: "(learning_event list \<Rightarrow> nat \<Rightarrow> (string \<times> int) list) option"
  en_patterns :: "(learning_event list \<Rightarrow> (learning_event_type \<times> nat) list) option"

definition runLearning ::
  "learning_engines \<Rightarrow> memory_scope \<Rightarrow> learning_options \<Rightarrow> mint \<Rightarrow> 'a learning_db_scheme
     \<Rightarrow> (app_error + learning_report) \<times> 'a learning_db_scheme" where
  "runLearning engines scope opts m db =
     (let events = listUnprocessed db scope (nullish (lo_limit opts) LEARNING_DEFAULT_EVENT_BATCH);
          snapshot = computeRanking scope events m;
          report = \<lparr>lr_dry = lo_dry opts, lr_events = length events, lr_analytics = summarize events,
                    lr_snapshot = snapshot,
                    lr_recommendations = (case en_recommend engines of None \<Rightarrow> 0 | Some f \<Rightarrow> length (f events 10)),
                    lr_patterns = (case en_patterns engines of None \<Rightarrow> 0 | Some f \<Rightarrow> length (f events))\<rparr>
      in if lo_dry opts then (Inr report, db)
         else then_st (case snapshot of Some s \<Rightarrow> saveRankingSnapshot s True db | None \<Rightarrow> (Inr (), db))
           (\<lambda>_ db1. (Inr report, if events = [] then db1 else markProcessed (map le_id events) db1)))"

definition NoOpLearningOrchestrator ::
  "memory_scope \<Rightarrow> learning_options \<Rightarrow> mint \<Rightarrow> 'a learning_db_scheme \<Rightarrow> (app_error + learning_report) \<times> 'a learning_db_scheme" where
  "NoOpLearningOrchestrator scope opts m db =
     (Inr \<lparr>lr_dry = lo_dry opts, lr_events = 0,
           lr_analytics = \<lparr>bh_total = 0, bh_unprocessed = 0, bh_by_type = [], bh_helpful = 0, bh_not_helpful = 0\<rparr>,
           lr_snapshot = None, lr_recommendations = 0, lr_patterns = 0\<rparr>, db)"

definition learningEngines :: learning_engines where
  "learningEngines = \<lparr>en_recommend = Some recommend, en_patterns = Some minePatterns\<rparr>"

text \<open>The flag says that the engine is enabled and its store is SQL.\<close>

definition createLearningPorts ::
  "bool \<Rightarrow> memory_scope \<Rightarrow> learning_options \<Rightarrow> mint \<Rightarrow> 'a learning_db_scheme
     \<Rightarrow> (app_error + learning_report) \<times> 'a learning_db_scheme" where
  "createLearningPorts enabled = (if enabled then runLearning learningEngines else NoOpLearningOrchestrator)"

subsection \<open>Reflection\<close>

fun reflected_type :: "signal_type \<Rightarrow> learning_event_type" where
  "reflected_type ExplicitFeedback = FeedbackEvent"
| "reflected_type ConsolidationHint = ConsolidationEvent"
| "reflected_type _ = AccessEvent"

definition signalToLearningEvent :: "quality_signal \<Rightarrow> learning_event" where
  "signalToLearningEvent s =
     \<lparr>le_id = qs_id s, le_owner = qs_owner s, le_workspace = qs_workspace s, le_type = reflected_type (qs_type s),
      le_payload = spread (memory_field (qs_memory s)) (nullish (qs_payload s) []), le_processed = False,
      le_created = qs_observed s\<rparr>"

record reflection_report =
  rf_dry :: bool
  rf_scanned :: nat
  rf_feedback :: nat
  rf_snapshot :: "ranking_snapshot option"

text \<open>The last flag says whether the runner has an artifact store.\<close>

definition runReflection ::
  "memory_scope \<Rightarrow> learning_options \<Rightarrow> bool \<Rightarrow> mint \<Rightarrow> 'a learning_db_scheme
     \<Rightarrow> (app_error + reflection_report) \<times> 'a learning_db_scheme" where
  "runReflection scope opts store m db =
     (let found = listSignals db scope (nullish (lo_limit opts) 500);
          events = map signalToLearningEvent found;
          snapshot = computeRanking scope events m;
          report = \<lparr>rf_dry = lo_dry opts, rf_scanned = length found,
                    rf_feedback = length (filter (\<lambda>e. le_type e = FeedbackEvent) events), rf_snapshot = snapshot\<rparr>
      in then_st (case snapshot of
             Some s \<Rightarrow> if \<not> lo_dry opts \<and> store then saveRankingSnapshot s True db else (Inr (), db)
           | None \<Rightarrow> (Inr (), db))
         (\<lambda>_ db1. (Inr report, db1)))"

end
