(* ===== verification/Learning_Laws.thy ===== *)
theory Learning_Laws
  imports Learning Consolidation_Laws
begin

section \<open>Laws of signals and learning\<close>

text \<open>
  A signal counts once, a learning run takes the events of its scope in order and only once, and the
  ranking snapshots keep one active row per scope with multipliers in their bounds.
\<close>

subsection \<open>A signal counts once\<close>

definition signal_stored :: "string \<Rightarrow> 'a signal_db_scheme \<Rightarrow> bool" where
  "signal_stored i db \<longleftrightarrow> (\<exists>r \<in> set (signals db). sg_id r = i)"

lemma signalExists_stored: "signalExists db i = signal_stored i db"
  unfolding signalExists_def signal_stored_def sql_count_def by (simp add: filter_empty_conv)

lemma signals_put [simp]: "signals (snd (bumpImportance db i o' n w now)) = signals db"
  by (simp add: bumpImportance_def touch_row_def put_memory_def split: option.splits)

lemma appendSignal_cases:
  assumes "append_if stored s db = (res, db1)"
  obtains (left) e where "res = Inl e" "db1 = db"
    | (skipped) "res = Inr ()" "db1 = db" "\<not> stored"
    | (added) "res = Inr ()" "db1 = db\<lparr>signals := signals db @ [signal_row_of s]\<rparr>" "stored"
  using assms by (auto simp: append_if_def appendSignal_def simp del: sql_insert_Inr split: if_splits sum.splits)
    (auto)

lemma append_if_then:
  assumes "then_st (append_if stored s db) (\<lambda>_ d. (Inr x, d)) = (Inr res, db1)"
  shows "res = x \<and> db1 = (if stored then db\<lparr>signals := signals db @ [signal_row_of s]\<rparr> else db)"
proof -
  obtain r d where run: "append_if stored s db = (r, d)" by fastforce
  with assms show ?thesis by (cases rule: appendSignal_cases [OF run]) auto
qed

text \<open>What an accepted signal did.\<close>

definition signal_target :: "memory_scope \<Rightarrow> quality_signal \<Rightarrow> memory_row \<Rightarrow> bool" where
  "signal_target scope s r \<longleftrightarrow>
     qs_type s \<noteq> ConsolidationHint \<and> qs_type s \<noteq> InspectionOutcome \<and> score_signal s \<noteq> 0 \<and>
     (case truthy (qs_memory s) of None \<Rightarrow> False | Some i \<Rightarrow> memory_hit i (ms_owner scope) (ms_workspace scope) r)"

definition scored_row :: "quality_signal \<Rightarrow> string \<Rightarrow> memory_row \<Rightarrow> memory_row" where
  "scored_row s now r = r\<lparr>m_importance := applyDelta (m_importance r) (score_signal s), m_updated := now\<rparr>"

lemma bump_scored:
  assumes "memory_ids.unique (memories db)" "findById db i o' w = Some m"
  shows "snd (bumpImportance db i o' (applyDelta (m_importance m) d) w now) =
    put_memory (sql_update (memory_hit i o' w)
      (\<lambda>r. r\<lparr>m_importance := applyDelta (m_importance r) d, m_updated := now\<rparr>) (memories db)) db"
proof -
  obtain x where x: "sql_first (memory_hit i o' w) (memories db) = Some x" "m = rowToRetrieval x"
    using assms(2) by (auto simp: findById_def)
  have "r = x" if "r \<in> set (memories db)" "memory_hit i o' w r" for r
    using unique_id_row [OF assms(1) that(1), of x] sql_first_SomeD [OF x(1)] that(2) by (simp add: memory_hit_def)
  moreover have "m_importance m = m_importance x" by (simp add: x(2) rowToRetrieval_def rowToMemory_def memory.defs)
  ultimately have upd: "sql_update (memory_hit i o' w) (\<lambda>r. r\<lparr>m_importance := applyDelta (m_importance m) d, m_updated := now\<rparr>) (memories db) =
      sql_update (memory_hit i o' w) (\<lambda>r. r\<lparr>m_importance := applyDelta (m_importance r) d, m_updated := now\<rparr>) (memories db)"
    unfolding sql_update_def by (intro map_cong refl) metis
  show ?thesis unfolding bumpImportance_def touch_row_def assms(2) using upd by simp
qed

lemma ingest_accepted:
  assumes "ingest stored scope s now db = (Inr res, db1)" "ig_accepted res" "memory_ids.unique (memories db)"
  shows "memories db1 = sql_update (signal_target scope s) (scored_row s now) (memories db) \<and>
    signals db1 = (if stored then signals db @ [signal_row_of s] else signals db) \<and>
    learning_events db1 = learning_events db \<and> \<not> ig_duplicate res \<and> qs_owner s = ms_owner scope \<and>
    (stored \<longrightarrow> \<not> signal_stored (qs_id s) db)"
proof -
  have new: "qs_owner s = ms_owner scope" "\<not> (stored \<and> signalExists db (qs_id s))"
    using assms(1,2) by (auto simp: ingest_def Let_def split: if_splits)
  have same: "sql_update p f t = t" if "\<And>r. r \<in> set t \<Longrightarrow> \<not> p r" for p and f :: "memory_row \<Rightarrow> memory_row" and t
    using that unfolding sql_update_def by (intro map_idI) auto
  show ?thesis
  proof (cases "qs_type s = ConsolidationHint \<or> qs_type s = InspectionOutcome")
    case True
    then show ?thesis using assms(1) new same [of "memories db" "signal_target scope s"]
      by (auto simp: ingest_def Let_def signal_target_def signalExists_stored dest!: append_if_then)
  next
    case False
    then obtain i where i: "truthy (qs_memory s) = Some i"
      using assms(1,2) new by (auto simp: ingest_def Let_def split: option.splits)
    obtain m where m: "findById db i (ms_owner scope) (ms_workspace scope) = Some m"
      using assms(1) new False i by (auto simp: ingest_def Let_def split: option.splits)
    show ?thesis
    proof (cases "score_signal s = 0")
      case True
      then show ?thesis using assms(1) new False i m same [of "memories db" "signal_target scope s"]
        by (auto simp: ingest_def Let_def signal_target_def signalExists_stored dest!: append_if_then)
    next
      case nz: False
      have hit: "signal_target scope s = memory_hit i (ms_owner scope) (ms_workspace scope)"
        using False nz i by (auto simp: signal_target_def fun_eq_iff)
      show ?thesis using assms(1) new False i m nz
        by (auto simp: ingest_def Let_def bump_scored [OF assms(3) m] hit scored_row_def [abs_def] signalExists_stored put_memory_def
            dest!: append_if_then)
    qed
  qed
qed

lemma ingest_signals:
  assumes "ingest True scope s now db = (r, db1)"
  shows "(signals db1 = signals db \<or> signals db1 = signals db @ [signal_row_of s])"
proof -
  have app: "signals d1 = signals d \<or> signals d1 = signals d @ [signal_row_of s]"
    if "then_st (append_if True s d) (\<lambda>_ d2. (Inr x, d2)) = (r, d1)" for x d d1
  proof -
    obtain q e where run: "append_if True s d = (q, e)" by fastforce
    with that show ?thesis by (cases rule: appendSignal_cases [OF run]) auto
  qed
  show ?thesis using assms
    by (auto simp: ingest_def Let_def split: if_splits option.splits dest!: app)
qed

lemma recordFromSignal_frame:
  "signals (snd (recordFromSignal scope s res m db)) = signals db \<and> memories (snd (recordFromSignal scope s res m db)) = memories db"
  by (auto simp: recordFromSignal_def appendEvent_def simp del: sql_insert_Inr split: sum.splits)

lemma processSignalIngest_signals:
  "\<exists>t. signals (snd (processSignalIngest nf True rec scope raw ms db)) = signals db @ t"
proof (cases "nf raw \<lparr>sa_owner = ms_owner scope, sa_workspace = ms_workspace scope\<rparr> (gm_signal ms)")
  case None
  then show ?thesis by (simp add: processSignalIngest_def)
next
  case (Some s)
  obtain r db1 where run: "ingest True scope s (gm_now ms) db = (r, db1)" by fastforce
  have frame: "signals (snd (then_st (recordFromSignal scope s res m d) (\<lambda>_ d2. (Inr res, d2)))) = signals d" for res m d
    using recordFromSignal_frame [of scope s res m d] by (cases "recordFromSignal scope s res m d") (auto simp: then_st_def split: sum.splits)
  show ?thesis using ingest_signals [OF run] Some run
    by (cases r) (auto simp: processSignalIngest_def frame)
qed

text \<open>Requests in the order in which the server handles them.\<close>

fun ingest_all ::
  "signal_normalizer \<Rightarrow> bool \<Rightarrow> (memory_scope \<times> json \<times> signal_mints) list \<Rightarrow> 'a signal_db_scheme \<Rightarrow> 'a signal_db_scheme" where
  "ingest_all nf rec [] db = db"
| "ingest_all nf rec ((scope, raw, ms) # rqs) db =
     ingest_all nf rec rqs (snd (processSignalIngest nf True rec scope raw ms db))"

lemma ingest_all_signals: "\<exists>t. signals (ingest_all nf rec rqs db) = signals db @ t"
proof (induction nf rec rqs db rule: ingest_all.induct)
  case (2 nf rec scope raw ms rqs db)
  then show ?case using processSignalIngest_signals [of nf rec scope raw ms db] by auto
qed simp


subsection \<open>Snapshots\<close>

text \<open>Of the rows of a scope only the last can be active, and all multipliers are within their bounds.\<close>

definition multipliers_ok :: "ranking_snapshot \<Rightarrow> bool" where
  "multipliers_ok s \<longleftrightarrow> (\<forall>(k, v) \<in> set (rk_multipliers s). 4 / 5 \<le> v \<and> v \<le> 6 / 5)"

definition snapshots_ok :: "snapshot_row list \<Rightarrow> bool" where
  "snapshots_ok t \<longleftrightarrow>
     (\<forall>o' w. \<forall>r \<in> set (butlast (filter (ranking_of o' w) t)). \<not> sn_active r) \<and>
     (\<forall>r \<in> set t. multipliers_ok (sn_payload r))"

lemma clampMultiplier_bounds: "4 / 5 \<le> clampMultiplier v \<and> clampMultiplier v \<le> 6 / 5"
  by (auto simp: clampMultiplier_def LEARNING_WEIGHT_MULTIPLIER_MIN_def LEARNING_WEIGHT_MULTIPLIER_MAX_def min_def max_def)

lemma computeRanking_bounds:
  assumes "computeRanking scope events m = Some s"
  shows "multipliers_ok s"
  using assms clampMultiplier_bounds by (auto simp: multipliers_ok_def computeRanking_def Let_def split: if_splits)

lemma ranking_of_deactivate [simp]: "ranking_of o' w (r\<lparr>sn_active := b\<rparr>) = ranking_of o' w r"
  by (simp add: ranking_of_def)

lemma ranking_scope: "ranking_of o' w r \<Longrightarrow> ranking_of o2 w2 r \<Longrightarrow> o2 = o' \<and> w2 = w"
  by (simp add: ranking_of_def)

lemma deactivated_filter:
  "filter (ranking_of o' w) (sql_update (ranking_of o2 w2) (\<lambda>r. r\<lparr>sn_active := False\<rparr>) t) =
     (if o2 = o' \<and> w2 = w then map (\<lambda>r. r\<lparr>sn_active := False\<rparr>) (filter (ranking_of o' w) t)
      else filter (ranking_of o' w) t)"
proof (cases "o2 = o' \<and> w2 = w")
  case True
  then show ?thesis unfolding sql_update_def by (induction t) auto
next
  case False
  then show ?thesis unfolding sql_update_def using ranking_scope [of o' w _ o2 w2] by (induction t) auto
qed

lemma save_ok:
  assumes "snapshots_ok (ranking_snapshots db)" "multipliers_ok s"
  shows "snapshots_ok (ranking_snapshots (snd (saveRankingSnapshot s True db)))"
proof -
  let ?t = "sql_update (ranking_of (rk_owner s) (rk_workspace s)) (\<lambda>r. r\<lparr>sn_active := False\<rparr>) (ranking_snapshots db)"
  let ?r = "\<lparr>sn_id = rk_id s, sn_owner = rk_owner s, sn_workspace = rk_workspace s, sn_type = SNAPSHOT_TYPE_RANKING,
              sn_payload = s, sn_active = True, sn_created = rk_created s\<rparr>"
  have dis: "\<forall>r \<in> set (butlast (filter (ranking_of o' w) ?t)). \<not> sn_active r" for o' w
    using assms(1) by (auto simp: deactivated_filter snapshots_ok_def simp flip: map_butlast)
  have all: "\<forall>r \<in> set (filter (ranking_of (rk_owner s) (rk_workspace s)) ?t). \<not> sn_active r"
    by (auto simp: deactivated_filter)
  have bounds: "\<forall>r \<in> set ?t. multipliers_ok (sn_payload r)"
    using assms(1) by (auto simp: snapshots_ok_def set_sql_update)
  have new: "snapshots_ok (?t @ [?r])"
    unfolding snapshots_ok_def
  proof (intro conjI allI)
    fix o' w
    show "\<forall>r \<in> set (butlast (filter (ranking_of o' w) (?t @ [?r]))). \<not> sn_active r"
    proof (cases "ranking_of o' w ?r")
      case True
      then show ?thesis using all by (simp add: ranking_of_def butlast_append)
    next
      case False
      then show ?thesis using dis by simp
    qed
  qed (use bounds assms(2) in auto)
  have old: "snapshots_ok ?t" unfolding snapshots_ok_def using dis bounds by blast
  show ?thesis using new old
    by (auto simp: saveRankingSnapshot_def Let_def simp del: sql_insert_Inr split: sum.splits) (simp add: sql_insert_def split: if_splits)
qed

inductive learning_step :: "learning_db \<Rightarrow> learning_db \<Rightarrow> bool" where
  learn: "learning_step db (snd (runLearning engines scope opts m db))"
| reflect: "learning_step db (snd (runReflection scope opts store m db))"
| request: "learning_step db (snd (processSignalIngest nf stored rec scope raw ms db))"

lemma markProcessed_snapshots [simp]: "ranking_snapshots (markProcessed ids db) = ranking_snapshots db"
  by (simp add: markProcessed_def)

lemma runLearning_snapshots:
  "ranking_snapshots (snd (runLearning engines scope opts m db)) = ranking_snapshots db \<or>
   (\<exists>events s. computeRanking scope events m = Some s \<and>
      ranking_snapshots (snd (runLearning engines scope opts m db)) = ranking_snapshots (snd (saveRankingSnapshot s True db)))"
  by (auto simp: runLearning_def Let_def then_st_def split: option.splits sum.splits prod.splits) (metis snd_conv)+

lemma runReflection_snapshots:
  "ranking_snapshots (snd (runReflection scope opts store m db)) = ranking_snapshots db \<or>
   (\<exists>events s. computeRanking scope events m = Some s \<and>
      ranking_snapshots (snd (runReflection scope opts store m db)) = ranking_snapshots (snd (saveRankingSnapshot s True db)))"
  by (auto simp: runReflection_def Let_def then_st_def split: option.splits sum.splits prod.splits) (metis snd_conv)+

lemma append_if_frame: "learning_db.ranking_snapshots (snd (append_if stored s db)) = ranking_snapshots db"
  by (auto simp: append_if_def appendSignal_def simp del: sql_insert_Inr split: sum.splits)

lemma then_st_return [simp]: "snd (then_st p (\<lambda>_ d. (Inr x, d))) = snd p"
  by (cases p) (auto simp: then_st_def split: sum.splits)

lemma bump_snapshots: "learning_db.ranking_snapshots (snd (bumpImportance db i o' n w now)) = ranking_snapshots db"
  by (simp add: bumpImportance_def touch_row_def put_memory_def split: option.splits)

lemma ingest_frame: "learning_db.ranking_snapshots (snd (ingest stored scope s now db)) = ranking_snapshots db"
  unfolding ingest_def Let_def by (simp add: append_if_frame bump_snapshots split: option.splits)

lemma recordFromSignal_snapshots: "learning_db.ranking_snapshots (snd (recordFromSignal scope s res m db)) = ranking_snapshots db"
  by (auto simp: recordFromSignal_def appendEvent_def simp del: sql_insert_Inr split: sum.splits)

lemma request_snapshots:
  "learning_db.ranking_snapshots (snd (processSignalIngest nf stored rec scope raw ms db)) = ranking_snapshots db"
proof (cases "nf raw \<lparr>sa_owner = ms_owner scope, sa_workspace = ms_workspace scope\<rparr> (gm_signal ms)")
  case None
  then show ?thesis by (simp add: processSignalIngest_def)
next
  case (Some s)
  obtain r d where run: "ingest stored scope s (gm_now ms) db = (r, d)" by fastforce
  then show ?thesis using Some ingest_frame [of stored scope s "gm_now ms" db] recordFromSignal_snapshots [of scope s _ "gm_event ms" d]
    by (cases r) (simp_all add: processSignalIngest_def)
qed

lemma learning_step_ok:
  "learning_step db db' \<Longrightarrow> snapshots_ok (ranking_snapshots db) \<Longrightarrow> snapshots_ok (ranking_snapshots db')"
proof (induction rule: learning_step.induct)
  case (learn db engines scope opts m)
  then show ?case using runLearning_snapshots [of engines scope opts m db] save_ok computeRanking_bounds by metis
next
  case (reflect db scope opts store m)
  then show ?case using runReflection_snapshots [of scope opts store m db] save_ok computeRanking_bounds by metis
qed (simp add: request_snapshots)

lemma learning_steps_ok:
  "learning_step\<^sup>*\<^sup>* db db' \<Longrightarrow> snapshots_ok (ranking_snapshots db) \<Longrightarrow> snapshots_ok (ranking_snapshots db')"
  by (induction rule: rtranclp_induct) (auto intro: learning_step_ok)

text \<open>
  One ranking at a time. After any learning runs, reflections and signals on a store without
  snapshots, every scope has at most one active ranking snapshot, the last one saved for it; this is the
  one that \<^verbatim>\<open>getActiveRankingSnapshot\<close> returns, and its multipliers lie between 0.8 and 1.2, so no weight of
  the retrieval moves by more than a fifth.
\<close>

theorem one_active_ranking:
  assumes "learning_step\<^sup>*\<^sup>* db db'" "ranking_snapshots db = []"
    and "getActiveRankingSnapshot db' scope = Some s"
  shows "filter (\<lambda>r. ranking_of (ms_owner scope) (ms_workspace scope) r \<and> sn_active r) (ranking_snapshots db') =
      [last (filter (ranking_of (ms_owner scope) (ms_workspace scope)) (ranking_snapshots db'))] \<and>
    s = sn_payload (last (filter (ranking_of (ms_owner scope) (ms_workspace scope)) (ranking_snapshots db'))) \<and>
    (\<forall>(k, v) \<in> set (rk_multipliers s). 4 / 5 \<le> v \<and> v \<le> 6 / 5 \<and>
      resolveRetrievalWeight k (Some s) \<in> {RETRIEVAL_WEIGHTS k * (4 / 5) .. RETRIEVAL_WEIGHTS k * (6 / 5)})"
proof -
  let ?t = "ranking_snapshots db'" and ?p = "ranking_of (ms_owner scope) (ms_workspace scope)"
  have ok: "snapshots_ok ?t" using learning_steps_ok [OF assms(1)] assms(2) by (simp add: snapshots_ok_def)
  let ?rows = "filter (\<lambda>r. ?p r \<and> sn_active r) ?t"
  obtain r rs where srt: "order_desc sn_created ?rows = r # rs" and s: "s = sn_payload r"
    using assms(3) by (auto simp: getActiveRankingSnapshot_def sql_select_def split: list.splits)
  have ne: "filter ?p ?t \<noteq> []"
  proof
    assume "filter ?p ?t = []"
    then have "?rows = []" by (auto simp: filter_empty_conv)
    with srt show False by (simp add: order_desc_def)
  qed
  have split: "filter ?p ?t = butlast (filter ?p ?t) @ [last (filter ?p ?t)]" using ne by simp
  have "?rows = filter sn_active (filter ?p ?t)" by (simp add: conj_commute)
  also have "\<dots> = filter sn_active (butlast (filter ?p ?t)) @ filter sn_active [last (filter ?p ?t)]"
    by (subst split) (simp only: filter_append)
  also have "filter sn_active (butlast (filter ?p ?t)) = []" using ok by (auto simp: snapshots_ok_def filter_empty_conv)
  finally have rows: "?rows = [last (filter ?p ?t)]"
    using srt by (cases "sn_active (last (filter ?p ?t))") (auto simp: order_desc_def)
  then have r: "r = last (filter ?p ?t)" using srt by (simp add: order_desc_def)
  have "r \<in> set ?t" using r ne last_in_set by fastforce
  then have bounds: "\<forall>(k, v) \<in> set (rk_multipliers s). 4 / 5 \<le> v \<and> v \<le> 6 / 5" using ok s by (auto simp: snapshots_ok_def multipliers_ok_def)
  have "0 \<le> RETRIEVAL_WEIGHTS k" for k by (cases k) simp_all
  then have "resolveRetrievalWeight k (Some s) \<in> {RETRIEVAL_WEIGHTS k * (4 / 5) .. RETRIEVAL_WEIGHTS k * (6 / 5)}" for k
    unfolding resolveRetrievalWeight_def Let_def atLeastAtMost_iff
    using clampMultiplier_bounds by (intro conjI mult_left_mono) blast+
  with rows r s bounds show ?thesis by auto
qed

subsection \<open>Runs take every event once\<close>

definition event_queue :: "memory_scope \<Rightarrow> 'a signal_db_scheme \<Rightarrow> learning_event list" where
  "event_queue scope db = order_asc le_created (filter (unprocessed scope) (learning_events db))"

lemma listUnprocessed_queue: "listUnprocessed db scope n = take n (event_queue scope db)"
  by (simp add: listUnprocessed_def event_queue_def sql_select_def)

lemma filter_not_taken: "distinct (map f q) \<Longrightarrow> filter (\<lambda>e. f e \<notin> f ` set (take n q)) q = drop n q"
proof (induction q arbitrary: n)
  case (Cons x q)
  show ?case
  proof (cases n)
    case (Suc k)
    have "filter (\<lambda>e. f e \<notin> f ` set (take n (x # q))) q = filter (\<lambda>e. f e \<notin> f ` set (take k q)) q"
      using Cons.prems Suc by (intro filter_cong) (auto, metis image_eqI)
    then show ?thesis using Cons Suc by simp
  qed simp
qed simp

lemma filter_marked:
  "filter (unprocessed scope) (learning_events (markProcessed ids db)) =
     filter (\<lambda>e. le_id e \<notin> set ids) (filter (unprocessed scope) (learning_events db))"
proof (cases "ids = []")
  case False
  have "filter (unprocessed scope) (sql_update (\<lambda>e. le_id e \<in> set ids) (\<lambda>e. e\<lparr>le_processed := True\<rparr>) t) =
      filter (\<lambda>e. le_id e \<notin> set ids) (filter (unprocessed scope) t)" for t
    by (induction t) (auto simp: sql_update_def unprocessed_def)
  with False show ?thesis by (simp add: markProcessed_def)
qed (simp add: markProcessed_def)

lemma markProcessed_Nil [simp]: "markProcessed [] db = db"
  by (simp add: markProcessed_def)

lemma queue_marked:
  assumes "event_ids.unique (learning_events db)"
  shows "event_queue scope (markProcessed (map le_id (take n (event_queue scope db))) db) = drop n (event_queue scope db)"
proof -
  have "distinct (map le_id (event_queue scope db))"
    using assms unfolding event_queue_def order_asc_def event_ids.unique_def
    by (simp add: distinct_map inj_on_def)
  moreover have "event_queue scope (markProcessed ids db) = filter (\<lambda>e. le_id e \<notin> set ids) (event_queue scope db)" for ids
    unfolding event_queue_def order_asc_def filter_marked by (simp only: filter_sort)
  ultimately show ?thesis by (simp add: filter_not_taken)
qed

lemma save_fresh:
  assumes "\<forall>r \<in> set (ranking_snapshots db). sn_id r \<noteq> rk_id s"
  shows "\<exists>db1. saveRankingSnapshot s b db = (Inr (), db1) \<and> learning_events db1 = learning_events db \<and>
    sn_id ` set (ranking_snapshots db1) = insert (rk_id s) (sn_id ` set (ranking_snapshots db))"
proof -
  let ?t = "if b then sql_update (ranking_of (rk_owner s) (rk_workspace s)) (\<lambda>r. r\<lparr>sn_active := False\<rparr>) (ranking_snapshots db)
    else ranking_snapshots db"
  have "map sn_id ?t = map sn_id (ranking_snapshots db)" by (cases b) (simp_all add: map_sql_update)
  then have ids: "sn_id ` set ?t = sn_id ` set (ranking_snapshots db)" by (metis set_map)
  have fresh: "rk_id s \<noteq> sn_id r" if "r \<in> set ?t" for r
    using assms ids imageI [OF that, of sn_id] by (metis imageE)
  have "\<not> list_ex (snapshot_clash \<lparr>sn_id = rk_id s, sn_owner = rk_owner s, sn_workspace = rk_workspace s,
      sn_type = SNAPSHOT_TYPE_RANKING, sn_payload = s, sn_active = b, sn_created = rk_created s\<rparr>) ?t"
    using fresh by (simp add: list_ex_iff snapshot_clash_def)
  then show ?thesis using ids by (simp add: saveRankingSnapshot_def Let_def sql_insert_def)
qed

lemma runLearning_takes:
  assumes "event_ids.unique (learning_events db)" "\<forall>r \<in> set (ranking_snapshots db). sn_id r \<noteq> mint_id m"
    and "\<not> lo_dry opts" "n = nullish (lo_limit opts) LEARNING_DEFAULT_EVENT_BATCH"
  shows "\<exists>rep db1. runLearning engines scope opts m db = (Inr rep, db1) \<and> lr_events rep = min (length (event_queue scope db)) n \<and>
    learning_events db1 = learning_events (markProcessed (map le_id (take n (event_queue scope db))) db) \<and>
    sn_id ` set (ranking_snapshots db1) \<subseteq> insert (mint_id m) (sn_id ` set (ranking_snapshots db))"
proof -
  let ?evs = "take n (event_queue scope db)"
  have marked: "(if ?evs = [] then d else markProcessed (map le_id ?evs) d) = markProcessed (map le_id ?evs) d" for d :: "'a learning_db_scheme"
    by (simp add: markProcessed_def)
  have cong: "learning_events (markProcessed ids d) = learning_events (markProcessed ids db)"
    if "learning_events d = learning_events db" for ids and d :: "'a learning_db_scheme"
    using that by (simp add: markProcessed_def)
  show ?thesis
  proof (cases "computeRanking scope ?evs m")
    case None
    then show ?thesis using assms(3,4)
      by (auto simp: runLearning_def Let_def listUnprocessed_queue marked)
  next
    case (Some s)
    then have "rk_id s = mint_id m" by (auto simp: computeRanking_def Let_def split: if_splits)
    with save_fresh [of db s True] assms(2) obtain db1 where
      "saveRankingSnapshot s True db = (Inr (), db1)" "learning_events db1 = learning_events db"
      "sn_id ` set (ranking_snapshots db1) = insert (mint_id m) (sn_id ` set (ranking_snapshots db))" by auto
    then show ?thesis using assms(3,4) Some
      by (auto simp: runLearning_def Let_def listUnprocessed_queue marked intro!: cong)
  qed
qed

text \<open>Runs one after the other, one mint each.\<close>

fun learning_runs ::
  "learning_engines \<Rightarrow> memory_scope \<Rightarrow> learning_options \<Rightarrow> mint list \<Rightarrow> 'a learning_db_scheme
     \<Rightarrow> (app_error + learning_report list) \<times> 'a learning_db_scheme" where
  "learning_runs engines scope opts [] db = (Inr [], db)"
| "learning_runs engines scope opts (m # ms) db =
     then_st (runLearning engines scope opts m db) (\<lambda>r db1.
       then_st (learning_runs engines scope opts ms db1) (\<lambda>rs db2. (Inr (r # rs), db2)))"

lemma markProcessed_unique:
  "event_ids.unique (learning_events db) \<Longrightarrow> event_ids.unique (learning_events (markProcessed ids db))"
  by (simp add: markProcessed_def event_ids.unique_update)

lemma markProcessed_others:
  assumes "event_ids.unique (learning_events db)" "ids = map le_id (take n (event_queue scope db))"
  shows "filter (\<lambda>e. le_owner e \<noteq> ms_owner scope \<or> le_workspace e \<noteq> ms_workspace scope) (learning_events (markProcessed ids db)) =
    filter (\<lambda>e. le_owner e \<noteq> ms_owner scope \<or> le_workspace e \<noteq> ms_workspace scope) (learning_events db)"
proof -
  have "le_owner e = ms_owner scope \<and> le_workspace e = ms_workspace scope" if "e \<in> set (learning_events db)" "le_id e \<in> set ids" for e
  proof -
    from that(2) obtain x where x: "x \<in> set (event_queue scope db)" "le_id e = le_id x"
      using assms(2) by (auto dest: in_set_takeD)
    then have "x \<in> set (learning_events db)" "unprocessed scope x" by (auto simp: event_queue_def)
    moreover from this have "e = x"
      using that(1) x(2) assms(1) unfolding event_ids.unique_def distinct_map by (blast dest: inj_onD)
    ultimately show ?thesis by (simp add: unprocessed_def)
  qed
  then show ?thesis unfolding markProcessed_def sql_update_def
    by (auto simp: filter_map comp_def intro!: map_idI filter_cong)
qed

text \<open>
  Learning runs drain the events. As many runs of the orchestrator as batches cover the unprocessed
  events of a scope all succeed, if the identifiers of their snapshots are new; together they report
  every such event exactly once, leave none unprocessed, and do not touch the events of other scopes.
\<close>

theorem learning_drains:
  assumes "event_ids.unique (learning_events db)" "distinct (map mint_id ms)"
    and "\<forall>r \<in> set (ranking_snapshots db). sn_id r \<notin> mint_id ` set ms" "\<not> lo_dry opts"
    and "length (event_queue scope db) \<le> length ms * nullish (lo_limit opts) LEARNING_DEFAULT_EVENT_BATCH"
  shows "\<exists>reports db'. learning_runs engines scope opts ms db = (Inr reports, db') \<and> event_queue scope db' = [] \<and>
    sum_list (map lr_events reports) = length (event_queue scope db) \<and>
    filter (\<lambda>e. le_owner e \<noteq> ms_owner scope \<or> le_workspace e \<noteq> ms_workspace scope) (learning_events db') =
      filter (\<lambda>e. le_owner e \<noteq> ms_owner scope \<or> le_workspace e \<noteq> ms_workspace scope) (learning_events db)"
  using assms
proof (induction ms arbitrary: db)
  case (Cons m ms)
  let ?n = "nullish (lo_limit opts) LEARNING_DEFAULT_EVENT_BATCH"
  obtain rep db1 where run: "runLearning engines scope opts m db = (Inr rep, db1)"
      "lr_events rep = min (length (event_queue scope db)) ?n"
    and ev: "learning_events db1 = learning_events (markProcessed (map le_id (take ?n (event_queue scope db))) db)"
    and ids: "sn_id ` set (ranking_snapshots db1) \<subseteq> insert (mint_id m) (sn_id ` set (ranking_snapshots db))"
    using runLearning_takes [of db m opts ?n engines scope] Cons.prems by auto
  have uniq: "event_ids.unique (learning_events db1)" using ev markProcessed_unique Cons.prems(1) by metis
  have q: "event_queue scope db1 = drop ?n (event_queue scope db)"
    using queue_marked [OF Cons.prems(1), of scope ?n] ev unfolding event_queue_def by simp
  have "\<exists>reports db'. learning_runs engines scope opts ms db1 = (Inr reports, db') \<and> event_queue scope db' = [] \<and>
    sum_list (map lr_events reports) = length (event_queue scope db1) \<and>
    filter (\<lambda>e. le_owner e \<noteq> ms_owner scope \<or> le_workspace e \<noteq> ms_workspace scope) (learning_events db') =
      filter (\<lambda>e. le_owner e \<noteq> ms_owner scope \<or> le_workspace e \<noteq> ms_workspace scope) (learning_events db1)"
  proof (rule Cons.IH [OF uniq])
    show "distinct (map mint_id ms)" "\<not> lo_dry opts" using Cons.prems(2,4) by simp_all
    show "\<forall>r \<in> set (ranking_snapshots db1). sn_id r \<notin> mint_id ` set ms"
    proof
      fix r assume "r \<in> set (ranking_snapshots db1)"
      then have "sn_id r = mint_id m \<or> sn_id r \<in> sn_id ` set (ranking_snapshots db)" using ids by blast
      then show "sn_id r \<notin> mint_id ` set ms" using Cons.prems(2,3) by auto
    qed
    show "length (event_queue scope db1) \<le> length ms * ?n" using Cons.prems(5) q by simp
  qed
  then show ?case using run q markProcessed_others [OF Cons.prems(1) refl, of scope ?n] ev by auto
qed (simp add: event_queue_def)

subsection \<open>Samples\<close>

definition sample_learning :: "learning_event list \<Rightarrow> learning_db" where
  "sample_learning events = \<lparr>memories = [sample_row, sample_row\<lparr>m_id := ''2''\<rparr>], embeddings = [], intents = [], sync_audits = [],
     sync_conflicts = [], sync_cursors = [], relations = [], evidence = [], entities = [], aliases = [], mentions = [],
     signals = [], learning_events = events, ranking_snapshots = []\<rparr>"

definition sample_feedback :: "string \<Rightarrow> string \<Rightarrow> json" where
  "sample_feedback v i = JObj [(''type'', JStr ''explicit_feedback''), (''memoryId'', JStr ''1''), (''value'', JStr v), (''signalId'', JStr i)]"

definition sample_signal_mints :: "string \<Rightarrow> signal_mints" where
  "sample_signal_mints i = \<lparr>gm_signal = mint_of i, gm_event = mint_of (''e'' @ i), gm_now = ''u''\<rparr>"

definition sample_event :: "string \<Rightarrow> string \<Rightarrow> learning_event" where
  "sample_event i v = \<lparr>le_id = i, le_owner = ''o'', le_workspace = Some ''w'', le_type = FeedbackEvent,
     le_payload = [(''memoryId'', JStr ''1''), (''value'', JStr v)], le_processed = False, le_created = i\<rparr>"

definition sample_events :: "learning_event list" where
  "sample_events = [sample_event ''1'' ''helpful'', sample_event ''2'' ''helpful'', sample_event ''3'' ''helpful'']"

definition sample_run_options :: learning_options where
  "sample_run_options = \<lparr>lo_dry = False, lo_limit = Some 2\<rparr>"

definition sample_signal :: quality_signal where
  "sample_signal = \<lparr>qs_id = ''s'', qs_type = ExplicitFeedback, qs_memory = Some ''1'', qs_owner = ''o'', qs_workspace = Some ''w'',
     qs_org = None, qs_agent = None, qs_delta = None, qs_payload = Some [(''value'', JStr ''helpful'')], qs_observed = ''ta''\<rparr>"


theorem one_active_ranking_witness:
  "\<exists>s. getActiveRankingSnapshot (snd (runLearning learningEngines (sample_scope ''w'')
       (sample_run_options\<lparr>lo_limit := None\<rparr>) (mint_of ''r'') (sample_learning sample_events))) (sample_scope ''w'') = Some s \<and>
     rk_multipliers s = [(AccessCountLog, 6 / 5)] \<and> resolveRetrievalWeight AccessCountLog (Some s) \<le> 6"
proof -
  let ?db = "snd (runLearning learningEngines (sample_scope ''w'') (sample_run_options\<lparr>lo_limit := None\<rparr>) (mint_of ''r'') (sample_learning sample_events))"
  have some: "getActiveRankingSnapshot ?db (sample_scope ''w'') =
      Some \<lparr>rk_id = ''r'', rk_owner = ''o'', rk_workspace = Some ''w'', rk_version = 1,
            rk_multipliers = [(AccessCountLog, 6 / 5)], rk_created = ''tr''\<rparr>" (is "_ = Some ?s") by code_simp
  have "learning_step\<^sup>*\<^sup>* (sample_learning sample_events) ?db" by (rule r_into_rtranclp, rule learning_step.learn)
  moreover have "ranking_snapshots (sample_learning sample_events) = []" by (simp add: sample_learning_def)
  ultimately have "resolveRetrievalWeight AccessCountLog (Some ?s) \<le> RETRIEVAL_WEIGHTS AccessCountLog * (6 / 5)"
    using one_active_ranking [OF _ _ some, THEN conjunct2, THEN conjunct2] by simp
  with some show ?thesis by auto
qed

theorem learning_drains_witness:
  "\<exists>reports db'. learning_runs learningEngines (sample_scope ''w'') sample_run_options [mint_of ''p'', mint_of ''q''] (sample_learning sample_events) =
       (Inr reports, db') \<and> event_queue (sample_scope ''w'') db' = [] \<and> sum_list (map lr_events reports) = 3"
proof -
  have q: "length (event_queue (sample_scope ''w'') (sample_learning sample_events)) = 3" by code_simp
  have pre: "event_ids.unique (learning_events (sample_learning sample_events))" "distinct (map mint_id [mint_of ''p'', mint_of ''q''])"
    "\<forall>r \<in> set (ranking_snapshots (sample_learning sample_events)). sn_id r \<notin> mint_id ` set [mint_of ''p'', mint_of ''q'']"
    "\<not> lo_dry sample_run_options"
    "length (event_queue (sample_scope ''w'') (sample_learning sample_events))
       \<le> length [mint_of ''p'', mint_of ''q''] * nullish (lo_limit sample_run_options) LEARNING_DEFAULT_EVENT_BATCH"
    using q by (simp_all add: event_ids.unique_def sample_learning_def sample_events_def sample_event_def mint_of_def sample_run_options_def)
  from learning_drains [OF pre, of learningEngines] q show ?thesis by metis
qed

end
