(* ===== verification/Inspection.thy ===== *)
theory Inspection
  imports Learning Search_Filters
begin

section \<open>Ledger of inspection patterns\<close>

text \<open>
  \<^verbatim>\<open>src/src/learning/inspection\<close> and its table
  (\<^verbatim>\<open>src/src/infrastructure/learning/sql-inspection-pattern-store.ts\<close>): recurring outcomes of inspections become
  patterns with a confidence that grows with the evidence and fades with time. The payload of an event
  is read as the normalizer of inspection outcomes makes it. SHA-256 in hexadecimal and
  \<^verbatim>\<open>Date.parse\<close> are parameters; the identifiers and times a run draws are its mints.
\<close>

subsection \<open>Types and constants\<close>

record inspection_trigger =
  tr_paths :: "string list option"
  tr_modules :: "string list option"
  tr_adrs :: "string list option"

datatype pattern_scope = WorkspacePattern | ProjectPattern | OrganizationPattern

datatype pattern_state = PatternActive | PatternAging | PatternLow | PatternArchived

record inspection_pattern =
  ip_id :: string
  ip_owner :: string
  ip_workspace :: "string option"
  ip_org :: "string option"
  ip_memory :: "string option"
  ip_key :: string
  ip_scope :: pattern_scope
  ip_category :: string
  ip_trigger :: inspection_trigger
  ip_description :: string
  ip_confidence :: int
  ip_evidence :: nat
  ip_protected :: bool
  ip_disabled :: bool
  ip_state :: pattern_state
  ip_confirmed :: string
  ip_created :: string
  ip_updated :: string

record pattern_candidate =
  pc_key :: string
  pc_category :: string
  pc_trigger :: inspection_trigger
  pc_signals :: "string list"

record pattern_link =
  pl_id :: string
  pl_pattern :: string
  pl_signal :: string
  pl_observed :: string

record pattern_contradiction =
  px_id :: string
  px_owner :: string
  px_a :: string
  px_b :: string
  px_reason :: string
  px_detected :: string

record ledger_db = learning_db +
  patterns :: "inspection_pattern list"
  pattern_links :: "pattern_link list"
  contradictions :: "pattern_contradiction list"

definition INSPECTION_MIN_EVIDENCE_COUNT :: nat where "INSPECTION_MIN_EVIDENCE_COUNT = 2"
definition INSPECTION_CHARTER_WORKSPACE_THRESHOLD :: nat where "INSPECTION_CHARTER_WORKSPACE_THRESHOLD = 3"
definition INSPECTION_AGING_DAYS :: int where "INSPECTION_AGING_DAYS = 90"
definition INSPECTION_DECAY_POINTS :: int where "INSPECTION_DECAY_POINTS = 10"
definition INSPECTION_ARCHIVE_CONFIDENCE :: int where "INSPECTION_ARCHIVE_CONFIDENCE = 20"
definition INSPECTION_LOW_CONFIDENCE :: int where "INSPECTION_LOW_CONFIDENCE = 30"
definition INSPECTION_BASE_CONFIDENCE :: int where "INSPECTION_BASE_CONFIDENCE = 40"
definition INSPECTION_CONFIDENCE_PER_EVIDENCE :: int where "INSPECTION_CONFIDENCE_PER_EVIDENCE = 15"
definition INSPECTION_MAX_CONFIDENCE :: int where "INSPECTION_MAX_CONFIDENCE = 100"

definition INSPECTION_MAJOR_SEVERITIES :: "string list" where
  "INSPECTION_MAJOR_SEVERITIES = [''constitutional'', ''critical'', ''major'']"

subsection \<open>Keys\<close>

text \<open>\<open>JSON.stringify\<close> of a list of strings and of a trigger; a field that is undefined is skipped.\<close>

definition json_texts :: "string list \<Rightarrow> string" where
  "json_texts xs = CHR ''['' # js_join '','' (map json_string xs) @ '']''"

definition stringify_trigger :: "inspection_trigger \<Rightarrow> string" where
  "stringify_trigger t =
     (let field = (\<lambda>name v. case v of None \<Rightarrow> [] | Some xs \<Rightarrow> [json_string name @ '':'' @ json_texts xs])
      in CHR 0x7B # js_join '','' (field ''paths'' (tr_paths t) @ field ''modules'' (tr_modules t) @
           field ''adrIds'' (tr_adrs t)) @ [CHR 0x7D])"

definition normalizeTrigger :: "inspection_trigger \<Rightarrow> inspection_trigger" where
  "normalizeTrigger t =
     \<lparr>tr_paths = map_option sort (tr_paths t), tr_modules = map_option sort (tr_modules t),
      tr_adrs = map_option sort (tr_adrs t)\<rparr>"

definition hashInspectionTrigger :: "(string \<Rightarrow> string) \<Rightarrow> inspection_trigger \<Rightarrow> string" where
  "hashInspectionTrigger sha256 t = take 16 (sha256 (stringify_trigger (normalizeTrigger t)))"

definition buildInspectionPatternKey :: "(string \<Rightarrow> string) \<Rightarrow> string \<Rightarrow> inspection_trigger \<Rightarrow> string" where
  "buildInspectionPatternKey sha256 category t = category @ '':'' @ hashInspectionTrigger sha256 t"

definition joined_texts :: "string list option \<Rightarrow> string" where
  "joined_texts v = (case v of None \<Rightarrow> [] | Some xs \<Rightarrow> js_join '', '' xs)"

definition buildInspectionPatternDescription :: "string \<Rightarrow> inspection_trigger \<Rightarrow> nat \<Rightarrow> string" where
  "buildInspectionPatternDescription category t evidenceCount =
     ''Inspection pattern ('' @ category @ ''): '' @ js_nat_string evidenceCount @ '' confirmed outcomes in '' @
       str_or (joined_texts (tr_paths t)) (str_or (joined_texts (tr_modules t)) (str_or (joined_texts (tr_adrs t)) ''general scope''))"

subsection \<open>Miner\<close>

fun text_items :: "json option \<Rightarrow> string list option" where
  "text_items (Some (JArr xs)) = Some (concat (map (\<lambda>x. case x of JStr s \<Rightarrow> [s] | _ \<Rightarrow> []) xs))"
| "text_items _ = None"

definition parseTrigger :: "json_object \<Rightarrow> inspection_trigger" where
  "parseTrigger payload =
     (case json_get payload ''diffScope'' of
        Some (JObj d) \<Rightarrow> \<lparr>tr_paths = text_items (json_get d ''paths''), tr_modules = text_items (json_get d ''modules''),
                          tr_adrs = text_items (json_get d ''adrIds'')\<rparr>
      | _ \<Rightarrow> \<lparr>tr_paths = None, tr_modules = None, tr_adrs = None\<rparr>)"

definition isEligibleInspectionEvent :: "learning_event \<Rightarrow> bool" where
  "isEligibleInspectionEvent e \<longleftrightarrow>
     le_type e = InspectionEvent \<and> json_get (le_payload e) ''resolved'' = Some (JBool True) \<and>
     (case text_value (json_get (le_payload e) ''severity'') of
        None \<Rightarrow> False | Some s \<Rightarrow> s \<in> set INSPECTION_MAJOR_SEVERITIES)"

fun add_evidence :: "pattern_candidate \<Rightarrow> pattern_candidate list \<Rightarrow> pattern_candidate list" where
  "add_evidence c [] = [c]"
| "add_evidence c (b # bs) =
     (if pc_key b = pc_key c then b\<lparr>pc_signals := pc_signals b @ pc_signals c\<rparr> # bs else b # add_evidence c bs)"

definition event_evidence :: "(string \<Rightarrow> string) \<Rightarrow> learning_event \<Rightarrow> pattern_candidate" where
  "event_evidence sha256 e =
     (let category = nullish (text_value (json_get (le_payload e) ''category'')) ''undefined'';
          trigger = parseTrigger (le_payload e)
      in \<lparr>pc_key = buildInspectionPatternKey sha256 category trigger, pc_category = category, pc_trigger = trigger,
          pc_signals = [nullish (text_value (json_get (le_payload e) ''signalId'')) (le_id e)]\<rparr>)"

definition mineInspections :: "(string \<Rightarrow> string) \<Rightarrow> learning_event list \<Rightarrow> pattern_candidate list" where
  "mineInspections sha256 events =
     filter (\<lambda>b. INSPECTION_MIN_EVIDENCE_COUNT \<le> length (pc_signals b))
       (foldl (\<lambda>bs e. if isEligibleInspectionEvent e then add_evidence (event_evidence sha256 e) bs else bs) [] events)"

subsection \<open>Confidence\<close>

definition ledgerDaysBetween :: "(string \<Rightarrow> int option) \<Rightarrow> string \<Rightarrow> string \<Rightarrow> int" where
  "ledgerDaysBetween tm fromIso toIso =
     (case (tm fromIso, tm toIso) of (Some a, Some b) \<Rightarrow> (b - a) div (1000 * 60 * 60 * 24) | _ \<Rightarrow> 0)"

definition confidenceForEvidence :: "nat \<Rightarrow> int" where
  "confidenceForEvidence evidenceCount =
     min INSPECTION_MAX_CONFIDENCE (INSPECTION_BASE_CONFIDENCE + int evidenceCount * INSPECTION_CONFIDENCE_PER_EVIDENCE)"

definition refreshPattern :: "(string \<Rightarrow> int option) \<Rightarrow> string \<Rightarrow> inspection_pattern \<Rightarrow> inspection_pattern" where
  "refreshPattern tm now p =
     (if ip_protected p \<or> ip_disabled p then p
      else
        let ageDays = ledgerDaysBetween tm (ip_confirmed p) now;
            confidence = (if INSPECTION_AGING_DAYS \<le> ageDays then max 0 (ip_confidence p - INSPECTION_DECAY_POINTS)
                          else ip_confidence p);
            aged = (if INSPECTION_AGING_DAYS \<le> ageDays then PatternAging else ip_state p);
            state = (if confidence < INSPECTION_ARCHIVE_CONFIDENCE then PatternArchived
                     else if confidence < INSPECTION_LOW_CONFIDENCE then PatternLow
                     else if ageDays < INSPECTION_AGING_DAYS then PatternActive else aged)
        in p\<lparr>ip_confidence := confidence, ip_state := state, ip_updated := now\<rparr>)"

subsection \<open>Contradictions\<close>

definition pathsOverlap :: "inspection_pattern \<Rightarrow> inspection_pattern \<Rightarrow> bool" where
  "pathsOverlap a b =
     list_ex (\<lambda>p. list_ex (\<lambda>q. js_starts_with p q \<or> js_starts_with q p) (nullish (tr_paths (ip_trigger b)) []))
       (nullish (tr_paths (ip_trigger a)) [])"

fun contradicting :: "inspection_pattern list \<Rightarrow> (inspection_pattern \<times> inspection_pattern) list" where
  "contradicting [] = []"
| "contradicting (p # ps) =
     map (\<lambda>q. (p, q)) (filter (\<lambda>q. ip_category p \<noteq> ip_category q \<and> pathsOverlap p q) ps) @ contradicting ps"

text \<open>The mint gives the identifier of the k-th contradiction.\<close>

definition detectInspectionContradictions ::
  "string \<Rightarrow> (nat \<Rightarrow> string) \<Rightarrow> inspection_pattern list \<Rightarrow> string \<Rightarrow> pattern_contradiction list" where
  "detectInspectionContradictions ownerId mint ps now =
     (let found = contradicting (filter (\<lambda>p. \<not> ip_disabled p \<and> ip_state p \<noteq> PatternArchived) ps)
      in map (\<lambda>(k, (l, r)). \<lparr>px_id = mint k, px_owner = ownerId, px_a = ip_id l, px_b = ip_id r,
            px_reason = ''Shared scope with conflicting categories '' @ ip_category l @ '' vs '' @ ip_category r,
            px_detected = now\<rparr>) (zip [0..<length found] found))"

subsection \<open>Table of patterns\<close>

text \<open>The primary key, and the unique index, in which a missing workspace equals nothing.\<close>

definition pattern_clash :: "inspection_pattern \<Rightarrow> inspection_pattern \<Rightarrow> bool" where
  "pattern_clash r s \<longleftrightarrow>
     ip_id r = ip_id s \<or>
     (ip_owner r = ip_owner s \<and> ip_scope r = ip_scope s \<and> ip_key r = ip_key s \<and>
      ip_workspace r \<noteq> None \<and> ip_workspace r = ip_workspace s)"

interpretation pattern_ids: keyed_table ip_id pattern_clash
  by unfold_locales (simp add: pattern_clash_def)

definition upsertPattern ::
  "inspection_pattern \<Rightarrow> 'a ledger_db_scheme \<Rightarrow> (app_error + unit) \<times> 'a ledger_db_scheme" where
  "upsertPattern p db =
     (if 0 < sql_count (\<lambda>r. ip_id r = ip_id p) (patterns db)
      then (Inr (), db\<lparr>patterns := sql_update (\<lambda>r. ip_id r = ip_id p)
              (\<lambda>r. r\<lparr>ip_memory := ip_memory p, ip_description := ip_description p, ip_confidence := ip_confidence p,
                    ip_evidence := ip_evidence p, ip_state := ip_state p, ip_confirmed := ip_confirmed p,
                    ip_updated := ip_updated p\<rparr>) (patterns db)\<rparr>)
      else case sql_insert pattern_clash p (patterns db) of
             Inl e \<Rightarrow> (Inl e, db) | Inr t \<Rightarrow> (Inr (), db\<lparr>patterns := t\<rparr>))"

definition findByPatternKey ::
  "'a ledger_db_scheme \<Rightarrow> memory_scope \<Rightarrow> string \<Rightarrow> pattern_scope \<Rightarrow> inspection_pattern option" where
  "findByPatternKey db scope key patternScope =
     (if patternScope = OrganizationPattern
      then sql_first (\<lambda>r. ip_owner r = ms_owner scope \<and> ip_key r = key \<and> ip_scope r = OrganizationPattern) (patterns db)
      else sql_first (\<lambda>r. ip_owner r = ms_owner scope \<and> ip_key r = key \<and> ip_scope r = patternScope \<and>
             ip_workspace r = ms_workspace scope) (patterns db))"

definition listPatterns :: "'a ledger_db_scheme \<Rightarrow> memory_scope \<Rightarrow> bool \<Rightarrow> inspection_pattern list" where
  "listPatterns db scope includeArchived =
     order_desc ip_confidence (order_desc ip_updated (sql_select
       (\<lambda>r. ip_owner r = ms_owner scope \<and> ip_workspace r = ms_workspace scope \<and>
            (includeArchived \<or> ip_state r \<noteq> PatternArchived)) (patterns db)))"

definition listActiveForRecall :: "'a ledger_db_scheme \<Rightarrow> memory_scope \<Rightarrow> string option \<Rightarrow> inspection_pattern list" where
  "listActiveForRecall db scope pathPrefix =
     filter (\<lambda>p. if ip_disabled p \<or> ip_state p = PatternArchived then False
                 else if ip_confidence p < 30 then False
                 else case truthy pathPrefix of None \<Rightarrow> True
                      | Some prefix \<Rightarrow> (case tr_paths (ip_trigger p) of None \<Rightarrow> False
                          | Some ps \<Rightarrow> list_ex (\<lambda>q. js_starts_with q prefix) ps))
       (listPatterns db scope False)"

definition appendEventLink ::
  "string \<Rightarrow> string \<Rightarrow> string \<Rightarrow> string \<Rightarrow> 'a ledger_db_scheme \<Rightarrow> (app_error + unit) \<times> 'a ledger_db_scheme" where
  "appendEventLink i patternId signalId observedAt db =
     (case sql_insert (\<lambda>r s. pl_id r = pl_id s)
             \<lparr>pl_id = i, pl_pattern = patternId, pl_signal = signalId, pl_observed = observedAt\<rparr> (pattern_links db) of
        Inl e \<Rightarrow> (Inl e, db) | Inr t \<Rightarrow> (Inr (), db\<lparr>pattern_links := t\<rparr>))"

definition recordContradiction ::
  "pattern_contradiction \<Rightarrow> 'a ledger_db_scheme \<Rightarrow> (app_error + unit) \<times> 'a ledger_db_scheme" where
  "recordContradiction x db =
     (case sql_insert (\<lambda>r s. px_id r = px_id s) x (contradictions db) of
        Inl e \<Rightarrow> (Inl e, db) | Inr t \<Rightarrow> (Inr (), db\<lparr>contradictions := t\<rparr>))"

definition listContradictions :: "'a ledger_db_scheme \<Rightarrow> memory_scope \<Rightarrow> pattern_contradiction list" where
  "listContradictions db scope =
     order_desc px_detected (sql_select (\<lambda>x. px_owner x = ms_owner scope) (contradictions db))"

definition countWorkspacesByPatternKey :: "'a ledger_db_scheme \<Rightarrow> string \<Rightarrow> string \<Rightarrow> nat" where
  "countWorkspacesByPatternKey db ownerId key =
     length (remdups (map ip_workspace (sql_select
       (\<lambda>r. ip_owner r = ownerId \<and> ip_key r = key \<and> ip_scope r = WorkspacePattern \<and> ip_workspace r \<noteq> None) (patterns db))))"

definition updateLifecycle :: "inspection_pattern \<Rightarrow> 'a ledger_db_scheme \<Rightarrow> 'a ledger_db_scheme" where
  "updateLifecycle p db =
     db\<lparr>patterns := sql_update (\<lambda>r. ip_id r = ip_id p)
        (\<lambda>r. r\<lparr>ip_confidence := ip_confidence p, ip_state := ip_state p, ip_confirmed := ip_confirmed p,
              ip_updated := ip_updated p\<rparr>) (patterns db)\<rparr>"

subsection \<open>Memory of a pattern\<close>

text \<open>The \<open>while\<close> loop over \<open>base\<close>, \<open>base-1\<close>, \<open>base-2\<close> and so on; it ends because a table has finitely many slugs.\<close>

definition numbered_slug :: "string \<Rightarrow> nat \<Rightarrow> string" where
  "numbered_slug base k = base @ ''-'' @ js_nat_string k"

lemma numbered_slug_inj: "inj (numbered_slug base)"
  by (rule injI) (simp add: numbered_slug_def js_nat_string_inj)

lemma finite_numbered: "finite {k. suffix \<le> k \<and> slugExists db ownerId (numbered_slug base k) None}"
proof -
  have "finite ((\<lambda>k. Some (numbered_slug base k)) -` (m_slug ` set (memories db)))"
    by (rule finite_vimageI) (auto simp: inj_on_def dest: injD [OF numbered_slug_inj])
  then show ?thesis by (rule rev_finite_subset) (auto dest: slugExists_stored)
qed

function free_slug :: "'a memory_db_scheme \<Rightarrow> string \<Rightarrow> string \<Rightarrow> string \<Rightarrow> nat \<Rightarrow> string" where
  "free_slug db ownerId base slug suffix =
     (if slugExists db ownerId slug None then free_slug db ownerId base (numbered_slug base suffix) (suffix + 1) else slug)"
  by pat_completeness auto

termination free_slug
proof (relation "measure (\<lambda>(db, ownerId, base, slug, suffix).
    card {k. suffix \<le> k \<and> slugExists db ownerId (numbered_slug base k) None} +
    (if slugExists db ownerId slug None then 1 else 0))", goal_cases)
  case 1
  show ?case by simp
next
  case (2 db ownerId base slug suffix)
  let ?taken = "\<lambda>n. {k. n \<le> k \<and> slugExists db ownerId (numbered_slug base k) None}"
  show ?case
  proof (cases "slugExists db ownerId (numbered_slug base suffix) None")
    case True
    then have "suffix \<in> ?taken suffix" "suffix \<notin> ?taken (suffix + 1)" by simp_all
    moreover have "?taken (suffix + 1) \<subseteq> ?taken suffix" by auto
    ultimately have "?taken (suffix + 1) \<subset> ?taken suffix" by blast
    then have "card (?taken (suffix + 1)) < card (?taken suffix)" by (rule psubset_card_mono [OF finite_numbered])
    with 2 True show ?thesis by simp
  next
    case False
    have "card (?taken (suffix + 1)) \<le> card (?taken suffix)" by (rule card_mono [OF finite_numbered]) auto
    with 2 False show ?thesis by simp
  qed
qed

declare free_slug.simps [simp del]

definition pattern_memory :: "memory_scope \<Rightarrow> string \<Rightarrow> string \<Rightarrow> string \<Rightarrow> string \<Rightarrow> insert_memory_data" where
  "pattern_memory scope description category slug codename =
     \<lparr>in_title = take 120 description, in_project = ''ratary'',
      in_content = ''# Inspection Pattern'' @ [CHR 0x0A, CHR 0x0A] @ description @ [CHR 0x0A, CHR 0x0A] @
        ''_Auto-generated by Phase 8.8 ledger miner._'',
      in_summary = take 200 description, in_tags = [''inspection-pattern'', category],
      in_keywords = [''inspection-pattern'', category], in_category = ''Architecture'', in_type = ''architecture'',
      in_importance = 60, in_language = ''en'', in_notes = [], in_codename = codename, in_slug = slug,
      in_favorite = False, in_archived = None, in_owner = Some (ms_owner scope), in_workspace = ms_workspace scope,
      in_id = None, in_created = None, in_updated = None, in_project_id = None, in_level = None,
      in_semantic_hash = None, in_access_count = None, in_last_accessed = None, in_agent = None, in_aliases = None,
      in_source_path = None\<rparr>"

text \<open>The result is the identifier of the memory, or nothing if the insertion throws.\<close>

definition ensureRecallMemory ::
  "string \<Rightarrow> memory_scope \<Rightarrow> string \<Rightarrow> string \<Rightarrow> string \<Rightarrow> mint \<Rightarrow> 'a memory_db_scheme \<Rightarrow> string option \<times> 'a memory_db_scheme" where
  "ensureRecallMemory dup scope description category now m db =
     (let slugBase = ''inspection-'' @ category @ ''-'' @ take 10 now;
          slug = free_slug db (ms_owner scope) slugBase slugBase 1;
          codename = allocateCodename db (ms_owner scope) ''ARCH''
      in case insertMemory dup db (pattern_memory scope description category slug codename) m of
           (Inl e, db1) \<Rightarrow> (None, db1) | (Inr memory, db1) \<Rightarrow> (Some (m_id memory), db1))"

subsection \<open>Promotion to the organization\<close>

text \<open>The settings of the server and the functions that the model takes as given.\<close>

record ledger_env =
  lg_sha256 :: "string \<Rightarrow> string"
  lg_time :: "string \<Rightarrow> int option"
  lg_dup :: string
  lg_charter :: bool
  lg_federation :: bool

text \<open>What a run draws; the counters are the lengths of the lists still to be worked on.\<close>

record ledger_mints =
  lm_now :: string
  lm_promoted :: string
  lm_pattern :: "nat \<Rightarrow> string"
  lm_memory :: "nat \<Rightarrow> mint"
  lm_link :: "nat \<Rightarrow> nat \<Rightarrow> string"
  lm_contradiction :: "nat \<Rightarrow> string"
  lm_charter :: "nat \<Rightarrow> string"

fun promote_patterns ::
  "ledger_mints \<Rightarrow> memory_scope \<Rightarrow> bool \<Rightarrow> inspection_pattern list \<Rightarrow> nat \<Rightarrow> 'a ledger_db_scheme
     \<Rightarrow> (app_error + nat) \<times> 'a ledger_db_scheme" where
  "promote_patterns ms scope dryRun [] n db = (Inr n, db)"
| "promote_patterns ms scope dryRun (p # ps) n db =
     (if ip_scope p \<noteq> WorkspacePattern \<or> truthy (ip_workspace p) = None then promote_patterns ms scope dryRun ps n db
      else if countWorkspacesByPatternKey db (ms_owner scope) (ip_key p) < INSPECTION_CHARTER_WORKSPACE_THRESHOLD
      then promote_patterns ms scope dryRun ps n db
      else if findByPatternKey db scope (ip_key p) OrganizationPattern \<noteq> None then promote_patterns ms scope dryRun ps n db
      else if dryRun then promote_patterns ms scope dryRun ps (n + 1) db
      else then_st (upsertPattern (p\<lparr>ip_id := lm_charter ms (length ps), ip_scope := OrganizationPattern,
               ip_workspace := None, ip_org := ms_org scope, ip_protected := False,
               ip_created := lm_promoted ms, ip_updated := lm_promoted ms\<rparr>) db)
             (\<lambda>_ db1. promote_patterns ms scope dryRun ps (n + 1) db1))"

definition CharterPatternPromoter ::
  "ledger_env \<Rightarrow> ledger_mints \<Rightarrow> memory_scope \<Rightarrow> bool \<Rightarrow> inspection_pattern list \<Rightarrow> 'a ledger_db_scheme
     \<Rightarrow> (app_error + nat) \<times> 'a ledger_db_scheme" where
  "CharterPatternPromoter env ms scope dryRun ps db =
     (if \<not> lg_charter env \<or> \<not> lg_federation env then (Inr 0, db) else promote_patterns ms scope dryRun ps 0 db)"

subsection \<open>Orchestrator\<close>

record ledger_report =
  lp_scanned :: nat
  lp_upserted :: nat
  lp_contradictions :: nat
  lp_promoted :: nat
  lp_refreshed :: nat

fun link_loop ::
  "ledger_mints \<Rightarrow> nat \<Rightarrow> string \<Rightarrow> string list \<Rightarrow> 'a ledger_db_scheme \<Rightarrow> (app_error + unit) \<times> 'a ledger_db_scheme" where
  "link_loop ms c patternId [] db = (Inr (), db)"
| "link_loop ms c patternId (s # ss) db =
     then_st (appendEventLink (lm_link ms c (length ss)) patternId s (lm_now ms) db)
       (\<lambda>_ db1. link_loop ms c patternId ss db1)"

definition confirmed_pattern ::
  "memory_scope \<Rightarrow> string \<Rightarrow> inspection_pattern option \<Rightarrow> string \<Rightarrow> string option \<Rightarrow> pattern_candidate \<Rightarrow> inspection_pattern" where
  "confirmed_pattern scope now existing patternId memoryId c =
     \<lparr>ip_id = patternId, ip_owner = ms_owner scope, ip_workspace = ms_workspace scope, ip_org = None,
      ip_memory = memoryId, ip_key = pc_key c, ip_scope = WorkspacePattern, ip_category = pc_category c,
      ip_trigger = pc_trigger c,
      ip_description = buildInspectionPatternDescription (pc_category c) (pc_trigger c) (length (pc_signals c)),
      ip_confidence = confidenceForEvidence (length (pc_signals c)), ip_evidence = length (pc_signals c),
      ip_protected = (case existing of None \<Rightarrow> False | Some e \<Rightarrow> ip_protected e),
      ip_disabled = (case existing of None \<Rightarrow> False | Some e \<Rightarrow> ip_disabled e), ip_state = PatternActive,
      ip_confirmed = now, ip_created = (case existing of None \<Rightarrow> now | Some e \<Rightarrow> ip_created e), ip_updated = now\<rparr>"

fun candidate_loop ::
  "ledger_env \<Rightarrow> ledger_mints \<Rightarrow> memory_scope \<Rightarrow> pattern_candidate list \<Rightarrow> 'a ledger_db_scheme
     \<Rightarrow> (app_error + unit) \<times> 'a ledger_db_scheme" where
  "candidate_loop env ms scope [] db = (Inr (), db)"
| "candidate_loop env ms scope (c # cs) db =
     (let existing = findByPatternKey db scope (pc_key c) WorkspacePattern;
          patternId = (case existing of None \<Rightarrow> lm_pattern ms (length cs) | Some e \<Rightarrow> ip_id e);
          description = buildInspectionPatternDescription (pc_category c) (pc_trigger c) (length (pc_signals c))
      in case (case (case existing of None \<Rightarrow> None | Some e \<Rightarrow> ip_memory e) of
                 Some i \<Rightarrow> (Some i, db)
               | None \<Rightarrow> ensureRecallMemory (lg_dup env) scope description (pc_category c) (lm_now ms)
                           (lm_memory ms (length cs)) db) of
           (memoryId, db1) \<Rightarrow>
             then_st (upsertPattern (confirmed_pattern scope (lm_now ms) existing patternId memoryId c) db1) (\<lambda>_ db2.
             then_st (link_loop ms (length cs) patternId (pc_signals c) db2) (\<lambda>_ db3.
             candidate_loop env ms scope cs db3)))"

fun refresh_loop ::
  "(string \<Rightarrow> int option) \<Rightarrow> string \<Rightarrow> inspection_pattern list \<Rightarrow> nat \<Rightarrow> 'a ledger_db_scheme \<Rightarrow> nat \<times> 'a ledger_db_scheme" where
  "refresh_loop tm now [] n db = (n, db)"
| "refresh_loop tm now (p # ps) n db =
     (let refreshed = refreshPattern tm now p
      in if ip_confidence refreshed \<noteq> ip_confidence p \<or> ip_state refreshed \<noteq> ip_state p
         then refresh_loop tm now ps (n + 1) (updateLifecycle refreshed db)
         else refresh_loop tm now ps n db)"

fun contradiction_loop ::
  "pattern_contradiction list \<Rightarrow> 'a ledger_db_scheme \<Rightarrow> (app_error + unit) \<times> 'a ledger_db_scheme" where
  "contradiction_loop [] db = (Inr (), db)"
| "contradiction_loop (x # xs) db = then_st (recordContradiction x db) (\<lambda>_ db1. contradiction_loop xs db1)"

text \<open>The second half of a run: refresh, contradictions, promotion; then the events are marked.\<close>

definition settle_patterns ::
  "ledger_env \<Rightarrow> memory_scope \<Rightarrow> bool \<Rightarrow> ledger_mints \<Rightarrow> learning_event list \<Rightarrow> nat \<Rightarrow> 'a ledger_db_scheme
     \<Rightarrow> (app_error + ledger_report) \<times> 'a ledger_db_scheme" where
  "settle_patterns env scope dryRun ms inspectionEvents upserted db =
     (let allPatterns = listPatterns db scope True
      in case (if dryRun then (0, db) else refresh_loop (lg_time env) (lm_now ms) allPatterns 0 db) of
           (refreshed, db2) \<Rightarrow>
             let found = detectInspectionContradictions (ms_owner scope) (lm_contradiction ms) allPatterns (lm_now ms)
             in then_st (if dryRun then (Inr (), db2) else contradiction_loop found db2) (\<lambda>_ db3.
                then_st (CharterPatternPromoter env ms scope dryRun allPatterns db3) (\<lambda>promoted db4.
                (Inr \<lparr>lp_scanned = length inspectionEvents, lp_upserted = upserted, lp_contradictions = length found,
                      lp_promoted = promoted, lp_refreshed = refreshed\<rparr>,
                 if \<not> dryRun \<and> inspectionEvents \<noteq> [] then markProcessed (map le_id inspectionEvents) db4 else db4))))"

definition runLedger ::
  "ledger_env \<Rightarrow> memory_scope \<Rightarrow> learning_options \<Rightarrow> ledger_mints \<Rightarrow> 'a ledger_db_scheme
     \<Rightarrow> (app_error + ledger_report) \<times> 'a ledger_db_scheme" where
  "runLedger env scope opts ms db =
     (let events = listUnprocessed db scope (nullish (lo_limit opts) 500);
          inspectionEvents = filter (\<lambda>e. le_type e = InspectionEvent) events;
          candidates = mineInspections (lg_sha256 env) inspectionEvents
      in then_st (if lo_dry opts then (Inr (), db) else candidate_loop env ms scope candidates db)
           (\<lambda>_ db1. settle_patterns env scope (lo_dry opts) ms inspectionEvents (length candidates) db1))"

definition NoOpInspectionLedger ::
  "memory_scope \<Rightarrow> learning_options \<Rightarrow> 'a ledger_db_scheme \<Rightarrow> (app_error + ledger_report) \<times> 'a ledger_db_scheme" where
  "NoOpInspectionLedger scope opts db =
     (Inr \<lparr>lp_scanned = 0, lp_upserted = 0, lp_contradictions = 0, lp_promoted = 0, lp_refreshed = 0\<rparr>, db)"

text \<open>The flag says that the ledger and the learning engine are enabled and both stores are SQL.\<close>

definition createInspectionLedgerPorts ::
  "bool \<Rightarrow> ledger_env \<Rightarrow> ledger_mints \<Rightarrow> memory_scope \<Rightarrow> learning_options \<Rightarrow> 'a ledger_db_scheme
     \<Rightarrow> (app_error + ledger_report) \<times> 'a ledger_db_scheme" where
  "createInspectionLedgerPorts enabled env ms scope opts db =
     (if enabled then runLedger env scope opts ms db else NoOpInspectionLedger scope opts db)"

end
