(* ===== verification/Inspection_Laws.thy ===== *)
theory Inspection_Laws
  imports Inspection Learning_Laws
begin

section \<open>Laws of the inspection ledger\<close>

text \<open>
  The table of patterns keeps one pattern per key and scope with a confidence between 0 and 100, the loop
  that looks for a free slug ends with the first free one, and a pattern that nothing confirms fades.
\<close>

subsection \<open>The loop for a free slug\<close>

lemma free_slug_step:
  assumes "\<And>j. k \<le> j \<Longrightarrow> j < n \<Longrightarrow> slugExists db o' (numbered_slug base j) None" "k \<le> n"
    and "\<not> slugExists db o' (numbered_slug base n) None"
  shows "free_slug db o' base (numbered_slug base k) (k + 1) = numbered_slug base n"
  using assms
proof (induction "n - k" arbitrary: k)
  case 0
  then show ?case by (subst free_slug.simps) simp
next
  case (Suc d)
  have "slugExists db o' (numbered_slug base k) None" using Suc.prems(1) [of k] Suc.hyps(2) by simp
  moreover have "free_slug db o' base (numbered_slug base (k + 1)) (k + 1 + 1) = numbered_slug base n"
    using Suc.prems Suc.hyps(2) by (intro Suc.hyps(1)) simp_all
  ultimately show ?case by (subst free_slug.simps) simp
qed

text \<open>
  The loop that looks for the slug of a pattern's memory ends, however many slugs are taken: on the
  base if it is free, otherwise on \<open>base-n\<close> for the least \<open>n\<close> from 1 that is free. The slug is not one
  of the owner's, so the insertion that follows is never refused for its slug.
\<close>

theorem free_slug_least:
  "\<exists>n. free_slug db o' base base 1 = (if n = 0 then base else numbered_slug base n) \<and>
     \<not> slugExists db o' (free_slug db o' base base 1) None \<and>
     (0 < n \<longrightarrow> slugExists db o' base None) \<and> (\<forall>j. 0 < j \<and> j < n \<longrightarrow> slugExists db o' (numbered_slug base j) None)"
proof (cases "slugExists db o' base None")
  case False
  then have "free_slug db o' base base 1 = base" by (subst free_slug.simps) simp
  with False show ?thesis by (intro exI [of _ 0]) simp
next
  case True
  let ?free = "\<lambda>n. 0 < n \<and> \<not> slugExists db o' (numbered_slug base n) None"
  have "\<exists>n. ?free n"
  proof (rule ccontr)
    assume "\<not> ?thesis"
    then have "slugExists db o' (numbered_slug base k) None" if "1 \<le> k" for k using that by (metis less_le_trans zero_less_one)
    then have "{k. 1 \<le> k \<and> slugExists db o' (numbered_slug base k) None} = {1..}" by auto
    then show False using finite_numbered [of 1 db o' base] infinite_Ici [of "1 :: nat"] by simp
  qed
  then obtain n where n: "0 < n" "\<not> slugExists db o' (numbered_slug base n) None"
    and least: "\<And>j. 0 < j \<Longrightarrow> j < n \<Longrightarrow> slugExists db o' (numbered_slug base j) None"
    using exists_least_iff [of ?free] by blast
  have "free_slug db o' base base 1 = free_slug db o' base (numbered_slug base 1) (1 + 1)"
    using True by (subst free_slug.simps) simp
  also have "\<dots> = numbered_slug base n" using n least by (intro free_slug_step) (auto simp: Suc_le_eq)
  finally show ?thesis using n True least by (intro exI [of _ n]) auto
qed

subsection \<open>The table of patterns\<close>

definition same_pattern :: "inspection_pattern \<Rightarrow> inspection_pattern \<Rightarrow> bool" where
  "same_pattern a b \<longleftrightarrow>
     ip_owner a = ip_owner b \<and> ip_scope a = ip_scope b \<and> ip_key a = ip_key b \<and> ip_workspace a = ip_workspace b"

definition patterns_ok :: "inspection_pattern list \<Rightarrow> bool" where
  "patterns_ok t \<longleftrightarrow>
     sorted_wrt (\<lambda>a b. ip_id a \<noteq> ip_id b \<and> \<not> same_pattern a b) t \<and>
     (\<forall>p \<in> set t. 0 \<le> ip_confidence p \<and> ip_confidence p \<le> 100 \<and> (ip_scope p = OrganizationPattern \<longrightarrow> ip_workspace p = None))"

abbreviation ledger_ok :: "'a ledger_db_scheme \<Rightarrow> bool" where
  "ledger_ok db \<equiv> patterns_ok (patterns db)"

lemma confidenceForEvidence_bounds: "0 \<le> confidenceForEvidence n \<and> confidenceForEvidence n \<le> 100"
  by (simp add: confidenceForEvidence_def INSPECTION_MAX_CONFIDENCE_def INSPECTION_BASE_CONFIDENCE_def
      INSPECTION_CONFIDENCE_PER_EVIDENCE_def)

lemma refreshPattern_bounds:
  "0 \<le> ip_confidence p \<Longrightarrow> ip_confidence p \<le> 100 \<Longrightarrow>
     0 \<le> ip_confidence (refreshPattern tm now p) \<and> ip_confidence (refreshPattern tm now p) \<le> 100"
  by (simp add: refreshPattern_def Let_def INSPECTION_DECAY_POINTS_def)

lemma patterns_ok_update:
  assumes "patterns_ok t" "\<And>r. ip_id (f r) = ip_id r \<and> ip_owner (f r) = ip_owner r \<and> ip_scope (f r) = ip_scope r \<and>
      ip_key (f r) = ip_key r \<and> ip_workspace (f r) = ip_workspace r"
    and "\<And>r. r \<in> set t \<Longrightarrow> q r \<Longrightarrow> 0 \<le> ip_confidence (f r) \<and> ip_confidence (f r) \<le> 100"
  shows "patterns_ok (sql_update q f t)"
  unfolding patterns_ok_def
proof
  show "sorted_wrt (\<lambda>a b. ip_id a \<noteq> ip_id b \<and> \<not> same_pattern a b) (sql_update q f t)"
    using assms(1,2) by (intro sorted_wrt_sql_update) (auto simp: patterns_ok_def same_pattern_def)
  show "\<forall>p \<in> set (sql_update q f t). 0 \<le> ip_confidence p \<and> ip_confidence p \<le> 100 \<and>
      (ip_scope p = OrganizationPattern \<longrightarrow> ip_workspace p = None)"
    using assms by (auto simp: patterns_ok_def set_sql_update)
qed

lemma patterns_ok_snoc:
  "patterns_ok (t @ [p]) \<longleftrightarrow> patterns_ok t \<and> (\<forall>r \<in> set t. ip_id r \<noteq> ip_id p \<and> \<not> same_pattern r p) \<and>
     0 \<le> ip_confidence p \<and> ip_confidence p \<le> 100 \<and> (ip_scope p = OrganizationPattern \<longrightarrow> ip_workspace p = None)"
  by (auto simp: patterns_ok_def sorted_wrt_append)

lemma upsert_ok:
  assumes "ledger_ok db" "0 \<le> ip_confidence p \<and> ip_confidence p \<le> 100" "ip_scope p = OrganizationPattern \<longrightarrow> ip_workspace p = None"
    and "(\<exists>r \<in> set (patterns db). ip_id r = ip_id p) \<or> (\<forall>r \<in> set (patterns db). \<not> same_pattern r p)"
  shows "ledger_ok (snd (upsertPattern p db))"
proof (cases "0 < sql_count (\<lambda>r. ip_id r = ip_id p) (patterns db)")
  case True
  then show ?thesis using assms(1,2) by (simp add: upsertPattern_def patterns_ok_update)
next
  case False
  then have none: "sql_count (\<lambda>r. ip_id r = ip_id p) (patterns db) = 0" by simp
  then have "\<forall>r \<in> set (patterns db). ip_id r \<noteq> ip_id p" by simp
  then show ?thesis using assms
    by (auto simp: upsertPattern_def none sql_insert_def patterns_ok_snoc)
qed

lemma findByPatternKey_None:
  assumes "findByPatternKey db scope key s = None" "ip_owner p = ms_owner scope" "ip_key p = key" "ip_scope p = s"
    and "s \<noteq> OrganizationPattern \<longrightarrow> ip_workspace p = ms_workspace scope"
  shows "\<forall>r \<in> set (patterns db). \<not> same_pattern r p"
  using assms by (auto simp: findByPatternKey_def same_pattern_def split: if_splits)

lemma then_st_inv: "P (snd p) \<Longrightarrow> (\<And>a d. P d \<Longrightarrow> P (snd (g a d))) \<Longrightarrow> P (snd (then_st p g))"
  by (cases p) (auto simp: then_st_def split: sum.splits)

lemma link_loop_patterns: "patterns (snd (link_loop ms c i ss db)) = patterns db"
proof (induction ss arbitrary: db)
  case (Cons s ss)
  have "patterns (snd (appendEventLink j i s now db)) = patterns db" for j now
    by (auto simp: appendEventLink_def simp del: sql_insert_Inr split: sum.splits)
  with Cons show ?case by (auto intro!: then_st_inv [where P = "\<lambda>d. patterns d = patterns db"])
qed simp

lemma ensureRecallMemory_patterns: "patterns (snd (ensureRecallMemory dup scope d c now m db)) = patterns db"
proof -
  have "ledger_db.patterns (snd (insertMemory dup db data m)) = patterns db" for data
  proof -
    obtain r db' where run: "insertMemory dup db data m = (r, db')" by fastforce
    then show ?thesis by (cases rule: insertMemory_cases) (use run in auto)
  qed
  then show ?thesis by (auto simp: ensureRecallMemory_def Let_def split: prod.splits sum.splits) (metis snd_conv)+
qed

lemma candidate_loop_ok: "ledger_ok db \<Longrightarrow> ledger_ok (snd (candidate_loop env ms scope cs db))"
proof (induction cs arbitrary: db)
  case (Cons c cs)
  let ?e = "findByPatternKey db scope (pc_key c) WorkspacePattern"
  let ?p = "\<lambda>i mem. confirmed_pattern scope (lm_now ms) ?e i mem c"
  let ?i = "case ?e of None \<Rightarrow> lm_pattern ms (length cs) | Some e \<Rightarrow> ip_id e"
  have key: "ledger_ok (snd (upsertPattern (?p ?i mem) d))" if "patterns d = patterns db" for mem d
  proof (rule upsert_ok)
    show "ledger_ok d" using Cons.prems that by simp
    show "(\<exists>r \<in> set (patterns d). ip_id r = ip_id (?p ?i mem)) \<or> (\<forall>r \<in> set (patterns d). \<not> same_pattern r (?p ?i mem))"
    proof (cases ?e)
      case None
      then show ?thesis using findByPatternKey_None [OF None] that by (simp add: confirmed_pattern_def)
    next
      case (Some e)
      then have "e \<in> set (patterns db)" by (auto simp: findByPatternKey_def dest: sql_first_SomeD)
      then show ?thesis using Some that by (auto simp: confirmed_pattern_def)
    qed
  qed (simp_all add: confirmed_pattern_def confidenceForEvidence_bounds)
  obtain mem d where m: "(case (case ?e of None \<Rightarrow> None | Some e \<Rightarrow> ip_memory e) of Some i \<Rightarrow> (Some i, db)
      | None \<Rightarrow> ensureRecallMemory (lg_dup env) scope (buildInspectionPatternDescription (pc_category c) (pc_trigger c) (length (pc_signals c)))
          (pc_category c) (lm_now ms) (lm_memory ms (length cs)) db) = (mem, d)" by fastforce
  have "patterns d = patterns db"
    unfolding arg_cong [OF m, of snd, symmetric, unfolded snd_conv] by (simp add: ensureRecallMemory_patterns split: option.splits)
  from key [OF this] show ?case
    unfolding candidate_loop.simps Let_def m
    by (auto intro!: then_st_inv [where P = ledger_ok] Cons.IH simp: link_loop_patterns)
qed simp

lemma refresh_loop_ok:
  assumes "ledger_ok db" "\<forall>p \<in> set ps. 0 \<le> ip_confidence p \<and> ip_confidence p \<le> 100"
  shows "ledger_ok (snd (refresh_loop tm now ps n db))"
  using assms
proof (induction ps arbitrary: n db)
  case (Cons p ps)
  have "ledger_ok (updateLifecycle (refreshPattern tm now p) db)"
    unfolding updateLifecycle_def using Cons.prems refreshPattern_bounds [of p tm now]
    by (simp, intro patterns_ok_update) auto
  with Cons show ?case by (simp add: Let_def)
qed simp

lemma contradiction_loop_patterns: "patterns (snd (contradiction_loop xs db)) = patterns db"
proof (induction xs arbitrary: db)
  case (Cons x xs)
  have "patterns (snd (recordContradiction x db)) = patterns db"
    by (auto simp: recordContradiction_def simp del: sql_insert_Inr split: sum.splits)
  with Cons show ?case by (auto intro!: then_st_inv [where P = "\<lambda>d. patterns d = patterns db"])
qed simp

lemma promote_ok:
  assumes "ledger_ok db" "\<forall>p \<in> set ps. ip_owner p = ms_owner scope \<and> 0 \<le> ip_confidence p \<and> ip_confidence p \<le> 100"
  shows "ledger_ok (snd (promote_patterns ms scope dry ps n db))"
  using assms
proof (induction ps arbitrary: n db)
  case (Cons p ps)
  let ?p = "p\<lparr>ip_id := lm_charter ms (length ps), ip_scope := OrganizationPattern, ip_workspace := None,
    ip_org := ms_org scope, ip_protected := False, ip_created := lm_promoted ms, ip_updated := lm_promoted ms\<rparr>"
  have "ledger_ok (snd (upsertPattern ?p db))" if "findByPatternKey db scope (ip_key p) OrganizationPattern = None"
    using Cons.prems findByPatternKey_None [OF that, of ?p] by (intro upsert_ok) auto
  then show ?case using Cons by (auto intro!: then_st_inv [where P = ledger_ok])
qed simp

lemma set_listPatterns:
  "set (listPatterns db scope archived) = {r \<in> set (patterns db). ip_owner r = ms_owner scope \<and>
     ip_workspace r = ms_workspace scope \<and> (archived \<or> ip_state r \<noteq> PatternArchived)}"
  by (auto simp: listPatterns_def sql_select_def)

lemma settle_patterns_ok:
  assumes "ledger_ok db"
  shows "ledger_ok (snd (settle_patterns env scope dry ms evs k db))"
proof -
  let ?ps = "listPatterns db scope True"
  have ps: "\<forall>p \<in> set ?ps. ip_owner p = ms_owner scope \<and> 0 \<le> ip_confidence p \<and> ip_confidence p \<le> 100"
    using assms by (auto simp: set_listPatterns patterns_ok_def)
  obtain n d2 where r: "(if dry then (0, db) else refresh_loop (lg_time env) (lm_now ms) ?ps 0 db) = (n, d2)" by fastforce
  have "ledger_ok d2"
    using refresh_loop_ok [OF assms, of ?ps "lg_time env" "lm_now ms" 0] ps arg_cong [OF r, of snd] assms by (auto split: if_splits)
  then show ?thesis unfolding settle_patterns_def Let_def r prod.case
    by (intro then_st_inv [where P = ledger_ok])
      (auto simp: contradiction_loop_patterns CharterPatternPromoter_def markProcessed_def promote_ok ps)
qed

lemma runLedger_ok:
  assumes "ledger_ok db"
  shows "ledger_ok (snd (runLedger env scope opts ms db))"
  unfolding runLedger_def Let_def using assms
  by (intro then_st_inv [where P = ledger_ok] settle_patterns_ok) (auto simp: candidate_loop_ok)

text \<open>The ledger's runs, between anything that leaves the table of patterns alone.\<close>

inductive ledger_step :: "ledger_db \<Rightarrow> ledger_db \<Rightarrow> bool" where
  run: "ledger_step db (snd (createInspectionLedgerPorts enabled env ms scope opts db))"
| other: "patterns db' = patterns db \<Longrightarrow> ledger_step db db'"

lemma ledger_steps_ok: "ledger_step\<^sup>*\<^sup>* db db' \<Longrightarrow> ledger_ok db \<Longrightarrow> ledger_ok db'"
proof (induction rule: rtranclp_induct)
  case (step y z)
  from step(2,3,4) show ?case
    by (cases rule: ledger_step.cases) (auto simp: createInspectionLedgerPorts_def NoOpInspectionLedger_def runLedger_ok)
qed simp

text \<open>
  C40: The pattern table keeps its shape under every run of the ledger, also one that throws half-way: an
  owner has at most one pattern per key in each workspace and at most one for the organization (which the
  unique index of the schema does not enforce, as its workspace is null), identifiers are unique, and the
  confidence stays between 0 and 100.
\<close>

theorem pattern_table_invariant:
  assumes "ledger_step\<^sup>*\<^sup>* db db'" "patterns db = []"
    and "i < length (patterns db')" "j < length (patterns db')" "p = patterns db' ! i" "q = patterns db' ! j"
  shows "(ip_id p = ip_id q \<longrightarrow> i = j) \<and>
    (ip_owner p = ip_owner q \<and> ip_scope p = ip_scope q \<and> ip_key p = ip_key q \<and>
       (ip_scope p = OrganizationPattern \<or> ip_workspace p = ip_workspace q) \<longrightarrow> i = j) \<and>
    0 \<le> ip_confidence p \<and> ip_confidence p \<le> 100"
proof -
  have ok: "ledger_ok db'" using ledger_steps_ok [OF assms(1)] assms(2) by (simp add: patterns_ok_def)
  then have srt: "sorted_wrt (\<lambda>a b. ip_id a \<noteq> ip_id b \<and> \<not> same_pattern a b) (patterns db')"
    and mem: "\<forall>r \<in> set (patterns db'). 0 \<le> ip_confidence r \<and> ip_confidence r \<le> 100 \<and> (ip_scope r = OrganizationPattern \<longrightarrow> ip_workspace r = None)"
    by (simp_all add: patterns_ok_def)
  have pq: "p \<in> set (patterns db')" "q \<in> set (patterns db')" using assms(3-6) by simp_all
  have diff: "ip_id p \<noteq> ip_id q \<and> \<not> same_pattern p q" if "i \<noteq> j"
    using that sorted_wrt_nth_less [OF srt, of i j] sorted_wrt_nth_less [OF srt, of j i] assms(3-6)
    by (cases "i < j") (auto simp: same_pattern_def)
  have same: "same_pattern p q" if "ip_owner p = ip_owner q" "ip_scope p = ip_scope q" "ip_key p = ip_key q"
    "ip_scope p = OrganizationPattern \<or> ip_workspace p = ip_workspace q"
    using that mem pq by (auto simp: same_pattern_def)
  show ?thesis
  proof (intro conjI impI)
    show "i = j" if "ip_id p = ip_id q" using that diff by blast
    show "i = j" if "ip_owner p = ip_owner q \<and> ip_scope p = ip_scope q \<and> ip_key p = ip_key q \<and>
        (ip_scope p = OrganizationPattern \<or> ip_workspace p = ip_workspace q)"
      using that same diff by blast
  qed (use mem pq(1) in auto)
qed

subsection \<open>A pattern that nothing confirms fades\<close>

definition refreshed_row :: "(string \<Rightarrow> int option) \<Rightarrow> string \<Rightarrow> inspection_pattern \<Rightarrow> inspection_pattern" where
  "refreshed_row tm now r =
     (let p = refreshPattern tm now r
      in if ip_confidence p \<noteq> ip_confidence r \<or> ip_state p \<noteq> ip_state r
         then r\<lparr>ip_confidence := ip_confidence p, ip_state := ip_state p, ip_confirmed := ip_confirmed p, ip_updated := ip_updated p\<rparr>
         else r)"

lemma refreshed_row_id [simp]: "ip_id (refreshed_row tm now r) = ip_id r"
  by (simp add: refreshed_row_def Let_def)

lemma refreshPattern_id [simp]: "ip_id (refreshPattern tm now r) = ip_id r"
  by (simp add: refreshPattern_def Let_def)

lemma refresh_loop_table:
  assumes "distinct (map ip_id (patterns db))" "set ps \<subseteq> set (patterns db)" "distinct (map ip_id ps)"
  shows "patterns (snd (refresh_loop tm now ps n db)) =
    map (\<lambda>r. if ip_id r \<in> ip_id ` set ps then refreshed_row tm now r else r) (patterns db)"
  using assms
proof (induction ps arbitrary: n db)
  case (Cons p ps)
  have inj: "r = p" if "r \<in> set (patterns db)" "ip_id r = ip_id p" for r
    using that Cons.prems(1,2) by (auto simp: distinct_map dest: inj_onD)
  let ?d = "if ip_confidence (refreshPattern tm now p) \<noteq> ip_confidence p \<or> ip_state (refreshPattern tm now p) \<noteq> ip_state p
    then updateLifecycle (refreshPattern tm now p) db else db"
  have d: "patterns ?d = map (\<lambda>r. if ip_id r = ip_id p then refreshed_row tm now r else r) (patterns db)"
  proof (cases "ip_confidence (refreshPattern tm now p) \<noteq> ip_confidence p \<or> ip_state (refreshPattern tm now p) \<noteq> ip_state p")
    case True
    have "patterns ?d = map (\<lambda>r. if ip_id r = ip_id p then r\<lparr>ip_confidence := ip_confidence (refreshPattern tm now p),
        ip_state := ip_state (refreshPattern tm now p), ip_confirmed := ip_confirmed (refreshPattern tm now p),
        ip_updated := ip_updated (refreshPattern tm now p)\<rparr> else r) (patterns db)"
      using True by (simp add: updateLifecycle_def sql_update_def)
    also have "\<dots> = map (\<lambda>r. if ip_id r = ip_id p then refreshed_row tm now r else r) (patterns db)"
      using True by (intro map_cong refl) (auto simp: refreshed_row_def Let_def dest!: inj)
    finally show ?thesis .
  next
    case False
    then have "refreshed_row tm now p = p" by (simp add: refreshed_row_def)
    then have "map (\<lambda>r. if ip_id r = ip_id p then refreshed_row tm now r else r) (patterns db) = patterns db"
      by (intro map_idI) (auto dest!: inj)
    then show ?thesis using False by simp
  qed
  have "map ip_id (patterns ?d) = map ip_id (patterns db)" unfolding d by simp
  then have 1: "distinct (map ip_id (patterns ?d))" using Cons.prems(1) by simp
  have 2: "set ps \<subseteq> set (patterns ?d)"
  proof
    fix r assume r: "r \<in> set ps"
    then have "ip_id r \<noteq> ip_id p" "r \<in> set (patterns db)" using Cons.prems(2,3) by (auto simp: image_iff)
    then show "r \<in> set (patterns ?d)" unfolding d by force
  qed
  have loop: "snd (refresh_loop tm now (p # ps) n db) = snd (refresh_loop tm now ps
      (if ip_confidence (refreshPattern tm now p) \<noteq> ip_confidence p \<or> ip_state (refreshPattern tm now p) \<noteq> ip_state p then n + 1 else n) ?d)"
    by (simp add: Let_def)
  show ?case unfolding loop Cons.IH [OF 1 2 distinct_tl [OF Cons.prems(3), simplified list.map(2) list.sel(3)]] d
    using Cons.prems(3) by (auto simp: image_iff)
qed simp

lemma refreshed_fields:
  assumes "\<not> ip_protected r" "\<not> ip_disabled r" "90 \<le> ledgerDaysBetween tm (ip_confirmed r) now"
  shows "ip_confidence (refreshed_row tm now r) = max 0 (ip_confidence r - 10) \<and>
    ip_confirmed (refreshed_row tm now r) = ip_confirmed r \<and> ip_owner (refreshed_row tm now r) = ip_owner r \<and>
    ip_workspace (refreshed_row tm now r) = ip_workspace r \<and> \<not> ip_protected (refreshed_row tm now r) \<and>
    \<not> ip_disabled (refreshed_row tm now r) \<and>
    (ip_confidence (refreshed_row tm now r) < 20 \<longrightarrow> ip_state (refreshed_row tm now r) = PatternArchived)"
  using assms
  by (auto simp: refreshed_row_def refreshPattern_def Let_def INSPECTION_AGING_DAYS_def INSPECTION_DECAY_POINTS_def
      INSPECTION_ARCHIVE_CONFIDENCE_def split: if_splits)


lemma settle_patterns_table:
  assumes "distinct (map ip_id (patterns db))" "\<not> lg_charter env"
  shows "patterns (snd (settle_patterns env scope False ms evs k db)) =
    map (\<lambda>r. if r \<in> set (listPatterns db scope True) then refreshed_row (lg_time env) (lm_now ms) r else r) (patterns db)"
proof -
  let ?ps = "listPatterns db scope True"
  obtain n d where run: "refresh_loop (lg_time env) (lm_now ms) ?ps 0 db = (n, d)" by fastforce
  have sub: "set ?ps \<subseteq> set (patterns db)" by (auto simp: set_listPatterns)
  have "mset (map ip_id ?ps) = mset (map ip_id (filter (\<lambda>r. ip_owner r = ms_owner scope \<and> ip_workspace r = ms_workspace scope) (patterns db)))"
    by (simp add: listPatterns_def mset_order_desc sql_select_def)
  from mset_eq_imp_distinct_iff [OF this] have dis: "distinct (map ip_id ?ps)"
    using assms(1) by (simp add: distinct_map_filter)
  have mem: "ip_id r \<in> ip_id ` set ?ps \<longleftrightarrow> r \<in> set ?ps" if "r \<in> set (patterns db)" for r
    using that sub assms(1) by (auto simp: distinct_map dest: inj_onD)
  have "patterns d = map (\<lambda>r. if ip_id r \<in> ip_id ` set ?ps then refreshed_row (lg_time env) (lm_now ms) r else r) (patterns db)"
    using refresh_loop_table [OF assms(1) sub dis, of "lg_time env" "lm_now ms" 0] run by simp
  also have "\<dots> = map (\<lambda>r. if r \<in> set ?ps then refreshed_row (lg_time env) (lm_now ms) r else r) (patterns db)"
    using mem by (intro map_cong) auto
  finally have d: "patterns d = \<dots>" .
  have "patterns (snd (settle_patterns env scope False ms evs k db)) = patterns d"
    unfolding settle_patterns_def Let_def run if_False prod.case using assms(2)
    by (intro then_st_inv [where P = "\<lambda>x. patterns x = patterns d"])
      (auto simp: contradiction_loop_patterns CharterPatternPromoter_def markProcessed_def)
  then show ?thesis using d by simp
qed


lemma runLedger_table:
  assumes "distinct (map ip_id (patterns db))" "\<not> lg_charter env" "\<not> lo_dry opts"
    and "\<forall>e \<in> set (learning_events db). unprocessed scope e \<longrightarrow> le_type e \<noteq> InspectionEvent"
  shows "patterns (snd (runLedger env scope opts ms db)) =
      map (\<lambda>r. if r \<in> set (listPatterns db scope True) then refreshed_row (lg_time env) (lm_now ms) r else r) (patterns db)"
    and "learning_events (snd (runLedger env scope opts ms db)) = learning_events db"
proof -
  have none: "filter (\<lambda>e. le_type e = InspectionEvent) (listUnprocessed db scope n) = []" for n
    using assms(4) by (auto simp: filter_empty_conv listUnprocessed_def sql_select_def dest!: in_set_takeD)
  have run: "runLedger env scope opts ms db = settle_patterns env scope False ms [] 0 db"
    using assms(3) by (simp add: runLedger_def Let_def none mineInspections_def)
  show "patterns (snd (runLedger env scope opts ms db)) =
      map (\<lambda>r. if r \<in> set (listPatterns db scope True) then refreshed_row (lg_time env) (lm_now ms) r else r) (patterns db)"
    unfolding run by (rule settle_patterns_table [OF assms(1,2)])
  have refresh: "learning_events (snd (refresh_loop tm now ps n d)) = learning_events d" for tm now ps n and d :: "'a ledger_db_scheme"
    by (induction ps arbitrary: n d) (auto simp: Let_def updateLifecycle_def)
  have contra: "learning_events (snd (contradiction_loop xs d)) = learning_events d" for xs and d :: "'a ledger_db_scheme"
  proof (induction xs arbitrary: d)
    case (Cons x xs)
    have "learning_events (snd (recordContradiction x d)) = learning_events d" for d :: "'a ledger_db_scheme"
      by (auto simp: recordContradiction_def simp del: sql_insert_Inr split: sum.splits)
    with Cons show ?case by (auto intro!: then_st_inv [where P = "\<lambda>y. learning_events y = learning_events d"])
  qed simp
  obtain n d where r: "refresh_loop (lg_time env) (lm_now ms) (listPatterns db scope True) 0 db = (n, d)" by fastforce
  have "learning_events d = learning_events db" using refresh arg_cong [OF r, of snd] by (metis snd_conv)
  then show "learning_events (snd (runLedger env scope opts ms db)) = learning_events db"
    unfolding run settle_patterns_def Let_def r if_False prod.case using assms(2)
    by (intro then_st_inv [where P = "\<lambda>x. learning_events x = learning_events db"])
      (auto simp: contra CharterPatternPromoter_def)
qed

fun ledger_runs :: "ledger_env \<Rightarrow> memory_scope \<Rightarrow> learning_options \<Rightarrow> ledger_mints list \<Rightarrow> 'a ledger_db_scheme \<Rightarrow> 'a ledger_db_scheme" where
  "ledger_runs env scope opts [] db = db"
| "ledger_runs env scope opts (ms # mss) db = ledger_runs env scope opts mss (snd (runLedger env scope opts ms db))"

text \<open>
  A pattern that nothing confirms fades. While no inspection event waits, every run of the ledger takes
  ten points from a pattern whose last confirmation is 90 days old, unless it is protected or disabled: after
  \<open>n\<close> runs its confidence is what is left, not below 0, and from the ninth run on it is archived and no
  longer recalled. The loss is per run and not per period of time.
\<close>

theorem pattern_fades:
  assumes "distinct (map ip_id (patterns db))" "p \<in> set (patterns db)" "ip_confidence p \<le> 100"
    and "ip_owner p = ms_owner scope" "ip_workspace p = ms_workspace scope" "\<not> ip_protected p" "\<not> ip_disabled p"
    and "\<not> lg_charter env" "\<not> lo_dry opts"
    and "\<forall>e \<in> set (learning_events db). unprocessed scope e \<longrightarrow> le_type e \<noteq> InspectionEvent"
    and "\<forall>ms \<in> set mss. 90 \<le> ledgerDaysBetween (lg_time env) (ip_confirmed p) (lm_now ms)"
  shows "\<exists>q \<in> set (patterns (ledger_runs env scope opts mss db)). ip_id q = ip_id p \<and>
    (mss \<noteq> [] \<longrightarrow> ip_confidence q = max 0 (ip_confidence p - 10 * int (length mss)) \<and>
      (ip_confidence q < 20 \<longrightarrow> ip_state q = PatternArchived)) \<and>
    (9 \<le> length mss \<longrightarrow> q \<notin> set (listActiveForRecall (ledger_runs env scope opts mss db) scope pathPrefix))"
proof -
  have fade: "\<exists>q \<in> set (patterns (ledger_runs env scope opts mss db)). ip_id q = ip_id p \<and>
    (mss \<noteq> [] \<longrightarrow> ip_confidence q = max 0 (ip_confidence p - 10 * int (length mss)) \<and>
      (ip_confidence q < 20 \<longrightarrow> ip_state q = PatternArchived))"
    using assms(1,2,4-11)
  proof (induction mss arbitrary: db p)
    case (Cons ms mss)
    let ?d = "snd (runLedger env scope opts ms db)" and ?q = "refreshed_row (lg_time env) (lm_now ms) p"
    have table: "patterns ?d = map (\<lambda>r. if r \<in> set (listPatterns db scope True) then refreshed_row (lg_time env) (lm_now ms) r else r) (patterns db)"
      and evs: "learning_events ?d = learning_events db"
      using runLedger_table [OF Cons.prems(1,7,8,9)] by auto
    have ids: "map ip_id (patterns ?d) = map ip_id (patterns db)" unfolding table by simp
    have q: "?q \<in> set (patterns ?d)" unfolding table using Cons.prems(2-4) by (force simp: set_listPatterns)
    have f: "ip_confidence ?q = max 0 (ip_confidence p - 10)" "ip_confirmed ?q = ip_confirmed p" "ip_owner ?q = ip_owner p"
      "ip_workspace ?q = ip_workspace p" "\<not> ip_protected ?q" "\<not> ip_disabled ?q"
      "ip_confidence ?q < 20 \<Longrightarrow> ip_state ?q = PatternArchived"
      using refreshed_fields [OF Cons.prems(5,6), of "lg_time env" "lm_now ms"] Cons.prems(10) by auto
    from Cons.IH [of ?d ?q] obtain x where x: "x \<in> set (patterns (ledger_runs env scope opts mss ?d))" "ip_id x = ip_id ?q"
      "mss \<noteq> [] \<longrightarrow> ip_confidence x = max 0 (ip_confidence ?q - 10 * int (length mss)) \<and> (ip_confidence x < 20 \<longrightarrow> ip_state x = PatternArchived)"
      using Cons.prems ids evs q f by auto
    show ?case
    proof (cases "mss = []")
      case True
      with q f show ?thesis by (intro bexI [of _ ?q]) auto
    next
      case False
      with x f(1) show ?thesis by (intro bexI [of _ x]) auto
    qed
  qed auto
  then obtain q where q: "q \<in> set (patterns (ledger_runs env scope opts mss db))" "ip_id q = ip_id p"
    "mss \<noteq> [] \<longrightarrow> ip_confidence q = max 0 (ip_confidence p - 10 * int (length mss)) \<and> (ip_confidence q < 20 \<longrightarrow> ip_state q = PatternArchived)" by blast
  moreover have "ip_state q = PatternArchived" if "9 \<le> length mss" using q(3) that assms(3) by (cases mss) auto
  then have "9 \<le> length mss \<longrightarrow> q \<notin> set (listActiveForRecall (ledger_runs env scope opts mss db) scope pathPrefix)"
    by (auto simp: listActiveForRecall_def)
  ultimately show ?thesis by blast
qed

subsection \<open>Samples and findings\<close>

definition sample_outcome_event :: "string \<Rightarrow> learning_event" where
  "sample_outcome_event i = \<lparr>le_id = i, le_owner = ''o'', le_workspace = Some ''w'', le_type = InspectionEvent,
     le_payload = [(''signalId'', JStr i), (''kind'', JStr ''inspection_outcome''), (''severity'', JStr ''major''),
       (''category'', JStr ''adr''), (''resolved'', JBool True)], le_processed = False, le_created = i\<rparr>"

definition sample_ledger_db :: "learning_event list \<Rightarrow> inspection_pattern list \<Rightarrow> ledger_db" where
  "sample_ledger_db events ps = \<lparr>memories = [], embeddings = [], intents = [], sync_audits = [], sync_conflicts = [],
     sync_cursors = [], relations = [], evidence = [], entities = [], aliases = [], mentions = [], signals = [],
     learning_events = events, ranking_snapshots = [], patterns = ps, pattern_links = [], contradictions = []\<rparr>"

definition sample_pattern :: inspection_pattern where
  "sample_pattern = \<lparr>ip_id = ''p'', ip_owner = ''o'', ip_workspace = Some ''w'', ip_org = None, ip_memory = Some ''1'',
     ip_key = ''adr:{}'', ip_scope = WorkspacePattern, ip_category = ''adr'',
     ip_trigger = \<lparr>tr_paths = None, tr_modules = None, tr_adrs = None\<rparr>, ip_description = ''d'', ip_confidence = 100,
     ip_evidence = 4, ip_protected = False, ip_disabled = False, ip_state = PatternActive, ip_confirmed = ''a'',
     ip_created = ''a'', ip_updated = ''a''\<rparr>"

definition sample_ledger_env :: ledger_env where
  "sample_ledger_env = \<lparr>lg_sha256 = \<lambda>s. s, lg_time = \<lambda>s. if s = ''a'' then Some 0 else Some 7776000000, lg_dup = ''UNIQUE'',
     lg_charter = False, lg_federation = False\<rparr>"

definition sample_ledger_mints :: "string \<Rightarrow> ledger_mints" where
  "sample_ledger_mints now = \<lparr>lm_now = now, lm_promoted = now, lm_pattern = \<lambda>c. ''n'' @ js_nat_string c, lm_memory = \<lambda>c. mint_of ''m'',
     lm_link = \<lambda>c j. ''l'' @ js_nat_string c @ ''-'' @ js_nat_string j, lm_contradiction = \<lambda>k. ''x'' @ js_nat_string k,
     lm_charter = \<lambda>k. ''c'' @ js_nat_string k\<rparr>"

definition sample_all :: learning_options where "sample_all = \<lparr>lo_dry = False, lo_limit = None\<rparr>"

theorem free_slug_least_witness:
  "free_slug (sample_sync [sample_row]) ''o'' ''a'' ''a'' 1 = ''a-1''"
proof -
  have taken: "slugExists (sample_sync [sample_row]) ''o'' ''a'' None"
    "\<not> slugExists (sample_sync [sample_row]) ''o'' (numbered_slug ''a'' 1) None" by code_simp+
  from free_slug_least [of "sample_sync [sample_row]" "''o''" "''a''"] obtain n where
    n: "free_slug (sample_sync [sample_row]) ''o'' ''a'' ''a'' 1 = (if n = 0 then ''a'' else numbered_slug ''a'' n)"
      "\<not> slugExists (sample_sync [sample_row]) ''o'' (free_slug (sample_sync [sample_row]) ''o'' ''a'' ''a'' 1) None"
      "\<forall>j. 0 < j \<and> j < n \<longrightarrow> slugExists (sample_sync [sample_row]) ''o'' (numbered_slug ''a'' j) None" by blast
  have "n \<noteq> 0"
  proof
    assume "n = 0"
    with n(1,2) taken(1) show False by simp
  qed
  moreover have "\<not> 1 < n" using n(3) taken(2) by auto
  ultimately have "n = 1" by simp
  with n(1) have "free_slug (sample_sync [sample_row]) ''o'' ''a'' ''a'' 1 = numbered_slug ''a'' 1" by simp
  also have "\<dots> = ''a-1''" by code_simp
  finally show ?thesis .
qed

definition sample_ledger_run :: ledger_db where
  "sample_ledger_run = snd (createInspectionLedgerPorts True sample_ledger_env (sample_ledger_mints ''b'') (sample_scope ''w'') sample_all
     (sample_ledger_db [sample_outcome_event ''1'', sample_outcome_event ''2''] []))"

theorem pattern_table_invariant_witness:
  "map ip_id (patterns sample_ledger_run) = [''n0''] \<and> ip_confidence (patterns sample_ledger_run ! 0) \<le> 100"
proof -
  have ids: "map ip_id (patterns sample_ledger_run) = [''n0'']" by code_simp
  from arg_cong [OF this, of length] have "length (patterns sample_ledger_run) = 1" by simp
  then have i: "0 < length (patterns sample_ledger_run)" by simp
  let ?start = "sample_ledger_db [sample_outcome_event ''1'', sample_outcome_event ''2''] []"
  have "ledger_step\<^sup>*\<^sup>* ?start sample_ledger_run" unfolding sample_ledger_run_def by (rule r_into_rtranclp, rule ledger_step.run)
  moreover have "patterns ?start = []" by (simp add: sample_ledger_db_def)
  ultimately show ?thesis using ids pattern_table_invariant [OF _ _ i i refl refl] by blast
qed

theorem pattern_fades_witness:
  "\<exists>q \<in> set (patterns (ledger_runs sample_ledger_env (sample_scope ''w'') sample_all [sample_ledger_mints ''b'', sample_ledger_mints ''b'']
       (sample_ledger_db [] [sample_pattern]))). ip_id q = ''p'' \<and> ip_confidence q = 80"
proof -
  have "\<exists>q \<in> set (patterns (ledger_runs sample_ledger_env (sample_scope ''w'') sample_all [sample_ledger_mints ''b'', sample_ledger_mints ''b'']
       (sample_ledger_db [] [sample_pattern]))). ip_id q = ip_id sample_pattern \<and>
    ([sample_ledger_mints ''b'', sample_ledger_mints ''b''] \<noteq> [] \<longrightarrow>
      ip_confidence q = max 0 (ip_confidence sample_pattern - 10 * int (length [sample_ledger_mints ''b'', sample_ledger_mints ''b''])) \<and>
      (ip_confidence q < 20 \<longrightarrow> ip_state q = PatternArchived)) \<and>
    (9 \<le> length [sample_ledger_mints ''b'', sample_ledger_mints ''b''] \<longrightarrow> q \<notin> set (listActiveForRecall
      (ledger_runs sample_ledger_env (sample_scope ''w'') sample_all [sample_ledger_mints ''b'', sample_ledger_mints ''b'']
       (sample_ledger_db [] [sample_pattern])) (sample_scope ''w'') None))"
    by (rule pattern_fades) (simp_all add: sample_ledger_db_def sample_pattern_def sample_scope_def sample_ledger_env_def
        sample_all_def sample_ledger_mints_def ledgerDaysBetween_def)
  then show ?thesis by (auto simp: sample_pattern_def)
qed

text \<open>
  The ledger and the learning orchestrator share one flag per event: a learning run marks the inspection
  outcomes too, and a ledger run after it finds none. Alone, the ledger makes a pattern of them.
\<close>

lemma learning_starves_ledger:
  "map_sum (\<lambda>_. ()) lp_upserted (fst (runLedger sample_ledger_env (sample_scope ''w'') (sample_all\<lparr>lo_dry := True\<rparr>) (sample_ledger_mints ''b'')
     (sample_ledger_db [sample_outcome_event ''1'', sample_outcome_event ''2''] []))) = Inr 1"
  "map_sum (\<lambda>_. ()) lp_scanned (fst (runLedger sample_ledger_env (sample_scope ''w'') sample_all (sample_ledger_mints ''b'')
     (snd (runLearning learningEngines (sample_scope ''w'') sample_all (mint_of ''r'')
       (sample_ledger_db [sample_outcome_event ''1'', sample_outcome_event ''2''] []))))) = Inr 0"
  by code_simp+

text \<open>Two more confirmations of a pattern with four lower its confidence: the evidence of a run replaces the old one.\<close>

lemma evidence_forgotten:
  "map (\<lambda>p. (ip_evidence p, ip_confidence p)) (patterns (snd (runLedger sample_ledger_env (sample_scope ''w'') sample_all
     (sample_ledger_mints ''a'') (sample_ledger_db [sample_outcome_event ''1'', sample_outcome_event ''2''] [sample_pattern])))) = [(2, 70)]"
  by code_simp

end
