(* ===== verification/Search_Graph.thy ===== *)
theory Search_Graph
  imports Inspection
begin

section \<open>Synchronisation of the search and graph indexes\<close>

text \<open>
  \<^verbatim>\<open>src/src/search-graph-platform\<close> with its table of runs and watermarks
  (\<^verbatim>\<open>src/src/infrastructure/search-graph-platform/sql-search-graph-sync-store.ts\<close>) and the full copies of
  \<^verbatim>\<open>src/src/backfill\<close>. The clients of Meilisearch and Neo4j are libraries: they are records of operations on
  a state of their own, and each call can throw. The database does not change while a sync reads it. Runs
  without an owner, which only the REST interface starts, are modelled too. A dash in a message is a hyphen.
\<close>

subsection \<open>Types\<close>

datatype sync_target = Meilisearch | Neo4j

datatype sync_mode = FullSync | IncrementalSync

datatype index_run_status = SyncRunning | SyncCompleted | SyncFailed

record sync_stats =
  ss_scanned :: nat
  ss_applied :: nat
  ss_skipped :: nat
  ss_failed :: nat
  ss_dry :: bool

record sync_run =
  sr_id :: string
  sr_target :: sync_target
  sr_mode :: sync_mode
  sr_status :: index_run_status
  sr_owner :: "string option"
  sr_stats :: sync_stats
  sr_started :: string
  sr_finished :: "string option"
  sr_message :: "string option"

record sync_state =
  st_target :: sync_target
  st_watermark :: string
  st_run :: "string option"
  st_updated :: string

record sync_input =
  yi_mode :: sync_mode
  yi_owner :: "string option"
  yi_dry :: "bool option"
  yi_batch :: "nat option"
  yi_since :: "string option"

record search_db = ledger_db +
  sync_runs :: "sync_run list"
  sync_states :: "sync_state list"

subsection \<open>Runs and watermarks\<close>

text \<open>The operations of \<open>ISearchGraphSyncStore\<close> that the orchestrator uses; the time of a write is a parameter.\<close>

record 'd sync_store =
  sst_start :: "sync_run \<Rightarrow> 'd \<Rightarrow> (app_error + unit) \<times> 'd"
  sst_complete :: "string \<Rightarrow> index_run_status \<Rightarrow> sync_stats \<Rightarrow> string \<Rightarrow> string option \<Rightarrow> 'd \<Rightarrow> 'd"
  sst_state :: "'d \<Rightarrow> sync_target \<Rightarrow> sync_state option"
  sst_watermark :: "sync_target \<Rightarrow> string \<Rightarrow> string \<Rightarrow> string \<Rightarrow> 'd \<Rightarrow> 'd"

definition run_clash :: "sync_run \<Rightarrow> sync_run \<Rightarrow> bool" where
  "run_clash r s \<longleftrightarrow> sr_id r = sr_id s"

interpretation sync_run_ids: keyed_table sr_id run_clash
  by unfold_locales (simp add: run_clash_def)

definition startRun :: "sync_run \<Rightarrow> 'a search_db_scheme \<Rightarrow> (app_error + unit) \<times> 'a search_db_scheme" where
  "startRun r db =
     (case sql_insert run_clash (r\<lparr>sr_finished := None, sr_message := None\<rparr>) (sync_runs db) of
        Inl e \<Rightarrow> (Inl e, db) | Inr t \<Rightarrow> (Inr (), db\<lparr>sync_runs := t\<rparr>))"

definition completeRun ::
  "string \<Rightarrow> index_run_status \<Rightarrow> sync_stats \<Rightarrow> string \<Rightarrow> string option \<Rightarrow> 'a search_db_scheme \<Rightarrow> 'a search_db_scheme" where
  "completeRun runId status stats finishedAt message db =
     db\<lparr>sync_runs := sql_update (\<lambda>r. sr_id r = runId)
        (\<lambda>r. r\<lparr>sr_status := status, sr_stats := stats, sr_finished := Some finishedAt, sr_message := message\<rparr>) (sync_runs db)\<rparr>"

definition getState :: "'a search_db_scheme \<Rightarrow> sync_target \<Rightarrow> sync_state option" where
  "getState db target = sql_first (\<lambda>s. st_target s = target) (sync_states db)"

definition setWatermark ::
  "sync_target \<Rightarrow> string \<Rightarrow> string \<Rightarrow> string \<Rightarrow> 'a search_db_scheme \<Rightarrow> 'a search_db_scheme" where
  "setWatermark target watermark runId now db =
     (if 0 < sql_count (\<lambda>s. st_target s = target) (sync_states db)
      then db\<lparr>sync_states := sql_update (\<lambda>s. st_target s = target)
             (\<lambda>s. s\<lparr>st_watermark := watermark, st_run := Some runId, st_updated := now\<rparr>) (sync_states db)\<rparr>
      else db\<lparr>sync_states := sync_states db @
             [\<lparr>st_target = target, st_watermark = watermark, st_run = Some runId, st_updated = now\<rparr>]\<rparr>)"

definition listSyncRuns :: "'a search_db_scheme \<Rightarrow> nat \<Rightarrow> sync_run list" where
  "listSyncRuns db limit = take limit (order_desc sr_started (sync_runs db))"

definition getLatestRun :: "'a search_db_scheme \<Rightarrow> sync_target \<Rightarrow> sync_run option" where
  "getLatestRun db target =
     (case order_desc sr_started (sql_select (\<lambda>r. sr_target r = target) (sync_runs db)) of [] \<Rightarrow> None | r # _ \<Rightarrow> Some r)"

definition SqlSearchGraphSyncStore :: "'a search_db_scheme sync_store" where
  "SqlSearchGraphSyncStore =
     \<lparr>sst_start = startRun, sst_complete = completeRun, sst_state = getState, sst_watermark = setWatermark\<rparr>"

definition NoOpSearchGraphSyncStore :: "'d sync_store" where
  "NoOpSearchGraphSyncStore =
     \<lparr>sst_start = \<lambda>r db. (Inr (), db), sst_complete = \<lambda>i s st f m db. db, sst_state = \<lambda>db t. None,
      sst_watermark = \<lambda>t w r n db. db\<rparr>"

subsection \<open>Batches\<close>

text \<open>
  The loop that all syncs share, over the rows that match, in their order: it reads a batch at an offset,
  works on it and stops at a batch that is not full.
\<close>

function batch_loop :: "('r list \<Rightarrow> 's \<Rightarrow> 's) \<Rightarrow> nat \<Rightarrow> 'r list \<Rightarrow> nat \<Rightarrow> 's \<Rightarrow> 's" where
  "batch_loop work batchSize matching offset s =
     (let rows = page batchSize offset matching
      in if rows = [] then s
         else let s' = work rows s
              in if length rows < batchSize then s'
                 else batch_loop work batchSize matching (offset + length rows) s')"
  by pat_completeness auto

termination batch_loop
  by (relation "measure (\<lambda>(work, batchSize, matching, offset, s). length matching - offset)") (auto simp: page_def)

declare batch_loop.simps [simp del]

subsection \<open>Clients\<close>

text \<open>The operations of an index client on its state; \<open>dryRun\<close> keeps them from being called.\<close>

record ('x, 'w) index_writer =
  iw_ensure :: "'w \<Rightarrow> (app_error + unit) \<times> 'w"
  iw_upsert :: "'x \<Rightarrow> 'w \<Rightarrow> (app_error + unit) \<times> 'w"

definition ensure_index :: "('x, 'w) index_writer \<Rightarrow> bool \<Rightarrow> 'w \<Rightarrow> (app_error + unit) \<times> 'w" where
  "ensure_index writer dryRun w = (if dryRun then (Inr (), w) else iw_ensure writer w)"

record search_document =
  sd_id :: string
  sd_owner :: string
  sd_workspace :: string
  sd_project :: string
  sd_title :: string
  sd_content :: string
  sd_summary :: string
  sd_tags :: "string list"

definition toDocument :: "memory_row \<Rightarrow> search_document" where
  "toDocument r =
     \<lparr>sd_id = m_id r, sd_owner = m_owner r, sd_workspace = nullish (mr_workspace r) [], sd_project = m_project_id r,
      sd_title = m_title r, sd_content = m_content r, sd_summary = m_summary r, sd_tags = m_tags r\<rparr>"

text \<open>A batch of documents is sent at once and fails at once.\<close>

definition upload_batch ::
  "(search_document list, 'w) index_writer \<Rightarrow> bool \<Rightarrow> memory_row list \<Rightarrow> sync_stats \<times> 'w \<Rightarrow> sync_stats \<times> 'w" where
  "upload_batch writer dryRun rows s =
     (case s of (stats, w) \<Rightarrow>
        let stats1 = stats\<lparr>ss_scanned := ss_scanned stats + length rows\<rparr>
        in if dryRun then (stats1\<lparr>ss_applied := ss_applied stats + length rows\<rparr>, w)
           else case iw_upsert writer (map toDocument rows) w of
                  (Inr _, w') \<Rightarrow> (stats1\<lparr>ss_applied := ss_applied stats + length rows\<rparr>, w')
                | (Inl _, w') \<Rightarrow> (stats1\<lparr>ss_failed := ss_failed stats + length rows\<rparr>, w'))"

text \<open>Relations are merged one by one.\<close>

record graph_row =
  gr_source :: string
  gr_target :: string
  gr_relation :: relation_type
  gr_owner :: string

definition toGraphRow :: "relation_row \<Rightarrow> graph_row" where
  "toGraphRow r = \<lparr>gr_source = rl_source r, gr_target = rl_target r, gr_relation = rl_relation r, gr_owner = rl_owner r\<rparr>"

fun merge_rows ::
  "(graph_row, 'w) index_writer \<Rightarrow> bool \<Rightarrow> relation_row list \<Rightarrow> sync_stats \<times> 'w \<Rightarrow> sync_stats \<times> 'w" where
  "merge_rows writer dryRun [] s = s"
| "merge_rows writer dryRun (r # rs) (stats, w) =
     (let stats1 = stats\<lparr>ss_scanned := ss_scanned stats + 1\<rparr>
      in merge_rows writer dryRun rs
           (if dryRun then (stats1\<lparr>ss_applied := ss_applied stats + 1\<rparr>, w)
            else case iw_upsert writer (toGraphRow r) w of
                   (Inr _, w') \<Rightarrow> (stats1\<lparr>ss_applied := ss_applied stats + 1\<rparr>, w')
                 | (Inl _, w') \<Rightarrow> (stats1\<lparr>ss_failed := ss_failed stats + 1\<rparr>, w')))"

text \<open>\<open>SELECT DISTINCT owner_id\<close>, in the order in which the owners first occur.\<close>

definition distinct_owners :: "string list \<Rightarrow> string list" where
  "distinct_owners os = rev (remdups (rev (filter (\<lambda>x. x \<noteq> []) os)))"

definition sync_owners :: "string option \<Rightarrow> string list \<Rightarrow> string list" where
  "sync_owners ownerId os = (case truthy ownerId of Some x \<Rightarrow> [x] | None \<Rightarrow> distinct_owners os)"

text \<open>
  The rows of one owner: \<open>updated_at > ?\<close> or all of them, by time and identifier; a full copy takes all
  of them by identifier.
\<close>

definition due_memories :: "'a memory_db_scheme \<Rightarrow> sync_mode \<Rightarrow> string option \<Rightarrow> string \<Rightarrow> memory_row list" where
  "due_memories db mode since ownerId =
     (let own = sql_select (\<lambda>r. m_owner r = ownerId \<and> \<not> m_archived r \<and>
            (mode = FullSync \<or> (case truthy since of None \<Rightarrow> True | Some t \<Rightarrow> t < m_updated r))) (memories db)
      in if mode = FullSync then order_asc m_id own else order_asc m_updated (order_asc m_id own))"

definition due_relations :: "'a relation_db_scheme \<Rightarrow> sync_mode \<Rightarrow> string option \<Rightarrow> string \<Rightarrow> relation_row list" where
  "due_relations db mode since ownerId =
     (let own = sql_select (\<lambda>r. rl_owner r = ownerId \<and>
            (mode = FullSync \<or> (case truthy since of None \<Rightarrow> True | Some t \<Rightarrow> t < rl_created r))) (relations db)
      in if mode = FullSync then order_asc rl_id own else order_asc rl_created (order_asc rl_id own))"

fun owner_loop :: "(string \<Rightarrow> 's \<Rightarrow> 's) \<Rightarrow> string list \<Rightarrow> 's \<Rightarrow> 's" where
  "owner_loop f [] s = s"
| "owner_loop f (x # xs) s = owner_loop f xs (f x s)"

definition empty_stats :: "bool \<Rightarrow> sync_stats" where
  "empty_stats dryRun = \<lparr>ss_scanned = 0, ss_applied = 0, ss_skipped = 0, ss_failed = 0, ss_dry = dryRun\<rparr>"

text \<open>Both modes of the two syncers.\<close>

definition sync_memories ::
  "(search_document list, 'w) index_writer \<Rightarrow> sync_input \<Rightarrow> 'a memory_db_scheme \<Rightarrow> 'w \<Rightarrow> (app_error + sync_stats) \<times> 'w" where
  "sync_memories writer input db w =
     (let dryRun = nullish (yi_dry input) False; batchSize = nullish (yi_batch input) 100;
          owners = sync_owners (yi_owner input) (map m_owner (sql_select (\<lambda>r. \<not> m_archived r) (memories db)))
      in then_st (ensure_index writer dryRun w) (\<lambda>_ w1.
           case owner_loop (\<lambda>x. batch_loop (upload_batch writer dryRun) batchSize
                  (due_memories db (yi_mode input) (yi_since input) x) 0) owners (empty_stats dryRun, w1) of
             (stats, w2) \<Rightarrow> (Inr stats, w2)))"

definition sync_relations ::
  "(graph_row, 'w) index_writer \<Rightarrow> sync_input \<Rightarrow> 'a relation_db_scheme \<Rightarrow> 'w \<Rightarrow> (app_error + sync_stats) \<times> 'w" where
  "sync_relations writer input db w =
     (let dryRun = nullish (yi_dry input) False; batchSize = nullish (yi_batch input) 100;
          owners = sync_owners (yi_owner input) (map rl_owner (relations db))
      in then_st (ensure_index writer dryRun w) (\<lambda>_ w1.
           case owner_loop (\<lambda>x. batch_loop (merge_rows writer dryRun) batchSize
                  (due_relations db (yi_mode input) (yi_since input) x) 0) owners (empty_stats dryRun, w1) of
             (stats, w2) \<Rightarrow> (Inr stats, w2)))"

record ('d, 'w) index_syncer =
  sy_configured :: bool
  sy_sync :: "sync_input \<Rightarrow> 'd \<Rightarrow> 'w \<Rightarrow> (app_error + sync_stats) \<times> 'w"

definition MeilisearchIndexSyncer ::
  "bool \<Rightarrow> (search_document list, 'w) index_writer \<Rightarrow> ('a memory_db_scheme, 'w) index_syncer" where
  "MeilisearchIndexSyncer configured writer =
     \<lparr>sy_configured = configured, sy_sync = \<lambda>input db w.
        if \<not> configured then (Inl (PlainError ''MEILISEARCH_HOST and MEILISEARCH_INDEX are required for search sync''), w)
        else sync_memories writer input db w\<rparr>"

definition Neo4jGraphIndexSyncer ::
  "bool \<Rightarrow> (graph_row, 'w) index_writer \<Rightarrow> ('a relation_db_scheme, 'w) index_syncer" where
  "Neo4jGraphIndexSyncer configured writer =
     \<lparr>sy_configured = configured, sy_sync = \<lambda>input db w.
        if \<not> configured then (Inl (PlainError ''NEO4J_URI, NEO4J_USERNAME, and NEO4J_PASSWORD are required for graph sync''), w)
        else sync_relations writer input db w\<rparr>"

definition NoOpIndexSyncer :: "('d, 'w) index_syncer" where
  "NoOpIndexSyncer =
     \<lparr>sy_configured = False, sy_sync = \<lambda>input db w. (Inl (PlainError ''Search graph platform disabled''), w)\<rparr>"

subsection \<open>Orchestrator\<close>

text \<open>A run draws its identifier and the times of its start, of its end and of the write of the watermark.\<close>

record sync_mints =
  ym_id :: string
  ym_started :: string
  ym_finished :: string
  ym_marked :: string

fun target_text :: "sync_target \<Rightarrow> string" where
  "target_text Meilisearch = ''meilisearch''"
| "target_text Neo4j = ''neo4j''"

definition runSync ::
  "'d sync_store \<Rightarrow> sync_target \<Rightarrow> ('d, 'w) index_syncer \<Rightarrow> sync_input \<Rightarrow> sync_mints \<Rightarrow> 'd \<times> 'w
     \<Rightarrow> (app_error + sync_run) \<times> 'd \<times> 'w" where
  "runSync store target syncer input ms s =
     (case s of (db, w) \<Rightarrow>
        if \<not> sy_configured syncer
        then (Inl (PlainError (target_text target @ '' sync is not configured - check env credentials'')), db, w)
        else
          let emptyStats = empty_stats (nullish (yi_dry input) False);
              run = \<lparr>sr_id = ym_id ms, sr_target = target, sr_mode = yi_mode input, sr_status = SyncRunning,
                     sr_owner = yi_owner input, sr_stats = emptyStats, sr_started = ym_started ms,
                     sr_finished = None, sr_message = None\<rparr>
          in case sst_start store run db of
               (Inl e, db1) \<Rightarrow> (Inl e, db1, w)
             | (Inr _, db1) \<Rightarrow>
                 let state = (if yi_mode input = IncrementalSync then sst_state store db1 target else None);
                     syncInput = input\<lparr>yi_since := map_option st_watermark state\<rparr>
                 in case sy_sync syncer syncInput db1 w of
                      (Inr stats, w1) \<Rightarrow>
                        let db2 = sst_complete store (ym_id ms) SyncCompleted stats (ym_finished ms) None db1
                        in (Inr (run\<lparr>sr_status := SyncCompleted, sr_stats := stats, sr_finished := Some (ym_finished ms)\<rparr>),
                            if nullish (yi_dry input) False then db2
                            else sst_watermark store target (ym_finished ms) (ym_id ms) (ym_marked ms) db2, w1)
                    | (Inl e, w1) \<Rightarrow>
                        (Inl e, sst_complete store (ym_id ms) SyncFailed emptyStats (ym_finished ms)
                                  (Some (error_message e)) db1, w1))"

record ('d, 'w) search_graph_ports =
  sp_enabled :: bool
  sp_search :: "sync_input \<Rightarrow> sync_mints \<Rightarrow> 'd \<times> 'w \<Rightarrow> (app_error + sync_run) \<times> 'd \<times> 'w"
  sp_graph :: "sync_input \<Rightarrow> sync_mints \<Rightarrow> 'd \<times> 'w \<Rightarrow> (app_error + sync_run) \<times> 'd \<times> 'w"

definition SearchGraphOrchestrator ::
  "bool \<Rightarrow> ('d, 'w) index_syncer \<Rightarrow> ('d, 'w) index_syncer \<Rightarrow> 'd sync_store \<Rightarrow> ('d, 'w) search_graph_ports" where
  "SearchGraphOrchestrator enabled searchSyncer graphSyncer store =
     \<lparr>sp_enabled = enabled, sp_search = runSync store Meilisearch searchSyncer, sp_graph = runSync store Neo4j graphSyncer\<rparr>"

definition createSearchGraphPorts ::
  "bool \<Rightarrow> ('a search_db_scheme, 'w) index_syncer \<Rightarrow> ('a search_db_scheme, 'w) index_syncer
     \<Rightarrow> ('a search_db_scheme, 'w) search_graph_ports" where
  "createSearchGraphPorts enabled searchSyncer graphSyncer =
     (if \<not> enabled then SearchGraphOrchestrator False NoOpIndexSyncer NoOpIndexSyncer NoOpSearchGraphSyncStore
      else SearchGraphOrchestrator True searchSyncer graphSyncer SqlSearchGraphSyncStore)"

end
