(* ===== verification/Search_Graph_Laws.thy ===== *)
theory Search_Graph_Laws
  imports Search_Graph Inspection_Laws
begin

section \<open>Laws of the index synchronisation\<close>

text \<open>
  A sync offers every due row exactly once, in batches that are never larger than asked for; every run
  ends in the table of runs as completed or failed; and what the watermark of a target makes later
  syncs skip.
\<close>

subsection \<open>Batches\<close>

function batches :: "nat \<Rightarrow> 'r list \<Rightarrow> 'r list list" where
  "batches n xs = (if n = 0 \<or> xs = [] then [] else take n xs # batches n (drop n xs))"
  by pat_completeness auto

termination batches
  by (relation "measure (\<lambda>(n, xs). length xs)") auto

declare batches.simps [simp del]

lemma batches_Nil [simp]: "batches n [] = []"
  by (subst batches.simps) simp

lemma concat_batches: "0 < n \<Longrightarrow> concat (batches n xs) = xs"
  by (induction n xs rule: batches.induct) (subst batches.simps, auto)

lemma batches_size: "b \<in> set (batches n xs) \<Longrightarrow> 0 < length b \<and> length b \<le> n"
proof (induction n xs rule: batches.induct)
  case (1 n xs)
  show ?case
  proof (cases "n = 0 \<or> xs = []")
    case True
    with 1 have "b \<in> set []" using batches.simps [of n xs] by simp
    then show ?thesis by simp
  next
    case False
    with 1(2) have "b = take n xs \<or> b \<in> set (batches n (drop n xs))" by (subst (asm) batches.simps) simp
    with False 1(1) show ?thesis by auto
  qed
qed

lemma batch_loop_batches: "batch_loop work n all offset s = fold work (batches n (drop offset all)) s"
proof (induction work n all offset s rule: batch_loop.induct)
  case (1 work n all offset s)
  let ?rest = "drop offset all"
  have page: "page n offset all = take n ?rest" by (simp add: page_def)
  show ?case
  proof (cases "take n ?rest = []")
    case True
    then have "batches n ?rest = []" by (subst batches.simps) auto
    with True show ?thesis by (subst batch_loop.simps) (simp add: page)
  next
    case ne: False
    then have b: "batches n ?rest = take n ?rest # batches n (drop n ?rest)" by (subst batches.simps) auto
    show ?thesis
    proof (cases "length (take n ?rest) < n")
      case True
      then have "drop n ?rest = []" "length all - offset < n" by auto
      with ne b show ?thesis by (subst batch_loop.simps) (simp add: page Let_def)
    next
      case False
      then have "length (take n ?rest) = n" by simp
      then have "drop (offset + length (take n ?rest)) all = drop n ?rest" by (simp add: add.commute)
      with False ne b show ?thesis
        using 1 [OF refl, unfolded page, OF ne refl False]
        by (subst batch_loop.simps) (simp add: page Let_def)
    qed
  qed
qed

lemma upload_all:
  "case fold (upload_batch writer dryRun) bs (stats, w) of (stats', w') \<Rightarrow>
     ss_scanned stats' = ss_scanned stats + length (concat bs) \<and>
     ss_applied stats' + ss_failed stats' = ss_applied stats + ss_failed stats + length (concat bs) \<and>
     ss_dry stats' = ss_dry stats \<and>
     (if dryRun then w' = w \<and> ss_failed stats' = ss_failed stats
      else w' = fold (\<lambda>b v. snd (iw_upsert writer (map toDocument b) v)) bs w)"
proof (induction bs arbitrary: stats w)
  case (Cons b bs)
  obtain s1 w1 where up: "upload_batch writer dryRun b (stats, w) = (s1, w1)" by fastforce
  have "ss_scanned s1 = ss_scanned stats + length b \<and> ss_applied s1 + ss_failed s1 = ss_applied stats + ss_failed stats + length b \<and>
    ss_dry s1 = ss_dry stats \<and> (if dryRun then w1 = w \<and> ss_failed s1 = ss_failed stats
      else w1 = snd (iw_upsert writer (map toDocument b) w))"
    using up by (auto simp: upload_batch_def Let_def split: prod.splits sum.splits if_splits)
  with Cons [where stats = s1 and w = w1] up show ?case by (auto split: prod.splits if_splits)
qed simp


subsection \<open>Runs\<close>

lemma getState_watermark:
  "getState (setWatermark t wm i now db) t' =
     (if t' = t then Some \<lparr>st_target = t, st_watermark = wm, st_run = Some i, st_updated = now\<rparr> else getState db t')"
proof (cases "sql_first (\<lambda>s. st_target s = t) (sync_states db)")
  case None
  then have none: "\<forall>s \<in> set (sync_states db). st_target s \<noteq> t" by simp
  then have count: "sql_count (\<lambda>s. st_target s = t) (sync_states db) = 0" by simp
  show ?thesis
    by (cases "t' = t") (simp_all add: setWatermark_def count getState_def sql_first_append sql_first_Cons None
        split: option.splits del: sql_first_None)
next
  case (Some s0)
  then have s0: "s0 \<in> set (sync_states db)" "st_target s0 = t" by (auto dest: sql_first_SomeD)
  then have count: "0 < sql_count (\<lambda>s. st_target s = t) (sync_states db)" by (auto simp: sql_count_def filter_empty_conv)
  let ?f = "\<lambda>s. s\<lparr>st_watermark := wm, st_run := Some i, st_updated := now\<rparr>"
  have "sql_first (\<lambda>s. st_target s = t') (sql_update (\<lambda>s. st_target s = t) ?f (sync_states db)) =
    map_option (\<lambda>s. if st_target s = t then ?f s else s) (sql_first (\<lambda>s. st_target s = t') (sync_states db))"
    by (rule sql_first_update) simp
  then have eq: "getState (setWatermark t wm i now db) t' = map_option (\<lambda>s. if st_target s = t then ?f s else s) (getState db t')"
    using count by (simp add: setWatermark_def getState_def)
  show ?thesis
  proof (cases "t' = t")
    case True
    have "?f s0 = \<lparr>st_target = t, st_watermark = wm, st_run = Some i, st_updated = now\<rparr>" using s0(2) by (cases s0) simp
    then show ?thesis using eq True Some s0(2) by (simp add: getState_def)
  next
    case False
    have "st_target x \<noteq> t" if "getState db t' = Some x" for x
      using that False sql_first_SomeD [of "\<lambda>s. st_target s = t'"] by (auto simp: getState_def)
    then show ?thesis using eq False by (cases "getState db t'") simp_all
  qed
qed

lemma completeRun_last:
  assumes "sync_runs db = t @ [r]" "\<forall>x \<in> set t. sr_id x \<noteq> sr_id r"
  shows "sync_runs (completeRun (sr_id r) status stats fin msg db) =
    t @ [r\<lparr>sr_status := status, sr_stats := stats, sr_finished := Some fin, sr_message := msg\<rparr>]"
  using assms by (auto simp: completeRun_def sql_update_def intro!: map_idI)

lemma runSync_accounts:
  assumes "runSync SqlSearchGraphSyncStore target syncer input ms (db, w) = (res, db', w')"
    and "sy_configured syncer" "\<forall>r \<in> set (sync_runs db). sr_id r \<noteq> ym_id ms"
  shows "\<exists>run. sync_runs db' = sync_runs db @ [run] \<and> sr_id run = ym_id ms \<and> sr_owner run = yi_owner input \<and>
      sr_finished run = Some (ym_finished ms) \<and>
      (case res of Inr r \<Rightarrow> run = r \<and> sr_status run = SyncCompleted
       | Inl e \<Rightarrow> sr_status run = SyncFailed \<and> sr_message run = Some (error_message e)) \<and>
      (\<forall>t. getState db' t =
        (if t = target \<and> \<not> isl res \<and> \<not> nullish (yi_dry input) False
         then Some \<lparr>st_target = target, st_watermark = ym_finished ms, st_run = Some (ym_id ms), st_updated = ym_marked ms\<rparr>
         else getState db t))"
proof -
  define est where est: "est = empty_stats (nullish (yi_dry input) False)"
  let ?run = "\<lparr>sr_id = ym_id ms, sr_target = target, sr_mode = yi_mode input, sr_status = SyncRunning, sr_owner = yi_owner input,
    sr_stats = est, sr_started = ym_started ms, sr_finished = None, sr_message = None\<rparr>"
  let ?db1 = "db\<lparr>sync_runs := sync_runs db @ [?run]\<rparr>"
  have start: "startRun ?run db = (Inr (), ?db1)"
    using assms(3) by (auto simp: startRun_def sql_insert_def list_ex_iff run_clash_def)
  have complete: "sync_runs (completeRun (ym_id ms) st stats fin msg ?db1) =
      sync_runs db @ [?run\<lparr>sr_status := st, sr_stats := stats, sr_finished := Some fin, sr_message := msg\<rparr>]" for st stats fin msg
    using completeRun_last [of ?db1 "sync_runs db" ?run] assms(3) by simp
  have states: "getState (completeRun i st stats fin msg ?db1) t = getState db t" for i st stats fin msg t
    by (simp add: completeRun_def getState_def)
  have runs: "sync_runs (setWatermark t wm i now d) = sync_runs d" for t wm i now and d :: "'a search_db_scheme"
    by (simp add: setWatermark_def)
  let ?in = "input\<lparr>yi_since := map_option st_watermark (if yi_mode input = IncrementalSync then getState ?db1 target else None)\<rparr>"
  show ?thesis
  proof (cases "sy_sync syncer ?in ?db1 w")
    case (Pair r w1)
    show ?thesis
    proof (cases r)
      case (Inl e)
      then have "res = Inl e" "db' = completeRun (ym_id ms) SyncFailed est (ym_finished ms)
          (Some (error_message e)) ?db1"
        using assms(1,2) Pair start by (auto simp: runSync_def Let_def SqlSearchGraphSyncStore_def est cong: if_cong)
      then show ?thesis by (simp add: complete states)
    next
      case (Inr stats)
      let ?done = "completeRun (ym_id ms) SyncCompleted stats (ym_finished ms) None ?db1"
      have "res = Inr (?run\<lparr>sr_status := SyncCompleted, sr_stats := stats, sr_finished := Some (ym_finished ms)\<rparr>)"
        "db' = (if nullish (yi_dry input) False then ?done else setWatermark target (ym_finished ms) (ym_id ms) (ym_marked ms) ?done)"
        using assms(1,2) Pair start Inr by (auto simp: runSync_def Let_def SqlSearchGraphSyncStore_def est cong: if_cong)
      then show ?thesis by (simp add: complete states runs getState_watermark)
    qed
  qed
qed

text \<open>
  C16: Every sync run is accounted for. A run with a new identifier adds exactly one row to the table of runs,
  and when the orchestrator returns or throws the row is no longer running: it is completed with the
  statistics if the sync succeeded, and failed with the message otherwise. The watermark of the target
  moves to the end of the run only after a completed run that was not dry; the other target's never moves.
\<close>

theorem sync_run_recorded:
  assumes "runSync SqlSearchGraphSyncStore target syncer input ms (db, w) = (res, db', w')"
    and "sy_configured syncer" "\<forall>r \<in> set (sync_runs db). sr_id r \<noteq> ym_id ms"
  shows "\<exists>run. sync_runs db' = sync_runs db @ [run] \<and> sr_id run = ym_id ms \<and> sr_owner run = yi_owner input \<and>
      sr_finished run = Some (ym_finished ms) \<and>
      (case res of Inr r \<Rightarrow> run = r \<and> sr_status run = SyncCompleted
       | Inl e \<Rightarrow> sr_status run = SyncFailed \<and> sr_message run = Some (error_message e)) \<and>
      (\<forall>t. getState db' t =
        (if t = target \<and> \<not> isl res \<and> \<not> nullish (yi_dry input) False
         then Some \<lparr>st_target = target, st_watermark = ym_finished ms, st_run = Some (ym_id ms), st_updated = ym_marked ms\<rparr>
         else getState db t))"
  by (rule runSync_accounts [OF assms])

subsection \<open>What a watermark hides\<close>

text \<open>
  After a completed run no later incremental run of the target offers a memory that was last changed before
  the end of that run, whoever its owner is and whether its upload succeeded or not.
\<close>

lemma watermark_skips:
  assumes "runSync SqlSearchGraphSyncStore target syncer input ms (db, w) = (Inr run, db', w')"
    and "sy_configured syncer" "\<forall>r \<in> set (sync_runs db). sr_id r \<noteq> ym_id ms" "\<not> nullish (yi_dry input) False"
    and "ym_finished ms \<noteq> []" "m_updated r \<le> ym_finished ms"
  shows "r \<notin> set (due_memories db2 IncrementalSync (map_option st_watermark (getState db' target)) ownerId)"
proof -
  have "getState db' target = Some \<lparr>st_target = target, st_watermark = ym_finished ms, st_run = Some (ym_id ms), st_updated = ym_marked ms\<rparr>"
    using runSync_accounts [OF assms(1-3)] assms(4) by auto
  then show ?thesis using assms(5,6) by (auto simp: due_memories_def sql_select_def truthy_def)
qed

subsection \<open>Samples\<close>

definition sample_search :: search_db where
  "sample_search = \<lparr>memories = [sample_row, sample_row\<lparr>m_id := ''2'', m_owner := ''p''\<rparr>], embeddings = [], intents = [], sync_audits = [],
     sync_conflicts = [], sync_cursors = [], relations = [sample_relation ''r'' ''1'' ''2''], evidence = [], entities = [], aliases = [],
     mentions = [], signals = [], learning_events = [], ranking_snapshots = [], patterns = [], pattern_links = [],
     contradictions = [], sync_runs = [], sync_states = []\<rparr>"

text \<open>A client that keeps the identifiers of what it was sent.\<close>

definition sample_writer :: "(search_document list, string list) index_writer" where
  "sample_writer = \<lparr>iw_ensure = \<lambda>w. (Inr (), w), iw_upsert = \<lambda>docs w. (Inr (), w @ map sd_id docs)\<rparr>"

definition sample_graph_writer :: "(graph_row, string list) index_writer" where
  "sample_graph_writer = \<lparr>iw_ensure = \<lambda>w. (Inr (), w), iw_upsert = \<lambda>r w. (Inr (), w @ [gr_source r])\<rparr>"

definition sample_input :: "string \<Rightarrow> sync_input" where
  "sample_input ownerId = \<lparr>yi_mode = IncrementalSync, yi_owner = Some ownerId, yi_dry = Some False, yi_batch = None, yi_since = None\<rparr>"

definition sample_sync_mints :: "string \<Rightarrow> sync_mints" where
  "sample_sync_mints i = \<lparr>ym_id = i, ym_started = ''u'' @ i, ym_finished = ''v'' @ i, ym_marked = ''v'' @ i\<rparr>"

text \<open>The memory of the second owner is not indexed by that owner's first sync, since the first owner's sync was earlier.\<close>

lemma watermark_crosses_owners:
  "case runSync SqlSearchGraphSyncStore Meilisearch (MeilisearchIndexSyncer True sample_writer) (sample_input ''o'')
       (sample_sync_mints ''1'') (sample_search, []) of (r1, s1) \<Rightarrow>
     case runSync SqlSearchGraphSyncStore Meilisearch (MeilisearchIndexSyncer True sample_writer) (sample_input ''p'')
       (sample_sync_mints ''2'') s1 of (r2, db2, w2) \<Rightarrow>
     map_sum (\<lambda>_. ()) (\<lambda>r. ss_scanned (sr_stats r)) r2 = Inr 0 \<and> w2 = [''1'']"
  by code_simp


theorem sync_run_recorded_witness:
  "\<exists>res db' w' run. runSync SqlSearchGraphSyncStore Meilisearch (MeilisearchIndexSyncer True sample_writer) (sample_input ''o'')
       (sample_sync_mints ''1'') (sample_search, []) = (res, db', w') \<and> sync_runs db' = [run] \<and> sr_id run = ''1'' \<and>
     sr_finished run = Some ''v1''"
proof -
  obtain res db' w' where run: "runSync SqlSearchGraphSyncStore Meilisearch (MeilisearchIndexSyncer True sample_writer) (sample_input ''o'')
       (sample_sync_mints ''1'') (sample_search, []) = (res, db', w')" by (metis prod_cases3)
  have conf: "sy_configured (MeilisearchIndexSyncer True sample_writer :: (search_db, string list) index_syncer)"
    by (simp add: MeilisearchIndexSyncer_def)
  have "sync_runs sample_search = []" by (simp add: sample_search_def)
  with sync_run_recorded [OF run conf] run show ?thesis by (auto simp: sample_sync_mints_def)
qed

end
