(* ===== verification/Stewardship.thy ===== *)
theory Stewardship
  imports Search_Graph Decay Entities Consolidation Inference
begin

section \<open>Stewardship pipeline\<close>

text \<open>
  The tasks of \<^verbatim>\<open>src/src/memory/stewardship/tasks\<close> that are not in theories of their own, the orchestrator
  \<^verbatim>\<open>memory-stewardship-orchestrator.ts\<close>, the local scheduler and the composition of the pipeline
  (\<^verbatim>\<open>src/src/composition/create-memory-stewardship-ports.ts\<close>). The tasks work on the database together with
  the state of the index clients. The lines of text of a result are left out, except those of the
  three audits, which have nothing else to say and are functions of their own.
\<close>

text \<open>A task on the database as a task on the whole state.\<close>

definition on_database :: "'d maintenance_task \<Rightarrow> ('d \<times> 'w) maintenance_task" where
  "on_database t =
     \<lparr>task_id = task_id t, task_stage = task_stage t,
      task_run = \<lambda>ctx (db, w). case task_run t ctx db of (r, db') \<Rightarrow> (r, db', w)\<rparr>"

lemma on_database_dry: "dry_task t \<Longrightarrow> dry_task (on_database t)"
  by (auto simp: dry_task_def on_database_def split: prod.splits) (metis snd_conv)

subsection \<open>Audits\<close>

definition missing :: "(memory \<Rightarrow> string option) \<Rightarrow> memory list \<Rightarrow> nat" where
  "missing field ms = length (filter (\<lambda>m. truthy (field m) = None) ms)"

definition metadata_findings :: "memory list \<Rightarrow> string list" where
  "metadata_findings scoped =
     (let line = (\<lambda>n what. if 0 < n then [js_nat_string n @ '' missing '' @ what] else []);
          findings = line (missing m_codename scoped) ''codename'' @ line (missing m_slug scoped) ''slug'' @
            line (missing m_semantic_hash scoped) ''semantic hash''
      in if findings = [] then [''all metadata present''] else findings)"

definition MetadataAuditTask :: "'a memory_db_scheme maintenance_task" where
  "MetadataAuditTask =
     \<lparr>task_id = ''metadata-audit'', task_stage = MetadataRepair,
      task_run = \<lambda>ctx db. (Inr (task_done ''metadata-audit'' MetadataRepair (length (scoped_memories ctx db)) 0), db)\<rparr>"

definition embedding_scope :: "maintenance_ctx \<Rightarrow> 'a memory_db_scheme \<Rightarrow> memory list" where
  "embedding_scope ctx db = filter (\<lambda>m. \<not> m_archived m) (scoped_memories ctx db)"

definition embedding_findings :: "memory list \<Rightarrow> string list" where
  "embedding_findings scoped =
     (let n = missing m_embedding scoped
      in if 0 < n then [js_nat_string n @ '' active memories without embedding (run db:backfill-embeddings)'']
         else [''all active memories embedded''])"

definition EmbeddingAuditTask :: "'a memory_db_scheme maintenance_task" where
  "EmbeddingAuditTask =
     \<lparr>task_id = ''embedding-audit'', task_stage = EmbeddingRepair,
      task_run = \<lambda>ctx db. (Inr (task_done ''embedding-audit'' EmbeddingRepair (length (embedding_scope ctx db)) 0), db)\<rparr>"

text \<open>The comparison is \<open>localeCompare\<close>.\<close>

definition retrieval_findings :: "(string \<Rightarrow> string \<Rightarrow> int) \<Rightarrow> string \<Rightarrow> memory list \<Rightarrow> string list" where
  "retrieval_findings lc version scoped =
     (let active = filter (\<lambda>m. \<not> m_archived m) scoped;
          byLevel = foldl (\<lambda>cs m. count_key (m_level m) cs) [] active;
          distribution = js_join '' '' (map (\<lambda>(level, n). level @ '':'' @ js_nat_string n)
            (js_sort (\<lambda>a b. lc (fst a) (fst b)) byLevel))
      in [''policy v'' @ version,
          ''active: '' @ js_nat_string (length active) @ '', archived: '' @ js_nat_string (length scoped - length active),
          ''levels: '' @ str_or distribution ''none''])"

definition RetrievalOptimizationTask :: "'a memory_db_scheme maintenance_task" where
  "RetrievalOptimizationTask =
     \<lparr>task_id = ''retrieval-optimization'', task_stage = RetrievalOptimization,
      task_run = \<lambda>ctx db. (Inr (task_done ''retrieval-optimization'' RetrievalOptimization (length (scoped_memories ctx db)) 0), db)\<rparr>"

subsection \<open>Provenance candidates\<close>

record provenance_candidate =
  pv_source :: string
  pv_target :: string
  pv_suggested :: relation_type
  pv_edge :: string
  pv_rule :: string
  pv_version :: string

definition collectDependsOnProvenanceCandidates ::
  "(string \<Rightarrow> string \<Rightarrow> int) \<Rightarrow> relation_row list \<Rightarrow> provenance_candidate list" where
  "collectDependsOnProvenanceCandidates lc edges =
     js_sort (\<lambda>a b. lc (pv_edge a) (pv_edge b))
       (map (\<lambda>e. \<lparr>pv_source = rl_source e, pv_target = rl_target e, pv_suggested = CausedBy, pv_edge = rl_id e,
                  pv_rule = ''depends_on_candidate'', pv_version = PROVENANCE_VERSION\<rparr>)
         (filter (\<lambda>e. rl_relation e = DependsOn) edges))"

definition depends_on_rows :: "'a relation_db_scheme \<Rightarrow> string \<Rightarrow> relation_row list" where
  "depends_on_rows db ownerId =
     order_asc rl_id (sql_select (\<lambda>r. rl_owner r = ownerId \<and> rl_relation r = DependsOn) (relations db))"

text \<open>The candidates only enter the lines of text.\<close>

definition ProvenanceCandidatesTask :: "bool \<Rightarrow> 'a relation_db_scheme maintenance_task" where
  "ProvenanceCandidatesTask enabled =
     \<lparr>task_id = ''provenance-candidates'', task_stage = ProvenanceCandidates,
      task_run = \<lambda>ctx db. if \<not> enabled then (Inr (task_skipped ''provenance-candidates'' ProvenanceCandidates), db)
        else (Inr (task_done ''provenance-candidates'' ProvenanceCandidates
                     (length (depends_on_rows db (ms_owner (mc_scope ctx)))) 0), db)\<rparr>"

subsection \<open>Cleanup of write intents\<close>

definition DAY_MS :: int where "DAY_MS = 24 * 60 * 60 * 1000"

text \<open>The function prints a time as \<open>toISOString\<close> does.\<close>

definition WriteIntentCleanupTask :: "(int \<Rightarrow> string) \<Rightarrow> int \<Rightarrow> 'a intent_db_scheme maintenance_task" where
  "WriteIntentCleanupTask toIso ttlDays =
     \<lparr>task_id = ''write-intent-cleanup'', task_stage = MetadataRepair,
      task_run = \<lambda>ctx db.
        case intentCleanup db (ms_owner (mc_scope ctx)) (toIso (mc_now ctx - ttlDays * DAY_MS)) (mc_dry ctx) of
          (res, db1) \<Rightarrow> (Inr (task_done ''write-intent-cleanup'' MetadataRepair (cr_scanned res) (cr_changed res)), db1)\<rparr>"

subsection \<open>Inference, learning and indexes\<close>

definition GraphRepairTask ::
  "(string \<Rightarrow> int) \<Rightarrow> bool \<Rightarrow> bool \<Rightarrow> (nat \<Rightarrow> mint \<times> mint) \<Rightarrow> 'a inference_db_scheme maintenance_task" where
  "GraphRepairTask tm withEvidence enabled mints =
     \<lparr>task_id = ''graph-repair'', task_stage = GraphRepair,
      task_run = \<lambda>ctx db. if \<not> enabled then (Inr (task_skipped ''graph-repair'' GraphRepair), db)
        else then_st (runInference tm withEvidence (mc_scope ctx)
                 \<lparr>io_dry = mc_dry ctx, io_project = mc_project ctx, io_limit = None\<rparr> mints db)
          (\<lambda>report db1. (Inr (task_done ''graph-repair'' GraphRepair (in_found report)
             (if mc_dry ctx then 0 else in_created (in_counts report) + in_updated (in_counts report))), db1))\<rparr>"

definition RankingRefreshTask :: "bool \<Rightarrow> mint \<Rightarrow> 'a learning_db_scheme maintenance_task" where
  "RankingRefreshTask enabled m =
     \<lparr>task_id = ''ranking-refresh'', task_stage = RankingRefresh,
      task_run = \<lambda>ctx db. if \<not> enabled then (Inr (task_skipped ''ranking-refresh'' RankingRefresh), db)
        else then_st (createLearningPorts enabled (mc_scope ctx) \<lparr>lo_dry = mc_dry ctx, lo_limit = None\<rparr> m db)
          (\<lambda>report db1. (Inr (task_done ''ranking-refresh'' RankingRefresh (lr_events report)
             (if mc_dry ctx then 0 else if lr_snapshot report \<noteq> None then 1 else 0)), db1))\<rparr>"

text \<open>One sync: an error is counted, not thrown.\<close>

definition repair_index ::
  "(sync_input \<Rightarrow> sync_mints \<Rightarrow> 'd \<times> 'w \<Rightarrow> (app_error + sync_run) \<times> 'd \<times> 'w) \<Rightarrow> sync_input \<Rightarrow> bool \<Rightarrow> sync_mints
     \<Rightarrow> nat \<times> nat \<times> bool \<Rightarrow> 'd \<times> 'w \<Rightarrow> (nat \<times> nat \<times> bool) \<times> 'd \<times> 'w" where
  "repair_index sync input dryRun ms acc s =
     (case acc of (scanned, changed, hadError) \<Rightarrow>
        case sync input ms s of
          (Inr run, s') \<Rightarrow> ((scanned + ss_scanned (sr_stats run),
                            if dryRun then changed else changed + ss_applied (sr_stats run), hadError), s')
        | (Inl e, s') \<Rightarrow> ((scanned, changed, True), s'))"

definition IndexRepairTask ::
  "('d, 'w) search_graph_ports \<Rightarrow> sync_mints \<Rightarrow> sync_mints \<Rightarrow> ('d \<times> 'w) maintenance_task" where
  "IndexRepairTask ports searchMints graphMints =
     \<lparr>task_id = ''index-repair'', task_stage = IndexRepair,
      task_run = \<lambda>ctx s. if \<not> sp_enabled ports then (Inr (task_skipped ''index-repair'' IndexRepair), s)
        else
          let input = \<lparr>yi_mode = IncrementalSync, yi_owner = Some (ms_owner (mc_scope ctx)), yi_dry = Some (mc_dry ctx),
                       yi_batch = None, yi_since = None\<rparr>
          in case repair_index (sp_search ports) input (mc_dry ctx) searchMints (0, 0, False) s of
               (acc1, s1) \<Rightarrow>
                 case repair_index (sp_graph ports) input (mc_dry ctx) graphMints acc1 s1 of
                   ((scanned, changed, hadError), s2) \<Rightarrow>
                     (Inr \<lparr>mt_id = ''index-repair'', mt_stage = IndexRepair,
                           mt_status = (if hadError then TaskError else TaskOk), mt_scanned = scanned,
                           mt_changed = changed, mt_error = None\<rparr>, s2)\<rparr>"

subsection \<open>Orchestrator\<close>

record stewardship_options =
  so_dry :: "bool option"
  so_project :: "string option"

record stewardship_report =
  rp_id :: string
  rp_owner :: string
  rp_project :: "string option"
  rp_dry :: bool
  rp_started :: string
  rp_finished :: string
  rp_duration :: int
  rp_tasks :: "task_result list"
  rp_scanned :: nat
  rp_changed :: nat
  rp_errors :: bool

text \<open>\<open>IStewardshipRunStore\<close>; a limit that is left out is the cap of the store.\<close>

record 's run_store =
  rs_save :: "stewardship_report \<Rightarrow> 's \<Rightarrow> (app_error + unit) \<times> 's"
  rs_list :: "'s \<Rightarrow> string \<Rightarrow> nat option \<Rightarrow> stewardship_report list"
  rs_latest :: "'s \<Rightarrow> string \<Rightarrow> stewardship_report option"
  rs_get :: "'s \<Rightarrow> string \<Rightarrow> string \<Rightarrow> stewardship_report option"

text \<open>The times and the identifier that a run draws.\<close>

record run_clock =
  rc_start :: int
  rc_start_iso :: string
  rc_end :: int
  rc_end_iso :: string
  rc_run :: string

definition ordered_tasks :: "'d maintenance_task list \<Rightarrow> 'd maintenance_task list" where
  "ordered_tasks tasks = sort_key (\<lambda>t. STAGE_INDEX (task_stage t)) tasks"

definition failed_task :: "'d maintenance_task \<Rightarrow> app_error \<Rightarrow> task_result" where
  "failed_task t e =
     \<lparr>mt_id = task_id t, mt_stage = task_stage t, mt_status = TaskError, mt_scanned = 0, mt_changed = 0,
      mt_error = Some (error_message e)\<rparr>"

fun run_tasks :: "maintenance_ctx \<Rightarrow> 'd maintenance_task list \<Rightarrow> 'd \<Rightarrow> task_result list \<times> 'd" where
  "run_tasks ctx [] d = ([], d)"
| "run_tasks ctx (t # ts) d =
     (case task_run t ctx d of
        (r, d1) \<Rightarrow> (case run_tasks ctx ts d1 of
          (results, d2) \<Rightarrow> ((case r of Inr result \<Rightarrow> result | Inl e \<Rightarrow> failed_task t e) # results, d2)))"

definition runStewardship ::
  "'d maintenance_task list \<Rightarrow> 's run_store option \<Rightarrow> run_clock \<Rightarrow> memory_scope \<Rightarrow> stewardship_options \<Rightarrow> 'd \<times> 's
     \<Rightarrow> (app_error + stewardship_report) \<times> 'd \<times> 's" where
  "runStewardship tasks store clock scope opts s =
     (case s of (d, st) \<Rightarrow>
        let dryRun = nullish (so_dry opts) True;
            ctx = \<lparr>mc_scope = scope, mc_dry = dryRun, mc_project = so_project opts, mc_now = rc_start clock,
                   mc_iso = rc_start_iso clock\<rparr>
        in case run_tasks ctx (ordered_tasks tasks) d of
             (results, d1) \<Rightarrow>
               let report =
                     \<lparr>rp_id = rc_run clock, rp_owner = ms_owner scope, rp_project = so_project opts, rp_dry = dryRun,
                      rp_started = rc_start_iso clock, rp_finished = rc_end_iso clock,
                      rp_duration = rc_end clock - rc_start clock, rp_tasks = results,
                      rp_scanned = sum_list (map mt_scanned results), rp_changed = sum_list (map mt_changed results),
                      rp_errors = list_ex (\<lambda>r. mt_status r = TaskError) results\<rparr>
               in case store of
                    None \<Rightarrow> (Inr report, d1, st)
                  | Some rs \<Rightarrow> (case rs_save rs report st of (Inl e, st1) \<Rightarrow> (Inl e, d1, st1) | (Inr _, st1) \<Rightarrow> (Inr report, d1, st1)))"

definition LocalStewardshipScheduler ::
  "'d maintenance_task list \<Rightarrow> 's run_store option \<Rightarrow> run_clock \<Rightarrow> memory_scope \<Rightarrow> stewardship_options \<Rightarrow> 'd \<times> 's
     \<Rightarrow> (app_error + string) \<times> 'd \<times> 's" where
  "LocalStewardshipScheduler tasks store clock scope opts s =
     (case runStewardship tasks store clock scope opts s of
        (Inr report, s1) \<Rightarrow> (Inr (rp_id report), s1) | (Inl e, s1) \<Rightarrow> (Inl e, s1))"

subsection \<open>Composition\<close>

text \<open>The settings of the environment that the pipeline reads, and the functions that are parameters of the model.\<close>

record stewardship_env =
  sv_compression :: bool
  sv_summarizer :: compression_summarizer
  sv_consolidation :: "maintenance_ctx \<Rightarrow> consolidation_env"
  sv_parse :: "string \<Rightarrow> int"
  sv_time :: "string \<Rightarrow> int option"
  sv_iso :: "int \<Rightarrow> string"
  sv_ttl :: int
  sv_inference :: bool
  sv_evidence :: bool
  sv_learning :: bool
  sv_decay :: decay_task_config
  sv_entities :: bool
  sv_entity_store :: string
  sv_provenance :: bool

text \<open>What the tasks of one run draw.\<close>

record stewardship_draws =
  dw_inference :: "nat \<Rightarrow> mint \<times> mint"
  dw_learning :: mint
  dw_search :: sync_mints
  dw_graph :: sync_mints
  dw_entities :: resolution_mints

definition pipeline_consolidator :: "stewardship_env \<Rightarrow> consolidator" where
  "pipeline_consolidator env =
     \<lparr>co_relations = True, co_policy = (if sv_compression env then Some RuleBasedCompressionPolicy else None),
      co_enabled = sv_compression env, co_summarizer = sv_summarizer env\<rparr>"

definition createMemoryStewardshipPorts ::
  "stewardship_env \<Rightarrow> ('a search_db_scheme, 'w) search_graph_ports \<Rightarrow> stewardship_draws \<Rightarrow> ('a search_db_scheme \<times> 'w) maintenance_task list" where
  "createMemoryStewardshipPorts env searchGraph dw =
     [on_database MetadataAuditTask,
      on_database (WriteIntentCleanupTask (sv_iso env) (sv_ttl env)),
      on_database (ConsolidationTask (sv_consolidation env) (pipeline_consolidator env)),
      on_database (GraphRepairTask (sv_parse env) (sv_evidence env) (sv_inference env) (dw_inference dw)),
      on_database EmbeddingAuditTask,
      IndexRepairTask searchGraph (dw_search dw) (dw_graph dw),
      on_database (RankingRefreshTask (sv_learning env) (dw_learning dw)),
      on_database RetrievalOptimizationTask,
      on_database (DecayScoringTask (sv_time env) (sv_decay env)),
      on_database (EntityResolutionTask (createEntityResolutionPorts (sv_entities env) (sv_entity_store env)) (dw_entities dw)),
      on_database (ProvenanceCandidatesTask (sv_provenance env))]"

end
