(* ===== verification/Stewardship_Laws.thy ===== *)
theory Stewardship_Laws
  imports Stewardship Search_Graph_Laws Inference_Laws Decay_Laws Entities_Laws
begin

section \<open>Laws of the stewardship pipeline\<close>

text \<open>
  A task that fails leaves an entry in the report and does not stop the tasks after it. A dry run, the
  default, changes nothing but the log of index runs.
\<close>

subsection \<open>Dry runs of the tasks\<close>

interpretation metadata_task: dry_task MetadataAuditTask
  by unfold_locales (simp add: MetadataAuditTask_def)

interpretation embedding_task: dry_task EmbeddingAuditTask
  by unfold_locales (simp add: EmbeddingAuditTask_def)

interpretation retrieval_task: dry_task RetrievalOptimizationTask
  by unfold_locales (simp add: RetrievalOptimizationTask_def)

interpretation provenance_task: dry_task "ProvenanceCandidatesTask enabled" for enabled
  by unfold_locales (simp add: ProvenanceCandidatesTask_def)

lemma intentCleanup_dry: "snd (intentCleanup db ownerId cutoff True) = db"
  using cleanup_loop_dry [of db ownerId] by (simp add: intentCleanup_def Let_def split: prod.splits) (metis snd_conv)

interpretation cleanup_task: dry_task "WriteIntentCleanupTask toIso ttl" for toIso ttl
proof
  fix ctx :: maintenance_ctx and db :: "'a intent_db_scheme"
  assume "mc_dry ctx"
  then show "snd (task_run (WriteIntentCleanupTask toIso ttl) ctx db) = db"
    using intentCleanup_dry [of db "ms_owner (mc_scope ctx)" "toIso (mc_now ctx - ttl * DAY_MS)"]
    by (cases "intentCleanup db (ms_owner (mc_scope ctx)) (toIso (mc_now ctx - ttl * DAY_MS)) True")
      (simp add: WriteIntentCleanupTask_def \<open>mc_dry ctx\<close>)
qed

interpretation inference_task: dry_task "GraphRepairTask tm ev enabled mints" for tm ev enabled mints
proof
  fix ctx :: maintenance_ctx and db :: "'a inference_db_scheme"
  assume dry: "mc_dry ctx"
  let ?opts = "\<lparr>io_dry = True, io_project = mc_project ctx, io_limit = None\<rparr>"
  have "snd (runInference tm ev (mc_scope ctx) ?opts mints db) = db"
    by (simp add: runInference_def)
  with dry show "snd (task_run (GraphRepairTask tm ev enabled mints) ctx db) = db"
    by (simp add: GraphRepairTask_def then_st_keeps)
qed

interpretation ranking_task: dry_task "RankingRefreshTask enabled m" for enabled m
proof
  fix ctx :: maintenance_ctx and db :: "'a learning_db_scheme"
  assume dry: "mc_dry ctx"
  have "snd (createLearningPorts b (mc_scope ctx) \<lparr>lo_dry = True, lo_limit = None\<rparr> m db) = db" for b
    by (simp add: createLearningPorts_def runLearning_def NoOpLearningOrchestrator_def Let_def)
  with dry show "snd (task_run (RankingRefreshTask enabled m) ctx db) = db"
    by (simp add: RankingRefreshTask_def then_st_keeps)
qed

text \<open>A dry sync calls no index, and writes the log of its run.\<close>

definition only_runs :: "'a search_db_scheme \<times> 'w \<Rightarrow> 'a search_db_scheme \<times> 'w \<Rightarrow> bool" where
  "only_runs s s' \<longleftrightarrow> snd s' = snd s \<and> (\<exists>rows. fst s' = (fst s)\<lparr>sync_runs := rows\<rparr>)"

lemma only_runs_refl [simp]: "only_runs s s"
  unfolding only_runs_def by (intro conjI refl exI [of _ "sync_runs (fst s)"]) simp

lemma only_runs_trans: "only_runs a b \<Longrightarrow> only_runs b c \<Longrightarrow> only_runs a c"
  by (auto simp: only_runs_def)

lemma only_runs_start: "startRun r db = (res, db') \<Longrightarrow> only_runs (db, w) (db', w)"
  by (auto simp: startRun_def only_runs_def split: sum.splits intro: exI [of _ "sync_runs db"])

lemma only_runs_complete: "only_runs s (db, w) \<Longrightarrow> only_runs s (completeRun i status stats t m db, w)"
  by (auto simp: completeRun_def only_runs_def)

lemma owner_loop_keeps: "(\<And>x s. snd (f x s) = snd s) \<Longrightarrow> snd (owner_loop f xs s) = snd s"
  by (induction xs arbitrary: s) auto

lemma batch_loop_keeps:
  assumes "\<And>rows s. snd (work rows s) = snd s"
  shows "snd (batch_loop work n all 0 s) = snd s"
proof -
  have "snd (fold work bs s) = snd s" for bs
    by (induction bs arbitrary: s) (simp_all add: assms)
  then show ?thesis by (simp add: batch_loop_batches)
qed

lemma merge_rows_dry: "snd (merge_rows writer True rows s) = snd s"
  by (induction rows arbitrary: s) (auto simp: Let_def)

lemma upload_batch_dry: "snd (upload_batch writer True rows s) = snd s"
  by (simp add: upload_batch_def Let_def split: prod.splits)

lemma meilisearch_dry:
  assumes "yi_dry input = Some True"
  shows "snd (sy_sync (MeilisearchIndexSyncer configured writer) input db w) = w"
proof -
  let ?f = "\<lambda>x. batch_loop (upload_batch writer True) (nullish (yi_batch input) 100)
    (due_memories db (yi_mode input) (yi_since input) x) 0"
  have "snd (owner_loop ?f xs s) = snd s" for xs s
    by (intro owner_loop_keeps batch_loop_keeps upload_batch_dry)
  with assms show ?thesis
    by (simp add: MeilisearchIndexSyncer_def sync_memories_def Let_def then_st_keeps ensure_index_def split: prod.splits)
      (metis snd_conv)
qed

lemma neo4j_dry:
  assumes "yi_dry input = Some True"
  shows "snd (sy_sync (Neo4jGraphIndexSyncer configured writer) input db w) = w"
proof -
  let ?f = "\<lambda>x. batch_loop (merge_rows writer True) (nullish (yi_batch input) 100)
    (due_relations db (yi_mode input) (yi_since input) x) 0"
  have "snd (owner_loop ?f xs s) = snd s" for xs s
    by (intro owner_loop_keeps batch_loop_keeps merge_rows_dry)
  with assms show ?thesis
    by (simp add: Neo4jGraphIndexSyncer_def sync_relations_def Let_def then_st_keeps ensure_index_def split: prod.splits)
      (metis snd_conv)
qed

lemma runSync_dry:
  assumes "yi_dry input = Some True" "\<And>input db. yi_dry input = Some True \<Longrightarrow> snd (sy_sync syncer input db w) = w"
  shows "only_runs (db, w) (snd (runSync SqlSearchGraphSyncStore target syncer input ms (db, w)))"
proof -
  have keep: "sy_sync syncer (input\<lparr>yi_since := x\<rparr>) db w = (r, w') \<Longrightarrow> w' = w" for x db r w'
    using assms by (metis (no_types, lifting) snd_conv sync_input.select_convs(3) sync_input.surjective sync_input.update_convs(5))
  show ?thesis using assms(1)
    by (auto simp: runSync_def Let_def SqlSearchGraphSyncStore_def split: prod.splits sum.splits
        dest!: keep intro!: only_runs_complete dest: only_runs_start)
qed


lemma repair_index_dry:
  assumes "\<And>s. only_runs s (snd (sync input ms s))" "repair_index sync input b ms acc s = (acc', s')"
  shows "only_runs s s'"
proof -
  obtain res s1 where "sync input ms s = (res, s1)" by (metis surj_pair)
  with assms(2) assms(1) [of s] show ?thesis
    by (cases res; cases acc) (auto simp: repair_index_def)
qed

text \<open>The index clients of the server, with any writers.\<close>

definition index_ports ::
  "bool \<Rightarrow> bool \<Rightarrow> (search_document list, 'w) index_writer \<Rightarrow> bool \<Rightarrow> (graph_row, 'w) index_writer
     \<Rightarrow> ('a search_db_scheme, 'w) search_graph_ports" where
  "index_ports enabled c1 searchWriter c2 graphWriter =
     createSearchGraphPorts enabled (MeilisearchIndexSyncer c1 searchWriter) (Neo4jGraphIndexSyncer c2 graphWriter)"

lemma index_task_dry:
  assumes "mc_dry ctx"
  shows "only_runs s (snd (task_run (IndexRepairTask (index_ports enabled c1 sw c2 gw) m1 m2) ctx s))"
proof -
  let ?ports = "index_ports enabled c1 sw c2 gw"
  let ?input = "\<lparr>yi_mode = IncrementalSync, yi_owner = Some (ms_owner (mc_scope ctx)), yi_dry = Some True,
    yi_batch = None, yi_since = None\<rparr>"
  show ?thesis
  proof (cases enabled)
    case True
    have search: "only_runs t (snd (sp_search ?ports ?input m1 t))" for t
      using runSync_dry [of ?input "MeilisearchIndexSyncer c1 sw" "snd t" "fst t", OF _ meilisearch_dry] True
      by (simp add: index_ports_def createSearchGraphPorts_def SearchGraphOrchestrator_def)
    have graph: "only_runs t (snd (sp_graph ?ports ?input m2 t))" for t
      using runSync_dry [of ?input "Neo4jGraphIndexSyncer c2 gw" "snd t" "fst t", OF _ neo4j_dry] True
      by (simp add: index_ports_def createSearchGraphPorts_def SearchGraphOrchestrator_def)
    obtain acc1 s1 where one: "repair_index (sp_search ?ports) ?input True m1 (0, 0, False) s = (acc1, s1)" by (metis surj_pair)
    obtain acc2 s2 where two: "repair_index (sp_graph ?ports) ?input True m2 acc1 s1 = (acc2, s2)" by (metis surj_pair)
    have "only_runs s s2"
      using only_runs_trans repair_index_dry [OF search one] repair_index_dry [OF graph two] by blast
    with assms one two show ?thesis
      by (cases acc2) (simp add: IndexRepairTask_def Let_def)
  qed (simp add: IndexRepairTask_def index_ports_def createSearchGraphPorts_def SearchGraphOrchestrator_def)
qed

subsection \<open>Pipelines\<close>

text \<open>
  A pipeline whose tasks all respect a relation of the state before to the state after, in the runs of
  one kind. The relation of a contract of \<open>dry_task\<close> is equality.
\<close>

locale bounded_pipeline =
  fixes tasks :: "'d maintenance_task list" and kind :: "maintenance_ctx \<Rightarrow> bool" and change :: "'d \<Rightarrow> 'd \<Rightarrow> bool"
  assumes change_refl: "change d d"
    and change_trans: "change a b \<Longrightarrow> change b c \<Longrightarrow> change a c"
    and task_change: "t \<in> set tasks \<Longrightarrow> kind ctx \<Longrightarrow> change d (snd (task_run t ctx d))"
begin

lemma run_tasks_change:
  assumes "set ts \<subseteq> set tasks" "kind ctx"
  shows "change d (snd (run_tasks ctx ts d))"
  using assms(1)
proof (induction ts arbitrary: d)
  case (Cons t ts)
  obtain r d1 where run: "task_run t ctx d = (r, d1)" by fastforce
  with task_change [of t ctx d] Cons.prems assms(2) have "change d d1" by simp
  with change_trans Cons run show ?case by (auto split: prod.splits) (metis snd_conv)
qed (simp add: change_refl)

lemma pipeline_change:
  assumes "kind \<lparr>mc_scope = scope, mc_dry = nullish (so_dry opts) True, mc_project = so_project opts,
                 mc_now = rc_start clock, mc_iso = rc_start_iso clock\<rparr>"
  shows "change (fst s) (fst (snd (runStewardship tasks store clock scope opts s)))"
proof -
  obtain d st where s: "s = (d, st)" by fastforce
  have "change d (snd (run_tasks \<lparr>mc_scope = scope, mc_dry = nullish (so_dry opts) True, mc_project = so_project opts,
      mc_now = rc_start clock, mc_iso = rc_start_iso clock\<rparr> (ordered_tasks tasks) d))"
    by (rule run_tasks_change [OF _ assms]) (simp add: ordered_tasks_def)
  then show ?thesis by (auto simp: s runStewardship_def Let_def split: prod.splits sum.splits option.splits)
qed

end

lemma only_runs_on_database: "dry_task t \<Longrightarrow> mc_dry ctx \<Longrightarrow> only_runs s (snd (task_run (on_database t) ctx s))"
  using dry_task.dry_pure [OF on_database_dry] by (metis only_runs_refl)

interpretation dry_pipeline: bounded_pipeline
    "createMemoryStewardshipPorts env (index_ports enabled c1 sw c2 gw) dw" mc_dry only_runs
  for env enabled c1 sw c2 gw dw
proof
  fix a b c :: "'a search_db_scheme \<times> 'b"
  show "only_runs a a" by simp
  show "only_runs a b \<Longrightarrow> only_runs b c \<Longrightarrow> only_runs a c" by (rule only_runs_trans)
next
  fix t :: "('a search_db_scheme \<times> 'b) maintenance_task" and ctx :: maintenance_ctx and s
  assume t: "t \<in> set (createMemoryStewardshipPorts env (index_ports enabled c1 sw c2 gw) dw)" and dry: "mc_dry ctx"
  show "only_runs s (snd (task_run t ctx s))"
    using t unfolding createMemoryStewardshipPorts_def list.set insert_iff
    by (elim disjE) (simp_all add: only_runs_on_database dry index_task_dry metadata_task.dry_task_axioms cleanup_task.dry_task_axioms
        consolidation_task.dry_task_axioms inference_task.dry_task_axioms embedding_task.dry_task_axioms
        ranking_task.dry_task_axioms retrieval_task.dry_task_axioms decay_task.dry_task_axioms entity_task.dry_task_axioms
        provenance_task.dry_task_axioms)
qed


subsection \<open>Failing tasks\<close>

lemma run_tasks_nth:
  "length (fst (run_tasks ctx ts d)) = length ts \<and> snd (run_tasks ctx ts d) = fold (\<lambda>t d. snd (task_run t ctx d)) ts d \<and>
   (\<forall>i < length ts. fst (run_tasks ctx ts d) ! i =
      (case fst (task_run (ts ! i) ctx (fold (\<lambda>t d. snd (task_run t ctx d)) (take i ts) d)) of
         Inr r \<Rightarrow> r | Inl e \<Rightarrow> failed_task (ts ! i) e))"
proof (induction ts arbitrary: d)
  case (Cons t ts)
  obtain r d1 where run: "task_run t ctx d = (r, d1)" by fastforce
  obtain rs d2 where rest: "run_tasks ctx ts d1 = (rs, d2)" by fastforce
  with Cons [of d1] have IH: "length rs = length ts" "d2 = fold (\<lambda>t d. snd (task_run t ctx d)) ts d1"
    "\<forall>i < length ts. rs ! i = (case fst (task_run (ts ! i) ctx (fold (\<lambda>t d. snd (task_run t ctx d)) (take i ts) d1)) of
         Inr r \<Rightarrow> r | Inl e \<Rightarrow> failed_task (ts ! i) e)" by simp_all
  have "i < Suc (length ts) \<Longrightarrow> fst (run_tasks ctx (t # ts) d) ! i =
      (case fst (task_run ((t # ts) ! i) ctx (fold (\<lambda>t d. snd (task_run t ctx d)) (take i (t # ts)) d)) of
         Inr r \<Rightarrow> r | Inl e \<Rightarrow> failed_task ((t # ts) ! i) e)" for i
    using IH(3) by (cases i) (simp_all add: run rest split: sum.split)
  with IH show ?case by (simp add: run rest)
qed simp

lemma pipeline_ordered: "ordered_tasks (createMemoryStewardshipPorts env sg dw) = createMemoryStewardshipPorts env sg dw"
proof -
  have "sorted (map (\<lambda>t. STAGE_INDEX (task_stage t)) (createMemoryStewardshipPorts env sg dw))"
    by (simp add: createMemoryStewardshipPorts_def on_database_def STAGE_INDEX_def STEWARDSHIP_STAGE_ORDER_def
        MetadataAuditTask_def WriteIntentCleanupTask_def ConsolidationTask_def GraphRepairTask_def EmbeddingAuditTask_def
        IndexRepairTask_def RankingRefreshTask_def RetrievalOptimizationTask_def DecayScoringTask_def EntityResolutionTask_def
        ProvenanceCandidatesTask_def)
  then show ?thesis unfolding ordered_tasks_def by (rule sort_key_id_if_sorted)
qed


definition stewardship_plan :: "string list" where
  "stewardship_plan = [''metadata-audit'', ''write-intent-cleanup'', ''consolidation'', ''graph-repair'', ''embedding-audit'',
     ''index-repair'', ''ranking-refresh'', ''retrieval-optimization'', ''decay-scoring'', ''entity-resolution'',
     ''provenance-candidates'']"

lemma pipeline_plan: "map task_id (createMemoryStewardshipPorts env sg dw) = stewardship_plan"
  by (simp add: createMemoryStewardshipPorts_def on_database_def stewardship_plan_def
      MetadataAuditTask_def WriteIntentCleanupTask_def ConsolidationTask_def GraphRepairTask_def EmbeddingAuditTask_def
      IndexRepairTask_def RankingRefreshTask_def RetrievalOptimizationTask_def DecayScoringTask_def EntityResolutionTask_def
      ProvenanceCandidatesTask_def)

text \<open>The entries that the tasks of the server make bear their identifier.\<close>

definition names_itself :: "'d maintenance_task \<Rightarrow> bool" where
  "names_itself t \<longleftrightarrow> (\<forall>ctx d r. fst (task_run t ctx d) = Inr r \<longrightarrow> mt_id r = task_id t)"

lemma names_itself_database: "names_itself t \<Longrightarrow> names_itself (on_database t)"
  by (auto simp: names_itself_def on_database_def split: prod.splits) (metis fst_conv)

lemma then_st_result: "fst (then_st p f) = Inr r \<Longrightarrow> \<exists>x d. p = (Inr x, d) \<and> fst (f x d) = Inr r"
  by (cases p) (auto simp: then_st_def split: sum.splits)

lemmas task_names = task_done_def task_skipped_def names_itself_def

lemma task_names_itself:
  "names_itself MetadataAuditTask"
  "names_itself (WriteIntentCleanupTask a b)"
  "names_itself (ConsolidationTask a1 b1)"
  "names_itself (GraphRepairTask a2 b2 c2 d2)"
  "names_itself EmbeddingAuditTask"
  "names_itself (IndexRepairTask a3 b3 c3)"
  "names_itself (RankingRefreshTask a4 b4)"
  "names_itself RetrievalOptimizationTask"
  "names_itself (DecayScoringTask a5 b5)"
  "names_itself (EntityResolutionTask a6 b6)"
  "names_itself (ProvenanceCandidatesTask a7)"
  by (auto simp: MetadataAuditTask_def WriteIntentCleanupTask_def ConsolidationTask_def consolidationTask_def GraphRepairTask_def
      EmbeddingAuditTask_def IndexRepairTask_def RankingRefreshTask_def RetrievalOptimizationTask_def DecayScoringTask_def
      decayScoring_def EntityResolutionTask_def entityResolution_def ProvenanceCandidatesTask_def task_names Let_def
      dest!: then_st_result split: if_splits prod.splits option.splits)

lemma pipeline_names: "t \<in> set (createMemoryStewardshipPorts env sg dw) \<Longrightarrow> names_itself t"
  unfolding createMemoryStewardshipPorts_def list.set insert_iff
  by (elim disjE) (simp_all add: names_itself_database task_names_itself)

lemma runStewardship_runs:
  "runStewardship tasks None clock scope opts (d, st) = (res, d', st') \<Longrightarrow>
   \<exists>report ctx. res = Inr report \<and> st' = st \<and> rp_owner report = ms_owner scope \<and>
     ctx = \<lparr>mc_scope = scope, mc_dry = nullish (so_dry opts) True, mc_project = so_project opts,
            mc_now = rc_start clock, mc_iso = rc_start_iso clock\<rparr> \<and>
     run_tasks ctx (ordered_tasks tasks) d = (rp_tasks report, d') \<and>
     (rp_errors report \<longleftrightarrow> (\<exists>r \<in> set (rp_tasks report). mt_status r = TaskError)) \<and>
     rp_changed report = sum_list (map mt_changed (rp_tasks report))"
  by (auto simp: runStewardship_def Let_def list_ex_iff split: prod.splits)

text \<open>
  C13: A failing task does not stop the pipeline. A run without a store of runs always returns a report, which has
  one entry for every task, in the order of the plan; the entry of a task is what the task returns on the state that
  all tasks before it left, or an entry with its error when it failed; the tasks after it work on the state it left;
  and the report says that there were errors exactly when an entry has the status of an error.
\<close>

theorem failing_task_does_not_stop:
  assumes "runStewardship (createMemoryStewardshipPorts env sg dw) None clock scope opts (d, st) = (res, d', st')"
    and "step = (\<lambda>t d. task_run t \<lparr>mc_scope = scope, mc_dry = nullish (so_dry opts) True, mc_project = so_project opts,
            mc_now = rc_start clock, mc_iso = rc_start_iso clock\<rparr> d)"
  shows "\<exists>report. res = Inr report \<and> map mt_id (rp_tasks report) = stewardship_plan \<and>
     (\<forall>i < length stewardship_plan. rp_tasks report ! i =
        (case fst (step (createMemoryStewardshipPorts env sg dw ! i)
               (fold (\<lambda>t d. snd (step t d)) (take i (createMemoryStewardshipPorts env sg dw)) d)) of
           Inr r \<Rightarrow> r | Inl e \<Rightarrow> failed_task (createMemoryStewardshipPorts env sg dw ! i) e)) \<and>
     d' = fold (\<lambda>t d. snd (step t d)) (createMemoryStewardshipPorts env sg dw) d \<and>
     (rp_errors report \<longleftrightarrow> (\<exists>r \<in> set (rp_tasks report). mt_status r = TaskError))"
proof -
  let ?ts = "createMemoryStewardshipPorts env sg dw"
  define ctx where ctx: "ctx = \<lparr>mc_scope = scope, mc_dry = nullish (so_dry opts) True, mc_project = so_project opts,
    mc_now = rc_start clock, mc_iso = rc_start_iso clock\<rparr>"
  obtain report where report: "res = Inr report" "run_tasks ctx ?ts d = (rp_tasks report, d')"
    "rp_errors report \<longleftrightarrow> (\<exists>r \<in> set (rp_tasks report). mt_status r = TaskError)"
    using runStewardship_runs [OF assms(1)] by (auto simp: pipeline_ordered ctx)
  have step: "step = (\<lambda>t d. task_run t ctx d)" by (simp add: assms(2) ctx)
  have len: "length ?ts = length stewardship_plan" by (simp flip: pipeline_plan [of env sg dw])
  have entries: "length (rp_tasks report) = length ?ts" "d' = fold (\<lambda>t d. snd (step t d)) ?ts d"
    "i < length ?ts \<Longrightarrow> rp_tasks report ! i = (case fst (step (?ts ! i) (fold (\<lambda>t d. snd (step t d)) (take i ?ts) d)) of
         Inr r \<Rightarrow> r | Inl e \<Rightarrow> failed_task (?ts ! i) e)" for i
    using run_tasks_nth [of ctx ?ts d] report(2) by (simp_all add: step)
  have "mt_id (rp_tasks report ! i) = map task_id ?ts ! i" if "i < length ?ts" for i
  proof -
    define r where "r = fst (step (?ts ! i) (fold (\<lambda>t d. snd (step t d)) (take i ?ts) d))"
    then have "rp_tasks report ! i = (case r of Inr r \<Rightarrow> r | Inl e \<Rightarrow> failed_task (?ts ! i) e)" using entries(3) [OF that] by simp
    moreover have "r = Inr x \<Longrightarrow> mt_id x = task_id (?ts ! i)" for x
      using pipeline_names [OF nth_mem [OF that]] r_def unfolding names_itself_def step by metis
    ultimately show ?thesis using that by (cases r) (simp_all add: failed_task_def)
  qed
  then have "map mt_id (rp_tasks report) = map task_id ?ts"
    by (intro nth_equalityI) (simp_all add: entries(1))
  then have "map mt_id (rp_tasks report) = stewardship_plan" by (simp add: pipeline_plan)
  with report entries len show ?thesis by auto
qed


subsection \<open>Samples\<close>

definition sample_stewardship :: stewardship_env where
  "sample_stewardship =
     \<lparr>sv_compression = False, sv_summarizer = RuleBasedCompressionSummarizer, sv_consolidation = \<lambda>_. sample_env ''a'',
      sv_parse = \<lambda>_. 0, sv_time = \<lambda>_. None, sv_iso = \<lambda>_. [], sv_ttl = 7, sv_inference = True, sv_evidence = False,
      sv_learning = True, sv_decay = sample_decay\<lparr>dt_enabled := False\<rparr>, sv_entities = False, sv_entity_store = ''sql'',
      sv_provenance = True\<rparr>"

definition sample_draws :: stewardship_draws where
  "sample_draws =
     \<lparr>dw_inference = \<lambda>j. (mint_of (''i'' @ replicate j CHR ''x''), mint_of (''j'' @ replicate j CHR ''x'')), dw_learning = mint_of ''l'',
      dw_search = sample_sync_mints ''1'', dw_graph = sample_sync_mints ''2'', dw_entities = sample_entity_mints ''e''\<rparr>"

definition sample_clock :: run_clock where
  "sample_clock = \<lparr>rc_start = 0, rc_start_iso = ''t'', rc_end = 5, rc_end_iso = ''u'', rc_run = ''run''\<rparr>"

text \<open>A search index that is configured and a graph index that is not.\<close>

definition sample_pipeline :: "bool \<Rightarrow> (search_db \<times> string list) maintenance_task list" where
  "sample_pipeline configured =
     createMemoryStewardshipPorts sample_stewardship (index_ports True True sample_writer configured sample_graph_writer) sample_draws"

text \<open>The sample is evaluated with the disabled decay task written out, since its scores are real numbers.\<close>

definition disabled_decay :: "'d maintenance_task" where
  "disabled_decay =
     \<lparr>task_id = ''decay-scoring'', task_stage = DecayScoring,
      task_run = \<lambda>ctx d. (Inr (task_skipped ''decay-scoring'' DecayScoring), d)\<rparr>"

lemma sample_pipeline_code [code]:
  "sample_pipeline configured =
     [on_database MetadataAuditTask, on_database (WriteIntentCleanupTask (\<lambda>_. []) 7),
      on_database (ConsolidationTask (\<lambda>_. sample_env ''a'') sample_consolidator),
      on_database (GraphRepairTask (\<lambda>_. 0) False True (dw_inference sample_draws)), on_database EmbeddingAuditTask,
      IndexRepairTask (index_ports True True sample_writer configured sample_graph_writer)
        (sample_sync_mints ''1'') (sample_sync_mints ''2''),
      on_database (RankingRefreshTask True (mint_of ''l'')), on_database RetrievalOptimizationTask, disabled_decay,
      on_database (EntityResolutionTask (createEntityResolutionPorts False ''sql'') (sample_entity_mints ''e'')),
      on_database (ProvenanceCandidatesTask True)]"
proof -
  have "on_database (DecayScoringTask tm (c\<lparr>dt_enabled := False\<rparr>)) = disabled_decay" for tm c
    by (simp add: on_database_def DecayScoringTask_def decayScoring_def disabled_decay_def split_def)
  then show ?thesis
    by (simp add: sample_pipeline_def createMemoryStewardshipPorts_def sample_stewardship_def sample_draws_def
        pipeline_consolidator_def sample_consolidator_def)
qed

definition sample_maintenance ::
  "bool \<Rightarrow> bool option \<Rightarrow> (search_db \<times> string list) \<times> unit \<Rightarrow> (app_error + stewardship_report) \<times> (search_db \<times> string list) \<times> unit" where
  "sample_maintenance configured dryRun =
     runStewardship (sample_pipeline configured) None sample_clock (sample_scope ''w'') \<lparr>so_dry = dryRun, so_project = None\<rparr>"

text \<open>
  The contract of a task says that a dry run must not change state: two rows are written to the log of index runs.
\<close>

lemma dry_run_logs_index_runs:
  "case sample_maintenance True None ((sample_search, []), ()) of (res, (db', w'), st') \<Rightarrow>
     map_sum (\<lambda>_. ()) rp_dry res = Inr True \<and> length (sync_runs sample_search) = 0 \<and> length (sync_runs db') = 2"
  by code_simp


theorem failing_task_does_not_stop_witness:
  "case sample_maintenance False (Some False) ((sample_search, []), ()) of (res, (db', w'), st') \<Rightarrow>
     \<exists>report. res = Inr report \<and> map mt_id (rp_tasks report) = stewardship_plan \<and> rp_errors report \<and> w' = [''1'']"
proof -
  let ?s = "((sample_search, [] :: string list), ())"
  obtain res d' st' where run: "sample_maintenance False (Some False) ?s = (res, d', st')"
    by (metis surj_pair)
  from failing_task_does_not_stop [OF run [unfolded sample_maintenance_def sample_pipeline_def] refl]
  obtain report where report: "res = Inr report" "map mt_id (rp_tasks report) = stewardship_plan" by blast
  have "map_sum (\<lambda>_. ()) rp_errors (fst (sample_maintenance False (Some False) ?s)) = Inr True"
    by code_simp
  moreover have "snd (fst (snd (sample_maintenance False (Some False) ?s))) = [''1'']"
    by code_simp
  ultimately show ?thesis using run report by (auto split: prod.splits)
qed

end
