(* ===== verification/Governance.thy ===== *)
theory Governance
  imports Stewardship
begin

section \<open>Histories of governance\<close>

text \<open>
  The stores of stewardship runs, of governance exceptions and of policy denials, each in memory
  (\<^verbatim>\<open>src/src/memory/stewardship\<close>, \<^verbatim>\<open>src/src/memory/governance\<close>) and on SQL tables
  (\<^verbatim>\<open>src/src/infrastructure/stewardship\<close>, \<^verbatim>\<open>src/src/infrastructure/governance\<close>), with the building of
  the records. A report is stored as JSON and read back as it was. A limit is a natural number; that
  a time is well formed is a parameter.
\<close>

subsection \<open>Histories in memory\<close>

type_synonym 'r histories = "string \<Rightarrow> 'r list option"

definition history_of :: "'r histories \<Rightarrow> string \<Rightarrow> 'r list" where
  "history_of s ownerId = nullish (s ownerId) []"

definition remember :: "nat \<Rightarrow> string \<Rightarrow> 'r \<Rightarrow> 'r histories \<Rightarrow> 'r histories" where
  "remember cap ownerId r s = s(ownerId := Some (take cap (r # history_of s ownerId)))"

definition DEFAULT_RUN_CAP :: nat where "DEFAULT_RUN_CAP = 50"

definition InMemoryStewardshipRunStore :: "nat \<Rightarrow> stewardship_report histories run_store" where
  "InMemoryStewardshipRunStore cap =
     \<lparr>rs_save = \<lambda>report s. (Inr (), remember cap (rp_owner report) report s),
      rs_list = \<lambda>s ownerId limit. take (nullish limit cap) (history_of s ownerId),
      rs_latest = \<lambda>s ownerId. (case history_of s ownerId of [] \<Rightarrow> None | r # _ \<Rightarrow> Some r),
      rs_get = \<lambda>s ownerId runId. find (\<lambda>r. rp_id r = runId) (history_of s ownerId)\<rparr>"

subsection \<open>Governance exceptions\<close>

datatype exception_kind = DecayProtection | FeatureFlagOff | OpsMaintenance

datatype exception_status = ExceptionPending | ExceptionApproved | ExceptionRejected | ExceptionExpired

record audit_entry =
  ae_at :: string
  ae_action :: string
  ae_actor :: "string option"
  ae_note :: "string option"

record governance_exception =
  gx_id :: string
  gx_owner :: string
  gx_kind :: exception_kind
  gx_rationale :: string
  gx_status :: exception_status
  gx_requested_by :: string
  gx_requested_at :: string
  gx_expires :: "string option"
  gx_audit :: "audit_entry list"

record exception_input =
  xi_owner :: string
  xi_kind :: exception_kind
  xi_rationale :: string
  xi_requested_by :: string
  xi_expires :: "string option"

text \<open>The function says whether a string is a time of the schema.\<close>

definition exception_ok :: "(string \<Rightarrow> bool) \<Rightarrow> governance_exception \<Rightarrow> bool" where
  "exception_ok datetime r \<longleftrightarrow>
     gx_id r \<noteq> [] \<and> gx_owner r \<noteq> [] \<and> gx_rationale r \<noteq> [] \<and> length (gx_rationale r) \<le> 4000 \<and> gx_requested_by r \<noteq> [] \<and>
     datetime (gx_requested_at r) \<and> (case gx_expires r of None \<Rightarrow> True | Some t \<Rightarrow> datetime t) \<and>
     list_all (\<lambda>a. datetime (ae_at a) \<and> ae_action a \<noteq> [] \<and> ae_actor a \<noteq> Some []) (gx_audit r)"

definition buildGovernanceExceptionRecord ::
  "(string \<Rightarrow> bool) \<Rightarrow> exception_input \<Rightarrow> mint \<Rightarrow> app_error + governance_exception" where
  "buildGovernanceExceptionRecord datetime input m =
     (let requestedAt = mint_now m;
          r = \<lparr>gx_id = mint_id m, gx_owner = xi_owner input, gx_kind = xi_kind input, gx_rationale = xi_rationale input,
               gx_status = ExceptionPending, gx_requested_by = xi_requested_by input, gx_requested_at = requestedAt,
               gx_expires = xi_expires input,
               gx_audit = [\<lparr>ae_at = requestedAt, ae_action = ''requested'', ae_actor = Some (xi_requested_by input),
                            ae_note = Some (xi_rationale input)\<rparr>]\<rparr>
      in if exception_ok datetime r then Inr r else Inl zod_error)"

text \<open>The operations of \<open>IGovernanceExceptionStore\<close>; a read of a stored record is checked against the schema.\<close>

record 's exception_store =
  xs_create :: "exception_input \<Rightarrow> mint \<Rightarrow> 's \<Rightarrow> (app_error + governance_exception) \<times> 's"
  xs_list :: "'s \<Rightarrow> string \<Rightarrow> nat option \<Rightarrow> app_error + governance_exception list"
  xs_get :: "'s \<Rightarrow> string \<Rightarrow> string \<Rightarrow> app_error + governance_exception option"
  xs_update :: "string \<Rightarrow> string \<Rightarrow> exception_status \<Rightarrow> audit_entry \<Rightarrow> 's \<Rightarrow> (app_error + governance_exception option) \<times> 's"

definition DEFAULT_EXCEPTION_CAP :: nat where "DEFAULT_EXCEPTION_CAP = 100"

definition with_status :: "exception_status \<Rightarrow> audit_entry \<Rightarrow> governance_exception \<Rightarrow> governance_exception" where
  "with_status status audit r = r\<lparr>gx_status := status, gx_audit := gx_audit r @ [audit]\<rparr>"

definition InMemoryGovernanceExceptionStore ::
  "(string \<Rightarrow> bool) \<Rightarrow> nat \<Rightarrow> governance_exception histories exception_store" where
  "InMemoryGovernanceExceptionStore datetime cap =
     \<lparr>xs_create = \<lambda>input m s. (case buildGovernanceExceptionRecord datetime input m of
        Inl e \<Rightarrow> (Inl e, s) | Inr r \<Rightarrow> (Inr r, remember cap (xi_owner input) r s)),
      xs_list = \<lambda>s ownerId limit. Inr (take (nullish limit cap) (history_of s ownerId)),
      xs_get = \<lambda>s ownerId i. Inr (find (\<lambda>r. gx_id r = i) (history_of s ownerId)),
      xs_update = \<lambda>ownerId i status audit s.
        (let h = history_of s ownerId; index = length (takeWhile (\<lambda>r. gx_id r \<noteq> i) h)
         in if index < length h
            then let updated = with_status status audit (h ! index)
                 in (Inr (Some updated), s(ownerId := Some (h[index := updated])))
            else (Inr None, s))\<rparr>"

subsection \<open>Policy denials\<close>

datatype policy_point = PointWrite | PointRecall | PointStewardship

datatype policy_action = ActionRead | ActionWrite | ActionAdmin

record denial_event =
  pd_id :: string
  pd_owner :: string
  pd_point :: policy_point
  pd_module :: "string option"
  pd_reason :: string
  pd_at :: string
  pd_memory :: "string option"
  pd_resource :: "string option"

record denial_input =
  di_owner :: string
  di_point :: policy_point
  di_reason :: string
  di_module :: "string option"
  di_memory :: "string option"
  di_resource :: "string option"

definition denial_ok :: "(string \<Rightarrow> bool) \<Rightarrow> denial_event \<Rightarrow> bool" where
  "denial_ok datetime r \<longleftrightarrow>
     pd_id r \<noteq> [] \<and> pd_owner r \<noteq> [] \<and> pd_module r \<noteq> Some [] \<and> pd_reason r \<noteq> [] \<and> datetime (pd_at r) \<and>
     pd_memory r \<noteq> Some [] \<and> pd_resource r \<noteq> Some []"

definition buildPolicyDenialEvent :: "(string \<Rightarrow> bool) \<Rightarrow> denial_input \<Rightarrow> mint \<Rightarrow> app_error + denial_event" where
  "buildPolicyDenialEvent datetime input m =
     (let r = \<lparr>pd_id = mint_id m, pd_owner = di_owner input, pd_point = di_point input,
               pd_module = Some (nullish (di_module input) ''policy-engine''), pd_reason = di_reason input, pd_at = mint_now m,
               pd_memory = di_memory input, pd_resource = di_resource input\<rparr>
      in if denial_ok datetime r then Inr r else Inl zod_error)"

definition resolvePolicyDenialPoint :: "string \<Rightarrow> policy_action \<Rightarrow> policy_point" where
  "resolvePolicyDenialPoint path action =
     (let normalized = js_lower path in
      if js_includes normalized ''stewardship'' \<or> js_includes normalized ''steward'' then PointStewardship
      else if action = ActionRead \<and>
        (js_includes normalized ''/context'' \<or> js_includes normalized ''/search'' \<or> js_includes normalized ''/recall'' \<or>
         js_includes normalized ''/graph'') then PointRecall
      else PointWrite)"

record denial_summary =
  dy_since :: string
  dy_write :: nat
  dy_recall :: nat
  dy_stewardship :: nat
  dy_total :: nat

definition count_point :: "policy_point \<Rightarrow> denial_event list \<Rightarrow> nat" where
  "count_point p rows = length (filter (\<lambda>r. pd_point r = p) rows)"

text \<open>The operations of \<open>IPolicyDenialStore\<close>; a summary is given the time of the call.\<close>

record 's denial_store =
  ds_append :: "denial_event \<Rightarrow> 's \<Rightarrow> (app_error + unit) \<times> 's"
  ds_list :: "'s \<Rightarrow> string \<Rightarrow> nat option \<Rightarrow> string option \<Rightarrow> app_error + denial_event list"
  ds_summary :: "'s \<Rightarrow> string \<Rightarrow> string option \<Rightarrow> string \<Rightarrow> denial_summary"

definition DEFAULT_DENIAL_CAP :: nat where "DEFAULT_DENIAL_CAP = 500"

definition since_ok :: "string option \<Rightarrow> denial_event \<Rightarrow> bool" where
  "since_ok since r \<longleftrightarrow> (case truthy since of None \<Rightarrow> True | Some t \<Rightarrow> t \<le> pd_at r)"

definition list_denials :: "denial_event histories \<Rightarrow> string \<Rightarrow> nat \<Rightarrow> string option \<Rightarrow> denial_event list" where
  "list_denials s ownerId limit since = take limit (filter (since_ok since) (history_of s ownerId))"

definition InMemoryPolicyDenialStore :: "nat \<Rightarrow> denial_event histories denial_store" where
  "InMemoryPolicyDenialStore cap =
     \<lparr>ds_append = \<lambda>event s. (Inr (), remember cap (pd_owner event) event s),
      ds_list = \<lambda>s ownerId limit since. Inr (list_denials s ownerId (nullish limit 100) since),
      ds_summary = \<lambda>s ownerId since now.
        (let rows = list_denials s ownerId cap since
         in \<lparr>dy_since = nullish since (if rows = [] then now else pd_at (last rows)), dy_write = count_point PointWrite rows,
             dy_recall = count_point PointRecall rows, dy_stewardship = count_point PointStewardship rows,
             dy_total = length rows\<rparr>)\<rparr>"

text \<open>\<open>record\<close>, which both stores have.\<close>

definition recordDenial ::
  "(string \<Rightarrow> bool) \<Rightarrow> 's denial_store \<Rightarrow> denial_input \<Rightarrow> mint \<Rightarrow> 's \<Rightarrow> (app_error + unit) \<times> 's" where
  "recordDenial datetime store input m s =
     (case buildPolicyDenialEvent datetime input m of Inl e \<Rightarrow> (Inl e, s) | Inr event \<Rightarrow> ds_append store event s)"

subsection \<open>Histories in tables\<close>

record governance_db = search_db +
  stewardship_runs :: "stewardship_report list"
  governance_exceptions :: "governance_exception list"
  policy_denials :: "denial_event list"

definition report_clash :: "stewardship_report \<Rightarrow> stewardship_report \<Rightarrow> bool" where
  "report_clash r s \<longleftrightarrow> rp_id r = rp_id s"

definition exception_clash :: "governance_exception \<Rightarrow> governance_exception \<Rightarrow> bool" where
  "exception_clash r s \<longleftrightarrow> gx_id r = gx_id s"

definition denial_clash :: "denial_event \<Rightarrow> denial_event \<Rightarrow> bool" where
  "denial_clash r s \<longleftrightarrow> pd_id r = pd_id s"

interpretation report_ids: keyed_table rp_id report_clash
  by unfold_locales (simp add: report_clash_def)

interpretation exception_ids: keyed_table gx_id exception_clash
  by unfold_locales (simp add: exception_clash_def)

interpretation denial_ids: keyed_table pd_id denial_clash
  by unfold_locales (simp add: denial_clash_def)

definition list_runs :: "'a governance_db_scheme \<Rightarrow> string \<Rightarrow> nat \<Rightarrow> stewardship_report list" where
  "list_runs db ownerId limit =
     take limit (order_desc rp_started (sql_select (\<lambda>r. rp_owner r = ownerId) (stewardship_runs db)))"

definition SqlStewardshipRunStore :: "nat \<Rightarrow> 'a governance_db_scheme run_store" where
  "SqlStewardshipRunStore cap =
     \<lparr>rs_save = \<lambda>report db. (case sql_insert report_clash report (stewardship_runs db) of
        Inl e \<Rightarrow> (Inl e, db) | Inr t \<Rightarrow> (Inr (), db\<lparr>stewardship_runs := t\<rparr>)),
      rs_list = \<lambda>db ownerId limit. list_runs db ownerId (nullish limit cap),
      rs_latest = \<lambda>db ownerId. (case list_runs db ownerId 1 of [] \<Rightarrow> None | r # _ \<Rightarrow> Some r),
      rs_get = \<lambda>db ownerId runId. sql_first (\<lambda>r. rp_owner r = ownerId \<and> rp_id r = runId) (stewardship_runs db)\<rparr>"

text \<open>Rows are parsed by the schema when they are read.\<close>

definition rowToRecord :: "(string \<Rightarrow> bool) \<Rightarrow> governance_exception \<Rightarrow> app_error + governance_exception" where
  "rowToRecord datetime r = (if exception_ok datetime r then Inr r else Inl zod_error)"

definition rowToEvent :: "(string \<Rightarrow> bool) \<Rightarrow> denial_event \<Rightarrow> app_error + denial_event" where
  "rowToEvent datetime r = (if denial_ok datetime r then Inr r else Inl zod_error)"

fun map_rows :: "('r \<Rightarrow> app_error + 's) \<Rightarrow> 'r list \<Rightarrow> app_error + 's list" where
  "map_rows f [] = Inr []"
| "map_rows f (r # rs) =
     (case f r of Inl e \<Rightarrow> Inl e | Inr x \<Rightarrow> (case map_rows f rs of Inl e \<Rightarrow> Inl e | Inr xs \<Rightarrow> Inr (x # xs)))"

definition exception_by_id ::
  "(string \<Rightarrow> bool) \<Rightarrow> 'a governance_db_scheme \<Rightarrow> string \<Rightarrow> string \<Rightarrow> app_error + governance_exception option" where
  "exception_by_id datetime db ownerId i =
     (case sql_first (\<lambda>r. gx_owner r = ownerId \<and> gx_id r = i) (governance_exceptions db) of
        None \<Rightarrow> Inr None
      | Some row \<Rightarrow> (case rowToRecord datetime row of Inl e \<Rightarrow> Inl e | Inr r \<Rightarrow> Inr (Some r)))"

definition SqlGovernanceExceptionStore :: "(string \<Rightarrow> bool) \<Rightarrow> nat \<Rightarrow> 'a governance_db_scheme exception_store" where
  "SqlGovernanceExceptionStore datetime cap =
     \<lparr>xs_create = \<lambda>input m db. (case buildGovernanceExceptionRecord datetime input m of
        Inl e \<Rightarrow> (Inl e, db)
      | Inr r \<Rightarrow> (case sql_insert exception_clash r (governance_exceptions db) of
          Inl e \<Rightarrow> (Inl e, db) | Inr t \<Rightarrow> (Inr r, db\<lparr>governance_exceptions := t\<rparr>))),
      xs_list = \<lambda>db ownerId limit. map_rows (rowToRecord datetime)
        (take (nullish limit cap) (order_desc gx_requested_at (sql_select (\<lambda>r. gx_owner r = ownerId) (governance_exceptions db)))),
      xs_get = exception_by_id datetime,
      xs_update = \<lambda>ownerId i status audit db.
        (case exception_by_id datetime db ownerId i of
           Inl e \<Rightarrow> (Inl e, db)
         | Inr None \<Rightarrow> (Inr None, db)
         | Inr (Some existing) \<Rightarrow>
             let updated = with_status status audit existing
             in (Inr (Some updated),
                 db\<lparr>governance_exceptions := sql_update (\<lambda>r. gx_owner r = ownerId \<and> gx_id r = i)
                      (\<lambda>r. r\<lparr>gx_status := status, gx_audit := gx_audit updated\<rparr>) (governance_exceptions db)\<rparr>))\<rparr>"

definition EPOCH :: string where "EPOCH = ''1970-01-01T00:00:00.000Z''"

definition SqlPolicyDenialStore :: "(string \<Rightarrow> bool) \<Rightarrow> nat \<Rightarrow> 'a governance_db_scheme denial_store" where
  "SqlPolicyDenialStore datetime cap =
     \<lparr>ds_append = \<lambda>event db. (case sql_insert denial_clash event (policy_denials db) of
        Inl e \<Rightarrow> (Inl e, db) | Inr t \<Rightarrow> (Inr (), db\<lparr>policy_denials := t\<rparr>)),
      ds_list = \<lambda>db ownerId limit since.
        (let effectiveLimit = min (nullish limit 100) cap
         in map_rows (rowToEvent datetime)
              (take effectiveLimit (order_desc pd_at (sql_select (\<lambda>r. pd_owner r = ownerId \<and> since_ok since r) (policy_denials db))))),
      ds_summary = \<lambda>db ownerId since now.
        (let rows = sql_select (\<lambda>r. pd_owner r = ownerId \<and> since_ok since r) (policy_denials db);
             byPoint = (\<lambda>p. count_point p rows)
         in \<lparr>dy_since = nullish since EPOCH, dy_write = byPoint PointWrite, dy_recall = byPoint PointRecall,
             dy_stewardship = byPoint PointStewardship,
             dy_total = byPoint PointWrite + byPoint PointRecall + byPoint PointStewardship\<rparr>)\<rparr>"

end
