(* ===== verification/Governance_Laws.thy ===== *)
theory Governance_Laws
  imports Governance Search_Graph_Laws
begin

section \<open>Laws of the histories\<close>

text \<open>
  The stores in memory and on SQL implement one abstract history: the records of an owner, newest first,
  of which a query sees a part. The two implementations therefore answer alike, up to the cap beyond which
  the memory forgets.
\<close>

subsection \<open>The abstract history\<close>

definition later :: "('r \<Rightarrow> string) \<Rightarrow> ('r \<Rightarrow> string) \<Rightarrow> 'r \<Rightarrow> 'r list \<Rightarrow> bool" where
  "later id_of time_of r h \<longleftrightarrow> (\<forall>x \<in> set h. time_of x < time_of r \<and> id_of x \<noteq> id_of r)"

fun chronicle :: "('r \<Rightarrow> string) \<Rightarrow> ('r \<Rightarrow> string) \<Rightarrow> 'r list \<Rightarrow> bool" where
  "chronicle id_of time_of [] = True"
| "chronicle id_of time_of (r # h) = (later id_of time_of r h \<and> chronicle id_of time_of h)"

definition own :: "('r \<Rightarrow> string) \<Rightarrow> string \<Rightarrow> 'r list \<Rightarrow> 'r list" where
  "own owner_of ownerId h = filter (\<lambda>r. owner_of r = ownerId) h"

text \<open>The records that are made of the inputs, and the state after the inputs are saved in turn.\<close>

fun made :: "('i \<Rightarrow> app_error + 'r) \<Rightarrow> 'i list \<Rightarrow> 'r list" where
  "made record_of [] = []"
| "made record_of (i # is) = (case record_of i of Inl e \<Rightarrow> made record_of is | Inr r \<Rightarrow> r # made record_of is)"

fun save_all :: "('i \<Rightarrow> 's \<Rightarrow> 'x \<times> 's) \<Rightarrow> 'i list \<Rightarrow> 's \<Rightarrow> 's" where
  "save_all save [] s = s"
| "save_all save (i # is) s = save_all save is (snd (save i s))"

locale history_store =
  fixes id_of owner_of time_of :: "'r \<Rightarrow> string"
    and record_of :: "'i \<Rightarrow> app_error + 'r"
    and save :: "'i \<Rightarrow> 's \<Rightarrow> (app_error + 'x) \<times> 's"
    and query :: "'s \<Rightarrow> string \<Rightarrow> 'q \<Rightarrow> app_error + 'r list"
    and answer :: "'q \<Rightarrow> 'r list \<Rightarrow> 'r list"
    and represents :: "'s \<Rightarrow> 'r list \<Rightarrow> bool"
  assumes save_record: "represents s h \<Longrightarrow> record_of i = Inr r \<Longrightarrow> later id_of time_of r h \<Longrightarrow>
      \<exists>x s'. save i s = (Inr x, s') \<and> represents s' (r # h)"
    and save_refused: "record_of i = Inl e \<Longrightarrow> save i s = (Inl e, s)"
    and query_answer: "represents s h \<Longrightarrow> chronicle id_of time_of h \<Longrightarrow> query s ownerId q = Inr (answer q (own owner_of ownerId h))"
begin

lemma save_all_represents:
  "represents s h \<Longrightarrow> chronicle id_of time_of (rev (made record_of is) @ h) \<Longrightarrow>
   represents (save_all save is s) (rev (made record_of is) @ h)"
proof (induction "is" arbitrary: s h)
  case (Cons i "is")
  show ?case
  proof (cases "record_of i")
    case (Inl e)
    with Cons save_refused [OF Inl, of s] show ?thesis by simp
  next
    case (Inr r)
    have "later id_of time_of r h"
    proof -
      have "chronicle id_of time_of (xs @ r # h) \<Longrightarrow> later id_of time_of r h" for xs by (induction xs) simp_all
      from this [of "rev (made record_of is)"] Cons.prems(2) Inr show ?thesis by simp
    qed
    from save_record [OF Cons.prems(1) Inr this] obtain x s' where s': "save i s = (Inr x, s')" "represents s' (r # h)" by blast
    from Cons.IH [OF s'(2)] Cons.prems(2) Inr s'(1) show ?thesis by simp
  qed
qed simp

lemma query_saved:
  assumes "represents s []" "chronicle id_of time_of (rev (made record_of is))"
  shows "query (save_all save is s) ownerId q = Inr (answer q (own owner_of ownerId (rev (made record_of is))))"
  using query_answer save_all_represents [OF assms(1)] assms(2) by simp

end

subsection \<open>Memory\<close>

definition in_memory :: "('r \<Rightarrow> string) \<Rightarrow> nat \<Rightarrow> 'r histories \<Rightarrow> 'r list \<Rightarrow> bool" where
  "in_memory owner_of cap s h \<longleftrightarrow> (\<forall>ownerId. history_of s ownerId = take cap (own owner_of ownerId h))"

lemma in_memory_empty: "in_memory owner_of cap (\<lambda>_. None) []"
  by (simp add: in_memory_def history_of_def own_def)

lemma take_Cons_take: "take n (x # take n xs) = take n (x # xs)"
  by (cases n) simp_all

lemma remember_in_memory:
  assumes "in_memory owner_of cap s h" "owner_of r = ownerId"
  shows "in_memory owner_of cap (remember cap ownerId r s) (r # h)"
proof -
  have hist: "history_of s ownerId' = take cap (own owner_of ownerId' h)" for ownerId'
    using assms(1) by (simp add: in_memory_def)
  have "history_of (remember cap ownerId r s) ownerId' =
      (if ownerId' = ownerId then take cap (r # history_of s ownerId) else history_of s ownerId')" for ownerId'
    by (simp add: history_of_def remember_def)
  then show ?thesis unfolding in_memory_def
    using assms(2) by (simp add: hist take_Cons_take own_def)
qed

subsection \<open>Tables\<close>

definition in_table :: "('r \<Rightarrow> string) \<Rightarrow> ('r \<Rightarrow> string) \<Rightarrow> 'r list \<Rightarrow> 'r list \<Rightarrow> bool" where
  "in_table id_of time_of t h \<longleftrightarrow> t = rev h \<and> chronicle id_of time_of h"

lemma chronicle_filter: "chronicle id_of time_of h \<Longrightarrow> chronicle id_of time_of (filter p h)"
  by (induction h) (auto simp: later_def)

lemma chronicle_sorted: "chronicle id_of time_of h \<Longrightarrow> sorted (map time_of (rev h)) \<and> inj_on time_of (set h)"
proof (induction h)
  case (Cons r h)
  then have IH: "sorted (map time_of (rev h))" "inj_on time_of (set h)" and l: "\<forall>x \<in> set h. time_of x < time_of r"
    by (simp_all add: later_def)
  have "sorted (map time_of (rev h) @ [time_of r])"
    using IH(1) l by (simp add: sorted_append less_imp_le)
  moreover have "time_of r \<notin> time_of ` set h" using l by (metis imageE less_irrefl)
  ultimately show ?case using IH(2) by simp blast
qed simp

lemma order_desc_chronicle:
  assumes "chronicle id_of time_of h"
  shows "order_desc time_of (rev h) = h"
proof -
  have "sort_key time_of h = rev h"
    by (rule sort_key_inj_key_eq) (use chronicle_sorted [OF assms] in auto)
  then show ?thesis by (simp add: order_desc_def)
qed

lemma order_desc_select:
  assumes "chronicle id_of time_of h"
  shows "order_desc time_of (sql_select p (rev h)) = filter p h"
  using order_desc_chronicle [OF chronicle_filter [OF assms, of p]] by (simp add: sql_select_def rev_filter)

lemma in_table_insert:
  assumes "in_table id_of time_of t h" "later id_of time_of r h" "\<And>a b. clash a b \<longleftrightarrow> id_of a = id_of b"
  shows "sql_insert clash r t = Inr (t @ [r]) \<and> in_table id_of time_of (t @ [r]) (r # h)"
  using assms by (auto simp: in_table_def later_def)

lemma map_rows_ok: "(\<And>r. r \<in> set rs \<Longrightarrow> f r = Inr r) \<Longrightarrow> map_rows f rs = Inr rs"
  by (induction rs) simp_all

subsection \<open>Stewardship runs\<close>

definition run_page :: "nat \<Rightarrow> nat option \<Rightarrow> stewardship_report list \<Rightarrow> stewardship_report list" where
  "run_page cap limit h = take (min cap (nullish limit cap)) h"

definition page_of :: "nat \<Rightarrow> nat option \<Rightarrow> nat option" where
  "page_of cap limit = map_option (min cap) limit"

interpretation memory_runs: history_store rp_id rp_owner rp_started Inr "rs_save (InMemoryStewardshipRunStore cap)"
    "\<lambda>s ownerId limit. Inr (rs_list (InMemoryStewardshipRunStore cap) s ownerId limit)" "run_page cap" "in_memory rp_owner cap"
  for cap
proof
  fix s :: "stewardship_report histories" and h and i r :: stewardship_report
  assume "in_memory rp_owner cap s h" "(Inr i :: app_error + stewardship_report) = Inr r"
  then show "\<exists>x s'. rs_save (InMemoryStewardshipRunStore cap) i s = (Inr x, s') \<and> in_memory rp_owner cap s' (r # h)"
    by (simp add: InMemoryStewardshipRunStore_def remember_in_memory)
qed (auto simp: InMemoryStewardshipRunStore_def in_memory_def run_page_def min.commute)

definition in_runs :: "'a governance_db_scheme \<Rightarrow> stewardship_report list \<Rightarrow> bool" where
  "in_runs db h \<longleftrightarrow> in_table rp_id rp_started (stewardship_runs db) h"

interpretation table_runs: history_store rp_id rp_owner rp_started Inr "rs_save (SqlStewardshipRunStore cap)"
    "\<lambda>s ownerId limit. Inr (rs_list (SqlStewardshipRunStore cap) s ownerId (page_of cap limit))" "run_page cap" in_runs
  for cap
proof
  fix db :: "'a governance_db_scheme" and h i r
  assume *: "in_runs db h" "(Inr i :: app_error + stewardship_report) = Inr r" "later rp_id rp_started r h"
  from in_table_insert [OF *(1) [unfolded in_runs_def] *(3), of report_clash] *(2)
  show "\<exists>x s'. rs_save (SqlStewardshipRunStore cap) i db = (Inr x, s') \<and> in_runs s' (r # h)"
    by (simp add: report_clash_def SqlStewardshipRunStore_def in_runs_def del: sql_insert_Inr)
next
  fix db :: "'a governance_db_scheme" and h ownerId limit
  assume "in_runs db h" "chronicle rp_id rp_started h"
  then show "Inr (rs_list (SqlStewardshipRunStore cap) db ownerId (page_of cap limit)) = Inr (run_page cap limit (own rp_owner ownerId h))"
    by (cases limit) (simp_all add: SqlStewardshipRunStore_def list_runs_def in_runs_def in_table_def order_desc_select
        run_page_def page_of_def own_def)
qed simp

text \<open>
  The two run stores implement the same history. After any reports with increasing starts and fresh
  identifiers are saved, both list for an owner the reports of that owner, newest first, up to the limit, as
  long as the limit is not above the cap; and they have the same latest report.
\<close>

theorem run_stores_agree:
  assumes "chronicle rp_id rp_started (rev reports)" "stewardship_runs db = []" "0 < cap"
    and "s1 = save_all (rs_save (InMemoryStewardshipRunStore cap)) reports (\<lambda>_. None)"
    and "s2 = save_all (rs_save (SqlStewardshipRunStore cap)) reports db"
    and "newest = rev (filter (\<lambda>r. rp_owner r = ownerId) reports)"
  shows "(n \<le> cap \<longrightarrow> rs_list (InMemoryStewardshipRunStore cap) s1 ownerId (Some n) = take n newest) \<and>
    (n \<le> cap \<longrightarrow> rs_list (SqlStewardshipRunStore cap) s2 ownerId (Some n) = take n newest) \<and>
    rs_latest (InMemoryStewardshipRunStore cap) s1 ownerId = rs_latest (SqlStewardshipRunStore cap) s2 ownerId \<and>
    rs_latest (SqlStewardshipRunStore cap) s2 ownerId = (if newest = [] then None else Some (hd newest))"
proof -
  have made: "made Inr reports = reports" by (induction reports) simp_all
  have mem: "rs_list (InMemoryStewardshipRunStore cap) s1 ownerId q = run_page cap q newest" for q
    using memory_runs.query_saved [OF in_memory_empty, of reports cap ownerId q] assms(1,4,6) made
    by (simp add: own_def rev_filter)
  have "in_runs db []" using assms(2) by (simp add: in_runs_def in_table_def)
  from table_runs.query_saved [OF this, of reports cap ownerId]
  have tab: "rs_list (SqlStewardshipRunStore cap) s2 ownerId (page_of cap q) = run_page cap q newest" for q
    using assms(1,5,6) made by (simp add: own_def rev_filter)
  have lists: "n \<le> cap \<Longrightarrow> rs_list (InMemoryStewardshipRunStore cap) s1 ownerId (Some n) = take n newest"
    "n \<le> cap \<Longrightarrow> rs_list (SqlStewardshipRunStore cap) s2 ownerId (Some n) = take n newest" for n
    using mem [of "Some n"] tab [of "Some n"] by (simp_all add: run_page_def page_of_def min_absorb2)
  have "rs_latest (SqlStewardshipRunStore cap) s2 ownerId = (case take 1 newest of [] \<Rightarrow> None | r # _ \<Rightarrow> Some r)"
    using lists(2) [of 1] assms(3) by (simp add: SqlStewardshipRunStore_def)
  moreover have "rs_latest (InMemoryStewardshipRunStore cap) s1 ownerId = (case take cap newest of [] \<Rightarrow> None | r # _ \<Rightarrow> Some r)"
  proof -
    have "history_of s1 ownerId = take cap newest"
      using memory_runs.save_all_represents [OF in_memory_empty, of reports cap] assms(1,4,6) made
      by (simp add: in_memory_def own_def rev_filter)
    then show ?thesis by (simp add: InMemoryStewardshipRunStore_def)
  qed
  ultimately show ?thesis using lists assms(3) by (cases newest; cases cap) simp_all
qed


subsection \<open>Policy denials\<close>

definition denial_page :: "nat \<Rightarrow> nat option \<times> string option \<Rightarrow> denial_event list \<Rightarrow> denial_event list" where
  "denial_page cap q h = take (min (nullish (fst q) 100) cap) (filter (since_ok (snd q)) h)"

text \<open>In a history the events since a time are the newest ones, so that the cap may be applied before or after.\<close>

lemma filter_since_take:
  assumes "chronicle pd_id pd_at h"
  shows "filter (since_ok since) (take n h) = take n (filter (since_ok since) h)"
  using assms
proof (induction h arbitrary: n)
  case (Cons r h)
  show ?case
  proof (cases "since_ok since r")
    case True
    with Cons show ?thesis by (cases n) simp_all
  next
    case False
    have "\<not> since_ok since x" if "x \<in> set h" for x
      using that False Cons.prems by (fastforce simp: since_ok_def later_def split: option.splits)
    then have "filter (since_ok since) h = []" "filter (since_ok since) (take k h) = []" for k
      by (auto simp: filter_empty_conv dest: in_set_takeD)
    with False show ?thesis by (cases n) simp_all
  qed
qed simp

lemma chronicle_own: "chronicle id_of time_of h \<Longrightarrow> chronicle id_of time_of (own owner_of ownerId h)"
  by (simp add: own_def chronicle_filter)

text \<open>Events that the schema accepts; the store on SQL checks them when it reads them.\<close>

definition checked_denial :: "(string \<Rightarrow> bool) \<Rightarrow> denial_event \<Rightarrow> app_error + denial_event" where
  "checked_denial datetime r = rowToEvent datetime r"

definition append_checked ::
  "(string \<Rightarrow> bool) \<Rightarrow> 's denial_store \<Rightarrow> denial_event \<Rightarrow> 's \<Rightarrow> (app_error + unit) \<times> 's" where
  "append_checked datetime store r s =
     (case checked_denial datetime r of Inl e \<Rightarrow> (Inl e, s) | Inr r' \<Rightarrow> ds_append store r' s)"

lemma checked_denial_Inr: "checked_denial datetime r = Inr r' \<longleftrightarrow> denial_ok datetime r \<and> r' = r"
  by (auto simp: checked_denial_def rowToEvent_def)

lemma recordDenial_checked:
  "recordDenial datetime store input m = append_checked datetime store
     \<lparr>pd_id = mint_id m, pd_owner = di_owner input, pd_point = di_point input,
      pd_module = Some (nullish (di_module input) ''policy-engine''), pd_reason = di_reason input, pd_at = mint_now m,
      pd_memory = di_memory input, pd_resource = di_resource input\<rparr>"
  by (rule ext) (simp add: recordDenial_def buildPolicyDenialEvent_def append_checked_def checked_denial_def rowToEvent_def Let_def)

interpretation memory_denials: history_store pd_id pd_owner pd_at "checked_denial datetime"
    "append_checked datetime (InMemoryPolicyDenialStore cap)"
    "\<lambda>s ownerId q. ds_list (InMemoryPolicyDenialStore cap) s ownerId (fst q) (snd q)" "denial_page cap" "in_memory pd_owner cap"
  for datetime cap
proof
  fix s :: "denial_event histories" and h i r
  assume "in_memory pd_owner cap s h" "checked_denial datetime i = Inr r"
  then show "\<exists>x s'. append_checked datetime (InMemoryPolicyDenialStore cap) i s = (Inr x, s') \<and> in_memory pd_owner cap s' (r # h)"
    by (simp add: append_checked_def InMemoryPolicyDenialStore_def remember_in_memory)
next
  fix s :: "denial_event histories" and i e
  assume "checked_denial datetime i = Inl e"
  then show "append_checked datetime (InMemoryPolicyDenialStore cap) i s = (Inl e, s)"
    by (simp add: append_checked_def)
next
  fix s :: "denial_event histories" and h ownerId and q :: "nat option \<times> string option"
  assume "in_memory pd_owner cap s h" "chronicle pd_id pd_at h"
  then show "ds_list (InMemoryPolicyDenialStore cap) s ownerId (fst q) (snd q) = Inr (denial_page cap q (own pd_owner ownerId h))"
    by (simp add: InMemoryPolicyDenialStore_def list_denials_def in_memory_def denial_page_def
        filter_since_take [OF chronicle_own] min.commute)
qed

definition in_denials :: "(string \<Rightarrow> bool) \<Rightarrow> 'a governance_db_scheme \<Rightarrow> denial_event list \<Rightarrow> bool" where
  "in_denials datetime db h \<longleftrightarrow> in_table pd_id pd_at (policy_denials db) h \<and> (\<forall>r \<in> set h. denial_ok datetime r)"

interpretation table_denials: history_store pd_id pd_owner pd_at "checked_denial datetime"
    "append_checked datetime (SqlPolicyDenialStore datetime cap)"
    "\<lambda>s ownerId q. ds_list (SqlPolicyDenialStore datetime cap) s ownerId (fst q) (snd q)" "denial_page cap" "in_denials datetime"
  for datetime cap
proof
  fix db :: "'a governance_db_scheme" and h i r
  assume *: "in_denials datetime db h" "checked_denial datetime i = Inr r" "later pd_id pd_at r h"
  from *(1) have t: "in_table pd_id pd_at (policy_denials db) h" by (simp add: in_denials_def)
  from *(2) have i: "i = r" "denial_ok datetime r" "checked_denial datetime r = Inr r"
    by (auto simp: checked_denial_Inr)
  from in_table_insert [OF t *(3), of denial_clash] *(1) i
  show "\<exists>x s'. append_checked datetime (SqlPolicyDenialStore datetime cap) i db = (Inr x, s') \<and> in_denials datetime s' (r # h)"
    by (simp add: denial_clash_def append_checked_def SqlPolicyDenialStore_def in_denials_def del: sql_insert_Inr)
next
  fix db :: "'a governance_db_scheme" and i e
  assume "checked_denial datetime i = Inl e"
  then show "append_checked datetime (SqlPolicyDenialStore datetime cap) i db = (Inl e, db)"
    by (simp add: append_checked_def)
next
  fix db :: "'a governance_db_scheme" and h ownerId and q :: "nat option \<times> string option"
  assume *: "in_denials datetime db h" "chronicle pd_id pd_at h"
  let ?rows = "take (min (nullish (fst q) 100) cap) (filter (\<lambda>r. pd_owner r = ownerId \<and> since_ok (snd q) r) h)"
  have "map_rows (rowToEvent datetime) ?rows = Inr ?rows"
    by (rule map_rows_ok) (use * in \<open>auto simp: in_denials_def rowToEvent_def dest!: in_set_takeD\<close>)
  with * show "ds_list (SqlPolicyDenialStore datetime cap) db ownerId (fst q) (snd q) = Inr (denial_page cap q (own pd_owner ownerId h))"
    by (simp add: SqlPolicyDenialStore_def in_denials_def in_table_def order_desc_select Let_def denial_page_def own_def conj_commute)
qed



subsection \<open>Exceptions\<close>

text \<open>In both stores a change of status is seen by the next read, and touches no other exception.\<close>

lemma takeWhile_find: "length (takeWhile (\<lambda>r. f r \<noteq> i) h) < length h \<Longrightarrow>
    find (\<lambda>r. f r = i) h = Some (h ! length (takeWhile (\<lambda>r. f r \<noteq> i) h))"
  by (induction h) auto

lemma find_takeWhile: "find (\<lambda>r. f r = i) h = Some r \<Longrightarrow> length (takeWhile (\<lambda>r. f r \<noteq> i) h) < length h"
  by (induction h) (auto split: if_splits)

lemma find_update: "f r' = i \<Longrightarrow> length (takeWhile (\<lambda>r. f r \<noteq> i) h) < length h \<Longrightarrow>
    find (\<lambda>r. f r = i) (h[length (takeWhile (\<lambda>r. f r \<noteq> i) h) := r']) = Some r'"
  by (induction h) auto

lemma memory_status_read:
  assumes "xs_update (InMemoryGovernanceExceptionStore datetime cap) ownerId i status audit s = (Inr (Some r), s')"
  shows "xs_get (InMemoryGovernanceExceptionStore datetime cap) s' ownerId i = Inr (Some r) \<and> gx_status r = status"
proof -
  let ?h = "history_of s ownerId"
  let ?n = "length (takeWhile (\<lambda>r. gx_id r \<noteq> i) ?h)"
  have n: "?n < length ?h" and r: "r = with_status status audit (?h ! ?n)" "s' = s(ownerId := Some (?h[?n := r]))"
    using assms by (auto simp: InMemoryGovernanceExceptionStore_def Let_def split: if_splits)
  have "gx_id (?h ! ?n) = i"
    using takeWhile_find [OF n] by (metis (mono_tags, lifting) find_Some_iff)
  then have "gx_id r = i" by (simp add: r(1) with_status_def)
  moreover have "history_of s' ownerId = ?h[?n := r]" by (simp add: r(2) history_of_def)
  ultimately show ?thesis
    using find_update [of gx_id r i ?h] n r(1) by (simp add: InMemoryGovernanceExceptionStore_def with_status_def)
qed

subsection \<open>Samples\<close>

definition sample_report :: "string \<Rightarrow> stewardship_report" where
  "sample_report i =
     \<lparr>rp_id = i, rp_owner = ''o'', rp_project = None, rp_dry = True, rp_started = ''t'' @ i, rp_finished = ''u'', rp_duration = 5,
      rp_tasks = [], rp_scanned = 0, rp_changed = 0, rp_errors = False\<rparr>"

definition sample_denial :: "string \<Rightarrow> denial_event" where
  "sample_denial i =
     \<lparr>pd_id = i, pd_owner = ''o'', pd_point = PointWrite, pd_module = None, pd_reason = ''r'', pd_at = ''t'' @ i,
      pd_memory = None, pd_resource = None\<rparr>"

definition sample_governance :: governance_db where
  "sample_governance = search_db.extend Search_Graph_Laws.sample_search (governance_db.fields [] [] [])"

lemma sample_governance_empty:
  "stewardship_runs sample_governance = []" "policy_denials sample_governance = []"
  by (simp_all add: sample_governance_def search_db.extend_def governance_db.fields_def)

lemma sample_reports_chronicle: "chronicle rp_id rp_started (rev (map sample_report [''1'', ''2'', ''3'']))"
  by code_simp

lemma sample_denials_chronicle: "chronicle pd_id pd_at (rev (filter (denial_ok (\<lambda>t. True)) (map sample_denial [''1'', ''2'', ''3''])))"
  by code_simp

theorem run_stores_agree_witness:
  "rs_list (SqlStewardshipRunStore 2) (save_all (rs_save (SqlStewardshipRunStore 2)) (map sample_report [''1'', ''2'', ''3''])
       sample_governance) ''o'' (Some 2) = [sample_report ''3'', sample_report ''2'']"
  using run_stores_agree [OF sample_reports_chronicle sample_governance_empty(1) _ refl refl refl, of 2 2 "''o''"]
  by (simp add: sample_report_def)


text \<open>What the memory forgets beyond its cap, and how the summaries differ.\<close>

lemma memory_forgets_runs:
  "rs_get (InMemoryStewardshipRunStore 2) (save_all (rs_save (InMemoryStewardshipRunStore 2)) (map sample_report [''1'', ''2'', ''3''])
       (\<lambda>_. None)) ''o'' ''1'' = None \<and>
   rs_get (SqlStewardshipRunStore 2) (save_all (rs_save (SqlStewardshipRunStore 2)) (map sample_report [''1'', ''2'', ''3''])
       sample_governance) ''o'' ''1'' = Some (sample_report ''1'')"
  by code_simp

lemma summaries_differ:
  "let memory = ds_summary (InMemoryPolicyDenialStore 2) (save_all (append_checked (\<lambda>t. True) (InMemoryPolicyDenialStore 2))
         (map sample_denial [''1'', ''2'', ''3'']) (\<lambda>_. None)) ''o'' None ''now'';
       table = ds_summary (SqlPolicyDenialStore (\<lambda>t. True) 2) (save_all (append_checked (\<lambda>t. True) (SqlPolicyDenialStore (\<lambda>t. True) 2))
         (map sample_denial [''1'', ''2'', ''3'']) sample_governance) ''o'' None ''now''
   in dy_total memory = 2 \<and> dy_total table = 3 \<and> dy_since memory = ''t2'' \<and> dy_since table = EPOCH"
  by code_simp

end
