(* ===== verification/Security.thy ===== *)
theory Security
  imports Governance Rest_Boundary
begin

section \<open>Enterprise security\<close>

text \<open>
  The hooks that follow those of \<open>Rest_Boundary\<close> when they are switched on: workspace membership
  (\<^verbatim>\<open>src/src/auth/workspace-membership.middleware.ts\<close>), policy and quota
  (\<^verbatim>\<open>src/src/security/middleware\<close>), with the policy engines, the quota counters, the compliance log and
  the tenant hierarchy they work on (\<^verbatim>\<open>src/src/security/adapters\<close>, \<^verbatim>\<open>src/src/infrastructure/security\<close>,
  \<^verbatim>\<open>src/src/infrastructure/enterprise\<close>). The remote policy service is a parameter. The compliance log is
  always there, as the composition has it.
\<close>

subsection \<open>Tables\<close>

record department =
  dp_id :: string
  dp_org :: string
  dp_name :: string
  dp_slug :: string

record tenant_project =
  tp_id :: string
  tp_org :: string
  tp_department :: string
  tp_name :: string
  tp_slug :: string

record hierarchy_row =
  hw_org :: string
  hw_workspace :: string
  hw_department :: "string option"
  hw_project :: "string option"

record policy_row =
  pr_id :: string
  pr_org :: string
  pr_package :: string
  pr_effect :: string
  pr_pattern :: string

record membership_row =
  mb_workspace :: string
  mb_identity :: string
  mb_role :: string

record security_db =
  departments :: "department list"
  tenant_projects :: "tenant_project list"
  hierarchy_rows :: "hierarchy_row list"
  policy_rows :: "policy_row list"
  membership_rows :: "membership_row list"

subsection \<open>Workspace membership\<close>

datatype workspace_permission = WorkspaceRead | WorkspaceWrite | WorkspaceAdmin

fun workspace_permission_text :: "workspace_permission \<Rightarrow> string" where
  "workspace_permission_text WorkspaceRead = ''memory.read''"
| "workspace_permission_text WorkspaceWrite = ''memory.write''"
| "workspace_permission_text WorkspaceAdmin = ''memory.admin''"

definition ROLE_PERMISSIONS :: "(string \<times> workspace_permission list) list" where
  "ROLE_PERMISSIONS =
     [(''owner'', [WorkspaceRead, WorkspaceWrite, WorkspaceAdmin]), (''admin'', [WorkspaceRead, WorkspaceWrite, WorkspaceAdmin]),
      (''member'', [WorkspaceRead, WorkspaceWrite]), (''viewer'', [WorkspaceRead])]"

definition roleAllows :: "string \<Rightarrow> workspace_permission \<Rightarrow> bool" where
  "roleAllows role permission =
     (case map_of ROLE_PERMISSIONS role of None \<Rightarrow> False | Some ps \<Rightarrow> permission \<in> set ps)"

definition D1WorkspaceMembership ::
  "security_db \<Rightarrow> string \<Rightarrow> string \<Rightarrow> workspace_permission \<Rightarrow> app_error + unit" where
  "D1WorkspaceMembership db identityId workspaceId permission =
     (case truthy (map_option mb_role (sql_first (\<lambda>r. mb_workspace r = workspaceId \<and> mb_identity r = identityId) (membership_rows db))) of
        None \<Rightarrow> Inl (ForbiddenError (''Missing workspace permission: '' @ workspace_permission_text permission))
      | Some role \<Rightarrow>
          if roleAllows role permission then Inr ()
          else Inl (ForbiddenError (''Missing workspace permission: '' @ workspace_permission_text permission)))"


text \<open>\<open>headerWorkspaceId\<close> reads a header that is one string.\<close>

definition headerWorkspaceId :: "http_request \<Rightarrow> string option" where
  "headerWorkspaceId req =
     (case hr_headers req ''x-workspace-id'' of
        Some (HStr raw) \<Rightarrow> truthy (Some (js_trim raw)) | _ \<Rightarrow> None)"

definition read_only_method :: "string \<Rightarrow> bool" where
  "read_only_method method \<longleftrightarrow> method = ''GET'' \<or> method = ''HEAD'' \<or> method = ''OPTIONS''"

definition requiredWorkspacePermission :: "string \<Rightarrow> workspace_permission" where
  "requiredWorkspacePermission method = (if read_only_method method then WorkspaceRead else WorkspaceWrite)"

definition workspaceMembershipMiddleware ::
  "(string \<Rightarrow> string \<Rightarrow> workspace_permission \<Rightarrow> app_error + unit) \<Rightarrow> http_request \<Rightarrow> app_error + unit" where
  "workspaceMembershipMiddleware assertAccess req =
     (case headerWorkspaceId req of
        None \<Rightarrow> Inr ()
      | Some workspaceId \<Rightarrow>
          (case truthy (map_option au_identity (hr_user req)) of
             None \<Rightarrow> Inr ()
           | Some identityId \<Rightarrow> assertAccess identityId workspaceId (requiredWorkspacePermission (hr_method req))))"

subsection \<open>Tenant hierarchy\<close>

record hierarchy_ctx =
  hc_org :: "string option"
  hc_department :: "string option"
  hc_project :: "string option"
  hc_workspace :: "string option"

record policy_binding =
  pb_id :: string
  pb_org :: string
  pb_package :: string
  pb_deny :: bool
  pb_pattern :: string

record tenant_hierarchy =
  th_department :: "string \<Rightarrow> department option"
  th_project :: "string \<Rightarrow> tenant_project option"
  th_departments :: "string \<Rightarrow> department list"
  th_projects :: "string \<Rightarrow> tenant_project list"
  th_resolve :: "string \<Rightarrow> string \<Rightarrow> hierarchy_ctx"
  th_policies :: "string \<Rightarrow> policy_binding list"

definition resolveHierarchyForWorkspace :: "security_db \<Rightarrow> string \<Rightarrow> string \<Rightarrow> hierarchy_ctx" where
  "resolveHierarchyForWorkspace db organizationId workspaceId =
     (let row = sql_first (\<lambda>r. hw_org r = organizationId \<and> hw_workspace r = workspaceId) (hierarchy_rows db)
      in \<lparr>hc_org = Some organizationId, hc_department = Option.bind row hw_department,
          hc_project = Option.bind row hw_project, hc_workspace = Some workspaceId\<rparr>)"

definition listPolicyBindings :: "security_db \<Rightarrow> string \<Rightarrow> policy_binding list" where
  "listPolicyBindings db organizationId =
     map (\<lambda>r. \<lparr>pb_id = pr_id r, pb_org = pr_org r, pb_package = pr_package r, pb_deny = (pr_effect r = ''deny''),
               pb_pattern = pr_pattern r\<rparr>)
       (sql_select (\<lambda>r. pr_org r = organizationId) (policy_rows db))"

definition SqlTenantHierarchy :: "security_db \<Rightarrow> tenant_hierarchy" where
  "SqlTenantHierarchy db =
     \<lparr>th_department = \<lambda>i. sql_first (\<lambda>r. dp_id r = i) (departments db),
      th_project = \<lambda>i. sql_first (\<lambda>r. tp_id r = i) (tenant_projects db),
      th_departments = \<lambda>i. order_asc dp_name (sql_select (\<lambda>r. dp_org r = i) (departments db)),
      th_projects = \<lambda>i. order_asc tp_name (sql_select (\<lambda>r. tp_department r = i) (tenant_projects db)),
      th_resolve = resolveHierarchyForWorkspace db, th_policies = listPolicyBindings db\<rparr>"

definition NoOpTenantHierarchy :: tenant_hierarchy where
  "NoOpTenantHierarchy =
     \<lparr>th_department = \<lambda>i. None, th_project = \<lambda>i. None, th_departments = \<lambda>i. [], th_projects = \<lambda>i. [],
      th_resolve = \<lambda>o' w. \<lparr>hc_org = Some o', hc_department = None, hc_project = None, hc_workspace = Some w\<rparr>,
      th_policies = \<lambda>i. []\<rparr>"

subsection \<open>Policy engines\<close>

record policy_input =
  pi_user :: auth_user
  pi_scope :: memory_scope
  pi_hierarchy :: hierarchy_ctx
  pi_method :: string
  pi_path :: string
  pi_action :: policy_action

record policy_result =
  po_allowed :: bool
  po_reason :: "string option"
  po_policy :: "string option"

type_synonym policy_engine = "policy_input \<Rightarrow> policy_result"

definition AllowAllPolicyEngine :: policy_engine where
  "AllowAllPolicyEngine input = \<lparr>po_allowed = True, po_reason = None, po_policy = Some ''allow-all''\<rparr>"

definition matchesPattern :: "string \<Rightarrow> string \<Rightarrow> bool" where
  "matchesPattern path pattern \<longleftrightarrow>
     (if pattern = ''*'' \<or> pattern = ''/*'' then True
      else if pattern \<noteq> [] \<and> last pattern = CHR ''*'' then js_starts_with path (butlast pattern)
      else path = pattern \<or> js_starts_with path pattern)"

fun denying :: "string \<Rightarrow> policy_binding list \<Rightarrow> policy_binding option" where
  "denying path [] = None"
| "denying path (b # bs) =
     (if \<not> pb_deny b then denying path bs else if matchesPattern path (pb_pattern b) then Some b else denying path bs)"

definition RuleBasedPolicyEngine :: "tenant_hierarchy \<Rightarrow> policy_engine" where
  "RuleBasedPolicyEngine th input =
     (let orgId = (case ms_org (pi_scope input) of Some x \<Rightarrow> Some x | None \<Rightarrow> hc_org (pi_hierarchy input));
          allow = \<lparr>po_allowed = True, po_reason = None, po_policy = Some ''rule-based-default-allow''\<rparr>
      in case truthy orgId of
           None \<Rightarrow> allow
         | Some x \<Rightarrow>
             (case denying (pi_path input) (th_policies th x) of
                Some b \<Rightarrow> \<lparr>po_allowed = False, po_reason = Some (''Denied by policy '' @ pb_package b), po_policy = Some (pb_id b)\<rparr>
              | None \<Rightarrow> allow))"

text \<open>What the policy service answers: nothing, a failing status, or a result that may be left out.\<close>

datatype opa_reply = OpaUnreachable | OpaStatus nat | OpaAnswer "(bool option \<times> string option) option"

definition OpaPolicyEngine :: "(policy_input \<Rightarrow> opa_reply) \<Rightarrow> policy_engine" where
  "OpaPolicyEngine opa input =
     (case opa input of
        OpaUnreachable \<Rightarrow> \<lparr>po_allowed = False, po_reason = Some ''OPA unreachable'', po_policy = Some ''opa''\<rparr>
      | OpaStatus n \<Rightarrow> \<lparr>po_allowed = False, po_reason = Some (''OPA HTTP '' @ js_nat_string n), po_policy = Some ''opa''\<rparr>
      | OpaAnswer result \<Rightarrow>
          let allowed = (Option.bind result fst = Some True)
          in \<lparr>po_allowed = allowed,
              po_reason = (case Option.bind result snd of Some r \<Rightarrow> Some r
                           | None \<Rightarrow> if allowed then None else Some ''OPA denied''),
              po_policy = Some ''opa''\<rparr>)"

subsection \<open>Compliance log\<close>

record compliance_event =
  cl_type :: string
  cl_actor :: string
  cl_org :: "string option"
  cl_workspace :: "string option"
  cl_resource :: string
  cl_action :: policy_action
  cl_allow :: bool
  cl_reason :: "string option"
  cl_policy :: "string option"
  cl_time :: string

definition COMPLIANCE_CAP :: nat where "COMPLIANCE_CAP = 10000"

definition recordCompliance :: "compliance_event \<Rightarrow> compliance_event list \<Rightarrow> compliance_event list" where
  "recordCompliance e trail = (let l = trail @ [e] in drop (length l - COMPLIANCE_CAP) l)"

text \<open>\<open>slice(-limit)\<close>: a limit of zero takes everything.\<close>

definition exportEvents :: "compliance_event list \<Rightarrow> string \<Rightarrow> nat \<Rightarrow> compliance_event list" where
  "exportEvents trail organizationId limit =
     (let l = filter (\<lambda>e. organizationId = [] \<or> cl_org e = Some organizationId) trail
      in if limit = 0 then l else drop (length l - limit) l)"

subsection \<open>Quotas\<close>

record counter_window =
  cw_count :: nat
  cw_start :: int

record quota_options =
  qo_requests :: nat
  qo_writes :: nat
  qo_window :: "int option"

record quota_state =
  qs_requests :: "string \<Rightarrow> counter_window option"
  qs_writes :: "string \<Rightarrow> counter_window option"

record quota_input =
  qi_owner :: string
  qi_org :: "string option"
  qi_write :: bool

definition quota_key :: "string \<Rightarrow> string option \<Rightarrow> string" where
  "quota_key ownerId organizationId = ownerId @ '':'' @ nullish organizationId ''default''"

definition window_ms :: "quota_options \<Rightarrow> int" where
  "window_ms opts = nullish (qo_window opts) 60 * 1000"

definition DAY_WINDOW_MS :: int where "DAY_WINDOW_MS = 86400000"

text \<open>The counter of a key after one more request at the given time.\<close>

definition tick :: "int \<Rightarrow> int \<Rightarrow> counter_window option \<Rightarrow> counter_window" where
  "tick width now c =
     (let w = nullish c \<lparr>cw_count = 0, cw_start = now\<rparr>;
          w1 = (if width \<le> now - cw_start w then \<lparr>cw_count = 0, cw_start = now\<rparr> else w)
      in w1\<lparr>cw_count := cw_count w1 + 1\<rparr>)"

definition assertWithinQuota ::
  "quota_options \<Rightarrow> int \<Rightarrow> quota_input \<Rightarrow> quota_state \<Rightarrow> (app_error + unit) \<times> quota_state" where
  "assertWithinQuota opts now input s =
     (let key = quota_key (qi_owner input) (qi_org input);
          req = tick (window_ms opts) now (qs_requests s key);
          s1 = s\<lparr>qs_requests := (qs_requests s)(key := Some req)\<rparr>
      in if qo_requests opts < cw_count req then (Inl (QuotaExceededError ''Request rate limit exceeded''), s1)
         else if \<not> qi_write input then (Inr (), s1)
         else
           let dayKey = key @ '':writes'';
               w = tick DAY_WINDOW_MS now (qs_writes s1 dayKey);
               s2 = s1\<lparr>qs_writes := (qs_writes s1)(dayKey := Some w)\<rparr>
           in if qo_writes opts < cw_count w then (Inl (QuotaExceededError ''Daily write quota exceeded''), s2)
              else (Inr (), s2))"

text \<open>The requests that are left, as the status reports them.\<close>

definition requestsRemaining :: "quota_options \<Rightarrow> string \<Rightarrow> string option \<Rightarrow> quota_state \<Rightarrow> nat" where
  "requestsRemaining opts ownerId organizationId s =
     qo_requests opts - (case qs_requests s (quota_key ownerId organizationId) of None \<Rightarrow> 0 | Some c \<Rightarrow> cw_count c)"

type_synonym quota_enforcer = "int \<Rightarrow> quota_input \<Rightarrow> quota_state \<Rightarrow> (app_error + unit) \<times> quota_state"

definition NoOpQuotaEnforcer :: quota_enforcer where
  "NoOpQuotaEnforcer now input s = (Inr (), s)"

subsection \<open>Middleware\<close>

definition isSecurityPublicPath :: "string \<Rightarrow> bool" where
  "isSecurityPublicPath url =
     (let path = pathOnly url in
      js_starts_with path ''/docs'' \<or> path = ''/api/v1/capabilities'' \<or> path = ''/api/v1/capabilities/negotiate'' \<or>
      js_starts_with path ''/api/v1/ecosystem/'' \<or> path = ''/api/v1/health'' \<or> path = ''/health'' \<or> path = ''/'' \<or>
      js_starts_with path ''/api/v1/auth/sso/'' \<or> js_starts_with path ''/.well-known/oauth-protected-resource'')"

definition resolveAction :: "string \<Rightarrow> policy_action" where
  "resolveAction method = (if read_only_method method then ActionRead else ActionWrite)"

text \<open>\<open>buildTransportContextFromRestRequest\<close>: the header comes before the tenant of the user.\<close>

definition transport_org :: "http_request \<Rightarrow> auth_user \<Rightarrow> string option" where
  "transport_org req u = (case headerValue (hr_headers req) ''x-organization-id'' of Some x \<Rightarrow> Some x | None \<Rightarrow> au_org u)"

definition transport_workspace :: "http_request \<Rightarrow> auth_user \<Rightarrow> string option" where
  "transport_workspace req u = (case headerValue (hr_headers req) ''x-workspace-id'' of Some x \<Rightarrow> Some x | None \<Rightarrow> au_ws u)"

record 's policy_deps =
  pdp_engine :: policy_engine
  pdp_hierarchy :: tenant_hierarchy
  pdp_denials :: "'s denial_store option"

definition policy_question :: "tenant_hierarchy \<Rightarrow> http_request \<Rightarrow> auth_user \<Rightarrow> policy_input" where
  "policy_question th req u =
     (let organizationId = transport_org req u; workspaceId = transport_workspace req u;
          hierarchy =
            (case (truthy organizationId, truthy workspaceId) of
               (Some x, Some w) \<Rightarrow> th_resolve th x w
             | _ \<Rightarrow> \<lparr>hc_org = organizationId, hc_department = None, hc_project = None, hc_workspace = workspaceId\<rparr>)
      in \<lparr>pi_user = u,
          pi_scope = \<lparr>ms_owner = au_owner u, ms_workspace = workspaceId, ms_agent = None, ms_project = None,
                      ms_org = organizationId, ms_department = hc_department hierarchy, ms_tenant_project = hc_project hierarchy\<rparr>,
          pi_hierarchy = hierarchy, pi_method = hr_method req, pi_path = pathOnly (hr_url req),
          pi_action = resolveAction (hr_method req)\<rparr>)"

definition decision_event :: "http_request \<Rightarrow> auth_user \<Rightarrow> policy_result \<Rightarrow> string \<Rightarrow> compliance_event" where
  "decision_event req u result now =
     \<lparr>cl_type = (if po_allowed result then ''policy.allowed'' else ''policy.denied''), cl_actor = au_identity u,
      cl_org = transport_org req u, cl_workspace = transport_workspace req u, cl_resource = hr_url req,
      cl_action = resolveAction (hr_method req), cl_allow = po_allowed result,
      cl_reason = (if po_allowed result then None else po_reason result), cl_policy = po_policy result, cl_time = now\<rparr>"

text \<open>
  A denial is logged and put in the store of denials as far as that works; a failure of the store is caught.
  The mint gives the identifier and the time of the denial.
\<close>

definition policyMiddleware ::
  "(string \<Rightarrow> bool) \<Rightarrow> 's policy_deps \<Rightarrow> string \<Rightarrow> mint \<Rightarrow> http_request \<Rightarrow> compliance_event list \<times> 's
     \<Rightarrow> (app_error + unit) \<times> compliance_event list \<times> 's" where
  "policyMiddleware datetime deps now m req s =
     (case s of (trail, ds) \<Rightarrow>
        if isSecurityPublicPath (hr_url req) then (Inr (), trail, ds)
        else case hr_user req of
          None \<Rightarrow> (Inr (), trail, ds)
        | Some u \<Rightarrow>
            let result = pdp_engine deps (policy_question (pdp_hierarchy deps) req u);
                log1 = recordCompliance (decision_event req u result now) trail
            in if po_allowed result then (Inr (), log1, ds)
               else
                 let path = pathOnly (hr_url req);
                     input = \<lparr>di_owner = au_owner u,
                       di_point = resolvePolicyDenialPoint path (resolveAction (hr_method req)),
                       di_reason = nullish (po_reason result) ''POLICY_DENIED'', di_module = po_policy result,
                       di_memory = None, di_resource = Some path\<rparr>;
                     ds1 = (case pdp_denials deps of None \<Rightarrow> ds | Some store \<Rightarrow> snd (recordDenial datetime store input m ds))
                 in (Inl (PolicyDeniedError (nullish (po_reason result) ''Policy denied'')), log1, ds1))"

definition quotaMiddleware ::
  "quota_enforcer \<Rightarrow> int \<Rightarrow> http_request \<Rightarrow> quota_state \<Rightarrow> (app_error + unit) \<times> quota_state" where
  "quotaMiddleware enforcer now req qs =
     (if isSecurityPublicPath (hr_url req) then (Inr (), qs)
      else case hr_user req of
        None \<Rightarrow> (Inr (), qs)
      | Some u \<Rightarrow> enforcer now \<lparr>qi_owner = au_owner u, qi_org = transport_org req u,
          qi_write = (resolveAction (hr_method req) = ActionWrite)\<rparr> qs)"

subsection \<open>Composition\<close>

record security_env =
  es_enabled :: bool
  es_engine :: string
  es_opa_url :: "string option"
  es_quota :: string
  es_requests :: nat
  es_writes :: nat
  es_rbac :: bool

record 's security_ports =
  se_enabled :: bool
  se_policy :: "'s policy_deps"
  se_quota :: quota_enforcer

definition createPolicyEngine :: "security_env \<Rightarrow> (policy_input \<Rightarrow> opa_reply) \<Rightarrow> tenant_hierarchy \<Rightarrow> policy_engine" where
  "createPolicyEngine env opa th =
     (if es_engine env = ''opa'' \<and> truthy (es_opa_url env) \<noteq> None then OpaPolicyEngine opa
      else if es_engine env = ''rule-based'' then RuleBasedPolicyEngine th
      else AllowAllPolicyEngine)"

definition createQuotaEnforcer :: "security_env \<Rightarrow> quota_enforcer" where
  "createQuotaEnforcer env =
     (if es_quota env = ''memory''
      then assertWithinQuota \<lparr>qo_requests = es_requests env, qo_writes = es_writes env, qo_window = None\<rparr>
      else NoOpQuotaEnforcer)"

definition createSecurityPorts ::
  "security_env \<Rightarrow> (policy_input \<Rightarrow> opa_reply) \<Rightarrow> 's denial_store option \<Rightarrow> security_db \<Rightarrow> 's security_ports" where
  "createSecurityPorts env opa denials db =
     (if \<not> es_enabled env
      then \<lparr>se_enabled = False,
            se_policy = \<lparr>pdp_engine = AllowAllPolicyEngine, pdp_hierarchy = NoOpTenantHierarchy, pdp_denials = denials\<rparr>,
            se_quota = NoOpQuotaEnforcer\<rparr>
      else let th = SqlTenantHierarchy db
           in \<lparr>se_enabled = True,
               se_policy = \<lparr>pdp_engine = createPolicyEngine env opa th, pdp_hierarchy = th, pdp_denials = denials\<rparr>,
               se_quota = createQuotaEnforcer env\<rparr>)"

text \<open>The state of the hooks that are switched on, and what they draw.\<close>

record 's hook_state =
  hs_log :: "compliance_event list"
  hs_denials :: 's
  hs_quota :: quota_state

record hook_draws =
  hd_ms :: int
  hd_iso :: string
  hd_mint :: mint

text \<open>The hooks after the permission hook, in the order in which the server adds them.\<close>

definition securityHooks ::
  "security_env \<Rightarrow> (string \<Rightarrow> bool) \<Rightarrow> (policy_input \<Rightarrow> opa_reply) \<Rightarrow> 's denial_store option \<Rightarrow> security_db \<Rightarrow> hook_draws
     \<Rightarrow> http_request \<Rightarrow> 's hook_state \<Rightarrow> (app_error + unit) \<times> 's hook_state" where
  "securityHooks env datetime opa denials db dw req s =
     (let ports = createSecurityPorts env opa denials db
      in case (if es_rbac env then workspaceMembershipMiddleware (D1WorkspaceMembership db) req else Inr ()) of
           Inl e \<Rightarrow> (Inl e, s)
         | Inr _ \<Rightarrow>
             if \<not> se_enabled ports then (Inr (), s)
             else (case policyMiddleware datetime (se_policy ports) (hd_iso dw) (hd_mint dw) req (hs_log s, hs_denials s) of
                     (Inl e, trail, ds) \<Rightarrow> (Inl e, s\<lparr>hs_log := trail, hs_denials := ds\<rparr>)
                   | (Inr _, trail, ds) \<Rightarrow>
                       (case quotaMiddleware (se_quota ports) (hd_ms dw) req (hs_quota s) of
                          (r, qs) \<Rightarrow> (r, s\<lparr>hs_log := trail, hs_denials := ds, hs_quota := qs\<rparr>))))"

end
