(* ===== verification/Security_Laws.thy ===== *)
theory Security_Laws
  imports Security Governance_Laws
begin

section \<open>Laws of the security hooks\<close>

text \<open>
  What a request has proved that passes the hooks when they are all on, what a denial leaves behind, and how
  many requests the counters of the quota let through in any interval of the length of their window.
\<close>

subsection \<open>Policies\<close>

definition denied_by :: "security_db \<Rightarrow> string \<Rightarrow> string \<Rightarrow> policy_row \<Rightarrow> bool" where
  "denied_by db organizationId path r \<longleftrightarrow>
     r \<in> set (policy_rows db) \<and> pr_org r = organizationId \<and> pr_effect r = ''deny'' \<and> matchesPattern path (pr_pattern r)"

lemma denying_None: "denying path bs = None \<longleftrightarrow> (\<forall>b \<in> set bs. pb_deny b \<longrightarrow> \<not> matchesPattern path (pb_pattern b))"
  by (induction bs) auto

lemma denying_Some: "denying path bs = Some b \<Longrightarrow> b \<in> set bs \<and> pb_deny b \<and> matchesPattern path (pb_pattern b)"
  by (induction bs) (auto split: if_splits)

lemma policies_denied:
  "denying path (listPolicyBindings db x) = None \<longleftrightarrow> \<not> (\<exists>r. denied_by db x path r)"
  by (auto simp: denying_None listPolicyBindings_def sql_select_def denied_by_def)

lemma policies_denying:
  assumes "denying path (listPolicyBindings db x) = Some b"
  shows "\<exists>r. denied_by db x path r \<and> pb_package b = pr_package r \<and> pb_id b = pr_id r"
  using denying_Some [OF assms] by (auto simp: listPolicyBindings_def sql_select_def denied_by_def)

lemma transport_org_question: "ms_org (pi_scope (policy_question th req u)) = transport_org req u"
  "pi_path (policy_question th req u) = pathOnly (hr_url req)"
  by (simp_all add: policy_question_def Let_def)

lemma rule_based_decides:
  assumes "transport_org req u = Some x" "x \<noteq> []"
  shows "RuleBasedPolicyEngine (SqlTenantHierarchy db) (policy_question th req u) =
    (case denying (pathOnly (hr_url req)) (listPolicyBindings db x) of
       Some b \<Rightarrow> \<lparr>po_allowed = False, po_reason = Some (''Denied by policy '' @ pb_package b), po_policy = Some (pb_id b)\<rparr>
     | None \<Rightarrow> \<lparr>po_allowed = True, po_reason = None, po_policy = Some ''rule-based-default-allow''\<rparr>)"
  using assms by (simp add: RuleBasedPolicyEngine_def Let_def transport_org_question truthy_def SqlTenantHierarchy_def)

definition rule_deps :: "security_db \<Rightarrow> 's denial_store option \<Rightarrow> 's policy_deps" where
  "rule_deps db denials =
     \<lparr>pdp_engine = RuleBasedPolicyEngine (SqlTenantHierarchy db), pdp_hierarchy = SqlTenantHierarchy db, pdp_denials = denials\<rparr>"

lemma recordCompliance_ne: "recordCompliance e trail \<noteq> [] \<and> last (recordCompliance e trail) = e"
proof -
  have "Suc (length trail) - COMPLIANCE_CAP \<le> length trail" by (simp add: COMPLIANCE_CAP_def)
  then have "recordCompliance e trail = drop (Suc (length trail) - COMPLIANCE_CAP) trail @ [e]"
    by (simp add: recordCompliance_def Let_def)
  then show ?thesis by simp
qed

text \<open>
  C26: The policy hook blocks exactly what the deny rules of the organization match. A request of a user for a path
  that is not public passes if and only if no row of the organization with the effect deny matches its path; else
  the error names the package of such a row, and the denial is handed to the store of denials with that row. The
  decision is the last entry of the compliance log.
\<close>

theorem denied_resources_blocked:
  assumes "policyMiddleware datetime (rule_deps db (Some store)) now m req (trail, ds) = (res, trail', ds')"
    and "hr_user req = Some u" "\<not> isSecurityPublicPath (hr_url req)" "transport_org req u = Some x" "x \<noteq> []"
  shows "(res = Inr () \<longleftrightarrow> \<not> (\<exists>r. denied_by db x (pathOnly (hr_url req)) r)) \<and>
    (case res of
       Inr _ \<Rightarrow> ds' = ds
     | Inl e \<Rightarrow> \<exists>r. denied_by db x (pathOnly (hr_url req)) r \<and> e = PolicyDeniedError (''Denied by policy '' @ pr_package r) \<and>
         ds' = snd (recordDenial datetime store
           \<lparr>di_owner = au_owner u, di_point = resolvePolicyDenialPoint (pathOnly (hr_url req)) (resolveAction (hr_method req)),
            di_reason = ''Denied by policy '' @ pr_package r, di_module = Some (pr_id r), di_memory = None,
            di_resource = Some (pathOnly (hr_url req))\<rparr> m ds)) \<and>
    (trail' \<noteq> [] \<and> (cl_allow (last trail') \<longleftrightarrow> res = Inr ()) \<and> cl_actor (last trail') = au_identity u)"
proof (cases "denying (pathOnly (hr_url req)) (listPolicyBindings db x)")
  case None
  with assms have "res = Inr ()" "ds' = ds" "\<exists>e. trail' = recordCompliance e trail \<and> cl_allow e \<and> cl_actor e = au_identity u"
    by (auto simp: policyMiddleware_def rule_deps_def rule_based_decides [OF assms(4,5)] Let_def decision_event_def)
  with None policies_denied recordCompliance_ne show ?thesis by fastforce
next
  case (Some b)
  from policies_denying [OF Some] obtain r where
    r: "denied_by db x (pathOnly (hr_url req)) r" "pb_package b = pr_package r" "pb_id b = pr_id r" by blast
  from Some assms have "res = Inl (PolicyDeniedError (''Denied by policy '' @ pr_package r))"
    "ds' = snd (recordDenial datetime store
           \<lparr>di_owner = au_owner u, di_point = resolvePolicyDenialPoint (pathOnly (hr_url req)) (resolveAction (hr_method req)),
            di_reason = ''Denied by policy '' @ pr_package r, di_module = Some (pr_id r), di_memory = None,
            di_resource = Some (pathOnly (hr_url req))\<rparr> m ds)"
    "\<exists>e. trail' = recordCompliance e trail \<and> \<not> cl_allow e \<and> cl_actor e = au_identity u"
    by (auto simp: policyMiddleware_def rule_deps_def rule_based_decides [OF assms(4,5)] Let_def decision_event_def r(2,3))
  with r(1) recordCompliance_ne show ?thesis by fastforce
qed

subsection \<open>All hooks\<close>

lemma security_public_data_plane:
  assumes "isDataPlanePath env url method"
  shows "\<not> isSecurityPublicPath url"
  using data_plane_not_exempt(3) [OF assms] by (auto simp: isSecurityPublicPath_def isPublicOrAuthPath_def Let_def)

lemma membership_passes:
  assumes "workspaceMembershipMiddleware (D1WorkspaceMembership db) req = Inr ()"
    and "hr_user req = Some u" "au_identity u \<noteq> []" "hr_headers req ''x-workspace-id'' = Some (HStr v)"
    and "headerValue (hr_headers req) ''x-workspace-id'' = Some w"
  shows "\<exists>r \<in> set (membership_rows db). mb_workspace r = w \<and> mb_identity r = au_identity u \<and>
    roleAllows (mb_role r) (requiredWorkspacePermission (hr_method req))"
proof -
  have "headerWorkspaceId req = Some w"
    using assms(4,5) by (auto simp: headerWorkspaceId_def headerValue_def truthy_def Let_def split: if_splits)
  with assms(1-3) obtain role where role: "roleAllows role (requiredWorkspacePermission (hr_method req))"
    "truthy (map_option mb_role (sql_first (\<lambda>r. mb_workspace r = w \<and> mb_identity r = au_identity u) (membership_rows db))) = Some role"
    by (auto simp: workspaceMembershipMiddleware_def truthy_def D1WorkspaceMembership_def split: option.splits if_splits)
  then show ?thesis
    by (auto simp: truthy_def split: option.splits if_splits dest!: sql_first_SomeD)
qed

lemma security_hooks_pass:
  assumes "securityHooks senv datetime opa denials sdb dw req s = (Inr (), s')"
    and "es_enabled senv" "es_rbac senv" "es_engine senv = ''rule-based''"
  shows "workspaceMembershipMiddleware (D1WorkspaceMembership sdb) req = Inr () \<and>
    (\<exists>trail ds. policyMiddleware datetime (rule_deps sdb denials) (hd_iso dw) (hd_mint dw) req (hs_log s, hs_denials s) = (Inr (), trail, ds))"
  using assms by (auto simp: securityHooks_def createSecurityPorts_def createPolicyEngine_def rule_deps_def Let_def
      split: sum.splits prod.splits)



subsection \<open>Quotas\<close>

text \<open>The requests of a key that a trace lets through at times from \<open>a\<close> on, up to the length of a window.\<close>

fun admitted :: "quota_options \<Rightarrow> string \<Rightarrow> int \<Rightarrow> (int \<times> quota_input) list \<Rightarrow> quota_state \<Rightarrow> nat" where
  "admitted opts key a [] s = 0"
| "admitted opts key a ((now, input) # rs) s =
     (case assertWithinQuota opts now input s of (res, s') \<Rightarrow>
        (if \<not> isl res \<and> quota_key (qi_owner input) (qi_org input) = key \<and> a \<le> now \<and> now < a + window_ms opts then 1 else 0)
        + admitted opts key a rs s')"

lemma assertWithinQuota_counter:
  assumes "assertWithinQuota opts now input s = (res, s')"
  shows "qs_requests s' = (qs_requests s)(quota_key (qi_owner input) (qi_org input) :=
      Some (tick (window_ms opts) now (qs_requests s (quota_key (qi_owner input) (qi_org input)))))"
    and "\<not> isl res \<Longrightarrow> cw_count (tick (window_ms opts) now (qs_requests s (quota_key (qi_owner input) (qi_org input)))) \<le> qo_requests opts"
  using assms by (auto simp: assertWithinQuota_def Let_def split: if_splits)

lemma admitted_late: "\<forall>r \<in> set rs. a + window_ms opts \<le> fst r \<Longrightarrow> admitted opts key a rs s = 0"
  by (induction rs arbitrary: s) (auto split: prod.splits)

text \<open>How many requests a counter can still let through in the interval from \<open>a\<close> on.\<close>

definition room :: "nat \<Rightarrow> int \<Rightarrow> counter_window option \<Rightarrow> nat" where
  "room limit a c = (case c of None \<Rightarrow> limit
     | Some w \<Rightarrow> if a \<le> cw_start w then limit - cw_count w else (limit - cw_count w) + limit)"

lemma room_tick:
  assumes "a \<le> now" "now < a + width"
  shows "(if cw_count (tick width now c) \<le> limit then 1 else 0) + room limit a (Some (tick width now c)) \<le> room limit a c"
  using assms by (cases c) (auto simp: room_def tick_def Let_def)

lemma admitted_room:
  assumes "sorted (map fst rs)" "\<forall>r \<in> set rs. a \<le> fst r"
  shows "admitted opts key a rs s \<le> room (qo_requests opts) a (qs_requests s key)"
  using assms
proof (induction rs arbitrary: s)
  case (Cons r rs)
  obtain now input where r: "r = (now, input)" by fastforce
  obtain res s' where step: "assertWithinQuota opts now input s = (res, s')" by fastforce
  note counter = assertWithinQuota_counter [OF step]
  have IH: "admitted opts key a rs s' \<le> room (qo_requests opts) a (qs_requests s' key)"
    using Cons by simp
  show ?case
  proof (cases "now < a + window_ms opts")
    case False
    then have "\<forall>r \<in> set rs. a + window_ms opts \<le> fst r" using Cons.prems(1) r by force
    with False show ?thesis by (simp add: r step admitted_late)
  next
    case True
    show ?thesis
    proof (cases "quota_key (qi_owner input) (qi_org input) = key")
      case False
      with IH counter(1) show ?thesis by (simp add: r step)
    next
      case key: True
      have "a \<le> now" using Cons.prems(2) r by simp
      from room_tick [OF this True, of "qs_requests s key" "qo_requests opts"] IH counter key
      show ?thesis by (cases "isl res") (auto simp: r step split: if_splits)
    qed
  qed
qed simp

definition counting :: "counter_window option \<Rightarrow> bool" where
  "counting c \<longleftrightarrow> (case c of None \<Rightarrow> True | Some w \<Rightarrow> 0 < cw_count w)"

lemma counting_tick: "counting (Some (tick width now c))"
  by (simp add: counting_def tick_def Let_def)

lemma room_counting: "counting c \<Longrightarrow> room limit a c \<le> 2 * limit - 1"
  by (auto simp: room_def counting_def split: option.splits)

lemma admitted_bound:
  assumes "sorted (map fst rs)" "counting (qs_requests s key)"
  shows "admitted opts key a rs s \<le> 2 * qo_requests opts - 1"
  using assms
proof (induction rs arbitrary: s)
  case (Cons r rs)
  obtain now input where r: "r = (now, input)" by fastforce
  obtain res s' where step: "assertWithinQuota opts now input s = (res, s')" by fastforce
  show ?case
  proof (cases "a \<le> now")
    case True
    then have "\<forall>x \<in> set (r # rs). a \<le> fst x" using Cons.prems(1) r by force
    from admitted_room [OF Cons.prems(1) this] room_counting [OF Cons.prems(2)] show ?thesis
      by (rule order_trans)
  next
    case False
    have "counting (qs_requests s' key)"
      using assertWithinQuota_counter(1) [OF step] Cons.prems(2) counting_tick by simp
    with False Cons show ?thesis by (simp add: r step)
  qed
qed simp

text \<open>
  C24: What the request quota really bounds. For any requests at times that do not decrease, whoever sends them, and
  any interval of the length of the window, the requests of one owner and organization that are let through in the
  interval are at most twice the limit, less one.
\<close>

theorem quota_window_bound:
  assumes "sorted (map fst rs)"
  shows "admitted opts (quota_key ownerId organizationId) a rs \<lparr>qs_requests = (\<lambda>_. None), qs_writes = (\<lambda>_. None)\<rparr>
    \<le> 2 * qo_requests opts - 1"
  by (rule admitted_bound) (use assms in \<open>simp_all add: counting_def\<close>)

subsection \<open>Samples\<close>

definition sample_quota :: quota_options where
  "sample_quota = \<lparr>qo_requests = 2, qo_writes = 10, qo_window = None\<rparr>"

definition sample_reading :: quota_input where
  "sample_reading = \<lparr>qi_owner = ''o'', qi_org = Some ''m'', qi_write = False\<rparr>"

definition sample_burst :: "(int \<times> quota_input) list" where
  "sample_burst = map (\<lambda>t. (t, sample_reading)) [0, 59999, 60000, 60001]"

text \<open>The bound is reached: three requests within two milliseconds, with a limit of two in a minute.\<close>

lemma burst_exceeds_limit:
  "admitted sample_quota (quota_key ''o'' (Some ''m'')) 59999 sample_burst \<lparr>qs_requests = (\<lambda>_. None), qs_writes = (\<lambda>_. None)\<rparr> = 3"
  by code_simp

theorem quota_window_bound_witness:
  "admitted sample_quota (quota_key ''o'' (Some ''m'')) 59999 sample_burst \<lparr>qs_requests = (\<lambda>_. None), qs_writes = (\<lambda>_. None)\<rparr> \<le> 3"
  using quota_window_bound [of sample_burst sample_quota "''o''" "Some ''m''" 59999]
  by (simp add: sample_burst_def sample_quota_def)

text \<open>The status reports that nothing is left long after the window has ended, while the next request is let through.\<close>

lemma status_outlives_window:
  "case assertWithinQuota sample_quota 1 sample_reading \<lparr>qs_requests = [quota_key ''o'' (Some ''m'') \<mapsto> \<lparr>cw_count = 1, cw_start = 0\<rparr>],
       qs_writes = (\<lambda>_. None)\<rparr> of (res, s) \<Rightarrow>
     requestsRemaining sample_quota ''o'' (Some ''m'') s = 0 \<and>
     \<not> isl (fst (assertWithinQuota sample_quota 3600000 sample_reading s))"
  by code_simp


definition sample_security :: security_db where
  "sample_security =
     \<lparr>departments = [], tenant_projects = [], hierarchy_rows = [],
      policy_rows = [\<lparr>pr_id = ''1'', pr_org = ''m'', pr_package = ''p'', pr_effect = ''deny'', pr_pattern = ''/api/v1/workspaces''\<rparr>],
      membership_rows = [\<lparr>mb_workspace = ''w'', mb_identity = ''k'', mb_role = ''member''\<rparr>]\<rparr>"

definition sample_user :: auth_user where
  "sample_user = \<lparr>au_owner = ''o'', au_identity = ''x'', au_id = ''x'', au_type = ApiKey, au_client = None, au_permissions = [],
     au_org = None, au_ws = None\<rparr>"

definition sample_visit :: "headers \<Rightarrow> http_request" where
  "sample_visit hs = \<lparr>hr_method = ''GET'', hr_url = ''/api/v1/workspaces?x=1'', hr_headers = hs, hr_user = Some sample_user\<rparr>"

definition sample_denials :: "denial_event histories denial_store" where
  "sample_denials = InMemoryPolicyDenialStore 500"

theorem denied_resources_blocked_witness:
  "\<exists>e trail ds. policyMiddleware (\<lambda>t. True) (rule_deps sample_security (Some sample_denials)) ''t'' (mint_of ''d'')
       (sample_visit [''x-organization-id'' \<mapsto> HStr ''m'']) ([], \<lambda>_. None) = (Inl e, trail, ds) \<and>
     e = PolicyDeniedError ''Denied by policy p'' \<and> \<not> cl_allow (last trail)"
proof -
  let ?req = "sample_visit [''x-organization-id'' \<mapsto> HStr ''m'']"
  let ?run = "policyMiddleware (\<lambda>t. True) (rule_deps sample_security (Some sample_denials)) ''t'' (mint_of ''d'') ?req ([], \<lambda>_. None)"
  obtain res trail ds where run: "?run = (res, trail, ds)" by (metis surj_pair)
  have url: "\<not> isSecurityPublicPath (hr_url ?req)" by code_simp
  have org: "transport_org ?req sample_user = Some ''m''" by code_simp
  have user: "hr_user ?req = Some sample_user" by (simp add: sample_visit_def)
  note facts = denied_resources_blocked [OF run user url org]
  have hit: "denied_by sample_security ''m'' (pathOnly (hr_url ?req)) r \<longleftrightarrow> r = hd (policy_rows sample_security)" for r
  proof -
    have "matchesPattern (pathOnly (hr_url ?req)) ''/api/v1/workspaces''" by code_simp
    then show ?thesis by (auto simp: denied_by_def sample_security_def)
  qed
  from facts hit have "isl res" "\<not> cl_allow (last trail)" by (cases res; force)+
  with facts hit obtain e where "res = Inl e" "e = PolicyDeniedError (''Denied by policy '' @ pr_package (hd (policy_rows sample_security)))"
    by (cases res) auto
  with \<open>\<not> cl_allow (last trail)\<close> run show ?thesis by (simp add: sample_security_def)
qed

text \<open>
  A path whose tenant is not checked: the same request passes when its header names another organization, or none.
\<close>

lemma header_evades_policy:
  "isTenantContextExemptPath Rest_Boundary.sample_env (hr_url (sample_visit hs)) (hr_method (sample_visit hs)) \<and>
   fst (policyMiddleware (\<lambda>t. True) (rule_deps sample_security (Some sample_denials)) ''t'' (mint_of ''d'')
       (sample_visit [''x-organization-id'' \<mapsto> HStr ''z'']) ([], \<lambda>_. None)) = Inr ()"
proof -
  have "fst (policyMiddleware (\<lambda>t. True) (rule_deps sample_security (Some sample_denials)) ''t'' (mint_of ''d'')
       (sample_visit [''x-organization-id'' \<mapsto> HStr ''z'']) ([], \<lambda>_. None)) = Inr ()" by code_simp
  moreover have "pathOnly ''/api/v1/workspaces?x=1'' = ''/api/v1/workspaces''" by code_simp
  ultimately show ?thesis by (simp add: isTenantContextExemptPath_def sample_visit_def)
qed

text \<open>An export of the compliance log without an organization has the events of every organization.\<close>

lemma export_of_all_organizations: "length trail \<le> limit \<Longrightarrow> exportEvents trail [] limit = trail"
  by (simp add: exportEvents_def Let_def)


definition sample_secured :: http_request where
  "sample_secured = sample_http\<lparr>hr_headers := (hr_headers sample_http)(''x-workspace-id'' \<mapsto> HStr ''w'')\<rparr>"

definition sample_security_env :: security_env where
  "sample_security_env = \<lparr>es_enabled = True, es_engine = ''rule-based'', es_opa_url = None, es_quota = ''memory'', es_requests = 60,
     es_writes = 100, es_rbac = True\<rparr>"

definition sample_hooks :: "http_request \<Rightarrow> (app_error + unit) \<times> denial_event histories hook_state" where
  "sample_hooks req = securityHooks sample_security_env (\<lambda>t. True) (\<lambda>_. OpaUnreachable) (Some sample_denials) sample_security
     \<lparr>hd_ms = 5, hd_iso = ''t'', hd_mint = mint_of ''d''\<rparr> req
     \<lparr>hs_log = [], hs_denials = (\<lambda>_. None), hs_quota = \<lparr>qs_requests = (\<lambda>_. None), qs_writes = (\<lambda>_. None)\<rparr>\<rparr>"


end
