(* ===== verification/Ranking.thy ===== *)
theory Ranking
  imports Learning Decay
begin

section \<open>Ranking and retrieval\<close>

text \<open>
  How stored memories are scored and gathered: the lexical score (\<^verbatim>\<open>src/src/search/ranking.engine.ts\<close>), the
  search service (\<^verbatim>\<open>src/src/search/search.service.ts\<close>), the boosts and the cut of the ranker
  (\<^verbatim>\<open>src/src/memory/ranker.ts\<close>), the sources of candidates with their fusion by reciprocal ranks
  (\<^verbatim>\<open>src/src/memory/*-retrieval-candidate-source.ts\<close>), and the similarity search of stored vectors
  (\<^verbatim>\<open>src/src/embedding\<close>). Scores are rationals; a source may throw, and may fill the cache of edges
  the graph adapter keeps. The embedding provider, \<^verbatim>\<open>localeCompare\<close> and \<^verbatim>\<open>Date.parse\<close> are parameters.
\<close>

subsection \<open>Lexical score\<close>

datatype ranking_weight =
    CodenameExact | CodenameContains | TitleExact | TitleContains | AliasExact | AliasContains | KeywordMatch
  | TagMatch | SummaryContains | ProjectExact | ProjectContains | ContentContains | FavoriteBonus

fun RANKING_WEIGHTS :: "ranking_weight \<Rightarrow> nat" where
  "RANKING_WEIGHTS CodenameExact = 100"
| "RANKING_WEIGHTS CodenameContains = 80"
| "RANKING_WEIGHTS TitleExact = 90"
| "RANKING_WEIGHTS TitleContains = 70"
| "RANKING_WEIGHTS AliasExact = 85"
| "RANKING_WEIGHTS AliasContains = 65"
| "RANKING_WEIGHTS KeywordMatch = 60"
| "RANKING_WEIGHTS TagMatch = 55"
| "RANKING_WEIGHTS SummaryContains = 50"
| "RANKING_WEIGHTS ProjectExact = 40"
| "RANKING_WEIGHTS ProjectContains = 25"
| "RANKING_WEIGHTS ContentContains = 20"
| "RANKING_WEIGHTS FavoriteBonus = 10"

definition SEARCH_CANDIDATE_CAP :: nat where "SEARCH_CANDIDATE_CAP = 500"
definition RETRIEVAL_DEFAULT_LIMIT :: nat where "RETRIEVAL_DEFAULT_LIMIT = 10"
definition RETRIEVAL_MAX_RANKED :: nat where "RETRIEVAL_MAX_RANKED = 20"
definition RETRIEVAL_SQL_CAP :: nat where "RETRIEVAL_SQL_CAP = 60"
definition RETRIEVAL_CANDIDATE_CAP :: nat where "RETRIEVAL_CANDIDATE_CAP = 100"

record query_context =
  qc_q :: "string option"
  qc_tag :: "string option"

record scored_memory = memory +
  sm_relevance :: rat

definition contains_text :: "string \<Rightarrow> string \<Rightarrow> bool" where
  "contains_text haystack needle \<longleftrightarrow> js_includes (js_lower haystack) (js_lower needle)"

definition exact_text :: "string \<Rightarrow> string \<Rightarrow> bool" where
  "exact_text a b \<longleftrightarrow> js_lower a = js_lower b"

definition text_points :: "ranking_weight \<Rightarrow> ranking_weight \<Rightarrow> string \<Rightarrow> string \<Rightarrow> nat" where
  "text_points whole part s q =
     (if exact_text s q then RANKING_WEIGHTS whole else if contains_text s q then RANKING_WEIGHTS part else 0)"

definition points_if :: "bool \<Rightarrow> ranking_weight \<Rightarrow> nat" where
  "points_if b w = (if b then RANKING_WEIGHTS w else 0)"

definition query_points :: "memory \<Rightarrow> string \<Rightarrow> nat" where
  "query_points m q =
     (case truthy (m_codename m) of None \<Rightarrow> 0 | Some c \<Rightarrow> text_points CodenameExact CodenameContains c q) +
     text_points TitleExact TitleContains (m_title m) q +
     sum_list (map (\<lambda>alias. text_points AliasExact AliasContains alias q) (m_aliases m)) +
     points_if (m_summary m \<noteq> [] \<and> contains_text (m_summary m) q) SummaryContains +
     points_if (list_ex (\<lambda>k. contains_text k q \<or> contains_text q k) (m_keywords m)) KeywordMatch +
     points_if (list_ex (\<lambda>t. contains_text t q \<or> contains_text q t) (m_tags m)) TagMatch +
     (if m_project m \<noteq> [] then text_points ProjectExact ProjectContains (m_project m) q else 0) +
     points_if (contains_text (m_content m) q) ContentContains"

definition tag_points :: "memory \<Rightarrow> string \<Rightarrow> nat" where
  "tag_points m tag =
     points_if (list_ex (\<lambda>t. js_lower t = js_lower tag) (m_tags m)) TagMatch +
     points_if (list_ex (\<lambda>k. k = js_lower tag) (m_keywords m)) KeywordMatch"

text \<open>\<open>Math.round\<close>.\<close>

definition js_round :: "rat \<Rightarrow> int" where
  "js_round x = \<lfloor>x + 1 / 2\<rfloor>"

definition scoreMemory :: "memory \<Rightarrow> query_context \<Rightarrow> int" where
  "scoreMemory m ctx =
     (let score = (case truthy (map_option js_trim (qc_q ctx)) of None \<Rightarrow> 0 | Some q \<Rightarrow> query_points m q) +
                  (case truthy (qc_tag ctx) of None \<Rightarrow> 0 | Some tag \<Rightarrow> tag_points m tag) +
                  points_if (m_favorite m) FavoriteBonus;
          importanceMultiplier = 1 / 2 + of_int (m_importance m) / 100
      in js_round (of_nat score * importanceMultiplier))"

definition with_score :: "memory \<Rightarrow> rat \<Rightarrow> scored_memory" where
  "with_score m s = memory.extend m (scored_memory.fields s)"

text \<open>Best score first, then last update first.\<close>

definition by_relevance :: "(string \<Rightarrow> string \<Rightarrow> int) \<Rightarrow> scored_memory \<Rightarrow> scored_memory \<Rightarrow> int" where
  "by_relevance lc a b =
     (if sm_relevance b \<noteq> sm_relevance a then (if sm_relevance b < sm_relevance a then -1 else 1)
      else lc (m_updated b) (m_updated a))"

definition rankMemories :: "(string \<Rightarrow> string \<Rightarrow> int) \<Rightarrow> memory list \<Rightarrow> query_context \<Rightarrow> scored_memory list" where
  "rankMemories lc ms ctx = js_sort (by_relevance lc) (map (\<lambda>m. with_score m (of_int (scoreMemory m ctx))) ms)"

subsection \<open>Search service\<close>

record search_query =
  sq_q :: "string option"
  sq_tag :: "string option"
  sq_project :: "string option"
  sq_category :: "string option"
  sq_type :: "string option"
  sq_importance :: "int option"
  sq_favorite :: "bool option"
  sq_archived :: "bool option"
  sq_limit :: "nat option"
  sq_offset :: "nat option"

record search_env =
  sv_precision :: bool
  sv_ignore :: "string option"

definition search_filters_of :: "search_env \<Rightarrow> memory_scope \<Rightarrow> search_query \<Rightarrow> search_filters" where
  "search_filters_of env scope query =
     \<lparr>sf_owner = ms_owner scope, sf_workspace = workspaceIdFromScope scope, sf_query = sq_q query,
      sf_tag = sq_tag query, sf_project = sq_project query, sf_category = sq_category query,
      sf_type = sq_type query, sf_importance = sq_importance query, sf_favorite = sq_favorite query,
      sf_archived = sq_archived query, sf_limit = SEARCH_CANDIDATE_CAP, sf_offset = 0, sf_grammar = None,
      sf_ignore = (if sv_precision env then parseIgnorePatterns (sv_ignore env) else [])\<rparr>"

definition searched :: "search_query \<Rightarrow> bool" where
  "searched query \<longleftrightarrow> truthy (sq_q query) \<noteq> None \<or> truthy (sq_tag query) \<noteq> None"

definition searchMemories ::
  "(string \<Rightarrow> string \<Rightarrow> int) \<Rightarrow> search_env \<Rightarrow> 'a memory_db_scheme \<Rightarrow> memory_scope \<Rightarrow> search_query
     \<Rightarrow> scored_memory list \<times> nat" where
  "searchMemories lc env db scope query =
     (case findSearchCandidates lc db (search_filters_of env scope query) of
        (candidates, totalRows) \<Rightarrow>
          let ranked = rankMemories lc candidates \<lparr>qc_q = sq_q query, qc_tag = sq_tag query\<rparr>;
              filtered = (if searched query then filter (\<lambda>m. 0 < sm_relevance m) ranked else ranked)
          in (page (nullish (sq_limit query) 50) (nullish (sq_offset query) 0) filtered,
              if searched query then length filtered else totalRows))"

subsection \<open>Ranker\<close>

definition LEVEL_BOOST :: "string \<Rightarrow> rat" where
  "LEVEL_BOOST level =
     (if level = ''canonical'' then RETRIEVAL_WEIGHTS LevelCanonical
      else if level = ''summary'' then RETRIEVAL_WEIGHTS LevelSummary
      else if level = ''note'' then RETRIEVAL_WEIGHTS LevelNote
      else if level = ''raw'' then RETRIEVAL_WEIGHTS LevelRaw else 0)"

text \<open>\<open>None\<close> is an infinite age.\<close>

definition daysSince :: "(string \<Rightarrow> int option) \<Rightarrow> string \<Rightarrow> int \<Rightarrow> rat option" where
  "daysSince tm stamp now = map_option (\<lambda>ms. of_int (now - ms) / 86400000) (tm stamp)"

definition recencyBoost :: "(string \<Rightarrow> int option) \<Rightarrow> int \<Rightarrow> string \<Rightarrow> ranking_snapshot option \<Rightarrow> rat" where
  "recencyBoost tm now updatedAt snapshot =
     (case daysSince tm updatedAt now of
        None \<Rightarrow> 0
      | Some days \<Rightarrow>
          if days \<le> 7 then resolveRetrievalWeight RecencyDays7 snapshot
          else if days \<le> 30 then resolveRetrievalWeight RecencyDays30 snapshot else 0)"

definition accessBoost :: "int \<Rightarrow> ranking_snapshot option \<Rightarrow> rat" where
  "accessBoost accessCount snapshot =
     (if accessCount \<le> 0 then 0
      else of_int \<lfloor>of_rat (resolveRetrievalWeight AccessCountLog snapshot) * log1p (of_int accessCount) + 1 / 2\<rfloor>)"

record ranking_env =
  rv_compare :: "string \<Rightarrow> string \<Rightarrow> int"
  rv_parse :: "string \<Rightarrow> int option"
  rv_now :: int

definition applyRetrievalBoosts :: "ranking_env \<Rightarrow> ranking_snapshot option \<Rightarrow> scored_memory \<Rightarrow> scored_memory" where
  "applyRetrievalBoosts env snapshot m =
     m\<lparr>sm_relevance := sm_relevance m + LEVEL_BOOST (m_level m) +
        recencyBoost (rv_parse env) (rv_now env) (m_updated m) snapshot + accessBoost (m_access_count m) snapshot\<rparr>"

definition rank :: "ranking_env \<Rightarrow> memory list \<Rightarrow> query_context \<Rightarrow> nat \<Rightarrow> ranking_snapshot option \<Rightarrow> scored_memory list" where
  "rank env ms query limit snapshot =
     take (min (max limit 1) RETRIEVAL_MAX_RANKED)
       (js_sort (by_relevance (rv_compare env)) (map (applyRetrievalBoosts env snapshot) (rankMemories (rv_compare env) ms query)))"

subsection \<open>Similarity of vectors\<close>

definition vector_dot :: "rat list \<Rightarrow> rat list \<Rightarrow> rat" where
  "vector_dot a b = sum_list (map2 (*) a b)"

definition cosineSimilarity :: "rat list \<Rightarrow> rat list \<Rightarrow> app_error + real" where
  "cosineSimilarity a b =
     (if length a \<noteq> length b
      then Inl (PlainError (''Vector dimension mismatch: '' @ js_nat_string (length a) @ '' vs '' @ js_nat_string (length b)))
      else if a = [] then Inr 0
      else if vector_dot a a = 0 \<or> vector_dot b b = 0 then Inr 0
      else Inr (of_rat (vector_dot a b) / (sqrt (of_rat (vector_dot a a)) * sqrt (of_rat (vector_dot b b)))))"

record similarity_match =
  vm_memory :: string
  vm_embedding :: string
  vm_score :: real

fun similar_rows :: "rat list \<Rightarrow> embedding_row list \<Rightarrow> app_error + similarity_match list" where
  "similar_rows v [] = Inr []"
| "similar_rows v (r # rs) =
     (if length (em_vector r) \<noteq> length v then similar_rows v rs
      else and_then (cosineSimilarity v (em_vector r)) (\<lambda>s.
             and_then (similar_rows v rs) (\<lambda>ms. Inr (\<lparr>vm_memory = em_memory r, vm_embedding = em_id r, vm_score = s\<rparr> # ms))))"

definition by_similarity :: "similarity_match \<Rightarrow> similarity_match \<Rightarrow> int" where
  "by_similarity a b = (if vm_score b < vm_score a then -1 else if vm_score a < vm_score b then 1 else 0)"

definition searchSimilar ::
  "'a embedding_db_scheme \<Rightarrow> rat list \<Rightarrow> string \<Rightarrow> nat \<Rightarrow> app_error + similarity_match list" where
  "searchSimilar db v ownerId limit =
     (if limit = 0 then Inr []
      else and_then (similar_rows v (sql_select (\<lambda>r. em_owner r = ownerId) (embeddings db)))
             (\<lambda>ms. Inr (take limit (js_sort by_similarity ms))))"

end
