(* ===== verification/Retrieval.thy ===== *)
theory Retrieval
  imports Ranking Graph
begin

section \<open>Sources of candidates\<close>

text \<open>
  The sources behind \<^verbatim>\<open>IRetrievalCandidateSource\<close>: SQL, vector, entity
  (\<^verbatim>\<open>src/src/memory/*-retrieval-candidate-source.ts\<close>) and graph (\<^verbatim>\<open>src/src/graph\<close>), the composite that
  fuses their answers by reciprocal ranks, the retriever, and the wiring of
  \<^verbatim>\<open>src/src/memory/create-context-service.ts\<close>. A source may throw, and may fill the cache of edges the graph
  adapter keeps.
\<close>

type_synonym candidate_source = "retrieval_filters \<Rightarrow> edge_cache \<Rightarrow> (app_error + memory list) \<times> edge_cache"

datatype source_role = SqlRole | VectorRole | GraphRole | EntityRole

record registered_source =
  rs_role :: source_role
  rs_source :: candidate_source

definition sqlCandidates :: "(string \<Rightarrow> string \<Rightarrow> int) \<Rightarrow> 'a memory_db_scheme \<Rightarrow> candidate_source" where
  "sqlCandidates lc db f cache = (Inr (findRetrievalCandidates lc db f), cache)"

text \<open>A map built from a list of memories, where a later memory with the same identifier replaces an earlier one.\<close>

definition by_id :: "'a memory_scheme list \<Rightarrow> string \<Rightarrow> 'a memory_scheme option" where
  "by_id ms = map_of (rev (map (\<lambda>m. (m_id m, m)) ms))"

text \<open>\<open>provider\<close> embeds a text: it throws, or answers with or without a vector for the text.\<close>

definition vectorCandidates ::
  "(string \<Rightarrow> app_error + rat list option) \<Rightarrow> 'a embedding_db_scheme \<Rightarrow> candidate_source" where
  "vectorCandidates provider db f cache =
     ((case truthy (rf_query f) of
         None \<Rightarrow> Inr []
       | Some query \<Rightarrow>
           and_then (provider query) (\<lambda>answer. case answer of
              None \<Rightarrow> Inr []
            | Some queryVector \<Rightarrow>
                and_then (searchSimilar db queryVector (rf_owner f) (rf_max f)) (\<lambda>matches.
                  if matches = [] then Inr []
                  else let memoryMap = by_id (findByIds db (map vm_memory matches) (rf_owner f) (rf_workspace f))
                       in Inr (List.map_filter (\<lambda>m. memoryMap (vm_memory m)) matches)))), cache)"

definition graphSource ::
  "graph_retrieval_config \<Rightarrow> (retrieval_filters \<Rightarrow> app_error + memory list) option \<Rightarrow> (string \<Rightarrow> string \<Rightarrow> int)
     \<Rightarrow> 'a relation_db_scheme \<Rightarrow> candidate_source" where
  "graphSource config vectorSeeds lc db f cache =
     (case vectorSeeds of
        None \<Rightarrow> apfst Inr (graphCandidates config None lc f cache db)
      | Some source \<Rightarrow>
          (case (if truthy (rf_query f) = None then Inr [] else source f) of
             Inl e \<Rightarrow> (Inl e, cache)
           | Inr seeds \<Rightarrow> apfst Inr (graphCandidates config (Some (\<lambda>_. seeds)) lc f cache db)))"

subsection \<open>Entities\<close>

text \<open>\<open>query.split(/\s+/)\<close>.\<close>

function split_spaces :: "string \<Rightarrow> string \<Rightarrow> string list" where
  "split_spaces w [] = [rev w]"
| "split_spaces w (c # s) =
     (if js_space c then rev w # split_spaces [] (dropWhile js_space s) else split_spaces (c # w) s)"
  by pat_completeness auto
termination by (relation "measure (\<lambda>(w, s). length s)") (auto simp: le_imp_less_Suc length_dropWhile_le)

definition extractQuerySymbols :: "retrieval_filters \<Rightarrow> symbol_input list" where
  "extractQuerySymbols f =
     map (\<lambda>tag. \<lparr>sy_symbol = tag, sy_field = TagField\<rparr>) (rf_tags f) @
     (case truthy (map_option js_trim (rf_query f)) of
        None \<Rightarrow> []
      | Some query \<Rightarrow>
          let tokens = split_spaces [] query
          in \<lparr>sy_symbol = query, sy_field = KeywordField\<rparr> #
             (if 1 < length tokens then map (\<lambda>token. \<lparr>sy_symbol = token, sy_field = KeywordField\<rparr>) tokens else []))"

definition resolution_entity :: "symbol_resolution \<Rightarrow> string option" where
  "resolution_entity r = (case r of Resolved _ entity _ _ \<Rightarrow> Some (ce_id entity) | Unresolved _ _ \<Rightarrow> None)"

text \<open>The loop ends as soon as the cap is reached after a memory was taken.\<close>

fun live_memories :: "(string \<Rightarrow> memory option) \<Rightarrow> nat \<Rightarrow> string list \<Rightarrow> memory list \<Rightarrow> memory list" where
  "live_memories memoryMap cap [] result = result"
| "live_memories memoryMap cap (i # ids) result =
     (case memoryMap i of
        None \<Rightarrow> live_memories memoryMap cap ids result
      | Some m \<Rightarrow>
          if m_archived m then live_memories memoryMap cap ids result
          else let result' = result @ [m]
               in if cap \<le> length result' then result' else live_memories memoryMap cap ids result')"

definition entityCandidates :: "'a entity_db_scheme \<Rightarrow> candidate_source" where
  "entityCandidates db f cache =
     (let symbols = extractQuerySymbols f;
          entityIds = (if symbols = [] then []
            else js_set (List.map_filter resolution_entity (resolve SqlEntityRegistry db (rf_owner f) symbols)));
          orderedMemoryIds = (if entityIds = [] then [] else js_set (map me_memory (findByEntityIds db (rf_owner f) entityIds)))
      in (Inr (if orderedMemoryIds = [] then []
               else live_memories (by_id (findByIds db orderedMemoryIds (rf_owner f) (rf_workspace f)))
                      (rf_max f) orderedMemoryIds []), cache))"

subsection \<open>Fusion by reciprocal ranks\<close>

definition RRF_K :: nat where "RRF_K = 60"

fun SOURCE_CAPS :: "source_role \<Rightarrow> nat" where
  "SOURCE_CAPS EntityRole = 30"
| "SOURCE_CAPS _ = 50"

fun SOURCE_CAPS_WITH_GRAPH_VECTOR :: "source_role \<Rightarrow> nat" where
  "SOURCE_CAPS_WITH_GRAPH_VECTOR SqlRole = 40"
| "SOURCE_CAPS_WITH_GRAPH_VECTOR VectorRole = 40"
| "SOURCE_CAPS_WITH_GRAPH_VECTOR GraphRole = 30"
| "SOURCE_CAPS_WITH_GRAPH_VECTOR EntityRole = 20"

definition getRrfSourceCap :: "source_role \<Rightarrow> source_role list \<Rightarrow> nat" where
  "getRrfSourceCap role roles =
     (if GraphRole \<in> set roles \<and> VectorRole \<in> set roles then SOURCE_CAPS_WITH_GRAPH_VECTOR role else SOURCE_CAPS role)"

definition getRrfSourceWeight :: "source_role \<Rightarrow> rat" where
  "getRrfSourceWeight role = 1"

text \<open>The rank of a memory in an answer, from 1; the last occurrence counts.\<close>

definition buildRankMap :: "memory list \<Rightarrow> string \<Rightarrow> nat option" where
  "buildRankMap ms = map_of (rev (zip (map m_id ms) [1..<Suc (length ms)]))"

definition rrf_score :: "rat list \<Rightarrow> (string \<Rightarrow> nat option) list \<Rightarrow> string \<Rightarrow> rat" where
  "rrf_score weights rankMaps i =
     sum_list (map2 (\<lambda>w rankMap. let rank = nullish (rankMap i) 0
                      in if 0 < rank then w / of_nat (RRF_K + rank) else 0) weights rankMaps)"

definition by_fused :: "(string \<Rightarrow> rat) \<Rightarrow> string \<Rightarrow> string \<Rightarrow> int" where
  "by_fused score a b = (if score b < score a then -1 else if score a < score b then 1 else 0)"

definition applyRRF :: "source_role list \<Rightarrow> memory list list \<Rightarrow> memory list" where
  "applyRRF roles results =
     (let score = rrf_score (map getRrfSourceWeight roles) (map buildRankMap results);
          memoryIds = js_set (map m_id (concat results));
          allMemories = by_id (concat results)
      in map (\<lambda>i. the (allMemories i)) (js_sort (by_fused score) memoryIds))"

fun first_new :: "string list \<Rightarrow> memory list \<Rightarrow> memory list \<Rightarrow> memory list" where
  "first_new seen result [] = result"
| "first_new seen result (m # ms) =
     (if m_id m \<in> set seen then first_new seen result ms
      else let result' = result @ [m]
           in if RETRIEVAL_CANDIDATE_CAP \<le> length result' then result' else first_new (m_id m # seen) result' ms)"

text \<open>Every source is asked, whatever the others answer; the first that throws decides.\<close>

fun fetch_all ::
  "registered_source list \<Rightarrow> source_role list \<Rightarrow> retrieval_filters \<Rightarrow> edge_cache
     \<Rightarrow> (app_error + memory list list) \<times> edge_cache" where
  "fetch_all [] roles f cache = (Inr [], cache)"
| "fetch_all (s # ss) roles f cache =
     (case rs_source s (f\<lparr>rf_max := getRrfSourceCap (rs_role s) roles\<rparr>) cache of
        (answer, cache1) \<Rightarrow>
          (case fetch_all ss roles f cache1 of
             (answers, cache2) \<Rightarrow> (and_then answer (\<lambda>ms. and_then answers (\<lambda>rest. Inr (ms # rest))), cache2)))"

definition compositeCandidates :: "registered_source list \<Rightarrow> candidate_source" where
  "compositeCandidates sources f cache =
     (let roles = map rs_role sources
      in case fetch_all sources roles f cache of
           (answers, cache') \<Rightarrow> (and_then answers (\<lambda>results. Inr (first_new [] [] (applyRRF roles results))), cache'))"

subsection \<open>Retriever\<close>

record retrieval_request =
  rq_scope :: memory_scope
  rq_project :: "string option"
  rq_query :: "string option"
  rq_tags :: "string list"
  rq_levels :: "string list"
  rq_limit :: "nat option"

definition DEFAULT_RETRIEVE_LIMIT :: nat where "DEFAULT_RETRIEVE_LIMIT = 20"
definition MAX_RETRIEVE_LIMIT :: nat where "MAX_RETRIEVE_LIMIT = 50"

definition request_filters :: "retrieval_request \<Rightarrow> retrieval_filters" where
  "request_filters request =
     (let limit = min (nullish (rq_limit request) DEFAULT_RETRIEVE_LIMIT) MAX_RETRIEVE_LIMIT
      in \<lparr>rf_owner = ms_owner (rq_scope request), rf_workspace = workspaceIdFromScope (rq_scope request),
          rf_project = rq_project request, rf_tags = rq_tags request, rf_levels = rq_levels request,
          rf_query = rq_query request, rf_importance = None, rf_archived = Some False,
          rf_max = min (min (max (limit * 3) limit) RETRIEVAL_SQL_CAP) RETRIEVAL_CANDIDATE_CAP\<rparr>)"

definition retrieve :: "candidate_source \<Rightarrow> retrieval_request \<Rightarrow> edge_cache \<Rightarrow> (app_error + memory list) \<times> edge_cache" where
  "retrieve source request cache = source (request_filters request) cache"

subsection \<open>Wiring\<close>

text \<open>
  The flags, and what the platform provides: an embedding provider, and the vector store over the
  database. \<open>wi_lexical\<close> is the source of an external search provider, in place of SQL.
\<close>

record retrieval_wiring =
  wi_hybrid :: bool
  wi_graph :: bool
  wi_entities :: bool
  wi_vector_seeds :: bool
  wi_embed :: "(string \<Rightarrow> app_error + rat list option) option"
  wi_lexical :: "candidate_source option"
  wi_graph_config :: graph_retrieval_config

definition lexical_source :: "retrieval_wiring \<Rightarrow> (string \<Rightarrow> string \<Rightarrow> int) \<Rightarrow> 'a memory_db_scheme \<Rightarrow> candidate_source" where
  "lexical_source w lc db = nullish (wi_lexical w) (sqlCandidates lc db)"

definition vector_leg :: "retrieval_wiring \<Rightarrow> 'a embedding_db_scheme \<Rightarrow> candidate_source option" where
  "vector_leg w db = (if wi_hybrid w then map_option (\<lambda>provider. vectorCandidates provider db) (wi_embed w) else None)"

definition registered_sources ::
  "retrieval_wiring \<Rightarrow> (string \<Rightarrow> string \<Rightarrow> int) \<Rightarrow> 'a entity_db_scheme \<Rightarrow> registered_source list" where
  "registered_sources w lc db =
     [\<lparr>rs_role = SqlRole, rs_source = lexical_source w lc db\<rparr>] @
     (case vector_leg w db of None \<Rightarrow> [] | Some leg \<Rightarrow> [\<lparr>rs_role = VectorRole, rs_source = leg\<rparr>]) @
     (if wi_graph w
      then [\<lparr>rs_role = GraphRole, rs_source = graphSource (wi_graph_config w)
              (if wi_vector_seeds w then map_option (\<lambda>leg f. fst (leg f Map.empty)) (vector_leg w db) else None) lc db\<rparr>]
      else []) @
     (if wi_entities w then [\<lparr>rs_role = EntityRole, rs_source = entityCandidates db\<rparr>] else [])"

definition buildCompositeCandidateSource ::
  "retrieval_wiring \<Rightarrow> (string \<Rightarrow> string \<Rightarrow> int) \<Rightarrow> 'a entity_db_scheme \<Rightarrow> candidate_source option" where
  "buildCompositeCandidateSource w lc db =
     (let registered = registered_sources w lc db
      in if length registered = 1 \<and> wi_lexical w = None then None else Some (compositeCandidates registered))"

end
