(* ===== verification/Context_Package.thy ===== *)
theory Context_Package
  imports Retrieval
begin

section \<open>Parts of a context package\<close>

text \<open>
  What the context service puts together: the retrieval policies (\<^verbatim>\<open>src/src/memory/retrieval-policy\<close>), the text of a
  context (\<^verbatim>\<open>src/src/memory/context-builder.ts\<close>, \<^verbatim>\<open>prompt-builder.ts\<close>), the envelope with its confidence
  (\<^verbatim>\<open>src/src/memory/context-package-envelope.ts\<close>), the memo of ranked candidates
  (\<^verbatim>\<open>src/src/memory/retrieval-memo-cache.ts\<close>) and the two stores of package lifecycles
  (\<^verbatim>\<open>src/src/infrastructure/context\<close>).
\<close>

subsection \<open>Requests and plans\<close>

definition DEFAULT_CONTEXT_MAX_CHARS :: nat where "DEFAULT_CONTEXT_MAX_CHARS = 12000"
definition MAX_CONTEXT_MAX_CHARS :: nat where "MAX_CONTEXT_MAX_CHARS = 24000"
definition DEFAULT_RETRIEVAL_RANK_LIMIT :: nat where "DEFAULT_RETRIEVAL_RANK_LIMIT = 10"
definition DEFAULT_RETRIEVAL_MEMO_TTL_MS :: int where "DEFAULT_RETRIEVAL_MEMO_TTL_MS = 15000"
definition DEFAULT_RETRIEVAL_MEMO_MAX_ENTRIES :: nat where "DEFAULT_RETRIEVAL_MEMO_MAX_ENTRIES = 128"
definition RETRIEVAL_POLICY_VERSION :: string where "RETRIEVAL_POLICY_VERSION = ''1''"
definition TIGHT_BUDGET_CHARS :: nat where "TIGHT_BUDGET_CHARS = 2000"

datatype context_format = MarkdownFormat | XmlFormat

record context_options =
  co_max :: "nat option"
  co_summary_only :: "bool option"
  co_format :: "context_format option"

definition no_options :: context_options where
  "no_options = \<lparr>co_max = None, co_summary_only = None, co_format = None\<rparr>"

record build_request =
  br_project :: "string option"
  br_query :: "string option"
  br_tags :: "string list"
  br_levels :: "string list"
  br_limit :: "nat option"
  br_context :: "context_options option"
  br_identity :: "string option"
  br_ip :: "string option"

record retrieval_deployment =
  rd_hybrid :: bool
  rd_graph :: bool
  rd_max_chars :: nat

datatype retrieval_stage = MetadataStage | SummaryStage | BodyStage | RelationsStage | VectorStage | GraphStage

record retrieval_budget =
  bu_max_chars :: nat
  bu_max_memories :: nat
  bu_hydrate :: bool
  bu_expand :: bool

record retrieval_plan =
  pl_version :: string
  pl_stages :: "retrieval_stage list"
  pl_hydrate :: bool
  pl_budget :: retrieval_budget

record retrieval_hints =
  hi_access :: rat
  hi_importance :: rat
  hi_top :: int

definition request_options :: "build_request \<Rightarrow> context_options" where
  "request_options request = nullish (br_context request) no_options"

definition summary_only :: "build_request \<Rightarrow> bool" where
  "summary_only request \<longleftrightarrow> co_summary_only (request_options request) \<noteq> Some False"

definition requested_chars :: "build_request \<Rightarrow> retrieval_deployment \<Rightarrow> nat" where
  "requested_chars request deployment =
     min (nullish (co_max (request_options request)) DEFAULT_CONTEXT_MAX_CHARS) (rd_max_chars deployment)"

type_synonym retrieval_policy =
  "build_request \<Rightarrow> nat \<Rightarrow> retrieval_deployment \<Rightarrow> retrieval_hints option \<Rightarrow> retrieval_plan"

definition buildAdaptiveRetrievalHints :: "scored_memory list \<Rightarrow> retrieval_hints option" where
  "buildAdaptiveRetrievalHints ranked =
     (if ranked = [] then None
      else Some \<lparr>hi_access = of_int (sum_list (map m_access_count ranked)) / of_nat (length ranked),
                 hi_importance = of_int (sum_list (map m_importance ranked)) / of_nat (length ranked),
                 hi_top = foldl max 0 (map m_importance ranked)\<rparr>)"

definition DefaultRetrievalPolicy :: "string \<Rightarrow> retrieval_policy" where
  "DefaultRetrievalPolicy version request rankedCount deployment hints =
     (let maxChars = requested_chars request deployment;
          asked = nullish (br_limit request) DEFAULT_RETRIEVAL_RANK_LIMIT;
          maxMemories = (if maxChars < TIGHT_BUDGET_CHARS \<and> 0 < rankedCount
                         then max 1 (min asked ((asked + 1) div 2)) else asked);
          hydrateBody = (\<not> summary_only request);
          stages = [MetadataStage, SummaryStage] @ (if hydrateBody then [BodyStage] else []) @
                   (if rd_graph deployment then [RelationsStage] else []) @
                   (if rd_hybrid deployment then [VectorStage] else []) @
                   (if rd_graph deployment then [GraphStage] else [])
      in \<lparr>pl_version = version, pl_stages = stages, pl_hydrate = hydrateBody,
          pl_budget = \<lparr>bu_max_chars = maxChars, bu_max_memories = maxMemories, bu_hydrate = hydrateBody,
                       bu_expand = rd_graph deployment \<and> RelationsStage \<in> set stages\<rparr>\<rparr>)"

definition AdaptiveRetrievalPolicy :: "string \<Rightarrow> retrieval_policy" where
  "AdaptiveRetrievalPolicy version request rankedCount deployment hints =
     (let base = DefaultRetrievalPolicy version request rankedCount deployment hints;
          renamed = base\<lparr>pl_version := ''adaptive-'' @ pl_version base\<rparr>;
          budget = pl_budget base
      in case hints of
           None \<Rightarrow> renamed
         | Some h \<Rightarrow>
             let memories1 = (if 3 \<le> hi_access h \<and> bu_max_memories budget < rankedCount
                              then min rankedCount (bu_max_memories budget + 2) else bu_max_memories budget);
                 chars = (if 70 \<le> hi_importance h then min (rd_max_chars deployment) (bu_max_chars budget + 1000)
                          else bu_max_chars budget);
                 memories2 = (if 90 \<le> hi_top h then max memories1 (min 5 rankedCount) else memories1)
             in renamed\<lparr>pl_budget := budget\<lparr>bu_max_memories := memories2, bu_max_chars := chars\<rparr>\<rparr>)"

definition LegacyRetrievalPolicy :: retrieval_policy where
  "LegacyRetrievalPolicy request rankedCount deployment hints =
     (let hydrateBody = (\<not> summary_only request)
      in \<lparr>pl_version = ''legacy'', pl_stages = (if hydrateBody then [SummaryStage, BodyStage] else [SummaryStage]),
          pl_hydrate = hydrateBody,
          pl_budget = \<lparr>bu_max_chars = requested_chars request deployment,
                       bu_max_memories = nullish (br_limit request) DEFAULT_RETRIEVAL_RANK_LIMIT,
                       bu_hydrate = hydrateBody, bu_expand = False\<rparr>\<rparr>)"

definition createRetrievalPolicy :: "string \<Rightarrow> string \<Rightarrow> retrieval_policy" where
  "createRetrievalPolicy name version =
     (if name = ''legacy'' then LegacyRetrievalPolicy
      else if name = ''adaptive'' then AdaptiveRetrievalPolicy version else DefaultRetrievalPolicy version)"

subsection \<open>Neighbours of the selected memories\<close>

definition DEFAULT_SEED_COUNT :: nat where "DEFAULT_SEED_COUNT = 3"

fun take_related :: "string \<Rightarrow> nat \<Rightarrow> relation_row list \<Rightarrow> string list \<times> string list \<Rightarrow> string list \<times> string list" where
  "take_related seed cap [] st = st"
| "take_related seed cap (r # rs) (seen, found) =
     (let neighborId = (if rl_source r = seed then rl_target r else rl_source r)
      in if neighborId \<in> set seen then take_related seed cap rs (seen, found)
         else let st' = (neighborId # seen, found @ [neighborId])
              in if cap \<le> length (snd st') then st' else take_related seed cap rs st')"

fun related_of_seeds ::
  "(string \<Rightarrow> relation_row list) \<Rightarrow> nat \<Rightarrow> string list \<Rightarrow> string list \<times> string list \<Rightarrow> string list \<times> string list" where
  "related_of_seeds links cap [] st = st"
| "related_of_seeds links cap (seed # seeds) st =
     (let st' = take_related seed cap (links seed) st
      in if cap \<le> length (snd st') then st' else related_of_seeds links cap seeds st')"

definition expandWithRelationNeighbors ::
  "'a relation_db_scheme \<Rightarrow> memory_scope \<Rightarrow> scored_memory list \<Rightarrow> nat \<Rightarrow> scored_memory list" where
  "expandWithRelationNeighbors db scope ranked cap =
     (if ranked = [] \<or> cap = 0 then ranked
      else
        let workspaceId = workspaceIdFromScope scope;
            seeds = take DEFAULT_SEED_COUNT ranked;
            neighborIds = snd (related_of_seeds (\<lambda>i. findByMemory db i (ms_owner scope) workspaceId) cap
                            (map m_id seeds) (map m_id ranked, []))
        in if neighborIds = [] then ranked
           else ranked @ map (\<lambda>m. with_score (m\<lparr>m_content := []\<rparr>) 0) (findByIds db neighborIds (ms_owner scope) workspaceId))"

subsection \<open>Text of a context\<close>

abbreviation NL :: char where "NL \<equiv> CHR 0x0A"

definition context_codename :: "scored_memory \<Rightarrow> string" where
  "context_codename m = nullish (m_codename m) (take 8 (m_id m))"

definition truncateContent :: "string \<Rightarrow> int \<Rightarrow> string" where
  "truncateContent content limit =
     (if limit \<le> 0 then [] else if int (length content) \<le> limit then content
      else take (nat (max 0 (limit - 3))) content @ ''...'')"

definition block_header :: "scored_memory \<Rightarrow> string" where
  "block_header m =
     ''### ['' @ context_codename m @ ''] '' @ m_title m @ '' (importance: '' @ js_int_string (m_importance m) @ '')''"

definition summary_line :: "scored_memory \<Rightarrow> string" where
  "summary_line m = (if m_summary m = [] then [] else ''> '' @ m_summary m)"

definition CONTEXT_TITLE :: string where "CONTEXT_TITLE = ''## Relevant Memory Context''"

definition memory_block :: "nat \<Rightarrow> bool \<Rightarrow> scored_memory \<Rightarrow> nat \<Rightarrow> string" where
  "memory_block maxChars summaryOnly m used =
     (let header = block_header m;
          body = (if summaryOnly then []
                  else truncateContent (m_content m) (int maxChars - int used - int (length header) - 50))
      in js_join [NL] (filter (\<lambda>s. s \<noteq> []) [header, summary_line m, body]))"

definition summary_block :: "scored_memory \<Rightarrow> string" where
  "summary_block m = block_header m @ [NL] @ summary_line m"

text \<open>What the loop pushes when the whole block no longer fits, before it ends.\<close>

definition last_block :: "nat \<Rightarrow> scored_memory \<Rightarrow> nat \<Rightarrow> string list" where
  "last_block maxChars m used =
     (if summary_line m \<noteq> [] \<and> used + length (summary_block m) + 2 \<le> maxChars then [summary_block m, []] else [])"

fun markdown_loop :: "nat \<Rightarrow> bool \<Rightarrow> scored_memory list \<Rightarrow> string list \<Rightarrow> nat \<Rightarrow> string list" where
  "markdown_loop maxChars summaryOnly [] parts used = parts"
| "markdown_loop maxChars summaryOnly (m # ms) parts used =
     (let block = memory_block maxChars summaryOnly m used
      in if maxChars < used + length block + 2 then parts @ last_block maxChars m used
         else markdown_loop maxChars summaryOnly ms (parts @ [block, []]) (used + length block + 2))"

definition buildMarkdown :: "scored_memory list \<Rightarrow> nat \<Rightarrow> bool \<Rightarrow> string" where
  "buildMarkdown ms maxChars summaryOnly =
     js_trim (js_join [NL] (markdown_loop maxChars summaryOnly ms [CONTEXT_TITLE, []]
       (length (js_join [NL] [CONTEXT_TITLE, []]))))"

definition escape_char :: "char \<Rightarrow> string" where
  "escape_char c =
     (if c = CHR ''&'' then ''&amp;'' else if c = CHR ''<'' then ''&lt;''
      else if c = CHR ''>'' then ''&gt;'' else if c = CHR 0x22 then ''&quot;'' else [c])"

definition escapeXml :: "string \<Rightarrow> string" where
  "escapeXml value = concat (map escape_char value)"

definition xml_block :: "bool \<Rightarrow> scored_memory \<Rightarrow> string" where
  "xml_block summaryOnly m =
     ''<memory codename='' @ [CHR 0x22] @ context_codename m @ [CHR 0x22] @ '' importance='' @ [CHR 0x22] @
     js_int_string (m_importance m) @ [CHR 0x22] @ ''><title>'' @ escapeXml (m_title m) @ ''</title><summary>'' @
     escapeXml (m_summary m) @ ''</summary>'' @
     (if summaryOnly then [] else ''<content>'' @ escapeXml (truncateContent (m_content m) 500) @ ''</content>'') @ ''</memory>''"

fun xml_loop :: "nat \<Rightarrow> bool \<Rightarrow> scored_memory list \<Rightarrow> string list \<Rightarrow> nat \<Rightarrow> string list" where
  "xml_loop maxChars summaryOnly [] parts used = parts"
| "xml_loop maxChars summaryOnly (m # ms) parts used =
     (let block = xml_block summaryOnly m
      in if maxChars < used + length block + 16 then parts
         else xml_loop maxChars summaryOnly ms (parts @ [block]) (used + length block))"

definition buildXml :: "scored_memory list \<Rightarrow> nat \<Rightarrow> bool \<Rightarrow> string" where
  "buildXml ms maxChars summaryOnly =
     concat (xml_loop maxChars summaryOnly ms [''<memory_context>''] (length ''<memory_context>'') @ [''</memory_context>''])"

definition buildContextText :: "scored_memory list \<Rightarrow> context_options \<Rightarrow> string" where
  "buildContextText ms options =
     (let maxChars = min (nullish (co_max options) DEFAULT_CONTEXT_MAX_CHARS) 24000;
          summaryOnly = nullish (co_summary_only options) False
      in if co_format options = Some XmlFormat then buildXml ms maxChars summaryOnly
         else buildMarkdown ms maxChars summaryOnly)"

subsection \<open>Prompt\<close>

definition DEFAULT_SYSTEM_ROLE :: string where
  "DEFAULT_SYSTEM_ROLE =
     ''You are a coding assistant with access to curated project memory.'' @ [NL] @
     ''Use the provided context as ground truth. Cite memory codenames when referencing facts.'' @ [NL] @
     ''If the context is insufficient, say so clearly instead of guessing.''"

definition buildPromptText :: "string option \<Rightarrow> string \<Rightarrow> string \<Rightarrow> string option \<Rightarrow> string \<times> string" where
  "buildPromptText systemRole contextBlock userTask projectId =
     (let projectLine = (case truthy projectId of None \<Rightarrow> [] | Some p \<Rightarrow> [NL] @ ''Active project: '' @ p)
      in (nullish systemRole DEFAULT_SYSTEM_ROLE @ projectLine,
          ''## Task'' @ [NL] @ userTask @ [NL, NL] @ ''## Memory Context'' @ [NL] @ contextBlock))"

subsection \<open>Envelope\<close>

datatype package_confidence = HighConfidence | MediumConfidence | LowConfidence

datatype confidence_model = HeuristicModel | ProductModel

datatype package_state = PackageActive | PackageRetired | PackageArchived

record package_envelope =
  pk_id :: string
  pk_owner :: string
  pk_created :: string
  pk_confidence :: package_confidence
  pk_model :: confidence_model
  pk_state :: package_state
  pk_labels :: "string list"
  pk_query :: string

definition canTransitionContextPackageLifecycle :: "package_state \<Rightarrow> package_state \<Rightarrow> bool" where
  "canTransitionContextPackageLifecycle from to \<longleftrightarrow>
     (if from = to then False
      else if from = PackageActive \<and> (to = PackageRetired \<or> to = PackageArchived) then True
      else from = PackageRetired \<and> to = PackageArchived)"

definition bandFromUnitScore :: "rat \<Rightarrow> package_confidence" where
  "bandFromUnitScore score =
     (if 65 / 100 \<le> score then HighConfidence else if 35 / 100 \<le> score then MediumConfidence else LowConfidence)"

definition clamp_unit :: "rat \<Rightarrow> rat" where
  "clamp_unit value = (if value \<le> 0 then 0 else if 1 \<le> value then 1 else value)"

definition normalizeRelevance :: "rat \<Rightarrow> rat" where
  "normalizeRelevance score = clamp_unit (score / (3 / 2))"

definition deriveContextConfidenceHeuristic :: "scored_memory list \<Rightarrow> package_confidence" where
  "deriveContextConfidenceHeuristic ms =
     (case ms of [] \<Rightarrow> LowConfidence
      | m # _ \<Rightarrow> if 7 / 10 \<le> sm_relevance m then HighConfidence
                 else if 3 / 10 \<le> sm_relevance m then MediumConfidence else LowConfidence)"

definition source_label :: "scored_memory \<Rightarrow> string" where
  "source_label m = str_or (js_trim (nullish (m_codename m) [])) (str_or (js_trim (m_title m)) (m_id m))"

definition average :: "(scored_memory \<Rightarrow> rat) \<Rightarrow> scored_memory list \<Rightarrow> rat" where
  "average f ms = sum_list (map f ms) / of_nat (length ms)"

text \<open>The six signals of a list that is not empty.\<close>

definition signal_coverage :: "scored_memory list \<Rightarrow> rat" where
  "signal_coverage ms = clamp_unit (of_nat (length ms) / 3)"

definition signal_diversity :: "scored_memory list \<Rightarrow> rat" where
  "signal_diversity ms = clamp_unit (of_nat (length (remdups (map source_label ms))) / of_nat (length ms))"

definition signal_freshness :: "(string \<Rightarrow> int option) \<Rightarrow> int \<Rightarrow> string \<Rightarrow> rat" where
  "signal_freshness tm now updatedAt =
     (case daysSince tm updatedAt now of
        None \<Rightarrow> 1 / 5 | Some ageDays \<Rightarrow> if ageDays \<le> 30 then 1 else if ageDays \<le> 90 then 1 / 2 else 1 / 5)"

definition confidence_score :: "(string \<Rightarrow> int option) \<Rightarrow> int \<Rightarrow> scored_memory list \<Rightarrow> rat" where
  "confidence_score tm now ms =
     normalizeRelevance (sm_relevance (hd ms)) * (35 / 100) +
     average (\<lambda>m. normalizeRelevance (sm_relevance m)) ms * (20 / 100) +
     signal_coverage ms * (15 / 100) +
     average (\<lambda>m. clamp_unit (of_int (m_importance m) / 100)) ms * (15 / 100) +
     signal_diversity ms * (5 / 100) +
     signal_freshness tm now (m_updated (hd ms)) * (10 / 100)"

definition deriveContextConfidenceProduct :: "(string \<Rightarrow> int option) \<Rightarrow> int \<Rightarrow> scored_memory list \<Rightarrow> package_confidence" where
  "deriveContextConfidenceProduct tm now ms = (if ms = [] then LowConfidence else bandFromUnitScore (confidence_score tm now ms))"

definition indexed_label :: "nat \<Rightarrow> scored_memory \<Rightarrow> string" where
  "indexed_label index m =
     (let label = source_label m in if 0 < length label then label else ''memory-'' @ js_nat_string (index + 1))"

definition buildSourceLabels :: "scored_memory list \<Rightarrow> string list" where
  "buildSourceLabels ms = map2 indexed_label [0..<length ms] ms"

definition createContextPackageEnvelope ::
  "(string \<Rightarrow> int option) \<Rightarrow> memory_scope \<Rightarrow> string \<Rightarrow> scored_memory list \<Rightarrow> confidence_model option \<Rightarrow> int \<Rightarrow> mint
     \<Rightarrow> package_envelope" where
  "createContextPackageEnvelope tm scope query ms model now m =
     (let confidenceModel = nullish model ProductModel
      in \<lparr>pk_id = mint_id m, pk_owner = ms_owner scope, pk_created = mint_now m,
          pk_confidence = (if confidenceModel = HeuristicModel then deriveContextConfidenceHeuristic ms
                           else deriveContextConfidenceProduct tm now ms),
          pk_model = confidenceModel, pk_state = PackageActive, pk_labels = buildSourceLabels ms, pk_query = query\<rparr>)"

subsection \<open>Memo of ranked candidates\<close>

text \<open>A map in insertion order: its first key is the one that was touched longest ago.\<close>

record memo_entry =
  mm_expires :: int
  mm_ranked :: "scored_memory list"
  mm_total :: nat

type_synonym retrieval_memo = "(string \<times> memo_entry) list"

record memo_config =
  mo_ttl :: int
  mo_max :: nat

definition map_delete :: "string \<Rightarrow> (string \<times> 'v) list \<Rightarrow> (string \<times> 'v) list" where
  "map_delete key entries = filter (\<lambda>(k, e). k \<noteq> key) entries"

fun map_set :: "string \<Rightarrow> 'v \<Rightarrow> (string \<times> 'v) list \<Rightarrow> (string \<times> 'v) list" where
  "map_set key v [] = [(key, v)]"
| "map_set key v ((k, e) # entries) = (if k = key then (k, v) # entries else (k, e) # map_set key v entries)"

definition memo_get :: "string \<Rightarrow> int \<Rightarrow> retrieval_memo \<Rightarrow> memo_entry option \<times> retrieval_memo" where
  "memo_get key now entries =
     (case map_of entries key of
        None \<Rightarrow> (None, entries)
      | Some e \<Rightarrow> if mm_expires e \<le> now then (None, map_delete key entries)
                  else (Some e, map_set key e (map_delete key entries)))"

fun memo_evict :: "nat \<Rightarrow> retrieval_memo \<Rightarrow> retrieval_memo" where
  "memo_evict maxEntries [] = []"
| "memo_evict maxEntries (e # entries) =
     (if length (e # entries) < maxEntries then e # entries else memo_evict maxEntries entries)"

definition memo_set :: "memo_config \<Rightarrow> string \<Rightarrow> scored_memory list \<Rightarrow> nat \<Rightarrow> int \<Rightarrow> retrieval_memo \<Rightarrow> retrieval_memo" where
  "memo_set config key ranked totalCandidates now entries =
     (if mo_ttl config \<le> 0 \<or> mo_max config = 0 then entries
      else map_set key \<lparr>mm_expires = now + mo_ttl config, mm_ranked = ranked, mm_total = totalCandidates\<rparr>
             (memo_evict (mo_max config) entries))"

record memo_parts =
  mp_owner :: string
  mp_workspace :: "string option"
  mp_project :: "string option"
  mp_query :: "string option"
  mp_tags :: "string list"
  mp_levels :: "string list"
  mp_limit :: nat
  mp_version :: "int option"

abbreviation UNIT_SEP :: char where "UNIT_SEP \<equiv> CHR 0x1F"

definition memo_fields :: "memo_parts \<Rightarrow> string list" where
  "memo_fields p =
     [mp_owner p, nullish (mp_workspace p) [], nullish (mp_project p) [], nullish (mp_query p) [],
      js_join '','' (mp_tags p), js_join '','' (mp_levels p), js_nat_string (mp_limit p),
      (case mp_version p of None \<Rightarrow> ''none'' | Some v \<Rightarrow> js_int_string v)]"

definition buildRetrievalMemoKey :: "memo_parts \<Rightarrow> string" where
  "buildRetrievalMemoKey p = js_join [UNIT_SEP] (memo_fields p)"

subsection \<open>Stores of lifecycles\<close>

record package_record =
  lp_package :: string
  lp_owner :: string
  lp_state :: package_state
  lp_created :: string
  lp_updated :: string

record 's lifecycle_store =
  lc_insert :: "string \<Rightarrow> string \<Rightarrow> string \<Rightarrow> 's \<Rightarrow> 's"
  lc_get :: "'s \<Rightarrow> string \<Rightarrow> string \<Rightarrow> package_record option"
  lc_update :: "string \<Rightarrow> string \<Rightarrow> package_state \<Rightarrow> string \<Rightarrow> 's \<Rightarrow> bool \<times> 's"

definition active_record :: "string \<Rightarrow> string \<Rightarrow> string \<Rightarrow> package_record" where
  "active_record packageId ownerId createdAt =
     \<lparr>lp_package = packageId, lp_owner = ownerId, lp_state = PackageActive, lp_created = createdAt, lp_updated = createdAt\<rparr>"

definition memory_key :: "string \<Rightarrow> string \<Rightarrow> string" where
  "memory_key ownerId packageId = ownerId @ ''::'' @ packageId"

definition InMemoryContextPackageLifecycleStore :: "(string \<Rightarrow> package_record option) lifecycle_store" where
  "InMemoryContextPackageLifecycleStore =
     \<lparr>lc_insert = \<lambda>packageId ownerId createdAt rows.
        (if rows (memory_key ownerId packageId) \<noteq> None then rows
         else rows(memory_key ownerId packageId \<mapsto> active_record packageId ownerId createdAt)),
      lc_get = \<lambda>rows ownerId packageId. rows (memory_key ownerId packageId),
      lc_update = \<lambda>ownerId packageId state updatedAt rows.
        (case rows (memory_key ownerId packageId) of
           None \<Rightarrow> (False, rows)
         | Some existing \<Rightarrow> (True, rows(memory_key ownerId packageId \<mapsto> existing\<lparr>lp_state := state, lp_updated := updatedAt\<rparr>)))\<rparr>"

record context_db = learning_db +
  context_packages :: "package_record list"

definition package_hit :: "string \<Rightarrow> string \<Rightarrow> package_record \<Rightarrow> bool" where
  "package_hit ownerId packageId r \<longleftrightarrow> lp_owner r = ownerId \<and> lp_package r = packageId"

definition SqlContextPackageLifecycleStore :: "'a context_db_scheme lifecycle_store" where
  "SqlContextPackageLifecycleStore =
     \<lparr>lc_insert = \<lambda>packageId ownerId createdAt db.
        (if sql_first (\<lambda>r. lp_package r = packageId) (context_packages db) \<noteq> None then db
         else db\<lparr>context_packages := context_packages db @ [active_record packageId ownerId createdAt]\<rparr>),
      lc_get = \<lambda>db ownerId packageId. sql_first (package_hit ownerId packageId) (context_packages db),
      lc_update = \<lambda>ownerId packageId state updatedAt db.
        (0 < sql_count (package_hit ownerId packageId) (context_packages db),
         db\<lparr>context_packages := sql_update (package_hit ownerId packageId)
               (\<lambda>r. r\<lparr>lp_state := state, lp_updated := updatedAt\<rparr>) (context_packages db)\<rparr>)\<rparr>"

end
