(* ===== verification/Context_Service.thy ===== *)
theory Context_Service
  imports Context_Package
begin

section \<open>Context service\<close>

text \<open>
  \<^verbatim>\<open>src/src/memory/context.service.ts\<close>: a request is answered with a context package made of the best
  memories of the caller's scope, or with a prompt around it; the packages then move through their
  lifecycle. The state holds the database, the edges the graph adapter has cached, the memo of ranked
  candidates and the accesses the auditor recorded; the clocks and the identifier a call draws are
  the record \<open>context_call\<close>.
\<close>

record access_entry =
  ax_memory :: string
  ax_owner :: string
  ax_workspace :: "string option"
  ax_identity :: "string option"
  ax_ip :: "string option"

record context_state =
  cx_db :: context_db
  cx_edges :: edge_cache
  cx_memo :: retrieval_memo
  cx_audit :: "access_entry list"

text \<open>What the constructor is given; an absent dependency is \<open>False\<close> or \<open>None\<close>.\<close>

record context_deps =
  cd_wiring :: retrieval_wiring
  cd_policy :: retrieval_policy
  cd_deployment :: retrieval_deployment
  cd_learning :: bool
  cd_relations :: bool
  cd_neighbor_cap :: nat
  cd_lifecycle :: bool
  cd_memo :: "memo_config option"
  cd_audit :: bool

record context_call =
  cl_rank :: ranking_env
  cl_read :: int
  cl_write :: int
  cl_access :: string
  cl_minted :: int
  cl_package :: mint

datatype memo_status = MemoHit | MemoMiss | MemoBypass

record build_result =
  bx_package :: package_envelope
  bx_context :: string
  bx_memories :: "scored_memory list"
  bx_total :: nat
  bx_plan :: retrieval_plan
  bx_memo :: memo_status

definition createProgressiveDeployment :: "bool \<Rightarrow> bool \<Rightarrow> retrieval_deployment" where
  "createProgressiveDeployment hybrid graph =
     \<lparr>rd_hybrid = hybrid, rd_graph = graph, rd_max_chars = MAX_CONTEXT_MAX_CHARS\<rparr>"

text \<open>\<open>createContextService\<close> on a platform with a database.\<close>

definition createContextService :: "retrieval_wiring \<Rightarrow> string \<Rightarrow> string \<Rightarrow> bool \<Rightarrow> nat \<Rightarrow> bool \<Rightarrow> context_deps" where
  "createContextService w policyName policyVersion learning neighborCap audited =
     \<lparr>cd_wiring = w, cd_policy = createRetrievalPolicy policyName policyVersion,
      cd_deployment = createProgressiveDeployment (wi_hybrid w) (wi_graph w),
      cd_learning = learning, cd_relations = True, cd_neighbor_cap = neighborCap, cd_lifecycle = True,
      cd_memo = Some \<lparr>mo_ttl = DEFAULT_RETRIEVAL_MEMO_TTL_MS, mo_max = DEFAULT_RETRIEVAL_MEMO_MAX_ENTRIES\<rparr>,
      cd_audit = audited\<rparr>"

definition candidate_source_of :: "context_deps \<Rightarrow> (string \<Rightarrow> string \<Rightarrow> int) \<Rightarrow> context_db \<Rightarrow> candidate_source" where
  "candidate_source_of deps lc db = nullish (buildCompositeCandidateSource (cd_wiring deps) lc db) (sqlCandidates lc db)"

definition memo_parts_of :: "memory_scope \<Rightarrow> build_request \<Rightarrow> ranking_snapshot option \<Rightarrow> memo_parts" where
  "memo_parts_of scope request snapshot =
     \<lparr>mp_owner = ms_owner scope, mp_workspace = ms_workspace scope, mp_project = br_project request,
      mp_query = br_query request, mp_tags = br_tags request, mp_levels = br_levels request,
      mp_limit = nullish (br_limit request) DEFAULT_RETRIEVAL_RANK_LIMIT, mp_version = map_option rk_version snapshot\<rparr>"

definition retrieval_of :: "memory_scope \<Rightarrow> build_request \<Rightarrow> retrieval_request" where
  "retrieval_of scope request =
     \<lparr>rq_scope = scope, rq_project = br_project request, rq_query = br_query request,
      rq_tags = br_tags request, rq_levels = br_levels request, rq_limit = br_limit request\<rparr>"

definition first_of :: "'a list \<Rightarrow> 'a option" where
  "first_of xs = (case xs of [] \<Rightarrow> None | x # _ \<Rightarrow> Some x)"

text \<open>A miss: candidates are fetched and ranked, and the ranking goes into the memo.\<close>

definition rank_candidates ::
  "context_deps \<Rightarrow> context_call \<Rightarrow> memory_scope \<Rightarrow> build_request \<Rightarrow> ranking_snapshot option \<Rightarrow> string \<Rightarrow> context_state
     \<Rightarrow> (app_error + scored_memory list \<times> nat \<times> memo_status) \<times> context_state" where
  "rank_candidates deps call scope request snapshot key st =
     (case retrieve (candidate_source_of deps (rv_compare (cl_rank call)) (cx_db st)) (retrieval_of scope request) (cx_edges st) of
        (answer, edges) \<Rightarrow>
          then_st (answer, st\<lparr>cx_edges := edges\<rparr>) (\<lambda>candidates st1.
            let ranked = rank (cl_rank call) candidates \<lparr>qc_q = br_query request, qc_tag = first_of (br_tags request)\<rparr>
                           (nullish (br_limit request) DEFAULT_RETRIEVAL_RANK_LIMIT) snapshot;
                n = length candidates
            in (case cd_memo deps of
                  None \<Rightarrow> (Inr (ranked, n, MemoBypass), st1)
                | Some config \<Rightarrow> (Inr (ranked, n, MemoMiss),
                    st1\<lparr>cx_memo := memo_set config key ranked n (cl_write call) (cx_memo st1)\<rparr>))))"

definition rank_or_recall ::
  "context_deps \<Rightarrow> context_call \<Rightarrow> memory_scope \<Rightarrow> build_request \<Rightarrow> ranking_snapshot option \<Rightarrow> context_state
     \<Rightarrow> (app_error + scored_memory list \<times> nat \<times> memo_status) \<times> context_state" where
  "rank_or_recall deps call scope request snapshot st =
     (let key = buildRetrievalMemoKey (memo_parts_of scope request snapshot);
          (hit, memo) = (if cd_memo deps = None then (None, cx_memo st) else memo_get key (cl_read call) (cx_memo st));
          st1 = st\<lparr>cx_memo := memo\<rparr>
      in case hit of
           Some e \<Rightarrow> (Inr (mm_ranked e, mm_total e, MemoHit), st1)
         | None \<Rightarrow> rank_candidates deps call scope request snapshot key st1)"

definition hydrateRankedMemories :: "context_db \<Rightarrow> memory_scope \<Rightarrow> scored_memory list \<Rightarrow> scored_memory list" where
  "hydrateRankedMemories db scope ranked =
     (if ranked = [] then ranked
      else let contentById = by_id (findByIdsWithContent db (map m_id ranked) (ms_owner scope) (workspaceIdFromScope scope))
           in map (\<lambda>m. case contentById (m_id m) of None \<Rightarrow> m | Some h \<Rightarrow> m\<lparr>m_content := m_content h\<rparr>) ranked)"

definition selected_memories ::
  "context_deps \<Rightarrow> memory_scope \<Rightarrow> retrieval_plan \<Rightarrow> context_db \<Rightarrow> scored_memory list \<Rightarrow> scored_memory list" where
  "selected_memories deps scope plan db ranked =
     (let selected = take (bu_max_memories (pl_budget plan)) ranked
      in if bu_expand (pl_budget plan) \<and> RelationsStage \<in> set (pl_stages plan) \<and> cd_relations deps
         then expandWithRelationNeighbors db scope selected (cd_neighbor_cap deps) else selected)"

definition access_of :: "memory_scope \<Rightarrow> build_request \<Rightarrow> scored_memory \<Rightarrow> access_entry" where
  "access_of scope request m =
     \<lparr>ax_memory = m_id m, ax_owner = ms_owner scope, ax_workspace = workspaceIdFromScope scope,
      ax_identity = br_identity request, ax_ip = br_ip request\<rparr>"

text \<open>What a request leaves behind: the accesses are counted and audited, and the package is registered.\<close>

definition settle_build ::
  "context_deps \<Rightarrow> context_call \<Rightarrow> memory_scope \<Rightarrow> build_request \<Rightarrow> scored_memory list \<Rightarrow> package_envelope \<Rightarrow> context_state
     \<Rightarrow> context_state" where
  "settle_build deps call scope request selected envelope st =
     (let db1 = recordAccessBatch (cx_db st) (map m_id selected) (ms_owner scope) (workspaceIdFromScope scope) (cl_access call);
          audit = (if cd_audit deps then map (access_of scope request) selected else []);
          db2 = (if cd_lifecycle deps
                 then lc_insert SqlContextPackageLifecycleStore (pk_id envelope) (pk_owner envelope) (pk_created envelope) db1
                 else db1)
      in st\<lparr>cx_db := db2, cx_audit := cx_audit st @ audit\<rparr>)"

definition buildContext ::
  "context_deps \<Rightarrow> context_call \<Rightarrow> memory_scope \<Rightarrow> build_request \<Rightarrow> context_state
     \<Rightarrow> (app_error + build_result) \<times> context_state" where
  "buildContext deps call scope request st =
     (let snapshot = (if cd_learning deps then getActiveRankingSnapshot (cx_db st) scope else None)
      in then_st (rank_or_recall deps call scope request snapshot st) (\<lambda>(ranked, n, status) st1.
           let plan = cd_policy deps request (length ranked) (cd_deployment deps) (buildAdaptiveRetrievalHints ranked);
               selected = selected_memories deps scope plan (cx_db st1) ranked;
               options = (request_options request)\<lparr>co_max := Some (bu_max_chars (pl_budget plan)),
                            co_summary_only := Some (\<not> pl_hydrate plan)\<rparr>;
               shown = (if pl_hydrate plan then hydrateRankedMemories (cx_db st1) scope selected else selected);
               envelope = createContextPackageEnvelope (rv_parse (cl_rank call)) scope (nullish (br_query request) [])
                            selected None (cl_minted call) (cl_package call)
           in (Inr \<lparr>bx_package = envelope, bx_context = buildContextText shown options, bx_memories = selected,
                    bx_total = n, bx_plan = plan, bx_memo = status\<rparr>,
               settle_build deps call scope request selected envelope st1)))"

record prompt_result =
  px_built :: build_result
  px_system :: string
  px_user :: string

definition buildPrompt ::
  "context_deps \<Rightarrow> context_call \<Rightarrow> memory_scope \<Rightarrow> build_request \<Rightarrow> string \<Rightarrow> string option \<Rightarrow> context_state
     \<Rightarrow> (app_error + prompt_result) \<times> context_state" where
  "buildPrompt deps call scope request task systemRole st =
     then_st (buildContext deps call scope (request\<lparr>br_query := Some (nullish (br_query request) task)\<rparr>) st)
       (\<lambda>built st1. let (system, user) = buildPromptText systemRole (bx_context built) task (br_project request)
          in (Inr \<lparr>px_built = built, px_system = system, px_user = user\<rparr>, st1))"

subsection \<open>Lifecycle of packages\<close>

text \<open>The lifecycle operations over any store, \<open>None\<close> when none is configured. The arrow of the last message is written \<open>->\<close>.\<close>

definition requireLifecycleStore :: "'s lifecycle_store option \<Rightarrow> app_error + 's lifecycle_store" where
  "requireLifecycleStore store =
     (case store of None \<Rightarrow> Inl (ConflictError ''Context Package lifecycle store is not configured'') | Some s \<Rightarrow> Inr s)"

definition getPackageLifecycle :: "'s lifecycle_store option \<Rightarrow> memory_scope \<Rightarrow> string \<Rightarrow> 's \<Rightarrow> app_error + package_record" where
  "getPackageLifecycle store scope packageId s =
     and_then (requireLifecycleStore store) (\<lambda>lc.
       case lc_get lc s (ms_owner scope) packageId of
         None \<Rightarrow> Inl (NotFoundError ''ContextPackage'' (Some packageId)) | Some r \<Rightarrow> Inr r)"

fun state_text :: "package_state \<Rightarrow> string" where
  "state_text PackageActive = ''active''"
| "state_text PackageRetired = ''retired''"
| "state_text PackageArchived = ''archived''"

definition transitionPackage ::
  "'s lifecycle_store option \<Rightarrow> memory_scope \<Rightarrow> string \<Rightarrow> package_state \<Rightarrow> string \<Rightarrow> 's
     \<Rightarrow> (app_error + package_record) \<times> 's" where
  "transitionPackage store scope packageId to updatedAt s =
     (case requireLifecycleStore store of
        Inl e \<Rightarrow> (Inl e, s)
      | Inr lc \<Rightarrow>
          (case lc_get lc s (ms_owner scope) packageId of
             None \<Rightarrow> (Inl (NotFoundError ''ContextPackage'' (Some packageId)), s)
           | Some current \<Rightarrow>
               if \<not> canTransitionContextPackageLifecycle (lp_state current) to
               then (Inl (ConflictError (''Invalid Context Package lifecycle transition: '' @ state_text (lp_state current) @
                      '' -> '' @ state_text to)), s)
               else case lc_update lc (ms_owner scope) packageId to updatedAt s of
                      (ok, s') \<Rightarrow> (if ok then Inr (current\<lparr>lp_state := to, lp_updated := updatedAt\<rparr>)
                                   else Inl (NotFoundError ''ContextPackage'' (Some packageId)), s')))"

definition retirePackage :: "'s lifecycle_store option \<Rightarrow> memory_scope \<Rightarrow> string \<Rightarrow> string \<Rightarrow> 's \<Rightarrow> (app_error + package_record) \<times> 's" where
  "retirePackage store scope packageId updatedAt s = transitionPackage store scope packageId PackageRetired updatedAt s"

definition archivePackage :: "'s lifecycle_store option \<Rightarrow> memory_scope \<Rightarrow> string \<Rightarrow> string \<Rightarrow> 's \<Rightarrow> (app_error + package_record) \<times> 's" where
  "archivePackage store scope packageId updatedAt s = transitionPackage store scope packageId PackageArchived updatedAt s"

end
