(* ===== verification/Retrieval_Laws.thy ===== *)
theory Retrieval_Laws
  imports Retrieval Graph_Laws
begin

section \<open>Laws of ranking and retrieval\<close>

text \<open>
  A ranking is sorted by its scores; fused sources put a memory that every source prefers before the
  other; and whatever the sources answer, the candidates are memories of the scope that was asked for.
\<close>

subsection \<open>Sorting\<close>

lemma sorted_js_sort_insert:
  fixes f :: "'a \<Rightarrow> 'k::linorder"
  assumes "\<And>a b. cmp a b \<le> 0 \<Longrightarrow> f b \<le> f a" "\<And>a b. \<not> cmp a b \<le> 0 \<Longrightarrow> f a \<le> f b"
    and "sorted_wrt (\<lambda>a b. f b \<le> f a) ys"
  shows "sorted_wrt (\<lambda>a b. f b \<le> f a) (js_sort_insert cmp x ys)"
  using assms(3)
proof (induction ys)
  case (Cons y ys)
  show ?case
  proof (cases "cmp x y \<le> 0")
    case True
    have "f z \<le> f x" if "z \<in> set (y # ys)" for z
      using that Cons.prems assms(1) [OF True] by (auto intro: order_trans)
    then show ?thesis using True Cons.prems by simp
  next
    case False
    then show ?thesis using Cons assms(2) [OF False] by (auto simp: set_js_sort_insert)
  qed
qed simp

lemma sorted_js_sort:
  fixes f :: "'a \<Rightarrow> 'k::linorder"
  assumes "\<And>a b. cmp a b \<le> 0 \<Longrightarrow> f b \<le> f a" "\<And>a b. \<not> cmp a b \<le> 0 \<Longrightarrow> f a \<le> f b"
  shows "sorted_wrt (\<lambda>a b. f b \<le> f a) (js_sort cmp xs)"
  unfolding js_sort_def by (induction xs) (simp_all add: sorted_js_sort_insert assms)

lemma mset_js_sort_insert: "mset (js_sort_insert cmp x xs) = add_mset x (mset xs)"
  by (induction xs) auto

lemma mset_js_sort: "mset (js_sort cmp xs) = mset xs"
  unfolding js_sort_def by (induction xs) (simp_all add: mset_js_sort_insert)

lemma distinct_js_sort [simp]: "distinct (js_sort cmp xs) = distinct xs"
  by (metis mset_js_sort mset_eq_imp_distinct_iff)

lemma length_js_sort [simp]: "length (js_sort cmp xs) = length xs"
  by (metis mset_js_sort size_mset)

lemma by_relevance_le: "by_relevance lc a b \<le> 0 \<Longrightarrow> sm_relevance b \<le> sm_relevance a"
  "\<not> by_relevance lc a b \<le> 0 \<Longrightarrow> sm_relevance a \<le> sm_relevance b"
  by (auto simp: by_relevance_def split: if_splits)

lemma rank_sorted: "sorted_wrt (\<lambda>a b. sm_relevance b \<le> sm_relevance a) (rank env ms query limit snapshot)"
  unfolding rank_def by (intro sorted_wrt_take sorted_js_sort by_relevance_le)

lemma rank_length: "length (rank env ms query limit snapshot) \<le> RETRIEVAL_MAX_RANKED"
  by (simp add: rank_def)

lemma with_score_memory: "m_id (with_score m s) = m_id m" "m_owner (with_score m s) = m_owner m"
  "m_archived (with_score m s) = m_archived m"
  by (simp_all add: with_score_def memory.extend_def scored_memory.fields_def)

lemma rank_from:
  assumes "m \<in> set (rank env ms query limit snapshot)"
  shows "\<exists>m0 \<in> set ms. m_id m = m_id m0 \<and> m_owner m = m_owner m0"
proof -
  from assms have "m \<in> applyRetrievalBoosts env snapshot ` set (rankMemories (rv_compare env) ms query)"
    by (auto simp: rank_def dest: in_set_takeD)
  then show ?thesis
    by (auto simp: rankMemories_def applyRetrievalBoosts_def with_score_memory)
qed

subsection \<open>Fusion\<close>

lemma js_set_once [simp]: "distinct (js_set xs)"
  by (simp add: js_set_def)

lemma js_set_elements [simp]: "set (js_set xs) = set xs"
  by (simp add: js_set_def)

lemma by_id_Some: "by_id ms i = Some m \<Longrightarrow> m \<in> set ms \<and> m_id m = i"
  unfolding by_id_def by (drule map_of_SomeD) auto

lemma by_id_found: "i \<in> m_id ` set ms \<Longrightarrow> \<exists>m. by_id ms i = Some m"
  unfolding by_id_def by (auto simp: map_of_eq_None_iff image_iff simp flip: not_None_eq)

lemma by_fused_le: "by_fused score a b \<le> 0 \<Longrightarrow> score b \<le> score a"
  "\<not> by_fused score a b \<le> 0 \<Longrightarrow> score a \<le> score b"
  by (auto simp: by_fused_def split: if_splits)

lemma applyRRF_ids:
  "map m_id (applyRRF roles results) =
     js_sort (by_fused (rrf_score (map getRrfSourceWeight roles) (map buildRankMap results))) (js_set (map m_id (concat results)))"
proof -
  let ?ids = "js_sort (by_fused (rrf_score (map getRrfSourceWeight roles) (map buildRankMap results))) (js_set (map m_id (concat results)))"
  have "m_id (the (by_id (concat results) i)) = i" if "i \<in> set ?ids" for i
  proof -
    from that have "i \<in> m_id ` set (concat results)" by (simp only: set_js_sort js_set_elements set_map)
    then obtain m where "by_id (concat results) i = Some m" using by_id_found by blast
    then show ?thesis using by_id_Some by fastforce
  qed
  then have "map (\<lambda>i. m_id (the (by_id (concat results) i))) ?ids = ?ids" by (rule map_idI)
  then show ?thesis by (simp only: applyRRF_def Let_def map_map comp_def)
qed

lemma applyRRF_from: "m \<in> set (applyRRF roles results) \<Longrightarrow> \<exists>ms \<in> set results. m \<in> set ms"
proof -
  assume "m \<in> set (applyRRF roles results)"
  then obtain i where "i \<in> m_id ` set (concat results)" "m = the (by_id (concat results) i)"
    by (auto simp: applyRRF_def Let_def)
  moreover from this obtain m' where "by_id (concat results) i = Some m'" using by_id_found by blast
  ultimately have "m \<in> set (concat results)" using by_id_Some by fastforce
  then show ?thesis by auto
qed

lemma first_new_take:
  assumes "distinct (map m_id ms)" "m_id ` set ms \<inter> set seen = {}" "length result < RETRIEVAL_CANDIDATE_CAP"
  shows "first_new seen result ms = result @ take (RETRIEVAL_CANDIDATE_CAP - length result) ms"
  using assms
proof (induction ms arbitrary: seen result)
  case (Cons m ms)
  have new: "m_id m \<notin> set seen" using Cons.prems by auto
  show ?case
  proof (cases "RETRIEVAL_CANDIDATE_CAP \<le> length (result @ [m])")
    case True
    then have "RETRIEVAL_CANDIDATE_CAP - length result = Suc 0" using Cons.prems by simp
    then show ?thesis using True new by (simp add: Let_def)
  next
    case False
    have "first_new (m_id m # seen) (result @ [m]) ms =
        (result @ [m]) @ take (RETRIEVAL_CANDIDATE_CAP - length (result @ [m])) ms"
      using Cons.prems False by (intro Cons.IH) auto
    moreover have "RETRIEVAL_CANDIDATE_CAP - length result = Suc (RETRIEVAL_CANDIDATE_CAP - length (result @ [m]))"
      using False by simp
    ultimately show ?thesis using False new by (simp add: Let_def)
  qed
qed simp

lemma composite_answer:
  assumes "compositeCandidates sources f cache = (Inr result, cache')"
  obtains results where "fetch_all sources (map rs_role sources) f cache = (Inr results, cache')"
    "result = take RETRIEVAL_CANDIDATE_CAP (applyRRF (map rs_role sources) results)"
proof -
  obtain answers c where fetched: "fetch_all sources (map rs_role sources) f cache = (answers, c)"
    by (cases "fetch_all sources (map rs_role sources) f cache") auto
  with assms obtain results where "answers = Inr results" "c = cache'"
    and res: "result = first_new [] [] (applyRRF (map rs_role sources) results)"
    by (auto simp: compositeCandidates_def Let_def and_then_eq_Inr)
  moreover have "distinct (map m_id (applyRRF (map rs_role sources) results))" by (simp add: applyRRF_ids)
  then have "first_new [] [] (applyRRF (map rs_role sources) results) = take RETRIEVAL_CANDIDATE_CAP (applyRRF (map rs_role sources) results)"
    by (subst first_new_take) (simp_all add: RETRIEVAL_CANDIDATE_CAP_def)
  ultimately show thesis using that fetched by simp
qed

definition rank_share :: "(string \<Rightarrow> nat option) \<Rightarrow> string \<Rightarrow> rat" where
  "rank_share rankMap i = (case rankMap i of None \<Rightarrow> 0 | Some r \<Rightarrow> 1 / of_nat (RRF_K + r))"

lemma buildRankMap_pos: "buildRankMap ms i = Some r \<Longrightarrow> 0 < r"
  unfolding buildRankMap_def by (drule map_of_SomeD) (auto simp: set_zip simp del: upt_Suc)

lemma buildRankMap_0 [simp]: "buildRankMap ms i \<noteq> Some 0"
  using buildRankMap_pos by blast

lemma rrf_score_shares:
  assumes "length roles = length answers"
  shows "rrf_score (map getRrfSourceWeight roles) (map buildRankMap answers) i = sum_list (map (\<lambda>ms. rank_share (buildRankMap ms) i) answers)"
proof -
  have "rrf_score (map getRrfSourceWeight roles) (map buildRankMap answers) i =
      sum_list (map2 (\<lambda>role ms. rank_share (buildRankMap ms) i) roles answers)"
    unfolding rrf_score_def
    by (auto simp: zip_map_map getRrfSourceWeight_def rank_share_def Let_def split: option.splits
        intro!: arg_cong [where f = sum_list])
  also have "map2 (\<lambda>role ms. rank_share (buildRankMap ms) i) roles answers = map (\<lambda>ms. rank_share (buildRankMap ms) i) answers"
    using assms by (induction roles answers rule: list_induct2) auto
  finally show ?thesis .
qed

text \<open>Every source that answers with the second memory answers with the first, and not behind it.\<close>

definition prefers :: "memory list \<Rightarrow> string \<Rightarrow> string \<Rightarrow> bool" where
  "prefers ms a b \<longleftrightarrow> (case buildRankMap ms b of None \<Rightarrow> True
     | Some j \<Rightarrow> (case buildRankMap ms a of None \<Rightarrow> False | Some i \<Rightarrow> i \<le> j))"

definition prefers_strictly :: "memory list \<Rightarrow> string \<Rightarrow> string \<Rightarrow> bool" where
  "prefers_strictly ms a b \<longleftrightarrow> (case buildRankMap ms a of None \<Rightarrow> False
     | Some i \<Rightarrow> (case buildRankMap ms b of None \<Rightarrow> True | Some j \<Rightarrow> i < j))"

lemma share_antimono: "i \<le> j \<Longrightarrow> 1 / (of_nat (RRF_K + j) :: rat) \<le> 1 / of_nat (RRF_K + i)"
  by (intro divide_left_mono mult_pos_pos) (auto simp: RRF_K_def)

lemma share_strict: "i < j \<Longrightarrow> 1 / (of_nat (RRF_K + j) :: rat) < 1 / of_nat (RRF_K + i)"
  by (intro divide_strict_left_mono mult_pos_pos) (auto simp: RRF_K_def)

lemma prefers_share: "prefers ms a b \<Longrightarrow> rank_share (buildRankMap ms) b \<le> rank_share (buildRankMap ms) a"
  by (auto simp: prefers_def rank_share_def share_antimono simp del: of_nat_add split: option.splits)

lemma prefers_strictly_share: "prefers_strictly ms a b \<Longrightarrow> rank_share (buildRankMap ms) b < rank_share (buildRankMap ms) a"
  by (auto simp: prefers_strictly_def rank_share_def share_strict RRF_K_def [THEN arg_cong [where f = "(<) 0"]] simp del: of_nat_add split: option.splits)

lemma sum_list_strict:
  fixes f g :: "'a \<Rightarrow> rat"
  assumes "\<And>x. x \<in> set xs \<Longrightarrow> f x \<le> g x" "y \<in> set xs" "f y < g y"
  shows "sum_list (map f xs) < sum_list (map g xs)"
  using assms
proof (induction xs)
  case (Cons x xs)
  have tail: "sum_list (map f xs) \<le> sum_list (map g xs)" using Cons.prems(1) by (intro sum_list_mono) simp
  show ?case
  proof (cases "y \<in> set xs")
    case True
    then have "sum_list (map f xs) < sum_list (map g xs)" using Cons by simp
    then show ?thesis using Cons.prems(1) [of x] by (simp add: add_le_less_mono)
  next
    case False
    then show ?thesis using Cons.prems tail by (auto intro: add_less_le_mono)
  qed
qed simp

lemma fetch_all_length: "fetch_all sources roles f cache = (Inr answers, cache') \<Longrightarrow> length answers = length sources"
proof (induction sources arbitrary: answers cache)
  case (Cons s ss)
  then show ?case by (auto split: prod.splits simp: and_then_eq_Inr)
qed simp

lemma sorted_before:
  fixes k :: "'a \<Rightarrow> 'k::linorder"
  assumes "sorted_wrt (\<lambda>a b. k b \<le> k a) xs" "b \<in> set (take n xs)" "a \<in> set xs" "k b < k a"
  shows "\<exists>us vs ws. take n xs = us @ a # vs @ b # ws"
proof -
  obtain p q where split: "take n xs = p @ b # q" using split_list [OF assms(2)] by blast
  then have "xs = p @ b # q @ drop n xs" by (metis append.assoc append_Cons append_take_drop_id)
  then have "k z \<le> k b" if "z \<in> set (q @ drop n xs)" for z
    using assms(1) that by (metis append_Cons in_set_conv_decomp sorted_wrt.simps(2) sorted_wrt_append)
  moreover have "a \<in> set p \<union> {b} \<union> set (q @ drop n xs)" using assms(3) \<open>xs = p @ b # q @ drop n xs\<close> by (metis Un_insert_right list.simps(15) set_append sup_bot_right Un_assoc insert_is_Un)
  ultimately have "a \<in> set p" using assms(4) by fastforce
  then obtain us vs where "p = us @ a # vs" using split_list by metis
  then show ?thesis using split by auto
qed

text \<open>
  C8: Fusion by reciprocal ranks respects unanimity. When no source ranks memory \<open>b\<close> before memory \<open>a\<close>
  or answers with \<open>b\<close> alone, and one source strictly prefers \<open>a\<close>, then the composite answers with \<open>a\<close> before
  \<open>b\<close> whenever it answers with \<open>b\<close>, also at the cap.
\<close>

theorem fusion_prefers:
  assumes "compositeCandidates sources f cache = (Inr result, cache')"
    and "fetch_all sources (map rs_role sources) f cache = (Inr answers, cache')"
    and "list_all (\<lambda>ms. prefers ms a b) answers" "list_ex (\<lambda>ms. prefers_strictly ms a b) answers"
    and "b \<in> m_id ` set result"
  shows "\<exists>us vs ws. map m_id result = us @ a # vs @ b # ws"
proof -
  let ?roles = "map rs_role sources"
  let ?score = "rrf_score (map getRrfSourceWeight ?roles) (map buildRankMap answers)"
  let ?ids = "js_sort (by_fused ?score) (js_set (map m_id (concat answers)))"
  have result: "map m_id result = take RETRIEVAL_CANDIDATE_CAP ?ids"
    using assms(2) by (rule_tac composite_answer [OF assms(1)]) (simp add: applyRRF_ids flip: take_map)
  have len: "length ?roles = length answers" using fetch_all_length [OF assms(2)] by simp
  from assms(4) obtain ms where ms: "ms \<in> set answers" "prefers_strictly ms a b" by (auto simp: list_ex_iff)
  have "?score b < ?score a"
    unfolding rrf_score_shares [OF len]
    using assms(3) ms by (intro sum_list_strict [of _ _ _ ms]) (auto simp: list_all_iff prefers_share prefers_strictly_share)
  moreover have "a \<in> set ?ids"
  proof -
    from ms(2) obtain i where "buildRankMap ms a = Some i" by (auto simp: prefers_strictly_def split: option.splits)
    then have "a \<in> m_id ` set ms" unfolding buildRankMap_def by (auto dest!: map_of_SomeD set_zip_leftD)
    then show ?thesis using ms(1) by auto
  qed
  moreover have "sorted_wrt (\<lambda>a b. ?score b \<le> ?score a) ?ids" by (intro sorted_js_sort by_fused_le)
  moreover have "b \<in> set (take RETRIEVAL_CANDIDATE_CAP ?ids)" using assms(5) result by (metis set_map)
  ultimately show ?thesis unfolding result by (intro sorted_before)
qed

subsection \<open>Scope\<close>

text \<open>Every memory of the list is a row of the database that the owner and workspace may see.\<close>

definition scoped :: "'a memory_db_scheme \<Rightarrow> string \<Rightarrow> string option \<Rightarrow> memory list \<Rightarrow> bool" where
  "scoped db ownerId workspaceId ms \<longleftrightarrow>
     (\<forall>m \<in> set ms. \<exists>r \<in> set (memories db). m_id r = m_id m \<and> visible ownerId workspaceId r)"

lemma scoped_subset: "scoped db ownerId workspaceId ms \<Longrightarrow> set ms' \<subseteq> set ms \<Longrightarrow> scoped db ownerId workspaceId ms'"
  by (auto simp: scoped_def)

lemma scoped_findByIds: "scoped db ownerId workspaceId (findByIds db ids ownerId workspaceId)"
  unfolding scoped_def using findByIds_visible by blast

lemma scoped_by_id:
  assumes "\<And>m. m \<in> set ms \<Longrightarrow> \<exists>i. by_id (findByIds db ids ownerId workspaceId) i = Some m"
  shows "scoped db ownerId workspaceId ms"
proof (rule scoped_subset [OF scoped_findByIds])
  show "set ms \<subseteq> set (findByIds db ids ownerId workspaceId)" using assms by_id_Some by blast
qed

lemma scoped_Nil [simp]: "scoped db ownerId workspaceId []"
  by (simp add: scoped_def)

lemma scoped_sql: "scoped db (rf_owner f) (rf_workspace f) (findRetrievalCandidates lc db f)"
  by (auto simp: scoped_def findRetrievalCandidates_def retrieval_condition_def sql_simps rowToRetrieval_def rowToMemory_def
      memory.truncate_def dest!: in_set_takeD)

lemma set_map_filter: "set (List.map_filter g xs) = {y. \<exists>x \<in> set xs. g x = Some y}"
  by (auto simp: List.map_filter_def) force

lemma scoped_vector:
  assumes "vectorCandidates provider db f cache = (Inr ms, cache')"
  shows "scoped db (rf_owner f) (rf_workspace f) ms"
proof -
  let ?byId = "\<lambda>matches. by_id (findByIds db (map vm_memory matches) (rf_owner f) (rf_workspace f))"
  have matched: "scoped db (rf_owner f) (rf_workspace f) (List.map_filter (\<lambda>m. ?byId matches (vm_memory m)) matches)" for matches
    by (rule scoped_by_id [of _ _ "map vm_memory matches"]) (auto simp: set_map_filter)
  show ?thesis
    using assms matched
    by (auto simp: vectorCandidates_def Let_def and_then_eq_Inr simp del: map_filter_def split: option.splits if_splits)
qed

lemma scoped_graph_leg: "scoped db (rf_owner f) (rf_workspace f) (fst (graphCandidates config vectorSeeds lc f cache db))"
proof -
  let ?seeds = "case vectorSeeds of Some source \<Rightarrow> source f | None \<Rightarrow> findRetrievalCandidates lc db (f\<lparr>rf_max := gr_seed_cap config\<rparr>)"
  obtain st cache' where run: "expand_seeds config (rf_owner f) db ?seeds cache
      \<lparr>lg_budget = gr_neighbors config, lg_seen = map m_id ?seeds, lg_ordered = []\<rparr> = (st, cache')" by fastforce
  let ?memoryMap = "by_id (findByIds db (lg_ordered st) (rf_owner f) (rf_workspace f))"
  have "fst (graphCandidates config vectorSeeds lc f cache db) = [] \<or>
    fst (graphCandidates config vectorSeeds lc f cache db) =
      filter (\<lambda>m. \<not> m_archived m) (concat (map (\<lambda>i. case ?memoryMap i of None \<Rightarrow> [] | Some m \<Rightarrow> [m]) (lg_ordered st)))"
    using run by (simp add: graphCandidates_def Let_def by_id_def)
  moreover have "scoped db (rf_owner f) (rf_workspace f)
      (filter (\<lambda>m. \<not> m_archived m) (concat (map (\<lambda>i. case ?memoryMap i of None \<Rightarrow> [] | Some m \<Rightarrow> [m]) (lg_ordered st))))"
    by (rule scoped_by_id [of _ _ "lg_ordered st"]) (auto split: option.splits)
  ultimately show ?thesis by (metis scoped_Nil)
qed

lemma scoped_graph:
  assumes "graphSource config vectorSeeds lc db f cache = (Inr ms, cache')"
  shows "scoped db (rf_owner f) (rf_workspace f) ms"
proof -
  have "ms = fst (graphCandidates config vs lc f cache db) \<Longrightarrow> ?thesis" for vs using scoped_graph_leg by metis
  then show ?thesis
    using assms by (auto simp: graphSource_def apfst_def map_prod_def split: option.splits sum.splits if_splits prod.splits) (metis fst_conv)+
qed

lemma live_memories_from:
  "m \<in> set (live_memories memoryMap cap ids result) \<Longrightarrow> m \<in> set result \<or> (\<exists>i. memoryMap i = Some m)"
proof (induction memoryMap cap ids result rule: live_memories.induct)
  case (2 memoryMap cap i ids result)
  show ?case
  proof (cases "memoryMap i")
    case None
    then show ?thesis using 2 by simp
  next
    case (Some x)
    then show ?thesis using 2 by (cases "m_archived x"; cases "cap \<le> length (result @ [x])") (auto simp: Let_def)
  qed
qed simp

lemma scoped_entity:
  assumes "entityCandidates db f cache = (Inr ms, cache')"
  shows "scoped db (rf_owner f) (rf_workspace f) ms"
  using assms live_memories_from
  by (auto simp: entityCandidates_def Let_def split: if_splits intro!: scoped_by_id) fastforce

text \<open>A source that keeps the scope, for every request and cache.\<close>

definition keeps_scope :: "'a memory_db_scheme \<Rightarrow> candidate_source \<Rightarrow> bool" where
  "keeps_scope db source \<longleftrightarrow>
     (\<forall>f cache ms cache'. source f cache = (Inr ms, cache') \<longrightarrow> scoped db (rf_owner f) (rf_workspace f) ms)"

lemma keeps_scope_fetch_all:
  assumes "list_all (\<lambda>s. keeps_scope db (rs_source s)) sources" "fetch_all sources roles f cache = (Inr answers, cache')" "ms \<in> set answers"
  shows "scoped db (rf_owner f) (rf_workspace f) ms"
  using assms
proof (induction sources arbitrary: answers cache)
  case (Cons s ss)
  obtain answer c where first: "rs_source s (f\<lparr>rf_max := getRrfSourceCap (rs_role s) roles\<rparr>) cache = (answer, c)" by fastforce
  with Cons.prems obtain m0 rest c' where "answer = Inr m0" "fetch_all ss roles f c = (Inr rest, c')" "answers = m0 # rest"
    by (auto split: prod.splits simp: and_then_eq_Inr)
  with first Cons.prems Cons.IH show ?case by (fastforce simp: keeps_scope_def)
qed simp

lemma keeps_scope_composite:
  assumes "list_all (\<lambda>s. keeps_scope db (rs_source s)) sources"
  shows "keeps_scope db (compositeCandidates sources)"
  unfolding keeps_scope_def
proof (intro allI impI)
  fix f cache ms cache'
  assume "compositeCandidates sources f cache = (Inr ms, cache')"
  then obtain results where fetched: "fetch_all sources (map rs_role sources) f cache = (Inr results, cache')"
    and ms: "ms = take RETRIEVAL_CANDIDATE_CAP (applyRRF (map rs_role sources) results)" by (rule composite_answer)
  show "scoped db (rf_owner f) (rf_workspace f) ms"
    using keeps_scope_fetch_all [OF assms fetched] applyRRF_from ms unfolding scoped_def by (metis in_set_takeD)
qed

lemma keeps_scope_wiring:
  assumes "wi_lexical w = None"
  shows "keeps_scope db (nullish (buildCompositeCandidateSource w lc db) (sqlCandidates lc db))"
proof -
  have sql: "keeps_scope db (sqlCandidates lc db)" by (simp add: keeps_scope_def sqlCandidates_def scoped_sql)
  have "list_all (\<lambda>s. keeps_scope db (rs_source s)) (registered_sources w lc db)"
    using sql assms scoped_vector scoped_graph scoped_entity
    by (auto simp: registered_sources_def lexical_source_def vector_leg_def keeps_scope_def split: option.splits)
  then have "keeps_scope db (compositeCandidates (registered_sources w lc db))" by (rule keeps_scope_composite)
  then show ?thesis using sql by (simp add: buildCompositeCandidateSource_def Let_def)
qed

subsection \<open>Sample\<close>

definition sample_hit :: "string \<Rightarrow> memory" where
  "sample_hit i = (rowToMemory sample_row)\<lparr>m_id := i\<rparr>"

definition sample_sources :: "registered_source list" where
  "sample_sources =
     [\<lparr>rs_role = SqlRole, rs_source = \<lambda>f cache. (Inr [sample_hit ''b'', sample_hit ''a'', sample_hit ''c''], cache)\<rparr>,
      \<lparr>rs_role = VectorRole, rs_source = \<lambda>f cache. (Inr [sample_hit ''a''], cache)\<rparr>]"

theorem fusion_prefers_witness:
  "\<exists>us vs ws. map m_id (projr (fst (compositeCandidates sample_sources sample_filters Map.empty))) = us @ ''a'' # vs @ ''c'' # ws"
proof -
  let ?run = "compositeCandidates sample_sources sample_filters Map.empty"
    and ?asked = "fetch_all sample_sources (map rs_role sample_sources) sample_filters Map.empty"
  have "\<not> isl (fst ?run)" "\<not> isl (fst ?asked)" by code_simp+
  then have runs: "?run = (Inr (projr (fst ?run)), snd ?run)" "?asked = (Inr (projr (fst ?asked)), snd ?asked)"
    by (blast intro: run_Inr)+
  have "snd ?asked = snd ?run" by (simp add: compositeCandidates_def sample_sources_def)
  with runs have asked: "?asked = (Inr (projr (fst ?asked)), snd ?run)" by simp
  have "list_all (\<lambda>ms. prefers ms ''a'' ''c'') (projr (fst ?asked))" by code_simp
  moreover have "list_ex (\<lambda>ms. prefers_strictly ms ''a'' ''c'') (projr (fst ?asked))" by code_simp
  moreover have "''c'' \<in> m_id ` set (projr (fst ?run))" by code_simp
  ultimately show ?thesis by (rule fusion_prefers [OF runs(1) asked])
qed

end
