(* ===== verification/Context_Laws.thy ===== *)
theory Context_Laws
  imports Context_Service Retrieval_Laws Learning_Laws
begin

section \<open>Laws of context packages\<close>

text \<open>
  The text of a context keeps to its budget; a package moves through its lifecycle in one direction,
  over either store; and no request ever sees a memory outside its scope, also when its ranking comes
  from the memo. The last lemmas show where the memo and the expansion by relations fall short.
\<close>

subsection \<open>Length of a context\<close>

lemma length_js_join_snoc:
  "xs \<noteq> [] \<Longrightarrow> length (js_join [c] (xs @ ys)) = length (js_join [c] xs) + sum_list (map (\<lambda>s. Suc (length s)) ys)"
proof (induction xs)
  case (Cons x xs)
  show ?case
  proof (cases xs)
    case Nil
    have "length (js_join [c] (x # ys)) = length x + sum_list (map (\<lambda>s. Suc (length s)) ys)" for x
      by (induction ys arbitrary: x) auto
    then show ?thesis using Nil by simp
  next
    case (Cons y zs)
    then show ?thesis using Cons.IH by simp
  qed
qed simp

lemma markdown_loop_length:
  assumes "parts \<noteq> []" "length (js_join [NL] parts) = used"
  shows "length (js_join [NL] (markdown_loop maxChars summaryOnly ms parts used)) \<le> max used maxChars"
  using assms
proof (induction ms arbitrary: parts used)
  case (Cons m ms)
  let ?block = "memory_block maxChars summaryOnly m used"
  show ?case
  proof (cases "maxChars < used + length ?block + 2")
    case True
    then show ?thesis using Cons.prems by (auto simp: last_block_def length_js_join_snoc Let_def)
  next
    case False
    have "length (js_join [NL] (parts @ [?block, []])) = used + length ?block + 2"
      using Cons.prems by (simp add: length_js_join_snoc)
    from Cons.IH [OF _ this] show ?thesis using False by (simp add: Let_def)
  qed
qed simp

lemma length_js_trim: "length (js_trim s) \<le> length s"
  unfolding js_trim_def js_trim_end_def js_trim_start_def
  by (metis length_dropWhile_le length_rev order_trans)

lemma buildMarkdown_length: "length (buildMarkdown ms maxChars summaryOnly) \<le> max 27 maxChars"
proof -
  have "length (js_join [NL] [CONTEXT_TITLE, []]) = 27" by (simp add: CONTEXT_TITLE_def)
  then have "length (js_join [NL] (markdown_loop maxChars summaryOnly ms [CONTEXT_TITLE, []]
      (length (js_join [NL] [CONTEXT_TITLE, []])))) \<le> max 27 maxChars"
    by (metis markdown_loop_length list.distinct(1))
  then show ?thesis unfolding buildMarkdown_def using length_js_trim order_trans by blast
qed

lemma xml_loop_length:
  assumes "length (concat parts) = used"
  shows "length (concat (xml_loop maxChars summaryOnly ms parts used)) \<le> max used (maxChars - 16)"
  using assms
proof (induction ms arbitrary: parts used)
  case (Cons m ms)
  let ?block = "xml_block summaryOnly m"
  show ?case
  proof (cases "maxChars < used + length ?block + 16")
    case False
    have "length (concat (parts @ [?block])) = used + length ?block" using Cons.prems by simp
    from Cons.IH [OF this] show ?thesis using False by (simp add: Let_def)
  qed (simp add: Let_def Cons.prems)
qed simp

lemma buildXml_length: "length (buildXml ms maxChars summaryOnly) \<le> max 33 (maxChars + 1)"
proof -
  let ?start = "''<memory_context>''"
  have "length (concat [?start]) = length ?start" by simp
  from xml_loop_length [OF this, of maxChars summaryOnly ms]
  have "length (concat (xml_loop maxChars summaryOnly ms [?start] (length ?start))) \<le> max 16 (maxChars - 16)" by simp
  then show ?thesis by (simp add: buildXml_def)
qed

text \<open>
  C17: The text of a context keeps to its budget: for any memories it is no longer than the requested
  number of characters, which is at most 24000, or than the empty frame of 33; in XML one character more is possible.
\<close>

theorem context_text_bounded:
  "length (buildContextText ms options) \<le>
     max 33 (min (nullish (co_max options) DEFAULT_CONTEXT_MAX_CHARS) 24000 + (if co_format options = Some XmlFormat then 1 else 0))"
proof -
  let ?n = "min (nullish (co_max options) DEFAULT_CONTEXT_MAX_CHARS) 24000"
  have "length (buildMarkdown ms ?n b) \<le> max 33 ?n" for b using buildMarkdown_length [of ms ?n b] by linarith
  then show ?thesis using buildXml_length [of ms ?n] by (simp add: buildContextText_def Let_def)
qed

subsection \<open>Lifecycle of packages\<close>

text \<open>
  What the service needs of a store: registering a package leaves every other package, and updating
  one changes at most the record the caller named.
\<close>

locale package_store =
  fixes store :: "'s lifecycle_store"
  assumes insert_law: "lc_get store (lc_insert store p' o' c s) ow p = lc_get store s ow p \<or> lc_get store s ow p = None"
    and update_law: "lc_update store o' p' st t s = (ok, s') \<Longrightarrow>
      lc_get store s' ow p = lc_get store s ow p \<or>
      (\<exists>r. lc_get store s o' p' = Some r \<and> lc_get store s ow p = Some r \<and> lc_get store s' ow p = Some (r\<lparr>lp_state := st, lp_updated := t\<rparr>))"
begin

definition onward :: "package_record option \<Rightarrow> package_record option \<Rightarrow> bool" where
  "onward before after \<longleftrightarrow> (case before of None \<Rightarrow> True
     | Some r \<Rightarrow> (case after of None \<Rightarrow> False
         | Some r' \<Rightarrow> lp_state r' = lp_state r \<or> canTransitionContextPackageLifecycle (lp_state r) (lp_state r')))"

lemma onward_refl: "onward x x"
  by (auto simp: onward_def split: option.splits)

lemma onward_trans: "onward x y \<Longrightarrow> onward y z \<Longrightarrow> onward x z"
  by (auto simp: onward_def canTransitionContextPackageLifecycle_def split: option.splits if_splits)

lemma insert_onward: "onward (lc_get store s ow p) (lc_get store (lc_insert store p' o' c s) ow p)"
proof -
  have "onward None x" for x by (simp add: onward_def)
  then show ?thesis using insert_law [of p' o' c s ow p] onward_refl by metis
qed

lemma transition_onward:
  assumes "transitionPackage (Some store) scope packageId to t s = (res, s')"
  shows "onward (lc_get store s ow p) (lc_get store s' ow p)"
proof (cases "s' = s")
  case True
  then show ?thesis by (simp add: onward_refl)
next
  case False
  with assms obtain current ok where current: "lc_get store s (ms_owner scope) packageId = Some current"
      "canTransitionContextPackageLifecycle (lp_state current) to"
    and written: "lc_update store (ms_owner scope) packageId to t s = (ok, s')"
    by (auto simp: transitionPackage_def requireLifecycleStore_def split: option.splits if_splits prod.splits)
  from update_law [OF written, of ow p] current show ?thesis by (auto simp: onward_refl) (auto simp: onward_def)
qed

end

interpretation sql_packages: package_store "SqlContextPackageLifecycleStore :: 'a context_db_scheme lifecycle_store"
proof unfold_locales
  fix p' o' c ow p and s :: "'a context_db_scheme"
  show "lc_get SqlContextPackageLifecycleStore (lc_insert SqlContextPackageLifecycleStore p' o' c s) ow p =
      lc_get SqlContextPackageLifecycleStore s ow p \<or> lc_get SqlContextPackageLifecycleStore s ow p = None"
    by (auto simp: SqlContextPackageLifecycleStore_def sql_first_append split: option.splits)
next
  fix o' p' st t ok ow p and s s' :: "'a context_db_scheme"
  assume "lc_update SqlContextPackageLifecycleStore o' p' st t s = (ok, s')"
  then have s': "context_packages s' = sql_update (package_hit o' p') (\<lambda>r. r\<lparr>lp_state := st, lp_updated := t\<rparr>) (context_packages s)"
    by (auto simp: SqlContextPackageLifecycleStore_def)
  have "sql_first (package_hit ow p) (context_packages s') =
      map_option (\<lambda>r. if package_hit o' p' r then r\<lparr>lp_state := st, lp_updated := t\<rparr> else r) (sql_first (package_hit ow p) (context_packages s))"
    unfolding s' by (rule sql_first_update) (simp add: package_hit_def)
  then have after: "lc_get SqlContextPackageLifecycleStore s' ow p =
      map_option (\<lambda>r. if package_hit o' p' r then r\<lparr>lp_state := st, lp_updated := t\<rparr> else r) (lc_get SqlContextPackageLifecycleStore s ow p)"
    by (simp add: SqlContextPackageLifecycleStore_def)
  show "lc_get SqlContextPackageLifecycleStore s' ow p = lc_get SqlContextPackageLifecycleStore s ow p \<or>
      (\<exists>r. lc_get SqlContextPackageLifecycleStore s o' p' = Some r \<and> lc_get SqlContextPackageLifecycleStore s ow p = Some r \<and>
        lc_get SqlContextPackageLifecycleStore s' ow p = Some (r\<lparr>lp_state := st, lp_updated := t\<rparr>))"
  proof (cases "lc_get SqlContextPackageLifecycleStore s ow p")
    case (Some r)
    then have first: "sql_first (package_hit ow p) (context_packages s) = Some r" by (simp add: SqlContextPackageLifecycleStore_def)
    show ?thesis
    proof (cases "package_hit o' p' r")
      case True
      then have "o' = ow \<and> p' = p" using sql_first_SomeD [OF first] by (auto simp: package_hit_def)
      then show ?thesis using after Some True by auto
    qed (use after Some in simp)
  qed (use after in simp)
qed

interpretation memory_packages: package_store InMemoryContextPackageLifecycleStore
  by unfold_locales (auto simp: InMemoryContextPackageLifecycleStore_def split: option.splits if_splits)

text \<open>What the service and its callers do to the packages of a database.\<close>

datatype package_event =
    RegisterPackage string string string
  | RetirePackage memory_scope string string
  | ArchivePackage memory_scope string string

fun package_step :: "package_event \<Rightarrow> 'a context_db_scheme \<Rightarrow> 'a context_db_scheme" where
  "package_step (RegisterPackage p ow c) db = lc_insert SqlContextPackageLifecycleStore p ow c db"
| "package_step (RetirePackage scope p t) db = snd (retirePackage (Some SqlContextPackageLifecycleStore) scope p t db)"
| "package_step (ArchivePackage scope p t) db = snd (archivePackage (Some SqlContextPackageLifecycleStore) scope p t db)"

lemma package_step_onward:
  "sql_packages.onward (lc_get SqlContextPackageLifecycleStore db ow p) (lc_get SqlContextPackageLifecycleStore (package_step e db) ow p)"
  by (cases e) (auto simp: retirePackage_def archivePackage_def sql_packages.insert_onward
      intro: sql_packages.transition_onward [OF surjective_pairing])

lemma package_steps_onward:
  "sql_packages.onward (lc_get SqlContextPackageLifecycleStore db ow p) (lc_get SqlContextPackageLifecycleStore (fold package_step es db) ow p)"
  by (induction es arbitrary: db) (auto simp: sql_packages.onward_refl intro: sql_packages.onward_trans package_step_onward)

text \<open>
  C20: Packages only move forward. Whatever registrations, retirements and archivings, by whatever
  callers, follow in whatever order, a package stays registered and is in the state it had or in one that
  a transition allows from there; in particular an archived package stays archived.
\<close>

theorem package_lifecycle_forward:
  assumes "lc_get SqlContextPackageLifecycleStore db ow p = Some r"
  shows "\<exists>r'. lc_get SqlContextPackageLifecycleStore (fold package_step es db) ow p = Some r' \<and>
    (lp_state r' = lp_state r \<or> canTransitionContextPackageLifecycle (lp_state r) (lp_state r'))"
  using package_steps_onward [of db ow p es] assms by (auto simp: sql_packages.onward_def split: option.splits)

subsection \<open>Memo\<close>

lemma js_join_head:
  assumes "js_join [c] (x # y # ys) = js_join [c] (x' # y' # ys')" "c \<notin> set x" "c \<notin> set x'"
  shows "x = x' \<and> js_join [c] (y # ys) = js_join [c] (y' # ys')"
proof -
  have eq: "x @ c # js_join [c] (y # ys) = x' @ c # js_join [c] (y' # ys')" using assms(1) by simp
  have "takeWhile (\<lambda>d. d \<noteq> c) (x @ c # u) = x" if "c \<notin> set x" for x u using that by (induction x) auto
  then have "x = x'" using eq assms(2,3) by metis
  then show ?thesis using eq by simp
qed

definition plain_key :: "string \<Rightarrow> string option \<Rightarrow> bool" where
  "plain_key ownerId workspaceId \<longleftrightarrow> UNIT_SEP \<notin> set ownerId \<and> UNIT_SEP \<notin> set (nullish workspaceId [])"

lemma memo_key_scope:
  assumes "buildRetrievalMemoKey p = buildRetrievalMemoKey q"
    and "plain_key (mp_owner p) (mp_workspace p)" "plain_key (mp_owner q) (mp_workspace q)"
  shows "mp_owner p = mp_owner q \<and> nullish (mp_workspace p) [] = nullish (mp_workspace q) []"
  using assms unfolding buildRetrievalMemoKey_def memo_fields_def plain_key_def by (blast dest: js_join_head)

definition workspace_id :: "string option \<Rightarrow> string option" where
  "workspace_id w = truthy (map_option js_trim w)"

lemma workspace_id_nullish: "nullish w [] = nullish w' [] \<Longrightarrow> workspace_id w = workspace_id w'"
  by (cases w; cases w') (auto simp: workspace_id_def)

text \<open>Memories that were at some time stored where the owner and workspace may see them; \<open>H\<close> is every row stored so far.\<close>

definition once_visible :: "memory_row set \<Rightarrow> string \<Rightarrow> string option \<Rightarrow> 'a memory_scheme list \<Rightarrow> bool" where
  "once_visible H ownerId workspaceId ms \<longleftrightarrow> (\<forall>m \<in> set ms. \<exists>r \<in> H. m_id r = m_id m \<and> visible ownerId workspaceId r)"

definition memo_ok :: "memory_row set \<Rightarrow> retrieval_memo \<Rightarrow> bool" where
  "memo_ok H memo \<longleftrightarrow> (\<forall>(k, e) \<in> set memo. \<forall>p. k = buildRetrievalMemoKey p \<and> plain_key (mp_owner p) (mp_workspace p) \<longrightarrow>
     once_visible H (mp_owner p) (workspace_id (mp_workspace p)) (mm_ranked e))"

lemma once_visible_mono: "once_visible H ow w ms \<Longrightarrow> H \<subseteq> H' \<Longrightarrow> once_visible H' ow w ms"
  unfolding once_visible_def by blast

lemma memo_okD:
  "memo_ok H memo \<Longrightarrow> (buildRetrievalMemoKey p, e) \<in> set memo \<Longrightarrow> plain_key (mp_owner p) (mp_workspace p) \<Longrightarrow>
    once_visible H (mp_owner p) (workspace_id (mp_workspace p)) (mm_ranked e)"
  unfolding memo_ok_def by blast

lemma memo_ok_Nil [simp]: "memo_ok H []"
  by (simp add: memo_ok_def)

lemma memo_ok_mono: "memo_ok H memo \<Longrightarrow> H \<subseteq> H' \<Longrightarrow> memo_ok H' memo"
  unfolding memo_ok_def using once_visible_mono by blast

lemma memo_ok_subset: "memo_ok H memo \<Longrightarrow> set memo' \<subseteq> set memo \<Longrightarrow> memo_ok H memo'"
  unfolding memo_ok_def by blast

lemma set_map_set: "set (map_set k v memo) \<subseteq> insert (k, v) (set memo)"
  by (induction k v memo rule: map_set.induct) auto

lemma set_map_delete: "set (map_delete k memo) \<subseteq> set memo"
  by (auto simp: map_delete_def)

lemma set_memo_evict: "set (memo_evict n memo) \<subseteq> set memo"
  by (induction n memo rule: memo_evict.induct) auto

lemma memo_get_ok:
  assumes "memo_get key now memo = (hit, memo')" "memo_ok H memo"
  shows "memo_ok H memo' \<and> (\<forall>e. hit = Some e \<longrightarrow> (key, e) \<in> set memo)"
proof (cases "map_of memo key")
  case (Some e)
  then have "(key, e) \<in> set memo" by (rule map_of_SomeD)
  moreover from this have "set memo' \<subseteq> set memo"
    using assms(1) Some set_map_delete set_map_set [of key e "map_delete key memo"]
    by (fastforce simp: memo_get_def split: if_splits)
  ultimately show ?thesis
    using assms Some memo_ok_subset by (auto simp: memo_get_def split: if_splits)
qed (use assms in \<open>simp add: memo_get_def\<close>)

lemma memo_set_ok:
  assumes "memo_ok H memo" "plain_key (mp_owner p) (mp_workspace p)"
    and "once_visible H (mp_owner p) (workspace_id (mp_workspace p)) ranked"
  shows "memo_ok H (memo_set config (buildRetrievalMemoKey p) ranked n now memo)"
proof -
  let ?e = "\<lparr>mm_expires = now + mo_ttl config, mm_ranked = ranked, mm_total = n\<rparr>"
  have "once_visible H (mp_owner q) (workspace_id (mp_workspace q)) ranked"
    if "buildRetrievalMemoKey p = buildRetrievalMemoKey q" "plain_key (mp_owner q) (mp_workspace q)" for q
    using memo_key_scope [OF that(1) assms(2) that(2)] assms(3) workspace_id_nullish by metis
  then have "memo_ok H ((buildRetrievalMemoKey p, ?e) # memo)" using assms(1) by (simp add: memo_ok_def)
  moreover have "set (map_set (buildRetrievalMemoKey p) ?e (memo_evict (mo_max config) memo)) \<subseteq> set ((buildRetrievalMemoKey p, ?e) # memo)"
    using set_map_set set_memo_evict by fastforce
  ultimately show ?thesis using assms(1) memo_ok_subset by (auto simp: memo_set_def)
qed

subsection \<open>Isolation\<close>

lemma workspaceIdFromScope_id: "workspaceIdFromScope scope = workspace_id (ms_workspace scope)"
  by (simp add: workspaceIdFromScope_def workspace_id_def)

abbreviation plain_scope :: "memory_scope \<Rightarrow> bool" where
  "plain_scope scope \<equiv> plain_key (ms_owner scope) (ms_workspace scope)"

lemma memo_parts_of_scope [simp]: "mp_owner (memo_parts_of scope request snapshot) = ms_owner scope"
  "mp_workspace (memo_parts_of scope request snapshot) = ms_workspace scope"
  by (simp_all add: memo_parts_of_def)

lemma scoped_once_visible:
  "scoped db ow w ms \<Longrightarrow> set (memories db) \<subseteq> H \<Longrightarrow> once_visible H ow w ms"
  unfolding scoped_def once_visible_def by blast

lemma rank_once_visible: "once_visible H ow w ms \<Longrightarrow> once_visible H ow w (rank env ms query limit snapshot)"
  unfolding once_visible_def using rank_from by metis

lemma retrieve_scoped:
  assumes "retrieve (candidate_source_of deps lc db) (retrieval_of scope request) edges = (Inr ms, edges')" "wi_lexical (cd_wiring deps) = None"
  shows "scoped db (ms_owner scope) (workspaceIdFromScope scope) ms"
proof -
  have "keeps_scope db (candidate_source_of deps lc db)"
    unfolding candidate_source_of_def by (rule keeps_scope_wiring) (rule assms(2))
  then show ?thesis
    using assms(1) unfolding keeps_scope_def retrieve_def by (fastforce simp: request_filters_def retrieval_of_def Let_def)
qed

lemma rank_candidates_ok:
  assumes "rank_candidates deps call scope request snapshot (buildRetrievalMemoKey (memo_parts_of scope request snapshot)) st = (res, st')"
    and "wi_lexical (cd_wiring deps) = None" "plain_scope scope" "set (memories (cx_db st)) \<subseteq> H" "memo_ok H (cx_memo st)"
  shows "memo_ok H (cx_memo st') \<and> cx_db st' = cx_db st \<and>
    (\<forall>ranked n status. res = Inr (ranked, n, status) \<longrightarrow> once_visible H (ms_owner scope) (workspaceIdFromScope scope) ranked)"
proof -
  obtain answer edges where fetched: "retrieve (candidate_source_of deps (rv_compare (cl_rank call)) (cx_db st)) (retrieval_of scope request)
      (cx_edges st) = (answer, edges)" by fastforce
  show ?thesis
  proof (cases answer)
    case (Inl e)
    then show ?thesis using assms(1,5) fetched by (auto simp: rank_candidates_def)
  next
    case (Inr candidates)
    let ?ranked = "rank (cl_rank call) candidates \<lparr>qc_q = br_query request, qc_tag = first_of (br_tags request)\<rparr>
      (nullish (br_limit request) DEFAULT_RETRIEVAL_RANK_LIMIT) snapshot"
    have ranked: "once_visible H (ms_owner scope) (workspaceIdFromScope scope) ?ranked"
      using retrieve_scoped fetched Inr assms(2,4) by (intro rank_once_visible scoped_once_visible) auto
    then have "memo_ok H (memo_set config (buildRetrievalMemoKey (memo_parts_of scope request snapshot)) ?ranked n now (cx_memo st))" for config n now
      using assms(3,5) by (intro memo_set_ok) (simp_all add: workspaceIdFromScope_id)
    then show ?thesis using assms(1,5) fetched Inr ranked by (auto simp: rank_candidates_def Let_def split: option.splits)
  qed
qed

lemma rank_or_recall_ok:
  assumes "rank_or_recall deps call scope request snapshot st = (res, st')"
    and "wi_lexical (cd_wiring deps) = None" "plain_scope scope" "set (memories (cx_db st)) \<subseteq> H" "memo_ok H (cx_memo st)"
  shows "memo_ok H (cx_memo st') \<and> cx_db st' = cx_db st \<and>
    (\<forall>ranked n status. res = Inr (ranked, n, status) \<longrightarrow> once_visible H (ms_owner scope) (workspaceIdFromScope scope) ranked)"
proof -
  let ?key = "buildRetrievalMemoKey (memo_parts_of scope request snapshot)"
  obtain hit memo where looked: "(if cd_memo deps = None then (None, cx_memo st) else memo_get ?key (cl_read call) (cx_memo st)) = (hit, memo)"
    by fastforce
  then have memo: "memo_ok H memo" "\<And>e. hit = Some e \<Longrightarrow> (?key, e) \<in> set (cx_memo st)"
    using memo_get_ok assms(5) by (auto split: if_splits)
  show ?thesis
  proof (cases hit)
    case None
    then have "rank_candidates deps call scope request snapshot ?key (st\<lparr>cx_memo := memo\<rparr>) = (res, st')"
      using assms(1) looked by (simp add: rank_or_recall_def Let_def)
    from rank_candidates_ok [OF this assms(2,3)] show ?thesis using assms(4) memo(1) by simp
  next
    case (Some e)
    then have "res = Inr (mm_ranked e, mm_total e, MemoHit)" "st' = st\<lparr>cx_memo := memo\<rparr>"
      using assms(1) looked by (auto simp: rank_or_recall_def Let_def)
    moreover have "once_visible H (ms_owner scope) (workspaceIdFromScope scope) (mm_ranked e)"
      using memo_okD [OF assms(5) memo(2) [OF Some]] assms(3) unfolding workspaceIdFromScope_id by simp
    ultimately show ?thesis using memo(1) by simp
  qed
qed

lemma once_visible_take: "once_visible H ow w ms \<Longrightarrow> once_visible H ow w (take n ms)"
  unfolding once_visible_def using in_set_takeD by metis

lemma selected_once_visible:
  assumes "once_visible H (ms_owner scope) (workspaceIdFromScope scope) ranked" "set (memories db) \<subseteq> H"
  shows "once_visible H (ms_owner scope) (workspaceIdFromScope scope) (selected_memories deps scope plan db ranked)"
proof -
  have added: "once_visible H (ms_owner scope) (workspaceIdFromScope scope)
      (ms @ map (\<lambda>m. with_score (m\<lparr>m_content := []\<rparr>) 0) (findByIds db ids (ms_owner scope) (workspaceIdFromScope scope)))"
    if "once_visible H (ms_owner scope) (workspaceIdFromScope scope) ms" for ms ids
  proof -
    have "once_visible H (ms_owner scope) (workspaceIdFromScope scope) (findByIds db ids (ms_owner scope) (workspaceIdFromScope scope))"
      using scoped_findByIds assms(2) by (rule scoped_once_visible)
    then show ?thesis using that by (auto simp: once_visible_def with_score_memory)
  qed
  show ?thesis
    using once_visible_take [OF assms(1)] added [OF once_visible_take [OF assms(1)]]
    by (simp add: selected_memories_def expandWithRelationNeighbors_def Let_def)
qed

text \<open>
  Runs of a server: the database may change between requests in any way, and every request is made
  for some scope. The last argument collects every row that was stored.
\<close>

inductive context_run :: "context_deps \<Rightarrow> context_state \<Rightarrow> memory_row set \<Rightarrow> bool" for deps where
  start: "context_run deps \<lparr>cx_db = db, cx_edges = Map.empty, cx_memo = [], cx_audit = []\<rparr> (set (memories db))"
| changed: "context_run deps st H \<Longrightarrow> context_run deps (st\<lparr>cx_db := db\<rparr>) (H \<union> set (memories db))"
| build: "context_run deps st H \<Longrightarrow> plain_scope scope \<Longrightarrow> buildContext deps call scope request st = (res, st') \<Longrightarrow>
    context_run deps st' (H \<union> set (memories (cx_db st')))"

lemma buildContext_ok:
  assumes "buildContext deps call scope request st = (res, st')"
    and "wi_lexical (cd_wiring deps) = None" "plain_scope scope" "set (memories (cx_db st)) \<subseteq> H" "memo_ok H (cx_memo st)"
  shows "memo_ok H (cx_memo st') \<and>
    (\<forall>r. res = Inr r \<longrightarrow> once_visible H (ms_owner scope) (workspaceIdFromScope scope) (bx_memories r))"
proof -
  let ?snapshot = "if cd_learning deps then getActiveRankingSnapshot (cx_db st) scope else None"
  obtain found st1 where ranked: "rank_or_recall deps call scope request ?snapshot st = (found, st1)" by fastforce
  note ok = rank_or_recall_ok [OF this assms(2-5)]
  show ?thesis
  proof (cases found)
    case (Inl e)
    then show ?thesis using assms(1) ranked ok by (auto simp: buildContext_def)
  next
    case (Inr x)
    obtain ms n status where x: "x = (ms, n, status)" by (cases x)
    then have "once_visible H (ms_owner scope) (workspaceIdFromScope scope) (selected_memories deps scope plan (cx_db st1) ms)" for plan
      using ok Inr assms(4) by (intro selected_once_visible) auto
    then show ?thesis
      using assms(1) ranked ok Inr x by (auto simp: buildContext_def Let_def settle_build_def)
  qed
qed

lemma context_run_ok:
  assumes "context_run deps st H" "wi_lexical (cd_wiring deps) = None"
  shows "set (memories (cx_db st)) \<subseteq> H \<and> memo_ok H (cx_memo st)"
  using assms(1)
proof induction
  case (build st H scope call request res st')
  then have "memo_ok H (cx_memo st')" using buildContext_ok assms(2) by blast
  then show ?case using memo_ok_mono by auto
qed (auto intro: memo_ok_mono)

text \<open>
  C3: No context package shows a memory of another scope. In any run in which the database changes
  arbitrarily between requests of any scopes, every memory of an answer, also one that comes from the memo
  or from the expansion by relations, was stored at some time as a row that the owner and the workspace of
  this request may see. The separator of the memo's key must not occur in the owner and workspace; no
  external search provider is used.
\<close>

theorem context_isolated:
  assumes "context_run deps st H" "wi_lexical (cd_wiring deps) = None" "plain_scope scope"
    and "buildContext deps call scope request st = (Inr r, st')" "m \<in> set (bx_memories r)"
  shows "\<exists>row \<in> H. m_id row = m_id m \<and> visible (ms_owner scope) (workspaceIdFromScope scope) row"
  using buildContext_ok [OF assms(4,2,3)] context_run_ok [OF assms(1,2)] assms(5) unfolding once_visible_def by blast

subsection \<open>What the memo and the expansion do not keep apart\<close>

text \<open>Two lists of tags that ask for different memories have the same key.\<close>

lemma memo_joins_tags:
  "buildRetrievalMemoKey (p\<lparr>mp_tags := [''a,b'']\<rparr>) = buildRetrievalMemoKey (p\<lparr>mp_tags := [''a'', ''b'']\<rparr>)"
  by (simp add: buildRetrievalMemoKey_def memo_fields_def)

text \<open>Every learned snapshot has the same version, so the key does not tell two rankings apart.\<close>

lemma snapshots_share_version: "computeRanking scope events m = Some s \<Longrightarrow> rk_version s = 1"
  by (auto simp: computeRanking_def Let_def split: if_splits)

text \<open>A hit is answered without the database: also when the memories were deleted or archived since.\<close>

lemma hit_ignores_database:
  assumes "rank_or_recall deps call scope request snapshot st = (Inr (ranked, n, MemoHit), st')"
  shows "rank_or_recall deps call scope request snapshot (st\<lparr>cx_db := db\<rparr>) = (Inr (ranked, n, MemoHit), st'\<lparr>cx_db := db\<rparr>)"
proof -
  let ?key = "buildRetrievalMemoKey (memo_parts_of scope request snapshot)"
  obtain hit memo where looked: "(if cd_memo deps = None then (None, cx_memo st) else memo_get ?key (cl_read call) (cx_memo st)) = (hit, memo)"
    by fastforce
  show ?thesis
  proof (cases hit)
    case None
    then have "rank_candidates deps call scope request snapshot ?key (st\<lparr>cx_memo := memo\<rparr>) = (Inr (ranked, n, MemoHit), st')"
      using assms looked by (simp add: rank_or_recall_def Let_def)
    then show ?thesis by (auto simp: rank_candidates_def then_st_Inr Let_def split: prod.splits option.splits)
  qed (use assms looked in \<open>auto simp: rank_or_recall_def Let_def\<close>)
qed

subsection \<open>Samples\<close>

definition sample_context_db :: "memory_row list \<Rightarrow> relation_row list \<Rightarrow> context_db" where
  "sample_context_db rows rels = learning_db.extend
     ((sample_learning [])\<lparr>memories := rows, relations := rels\<rparr>) (context_db.fields [])"

definition sample_wiring :: retrieval_wiring where
  "sample_wiring = \<lparr>wi_hybrid = False, wi_graph = False, wi_entities = False, wi_vector_seeds = False, wi_embed = None,
     wi_lexical = None, wi_graph_config = sample_leg\<rparr>"

definition sample_deps :: context_deps where
  "sample_deps = createContextService sample_wiring ''default'' ''1'' False 5 True"

definition sample_call :: context_call where
  "sample_call = \<lparr>cl_rank = \<lparr>rv_compare = \<lambda>_ _. 0, rv_parse = \<lambda>_. None, rv_now = 0\<rparr>, cl_read = 0, cl_write = 0, cl_access = ''u'',
     cl_minted = 0, cl_package = sample_mint\<rparr>"

definition sample_build :: build_request where
  "sample_build = \<lparr>br_project = None, br_query = None, br_tags = [], br_levels = [], br_limit = None, br_context = None,
     br_identity = None, br_ip = None\<rparr>"

definition sample_context :: context_state where
  "sample_context = \<lparr>cx_db = sample_context_db [sample_row, sample_row\<lparr>m_id := ''2'', m_archived := True\<rparr>] [sample_relation ''r'' ''1'' ''2''],
     cx_edges = Map.empty, cx_memo = [], cx_audit = []\<rparr>"

lemma sample_rows [simp]: "memories (sample_context_db rows rels) = rows" "relations (sample_context_db rows rels) = rels"
  by (simp_all add: sample_context_db_def learning_db.extend_def)

lemma findRetrievalCandidates_memories:
  "findRetrievalCandidates lc db f = findRetrievalCandidates lc \<lparr>memories = memories db\<rparr> f"
  by (simp add: findRetrievalCandidates_def)

lemma sample_found:
  "retrieve (candidate_source_of sample_deps lc (cx_db sample_context)) (retrieval_of (sample_scope ''w'') sample_build) edges =
     (Inr [rowToRetrieval sample_row], edges)"
proof -
  have "candidate_source_of sample_deps lc db = sqlCandidates lc db" for db
    by (simp add: candidate_source_of_def sample_deps_def createContextService_def buildCompositeCandidateSource_def
        registered_sources_def sample_wiring_def vector_leg_def Let_def)
  moreover have "findRetrievalCandidates lc \<lparr>memories = [sample_row, sample_row\<lparr>m_id := ''2'', m_archived := True\<rparr>]\<rparr>
      (request_filters (retrieval_of (sample_scope ''w'') sample_build)) = [rowToRetrieval sample_row]"
    by code_simp
  then have "findRetrievalCandidates lc (cx_db sample_context) (request_filters (retrieval_of (sample_scope ''w'') sample_build)) =
      [rowToRetrieval sample_row]"
    by (subst findRetrievalCandidates_memories) (simp add: sample_context_def)
  ultimately show ?thesis by (simp add: retrieve_def sqlCandidates_def)
qed

lemma length_rank: "length (rank env ms query limit snapshot) = min (min (max limit 1) RETRIEVAL_MAX_RANKED) (length ms)"
  by (simp add: rank_def rankMemories_def)

lemma sample_built:
  "\<exists>r st' m. buildContext sample_deps sample_call (sample_scope ''w'') sample_build sample_context = (Inr r, st') \<and> bx_memories r = [m]"
proof -
  let ?ranked = "rank (cl_rank sample_call) [rowToRetrieval sample_row] \<lparr>qc_q = br_query sample_build, qc_tag = first_of (br_tags sample_build)\<rparr>
      (nullish (br_limit sample_build) DEFAULT_RETRIEVAL_RANK_LIMIT) None"
  have "length ?ranked = 1"
    by (simp add: length_rank sample_build_def DEFAULT_RETRIEVAL_RANK_LIMIT_def RETRIEVAL_MAX_RANKED_def)
  then obtain m where m: "?ranked = [m]" by (auto simp: length_Suc_conv)
  have "\<exists>st1. rank_or_recall sample_deps sample_call (sample_scope ''w'') sample_build None sample_context = (Inr ([m], 1, MemoMiss), st1)"
  proof -
    have "cx_memo sample_context = []" "cd_memo sample_deps \<noteq> None"
      by (simp_all add: sample_context_def sample_deps_def createContextService_def)
    then show ?thesis
      using m sample_found by (auto simp: rank_or_recall_def memo_get_def rank_candidates_def Let_def)
  qed
  then obtain st1 where ranked: "rank_or_recall sample_deps sample_call (sample_scope ''w'') sample_build None sample_context = (Inr ([m], 1, MemoMiss), st1)" ..
  have "selected_memories sample_deps scope (cd_policy sample_deps sample_build n (cd_deployment sample_deps) hints) db [m] = [m]" for scope n hints db
    by (simp add: selected_memories_def sample_deps_def createContextService_def createRetrievalPolicy_def DefaultRetrievalPolicy_def
        createProgressiveDeployment_def sample_wiring_def sample_build_def Let_def DEFAULT_RETRIEVAL_RANK_LIMIT_def max_def)
  then show ?thesis
    using ranked by (simp add: buildContext_def Let_def sample_deps_def [THEN arg_cong [where f = cd_learning]] createContextService_def)
qed

theorem context_isolated_witness:
  "\<exists>row. row \<in> {sample_row, sample_row\<lparr>m_id := ''2'', m_archived := True\<rparr>} \<and> m_owner row = ''o'' \<and> mr_workspace row = Some ''w''"
proof -
  obtain H where H: "context_run sample_deps sample_context H" "H = {sample_row, sample_row\<lparr>m_id := ''2'', m_archived := True\<rparr>}"
  proof
    have "context_run sample_deps sample_context (set (memories (cx_db sample_context)))"
      unfolding sample_context_def context_state.simps by (rule context_run.start)
    then show "context_run sample_deps sample_context {sample_row, sample_row\<lparr>m_id := ''2'', m_archived := True\<rparr>}"
      by (simp add: sample_context_def)
  qed simp
  have lexical: "wi_lexical (cd_wiring sample_deps) = None" by (simp add: sample_deps_def createContextService_def sample_wiring_def)
  have plain: "plain_scope (sample_scope ''w'')" by (simp add: plain_key_def sample_scope_def)
  obtain r st' m where "buildContext sample_deps sample_call (sample_scope ''w'') sample_build sample_context = (Inr r, st')" "m \<in> set (bx_memories r)"
    using sample_built by (metis list.set_intros(1))
  from context_isolated [OF H(1) lexical plain this]
  obtain row where row: "row \<in> H" "visible (ms_owner (sample_scope ''w'')) (workspaceIdFromScope (sample_scope ''w'')) row" by blast
  have "workspaceIdFromScope (sample_scope ''w'') = Some ''w''" "ms_owner (sample_scope ''w'') = ''o''" by code_simp+
  with row(2) have "m_owner row = ''o''" "mr_workspace row = Some ''w''" by (simp_all add: visible_def in_workspace_filter_def)
  with row(1) H(2) show ?thesis by blast
qed

definition sample_package :: context_db where
  "sample_package = (sample_context_db [] [])\<lparr>context_packages := [active_record ''p'' ''o'' ''t'']\<rparr>"

theorem package_lifecycle_forward_witness:
  "\<exists>r. lc_get SqlContextPackageLifecycleStore (fold package_step [RetirePackage (sample_scope ''w'') ''p'' ''u'', RegisterPackage ''p'' ''o'' ''v''] sample_package) ''o'' ''p'' = Some r
     \<and> (lp_state r = PackageActive \<or> canTransitionContextPackageLifecycle PackageActive (lp_state r))"
proof -
  have "lc_get SqlContextPackageLifecycleStore sample_package ''o'' ''p'' = Some (active_record ''p'' ''o'' ''t'')"
    by (simp add: SqlContextPackageLifecycleStore_def sample_package_def sql_first_Cons package_hit_def active_record_def)
  from package_lifecycle_forward [OF this] show ?thesis by (simp only: active_record_def package_record.simps)
qed

text \<open>The expansion by relations brings an archived memory into the context; retrieval leaves such memories out.\<close>

lemma archived_neighbor_in_context:
  "map (\<lambda>m. (m_id m, m_archived m)) (expandWithRelationNeighbors
     ((sample_relations [sample_relation ''r'' ''1'' ''2''])\<lparr>memories := [sample_row, sample_row\<lparr>m_id := ''2'', m_archived := True\<rparr>]\<rparr>)
     (sample_scope ''w'') [with_score (rowToRetrieval sample_row) 1] 5) = [(''1'', False), (''2'', True)]"
  by code_simp

text \<open>The closing tag has 17 characters, the check allows for 16: a context can be one character over its budget.\<close>

lemma xml_exceeds_budget:
  assumes "length (xml_block b m) + 32 \<le> 24000"
  shows "length (buildContextText [m] \<lparr>co_max = Some (length (xml_block b m) + 32), co_summary_only = Some b, co_format = Some XmlFormat\<rparr>) =
    length (xml_block b m) + 33"
  using assms by (simp add: buildContextText_def buildXml_def Let_def)

end
