(* ===== verification/Recall.thy ===== *)
theory Recall
  imports Retrieval
begin

section \<open>Recall\<close>

text \<open>
  \<^verbatim>\<open>src/src/memory/recall\<close>: a request is validated, a provider answers with candidates (SQL or the knowledge
  store), the policy filters and ranks them and explains its decision, and a context package is
  assembled within a budget of tokens. The digest, \<^verbatim>\<open>localeCompare\<close>, the check of a timestamp's format and
  its time are parameters; numbers are rationals; durations and the generation times are left out.
\<close>

subsection \<open>Requests, candidates, decisions\<close>

record recall_request =
  rr_id :: string
  rr_org :: string
  rr_query :: string
  rr_session :: "string option"
  rr_correlation :: "string option"
  rr_workspace :: "string option"
  rr_project :: "string option"
  rr_limit :: "nat option"
  rr_tags :: "string list option"
  rr_levels :: "string list option"
  rr_freshness :: "string option"
  rr_budget :: "nat option"

record recall_metadata =
  md_source :: string
  md_source_id :: string
  md_content_type :: string
  md_org :: string
  md_created :: string
  md_updated :: string
  md_embedding :: "string option"
  md_tokens :: "nat option"
  md_provenance :: string

record recall_candidate =
  ca_id :: string
  ca_org :: string
  ca_type :: string
  ca_ref :: string
  ca_document :: "string option"
  ca_version :: "string option"
  ca_memory :: "string option"
  ca_meta :: recall_metadata
  ca_confidence :: "rat option"

record candidate_set =
  ct_request :: string
  ct_org :: string
  ct_candidates :: "recall_candidate list"
  ct_provider :: string
  ct_truncated :: bool

record signal_reason =
  sr_reason :: string
  sr_weight :: rat
  sr_contribution :: rat

datatype recall_outcome = OutcomeSelected | OutcomeFilter | OutcomeRank | OutcomeLimit

record candidate_outcome =
  oc_candidate :: string
  oc_outcome :: recall_outcome
  oc_reasons :: "signal_reason list"
  oc_score :: rat

record recall_decision =
  dn_request :: string
  dn_version :: string
  dn_selected :: "string list"
  dn_rejected :: "string list"
  dn_reason :: string
  dn_confidence :: string
  dn_outcomes :: "candidate_outcome list"
  dn_primary :: string

record recall_env =
  rn_sha :: "string \<Rightarrow> string"
  rn_compare :: "string \<Rightarrow> string \<Rightarrow> int"
  rn_datetime :: "string \<Rightarrow> bool"
  rn_time :: "string \<Rightarrow> int"

subsection \<open>Schemas\<close>

definition given_text :: "string option \<Rightarrow> bool" where
  "given_text v \<longleftrightarrow> v \<noteq> Some []"

definition parse_or :: "bool \<Rightarrow> 'a \<Rightarrow> app_error + 'a" where
  "parse_or ok x = (if ok then Inr x else Inl (PlainError ''ZodError''))"

definition valid_recall_request :: "recall_request \<Rightarrow> bool" where
  "valid_recall_request r \<longleftrightarrow>
     rr_id r \<noteq> [] \<and> rr_org r \<noteq> [] \<and> rr_query r \<noteq> [] \<and> given_text (rr_session r) \<and> given_text (rr_correlation r) \<and>
     (rr_session r \<noteq> None \<or> rr_correlation r \<noteq> None) \<and> given_text (rr_workspace r) \<and> given_text (rr_project r) \<and>
     (case rr_limit r of None \<Rightarrow> True | Some n \<Rightarrow> 0 < n \<and> n \<le> 50) \<and> given_text (rr_freshness r) \<and> rr_budget r \<noteq> Some 0"

definition assertRecallRequest :: "recall_request \<Rightarrow> app_error + recall_request" where
  "assertRecallRequest r = parse_or (valid_recall_request r) r"

definition valid_metadata :: "recall_env \<Rightarrow> recall_metadata \<Rightarrow> bool" where
  "valid_metadata env md \<longleftrightarrow>
     md_source md \<noteq> [] \<and> md_source_id md \<noteq> [] \<and> md_content_type md \<noteq> [] \<and> md_org md \<noteq> [] \<and>
     rn_datetime env (md_created md) \<and> rn_datetime env (md_updated md) \<and> given_text (md_embedding md) \<and> md_provenance md \<noteq> []"

definition buildRecallCandidateMetadata :: "recall_env \<Rightarrow> recall_metadata \<Rightarrow> app_error + recall_metadata" where
  "buildRecallCandidateMetadata env md = parse_or (valid_metadata env md) md"

definition valid_candidate :: "recall_env \<Rightarrow> recall_candidate \<Rightarrow> bool" where
  "valid_candidate env c \<longleftrightarrow>
     ca_id c \<noteq> [] \<and> ca_org c \<noteq> [] \<and> ca_type c \<noteq> [] \<and> ca_ref c \<noteq> [] \<and> given_text (ca_document c) \<and>
     given_text (ca_version c) \<and> given_text (ca_memory c) \<and> valid_metadata env (ca_meta c) \<and>
     (case ca_confidence c of None \<Rightarrow> True | Some x \<Rightarrow> 0 \<le> x \<and> x \<le> 1)"

definition assertCandidateSet :: "recall_env \<Rightarrow> candidate_set \<Rightarrow> app_error + candidate_set" where
  "assertCandidateSet env s =
     parse_or (ct_request s \<noteq> [] \<and> ct_org s \<noteq> [] \<and> list_all (valid_candidate env) (ct_candidates s) \<and> ct_provider s \<noteq> []) s"

subsection \<open>Providers\<close>

definition recallCandidateId :: "recall_env \<Rightarrow> string \<Rightarrow> string list \<Rightarrow> string" where
  "recallCandidateId env prefix parts = ''cand-'' @ prefix @ ''-'' @ take 16 (rn_sha env (js_join '':'' parts))"

definition toRecallCandidate ::
  "recall_request \<Rightarrow> string \<Rightarrow> string \<Rightarrow> string \<Rightarrow> recall_metadata \<Rightarrow> string option \<Rightarrow> string option \<Rightarrow> string option
     \<Rightarrow> recall_candidate" where
  "toRecallCandidate request candidateId sourceType sourceReference md documentId versionId memoryId =
     \<lparr>ca_id = candidateId, ca_org = rr_org request, ca_type = sourceType, ca_ref = sourceReference,
      ca_document = documentId, ca_version = versionId, ca_memory = memoryId, ca_meta = md, ca_confidence = None\<rparr>"

definition sortCandidatesDeterministically :: "recall_env \<Rightarrow> recall_candidate list \<Rightarrow> recall_candidate list" where
  "sortCandidatesDeterministically env cs = js_sort (\<lambda>a b. rn_compare env (ca_id a) (ca_id b)) cs"

fun map_results :: "('a \<Rightarrow> 'e + 'b) \<Rightarrow> 'a list \<Rightarrow> 'e + 'b list" where
  "map_results f [] = Inr []"
| "map_results f (x # xs) = and_then (f x) (\<lambda>y. and_then (map_results f xs) (\<lambda>ys. Inr (y # ys)))"

definition DEFAULT_RECALL_LIMIT :: nat where "DEFAULT_RECALL_LIMIT = 20"
definition MAX_RECALL_LIMIT :: nat where "MAX_RECALL_LIMIT = 50"

definition mapMemoryToCandidate :: "recall_env \<Rightarrow> recall_request \<Rightarrow> memory \<Rightarrow> app_error + recall_candidate" where
  "mapMemoryToCandidate env request m =
     and_then (buildRecallCandidateMetadata env
       \<lparr>md_source = ''sql'', md_source_id = m_id m, md_content_type = str_or (m_type m) ''memory'', md_org = rr_org request,
        md_created = m_created m, md_updated = m_updated m, md_embedding = m_embedding m, md_tokens = None,
        md_provenance = ''sql-retrieval-candidate-source''\<rparr>)
       (\<lambda>md. Inr (toRecallCandidate request (recallCandidateId env ''sql'' [m_id m, rr_org request]) ''memory''
          (nullish (m_source_path m) (m_id m)) md None None (Some (m_id m))))"

definition recall_filters :: "recall_request \<Rightarrow> retrieval_filters" where
  "recall_filters request =
     \<lparr>rf_owner = rr_org request, rf_workspace = rr_workspace request, rf_project = rr_project request,
      rf_tags = nullish (rr_tags request) [], rf_levels = nullish (rr_levels request) [], rf_query = Some (rr_query request),
      rf_importance = None, rf_archived = Some False,
      rf_max = min (nullish (rr_limit request) DEFAULT_RECALL_LIMIT) MAX_RECALL_LIMIT\<rparr>"

type_synonym candidate_provider = "recall_request \<Rightarrow> app_error + candidate_set"

definition SqlCandidateProvider :: "recall_env \<Rightarrow> (retrieval_filters \<Rightarrow> app_error + memory list) \<Rightarrow> candidate_provider" where
  "SqlCandidateProvider env findCandidates request =
     and_then (findCandidates (recall_filters request)) (\<lambda>fetched.
       let scoped = filter (\<lambda>m. m_owner m = rr_org request) fetched
       in and_then (map_results (mapMemoryToCandidate env request) scoped) (\<lambda>cs.
            assertCandidateSet env
              \<lparr>ct_request = rr_id request, ct_org = rr_org request, ct_candidates = sortCandidatesDeterministically env cs,
               ct_provider = ''sql'', ct_truncated = rf_max (recall_filters request) \<le> length scoped\<rparr>))"

datatype record_status = RecordPending | RecordAvailable | RecordFailed

record knowledge_record =
  kr_version_id :: string
  kr_document :: string
  kr_org :: string
  kr_version :: string
  kr_status :: record_status
  kr_embeddings :: nat
  kr_created :: string
  kr_updated :: string
  kr_source_ref :: "string option"
  kr_source_type :: "string option"

definition mapRecordToCandidate :: "recall_env \<Rightarrow> recall_request \<Rightarrow> knowledge_record \<Rightarrow> app_error + recall_candidate" where
  "mapRecordToCandidate env request r =
     and_then (buildRecallCandidateMetadata env
       \<lparr>md_source = ''knowledge'', md_source_id = kr_version_id r, md_content_type = nullish (kr_source_type r) ''knowledge'',
        md_org = kr_org r, md_created = kr_created r, md_updated = kr_updated r,
        md_embedding = (if 0 < kr_embeddings r then Some (kr_version r) else None), md_tokens = None,
        md_provenance = ''knowledge-store-snapshot''\<rparr>)
       (\<lambda>md. Inr (toRecallCandidate request (recallCandidateId env ''knowledge'' [kr_version_id r, kr_org r])
          (nullish (kr_source_type r) ''knowledge'') (nullish (kr_source_ref r) (kr_document r)) md
          (Some (kr_document r)) (Some (kr_version_id r)) None))"

definition KnowledgeCandidateProvider :: "recall_env \<Rightarrow> (string \<Rightarrow> knowledge_record list) \<Rightarrow> candidate_provider" where
  "KnowledgeCandidateProvider env listRecords request =
     (let scoped = filter (\<lambda>r. kr_org r = rr_org request \<and> kr_status r = RecordAvailable) (listRecords (rr_org request));
          limited = take (nullish (rr_limit request) (length scoped)) scoped
      in and_then (map_results (mapRecordToCandidate env request) limited) (\<lambda>cs.
           assertCandidateSet env
             \<lparr>ct_request = rr_id request, ct_org = rr_org request, ct_candidates = sortCandidatesDeterministically env cs,
              ct_provider = ''knowledge'', ct_truncated = length limited < length scoped\<rparr>))"

subsection \<open>Policy\<close>

definition RECALL_POLICY_VERSION :: string where "RECALL_POLICY_VERSION = ''1.0.0''"

definition filter_reason :: "string \<Rightarrow> signal_reason" where
  "filter_reason text = \<lparr>sr_reason = text, sr_weight = 0, sr_contribution = 0\<rparr>"

text \<open>\<open>/^max_age:(\d+)(h|d)$/\<close>. An instant out of the range of \<^verbatim>\<open>Date\<close> is invalid, and every comparison with it is false.\<close>

definition freshnessCutoff :: "string \<Rightarrow> int \<Rightarrow> int option" where
  "freshnessCutoff policy evaluationNow =
     (let rest = drop (length ''max_age:'') policy; ds = butlast rest; u = last rest
      in if \<not> js_starts_with policy ''max_age:'' \<or> ds = [] \<or> \<not> list_all js_digit ds \<or> u \<notin> {CHR ''h'', CHR ''d''} then None
         else let ms = (if u = CHR ''h'' then int (digits_value ds) * 3600000 else int (digits_value ds) * 86400000);
                  cutoff = evaluationNow - ms
              in if 8640000000000000 < \<bar>cutoff\<bar> then None else Some cutoff)"

text \<open>One of the three filters: the reason it leaves, and whether the candidate passed.\<close>

definition member_filter :: "string \<Rightarrow> string list option \<Rightarrow> string \<Rightarrow> (signal_reason \<times> bool) list" where
  "member_filter name wanted value =
     (case wanted of
        None \<Rightarrow> []
      | Some ws \<Rightarrow>
          if ws = [] then []
          else if value \<in> set ws then [(filter_reason (name @ ''_match:'' @ value), True)]
          else [(filter_reason (name @ ''_filter:'' @ value), False)])"

definition freshness_filter :: "recall_env \<Rightarrow> string option \<Rightarrow> string \<Rightarrow> int \<Rightarrow> (signal_reason \<times> bool) list" where
  "freshness_filter env policy updatedAt evaluationNow =
     (case truthy policy of
        None \<Rightarrow> []
      | Some p \<Rightarrow>
          (case freshnessCutoff p evaluationNow of
             Some cutoff \<Rightarrow> if rn_time env updatedAt < cutoff then [(filter_reason (''freshness_filter:'' @ p), False)]
                            else [(filter_reason (''freshness_pass:'' @ p), True)]
           | None \<Rightarrow> [(filter_reason (''freshness_pass:'' @ p), True)]))"

definition applied_filters :: "recall_env \<Rightarrow> recall_request \<Rightarrow> int \<Rightarrow> recall_candidate \<Rightarrow> (signal_reason \<times> bool) list" where
  "applied_filters env request evaluationNow c =
     member_filter ''tag'' (rr_tags request) (md_source (ca_meta c)) @
     member_filter ''level'' (rr_levels request) (md_content_type (ca_meta c)) @
     freshness_filter env (rr_freshness request) (md_updated (ca_meta c)) evaluationNow"

definition passes_filters :: "recall_env \<Rightarrow> recall_request \<Rightarrow> int \<Rightarrow> recall_candidate \<Rightarrow> bool" where
  "passes_filters env request evaluationNow c \<longleftrightarrow> list_all snd (applied_filters env request evaluationNow c)"

definition filter_reasons :: "recall_env \<Rightarrow> recall_request \<Rightarrow> int \<Rightarrow> recall_candidate list \<Rightarrow> string \<Rightarrow> signal_reason list option" where
  "filter_reasons env request evaluationNow cs =
     map_of (rev (map (\<lambda>c. (ca_id c, map fst (applied_filters env request evaluationNow c))) cs))"

definition computeScore :: "recall_env \<Rightarrow> int \<Rightarrow> recall_candidate \<Rightarrow> signal_reason list" where
  "computeScore env evaluationNow c =
     (let ageDays = of_int (evaluationNow - rn_time env (md_updated (ca_meta c))) / 86400000
      in [\<lparr>sr_reason = (if ca_confidence c = None then ''confidence_default'' else ''confidence''), sr_weight = 1,
           sr_contribution = nullish (ca_confidence c) (1 / 2) * 1000\<rparr>,
          \<lparr>sr_reason = ''recency'', sr_weight = 1, sr_contribution = max 0 (500 - ageDays * 2)\<rparr>,
          (if truthy (md_embedding (ca_meta c)) = None
           then \<lparr>sr_reason = ''no_embedding'', sr_weight = 1, sr_contribution = 0\<rparr>
           else \<lparr>sr_reason = ''has_embedding'', sr_weight = 1, sr_contribution = 200\<rparr>)])"

definition score_total :: "signal_reason list \<Rightarrow> rat" where
  "score_total rs = sum_list (map sr_contribution rs)"

definition by_score :: "recall_env \<Rightarrow> int \<Rightarrow> recall_candidate \<Rightarrow> recall_candidate \<Rightarrow> int" where
  "by_score env evaluationNow a b =
     (let left = score_total (computeScore env evaluationNow a); right = score_total (computeScore env evaluationNow b)
      in if right < left then -1 else if left < right then 1 else rn_compare env (ca_id a) (ca_id b))"

definition rankCandidates :: "recall_env \<Rightarrow> int \<Rightarrow> recall_candidate list \<Rightarrow> recall_candidate list" where
  "rankCandidates env evaluationNow cs = js_sort (by_score env evaluationNow) cs"

definition candidate_scores :: "recall_env \<Rightarrow> int \<Rightarrow> recall_candidate list \<Rightarrow> string \<Rightarrow> signal_reason list option" where
  "candidate_scores env evaluationNow cs = map_of (rev (map (\<lambda>c. (ca_id c, computeScore env evaluationNow c)) cs))"

definition rejected_by_filter :: "signal_reason list \<Rightarrow> bool" where
  "rejected_by_filter reasons \<longleftrightarrow>
     list_ex (\<lambda>r. js_starts_with (sr_reason r) ''tag_filter'' \<or> js_starts_with (sr_reason r) ''level_filter'' \<or>
        js_starts_with (sr_reason r) ''freshness_filter'') reasons"

definition candidate_outcome_of ::
  "recall_candidate list \<Rightarrow> (string \<Rightarrow> signal_reason list option) \<Rightarrow> (string \<Rightarrow> signal_reason list option)
     \<Rightarrow> recall_candidate \<Rightarrow> candidate_outcome" where
  "candidate_outcome_of selected scores reasonsOf c =
     (let reasons = nullish (reasonsOf (ca_id c)) [];
          outcome = (if list_ex (\<lambda>s. ca_id s = ca_id c) selected then OutcomeSelected
                     else if rejected_by_filter reasons then OutcomeFilter
                     else if scores (ca_id c) \<noteq> None then OutcomeLimit else OutcomeRank)
      in \<lparr>oc_candidate = ca_id c, oc_outcome = outcome, oc_reasons = reasons @ nullish (scores (ca_id c)) [],
          oc_score = (case scores (ca_id c) of None \<Rightarrow> 0 | Some rs \<Rightarrow> score_total rs)\<rparr>)"

definition by_rat_desc :: "('a \<Rightarrow> rat) \<Rightarrow> 'a \<Rightarrow> 'a \<Rightarrow> int" where
  "by_rat_desc f a b = (if f b < f a then -1 else if f a < f b then 1 else 0)"

definition primary_reason :: "candidate_outcome list \<Rightarrow> string" where
  "primary_reason outcomes =
     (case js_sort (by_rat_desc oc_score) (filter (\<lambda>x. oc_outcome x = OutcomeSelected) outcomes) of
        [] \<Rightarrow> ''none''
      | best # _ \<Rightarrow>
          (case js_sort (by_rat_desc sr_contribution) (filter (\<lambda>s. \<not> js_starts_with (sr_reason s) ''tag_'' \<and>
                 \<not> js_starts_with (sr_reason s) ''level_'' \<and> \<not> js_starts_with (sr_reason s) ''freshness_'' \<and>
                 0 < sr_contribution s) (oc_reasons best)) of
             [] \<Rightarrow> ''confidence'' | r # _ \<Rightarrow> sr_reason r))"

definition confidence_band :: "recall_candidate list \<Rightarrow> string" where
  "confidence_band selected =
     (let avgConfidence = (if selected = [] then 0
            else sum_list (map (\<lambda>c. nullish (ca_confidence c) (1 / 2)) selected) / of_nat (length selected))
      in if 3 / 4 \<le> avgConfidence then ''high'' else if 2 / 5 \<le> avgConfidence then ''medium'' else ''low'')"

definition decision_text :: "nat \<Rightarrow> nat \<Rightarrow> nat \<Rightarrow> string" where
  "decision_text selectedCount allCount rejectedCount =
     ''Selected '' @ js_nat_string selectedCount @ '' of '' @ js_nat_string allCount @
     '' candidates by confidence+recency ranking'' @
     (if 0 < rejectedCount then ''; '' @ js_nat_string rejectedCount @ '' rejected by filter'' else []) @ ''.''"

definition buildDecision ::
  "string \<Rightarrow> recall_candidate list \<Rightarrow> recall_candidate list \<Rightarrow> recall_candidate list
     \<Rightarrow> (string \<Rightarrow> signal_reason list option) \<Rightarrow> (string \<Rightarrow> signal_reason list option) \<Rightarrow> recall_decision" where
  "buildDecision requestId allCandidates selected rejected scores reasonsOf =
     (let outcomes = map (candidate_outcome_of selected scores reasonsOf) allCandidates
      in \<lparr>dn_request = requestId, dn_version = RECALL_POLICY_VERSION, dn_selected = map ca_id selected,
          dn_rejected = map ca_id rejected,
          dn_reason = decision_text (length selected) (length allCandidates) (length rejected),
          dn_confidence = js_nat_string (length selected) @ '' candidates selected with '' @ confidence_band selected @ '' average confidence.'',
          dn_outcomes = outcomes, dn_primary = primary_reason outcomes\<rparr>)"

definition applyPolicy :: "recall_env \<Rightarrow> int \<Rightarrow> recall_request \<Rightarrow> candidate_set \<Rightarrow> recall_candidate list \<times> recall_decision" where
  "applyPolicy env evaluationNow request cset =
     (let cs = ct_candidates cset;
          selected = filter (passes_filters env request evaluationNow) cs;
          filterRejected = filter (\<lambda>c. \<not> passes_filters env request evaluationNow c) cs;
          ranked = rankCandidates env evaluationNow selected;
          limited = take (nullish (rr_limit request) (length ranked)) ranked;
          rejectedByLimit = filter (\<lambda>c. ca_id c \<notin> set (map ca_id limited)) selected
      in (limited, buildDecision (rr_id request) cs limited (filterRejected @ rejectedByLimit)
            (candidate_scores env evaluationNow selected) (filter_reasons env request evaluationNow cs)))"

subsection \<open>Budget\<close>

text \<open>\<open>Math.ceil(words * 1.3)\<close> is taken exactly.\<close>

definition estimateTokens :: "string \<Rightarrow> nat" where
  "estimateTokens s =
     (if s = [] then 0
      else let wordCount = length (split_spaces [] (js_trim s));
               charBased = (length s + 3) div 4;
               wordBased = (wordCount * 13 + 9) div 10
           in max 1 ((charBased + wordBased + 1) div 2))"

definition DEFAULT_CONTEXT_TOKEN_BUDGET :: nat where "DEFAULT_CONTEXT_TOKEN_BUDGET = 2048"

record budget_entry =
  be_candidate :: string
  be_text :: string
  be_tokens :: nat

record budget_allocation =
  ba_budget :: nat
  ba_used :: nat
  ba_remaining :: nat
  ba_included :: "budget_entry list"
  ba_omitted :: "string list"

fun budget_loop :: "nat \<Rightarrow> (string \<times> string) list \<Rightarrow> budget_entry list \<Rightarrow> string list \<Rightarrow> nat
    \<Rightarrow> budget_entry list \<times> string list \<times> nat" where
  "budget_loop budget [] included omitted used = (included, omitted, used)"
| "budget_loop budget ((i, text) # cs) included omitted used =
     (let tokenCount = estimateTokens text
      in if used + tokenCount \<le> budget
         then budget_loop budget cs (included @ [\<lparr>be_candidate = i, be_text = text, be_tokens = tokenCount\<rparr>]) omitted (used + tokenCount)
         else budget_loop budget cs included (omitted @ [i]) used)"

definition allocateContextBudget :: "(string \<times> string) list \<Rightarrow> nat \<Rightarrow> budget_allocation" where
  "allocateContextBudget cs budget =
     (let safeBudget = max 1 budget
      in case budget_loop safeBudget cs [] [] 0 of
           (included, omitted, used) \<Rightarrow>
             \<lparr>ba_budget = safeBudget, ba_used = used, ba_remaining = safeBudget - used, ba_included = included, ba_omitted = omitted\<rparr>)"

subsection \<open>Context package and service\<close>

record recall_item =
  it_id :: string
  it_candidate :: string
  it_text :: string
  it_ref :: string
  it_tokens :: nat
  it_type :: string
  it_org :: string
  it_provenance :: string

record recall_package =
  rpk_package :: string
  rpk_request :: string
  rpk_trace :: string
  rpk_org :: string
  rpk_decision :: string
  rpk_policy :: string
  rpk_items :: "recall_item list"
  rpk_attribution :: "(string \<times> string \<times> string) list"
  rpk_usage :: "nat \<times> nat \<times> nat"
  rpk_omitted :: "string list"
  rpk_selected :: nat
  rpk_assembled :: nat

definition candidateText :: "recall_candidate \<Rightarrow> string" where
  "candidateText c =
     md_source_id (ca_meta c) @ [CHR 0x0A] @ ''Source: '' @ ca_ref c @ [CHR 0x0A] @ ''Type: '' @ ca_type c"

definition decisionId :: "recall_env \<Rightarrow> recall_decision \<Rightarrow> string" where
  "decisionId env d = ''rd-'' @ take 16 (rn_sha env
     (dn_request d @ ''|'' @ dn_version d @ ''|'' @ js_join '','' (dn_selected d)))"

definition candidate_by_id :: "recall_candidate list \<Rightarrow> string \<Rightarrow> recall_candidate" where
  "candidate_by_id cs i = the (map_of (rev (map (\<lambda>c. (ca_id c, c)) cs)) i)"

definition item_of :: "recall_candidate list \<Rightarrow> budget_entry \<Rightarrow> recall_item" where
  "item_of cs e =
     (let c = candidate_by_id cs (be_candidate e)
      in \<lparr>it_id = ''ctx-'' @ be_candidate e, it_candidate = be_candidate e, it_text = be_text e, it_ref = ca_ref c,
          it_tokens = be_tokens e, it_type = ca_type c, it_org = ca_org c, it_provenance = md_provenance (ca_meta c)\<rparr>)"

definition assembleContextPackage ::
  "recall_env \<Rightarrow> recall_request \<Rightarrow> string \<Rightarrow> recall_decision \<Rightarrow> recall_candidate list \<Rightarrow> string \<Rightarrow> recall_package" where
  "assembleContextPackage env request traceId decision rankedCandidates packageId =
     (let orderedSelected = filter (\<lambda>c. ca_id c \<in> set (dn_selected decision)) rankedCandidates;
          allocation = allocateContextBudget (map (\<lambda>c. (ca_id c, candidateText c)) orderedSelected)
                         (nullish (rr_budget request) DEFAULT_CONTEXT_TOKEN_BUDGET);
          items = map (item_of orderedSelected) (ba_included allocation)
      in \<lparr>rpk_package = packageId, rpk_request = rr_id request, rpk_trace = traceId, rpk_org = rr_org request,
          rpk_decision = decisionId env decision, rpk_policy = dn_version decision, rpk_items = items,
          rpk_attribution = map (\<lambda>i. let c = candidate_by_id orderedSelected (it_candidate i) in (it_candidate i, ca_ref c, ca_type c)) items,
          rpk_usage = (ba_budget allocation, ba_used allocation, ba_remaining allocation),
          rpk_omitted = ba_omitted allocation, rpk_selected = length orderedSelected,
          rpk_assembled = length (remdups (map be_candidate (ba_included allocation)))\<rparr>)"

definition candidateSetHash :: "candidate_set \<Rightarrow> string" where
  "candidateSetHash cset =
     (let payload = js_join ''|'' (sort (map ca_id (ct_candidates cset)))
      in ''csh-'' @ js_nat_string (length payload) @ ''-'' @ payload)"

record recall_trace =
  tc_id :: string
  tc_request :: string
  tc_org :: string
  tc_count :: nat
  tc_policy :: "string option"
  tc_provider :: "(string \<times> nat \<times> nat \<times> string) option"

definition createRecallTrace :: "recall_request \<Rightarrow> candidate_set \<Rightarrow> string \<Rightarrow> string option \<Rightarrow> recall_trace" where
  "createRecallTrace request cset traceId policyVersion =
     \<lparr>tc_id = traceId, tc_request = rr_id request, tc_org = rr_org request, tc_count = length (ct_candidates cset),
      tc_policy = policyVersion,
      tc_provider = (if ct_provider cset = [] then None
        else Some (ct_provider cset, length (ct_candidates cset), length (ct_candidates cset), candidateSetHash cset))\<rparr>"

record recall_result =
  rt_request :: string
  rt_trace :: string
  rt_org :: string
  rt_candidates :: "recall_candidate list"
  rt_ranked :: "recall_candidate list"
  rt_decision :: recall_decision
  rt_package :: recall_package

text \<open>
  The identifiers of the trace and of the package are minted. The checks of the trace, the package and
  the result by their schemas concern only what this code has built from validated parts.
\<close>

definition recall ::
  "recall_env \<Rightarrow> candidate_provider \<Rightarrow> int \<Rightarrow> string \<Rightarrow> string \<Rightarrow> recall_request \<Rightarrow> app_error + recall_result" where
  "recall env provide evaluationNow traceId packageId request =
     and_then (assertRecallRequest request) (\<lambda>validated.
     and_then (provide validated) (\<lambda>cset.
       (case applyPolicy env evaluationNow validated cset of
          (ranked, decision) \<Rightarrow>
            let trace = createRecallTrace validated cset traceId (Some RECALL_POLICY_VERSION)
            in Inr \<lparr>rt_request = rr_id validated, rt_trace = tc_id trace, rt_org = rr_org validated,
                    rt_candidates = ct_candidates cset, rt_ranked = ranked, rt_decision = decision,
                    rt_package = assembleContextPackage env validated (tc_id trace) decision ranked packageId\<rparr>)))"

end
