(* ===== verification/Recall_Laws.thy ===== *)
theory Recall_Laws
  imports Recall Retrieval_Laws "HOL-Library.Sublist"
begin

section \<open>Laws of recall\<close>

text \<open>
  A context package keeps its budget and the order of the ranking; a decision accounts for every
  candidate once; and a recall never leaves the organization of the request, whichever provider
  answers. The last lemmas show what the filters, the recency signal and the decision's text do not say.
\<close>

subsection \<open>Budget\<close>

lemma subseq_snoc: "subseq xs ys \<Longrightarrow> subseq (xs @ [x]) (ys @ [x])"
  by simp

lemma subseq_weaken: "subseq xs ys \<Longrightarrow> subseq xs (ys @ [x])"
  by (metis append_Nil2 list_emb_append_mono list_emb_Nil)

lemma subseq_in: "subseq xs ys \<Longrightarrow> x \<in> set xs \<Longrightarrow> x \<in> set ys"
  by (induction rule: list_emb.induct) auto

abbreviation entry_pair :: "budget_entry \<Rightarrow> string \<times> string" where
  "entry_pair e \<equiv> (be_candidate e, be_text e)"

lemma budget_loop_ok:
  assumes "budget_loop budget cs included omitted used = (included', omitted', used')"
    and "used \<le> budget" "used = sum_list (map be_tokens included)" "subseq (map entry_pair included) seen"
    and "length included + length omitted = length seen"
  shows "used' \<le> budget \<and> used' = sum_list (map be_tokens included') \<and> subseq (map entry_pair included') (seen @ cs) \<and>
    length included' + length omitted' = length (seen @ cs)"
  using assms
proof (induction cs arbitrary: included omitted used seen)
  case (Cons c cs)
  obtain i t where c: "c = (i, t)" by fastforce
  let ?e = "\<lparr>be_candidate = i, be_text = t, be_tokens = estimateTokens t\<rparr>"
  show ?case
  proof (cases "used + estimateTokens t \<le> budget")
    case True
    from Cons.IH [of "included @ [?e]" omitted "used + estimateTokens t" "seen @ [c]"] Cons.prems True c
    show ?thesis by (simp add: Let_def)
  next
    case False
    from Cons.IH [of included "omitted @ [i]" used "seen @ [c]"] Cons.prems False c
      subseq_weaken [of "map entry_pair included" seen "(i, t)"]
    show ?thesis by (simp add: Let_def)
  qed
qed simp

lemma allocation_ok:
  "ba_used (allocateContextBudget cs budget) \<le> ba_budget (allocateContextBudget cs budget) \<and>
   ba_used (allocateContextBudget cs budget) = sum_list (map be_tokens (ba_included (allocateContextBudget cs budget))) \<and>
   subseq (map entry_pair (ba_included (allocateContextBudget cs budget))) cs \<and>
   length (ba_included (allocateContextBudget cs budget)) + length (ba_omitted (allocateContextBudget cs budget)) = length cs"
proof -
  obtain included omitted used where run: "budget_loop (max 1 budget) cs [] [] 0 = (included, omitted, used)" by (metis prod_cases3)
  from budget_loop_ok [OF run, of "[]"] show ?thesis using run by (simp add: allocateContextBudget_def Let_def)
qed

subsection \<open>Decision\<close>

lemma filter_not_taken_ids:
  assumes "distinct (map f xs)"
  shows "filter (\<lambda>x. f x \<notin> f ` set (take n xs)) xs = drop n xs"
proof -
  have "distinct (map f (take n xs) @ map f (drop n xs))" using assms by (simp flip: map_append)
  then have "filter (\<lambda>x. f x \<notin> f ` set (take n xs)) (drop n xs) = drop n xs"
    by (intro filter_True) auto
  moreover have "filter (\<lambda>x. f x \<notin> f ` set (take n xs)) (take n xs) = []" by (auto simp: filter_empty_conv)
  ultimately show ?thesis by (metis append_Nil append_take_drop_id filter_append)
qed

lemma by_score_le:
  "by_score env now a b \<le> 0 \<Longrightarrow> score_total (computeScore env now b) \<le> score_total (computeScore env now a)"
  "\<not> by_score env now a b \<le> 0 \<Longrightarrow> score_total (computeScore env now a) \<le> score_total (computeScore env now b)"
  by (auto simp: by_score_def Let_def split: if_splits)

lemma policy_ranked:
  "fst (applyPolicy env now request cset) =
     take (nullish (rr_limit request) (length (filter (passes_filters env request now) (ct_candidates cset))))
       (rankCandidates env now (filter (passes_filters env request now) (ct_candidates cset)))"
  by (simp add: applyPolicy_def Let_def rankCandidates_def)

lemma policy_selected: "dn_selected (snd (applyPolicy env now request cset)) = map ca_id (fst (applyPolicy env now request cset))"
  by (simp add: applyPolicy_def Let_def buildDecision_def)

lemma policy_from:
  "c \<in> set (fst (applyPolicy env now request cset)) \<Longrightarrow> c \<in> set (ct_candidates cset) \<and> passes_filters env request now c"
  by (auto simp: policy_ranked rankCandidates_def dest!: in_set_takeD)

lemma mset_accounts:
  assumes "mset L = mset D" "mset R + mset D = mset S" "mset S + mset A = mset C"
  shows "mset (map f R) + mset (map f (A @ L)) = mset (map f C)"
proof -
  have "mset (map f C) = image_mset f (mset R + mset D + mset A)" using assms(2,3) by simp
  then show ?thesis by (simp add: assms(1) ac_simps)
qed


subsection \<open>Organization\<close>

lemma candidate_by_id_in:
  assumes "i \<in> ca_id ` set cs"
  shows "candidate_by_id cs i \<in> set cs \<and> ca_id (candidate_by_id cs i) = i"
proof -
  let ?m = "map_of (rev (map (\<lambda>c. (ca_id c, c)) cs))"
  have "?m i \<noteq> None" using assms by (auto simp: map_of_eq_None_iff image_iff)
  then obtain c where "?m i = Some c" by blast
  moreover from this have "c \<in> set cs \<and> ca_id c = i" by (auto dest!: map_of_SomeD)
  ultimately show ?thesis by (simp add: candidate_by_id_def)
qed

lemma map_results_from: "map_results f xs = Inr ys \<Longrightarrow> y \<in> set ys \<Longrightarrow> \<exists>x \<in> set xs. f x = Inr y"
  by (induction xs arbitrary: ys) (auto simp: and_then_eq_Inr)

lemma recall_parts:
  assumes "recall env provide now traceId packageId request = Inr r"
  obtains cset where "provide request = Inr cset" "rt_candidates r = ct_candidates cset"
    "rt_ranked r = fst (applyPolicy env now request cset)" "rt_decision r = snd (applyPolicy env now request cset)"
    "rt_package r = assembleContextPackage env request traceId (rt_decision r) (rt_ranked r) packageId"
proof -
  from assms obtain cset where cset: "provide request = Inr cset"
    and run: "(case applyPolicy env now request cset of (ranked, decision) \<Rightarrow>
        Inr \<lparr>rt_request = rr_id request, rt_trace = traceId, rt_org = rr_org request, rt_candidates = ct_candidates cset,
              rt_ranked = ranked, rt_decision = decision,
              rt_package = assembleContextPackage env request traceId decision ranked packageId\<rparr>) = (Inr r :: app_error + recall_result)"
    unfolding recall_def and_then_eq_Inr assertRecallRequest_def parse_or_def createRecallTrace_def Let_def by (fastforce split: if_splits)
  then show thesis using that [OF cset] by (cases "applyPolicy env now request cset") auto
qed

text \<open>What a recall needs of its provider: candidates of the organization that asked.\<close>

locale recall_provider =
  fixes provide :: candidate_provider
  assumes provide_scoped: "provide request = Inr cset \<Longrightarrow> c \<in> set (ct_candidates cset) \<Longrightarrow>
    ca_org c = rr_org request \<and> md_org (ca_meta c) = rr_org request"
begin

lemma ranked_scoped:
  assumes "recall env provide now traceId packageId request = Inr r" "c \<in> set (rt_ranked r)"
  shows "ca_org c = rr_org request \<and> md_org (ca_meta c) = rr_org request"
  using assms(2) policy_from provide_scoped by (rule_tac recall_parts [OF assms(1)]) metis

lemma items_scoped:
  assumes "recall env provide now traceId packageId request = Inr r" "it \<in> set (rpk_items (rt_package r))"
  shows "it_org it = rr_org request \<and> it_candidate it \<in> ca_id ` set (rt_ranked r)"
proof (rule recall_parts [OF assms(1)])
  let ?cs = "filter (\<lambda>c. ca_id c \<in> set (dn_selected (rt_decision r))) (rt_ranked r)"
  let ?texts = "map (\<lambda>c. (ca_id c, candidateText c)) ?cs"
  fix cset
  assume package: "rt_package r = assembleContextPackage env request traceId (rt_decision r) (rt_ranked r) packageId"
  then obtain e where e: "e \<in> set (ba_included (allocateContextBudget ?texts (nullish (rr_budget request) DEFAULT_CONTEXT_TOKEN_BUDGET)))"
    "it = item_of ?cs e"
    using assms(2) by (auto simp: assembleContextPackage_def Let_def)
  from e(1) have included: "entry_pair e \<in> set (map entry_pair (ba_included (allocateContextBudget ?texts (nullish (rr_budget request) DEFAULT_CONTEXT_TOKEN_BUDGET))))"
    unfolding list.set_map by (rule imageI)
  have "subseq (map entry_pair (ba_included (allocateContextBudget ?texts (nullish (rr_budget request) DEFAULT_CONTEXT_TOKEN_BUDGET)))) ?texts"
    using allocation_ok by blast
  from subseq_in [OF this included] have "entry_pair e \<in> set ?texts" .
  then have candidate: "be_candidate e \<in> ca_id ` set ?cs" by auto
  have "candidate_by_id ?cs (be_candidate e) \<in> set (rt_ranked r)" using candidate_by_id_in [OF candidate] by simp
  moreover have "be_candidate e \<in> ca_id ` set (rt_ranked r)" using candidate by auto
  ultimately show ?thesis using ranked_scoped [OF assms(1)] e(2) by (simp add: item_of_def Let_def)
qed

end

lemma sql_provider_from:
  assumes "SqlCandidateProvider env source request = Inr cset" "c \<in> set (ct_candidates cset)"
  shows "\<exists>ms m. source (recall_filters request) = Inr ms \<and> m \<in> set ms \<and> m_owner m = rr_org request \<and> mapMemoryToCandidate env request m = Inr c"
proof -
  from assms(1) obtain ms cs where "source (recall_filters request) = Inr ms"
    "map_results (mapMemoryToCandidate env request) (filter (\<lambda>m. m_owner m = rr_org request) ms) = Inr cs"
    "ct_candidates cset = sortCandidatesDeterministically env cs"
    by (auto simp: SqlCandidateProvider_def and_then_eq_Inr assertCandidateSet_def parse_or_def Let_def split: if_splits)
  with assms(2) map_results_from show ?thesis by (fastforce simp: sortCandidatesDeterministically_def)
qed

lemma memory_candidate:
  "mapMemoryToCandidate env request m = Inr c \<Longrightarrow>
   ca_org c = rr_org request \<and> md_org (ca_meta c) = rr_org request \<and> ca_memory c = Some (m_id m) \<and> md_source (ca_meta c) = ''sql''"
  by (auto simp: mapMemoryToCandidate_def and_then_eq_Inr buildRecallCandidateMetadata_def parse_or_def toRecallCandidate_def split: if_splits)

interpretation sql_recall: recall_provider "SqlCandidateProvider env source" for env source
  by unfold_locales (metis sql_provider_from memory_candidate)+

interpretation knowledge_recall: recall_provider "KnowledgeCandidateProvider env listRecords" for env listRecords
proof unfold_locales
  fix request cset c
  assume "KnowledgeCandidateProvider env listRecords request = Inr cset" "c \<in> set (ct_candidates cset)"
  moreover define rs where rs: "rs = filter (\<lambda>r. kr_org r = rr_org request \<and> kr_status r = RecordAvailable) (listRecords (rr_org request))"
  ultimately obtain cs where cs: "map_results (mapRecordToCandidate env request) (take (nullish (rr_limit request) (length rs)) rs) = Inr cs" "c \<in> set cs"
    by (auto simp: KnowledgeCandidateProvider_def and_then_eq_Inr assertCandidateSet_def parse_or_def Let_def
        sortCandidatesDeterministically_def split: if_splits)
  then obtain x where "x \<in> set rs" "mapRecordToCandidate env request x = Inr c"
    using map_results_from [OF cs] by (blast dest: in_set_takeD)
  then show "ca_org c = rr_org request \<and> md_org (ca_meta c) = rr_org request"
    using rs by (auto simp: mapRecordToCandidate_def and_then_eq_Inr buildRecallCandidateMetadata_def parse_or_def toRecallCandidate_def split: if_splits)
qed

text \<open>
  C7: Every item of the context package of a recall over SQL carries the organization of the request and
  stands for a ranked candidate made from a memory the source returned that the organization owns.
\<close>

theorem recall_stays_in_organization:
  assumes "recall env (SqlCandidateProvider env source) now traceId packageId request = Inr r" "it \<in> set (rpk_items (rt_package r))"
  shows "it_org it = rr_org request \<and> (\<exists>ms m c. source (recall_filters request) = Inr ms \<and> m \<in> set ms \<and> m_owner m = rr_org request \<and>
    c \<in> set (rt_ranked r) \<and> ca_id c = it_candidate it \<and> ca_memory c = Some (m_id m))"
proof
  note item = sql_recall.items_scoped [OF assms]
  then show "it_org it = rr_org request" by simp
  obtain c where c: "c \<in> set (rt_ranked r)" "ca_id c = it_candidate it" using item by auto
  then have "\<exists>cset. SqlCandidateProvider env source request = Inr cset \<and> c \<in> set (ct_candidates cset)"
    using policy_from by (rule_tac recall_parts [OF assms(1)]) metis
  then show "\<exists>ms m c. source (recall_filters request) = Inr ms \<and> m \<in> set ms \<and> m_owner m = rr_org request \<and>
      c \<in> set (rt_ranked r) \<and> ca_id c = it_candidate it \<and> ca_memory c = Some (m_id m)"
    using sql_provider_from memory_candidate c by metis
qed


subsection \<open>What the policy does not say\<close>

text \<open>
  The tag filter compares the wanted tags with the name of the provider. The SQL provider has already
  selected by tags, and then every one of its candidates is rejected, unless \<open>sql\<close> is itself wanted.
\<close>

lemma tagged_recall_empty:
  assumes "recall env (SqlCandidateProvider env source) now traceId packageId request = Inr r"
    and "rr_tags request = Some tags" "tags \<noteq> []" "''sql'' \<notin> set tags"
  shows "rt_ranked r = []"
proof (rule recall_parts [OF assms(1)])
  fix cset
  assume cset: "SqlCandidateProvider env source request = Inr cset" and ranked: "rt_ranked r = fst (applyPolicy env now request cset)"
  have "\<not> passes_filters env request now c" if "c \<in> set (ct_candidates cset)" for c
  proof -
    obtain m where "mapMemoryToCandidate env request m = Inr c" using sql_provider_from [OF cset \<open>c \<in> set _\<close>] by blast
    then have "md_source (ca_meta c) = ''sql''" using memory_candidate by blast
    then show ?thesis using assms(2-4) by (simp add: passes_filters_def applied_filters_def member_filter_def)
  qed
  then show "rt_ranked r = []" using ranked policy_from by (metis list.set_intros(1) neq_Nil_conv)
qed

text \<open>The comment bounds the recency signal by 500: a timestamp in the future exceeds it, without a bound.\<close>

lemma future_recency_unbounded:
  assumes "now < rn_time env (md_updated (ca_meta c))"
  shows "500 < sr_contribution (computeScore env now c ! 1)"
  using assms by (simp add: computeScore_def Let_def max_def divide_neg_pos)

text \<open>A freshness policy that is not of the form \<open>max_age:<n>h\<close> or \<open>max_age:<n>d\<close> lets every candidate pass.\<close>

lemma malformed_freshness_passes:
  "freshness_filter env (Some ''30d'') updatedAt now = [(filter_reason ''freshness_pass:30d'', True)]"
proof -
  have "freshnessCutoff ''30d'' now = None" by (simp add: freshnessCutoff_def js_starts_with_def)
  then show ?thesis by (simp add: freshness_filter_def)
qed

subsection \<open>Samples\<close>

definition sample_recall_env :: recall_env where
  "sample_recall_env = \<lparr>rn_sha = \<lambda>s. s, rn_compare = \<lambda>_ _. 0, rn_datetime = \<lambda>_. True, rn_time = \<lambda>_. 0\<rparr>"

definition sample_recall :: recall_request where
  "sample_recall = \<lparr>rr_id = ''q'', rr_org = ''o'', rr_query = ''x'', rr_session = Some ''s'', rr_correlation = None, rr_workspace = None,
     rr_project = None, rr_limit = Some 1, rr_tags = None, rr_levels = None, rr_freshness = None, rr_budget = None\<rparr>"

definition sample_answers :: "retrieval_filters \<Rightarrow> app_error + memory list" where
  "sample_answers f = Inr [rowToMemory sample_row, (rowToMemory sample_row)\<lparr>m_id := ''2''\<rparr>, (rowToMemory sample_row)\<lparr>m_id := ''3'', m_owner := ''mallory''\<rparr>]"

definition sample_recalled :: "app_error + recall_result" where
  "sample_recalled = recall sample_recall_env (SqlCandidateProvider sample_recall_env sample_answers) 0 ''t'' ''p'' sample_recall"

lemma sample_recalled_items: "map it_candidate (rpk_items (rt_package (projr sample_recalled))) = [''cand-sql-1:o'']" "\<not> isl sample_recalled"
  by code_simp+

lemma sample_recalled_Inr: "recall sample_recall_env (SqlCandidateProvider sample_recall_env sample_answers) 0 ''t'' ''p'' sample_recall = Inr (projr sample_recalled)"
  using sample_recalled_items(2) by (cases sample_recalled) (auto simp: sample_recalled_def [symmetric])

theorem recall_stays_in_organization_witness:
  "\<exists>m c. m \<in> set (projr (sample_answers (recall_filters sample_recall))) \<and> m_owner m = ''o'' \<and>
     c \<in> set (rt_ranked (projr sample_recalled)) \<and> ca_id c = ''cand-sql-1:o'' \<and> ca_memory c = Some (m_id m)"
proof -
  obtain it where it: "it \<in> set (rpk_items (rt_package (projr sample_recalled)))" "it_candidate it = ''cand-sql-1:o''"
    using sample_recalled_items(1) by (auto simp: map_eq_Cons_conv)
  from recall_stays_in_organization [OF sample_recalled_Inr it(1)] it(2) show ?thesis
    by (auto simp: sample_answers_def sample_recall_def)
qed


definition sample_candidates :: candidate_set where
  "sample_candidates = projr (SqlCandidateProvider sample_recall_env sample_answers sample_recall)"


text \<open>The text counts what the limit cut off as rejected by a filter.\<close>

lemma limit_reported_as_filter:
  "dn_reason (snd (applyPolicy sample_recall_env 0 sample_recall sample_candidates)) =
     ''Selected 1 of 2 candidates by confidence+recency ranking; 1 rejected by filter.''"
  by code_simp

end
