(* ===== verification/Federation.thy ===== *)
theory Federation
  imports Client_Sync_Laws
begin

section \<open>Federated exchange of memories\<close>

text \<open>
  \<^verbatim>\<open>src/src/federation/\<close>: a node pulls a bundle of memories and applies it, or exports memories and
  pushes them to a peer. The registry, the trust stores, the policy, the conflict resolver and the
  metadata stores of its adapters, the exchange service, the controller and routes, and the ports
  \<^verbatim>\<open>src/src/composition/create-federation-ports.ts\<close> builds. The only transport the source has is the
  in-process one. The hash of a bundle, the content of the trust file and what
  \<^verbatim>\<open>z.string().uuid()\<close> accepts are arguments.
\<close>

subsection \<open>Nodes and bundles\<close>

record federation_node =
  fn_id :: string
  fn_display :: "string option"
  fn_region :: "string option"
  fn_cloud :: "string option"
  fn_base_url :: "string option"
  fn_grpc :: "string option"
  fn_protocol :: string
  fn_capabilities :: "string list option"
  fn_trusted :: "bool option"

record federation_ref =
  fr_node :: string
  fr_owner :: string
  fr_workspace :: "string option"
  fr_org :: "string option"
  fr_agent :: "string option"
  fr_region :: "string option"
  fr_cloud :: "string option"

record federated_memory =
  fm_source :: string
  fm_codename :: "string option"
  fm_slug :: "string option"
  fm_title :: "string option"
  fm_summary :: "string option"
  fm_body :: "string option"
  fm_project :: "string option"
  fm_tags :: "string list option"
  fm_favorite :: "bool option"
  fm_level :: "string option"
  fm_updated :: string

record federated_bundle =
  fb_id :: string
  fb_source :: federation_ref
  fb_target :: federation_ref
  fb_memories :: "federated_memory list"
  fb_exported :: string
  fb_hash :: string

record federation_request =
  fp_source :: federation_ref
  fp_target :: federation_ref
  fp_ids :: "string list option"
  fp_cursor :: "string option"
  fp_limit :: "nat option"

datatype exchange_direction = PullDirection | PushDirection

record exchange_result =
  fx_peer :: string
  fx_direction :: exchange_direction
  fx_accepted :: nat
  fx_rejected :: nat
  fx_bundle :: string
  fx_cursor :: "string option"
  fx_time :: string

text \<open>
  \<^verbatim>\<open>StaticFederationRegistry\<close>: the peers of the configuration and the registered local node,
  which a lookup finds first.
\<close>

record federation_registry =
  fg_local :: "federation_node option"
  fg_peers :: "federation_node list"

definition getPeer :: "federation_registry \<Rightarrow> string \<Rightarrow> federation_node option" where
  "getPeer g i =
     (case fg_local g of
        Some n \<Rightarrow> if fn_id n = i then Some n else find (\<lambda>p. fn_id p = i) (fg_peers g)
      | None \<Rightarrow> find (\<lambda>p. fn_id p = i) (fg_peers g))"

definition js_true :: "bool option \<Rightarrow> bool" where
  "js_true b \<longleftrightarrow> b = Some True"

subsection \<open>Trust\<close>

record trust_store =
  tr_peer :: "string \<Rightarrow> app_error + bool"
  tr_bundle :: "federated_bundle \<Rightarrow> app_error + bool"

definition NoOpFederationTrustStore :: trust_store where
  "NoOpFederationTrustStore = \<lparr>tr_peer = (\<lambda>_. Inr True), tr_bundle = (\<lambda>_. Inr True)\<rparr>"

definition registry_trusts :: "federation_registry \<Rightarrow> string \<Rightarrow> app_error + bool" where
  "registry_trusts g i = Inr (case getPeer g i of Some p \<Rightarrow> js_true (fn_trusted p) | None \<Rightarrow> False)"

definition RegistryFederationTrustStore :: "federation_registry \<Rightarrow> trust_store" where
  "RegistryFederationTrustStore g =
     \<lparr>tr_peer = registry_trusts g, tr_bundle = (\<lambda>b. registry_trusts g (fr_node (fb_source b)))\<rparr>"

text \<open>
  The trust file: the error of reading or parsing it, or its \<open>trustedPeerIds\<close>, \<open>None\<close> when that is not an
  array and an item \<open>None\<close> when it is not a text.
\<close>

type_synonym trust_file = "app_error + string option list option"

definition trusted_ids :: "string option list option \<Rightarrow> string list" where
  "trusted_ids v = (case v of None \<Rightarrow> [] | Some items \<Rightarrow> List.map_filter truthy items)"

definition file_trusts :: "trust_file \<Rightarrow> string \<Rightarrow> app_error + bool" where
  "file_trusts file i = and_then file (\<lambda>v. Inr (i \<in> set (trusted_ids v)))"

definition FileFederationTrustStore :: "trust_file \<Rightarrow> trust_store" where
  "FileFederationTrustStore file =
     \<lparr>tr_peer = file_trusts file, tr_bundle = (\<lambda>b. file_trusts file (fr_node (fb_source b)))\<rparr>"

subsection \<open>Metadata\<close>

record federation_cursor =
  fc_id :: string
  fc_peer :: string
  fc_owner :: string
  fc_workspace :: "string option"
  fc_value :: string
  fc_updated :: string

record peer_trust =
  pt_peer :: string
  pt_org :: string
  pt_trusted :: bool
  pt_updated :: string

record exchange_row = exchange_result +
  xl_id :: string

record federation_db = sync_db +
  fd_cursors :: "federation_cursor list"
  fd_peers :: "peer_trust list"
  fd_log :: "exchange_row list"

record 'd metadata_store =
  mt_cursor :: "string \<Rightarrow> memory_scope \<Rightarrow> 'd \<Rightarrow> string option"
  mt_set_cursor :: "string \<Rightarrow> memory_scope \<Rightarrow> string \<Rightarrow> mint \<Rightarrow> 'd \<Rightarrow> (app_error + unit) \<times> 'd"
  mt_record :: "exchange_result \<Rightarrow> string \<Rightarrow> 'd \<Rightarrow> (app_error + unit) \<times> 'd"
  mt_last :: "string \<Rightarrow> 'd \<Rightarrow> string option"
  mt_upsert :: "string \<Rightarrow> bool \<Rightarrow> string option \<Rightarrow> string \<Rightarrow> 'd \<Rightarrow> 'd"
  mt_trusted :: "string \<Rightarrow> string option \<Rightarrow> 'd \<Rightarrow> bool"

definition NoOpFederationMetadataStore :: "'d metadata_store" where
  "NoOpFederationMetadataStore =
     \<lparr>mt_cursor = (\<lambda>_ _ _. None), mt_set_cursor = (\<lambda>_ _ _ _ d. (Inr (), d)), mt_record = (\<lambda>_ _ d. (Inr (), d)),
      mt_last = (\<lambda>_ _. None), mt_upsert = (\<lambda>_ _ _ _ d. d), mt_trusted = (\<lambda>_ _ _. False)\<rparr>"

definition federation_cursor_hit :: "string \<Rightarrow> memory_scope \<Rightarrow> federation_cursor \<Rightarrow> bool" where
  "federation_cursor_hit peerId scope r \<longleftrightarrow>
     fc_peer r = peerId \<and> fc_owner r = ms_owner scope \<and> fc_workspace r = workspaceIdFromScope scope"

text \<open>The primary key and the unique index; an absent workspace equals nothing in an index.\<close>

definition federation_cursor_clash :: "federation_cursor \<Rightarrow> federation_cursor \<Rightarrow> bool" where
  "federation_cursor_clash r s \<longleftrightarrow>
     fc_id r = fc_id s \<or>
     (fc_peer r = fc_peer s \<and> fc_owner r = fc_owner s \<and> fc_workspace r \<noteq> None \<and> fc_workspace r = fc_workspace s)"

interpretation federation_cursor_ids: keyed_table fc_id federation_cursor_clash
  by unfold_locales (simp add: federation_cursor_clash_def)

definition getSyncCursor :: "string \<Rightarrow> memory_scope \<Rightarrow> 'a federation_db_scheme \<Rightarrow> string option" where
  "getSyncCursor peerId scope db =
     map_option fc_value (sql_first (federation_cursor_hit peerId scope) (fd_cursors db))"

definition setSyncCursor ::
  "string \<Rightarrow> memory_scope \<Rightarrow> string \<Rightarrow> mint \<Rightarrow> 'a federation_db_scheme
     \<Rightarrow> (app_error + unit) \<times> 'a federation_db_scheme" where
  "setSyncCursor peerId scope cursor m db =
     (case getSyncCursor peerId scope db of
        Some _ \<Rightarrow>
          (Inr (), db\<lparr>fd_cursors := sql_update (federation_cursor_hit peerId scope)
             (\<lambda>r. r\<lparr>fc_value := cursor, fc_updated := mint_now m\<rparr>) (fd_cursors db)\<rparr>)
      | None \<Rightarrow>
          (case sql_insert federation_cursor_clash
                  \<lparr>fc_id = mint_id m, fc_peer = peerId, fc_owner = ms_owner scope,
                   fc_workspace = workspaceIdFromScope scope, fc_value = cursor, fc_updated = mint_now m\<rparr>
                  (fd_cursors db) of
             Inl e \<Rightarrow> (Inl e, db) | Inr t \<Rightarrow> (Inr (), db\<lparr>fd_cursors := t\<rparr>)))"

definition exchange_clash :: "exchange_row \<Rightarrow> exchange_row \<Rightarrow> bool" where
  "exchange_clash r s \<longleftrightarrow> xl_id r = xl_id s"

definition recordExchange ::
  "exchange_result \<Rightarrow> string \<Rightarrow> 'a federation_db_scheme \<Rightarrow> (app_error + unit) \<times> 'a federation_db_scheme" where
  "recordExchange result i db =
     (case sql_insert exchange_clash (exchange_result.extend result \<lparr>xl_id = i\<rparr>) (fd_log db) of
        Inl e \<Rightarrow> (Inl e, db) | Inr t \<Rightarrow> (Inr (), db\<lparr>fd_log := t\<rparr>))"

definition getLastExchangeAt :: "string \<Rightarrow> 'a federation_db_scheme \<Rightarrow> string option" where
  "getLastExchangeAt peerId db =
     (case order_desc fx_time (sql_select (\<lambda>r. fx_peer r = peerId) (fd_log db)) of
        [] \<Rightarrow> None | r # _ \<Rightarrow> Some (fx_time r))"

definition upsertPeerTrust ::
  "string \<Rightarrow> bool \<Rightarrow> string option \<Rightarrow> string \<Rightarrow> 'a federation_db_scheme \<Rightarrow> 'a federation_db_scheme" where
  "upsertPeerTrust peerId trusted org now db =
     (let hit = (\<lambda>r. pt_peer r = peerId \<and> pt_org r = nullish org [])
      in db\<lparr>fd_peers :=
           (if list_ex hit (fd_peers db)
            then sql_update hit (\<lambda>r. r\<lparr>pt_trusted := trusted, pt_updated := now\<rparr>) (fd_peers db)
            else fd_peers db @
              [\<lparr>pt_peer = peerId, pt_org = nullish org [], pt_trusted = trusted, pt_updated = now\<rparr>])\<rparr>)"

definition isPeerTrusted :: "string \<Rightarrow> string option \<Rightarrow> 'a federation_db_scheme \<Rightarrow> bool" where
  "isPeerTrusted peerId org db \<longleftrightarrow>
     sql_first (\<lambda>r. pt_peer r = peerId \<and> pt_org r = nullish org [] \<and> pt_trusted r) (fd_peers db) \<noteq> None"

definition SqlFederationMetadataStore :: "'a federation_db_scheme metadata_store" where
  "SqlFederationMetadataStore =
     \<lparr>mt_cursor = getSyncCursor, mt_set_cursor = setSyncCursor, mt_record = recordExchange,
      mt_last = getLastExchangeAt, mt_upsert = upsertPeerTrust, mt_trusted = isPeerTrusted\<rparr>"

subsection \<open>Policy, scopes and conflicts\<close>

definition canExport ::
  "federation_registry \<Rightarrow> 'd metadata_store \<Rightarrow> federation_ref \<Rightarrow> federation_node \<Rightarrow> 'd \<Rightarrow> bool" where
  "canExport g meta source to db =
     (case fg_local g of
        None \<Rightarrow> False
      | Some n \<Rightarrow>
          (case truthy (fr_org source) of
             None \<Rightarrow> True
           | Some org \<Rightarrow>
               fn_id to = fn_id n \<or>
               (case getPeer g (fn_id to) of Some p \<Rightarrow> js_true (fn_trusted p) | None \<Rightarrow> False) \<or>
               mt_trusted meta (fn_id to) (Some org) db))"

definition canImport :: "'d metadata_store \<Rightarrow> federation_node \<Rightarrow> memory_scope \<Rightarrow> 'd \<Rightarrow> bool" where
  "canImport meta peer scope db =
     (case truthy (ms_org scope) of
        None \<Rightarrow> True
      | Some org \<Rightarrow> js_true (fn_trusted peer) \<or> mt_trusted meta (fn_id peer) (Some org) db)"

definition toLocalScope :: "federation_ref \<Rightarrow> memory_scope" where
  "toLocalScope r =
     \<lparr>ms_owner = fr_owner r, ms_workspace = fr_workspace r, ms_agent = fr_agent r, ms_project = None,
      ms_org = fr_org r, ms_department = None, ms_tenant_project = None\<rparr>"

definition toRemoteScope :: "memory_scope \<Rightarrow> federation_node \<Rightarrow> federation_ref" where
  "toRemoteScope scope n =
     \<lparr>fr_node = fn_id n, fr_owner = ms_owner scope, fr_workspace = ms_workspace scope, fr_org = ms_org scope,
      fr_agent = ms_agent scope, fr_region = fn_region n, fr_cloud = fn_cloud n\<rparr>"

datatype inbound_decision = AcceptInbound | RejectInbound | MergeInbound

definition resolveInbound :: "federated_memory option \<Rightarrow> federated_memory \<Rightarrow> inbound_decision" where
  "resolveInbound local inbound =
     (case local of
        None \<Rightarrow> AcceptInbound
      | Some l \<Rightarrow> if fm_updated l \<le> fm_updated inbound then MergeInbound else RejectInbound)"

subsection \<open>The in-process transport\<close>

definition DEFAULT_EXCHANGE_LIMIT :: nat where "DEFAULT_EXCHANGE_LIMIT = 50"

definition federated_of :: "memory \<Rightarrow> federated_memory" where
  "federated_of m =
     \<lparr>fm_source = m_id m, fm_codename = m_codename m, fm_slug = m_slug m, fm_title = Some (m_title m),
      fm_summary = Some (m_summary m), fm_body = Some (m_content m), fm_project = Some (m_project m),
      fm_tags = Some (m_tags m), fm_favorite = Some (m_favorite m), fm_level = Some (m_level m),
      fm_updated = m_updated m\<rparr>"

definition exported_memories :: "federation_request \<Rightarrow> 'a memory_db_scheme \<Rightarrow> memory list" where
  "exported_memories req db =
     (let ownerId = fr_owner (fp_source req); workspaceId = fr_workspace (fp_source req);
          ids = nullish (fp_ids req) []
      in if ids \<noteq> [] then List.map_filter (\<lambda>i. findById db i ownerId workspaceId) ids
         else findUpdatedSince db ownerId workspaceId (nullish (fp_cursor req) [])
                (nullish (fp_limit req) DEFAULT_EXCHANGE_LIMIT))"

definition transportPull ::
  "(federated_memory list \<Rightarrow> string) \<Rightarrow> federation_registry \<Rightarrow> federation_request \<Rightarrow> mint \<Rightarrow> 'a memory_db_scheme
     \<Rightarrow> app_error + federated_bundle" where
  "transportPull hash g req m db =
     (case fg_local g of
        Some n \<Rightarrow>
          if fr_node (fp_source req) = fn_id n
          then let records = map federated_of (exported_memories req db)
               in Inr \<lparr>fb_id = mint_id m, fb_source = fp_source req, fb_target = fp_target req,
                       fb_memories = records, fb_exported = mint_now m, fb_hash = hash records\<rparr>
          else Inl (PlainError ''InProcessFederationTransport only supports local-node pull'')
      | None \<Rightarrow> Inl (PlainError ''InProcessFederationTransport only supports local-node pull''))"

definition transportPush :: "federation_registry \<Rightarrow> federated_bundle \<Rightarrow> app_error + (nat \<times> nat)" where
  "transportPush g b =
     (case fg_local g of
        Some n \<Rightarrow>
          if fr_node (fb_target b) = fn_id n then Inr (length (fb_memories b), 0)
          else Inl (PlainError ''InProcessFederationTransport only supports local-node push'')
      | None \<Rightarrow> Inl (PlainError ''InProcessFederationTransport only supports local-node push''))"

subsection \<open>The exchange service\<close>

text \<open>
  The collaborators of \<^verbatim>\<open>KnowledgeExchangeService\<close> that the composition root chooses, over one
  registry; an absent memory service is \<open>None\<close>. Fields of the bundle types that no code writes (object
  key, relations, signature) are left out.
\<close>

record 'd exchange_deps =
  xd_registry :: federation_registry
  xd_hash :: "federated_memory list \<Rightarrow> string"
  xd_trust :: trust_store
  xd_meta :: "'d metadata_store"
  xd_service :: "'d service_ports option"

type_synonym 'a exchange = "'a federation_db_scheme exchange_deps"

text \<open>The times and identifiers of one exchange: of the bundle, each record, the cursor and the log.\<close>

record exchange_mints =
  xm_bundle :: mint
  xm_record :: "nat \<Rightarrow> mint"
  xm_cursor :: mint
  xm_log :: mint

definition requirePeer :: "'d exchange_deps \<Rightarrow> string \<Rightarrow> app_error + federation_node" where
  "requirePeer d peerId =
     (case getPeer (xd_registry d) peerId of
        None \<Rightarrow> Inl (NotFoundError (''Federation peer not found: '' @ peerId) None) | Some p \<Rightarrow> Inr p)"

definition assertMemoryService :: "'d exchange_deps \<Rightarrow> app_error + 'd service_ports" where
  "assertMemoryService d =
     (case xd_service d of
        None \<Rightarrow> Inl (PlainError ''MemoryService is not bound to KnowledgeExchangeService'') | Some p \<Rightarrow> Inr p)"

definition inbound_create :: "federated_memory \<Rightarrow> create_input" where
  "inbound_create r =
     \<lparr>cr_title = nullish (fm_title r) (nullish (fm_summary r) ''Federated memory''),
      cr_project = nullish (fm_project r) [],
      cr_content = nullish (fm_body r) (nullish (fm_summary r) []), cr_summary = nullish (fm_summary r) [],
      cr_tags = nullish (fm_tags r) [], cr_favorite = nullish (fm_favorite r) False, cr_level = Some ''note'',
      cr_keywords = None, cr_category = None, cr_type = None, cr_importance = None, cr_language = None,
      cr_notes = None, cr_request = None\<rparr>"

definition inbound_update :: "memory \<Rightarrow> federated_memory \<Rightarrow> update_input" where
  "inbound_update existing r =
     \<lparr>ui_title = Some (nullish (fm_title r) (m_title existing)), ui_project = None,
      ui_content = Some (nullish (fm_body r) (m_content existing)),
      ui_summary = Some (nullish (fm_summary r) (m_summary existing)),
      ui_tags = Some (nullish (fm_tags r) (m_tags existing)),
      ui_favorite = Some (nullish (fm_favorite r) (m_favorite existing)), ui_keywords = None,
      ui_category = None, ui_type = None, ui_importance = None, ui_language = None, ui_notes = None,
      ui_expected = Some (m_updated existing)\<rparr>"

definition local_record :: "memory \<Rightarrow> federated_memory" where
  "local_record m =
     \<lparr>fm_source = m_id m, fm_codename = m_codename m, fm_slug = None, fm_title = None, fm_summary = None,
      fm_body = None, fm_project = None, fm_tags = None, fm_favorite = None, fm_level = None,
      fm_updated = m_updated m\<rparr>"

definition existing_local :: "memory_scope \<Rightarrow> federated_memory \<Rightarrow> 'a memory_db_scheme \<Rightarrow> memory option" where
  "existing_local scope r db =
     (case truthy (fm_codename r) of
        None \<Rightarrow> None | Some c \<Rightarrow> findByCodename db (ms_owner scope) c (ms_workspace scope))"

definition applyInboundRecord ::
  "'a ports \<Rightarrow> memory_scope \<Rightarrow> federated_memory \<Rightarrow> mint \<Rightarrow> 'a sync_db_scheme
     \<Rightarrow> (app_error + bool) \<times> 'a sync_db_scheme" where
  "applyInboundRecord ports scope r m db =
     (let existing = existing_local scope r db;
          decision = resolveInbound (map_option local_record existing) r
      in if decision = RejectInbound then (Inr False, db)
         else (case (existing, decision) of
                 (Some e, MergeInbound) \<Rightarrow>
                   then_st (updateMemory ports scope (m_id e) (inbound_update e r) m db) (\<lambda>_ db'. (Inr True, db'))
               | _ \<Rightarrow> then_st (createMemory ports scope (inbound_create r) m db) (\<lambda>_ db'. (Inr True, db'))))"

text \<open>The loop over the records with its two counters; an error leaves it at once.\<close>

fun apply_loop ::
  "'a ports \<Rightarrow> memory_scope \<Rightarrow> (nat \<Rightarrow> mint) \<Rightarrow> nat \<Rightarrow> nat \<times> nat \<Rightarrow> federated_memory list \<Rightarrow> 'a sync_db_scheme
     \<Rightarrow> (app_error + nat \<times> nat) \<times> 'a sync_db_scheme" where
  "apply_loop ports scope ms k counts [] db = (Inr counts, db)"
| "apply_loop ports scope ms k (a, b) (r # rs) db =
     then_st (applyInboundRecord ports scope r (ms k) db) (\<lambda>outcome db'.
       apply_loop ports scope ms (Suc k) (if outcome then (a + 1, b) else (a, b + 1)) rs db')"

text \<open>The guards before anything is applied, in their order; they answer with the bundle.\<close>

definition checked_trust :: "(app_error + bool) \<Rightarrow> string \<Rightarrow> app_error + unit" where
  "checked_trust verdict message = and_then verdict (\<lambda>ok. guard_or ok (ForbiddenError message))"

definition pull_checks ::
  "'d exchange_deps \<Rightarrow> string \<Rightarrow> federation_request \<Rightarrow> memory_scope \<Rightarrow> mint \<Rightarrow> 'd \<Rightarrow> 'a memory_db_scheme
     \<Rightarrow> app_error + ('d service_ports \<times> federated_bundle)" where
  "pull_checks d peerId req scope m state db =
     and_then (requirePeer d peerId) (\<lambda>peer.
     and_then (assertMemoryService d) (\<lambda>ports.
     and_then (checked_trust (tr_peer (xd_trust d) peerId) ''Federation peer trust verification failed'') (\<lambda>_.
     and_then (guard_or (canImport (xd_meta d) peer scope state)
                (ForbiddenError ''Federation import denied by policy'')) (\<lambda>_.
     and_then (transportPull (xd_hash d) (xd_registry d) req m db) (\<lambda>bundle.
     and_then (checked_trust (tr_bundle (xd_trust d) bundle) ''Federation bundle signature invalid'') (\<lambda>_.
       Inr (ports, bundle)))))))"

definition last_cursor :: "federated_bundle \<Rightarrow> federation_request \<Rightarrow> string option" where
  "last_cursor b req =
     (if fb_memories b = [] then fp_cursor req else Some (fm_updated (last (fb_memories b))))"

definition record_result ::
  "'d exchange_deps \<Rightarrow> exchange_result \<Rightarrow> mint \<Rightarrow> 'd \<Rightarrow> (app_error + exchange_result) \<times> 'd" where
  "record_result d result m db =
     then_st (mt_record (xd_meta d) result (mint_id m) db) (\<lambda>_ db'. (Inr result, db'))"

definition pullAndApply ::
  "'a exchange \<Rightarrow> string \<Rightarrow> federation_request \<Rightarrow> memory_scope \<Rightarrow> exchange_mints \<Rightarrow> 'a federation_db_scheme
     \<Rightarrow> (app_error + exchange_result) \<times> 'a federation_db_scheme" where
  "pullAndApply d peerId req scope ms db =
     (case pull_checks d peerId req scope (xm_bundle ms) db db of
        Inl e \<Rightarrow> (Inl e, db)
      | Inr (ports, bundle) \<Rightarrow>
          then_st (apply_loop ports (toLocalScope (fb_target bundle)) (xm_record ms) 0 (0, 0)
                     (fb_memories bundle) db) (\<lambda>(a, b) db1.
          let cursor = last_cursor bundle req in
          then_st (case truthy cursor of
                     None \<Rightarrow> (Inr (), db1)
                   | Some c \<Rightarrow> mt_set_cursor (xd_meta d) peerId scope c (xm_cursor ms) db1) (\<lambda>_ db2.
          record_result d
            \<lparr>fx_peer = peerId, fx_direction = PullDirection, fx_accepted = a, fx_rejected = b,
             fx_bundle = fb_id bundle, fx_cursor = cursor, fx_time = mint_now (xm_log ms)\<rparr> (xm_log ms) db2)))"

definition push_bundle ::
  "'d exchange_deps \<Rightarrow> string \<Rightarrow> string list \<Rightarrow> memory_scope \<Rightarrow> mint \<Rightarrow> 'd \<Rightarrow> 'a memory_db_scheme
     \<Rightarrow> app_error + federated_bundle" where
  "push_bundle d peerId ids scope m state db =
     and_then (requirePeer d peerId) (\<lambda>peer.
       case fg_local (xd_registry d) of
         None \<Rightarrow> Inl (NotFoundError ''Local federation node not registered'' None)
       | Some local \<Rightarrow>
           let source = toRemoteScope scope local; target = toRemoteScope scope peer in
           and_then (guard_or (canExport (xd_registry d) (xd_meta d) source peer state)
                      (ForbiddenError ''Federation export denied by policy'')) (\<lambda>_.
             transportPull (xd_hash d) (xd_registry d)
               \<lparr>fp_source = source\<lparr>fr_node := fn_id local\<rparr>, fp_target = target, fp_ids = Some ids,
                fp_cursor = None, fp_limit = None\<rparr> m db))"

definition pushToPeer ::
  "'a exchange \<Rightarrow> string \<Rightarrow> string list \<Rightarrow> memory_scope \<Rightarrow> exchange_mints \<Rightarrow> 'a federation_db_scheme
     \<Rightarrow> (app_error + exchange_result) \<times> 'a federation_db_scheme" where
  "pushToPeer d peerId ids scope ms db =
     (case and_then (push_bundle d peerId ids scope (xm_bundle ms) db db) (\<lambda>bundle.
             and_then (transportPush (xd_registry d) bundle) (\<lambda>counts. Inr (bundle, counts))) of
        Inl e \<Rightarrow> (Inl e, db)
      | Inr (bundle, accepted, rejected) \<Rightarrow>
          record_result d
            \<lparr>fx_peer = peerId, fx_direction = PushDirection, fx_accepted = accepted, fx_rejected = rejected,
             fx_bundle = fb_id bundle, fx_cursor = None, fx_time = mint_now (xm_log ms)\<rparr> (xm_log ms) db)"

definition listPeers :: "'d exchange_deps \<Rightarrow> memory_scope \<Rightarrow> 'd \<Rightarrow> federation_node list" where
  "listPeers d scope db = filter (\<lambda>p. canImport (xd_meta d) p scope db) (fg_peers (xd_registry d))"

record peer_status =
  ps_node :: string
  ps_display :: "string option"
  ps_region :: "string option"
  ps_trusted :: "bool option"

record federation_status =
  fs_enabled :: bool
  fs_node :: string
  fs_peers :: "peer_status list"
  fs_last :: "string option"

text \<open>\<open>peerCount\<close> is the length of \<open>peers\<close>.\<close>

definition getFederationStatus :: "'d exchange_deps \<Rightarrow> memory_scope \<Rightarrow> 'd \<Rightarrow> federation_status" where
  "getFederationStatus d scope db =
     \<lparr>fs_enabled = True,
      fs_node = (case fg_local (xd_registry d) of Some n \<Rightarrow> fn_id n | None \<Rightarrow> []),
      fs_peers = map (\<lambda>p. \<lparr>ps_node = fn_id p, ps_display = fn_display p, ps_region = fn_region p,
                             ps_trusted = fn_trusted p\<rparr>) (listPeers d scope db),
      fs_last = (case fg_local (xd_registry d) of
                   Some n \<Rightarrow> mt_last (xd_meta d) (fn_id n) db | None \<Rightarrow> None)\<rparr>"

subsection \<open>Composition and routes\<close>

definition PROTOCOL_VERSION :: string where "PROTOCOL_VERSION = ''1.0.0''"

record federation_env =
  fe_enabled :: bool
  fe_node :: string
  fe_display :: "string option"
  fe_region :: "string option"
  fe_cloud :: "string option"
  fe_base_url :: "string option"
  fe_peers :: "federation_node list option"
  fe_sql :: bool
  fe_trust :: string
  fe_file :: "(string \<times> trust_file) option"
  fe_production :: bool

text \<open>
  \<open>fe_peers\<close> is the parsed \<^verbatim>\<open>FEDERATION_PEERS_JSON\<close>, \<open>None\<close> when it is no array; \<open>fe_file\<close> the configured
  path with what reading it gives.
\<close>

definition federation_local_node :: "federation_env \<Rightarrow> federation_node" where
  "federation_local_node env =
     \<lparr>fn_id = fe_node env, fn_display = fe_display env, fn_region = fe_region env, fn_cloud = fe_cloud env,
      fn_base_url = fe_base_url env, fn_grpc = None, fn_protocol = PROTOCOL_VERSION, fn_capabilities = None,
      fn_trusted = None\<rparr>"

definition configured_registry :: "federation_env \<Rightarrow> federation_registry" where
  "configured_registry env = \<lparr>fg_local = Some (federation_local_node env), fg_peers = nullish (fe_peers env) []\<rparr>"

definition createFederationTrustStore :: "federation_env \<Rightarrow> federation_registry \<Rightarrow> app_error + trust_store" where
  "createFederationTrustStore env g =
     (if fe_trust env = ''file''
      then (case fe_file env of
              Some ([], _) \<Rightarrow> Inl (PlainError ''FEDERATION_TRUST_FILE_PATH is required when FEDERATION_TRUST_PROVIDER=file'')
            | None \<Rightarrow> Inl (PlainError ''FEDERATION_TRUST_FILE_PATH is required when FEDERATION_TRUST_PROVIDER=file'')
            | Some (_, file) \<Rightarrow> Inr (FileFederationTrustStore file))
      else if fe_trust env = ''registry'' \<or> fe_production env then Inr (RegistryFederationTrustStore g)
      else Inr NoOpFederationTrustStore)"

text \<open>\<open>None\<close> is the disabled exchange, \<^verbatim>\<open>NoOpKnowledgeExchangeService\<close>.\<close>

definition createFederationPorts ::
  "federation_env \<Rightarrow> (federated_memory list \<Rightarrow> string) \<Rightarrow> 'a federation_db_scheme service_ports option
     \<Rightarrow> app_error + 'a exchange option" where
  "createFederationPorts env hash service =
     (if \<not> fe_enabled env then Inr None
      else let g = configured_registry env in
        and_then (createFederationTrustStore env g) (\<lambda>trust.
          Inr (Some \<lparr>xd_registry = g, xd_hash = hash, xd_trust = trust,
                     xd_meta = (if fe_sql env then SqlFederationMetadataStore else NoOpFederationMetadataStore),
                     xd_service = service\<rparr>)))"

text \<open>\<^verbatim>\<open>NoOpKnowledgeExchangeService\<close> stands for an exchange that is \<open>None\<close>.\<close>

definition exchangePull ::
  "'a exchange option \<Rightarrow> string \<Rightarrow> federation_request \<Rightarrow> memory_scope \<Rightarrow> exchange_mints \<Rightarrow> 'a federation_db_scheme
     \<Rightarrow> (app_error + exchange_result) \<times> 'a federation_db_scheme" where
  "exchangePull ex peerId req scope ms db =
     (case ex of None \<Rightarrow> (Inl (PlainError ''Federation is disabled''), db)
      | Some d \<Rightarrow> pullAndApply d peerId req scope ms db)"

definition exchangePush ::
  "'a exchange option \<Rightarrow> string \<Rightarrow> string list \<Rightarrow> memory_scope \<Rightarrow> exchange_mints \<Rightarrow> 'a federation_db_scheme
     \<Rightarrow> (app_error + exchange_result) \<times> 'a federation_db_scheme" where
  "exchangePush ex peerId ids scope ms db =
     (case ex of None \<Rightarrow> (Inl (PlainError ''Federation is disabled''), db)
      | Some d \<Rightarrow> pushToPeer d peerId ids scope ms db)"

definition exchangePeers :: "'d exchange_deps option \<Rightarrow> memory_scope \<Rightarrow> 'd \<Rightarrow> federation_node list" where
  "exchangePeers ex scope db = (case ex of None \<Rightarrow> [] | Some d \<Rightarrow> listPeers d scope db)"

definition exchangeStatus :: "'d exchange_deps option \<Rightarrow> memory_scope \<Rightarrow> 'd \<Rightarrow> federation_status" where
  "exchangeStatus ex scope db =
     (case ex of None \<Rightarrow> \<lparr>fs_enabled = False, fs_node = [], fs_peers = [], fs_last = None\<rparr>
      | Some d \<Rightarrow> getFederationStatus d scope db)"

record pull_body =
  pb_peer :: string
  pb_source_node :: string
  pb_source_owner :: string
  pb_source_workspace :: "string option"
  pb_target_workspace :: "string option"
  pb_ids :: "string list option"
  pb_cursor :: "string option"
  pb_limit :: "int option"

definition valid_pull_body :: "(string \<Rightarrow> bool) \<Rightarrow> pull_body \<Rightarrow> bool" where
  "valid_pull_body uuid b \<longleftrightarrow>
     uuid (pb_peer b) \<and> uuid (pb_source_node b) \<and> pb_source_owner b \<noteq> [] \<and>
     opt_all uuid (pb_source_workspace b) \<and> opt_all uuid (pb_target_workspace b) \<and>
     opt_all (\<lambda>ids. list_all uuid ids \<and> length ids \<le> 100) (pb_ids b) \<and>
     opt_all (\<lambda>n. 1 \<le> n \<and> n \<le> 100) (pb_limit b)"

definition pull_request_of :: "pull_body \<Rightarrow> memory_scope \<Rightarrow> federation_request" where
  "pull_request_of b scope =
     \<lparr>fp_source = \<lparr>fr_node = pb_source_node b, fr_owner = pb_source_owner b,
        fr_workspace = pb_source_workspace b, fr_org = None, fr_agent = None, fr_region = None, fr_cloud = None\<rparr>,
      fp_target = \<lparr>fr_node = pb_peer b, fr_owner = ms_owner scope,
        fr_workspace = (case pb_target_workspace b of Some w \<Rightarrow> Some w | None \<Rightarrow> ms_workspace scope),
        fr_org = ms_org scope, fr_agent = None, fr_region = None, fr_cloud = None\<rparr>,
      fp_ids = pb_ids b, fp_cursor = pb_cursor b, fp_limit = map_option nat (pb_limit b)\<rparr>"

definition pullRoute ::
  "(string \<Rightarrow> bool) \<Rightarrow> 'a exchange \<Rightarrow> pull_body \<Rightarrow> memory_scope \<Rightarrow> exchange_mints \<Rightarrow> 'a federation_db_scheme
     \<Rightarrow> (app_error + exchange_result) \<times> 'a federation_db_scheme" where
  "pullRoute uuid d b scope ms db =
     (if valid_pull_body uuid b then pullAndApply d (pb_peer b) (pull_request_of b scope) scope ms db
      else (Inl (PlainError ''ZodError''), db))"

definition pushRoute ::
  "(string \<Rightarrow> bool) \<Rightarrow> 'a exchange \<Rightarrow> string \<Rightarrow> string list \<Rightarrow> memory_scope \<Rightarrow> exchange_mints
     \<Rightarrow> 'a federation_db_scheme \<Rightarrow> (app_error + exchange_result) \<times> 'a federation_db_scheme" where
  "pushRoute uuid d peerId ids scope ms db =
     (if uuid peerId \<and> list_all uuid ids \<and> 1 \<le> length ids \<and> length ids \<le> 100
      then pushToPeer d peerId ids scope ms db
      else (Inl (PlainError ''ZodError''), db))"

end
