(* ===== verification/Federation_Laws.thy ===== *)
theory Federation_Laws
  imports Federation
begin

section \<open>Laws of federation\<close>

text \<open>
  What a pull can change and how much, whom it is accepted from, and where the exchange does not do
  what it says: the contracts of the trust and of the metadata stores are locales, interpreted on every
  store the composition root can choose.
\<close>

subsection \<open>Trust stores\<close>

locale federation_trust =
  fixes trust :: trust_store
  assumes by_source: "tr_bundle trust b = tr_peer trust (fr_node (fb_source b))"
begin

text \<open>A bundle that passes the checks comes from a peer and from a source node the store trusts.\<close>

lemma checked_pull:
  assumes "pull_checks d peerId req scope m state db = Inr (ports, b)" and "xd_trust d = trust"
  shows "(\<exists>peer. getPeer (xd_registry d) peerId = Some peer \<and> canImport (xd_meta d) peer scope state) \<and>
    tr_peer trust peerId = Inr True \<and> tr_peer trust (fr_node (fp_source req)) = Inr True"
  using assms
  by (auto simp: pull_checks_def requirePeer_def checked_trust_def transportPull_def by_source and_then_eq_Inr
      guard_or_def Let_def split: option.splits if_splits)

end

interpretation noop_trust: federation_trust NoOpFederationTrustStore
  by unfold_locales (simp add: NoOpFederationTrustStore_def)

interpretation registry_trust: federation_trust "RegistryFederationTrustStore g" for g
  by unfold_locales (simp add: RegistryFederationTrustStore_def)

interpretation file_trust: federation_trust "FileFederationTrustStore f" for f
  by unfold_locales (simp add: FileFederationTrustStore_def)

lemma configured_trust:
  assumes "createFederationTrustStore env g = Inr t"
  shows "federation_trust t"
  using assms noop_trust.federation_trust_axioms registry_trust.federation_trust_axioms
    file_trust.federation_trust_axioms
  by (auto simp: createFederationTrustStore_def split: if_splits option.splits list.splits)

subsection \<open>Metadata stores\<close>

locale federation_metadata =
  fixes meta :: "'a federation_db_scheme metadata_store"
  assumes cursor_frame: "memories (snd (mt_set_cursor meta peerId scope c m db)) = memories db"
    and record_frame: "memories (snd (mt_record meta result i db)) = memories db"
begin

lemma after_loop_frame:
  assumes "xd_meta d = meta"
  shows "memories (snd (then_st (case truthy cursor of None \<Rightarrow> (Inr (), db)
      | Some c \<Rightarrow> mt_set_cursor (xd_meta d) peerId scope c m db) (\<lambda>_ db2. record_result d result m' db2))) = memories db"
proof -
  have rec: "memories (snd (record_result d result m' db2)) = memories db2" for db2
    using record_frame [of result "mint_id m'" db2] assms
    by (auto simp: record_result_def then_st_def split: prod.splits sum.splits)
  show ?thesis
  proof (cases "truthy cursor")
    case (Some c)
    obtain r d1 where set: "mt_set_cursor (xd_meta d) peerId scope c m db = (r, d1)" by fastforce
    with cursor_frame [of peerId scope c m db] assms have "memories d1 = memories db" by simp
    with Some set show ?thesis by (cases r) (simp_all add: rec)
  qed (simp add: rec)
qed

end

interpretation noop_metadata: federation_metadata NoOpFederationMetadataStore
  by unfold_locales (simp_all add: NoOpFederationMetadataStore_def)

interpretation sql_metadata: federation_metadata SqlFederationMetadataStore
  by unfold_locales
     (auto simp: SqlFederationMetadataStore_def setSyncCursor_def recordExchange_def simp del: sql_insert_Inr
       split: option.splits sum.splits)

lemma configured_ports:
  assumes "createFederationPorts env hash service = Inr (Some d)"
  shows "xd_registry d = configured_registry env" "xd_service d = service" "federation_trust (xd_trust d)"
    "federation_metadata (xd_meta d)"
  using assms configured_trust noop_metadata.federation_metadata_axioms sql_metadata.federation_metadata_axioms
  by (auto simp: createFederationPorts_def and_then_eq_Inr Let_def split: if_splits)

subsection \<open>Applying records\<close>

lemma snd_then_same: "(\<And>x d. snd (f x d) = d) \<Longrightarrow> snd (then_st p f) = snd p"
  by (cases p) (auto simp: then_st_def split: sum.splits)

lemma inbound_create_plain:
  "createMemory ports scope (inbound_create r) m db = performCreate ports scope (inbound_create r) (mint_id m) m db"
  by (rule createMemory_plain) (simp add: inbound_create_def)

lemma performCreate_cases:
  assumes "performCreate (servicePorts dup st agents) scope input i m db = (res, db')"
  obtains (refused) e where "db' = db" "res = Inl e"
  | (stored) data where "in_owner data = Some (ms_owner scope)" "insertMemory dup db data m = (res, db')"
proof (cases "enrichForCreate db (ms_owner scope) (knowledge_of input)")
  case (Inl e)
  with assms show ?thesis by (intro refused [of e]) (simp_all add: performCreate_def)
next
  case (Inr e)
  with assms performCreate_service [OF Inr, of dup st agents i m] show ?thesis
    by (intro stored) (auto simp: create_data_def)
qed

lemma performCreate_others:
  "others (ms_owner scope) (snd (performCreate (servicePorts dup st agents) scope input i m db)) =
     others (ms_owner scope) db"
proof -
  obtain res db' where run: "performCreate (servicePorts dup st agents) scope input i m db = (res, db')" by fastforce
  then show ?thesis
  proof (cases rule: performCreate_cases)
    case (stored data)
    then show ?thesis using others_insert [OF stored(1), of dup db m] run by simp
  qed (simp add: run)
qed

lemma performCreate_length:
  assumes "performCreate (servicePorts dup st agents) scope input i m db = (Inr mem, db')"
  shows "length (memories db') = Suc (length (memories db))"
  using assms
proof (cases rule: performCreate_cases)
  case (stored data)
  from stored(2) show ?thesis by (cases rule: insertMemory_cases) auto
qed simp

lemma updateMemoryRow_others: "others o' (snd (updateMemoryRow dup db i o' data w now)) = others o' db"
  by (auto simp: updateMemoryRow_def write_rows_def put_memory_def others_def Let_def written_columns_def
      intro!: filter_sql_update dest: memory_hit_owner split: option.splits sum.splits if_splits)

lemma updateMemoryRow_length:
  "length (memories (snd (updateMemoryRow dup db i o' data w now))) = length (memories db)"
  by (auto simp: updateMemoryRow_def write_rows_def put_memory_def Let_def split: option.splits sum.splits)

text \<open>What an update does to the memories is what its one statement does.\<close>

lemma updateMemory_memories:
  obtains "memories (snd (updateMemory (servicePorts dup st agents) scope i input m db)) = memories db"
  | data db1 where "memories db1 = memories db"
    "snd (updateMemory (servicePorts dup st agents) scope i input m db) =
       snd (updateMemoryRow dup db1 i (ms_owner scope) data (workspaceIdFromScope scope) (mint_now m))"
proof (cases "findById db i (ms_owner scope) (workspaceIdFromScope scope)")
  case None
  then show ?thesis by (intro that(1)) (simp add: updateMemory_def)
next
  case (Some existing)
  show ?thesis
  proof (cases "enrichForUpdate db (ms_owner scope) existing (patch_of input)")
    case (Inl e)
    with Some show ?thesis by (intro that(1)) (simp add: updateMemory_def)
  next
    case (Inr enriched)
    let ?agent = "resolveAttributionAgentId (servicePorts dup st agents) scope db"
    obtain r db1 where rec: "reconcileMemoryWrite (servicePorts dup st agents) scope i UpdateOp
        (expected_or (ui_expected input) (m_updated existing)) m db = (r, db1)" by fastforce
    with root_service.reconcile_frame [OF rec] have same: "memories db1 = memories db" by (simp add: same_store_def)
    show ?thesis
    proof (cases r)
      case (Inl e)
      with Some Inr rec same show ?thesis by (intro that(1)) (simp add: updateMemory_def Let_def)
    next
      case (Inr u)
      have "snd (updateMemory (servicePorts dup st agents) scope i input m db) =
        snd (updateMemoryRow dup db1 i (ms_owner scope) (update_data input enriched ?agent)
          (workspaceIdFromScope scope) (mint_now m))"
        using Some \<open>enrichForUpdate _ _ _ _ = Inr enriched\<close> rec Inr
        by (simp add: updateMemory_def Let_def snd_then_same split: option.splits)
      with same show ?thesis by (rule that(2))
    qed
  qed
qed

lemma others_memories: "memories db' = memories db \<Longrightarrow> others o' db' = others o' db"
  by (simp add: others_def)

lemma updateMemory_others:
  "others (ms_owner scope) (snd (updateMemory (servicePorts dup st agents) scope i input m db)) =
     others (ms_owner scope) db"
proof (rule updateMemory_memories [of dup st agents scope i input m db])
  fix data db1
  assume "memories db1 = memories db" "snd (updateMemory (servicePorts dup st agents) scope i input m db) =
    snd (updateMemoryRow dup db1 i (ms_owner scope) data (workspaceIdFromScope scope) (mint_now m))"
  then show ?thesis by (simp add: updateMemoryRow_others others_memories [of db1 db])
qed (rule others_memories)

lemma updateMemory_length:
  "length (memories (snd (updateMemory (servicePorts dup st agents) scope i input m db))) = length (memories db)"
proof (rule updateMemory_memories [of dup st agents scope i input m db])
  fix data db1
  assume "memories db1 = memories db" "snd (updateMemory (servicePorts dup st agents) scope i input m db) =
    snd (updateMemoryRow dup db1 i (ms_owner scope) data (workspaceIdFromScope scope) (mint_now m))"
  then show ?thesis by (simp only: updateMemoryRow_length)
qed (rule arg_cong)

lemma applyInboundRecord_others:
  "others (ms_owner scope) (snd (applyInboundRecord (servicePorts dup st agents) scope r m db)) =
     others (ms_owner scope) db"
  by (simp add: applyInboundRecord_def Let_def inbound_create_plain snd_then_same performCreate_others
      updateMemory_others split: option.splits inbound_decision.splits)

text \<open>A record adds at most one row, and none when it is rejected.\<close>

lemma applyInboundRecord_length:
  assumes "applyInboundRecord (servicePorts dup st agents) scope r m db = (Inr outcome, db')"
  shows "length (memories db') \<le> length (memories db) + (if outcome then 1 else 0)"
proof -
  have upd: "length (memories d) = length (memories db)"
    if "updateMemory (servicePorts dup st agents) scope i input m db = (res, d)" for i input res d
    using updateMemory_length [of dup st agents scope i input m db] that by simp
  show ?thesis
    using assms
    by (auto simp: applyInboundRecord_def Let_def inbound_create_plain then_st_Inr
        dest!: performCreate_length upd split: option.splits inbound_decision.splits if_splits)
qed

lemma apply_loop_others:
  "others (ms_owner scope) (snd (apply_loop (servicePorts dup st agents) scope ms k c rs db)) =
     others (ms_owner scope) db"
proof (induction rs arbitrary: k c db)
  case Nil
  then show ?case by (cases c) simp
next
  case (Cons r rs)
  obtain a b where c: "c = (a, b)" by fastforce
  obtain res d where run: "applyInboundRecord (servicePorts dup st agents) scope r (ms k) db = (res, d)" by fastforce
  with applyInboundRecord_others [of scope dup st agents r "ms k" db] have "others (ms_owner scope) d = others (ms_owner scope) db"
    by simp
  with Cons run c show ?case by (cases res) simp_all
qed

lemma apply_loop_counts:
  assumes "apply_loop (servicePorts dup st agents) scope ms k (a, b) rs db = (Inr (a', b'), db')"
  shows "a' + b' = a + b + length rs \<and> length (memories db') + a \<le> length (memories db) + a'"
  using assms
proof (induction rs arbitrary: k a b db)
  case (Cons r rs)
  from Cons.prems obtain outcome d
    where run: "applyInboundRecord (servicePorts dup st agents) scope r (ms k) db = (Inr outcome, d)"
      and rest: "apply_loop (servicePorts dup st agents) scope ms (Suc k) (if outcome then (a + 1, b) else (a, b + 1)) rs d =
        (Inr (a', b'), db')"
    by (auto simp: then_st_Inr)
  from applyInboundRecord_length [OF run] rest Cons.IH [of "Suc k" "a + 1" b d] Cons.IH [of "Suc k" a "b + 1" d]
  show ?case by (cases outcome) auto
qed simp

subsection \<open>Pulls\<close>

lemma pull_checks_bundle:
  assumes "pull_checks d peerId req scope m state db = Inr (ports, b)"
  shows "xd_service d = Some ports \<and> fb_source b = fp_source req \<and> fb_target b = fp_target req \<and>
    fb_memories b = map federated_of (exported_memories req db) \<and>
    (\<exists>n. fg_local (xd_registry d) = Some n \<and> fr_node (fp_source req) = fn_id n)"
  using assms
  by (auto simp: pull_checks_def requirePeer_def assertMemoryService_def checked_trust_def transportPull_def
      and_then_eq_Inr Let_def split: option.splits if_splits)

text \<open>The database after a pull: unchanged when a guard refuses, otherwise as the loop leaves it.\<close>

lemma pullAndApply_cases:
  assumes "federation_metadata (xd_meta d)" and "pullAndApply d peerId req scope ms db = (res, db')"
  obtains (refused) e where "res = Inl e" "db' = db"
  | (failed) ports b e where "pull_checks d peerId req scope (xm_bundle ms) db db = Inr (ports, b)"
      "apply_loop ports (toLocalScope (fb_target b)) (xm_record ms) 0 (0, 0) (fb_memories b) db = (Inl e, db')" "res = Inl e"
  | (applied) ports b a r db1 where "pull_checks d peerId req scope (xm_bundle ms) db db = Inr (ports, b)"
      "apply_loop ports (toLocalScope (fb_target b)) (xm_record ms) 0 (0, 0) (fb_memories b) db = (Inr (a, r), db1)"
      "memories db' = memories db1" "\<And>x. res = Inr x \<Longrightarrow> fx_accepted x = a \<and> fx_rejected x = r"
proof (cases "pull_checks d peerId req scope (xm_bundle ms) db db")
  case (Inl e)
  with assms(2) show ?thesis by (intro refused [of e]) (simp_all add: pullAndApply_def)
next
  case (Inr pb)
  obtain ports b where pb: "pb = (ports, b)" by fastforce
  obtain out db1 where run: "apply_loop ports (toLocalScope (fb_target b)) (xm_record ms) 0 (0, 0) (fb_memories b) db = (out, db1)"
    by fastforce
  show ?thesis
  proof (cases out)
    case Inl
    with assms(2) Inr pb run show ?thesis by (intro failed) (auto simp: pullAndApply_def)
  next
    case (Inr c)
    obtain a r where c: "c = (a, r)" by fastforce
    let ?cursor = "last_cursor b req"
    let ?result = "\<lparr>fx_peer = peerId, fx_direction = PullDirection, fx_accepted = a, fx_rejected = r, fx_bundle = fb_id b,
      fx_cursor = ?cursor, fx_time = mint_now (xm_log ms)\<rparr>"
    have rest: "(res, db') = then_st (case truthy ?cursor of None \<Rightarrow> (Inr (), db1)
        | Some c \<Rightarrow> mt_set_cursor (xd_meta d) peerId scope c (xm_cursor ms) db1) (\<lambda>_ db2. record_result d ?result (xm_log ms) db2)"
      using assms(2) \<open>pull_checks _ _ _ _ _ _ _ = Inr pb\<close> pb run Inr c by (simp add: pullAndApply_def Let_def)
    have "memories db' = memories db1"
      using federation_metadata.after_loop_frame [OF assms(1) refl, where cursor = ?cursor and db = db1 and peerId = peerId
          and scope = scope and m = "xm_cursor ms" and result = ?result and m' = "xm_log ms"]
      unfolding rest [symmetric] by simp
    moreover have "fx_accepted x = a \<and> fx_rejected x = r" if "res = Inr x" for x
      using rest that by (auto simp: then_st_Inr record_result_def dest!: sym [of "(Inr x, db')"])
    ultimately show ?thesis
      using \<open>pull_checks _ _ _ _ _ _ _ = Inr pb\<close> pb run Inr c by (intro applied) auto
  qed
qed

lemma exported_length: "length (exported_memories req db) \<le>
    (if nullish (fp_ids req) [] \<noteq> [] then length (nullish (fp_ids req) []) else nullish (fp_limit req) DEFAULT_EXCHANGE_LIMIT)"
proof -
  have "length (List.map_filter f xs) \<le> length xs" for f :: "string \<Rightarrow> memory option" and xs
    by (simp add: List.map_filter_def) 
  moreover have "length (findUpdatedSince db o' w s n) \<le> n" for o' w s n
    by (simp add: findUpdatedSince_def page_def)
  ultimately show ?thesis by (simp add: exported_memories_def Let_def)
qed

lemma route_export_length:
  assumes "valid_pull_body uuid b"
  shows "length (exported_memories (pull_request_of b scope) db) \<le> 100"
  using exported_length [of "pull_request_of b scope" db] assms
  by (cases "pb_ids b"; cases "pb_limit b")
     (auto simp: valid_pull_body_def pull_request_of_def DEFAULT_EXCHANGE_LIMIT_def split: if_splits)

text \<open>
  C21: a pull writes for the caller only. Whatever the body of the request names as source owner, source
  workspace and target workspace, whatever the bundle holds, and whether the exchange succeeds or stops at
  an error half way, the memories of every owner other than the caller's stay exactly as they were.
\<close>

theorem pull_stays_with_caller:
  assumes "createFederationPorts env hash (Some (servicePorts dup st agents)) = Inr (Some d)"
  shows "filter (\<lambda>r. m_owner r \<noteq> ms_owner scope) (memories (snd (pullRoute uuid d b scope ms db))) =
    filter (\<lambda>r. m_owner r \<noteq> ms_owner scope) (memories db)"
proof (cases "valid_pull_body uuid b")
  case True
  let ?run = "pullAndApply d (pb_peer b) (pull_request_of b scope) scope ms db"
  obtain res db' where run: "?run = (res, db')" by fastforce
  have owner: "ms_owner (toLocalScope (fb_target bu)) = ms_owner scope \<and> ports = servicePorts dup st agents"
    if "pull_checks d (pb_peer b) (pull_request_of b scope) scope m s t = Inr (ports, bu)" for m s t ports bu
    using pull_checks_bundle [OF that] configured_ports(2) [OF assms]
    by (simp add: pull_request_of_def toLocalScope_def)
  from configured_ports(4) [OF assms] run have "others (ms_owner scope) db' = others (ms_owner scope) db"
  proof (cases rule: pullAndApply_cases)
    case (failed ports bu e)
    with owner [OF failed(1)] apply_loop_others [of "toLocalScope (fb_target bu)" dup st agents "xm_record ms" 0 "(0, 0)"
        "fb_memories bu" db] show ?thesis by simp
  next
    case (applied ports bu a r db1)
    with owner [OF applied(1)] apply_loop_others [of "toLocalScope (fb_target bu)" dup st agents "xm_record ms" 0 "(0, 0)"
        "fb_memories bu" db] show ?thesis by (simp add: others_def)
  qed simp
  with True run show ?thesis by (simp add: pullRoute_def others_def)
qed (simp add: pullRoute_def)

text \<open>
  C22: an accepted pull is trusted, counted and bounded. The peer of the request is registered, the
  configured trust store vouches for it and for the node the memories come from, which is the local one;
  accepted and rejected records are at most 100 in all, and no more memories appear than were accepted.
\<close>

theorem accepted_pull_bounded:
  assumes "createFederationPorts env hash (Some (servicePorts dup st agents)) = Inr (Some d)"
    and "pullRoute uuid d b scope ms db = (Inr x, db')"
  shows "getPeer (configured_registry env) (pb_peer b) \<noteq> None \<and>
    tr_peer (xd_trust d) (pb_peer b) = Inr True \<and> tr_peer (xd_trust d) (pb_source_node b) = Inr True \<and>
    pb_source_node b = fe_node env \<and>
    fx_accepted x + fx_rejected x \<le> 100 \<and> length (memories db') \<le> length (memories db) + fx_accepted x"
proof -
  note ports = configured_ports [OF assms(1)]
  from assms(2) have valid: "valid_pull_body uuid b"
    and run: "pullAndApply d (pb_peer b) (pull_request_of b scope) scope ms db = (Inr x, db')"
    by (simp_all add: pullRoute_def split: if_splits)
  from ports(4) run show ?thesis
  proof (cases rule: pullAndApply_cases)
    case (applied p bu a r db1)
    note pulled = pull_checks_bundle [OF applied(1)]
    have counts: "a + r = length (fb_memories bu)" "length (memories db1) \<le> length (memories db) + a"
      using apply_loop_counts [of dup st agents "toLocalScope (fb_target bu)" "xm_record ms" 0 0 0 "fb_memories bu" db a r db1]
        applied(2) pulled ports(2) by simp_all
    moreover have "length (fb_memories bu) \<le> 100"
      using pulled route_export_length [OF valid, of scope db] by simp
    moreover have "pb_source_node b = fe_node env"
      using pulled ports(1) by (auto simp: pull_request_of_def configured_registry_def federation_local_node_def)
    ultimately show ?thesis
      using federation_trust.checked_pull [OF ports(3) applied(1) refl] ports(1) applied(3) applied(4) [OF refl]
      by (auto simp: pull_request_of_def)
  qed simp_all
qed

subsection \<open>Where the exchange refuses\<close>

lemma getPeer_id: "getPeer g i = Some p \<Longrightarrow> fn_id p = i"
  by (auto simp: getPeer_def find_Some_iff split: option.splits if_splits)

lemma local_untrusted: "registry_trusts (configured_registry env) (fe_node env) = Inr False"
  by (simp add: registry_trusts_def getPeer_def configured_registry_def federation_local_node_def js_true_def)

text \<open>
  The only transport answers pulls from the local node, and the local node is never marked trusted: with the
  registry trust store, the one production gets by default, every pull is refused and nothing is written.
\<close>

lemma registry_trust_refuses_pulls:
  assumes "createFederationPorts env hash service = Inr (Some d)"
    and "fe_trust env = ''registry'' \<or> (fe_trust env \<noteq> ''file'' \<and> fe_production env)"
  shows "\<exists>e. pullAndApply d peerId req scope ms db = (Inl e, db)"
proof (cases "pull_checks d peerId req scope (xm_bundle ms) db db")
  case (Inl e)
  then show ?thesis by (simp add: pullAndApply_def)
next
  case (Inr pb)
  obtain ports b where pb: "pb = (ports, b)" by fastforce
  have trust: "xd_trust d = RegistryFederationTrustStore (configured_registry env)"
    using assms by (auto simp: createFederationPorts_def createFederationTrustStore_def and_then_eq_Inr Let_def
        split: if_splits)
  from pull_checks_bundle [OF Inr [unfolded pb]] configured_ports(1) [OF assms(1)]
  have "fr_node (fp_source req) = fe_node env"
    by (auto simp: configured_registry_def federation_local_node_def)
  with registry_trust.checked_pull [OF Inr [unfolded pb] trust] local_untrusted [of env] show ?thesis
    by (simp add: RegistryFederationTrustStore_def)
qed

text \<open>A push is addressed to the peer, and the transport takes only what is addressed to the local node.\<close>

lemma remote_push_refused:
  assumes "createFederationPorts env hash service = Inr (Some d)" and "peerId \<noteq> fe_node env"
  shows "\<exists>e. pushToPeer d peerId ids scope ms db = (Inl e, db)"
proof (cases "push_bundle d peerId ids scope (xm_bundle ms) db db")
  case (Inl e)
  then show ?thesis by (simp add: pushToPeer_def)
next
  case (Inr b)
  have "fr_node (fb_target b) = peerId"
    using Inr by (auto simp: push_bundle_def requirePeer_def transportPull_def and_then_eq_Inr Let_def toRemoteScope_def
        dest: getPeer_id split: option.splits if_splits)
  with Inr assms(2) configured_ports(1) [OF assms(1)] show ?thesis
    by (simp add: pushToPeer_def transportPush_def configured_registry_def federation_local_node_def)
qed

subsection \<open>Concrete exchanges\<close>

definition sample_federation_env :: federation_env where
  "sample_federation_env =
     \<lparr>fe_enabled = True, fe_node = ''n'', fe_display = None, fe_region = None, fe_cloud = None, fe_base_url = None,
      fe_peers = None, fe_sql = False, fe_trust = [], fe_file = None, fe_production = False\<rparr>"

definition sample_federation_db :: federation_db where
  "sample_federation_db =
     \<lparr>memories = [sample_row], embeddings = [], intents = [], sync_audits = [], sync_conflicts = [], sync_cursors = [],
      fd_cursors = [], fd_peers = [], fd_log = []\<rparr>"

definition sample_exchange :: "unit exchange" where
  "sample_exchange =
     \<lparr>xd_registry = configured_registry sample_federation_env, xd_hash = (\<lambda>_. []), xd_trust = NoOpFederationTrustStore,
      xd_meta = NoOpFederationMetadataStore, xd_service = Some (servicePorts sqlite_dup None None)\<rparr>"

definition sample_pull :: "string list option \<Rightarrow> pull_body" where
  "sample_pull ids =
     \<lparr>pb_peer = ''n'', pb_source_node = ''n'', pb_source_owner = ''o'', pb_source_workspace = None,
      pb_target_workspace = None, pb_ids = ids, pb_cursor = None, pb_limit = None\<rparr>"

definition caller_scope :: "string \<Rightarrow> memory_scope" where
  "caller_scope o' = \<lparr>ms_owner = o', ms_workspace = None, ms_agent = None, ms_project = None, ms_org = None,
     ms_department = None, ms_tenant_project = None\<rparr>"

definition sample_exchange_mints :: "string \<Rightarrow> exchange_mints" where
  "sample_exchange_mints i =
     \<lparr>xm_bundle = mint_of i, xm_record = (\<lambda>_. mint_of i), xm_cursor = mint_of i, xm_log = mint_of i\<rparr>"

lemma sample_exchange_ports:
  "createFederationPorts sample_federation_env (\<lambda>_. []) (Some (servicePorts sqlite_dup None None)) = Inr (Some sample_exchange)"
  by (simp add: createFederationPorts_def sample_federation_env_def createFederationTrustStore_def Let_def sample_exchange_def)

text \<open>
  The source owner is a field of the request that nothing compares with the caller: a caller who names
  another owner of the node gets a copy of that owner's memories.
\<close>

lemma foreign_memory_pulled:
  "map (\<lambda>r. (m_owner r, m_title r, m_content r)) (memories (snd (pullRoute (\<lambda>_. True) sample_exchange
      (sample_pull None) (caller_scope ''p'') (sample_exchange_mints ''2'') sample_federation_db))) =
    [(''o'', ''T'', ''body''), (''p'', ''T'', ''body'')]"
  by code_simp

text \<open>
  A pull by identifiers reads the memories without their content, and a merge writes what it read: the
  content of the caller's own memory is lost.
\<close>

lemma pull_by_id_erases_content:
  "map (\<lambda>r. (m_title r, m_content r)) (memories (snd (pullRoute (\<lambda>_. True) sample_exchange
      (sample_pull (Some [''1''])) (caller_scope ''o'') (sample_exchange_mints ''2'') sample_federation_db))) = [(''T'', [])]"
  by code_simp

text \<open>An applied record does not keep its codename, so the same pull adds the same memory again.\<close>

lemma repeated_pull_duplicates:
  "map (\<lambda>r. (m_owner r, m_title r)) (memories (snd (pullRoute (\<lambda>_. True) sample_exchange
      (sample_pull None) (caller_scope ''p'') (sample_exchange_mints ''3'')
      (snd (pullRoute (\<lambda>_. True) sample_exchange (sample_pull None) (caller_scope ''p'') (sample_exchange_mints ''2'')
        (sample_federation_db\<lparr>memories := [sample_row\<lparr>m_codename := Some ''NOTE-0007''\<rparr>]\<rparr>)))))) =
    [(''o'', ''T''), (''p'', ''T''), (''p'', ''T'')]"
  by code_simp

text \<open>
  A codename is a number in a sequence of its owner, and the exchange takes an equal codename for the same
  memory: a pulled record overwrites an unrelated memory of the caller that happens to bear its number.
\<close>

lemma equal_codename_overwrites:
  "map (\<lambda>r. (m_owner r, m_title r, m_content r)) (memories (snd (pullRoute (\<lambda>_. True) sample_exchange
      (sample_pull None) (caller_scope ''p'') (sample_exchange_mints ''2'')
      (sample_federation_db\<lparr>memories := [sample_row, sample_row\<lparr>m_id := ''9'', m_owner := ''p'', m_title := ''Q'',
         m_content := ''mine''\<rparr>]\<rparr>)))) =
    [(''o'', ''T'', ''body''), (''p'', ''T'', ''body'')]"
  by code_simp

theorem pull_stays_with_caller_witness:
  "filter (\<lambda>r. m_owner r \<noteq> ''p'') (memories (snd (pullRoute (\<lambda>_. True) sample_exchange (sample_pull None)
      (caller_scope ''p'') (sample_exchange_mints ''2'') sample_federation_db))) = [sample_row]"
  using pull_stays_with_caller [OF sample_exchange_ports, of "caller_scope ''p''" "\<lambda>_. True" "sample_pull None"
      "sample_exchange_mints ''2''" sample_federation_db]
  by (simp add: caller_scope_def sample_federation_db_def)

theorem accepted_pull_bounded_witness:
  "\<exists>x db'. pullRoute (\<lambda>_. True) sample_exchange (sample_pull None) (caller_scope ''p'') (sample_exchange_mints ''2'')
      sample_federation_db = (Inr x, db') \<and>
    fx_accepted x + fx_rejected x \<le> 100 \<and> length (memories db') \<le> 1 + fx_accepted x"
proof -
  let ?run = "pullRoute (\<lambda>_. True) sample_exchange (sample_pull None) (caller_scope ''p'') (sample_exchange_mints ''2'')
      sample_federation_db"
  have "\<not> isl (fst ?run)" by code_simp
  from run_Inr [OF this] have run: "?run = (Inr (projr (fst ?run)), snd ?run)" .
  from accepted_pull_bounded [OF sample_exchange_ports run] run show ?thesis
    by (intro exI [of _ "projr (fst ?run)"] exI [of _ "snd ?run"]) (simp add: sample_federation_db_def)
qed

end
