(* ===== verification/Spec2Isabelle.thy ===== *)
theory Spec2Isabelle
  imports Rest_Boundary Client_Sync_Laws Inference_Laws Evolution_Laws Decay_Laws Entities_Laws Consolidation_Laws Learning_Laws
    Inspection_Laws Search_Graph_Laws Stewardship_Laws Governance_Laws Security_Laws Context_Laws Recall_Laws
    Federation_Laws
begin

text \<open>
  Ratary: a memory store for coding agents. The server keeps memories (short documents with
  knowledge metadata) for owners and their workspaces and serves them over REST and MCP. A request
  passes the REST hooks (identity, tenant, permission), reaches a service, and the service works on
  SQL tables through repositories. This development models that path and the services behind it.

  \<^bold>\<open>How the code is modelled.\<close> A table is a list of records in insertion order, a query is a filter,
  a sort and a cut, and an \<open>INSERT\<close> checks the uniqueness constraints of the schema against every row
  (\<open>Sql_Table\<close>). An operation takes the state and returns the state with a value of the sum
  \<open>app_error + 'a\<close>, so every \<^verbatim>\<open>throw\<close> and early return of the source is a branch. The clock and
  the random identifiers are passed in (\<open>mint\<close>). Hashing, HMAC, base64url, encryption,
  \<^verbatim>\<open>localeCompare\<close> and remote endpoints are parameters. Strings are lists of Latin-1 characters.

  \<^bold>\<open>Parts and theories\<close> (paths under \<^verbatim>\<open>src/src\<close>):
  \<^item> \<open>Ratary_Prelude\<close>, \<open>App_Errors\<close>, \<open>Sql_Table\<close>: string operations of the language, the error classes
    of \<^verbatim>\<open>types/errors.ts\<close> with sequencing on results, tables with the locale \<open>keyed_table\<close>.
  \<^item> \<open>Naming\<close>: slugs and codenames (\<^verbatim>\<open>knowledge/slug.generator.ts\<close>, \<^verbatim>\<open>codename.generator.ts\<close>).
  \<^item> \<open>Tenant_Scope\<close>, \<open>Tenant_Context\<close>: organizations and workspaces (\<^verbatim>\<open>scope\<close>), tenant headers and
    scope resolution (\<^verbatim>\<open>auth/tenant-context.ts\<close>, \<^verbatim>\<open>scope/default-scope-resolver.ts\<close>).
  \<^item> \<open>Permissions\<close>, \<open>Identities\<close>, \<open>Identity_Service\<close>, \<open>Accounts\<close>, \<open>Rest_Boundary\<close>: permission decisions
    and audit, API keys, tokens and providers, identity and account services with the login guard,
    and the three request hooks of \<^verbatim>\<open>transport/rest/rest-server.ts\<close> (\<^verbatim>\<open>auth\<close>).
  \<^item> \<open>Memory_Store\<close>, \<open>Memory_Laws\<close>, \<open>Memory_Reader\<close>: the memory table, its writer and all its queries
    (\<^verbatim>\<open>repositories\<close>), with uniqueness of keys, isolation of owners, scope and paging of queries.
  \<^item> \<open>Knowledge\<close>: keywords, summaries, metadata validation, unique slugs (\<^verbatim>\<open>knowledge\<close>).
  \<^item> \<open>Write_Intents\<close>: the embedding table (\<^verbatim>\<open>embedding/d1-embedding.store.ts\<close>), the idempotency ledger
    (\<^verbatim>\<open>infrastructure/write-intents\<close>) and its cleanup task.
  \<^item> \<open>Search_Filters\<close>: the conditions of a search (\<^verbatim>\<open>repositories/sql-substring-match.ts\<close>,
    \<^verbatim>\<open>search/precision\<close>).
  \<^item> \<open>Sync\<close>, \<open>Memory_Service\<close>, \<open>Service_Laws\<close>: stale writes and conflict strategies (\<^verbatim>\<open>sync\<close>,
    \<^verbatim>\<open>client-sync\<close>), the memory service (\<^verbatim>\<open>services/memory.service.ts\<close>) and its laws.
  \<^item> \<open>Client_Sync\<close>, \<open>Client_Sync_Laws\<close>: pull, push and merge (\<^verbatim>\<open>client-sync/client-sync.service.ts\<close>).

  \<^item> \<open>Relations\<close>: relations between memories, provenance metadata and the relation service
    (\<^verbatim>\<open>repositories/memory-relation.repository.ts\<close>, \<^verbatim>\<open>types/provenance.ts\<close>,
    \<^verbatim>\<open>services/memory-relation.service.ts\<close>).
  \<^item> \<open>Graph_Walk\<close>, \<open>Graph\<close>, \<open>Graph_Laws\<close>: the breadth-first search that traversal and chain walks share, the
    graph service and the graph leg of the retrieval (\<^verbatim>\<open>graph\<close>, \<^verbatim>\<open>knowledge/provenance\<close>).
  \<^item> \<open>Inference\<close>, \<open>Relation_Laws\<close>, \<open>Inference_Laws\<close>: the inference of relations (\<^verbatim>\<open>inference\<close>), what it
    may change, and the invariant of the relation table under all its writers.
  \<^item> \<open>Evolution\<close>, \<open>Evolution_Laws\<close>: the version history (\<^verbatim>\<open>evolution\<close>, \<^verbatim>\<open>infrastructure/evolution\<close>).
  \<^item> \<open>Maintenance\<close>, \<open>Decay\<close>, \<open>Decay_Laws\<close>, \<open>Entities\<close>, \<open>Entities_Laws\<close>, \<open>Consolidation\<close>, \<open>Consolidation_Laws\<close>: the contract of a
    stewardship task and three of the tasks: decay and lifecycle (\<^verbatim>\<open>memory/decay\<close>),
    canonical entities (\<^verbatim>\<open>knowledge/entities\<close>, \<^verbatim>\<open>infrastructure/entities\<close>) and the consolidation of
    duplicates (\<^verbatim>\<open>memory/consolidator.ts\<close>, \<^verbatim>\<open>memory/compression\<close>).

  \<^item> \<open>Signals\<close>, \<open>Learning\<close>, \<open>Learning_Laws\<close>: the quality signals of clients (\<^verbatim>\<open>ingest\<close>,
    \<^verbatim>\<open>infrastructure/signals\<close>), the learning of ranking weights from them (\<^verbatim>\<open>learning\<close>,
    \<^verbatim>\<open>infrastructure/learning\<close>); a signal counts once, and the queue of events drains.
  \<^item> \<open>Inspection\<close>, \<open>Inspection_Laws\<close>: the ledger of inspection patterns (\<^verbatim>\<open>learning/inspection\<close>).
  \<^item> \<open>Search_Graph\<close>, \<open>Search_Graph_Laws\<close>: the synchronisation of the search and graph indexes
    (\<^verbatim>\<open>search-graph-platform\<close>, \<^verbatim>\<open>backfill\<close>), its batches, runs and watermarks.
  \<^item> \<open>Stewardship\<close>, \<open>Stewardship_Laws\<close>: the other tasks, the orchestrator of the pipeline and its composition
    (\<^verbatim>\<open>memory/stewardship\<close>, \<^verbatim>\<open>composition/create-memory-stewardship-ports.ts\<close>).
  \<^item> \<open>Governance\<close>, \<open>Governance_Laws\<close>: the stores of stewardship runs, exceptions and policy denials
    (\<^verbatim>\<open>memory/governance\<close>, \<^verbatim>\<open>infrastructure/governance\<close>); the stores in memory and on SQL refine one
    abstract history.
  \<^item> \<open>Security\<close>, \<open>Security_Laws\<close>: the hooks for membership, policy and quota that follow those of
    \<open>Rest_Boundary\<close> when they are switched on (\<^verbatim>\<open>security\<close>, \<^verbatim>\<open>infrastructure/security\<close>,
    \<^verbatim>\<open>infrastructure/enterprise\<close>), and what a request has proved that passes all hooks.

  \<^item> \<open>Ranking\<close>, \<open>Retrieval\<close>, \<open>Retrieval_Laws\<close>: scores, the search service and the ranker (\<^verbatim>\<open>search\<close>,
    \<^verbatim>\<open>memory/ranker.ts\<close>), the sources of candidates and their fusion by reciprocal ranks
    (\<^verbatim>\<open>memory/*-retrieval-candidate-source.ts\<close>); a fused list respects what all sources prefer.
  \<^item> \<open>Context_Package\<close>, \<open>Context_Service\<close>, \<open>Context_Laws\<close>: policies, budgets, texts, the memo of rankings
    and the lifecycle of context packages (\<^verbatim>\<open>memory/context.service.ts\<close>, \<^verbatim>\<open>memory/retrieval-policy\<close>,
    \<^verbatim>\<open>infrastructure/context\<close>); no run of the service shows a memory outside the scope of a request.
  \<^item> \<open>Recall\<close>, \<open>Recall_Laws\<close>: recall with its providers, policy and token budget (\<^verbatim>\<open>memory/recall\<close>).
  \<^item> \<open>Federation\<close>, \<open>Federation_Laws\<close>: the exchange of memories between nodes, from the routes to the
    stores (\<^verbatim>\<open>federation\<close>, \<^verbatim>\<open>infrastructure/federation\<close>); a pull writes for its caller only.

  \<^bold>\<open>Interfaces.\<close> \<open>keyed_table\<close> (uniqueness of a table's key, kept by insert, update and delete) is
  interpreted on every table. \<open>sync_reconciler\<close> is what the memory service needs of a sync manager;
  every \<open>conflict_resolver\<close> gives one, and the resolvers of the code are interpretations.
  \<open>write_service\<close> states what the laws of the service need of its ports; it is interpreted on the ports
  that the composition root builds. \<open>graph_walk\<close> says that a search returns shortest paths; the
  traversal and the chain walks interpret it with their own hops. \<open>recording_service\<close> extends
  \<open>write_service\<close> with an invariant of what the hooks record; the version history interprets it.
  \<open>dry_task\<close> is the promise of a maintenance task, that a dry run changes nothing, and every task of the
  model interprets it. \<open>resolving_registry\<close> is what the resolver of symbols needs of an entity registry;
  the SQL registry interprets it. \<open>bounded_pipeline\<close> carries what all tasks of a pipeline respect over to
  its runs; the pipeline of the server interprets it with the relation that only the log of index runs changes.
  \<open>history_store\<close> says that a store implements a history, newest first; the stores of runs and of denials
  interpret it, in memory and on SQL. \<open>package_store\<close> is what the context service needs of a store of package
  lifecycles, with the same two interpretations; \<open>recall_provider\<close> says that a provider of candidates keeps to
  the organization, which the SQL and the knowledge provider do. \<open>federation_trust\<close> and \<open>federation_metadata\<close> are what an exchange
  needs of its trust store and of its metadata store, and all of those the server can choose interpret them.

  \<^bold>\<open>Loops.\<close> Loops over lists are structural. The slug loop ends because a table has finitely many
  slugs; the retry loop of an insertion is bounded by the constant of the code. A client that pulls
  is given one mint per round, and \<open>pull_drains\<close> says how many rounds are enough. The search of
  \<open>Graph_Walk\<close> is a \<open>function\<close> whose measure adds the queue and the remaining budget. The slug loop of
  the ledger ends as that of the service does; the loop over batches of an index ends since its offset
  grows by the rows of the batch.

  \<^bold>\<open>Not modelled\<close>, and why: the MCP and REST wiring, controllers and configuration (glue and input
  schemas of a framework); migrations and the SQL dialects (the tables are taken as given); domain
  events (sent without waiting for them, no effect on the result); rounding of floating-point numbers (scores
  are rationals or reals); the foreign keys
  of the relation table; embedding and language-model providers
  (remote services); the order in which SQL returns rows with equal sort keys (the model takes that of
  the table); the text of validation issues (one value \<open>zod_error\<close>).
\<close>

end
